(* ===== verification/Prelude.thy ===== *)
theory Prelude
  imports Complex_Main
begin

text \<open>
  Shared vocabulary of the development: the collections of facts the component theories
  add to, Python dictionaries as association lists in insertion order, the loops
  \<open>pop the head while\<close> and their lemmas, and the result type of operations that raise.
\<close>

named_theorems dict_simps "lookup and update of insertion-ordered dictionaries"
named_theorems run_simps "equations that evaluate the operations of the model"

section \<open>Results of operations that may raise\<close>

text \<open>
  A Python function that raises returns \<open>Inl\<close> of the exception, one that returns gives
  \<open>Inr\<close>. \<open>ok_bind\<close> is the sequencing of two such computations.
\<close>

type_synonym ('e, 'a) result = "'e + 'a"

definition ok_bind :: "('e, 'a) result \<Rightarrow> ('a \<Rightarrow> ('e, 'b) result) \<Rightarrow> ('e, 'b) result" where
  "ok_bind r f = (case r of Inl e \<Rightarrow> Inl e | Inr x \<Rightarrow> f x)"

lemma ok_bind_simps [simp, run_simps]:
  "ok_bind (Inl e) f = Inl e"
  "ok_bind (Inr x) f = f x"
  by (simp_all add: ok_bind_def)

lemma ok_bind_eq_Inr: "ok_bind r f = Inr y \<longleftrightarrow> (\<exists>x. r = Inr x \<and> f x = Inr y)"
  by (cases r) simp_all

lemma ok_bind_eq_Inl: "ok_bind r f = Inl e \<longleftrightarrow> r = Inl e \<or> (\<exists>x. r = Inr x \<and> f x = Inl e)"
  by (cases r) auto

section \<open>Dictionaries in insertion order\<close>

text \<open>
  A Python \<open>dict\<close> keeps its keys in the order of their first insertion, and an assignment
  to a key that is present changes its value in place. Iteration over \<open>d.items()\<close> is the
  association list itself.
\<close>

type_synonym ('k, 'v) dict = "('k \<times> 'v) list"

abbreviation dget :: "('k, 'v) dict \<Rightarrow> 'k \<Rightarrow> 'v option" where
  "dget d k \<equiv> map_of d k"

fun dset :: "'k \<Rightarrow> 'v \<Rightarrow> ('k, 'v) dict \<Rightarrow> ('k, 'v) dict" where
  "dset k v [] = [(k, v)]"
| "dset k v ((k', v') # d) = (if k = k' then (k, v) # d else (k', v') # dset k v d)"

definition dupdate :: "('k, 'v) dict \<Rightarrow> ('k, 'v) dict \<Rightarrow> ('k, 'v) dict" where
  "dupdate d e = fold (\<lambda>(k, v). dset k v) e d"

definition dgetd :: "('k, 'v) dict \<Rightarrow> 'k \<Rightarrow> 'v \<Rightarrow> 'v" where
  "dgetd d k x = (case dget d k of None \<Rightarrow> x | Some v \<Rightarrow> v)"

abbreviation dkeys :: "('k, 'v) dict \<Rightarrow> 'k list" where
  "dkeys d \<equiv> map fst d"

definition wf_dict :: "('k, 'v) dict \<Rightarrow> bool" where
  "wf_dict d \<longleftrightarrow> distinct (dkeys d)"

lemma dget_dset [simp, dict_simps]: "dget (dset k v d) k' = (if k' = k then Some v else dget d k')"
  by (induction d) auto

lemma dgetd_dset [dict_simps]: "dgetd (dset k v d) k' x = (if k' = k then v else dgetd d k' x)"
  by (simp add: dgetd_def)

lemma dkeys_dset: "set (dkeys (dset k v d)) = insert k (set (dkeys d))"
proof (induction d)
  case Nil
  then show ?case by simp
next
  case (Cons p d)
  then show ?case by (cases p) (simp add: insert_commute)
qed

lemma set_dset_sub: "set (dset k v d) \<subseteq> insert (k, v) (set d)"
  by (induction d) (auto split: if_splits)

lemma dkeys_dset_present: "k \<in> set (dkeys d) \<Longrightarrow> dkeys (dset k v d) = dkeys d"
proof (induction d)
  case Nil
  then show ?case by simp
next
  case (Cons p d)
  then show ?case by (cases p) auto
qed

lemma dkeys_dset_absent: "k \<notin> set (dkeys d) \<Longrightarrow> dset k v d = d @ [(k, v)]"
proof (induction d)
  case Nil
  then show ?case by simp
next
  case (Cons p d)
  then show ?case by (cases p) simp
qed

lemma distinct_dset [simp]: "distinct (dkeys d) \<Longrightarrow> distinct (dkeys (dset k v d))"
  by (cases "k \<in> set (dkeys d)") (simp_all add: dkeys_dset_present dkeys_dset_absent)

lemma wf_dset [simp]: "wf_dict d \<Longrightarrow> wf_dict (dset k v d)"
  by (simp add: wf_dict_def)

lemma dget_None_iff: "dget d k = None \<longleftrightarrow> k \<notin> set (dkeys d)"
  by (simp add: map_of_eq_None_iff)

lemma dget_Some_in: "dget d k = Some v \<Longrightarrow> (k, v) \<in> set d"
  by (rule map_of_SomeD)

lemma dget_eq_Some_iff: "wf_dict d \<Longrightarrow> dget d k = Some v \<longleftrightarrow> (k, v) \<in> set d"
  by (simp add: wf_dict_def map_of_eq_Some_iff)

lemma dupdate_Nil [simp, dict_simps]: "dupdate d [] = d"
  by (simp add: dupdate_def)

lemma dupdate_Cons [simp, dict_simps]: "dupdate d ((k, v) # e) = dupdate (dset k v d) e"
  by (simp add: dupdate_def)

lemma dupdate_append: "dupdate d (e @ e') = dupdate (dupdate d e) e'"
  by (simp add: dupdate_def)

lemma wf_dupdate [simp]: "wf_dict d \<Longrightarrow> wf_dict (dupdate d e)"
  by (induction e arbitrary: d) auto

lemma dkeys_dupdate: "set (dkeys (dupdate d e)) = set (dkeys d) \<union> set (dkeys e)"
proof (induction e arbitrary: d)
  case Nil
  then show ?case by simp
next
  case (Cons p e)
  then show ?case by (cases p) (simp del: set_map add: dkeys_dset)
qed

lemma dget_dupdate_absent [simp]: "k \<notin> set (dkeys e) \<Longrightarrow> dget (dupdate d e) k = dget d k"
  by (induction e arbitrary: d) auto

lemma dget_dupdate:
  "wf_dict e \<Longrightarrow> dget (dupdate d e) k = (case dget e k of None \<Rightarrow> dget d k | Some v \<Rightarrow> Some v)"
proof (induction e arbitrary: d)
  case Nil
  then show ?case by simp
next
  case (Cons p e)
  obtain a b where p: "p = (a, b)" by (cases p)
  with Cons.prems have w: "wf_dict e" and a: "dget e a = None"
    by (simp_all add: wf_dict_def map_of_eq_None_iff)
  show ?case
    using Cons.IH [OF w, of "dset a b d"] a by (cases "k = a") (simp_all add: p split: option.split)
qed

section \<open>Lists\<close>

text \<open>Indexing as Python does it from the front: nothing where it would raise.\<close>

fun nth_opt :: "'a list \<Rightarrow> nat \<Rightarrow> 'a option" where
  "nth_opt [] n = None"
| "nth_opt (x # xs) 0 = Some x"
| "nth_opt (x # xs) (Suc n) = nth_opt xs n"

lemma nth_opt_eq: "nth_opt xs n = (if n < length xs then Some (xs ! n) else None)"
  by (induction xs n rule: nth_opt.induct) auto

definition is_suffix :: "'a list \<Rightarrow> 'a list \<Rightarrow> bool" where
  "is_suffix ys xs \<longleftrightarrow> (\<exists>zs. xs = zs @ ys)"

lemma is_suffix_refl [simp, intro]: "is_suffix xs xs"
  by (auto simp: is_suffix_def)

lemma is_suffix_Nil [simp, intro]: "is_suffix [] xs"
  by (auto simp: is_suffix_def)

lemma is_suffix_Cons [intro]: "is_suffix ys xs \<Longrightarrow> is_suffix ys (x # xs)"
  unfolding is_suffix_def by (metis append_Cons)

lemma is_suffix_trans: "is_suffix zs ys \<Longrightarrow> is_suffix ys xs \<Longrightarrow> is_suffix zs xs"
  unfolding is_suffix_def by (metis append_assoc)

lemma is_suffix_dropWhile [simp, intro]: "is_suffix (dropWhile P xs) xs"
  by (metis is_suffix_def takeWhile_dropWhile_id)

lemma is_suffix_set: "is_suffix ys xs \<Longrightarrow> set ys \<subseteq> set xs"
  by (auto simp: is_suffix_def)

lemma is_suffix_length: "is_suffix ys xs \<Longrightarrow> length ys \<le> length xs"
  by (auto simp: is_suffix_def)

lemma hd_dropWhile_not: "dropWhile P xs \<noteq> [] \<Longrightarrow> \<not> P (hd (dropWhile P xs))"
  by (rule hd_dropWhile)

text \<open>
  \<open>sort(key = ..., reverse = True)\<close> and \<open>ORDER BY ... DESC\<close>: descending in the order \<open>lt\<close>, equal
  elements in their old order.
\<close>

fun insert_desc :: "('a \<Rightarrow> 'a \<Rightarrow> bool) \<Rightarrow> 'a \<Rightarrow> 'a list \<Rightarrow> 'a list" where
  "insert_desc lt x [] = [x]"
| "insert_desc lt x (y # ys) = (if lt x y then y # insert_desc lt x ys else x # y # ys)"

definition sort_desc :: "('a \<Rightarrow> 'a \<Rightarrow> bool) \<Rightarrow> 'a list \<Rightarrow> 'a list" where
  "sort_desc lt xs = foldr (insert_desc lt) xs []"

text \<open>A list of results, \<open>None\<close> when one of them is missing.\<close>

fun all_some :: "'a option list \<Rightarrow> 'a list option" where
  "all_some [] = Some []"
| "all_some (x # xs) = Option.bind x (\<lambda>y. map_option ((#) y) (all_some xs))"

lemma all_some_iff: "all_some xs = Some ys \<longleftrightarrow> xs = map Some ys"
proof (induction xs arbitrary: ys)
  case Nil
  then show ?case by auto
next
  case (Cons x xs)
  then show ?case by (cases x; cases ys) (auto simp: bind_eq_Some_conv)
qed

lemma set_insert_desc [simp]: "set (insert_desc lt x ys) = insert x (set ys)"
  by (induction ys) auto

lemma set_sort_desc [simp]: "set (sort_desc lt xs) = set xs"
  by (induction xs) (simp_all add: sort_desc_def)

lemma distinct_insert_desc: "distinct (map f (insert_desc lt x ys)) = distinct (map f (x # ys))"
  by (induction ys) auto

lemma distinct_sort_desc [simp]: "distinct (map f (sort_desc lt xs)) = distinct (map f xs)"
proof (induction xs)
  case Nil
  then show ?case by (simp add: sort_desc_def)
next
  case (Cons x xs)
  have s: "sort_desc lt (x # xs) = insert_desc lt x (sort_desc lt xs)" by (simp add: sort_desc_def)
  have "f ` set (sort_desc lt xs) = f ` set xs" by simp
  with Cons show ?case by (simp add: s distinct_insert_desc)
qed

text \<open>
  The result is descending in any transitive order \<open>ge\<close> that \<open>lt\<close> decides on the elements.
\<close>

lemma sorted_insert_desc:
  assumes "\<And>a b. P a \<Longrightarrow> P b \<Longrightarrow> lt a b \<Longrightarrow> ge b a" "\<And>a b. P a \<Longrightarrow> P b \<Longrightarrow> \<not> lt a b \<Longrightarrow> ge a b"
    and trans: "\<And>a b c. ge a b \<Longrightarrow> ge b c \<Longrightarrow> ge a c"
  shows "P x \<Longrightarrow> \<forall>y \<in> set ys. P y \<Longrightarrow> sorted_wrt ge ys \<Longrightarrow> sorted_wrt ge (insert_desc lt x ys)"
proof (induction ys)
  case Nil
  then show ?case by simp
next
  case (Cons y ys)
  show ?case
  proof (cases "lt x y")
    case True
    with Cons assms(1) [of x y] show ?thesis by simp
  next
    case False
    with Cons.prems assms(2) have "ge x y" by simp
    with Cons.prems False trans show ?thesis by auto
  qed
qed

lemma sorted_sort_desc:
  assumes "\<And>a b. P a \<Longrightarrow> P b \<Longrightarrow> lt a b \<Longrightarrow> ge b a" "\<And>a b. P a \<Longrightarrow> P b \<Longrightarrow> \<not> lt a b \<Longrightarrow> ge a b"
    and "\<And>a b c. ge a b \<Longrightarrow> ge b c \<Longrightarrow> ge a c"
  shows "\<forall>y \<in> set ys. P y \<Longrightarrow> sorted_wrt ge (sort_desc lt ys)"
proof (induction ys)
  case Nil
  then show ?case by (simp add: sort_desc_def)
next
  case (Cons y ys)
  have s: "sort_desc lt (y # ys) = insert_desc lt y (sort_desc lt ys)" by (simp add: sort_desc_def)
  show ?case unfolding s
    by (rule sorted_insert_desc [of P]) (use Cons assms in auto)
qed

end
