(* ===== verification/Float64.thy ===== *)
theory Float64
  imports Prelude
begin

text \<open>
  Python's \<open>float\<close>: IEEE 754 binary64. A finite value is the rational number it denotes,
  the result of an arithmetic operation is the exact result rounded to nearest with ties to
  even (\<open>rnd64\<close>), with overflow to an infinity. Signed zeros are identified: the modelled
  code never tells them apart.
\<close>

section \<open>Rounding to an integer, ties to even\<close>

definition rhe :: "rat \<Rightarrow> int" where
  "rhe x = (let f = \<lfloor>x\<rfloor>; d = x - of_int f in
     if d < 1 / 2 then f
     else if d > 1 / 2 then f + 1
     else if even f then f else f + 1)"

lemma rhe_of_int [simp]: "rhe (of_int n) = n"
  by (simp add: rhe_def)

lemma rhe_floor_bounds: "\<lfloor>x\<rfloor> \<le> rhe x" "rhe x \<le> \<lfloor>x\<rfloor> + 1"
  by (simp_all add: rhe_def Let_def)

lemma rhe_mono: "x \<le> y \<Longrightarrow> rhe x \<le> rhe y"
proof -
  assume le: "x \<le> y"
  then have fl: "\<lfloor>x\<rfloor> \<le> \<lfloor>y\<rfloor>" by (rule floor_mono)
  show ?thesis
  proof (cases "\<lfloor>x\<rfloor> = \<lfloor>y\<rfloor>")
    case True
    with le show ?thesis by (auto simp: rhe_def Let_def)
  next
    case False
    with fl have "\<lfloor>x\<rfloor> + 1 \<le> \<lfloor>y\<rfloor>" by simp
    with rhe_floor_bounds [of x] rhe_floor_bounds [of y] show ?thesis by linarith
  qed
qed

lemma rhe_nonneg: "0 \<le> x \<Longrightarrow> 0 \<le> rhe x"
  using rhe_mono [of 0 x] by (metis of_int_0 rhe_of_int)

section \<open>The binade of a positive rational\<close>

text \<open>\<open>blen n\<close> is the floor of the base-2 logarithm of an integer \<open>n \<ge> 1\<close>.\<close>

function blen :: "int \<Rightarrow> int" where
  "blen n = (if n \<le> 1 then 0 else 1 + blen (n div 2))"
  by pat_completeness auto
termination
  by (relation "measure nat") auto

declare blen.simps [simp del]

definition pow2 :: "int \<Rightarrow> rat" where
  "pow2 k = (if 0 \<le> k then 2 ^ nat k else 1 / 2 ^ nat (- k))"

lemma pow2_pos [simp]: "0 < pow2 k"
  by (simp add: pow2_def)

lemma pow2_nonzero [simp]: "pow2 k \<noteq> 0"
  using pow2_pos [of k] by linarith

lemma pow2_powi: "pow2 k = 2 powi k"
  by (simp add: pow2_def power_int_def inverse_eq_divide power_one_over)

lemma pow2_add: "pow2 (j + k) = pow2 j * pow2 k"
  by (simp add: pow2_powi power_int_add)

lemma pow2_diff: "pow2 (j - k) = pow2 j / pow2 k"
  by (simp add: pow2_powi power_int_diff)

lemma pow2_minus: "pow2 (- k) = 1 / pow2 k"
  using pow2_diff [of 0 k] by (simp add: pow2_def [of 0])

lemma pow2_mono: "j \<le> k \<Longrightarrow> pow2 j \<le> pow2 k"
  by (simp add: pow2_powi power_int_increasing)

lemma pow2_less_cancel: "pow2 j < pow2 k \<Longrightarrow> j < k"
  using pow2_mono [of k j] by (meson leD leI)

lemma pow2_of_int: "0 \<le> k \<Longrightarrow> pow2 k = of_int (2 ^ nat k)"
  by (simp add: pow2_def)

lemma blen_bounds: "1 \<le> n \<Longrightarrow> 0 \<le> blen n \<and> 2 ^ nat (blen n) \<le> n \<and> n < 2 ^ nat (blen n + 1)"
proof (induction n rule: blen.induct)
  case (1 n)
  show ?case
  proof (cases "n \<le> 1")
    case True
    with "1.prems" show ?thesis by (simp add: blen.simps)
  next
    case False
    then have "1 \<le> n div 2" by simp
    with "1.IH" False have IH: "0 \<le> blen (n div 2)" "2 ^ nat (blen (n div 2)) \<le> n div 2"
      "n div 2 < 2 ^ nat (blen (n div 2) + 1)" by auto
    from False have b: "blen n = 1 + blen (n div 2)" by (simp add: blen.simps)
    have p: "(2::int) ^ nat (blen n) = 2 * 2 ^ nat (blen (n div 2))"
      "(2::int) ^ nat (blen n + 1) = 2 * 2 ^ nat (blen (n div 2) + 1)"
      using IH(1) by (simp_all add: b nat_add_distrib)
    with IH b show ?thesis by linarith
  qed
qed

text \<open>
  The exponent \<open>k\<close> with \<open>pow2 k \<le> x < pow2 (k + 1)\<close>: computed on the floor of \<open>x\<close>
  when \<open>x \<ge> 1\<close> and on the ceiling of the reciprocal otherwise.
\<close>

definition binade :: "rat \<Rightarrow> int" where
  "binade x = (if 1 \<le> x then blen \<lfloor>x\<rfloor>
     else let c = \<lceil>1 / x\<rceil> in - (if c \<le> 1 then 0 else blen (c - 1) + 1))"

lemma binade_bounds:
  assumes "0 < x"
  shows "pow2 (binade x) \<le> x" "x < pow2 (binade x + 1)"
proof -
  have "pow2 (binade x) \<le> x \<and> x < pow2 (binade x + 1)"
  proof (cases "1 \<le> x")
    case True
    then have "1 \<le> \<lfloor>x\<rfloor>" by simp
    note b = blen_bounds [OF this]
    have "pow2 (blen \<lfloor>x\<rfloor>) = of_int (2 ^ nat (blen \<lfloor>x\<rfloor>))"
      and "pow2 (blen \<lfloor>x\<rfloor> + 1) = of_int (2 ^ nat (blen \<lfloor>x\<rfloor> + 1))"
      by (rule pow2_of_int, use b in simp)+
    moreover have "of_int (2 ^ nat (blen \<lfloor>x\<rfloor>)) \<le> x" using b by (simp only: le_floor_iff)
    moreover have "x < of_int (2 ^ nat (blen \<lfloor>x\<rfloor> + 1))" using b by (simp only: floor_less_iff)
    ultimately show ?thesis using True by (simp add: binade_def)
  next
    case False
    define c where "c = \<lceil>1 / x\<rceil>"
    from False assms have "1 < 1 / x" by simp
    then have c: "2 \<le> c" unfolding c_def by linarith
    note b = blen_bounds [of "c - 1"]
    let ?j = "blen (c - 1) + 1"
    from c b have j: "0 \<le> ?j" "2 ^ nat (?j - 1) \<le> c - 1" "c - 1 < 2 ^ nat ?j" by auto
    have bin: "binade x = - ?j" using False c by (simp add: binade_def c_def Let_def)
    have "1 / x \<le> of_int c" by (simp add: c_def)
    also have "\<dots> \<le> of_int (2 ^ nat ?j)" using j(3) by (simp only: of_int_le_iff)
    also have "\<dots> = pow2 ?j" using j(1) by (simp only: pow2_of_int)
    finally have lo: "1 / x \<le> pow2 ?j" .
    have "pow2 (?j - 1) = of_int (2 ^ nat (?j - 1))" by (rule pow2_of_int) (use b c in simp)
    also have "\<dots> \<le> of_int (c - 1)" using j(2) by (simp only: of_int_le_iff)
    also have "\<dots> < 1 / x" unfolding c_def by linarith
    finally have hi: "pow2 (?j - 1) < 1 / x" .
    have "- ?j + 1 = - (?j - 1)" by simp
    then have m: "pow2 (- ?j) = 1 / pow2 ?j" "pow2 (- ?j + 1) = 1 / pow2 (?j - 1)"
      by (simp_all only: pow2_minus)
    have "1 / pow2 ?j \<le> x" using lo assms by (simp add: divide_le_eq mult.commute)
    moreover have "x < 1 / pow2 (?j - 1)" using hi assms by (simp add: less_divide_eq mult.commute)
    ultimately show ?thesis unfolding bin m by simp
  qed
  then show "pow2 (binade x) \<le> x" "x < pow2 (binade x + 1)" by auto
qed

lemma binade_mono: "0 < x \<Longrightarrow> x \<le> y \<Longrightarrow> binade x \<le> binade y"
proof -
  assume a: "0 < x" "x \<le> y"
  then have "pow2 (binade x) < pow2 (binade y + 1)"
    using binade_bounds [of x] binade_bounds [of y] by linarith
  then show ?thesis using pow2_less_cancel by fastforce
qed

section \<open>Rounding to binary64\<close>

text \<open>
  \<open>ulp_exp x\<close> is the exponent of the last of the 53 significant bits of a number in the
  binade of \<open>x\<close>, never below that of the smallest subnormal.
\<close>

definition ulp_exp :: "rat \<Rightarrow> int" where
  "ulp_exp x = max (binade x - 52) (- 1074)"

definition rnd_pos :: "rat \<Rightarrow> rat" where
  "rnd_pos x = of_int (rhe (x / pow2 (ulp_exp x))) * pow2 (ulp_exp x)"

definition rnd64 :: "rat \<Rightarrow> rat" where
  "rnd64 x = (if x = 0 then 0 else if 0 < x then rnd_pos x else - rnd_pos (- x))"

lemma rnd_pos_nonneg: "0 < x \<Longrightarrow> 0 \<le> rnd_pos x"
  unfolding rnd_pos_def
  by (intro mult_nonneg_nonneg) (simp_all add: rhe_nonneg less_imp_le)

lemma rnd_pos_mono:
  assumes "0 < x" "x \<le> y"
  shows "rnd_pos x \<le> rnd_pos y"
proof (cases "ulp_exp x = ulp_exp y")
  case True
  let ?u = "pow2 (ulp_exp y)"
  have "x / ?u \<le> y / ?u" using assms by (simp add: divide_right_mono less_imp_le)
  then have "rhe (x / ?u) \<le> rhe (y / ?u)" by (rule rhe_mono)
  with True show ?thesis by (simp add: rnd_pos_def mult_right_mono less_imp_le)
next
  case False
  have bm: "binade x \<le> binade y" using assms by (rule binade_mono)
  with False have ey: "ulp_exp y = binade y - 52" and exy: "ulp_exp x < ulp_exp y"
    by (auto simp: ulp_exp_def max_def split: if_splits)
  have kx: "binade x < binade y" using False bm by (auto simp: ulp_exp_def)
  let ?p = "pow2 (binade y)"
  have frac: "?p / pow2 e = of_int (2 ^ nat (binade y - e))" if "e \<le> binade y" for e
    using that by (simp add: pow2_diff [symmetric] pow2_of_int)
  have "x < ?p"
    using binade_bounds(2) [OF assms(1)] pow2_mono [of "binade x + 1" "binade y"] kx by simp
  then have "x / pow2 (ulp_exp x) \<le> ?p / pow2 (ulp_exp x)"
    by (simp add: divide_right_mono less_imp_le)
  also have "\<dots> = of_int (2 ^ nat (binade y - ulp_exp x))" by (rule frac) (use ey exy in simp)
  finally have "rhe (x / pow2 (ulp_exp x)) \<le> 2 ^ nat (binade y - ulp_exp x)"
    using rhe_mono rhe_of_int by metis
  then have "of_int (rhe (x / pow2 (ulp_exp x))) \<le> (of_int (2 ^ nat (binade y - ulp_exp x)) :: rat)"
    by (simp only: of_int_le_iff)
  also have "\<dots> = ?p / pow2 (ulp_exp x)" by (rule frac [symmetric]) (use ey exy in simp)
  finally have up: "rnd_pos x \<le> ?p" by (simp add: rnd_pos_def le_divide_eq)
  have "of_int (2 ^ nat (binade y - ulp_exp y)) = ?p / pow2 (ulp_exp y)"
    by (rule frac [symmetric]) (use ey in simp)
  also have "\<dots> \<le> y / pow2 (ulp_exp y)"
    using binade_bounds(1) [of y] assms by (simp add: divide_right_mono less_imp_le)
  finally have "2 ^ nat (binade y - ulp_exp y) \<le> rhe (y / pow2 (ulp_exp y))"
    using rhe_mono rhe_of_int by metis
  then have "(of_int (2 ^ nat (binade y - ulp_exp y)) :: rat) \<le> of_int (rhe (y / pow2 (ulp_exp y)))"
    by (simp only: of_int_le_iff)
  then have "?p / pow2 (ulp_exp y) \<le> of_int (rhe (y / pow2 (ulp_exp y)))"
    using frac [of "ulp_exp y"] ey by simp
  then have "?p \<le> rnd_pos y" by (simp add: rnd_pos_def divide_le_eq)
  with up show ?thesis by simp
qed

lemma rnd64_mono: "x \<le> y \<Longrightarrow> rnd64 x \<le> rnd64 y"
proof -
  assume le: "x \<le> y"
  consider "0 < x" | "x \<le> 0" "0 \<le> y" | "y < 0" using le by linarith
  then show ?thesis
  proof cases
    case 1
    with le show ?thesis by (simp add: rnd64_def rnd_pos_mono)
  next
    case 2
    then show ?thesis
      using rnd_pos_nonneg [of y] rnd_pos_nonneg [of "- x"]
      by (auto simp: rnd64_def)
  next
    case 3
    with le have "rnd_pos (- y) \<le> rnd_pos (- x)" by (simp add: rnd_pos_mono)
    with 3 le show ?thesis by (simp add: rnd64_def)
  qed
qed

lemma rnd64_0 [simp]: "rnd64 0 = 0"
  by (simp add: rnd64_def)

text \<open>Small integers are their own rounding.\<close>

lemma rnd_pos_of_int:
  assumes "0 < n" "n < 2 ^ 53"
  shows "rnd_pos (of_int n) = of_int n"
proof -
  let ?e = "ulp_exp (of_int n)"
  have "1 \<le> n" using assms by simp
  then have bl: "0 \<le> blen n" "2 ^ nat (blen n) \<le> n" using blen_bounds by auto
  then have "(2::int) ^ nat (blen n) < 2 ^ 53" using assms by linarith
  then have "nat (blen n) < 53" by (rule power_less_imp_less_exp [rotated]) simp
  then have "?e \<le> 0" using \<open>1 \<le> n\<close> by (simp add: ulp_exp_def binade_def)
  then have p: "1 / pow2 ?e = of_int (2 ^ nat (- ?e))"
    by (simp add: pow2_def)
  have "of_int n / pow2 ?e = of_int n * (1 / pow2 ?e)" by simp
  also have "\<dots> = of_int (n * 2 ^ nat (- ?e))" by (simp only: p of_int_mult)
  finally have q: "of_int n / pow2 ?e = (of_int (n * 2 ^ nat (- ?e)) :: rat)" .
  have "rnd_pos (of_int n) = (of_int n / pow2 ?e) * pow2 ?e"
    unfolding rnd_pos_def by (simp only: q rhe_of_int)
  then show ?thesis by simp
qed

lemma rnd64_of_int: "\<bar>n\<bar> < 2 ^ 53 \<Longrightarrow> rnd64 (of_int n) = of_int n"
  using rnd_pos_of_int [of n] rnd_pos_of_int [of "- n"]
  by (cases "0 < n"; cases "n = 0") (simp_all add: rnd64_def)

lemma rnd64_1 [simp]: "rnd64 1 = 1"
  using rnd64_of_int [of 1] by simp

lemma rnd64_nonneg: "0 \<le> x \<Longrightarrow> 0 \<le> rnd64 x"
  using rnd64_mono [of 0 x] by simp

lemma rnd64_le_of_int: "x \<le> of_int n \<Longrightarrow> \<bar>n\<bar> < 2 ^ 53 \<Longrightarrow> rnd64 x \<le> of_int n"
  using rnd64_mono [of x "of_int n"] by (simp add: rnd64_of_int)

lemma rnd64_ge_of_int: "of_int n \<le> x \<Longrightarrow> \<bar>n\<bar> < 2 ^ 53 \<Longrightarrow> of_int n \<le> rnd64 x"
  using rnd64_mono [of "of_int n" x] by (simp add: rnd64_of_int)

lemma rnd64_le_1: "x \<le> 1 \<Longrightarrow> rnd64 x \<le> 1"
  using rnd64_mono [of x 1] by simp

text \<open>Rounding is idempotent: its results are representable.\<close>

lemma rnd_pos_fix:
  assumes "v = of_int n * pow2 e" "ulp_exp v \<le> e"
  shows "rnd_pos v = v"
proof -
  let ?u = "ulp_exp v"
  have "v / pow2 ?u = of_int n * pow2 (e - ?u)" by (simp only: assms(1) pow2_diff) simp
  also have "\<dots> = of_int (n * 2 ^ nat (e - ?u))" using assms(2) by (simp add: pow2_of_int)
  finally have q: "v / pow2 ?u = of_int (n * 2 ^ nat (e - ?u))" .
  have "rnd_pos v = v / pow2 ?u * pow2 ?u" unfolding rnd_pos_def by (simp only: q rhe_of_int)
  then show ?thesis by simp
qed

lemma rnd_pos_upper:
  assumes "0 < x"
  shows "rnd_pos x \<le> pow2 (ulp_exp x + 53)"
proof -
  let ?e = "ulp_exp x"
  have "x \<le> pow2 (binade x + 1)" using binade_bounds [OF assms] by simp
  also have "\<dots> \<le> pow2 (?e + 53)" by (rule pow2_mono) (simp add: ulp_exp_def)
  also have "\<dots> = pow2 ?e * pow2 53" by (rule pow2_add)
  finally have "x / pow2 ?e \<le> pow2 53" by (simp add: divide_le_eq mult.commute)
  then have "x / pow2 ?e \<le> of_int (2 ^ 53)" by (simp add: pow2_of_int)
  then have "rhe (x / pow2 ?e) \<le> 2 ^ 53" using rhe_mono rhe_of_int by metis
  then have "(of_int (rhe (x / pow2 ?e)) :: rat) \<le> of_int (2 ^ 53)" by (simp only: of_int_le_iff)
  then have "rnd_pos x \<le> of_int (2 ^ 53) * pow2 ?e"
    unfolding rnd_pos_def by (rule mult_right_mono) (simp add: less_imp_le)
  also have "\<dots> = pow2 (?e + 53)" by (simp add: pow2_add pow2_of_int [of 53])
  finally show ?thesis .
qed

lemma rnd_pos_idem:
  assumes "0 < x" "0 < rnd_pos x"
  shows "rnd_pos (rnd_pos x) = rnd_pos x"
proof (cases "ulp_exp (rnd_pos x) \<le> ulp_exp x")
  case True
  have "rnd_pos x = of_int (rhe (x / pow2 (ulp_exp x))) * pow2 (ulp_exp x)" by (simp only: rnd_pos_def)
  from this True show ?thesis by (rule rnd_pos_fix)
next
  case False
  let ?v = "rnd_pos x" and ?e = "ulp_exp x"
  have "- 1074 \<le> ?e" by (simp add: ulp_exp_def)
  with False have u: "ulp_exp ?v = binade ?v - 52" by (auto simp: ulp_exp_def max_def split: if_splits)
  with False have "?e + 53 \<le> binade ?v" by simp
  then have "?v \<le> pow2 (binade ?v)" using rnd_pos_upper [OF assms(1)] pow2_mono by (metis order.trans)
  with binade_bounds(1) [OF assms(2)] have "?v = pow2 (52 + (binade ?v - 52))" by simp
  also have "\<dots> = of_int (2 ^ 52) * pow2 (binade ?v - 52)" by (simp only: pow2_add) (simp add: pow2_of_int [of 52])
  finally show ?thesis by (rule rnd_pos_fix) (simp add: u)
qed

lemma rnd64_idem [simp]: "rnd64 (rnd64 x) = rnd64 x"
  using rnd_pos_idem [of x] rnd_pos_idem [of "- x"] rnd_pos_nonneg [of x] rnd_pos_nonneg [of "- x"]
  by (cases "rnd64 x = 0") (auto simp: rnd64_def split: if_splits)

section \<open>The type\<close>

datatype pyfloat = Fin rat | PInf | NInf | NaN

text \<open>
  \<open>f64 x\<close> is the float nearest to the exact value \<open>x\<close>: a decimal literal of the source
  such as \<open>0.35\<close> is \<open>f64 (35 / 100)\<close>. Magnitudes of \<open>2 ^ 1024\<close> and more overflow
  (the test against \<open>2 ^ 53\<close> only decides the common case quickly).
\<close>

definition f64 :: "rat \<Rightarrow> pyfloat" where
  "f64 x = (let r = rnd64 x in
     if \<bar>r\<bar> < 9007199254740992 then Fin r
     else if 2 ^ 1024 \<le> r then PInf else if r \<le> - (2 ^ 1024) then NInf else Fin r)"

definition float_of_int :: "int \<Rightarrow> pyfloat" where
  "float_of_int n = f64 (of_int n)"

text \<open>The arithmetic operators. A division by zero is the caller's \<open>ZeroDivisionError\<close>.\<close>

fun fneg :: "pyfloat \<Rightarrow> pyfloat" where
  "fneg (Fin x) = Fin (- x)"
| "fneg PInf = NInf"
| "fneg NInf = PInf"
| "fneg NaN = NaN"

fun fadd :: "pyfloat \<Rightarrow> pyfloat \<Rightarrow> pyfloat" where
  "fadd (Fin x) (Fin y) = f64 (x + y)"
| "fadd NaN _ = NaN"
| "fadd _ NaN = NaN"
| "fadd PInf NInf = NaN"
| "fadd NInf PInf = NaN"
| "fadd PInf _ = PInf"
| "fadd _ PInf = PInf"
| "fadd NInf _ = NInf"
| "fadd _ NInf = NInf"

definition fsub :: "pyfloat \<Rightarrow> pyfloat \<Rightarrow> pyfloat" where
  "fsub x y = fadd x (fneg y)"

definition fsgn_inf :: "rat \<Rightarrow> pyfloat" where
  "fsgn_inf x = (if x = 0 then NaN else if 0 < x then PInf else NInf)"

fun fmul :: "pyfloat \<Rightarrow> pyfloat \<Rightarrow> pyfloat" where
  "fmul (Fin x) (Fin y) = f64 (x * y)"
| "fmul NaN _ = NaN"
| "fmul _ NaN = NaN"
| "fmul (Fin x) PInf = fsgn_inf x"
| "fmul (Fin x) NInf = fsgn_inf (- x)"
| "fmul PInf (Fin y) = fsgn_inf y"
| "fmul NInf (Fin y) = fsgn_inf (- y)"
| "fmul PInf PInf = PInf"
| "fmul PInf NInf = NInf"
| "fmul NInf PInf = NInf"
| "fmul NInf NInf = PInf"

fun fdiv :: "pyfloat \<Rightarrow> pyfloat \<Rightarrow> pyfloat option" where
  "fdiv (Fin x) (Fin y) = (if y = 0 then None else Some (f64 (x / y)))"
| "fdiv NaN y = (if y = Fin 0 then None else Some NaN)"
| "fdiv _ NaN = Some NaN"
| "fdiv (Fin x) _ = Some (Fin 0)"
| "fdiv PInf (Fin y) = (if y = 0 then None else Some (if 0 < y then PInf else NInf))"
| "fdiv NInf (Fin y) = (if y = 0 then None else Some (if 0 < y then NInf else PInf))"
| "fdiv _ _ = Some NaN"

text \<open>The comparisons: every one of them but \<open>!=\<close> is false on a NaN.\<close>

fun flt :: "pyfloat \<Rightarrow> pyfloat \<Rightarrow> bool" where
  "flt (Fin x) (Fin y) = (x < y)"
| "flt NaN _ = False"
| "flt _ NaN = False"
| "flt PInf _ = False"
| "flt _ PInf = True"
| "flt NInf NInf = False"
| "flt NInf _ = True"
| "flt _ NInf = False"

fun feq :: "pyfloat \<Rightarrow> pyfloat \<Rightarrow> bool" where
  "feq NaN _ = False"
| "feq _ NaN = False"
| "feq x y = (x = y)"

definition fle :: "pyfloat \<Rightarrow> pyfloat \<Rightarrow> bool" where
  "fle x y \<longleftrightarrow> flt x y \<or> feq x y"

text \<open>\<open>max(a, b)\<close> and \<open>min(a, b)\<close> return the first argument unless the second one wins.\<close>

definition fmax :: "pyfloat \<Rightarrow> pyfloat \<Rightarrow> pyfloat" where
  "fmax a b = (if flt a b then b else a)"

definition fmin :: "pyfloat \<Rightarrow> pyfloat \<Rightarrow> pyfloat" where
  "fmin a b = (if flt b a then b else a)"

text \<open>\<open>sum\<close> adds from left to right, starting at the integer 0.\<close>

definition fsum :: "pyfloat list \<Rightarrow> pyfloat" where
  "fsum xs = foldl fadd (Fin 0) xs"

definition is_nan :: "pyfloat \<Rightarrow> bool" where
  "is_nan x \<longleftrightarrow> x = NaN"

lemma fle_Fin [simp]: "fle (Fin x) (Fin y) \<longleftrightarrow> x \<le> y"
  by (auto simp: fle_def)

lemma fle_refl: "\<not> is_nan x \<Longrightarrow> fle x x"
  by (cases x) (auto simp: fle_def is_nan_def)

lemma fle_trans: "fle x y \<Longrightarrow> fle y z \<Longrightarrow> fle x z"
  by (cases x; cases y; cases z) (auto simp: fle_def)

lemma flt_fle_trans: "flt x y \<Longrightarrow> fle y z \<Longrightarrow> flt x z"
  by (cases x; cases y; cases z) (auto simp: fle_def)

lemma fle_flt_trans: "fle x y \<Longrightarrow> flt y z \<Longrightarrow> flt x z"
  by (cases x; cases y; cases z) (auto simp: fle_def)

lemma flt_irrefl [simp]: "\<not> flt x x"
  by (cases x) auto

lemma flt_trans: "flt x y \<Longrightarrow> flt y z \<Longrightarrow> flt x z"
  by (cases x; cases y; cases z) auto

lemma flt_not_fle: "flt x y \<Longrightarrow> \<not> fle y x"
  by (cases x; cases y) (auto simp: fle_def)

lemma fle_linear: "\<not> is_nan x \<Longrightarrow> \<not> is_nan y \<Longrightarrow> \<not> flt x y \<Longrightarrow> fle y x"
  by (cases x; cases y) (auto simp: fle_def is_nan_def)

text \<open>Below \<open>2 ^ 53\<close> in magnitude nothing overflows.\<close>

definition small_rat :: "rat \<Rightarrow> bool" where
  "small_rat x \<longleftrightarrow> \<bar>x\<bar> \<le> 2 ^ 52"

lemma f64_small: "small_rat x \<Longrightarrow> f64 x = Fin (rnd64 x)"
proof -
  assume s: "small_rat x"
  have "rnd64 x \<le> of_int (2 ^ 52)" by (rule rnd64_le_of_int) (use s in \<open>simp_all add: small_rat_def abs_le_iff\<close>)
  moreover have "of_int (- (2 ^ 52)) \<le> x" using s by (auto simp: small_rat_def abs_le_iff)
  then have "of_int (- (2 ^ 52)) \<le> rnd64 x" by (rule rnd64_ge_of_int) simp
  ultimately have "\<bar>rnd64 x\<bar> < 9007199254740992" by (simp add: abs_less_iff)
  then show ?thesis by (simp add: f64_def Let_def)
qed

lemma float_of_int_small: "\<bar>n\<bar> \<le> 2 ^ 52 \<Longrightarrow> float_of_int n = Fin (of_int n)"
proof -
  assume a: "\<bar>n\<bar> \<le> 2 ^ 52"
  then have "\<bar>of_int n\<bar> \<le> (2 ^ 52 :: rat)"
    by (metis of_int_abs of_int_le_iff of_int_numeral of_int_power)
  then have "f64 (of_int n) = Fin (rnd64 (of_int n))" by (intro f64_small) (simp add: small_rat_def)
  moreover have "rnd64 (of_int n) = of_int n" by (rule rnd64_of_int) (use a in simp)
  ultimately show ?thesis by (simp add: float_of_int_def)
qed

end
