(* ===== verification/PyValue.thy ===== *)
theory PyValue
  imports Float64
begin

text \<open>
  The dynamic values the program passes around (tool arguments, JSON payloads, parameter
  dictionaries) with the operations of Python's standard library that it applies to them:
  truth value, \<open>==\<close> against an atom, \<open>str\<close>, \<open>int\<close> and \<open>float\<close> of a string. A string is a list
  of characters of the range U+0000..U+00FF; the two characters beyond it that the program
  writes itself, the ellipsis and the en dash, stand as the characters 0x85 and 0x96 (their
  places in Windows-1252), so the control characters with these numbers are outside the model.
\<close>

section \<open>Values\<close>

datatype pyval =
    PNone
  | PBool bool
  | PInt int
  | PFloat pyfloat
  | PStr string
  | PList "pyval list"
  | PDict "(string \<times> pyval) list"

type_synonym pydict = "(string, pyval) dict"

fun is_dict :: "pyval \<Rightarrow> bool" where
  "is_dict (PDict _) = True"
| "is_dict _ = False"

fun is_str :: "pyval \<Rightarrow> bool" where
  "is_str (PStr _) = True"
| "is_str _ = False"

fun py_truthy :: "pyval \<Rightarrow> bool" where
  "py_truthy PNone = False"
| "py_truthy (PBool b) = b"
| "py_truthy (PInt n) = (n \<noteq> 0)"
| "py_truthy (PFloat f) = (f \<noteq> Fin 0)"
| "py_truthy (PStr s) = (s \<noteq> [])"
| "py_truthy (PList xs) = (xs \<noteq> [])"
| "py_truthy (PDict d) = (d \<noteq> [])"

text \<open>\<open>v or w\<close>: the first operand when it is true, else the second.\<close>

definition py_or :: "pyval \<Rightarrow> pyval \<Rightarrow> pyval" where
  "py_or v w = (if py_truthy v then v else w)"

text \<open>\<open>d.get(k)\<close> is \<open>None\<close> where the key is missing.\<close>

definition pget :: "pydict \<Rightarrow> string \<Rightarrow> pyval" where
  "pget d k = (case dget d k of None \<Rightarrow> PNone | Some v \<Rightarrow> v)"

lemma pget_dset [dict_simps]: "pget (dset k v d) k' = (if k' = k then v else pget d k')"
  by (simp add: pget_def)

text \<open>
  \<open>==\<close>: numbers (booleans included) compare by value across their types, a NaN equals
  nothing, values of different kinds differ, and two dictionaries are equal when they hold
  the same keys with equal values.
\<close>

fun py_num :: "pyval \<Rightarrow> pyfloat option" where
  "py_num (PBool b) = Some (Fin (if b then 1 else 0))"
| "py_num (PInt n) = Some (Fin (of_int n))"
| "py_num (PFloat f) = Some f"
| "py_num _ = None"

lemma size_zip_left: "(x, y) \<in> set (zip xs ys) \<Longrightarrow> size x < Suc (size_list size xs)"
  by (drule set_zip_leftD) (simp add: less_Suc_eq_le size_list_estimation')

function (sequential) py_eq :: "pyval \<Rightarrow> pyval \<Rightarrow> bool" where
  "py_eq PNone PNone = True"
| "py_eq (PStr s) (PStr t) = (s = t)"
| "py_eq (PList xs) (PList ys) =
     (length xs = length ys \<and> (\<forall>(x, y) \<in> set (zip xs ys). py_eq x y))"
| "py_eq (PDict d) (PDict e) =
     (length d = length e \<and>
      (\<forall>(k, v) \<in> set d. case dget e k of None \<Rightarrow> False | Some w \<Rightarrow> py_eq v w))"
| "py_eq v w = (case (py_num v, py_num w) of (Some x, Some y) \<Rightarrow> feq x y | _ \<Rightarrow> False)"
  by pat_completeness auto
termination
proof (relation "measure (size \<circ> fst)", goal_cases)
  case 1
  show ?case by simp
next
  case (2 xs ys z x y)
  then show ?case by (auto dest: size_zip_left)
next
  case (3 d e z k v w)
  then have "(k, v) \<in> set d" by simp
  then have "size v \<le> size_list (size_prod (\<lambda>x. 0) size) d"
    by (rule size_list_estimation') simp
  then show ?case by simp
qed

lemma py_eq_str [simp]: "py_eq v (PStr s) \<longleftrightarrow> v = PStr s"
  by (cases v) auto

lemma py_eq_none [simp]: "py_eq v PNone \<longleftrightarrow> v = PNone"
  by (cases v) auto

text \<open>\<open>v in xs\<close> on a list of values.\<close>

definition py_in :: "pyval \<Rightarrow> pyval list \<Rightarrow> bool" where
  "py_in v xs \<longleftrightarrow> (\<exists>x \<in> set xs. py_eq v x)"

text \<open>\<open>v in (None, "")\<close>, the test for an absent fact.\<close>

definition none_or_empty :: "pyval \<Rightarrow> bool" where
  "none_or_empty v \<longleftrightarrow> v = PNone \<or> v = PStr []"

lemma none_or_empty_py_in: "none_or_empty v \<longleftrightarrow> py_in v [PNone, PStr []]"
  by (simp add: none_or_empty_def py_in_def)

section \<open>Characters and case\<close>

definition code :: "char \<Rightarrow> nat" where
  "code c = of_char c"

definition is_digit :: "char \<Rightarrow> bool" where
  "is_digit c \<longleftrightarrow> 48 \<le> code c \<and> code c \<le> 57"

definition digit_val :: "char \<Rightarrow> int" where
  "digit_val c = int (code c) - 48"

text \<open>\<open>str.isspace\<close> on the characters of the range.\<close>

definition is_space :: "char \<Rightarrow> bool" where
  "is_space c \<longleftrightarrow> code c \<in> {9, 10, 11, 12, 13, 28, 29, 30, 31, 32, 160}"

text \<open>\<open>str.lower\<close>: the ASCII letters and those of U+00C0..U+00DE but the multiplication sign.\<close>

definition lower_char :: "char \<Rightarrow> char" where
  "lower_char c = (if 65 \<le> code c \<and> code c \<le> 90 \<or> 192 \<le> code c \<and> code c \<le> 222 \<and> code c \<noteq> 215
     then char_of (code c + 32) else c)"

text \<open>The same on the bits of a character, for evaluation.\<close>

lemma is_digit_code [code]:
  "is_digit (Char b0 b1 b2 b3 b4 b5 b6 b7) \<longleftrightarrow> \<not> b7 \<and> \<not> b6 \<and> b5 \<and> b4 \<and> (\<not> b3 \<or> \<not> b2 \<and> \<not> b1)"
  by (cases b0; cases b1; cases b2; cases b3; cases b4; cases b5; cases b6; cases b7) (simp_all add: is_digit_def code_def)

lemma is_space_code [code]:
  "is_space (Char b0 b1 b2 b3 b4 b5 b6 b7) \<longleftrightarrow>
     (if b7 then \<not> b6 \<and> b5 \<and> \<not> b4 \<and> \<not> b3 \<and> \<not> b2 \<and> \<not> b1 \<and> \<not> b0
      else \<not> b6 \<and> (if b5 then \<not> b4 \<and> \<not> b3 \<and> \<not> b2 \<and> \<not> b1 \<and> \<not> b0
                    else b3 \<and> (if b4 then b2 else if b2 then \<not> b1 else b1 \<or> b0)))"
  by (cases b0; cases b1; cases b2; cases b3; cases b4; cases b5; cases b6; cases b7) (simp_all add: is_space_def code_def)

lemma lower_char_code [code]:
  "lower_char (Char b0 b1 b2 b3 b4 b5 b6 b7) =
     (if b6 \<and> \<not> b5 \<and> (if b7 then \<not> (b4 \<and> b2 \<and> b1 \<and> b0)
        else (b0 \<or> b1 \<or> b2 \<or> b3 \<or> b4) \<and> (\<not> b4 \<or> \<not> b3 \<or> \<not> b2 \<and> (\<not> b1 \<or> \<not> b0)))
      then Char b0 b1 b2 b3 b4 True b6 b7 else Char b0 b1 b2 b3 b4 b5 b6 b7)"
  by (cases b0; cases b1; cases b2; cases b3; cases b4; cases b5; cases b6; cases b7)
    (simp_all add: lower_char_def code_def char_of_def bit_iff_odd)

definition py_lower :: "string \<Rightarrow> string" where
  "py_lower s = map lower_char s"

definition lstrip_on :: "(char \<Rightarrow> bool) \<Rightarrow> string \<Rightarrow> string" where
  "lstrip_on P s = dropWhile P s"

definition rstrip_on :: "(char \<Rightarrow> bool) \<Rightarrow> string \<Rightarrow> string" where
  "rstrip_on P s = rev (dropWhile P (rev s))"

definition py_strip :: "string \<Rightarrow> string" where
  "py_strip s = rstrip_on is_space (lstrip_on is_space s)"

fun is_prefix :: "string \<Rightarrow> string \<Rightarrow> bool" where
  "is_prefix [] s = True"
| "is_prefix (c # p) [] = False"
| "is_prefix (c # p) (d # s) = (c = d \<and> is_prefix p s)"

text \<open>\<open>p in s\<close> on strings.\<close>

fun is_infix :: "string \<Rightarrow> string \<Rightarrow> bool" where
  "is_infix p [] = (p = [])"
| "is_infix p (c # s) = (is_prefix p (c # s) \<or> is_infix p s)"

lemma is_prefix_iff: "is_prefix p s \<longleftrightarrow> (\<exists>r. s = p @ r)"
  by (induction p s rule: is_prefix.induct) auto

section \<open>Numbers as text\<close>

fun show_nat_aux :: "nat \<Rightarrow> nat \<Rightarrow> string \<Rightarrow> string" where
  "show_nat_aux 0 n acc = acc"
| "show_nat_aux (Suc f) n acc =
     (let acc' = char_of (48 + n mod 10) # acc in
      if n < 10 then acc' else show_nat_aux f (n div 10) acc')"

text \<open>\<open>n + 1\<close> rounds are enough: each one drops a digit, and \<open>n div 10 < n\<close> for \<open>n \<ge> 10\<close>.\<close>

definition show_nat :: "nat \<Rightarrow> string" where
  "show_nat n = show_nat_aux (Suc n) n []"

definition show_int :: "int \<Rightarrow> string" where
  "show_int n = (if n < 0 then CHR ''-'' # show_nat (nat (- n)) else show_nat (nat n))"

text \<open>
  Digits with single underscores between them, as \<open>int()\<close> and \<open>float()\<close> accept: the
  digits read and the rest of the string, \<open>None\<close> when the text does not start with one.
\<close>

fun digits_us :: "string \<Rightarrow> (string \<times> string) option" where
  "digits_us [] = None"
| "digits_us (c # s) =
     (if is_digit c then
        (case s of
           [] \<Rightarrow> Some ([c], [])
         | d # t \<Rightarrow>
             if d = CHR ''_'' then
               (case digits_us t of None \<Rightarrow> Some ([c], s) | Some (ds, r) \<Rightarrow> Some (c # ds, r))
             else (case digits_us s of None \<Rightarrow> Some ([c], s) | Some (ds, r) \<Rightarrow> Some (c # ds, r)))
      else None)"

definition digits_val :: "string \<Rightarrow> int" where
  "digits_val ds = foldl (\<lambda>n c. 10 * n + digit_val c) 0 ds"

definition split_sign :: "string \<Rightarrow> bool \<times> string" where
  "split_sign s = (case s of
      [] \<Rightarrow> (False, [])
    | c # t \<Rightarrow> if c = CHR ''-'' then (True, t) else if c = CHR ''+'' then (False, t) else (False, s))"

text \<open>\<open>int(s)\<close>, \<open>None\<close> for its \<open>ValueError\<close>.\<close>

definition int_of_str :: "string \<Rightarrow> int option" where
  "int_of_str s =
     (let (neg, t) = split_sign (py_strip s) in
      case digits_us t of
        Some (ds, []) \<Rightarrow> Some (if neg then - digits_val ds else digits_val ds)
      | _ \<Rightarrow> None)"

definition pow10 :: "int \<Rightarrow> rat" where
  "pow10 k = (if 0 \<le> k then 10 ^ nat k else 1 / 10 ^ nat (- k))"

text \<open>The exponent part \<open>[eE][+-]digits\<close>, up to the end of the text.\<close>

definition read_exp :: "string \<Rightarrow> int option" where
  "read_exp s = (case s of
      [] \<Rightarrow> Some 0
    | c # t \<Rightarrow> if c = CHR ''e'' \<or> c = CHR ''E'' then
        (let (neg, u) = split_sign t in
         case digits_us u of
           Some (ds, []) \<Rightarrow> Some (if neg then - digits_val ds else digits_val ds)
         | _ \<Rightarrow> None)
      else None)"

definition read_decimal :: "string \<Rightarrow> rat option" where
  "read_decimal s =
     (let (ip, r) = (case digits_us s of None \<Rightarrow> ([], s) | Some p \<Rightarrow> p);
          (fp, r') = (case r of
              CHR ''.'' # t \<Rightarrow> (case digits_us t of None \<Rightarrow> ([], t) | Some p \<Rightarrow> p)
            | _ \<Rightarrow> ([], r))
      in if ip = [] \<and> fp = [] then None
         else map_option (\<lambda>e. of_int (digits_val (ip @ fp)) * pow10 (e - int (length fp))) (read_exp r'))"

text \<open>\<open>float(s)\<close>, \<open>None\<close> for its \<open>ValueError\<close>.\<close>

definition float_of_str :: "string \<Rightarrow> pyfloat option" where
  "float_of_str s =
     (let (neg, t) = split_sign (py_strip s); l = py_lower t in
      if l = ''inf'' \<or> l = ''infinity'' then Some (if neg then NInf else PInf)
      else if l = ''nan'' then Some NaN
      else map_option (\<lambda>x. f64 (if neg then - x else x)) (read_decimal t))"

text \<open>\<open>float(v)\<close> of a value that is a number or a string; \<open>None\<close> where it raises.\<close>

fun float_of_val :: "pyval \<Rightarrow> pyfloat option" where
  "float_of_val (PBool b) = Some (Fin (if b then 1 else 0))"
| "float_of_val (PInt n) = (case float_of_int n of Fin x \<Rightarrow> Some (Fin x) | _ \<Rightarrow> None)"
| "float_of_val (PFloat f) = Some f"
| "float_of_val (PStr s) = float_of_str s"
| "float_of_val _ = None"

end
