(* ===== verification/Timestamps.thy ===== *)
theory Timestamps
  imports PyValue
begin

text \<open>
  The UTC timestamps the job table stores as text: \<open>datetime.now(timezone.utc).isoformat()\<close>
  and its inverse. SQLite compares the texts byte by byte, so the order of the queue is the
  order of the texts; the lemmas show that this is the order of the instants, although
  \<open>isoformat\<close> leaves out the fraction when it is zero.
\<close>

section \<open>Byte order of texts\<close>

fun str_lt :: "string \<Rightarrow> string \<Rightarrow> bool" where
  "str_lt _ [] = False"
| "str_lt [] (d # t) = True"
| "str_lt (c # s) (d # t) = (code c < code d \<or> c = d \<and> str_lt s t)"

lemma str_lt_irrefl [simp]: "\<not> str_lt s s"
  by (induction s) (auto simp: code_def)

lemma code_inject [simp]: "code c = code d \<longleftrightarrow> c = d"
  by (simp add: code_def)

lemma str_lt_trans: "str_lt s t \<Longrightarrow> str_lt t u \<Longrightarrow> str_lt s u"
proof (induction s t arbitrary: u rule: str_lt.induct)
  case (2 d t)
  then show ?case by (cases u) auto
next
  case (3 c s d t)
  then show ?case by (cases u) auto
qed simp

lemma str_lt_linear: "s \<noteq> t \<Longrightarrow> str_lt s t \<or> str_lt t s"
proof (induction s t rule: str_lt.induct)
  case (1 s)
  then show ?case by (cases s) auto
next
  case (3 c s d t)
  then show ?case by (auto simp: code_def not_less_iff_gr_or_eq)
qed simp

lemma str_lt_asym: "str_lt s t \<Longrightarrow> \<not> str_lt t s"
  using str_lt_trans str_lt_irrefl by blast

section \<open>Zero-padded decimals\<close>

definition digit_char :: "nat \<Rightarrow> char" where
  "digit_char n = char_of (48 + n)"

fun pad :: "nat \<Rightarrow> nat \<Rightarrow> string" where
  "pad 0 n = []"
| "pad (Suc w) n = digit_char (n div 10 ^ w) # pad w (n mod 10 ^ w)"

lemma length_pad [simp]: "length (pad w n) = w"
  by (induction w arbitrary: n) auto

lemma code_digit_char: "n < 10 \<Longrightarrow> code (digit_char n) = 48 + n"
  by (simp add: code_def digit_char_def)

lemma less_div_mod: "0 < p \<Longrightarrow> (m::nat) < n \<longleftrightarrow> m div p < n div p \<or> m div p = n div p \<and> m mod p < n mod p"
proof -
  assume p: "0 < p"
  have "m div p < n div p \<Longrightarrow> m < n" by (meson div_le_mono leD not_le_imp_less)
  moreover have "m < n \<Longrightarrow> m div p \<le> n div p" by (simp add: div_le_mono)
  moreover have "m div p = n div p \<Longrightarrow> m < n \<longleftrightarrow> m mod p < n mod p"
    by (metis div_mult_mod_eq nat_add_left_cancel_less)
  ultimately show ?thesis by (cases "m div p = n div p") auto
qed

lemma eq_div_mod: "(m::nat) = n \<longleftrightarrow> m div p = n div p \<and> m mod p = n mod p"
  by (metis div_mult_mod_eq)

lemma digit_char_inject: "a < 10 \<Longrightarrow> b < 10 \<Longrightarrow> digit_char a = digit_char b \<longleftrightarrow> a = b"
  by (metis code_digit_char add_left_cancel)

lemma str_lt_pad:
  "m < 10 ^ w \<Longrightarrow> n < 10 ^ w \<Longrightarrow> str_lt (pad w m @ s) (pad w n @ t) \<longleftrightarrow> m < n \<or> m = n \<and> str_lt s t"
proof (induction w arbitrary: m n)
  case 0
  then show ?case by simp
next
  case (Suc w)
  let ?p = "10 ^ w :: nat"
  have p: "0 < ?p" by simp
  have q: "m div ?p < 10" "n div ?p < 10"
    using Suc.prems by (simp_all add: less_mult_imp_div_less mult.commute)
  have "str_lt (pad w (m mod ?p) @ s) (pad w (n mod ?p) @ t) \<longleftrightarrow>
      m mod ?p < n mod ?p \<or> m mod ?p = n mod ?p \<and> str_lt s t"
    using p by (intro Suc.IH) simp_all
  then show ?case
    using q less_div_mod [OF p, of m n] eq_div_mod [of m n ?p]
    by (auto simp: code_digit_char digit_char_inject)
qed

section \<open>Instants\<close>

record datetime =
  year :: nat
  month :: nat
  day :: nat
  hour :: nat
  minute :: nat
  second :: nat
  micro :: nat

definition leap :: "nat \<Rightarrow> bool" where
  "leap y \<longleftrightarrow> 4 dvd y \<and> (\<not> 100 dvd y \<or> 400 dvd y)"

definition days_in_month :: "nat \<Rightarrow> nat \<Rightarrow> nat" where
  "days_in_month y m = (if m = 2 then (if leap y then 29 else 28)
     else if m \<in> {4, 6, 9, 11} then 30 else 31)"

definition valid_dt :: "datetime \<Rightarrow> bool" where
  "valid_dt t \<longleftrightarrow> 1 \<le> year t \<and> year t \<le> 9999 \<and> 1 \<le> month t \<and> month t \<le> 12 \<and>
     1 \<le> day t \<and> day t \<le> days_in_month (year t) (month t) \<and>
     hour t < 24 \<and> minute t < 60 \<and> second t < 60 \<and> micro t < 1000000"

text \<open>Chronological order: the fields compared from the year down.\<close>

definition dt_less :: "datetime \<Rightarrow> datetime \<Rightarrow> bool" where
  "dt_less a b \<longleftrightarrow>
     year a < year b \<or> year a = year b \<and> (month a < month b \<or> month a = month b \<and>
     (day a < day b \<or> day a = day b \<and> (hour a < hour b \<or> hour a = hour b \<and>
     (minute a < minute b \<or> minute a = minute b \<and> (second a < second b \<or> second a = second b \<and>
      micro a < micro b)))))"

definition iso_fraction :: "datetime \<Rightarrow> string" where
  "iso_fraction t = (if micro t = 0 then [] else ''.'' @ pad 6 (micro t))"

definition isoformat :: "datetime \<Rightarrow> string" where
  "isoformat t = pad 4 (year t) @ ''-'' @ pad 2 (month t) @ ''-'' @ pad 2 (day t) @ ''T'' @
     pad 2 (hour t) @ '':'' @ pad 2 (minute t) @ '':'' @ pad 2 (second t) @
     iso_fraction t @ ''+00:00''"

lemma days_in_month_le: "days_in_month y m \<le> 31"
  by (simp add: days_in_month_def)

lemma str_lt_dot_plus: "str_lt (CHR ''+'' # s) (CHR ''.'' # t)" "\<not> str_lt (CHR ''.'' # t) (CHR ''+'' # s)"
  by (simp_all add: code_def)

lemma str_lt_same_head [simp]: "str_lt (c # s) (c # t) \<longleftrightarrow> str_lt s t"
  by simp

lemma str_lt_fraction:
  assumes "micro a < 1000000" "micro b < 1000000"
  shows "str_lt (iso_fraction a @ ''+00:00'') (iso_fraction b @ ''+00:00'') \<longleftrightarrow> micro a < micro b"
proof -
  have p: "str_lt (pad 6 (micro a) @ ''+00:00'') (pad 6 (micro b) @ ''+00:00'') \<longleftrightarrow> micro a < micro b"
    using assms by (subst str_lt_pad) auto
  consider "micro a = 0" "micro b = 0" | "micro a = 0" "micro b > 0"
    | "micro a > 0" "micro b = 0" | "micro a > 0" "micro b > 0" by blast
  then show ?thesis
    by cases (simp_all only: iso_fraction_def if_True if_False append_Nil append_Cons str_lt_dot_plus
        str_lt_same_head p str_lt_irrefl less_irrefl simp_thms not_less0 less_numeral_extra(3)
        gr_implies_not0)
qed

lemma str_lt_same_prefix [simp]: "str_lt (p @ s) (p @ t) \<longleftrightarrow> str_lt s t"
  by (induction p) (auto simp: code_def)

lemma valid_dt_widths:
  assumes "valid_dt t"
  shows "year t < 10 ^ 4" "month t < 10 ^ 2" "day t < 10 ^ 2" "hour t < 10 ^ 2"
    "minute t < 10 ^ 2" "second t < 10 ^ 2" "micro t < 1000000"
  using assms days_in_month_le [of "year t" "month t"] by (auto simp: valid_dt_def)

lemma str_lt_isoformat:
  assumes "valid_dt a" "valid_dt b"
  shows "str_lt (isoformat a) (isoformat b) \<longleftrightarrow> dt_less a b"
proof -
  note w = valid_dt_widths [OF assms(1)] and v = valid_dt_widths [OF assms(2)]
  show ?thesis
    unfolding isoformat_def dt_less_def
    by (simp only: str_lt_pad [OF w(1) v(1)] str_lt_pad [OF w(2) v(2)] str_lt_pad [OF w(3) v(3)]
        str_lt_pad [OF w(4) v(4)] str_lt_pad [OF w(5) v(5)] str_lt_pad [OF w(6) v(6)]
        str_lt_fraction [OF w(7) v(7)] str_lt_same_prefix)
qed

lemma dt_less_linear:
  assumes "a \<noteq> b"
  shows "dt_less a b \<or> dt_less b a"
proof (rule ccontr)
  assume "\<not> (dt_less a b \<or> dt_less b a)"
  then have n: "\<not> dt_less a b" "\<not> dt_less b a" by simp_all
  have 1: "year a = year b" using n unfolding dt_less_def by linarith
  have 2: "month a = month b" using n unfolding dt_less_def by (simp only: 1 simp_thms less_irrefl) linarith
  have 3: "day a = day b" using n unfolding dt_less_def by (simp only: 1 2 simp_thms less_irrefl) linarith
  have 4: "hour a = hour b" using n unfolding dt_less_def by (simp only: 1 2 3 simp_thms less_irrefl) linarith
  have 5: "minute a = minute b" using n unfolding dt_less_def by (simp only: 1 2 3 4 simp_thms less_irrefl) linarith
  have 6: "second a = second b" using n unfolding dt_less_def by (simp only: 1 2 3 4 5 simp_thms less_irrefl) linarith
  have "micro a = micro b" using n unfolding dt_less_def by (simp only: 1 2 3 4 5 6 simp_thms less_irrefl)
  with assms 1 2 3 4 5 6 show False by (simp add: datetime.equality)
qed

lemma isoformat_inject: "valid_dt a \<Longrightarrow> valid_dt b \<Longrightarrow> isoformat a = isoformat b \<longleftrightarrow> a = b"
  using str_lt_isoformat [of a b] str_lt_isoformat [of b a] dt_less_linear [of a b] by auto

section \<open>Reading a timestamp back\<close>

text \<open>
  \<open>datetime.fromisoformat\<close> on the layouts that \<open>isoformat\<close> writes in UTC; \<open>None\<close> is its
  \<open>ValueError\<close>.
\<close>

fun read_digits :: "nat \<Rightarrow> nat \<Rightarrow> string \<Rightarrow> (nat \<times> string) option" where
  "read_digits 0 acc s = Some (acc, s)"
| "read_digits (Suc w) acc [] = None"
| "read_digits (Suc w) acc (c # s) =
     (if is_digit c then read_digits w (10 * acc + (code c - 48)) s else None)"

definition expect :: "string \<Rightarrow> string \<Rightarrow> string option" where
  "expect p s = (if is_prefix p s then Some (drop (length p) s) else None)"

definition read_field :: "nat \<Rightarrow> string \<Rightarrow> (nat \<Rightarrow> string \<Rightarrow> 'a option) \<Rightarrow> string \<Rightarrow> 'a option" where
  "read_field w sep k s = Option.bind (read_digits w 0 s) (\<lambda>(n, r). Option.bind (expect sep r) (k n))"

definition read_fraction :: "string \<Rightarrow> (nat \<times> string) option" where
  "read_fraction s = (case expect ''.'' s of None \<Rightarrow> Some (0, s) | Some r \<Rightarrow> read_digits 6 0 r)"

definition fromisoformat :: "string \<Rightarrow> datetime option" where
  "fromisoformat s =
     read_field 4 ''-'' (\<lambda>y. read_field 2 ''-'' (\<lambda>mo. read_field 2 ''T'' (\<lambda>d.
     read_field 2 '':'' (\<lambda>h. read_field 2 '':'' (\<lambda>mi. read_field 2 [] (\<lambda>se r.
       Option.bind (read_fraction r) (\<lambda>(us, r').
         let t = \<lparr>year = y, month = mo, day = d, hour = h, minute = mi, second = se, micro = us\<rparr> in
         if r' = ''+00:00'' \<and> valid_dt t then Some t else None))))))) s"

lemma is_digit_digit_char: "n < 10 \<Longrightarrow> is_digit (digit_char n)"
  by (simp add: is_digit_def code_digit_char)

lemma read_digits_pad:
  "n < 10 ^ w \<Longrightarrow> read_digits w acc (pad w n @ s) = Some (acc * 10 ^ w + n, s)"
proof (induction w arbitrary: n acc)
  case 0
  then show ?case by simp
next
  case (Suc w)
  let ?p = "10 ^ w :: nat"
  have q: "n div ?p < 10" using Suc.prems by (simp add: less_mult_imp_div_less mult.commute)
  have "read_digits w (10 * acc + n div ?p) (pad w (n mod ?p) @ s)
      = Some ((10 * acc + n div ?p) * ?p + n mod ?p, s)"
    by (rule Suc.IH) simp
  moreover have "(10 * acc + n div ?p) * ?p + n mod ?p = acc * 10 ^ Suc w + n"
    by (simp add: algebra_simps)
  ultimately show ?case using q by (simp add: is_digit_digit_char code_digit_char)
qed

lemma expect_append [simp]: "expect p (p @ s) = Some s"
  by (simp add: expect_def is_prefix_iff)

lemma read_field_pad:
  "n < 10 ^ w \<Longrightarrow> read_field w sep k (pad w n @ sep @ s) = k n s"
  by (simp add: read_field_def read_digits_pad)

lemma read_field_last:
  "n < 10 ^ w \<Longrightarrow> read_field w [] k (pad w n @ s) = k n s"
  using read_field_pad [of n w "[]" k s] by simp

lemma read_fraction_iso:
  "micro t < 1000000 \<Longrightarrow> read_fraction (iso_fraction t @ ''+00:00'') = Some (micro t, ''+00:00'')"
  using read_digits_pad [of "micro t" 6 0 "''+00:00''"]
  by (auto simp: read_fraction_def iso_fraction_def expect_def simp del: pad.simps)

lemma fromisoformat_isoformat:
  assumes "valid_dt t"
  shows "fromisoformat (isoformat t) = Some t"
proof -
  note w = valid_dt_widths [OF assms]
  show ?thesis
    unfolding fromisoformat_def isoformat_def
    by (simp only: read_field_pad [OF w(1)] read_field_pad [OF w(2)] read_field_pad [OF w(3)]
        read_field_pad [OF w(4)] read_field_pad [OF w(5)] read_field_last [OF w(6)]
        read_fraction_iso [OF w(7)]) (use assms in \<open>simp add: Let_def valid_dt_def\<close>)
qed

end
