(* ===== verification/JobStore.thy ===== *)
theory JobStore
  imports Timestamps
begin

text \<open>
  \<open>eda_agent/queue/store.py\<close>: the SQLite table \<open>jobs\<close> and the operations of \<open>JobStore\<close>.
  The table is the list of its rows in insertion order; a JSON column holds the value its
  text encodes; the clock, the fresh UUID, the caller's process id and the outcome of
  \<open>os.kill(pid, 0)\<close> are arguments of the operations that read them. Reading or writing the
  database file itself does not fail in the model.
\<close>

section \<open>Data\<close>

datatype job_status = PENDING | RUNNING | SUCCESS | FAILED | CANCELLED

fun status_value :: "job_status \<Rightarrow> string" where
  "status_value PENDING = ''pending''"
| "status_value RUNNING = ''running''"
| "status_value SUCCESS = ''success''"
| "status_value FAILED = ''failed''"
| "status_value CANCELLED = ''cancelled''"

text \<open>\<open>JobStatus(text)\<close>; \<open>None\<close> is its \<open>ValueError\<close>.\<close>

definition parse_status :: "string \<Rightarrow> job_status option" where
  "parse_status s =
     (if s = ''pending'' then Some PENDING else if s = ''running'' then Some RUNNING
      else if s = ''success'' then Some SUCCESS else if s = ''failed'' then Some FAILED
      else if s = ''cancelled'' then Some CANCELLED else None)"

lemma parse_status_value [simp]: "parse_status (status_value st) = Some st"
  by (cases st) (simp_all add: parse_status_def)

lemma status_value_inject [simp]: "status_value a = status_value b \<longleftrightarrow> a = b"
  by (metis parse_status_value option.inject)

lemma parse_status_Some: "parse_status s = Some st \<longleftrightarrow> s = status_value st"
  by (cases st) (auto simp: parse_status_def)

record job =
  job_id :: string
  backend :: string
  stage :: string
  design_name :: string
  design_config :: string
  pdk :: string
  params :: pyval
  status :: job_status
  run_db_id :: pyval
  log_path :: pyval
  error_message :: pyval
  worker_pid :: "int option"
  created_at :: datetime
  started_at :: "datetime option"
  finished_at :: "datetime option"
  stage_start :: "string option"
  stage_end :: "string option"
  run_mode :: string

text \<open>A row of the table \<open>jobs\<close>: the timestamps and the status are texts.\<close>

record job_row =
  row_id :: string
  row_backend :: string
  row_stage :: string
  row_design_name :: string
  row_design_config :: string
  row_pdk :: string
  row_params :: pyval
  row_status :: string
  row_run_db_id :: pyval
  row_log_path :: pyval
  row_error :: pyval
  row_pid :: "int option"
  row_created :: string
  row_started :: "string option"
  row_finished :: "string option"
  row_stage_start :: "string option"
  row_stage_end :: "string option"
  row_run_mode :: string

type_synonym jobs_table = "job_row list"

datatype store_error =
    IntegrityError string      \<comment> \<open>a second row with the same primary key\<close>
  | BadStatus string           \<comment> \<open>\<open>ValueError\<close> of \<open>JobStatus\<close>\<close>
  | NotNullFailed              \<comment> \<open>\<open>NULL\<close> for a column declared \<open>NOT NULL\<close>\<close>
  | UnbindableValue            \<comment> \<open>a list or dictionary as an SQL parameter\<close>

section \<open>Helpers\<close>

definition parse_dt :: "string option \<Rightarrow> datetime option" where
  "parse_dt s = (case s of None \<Rightarrow> None | Some t \<Rightarrow> if t = [] then None else fromisoformat t)"

definition fmt_dt :: "datetime option \<Rightarrow> string option" where
  "fmt_dt t = map_option isoformat t"

lemma isoformat_not_Nil [simp]: "isoformat t \<noteq> []"
  by (simp add: isoformat_def)

lemma parse_fmt_dt: "(\<forall>t. d = Some t \<longrightarrow> valid_dt t) \<Longrightarrow> parse_dt (fmt_dt d) = d"
  by (cases d) (simp_all add: parse_dt_def fmt_dt_def fromisoformat_isoformat)

text \<open>\<open>s or t\<close> on texts.\<close>

definition str_or :: "string \<Rightarrow> string \<Rightarrow> string" where
  "str_or s t = (if s = [] then t else s)"

text \<open>SQL's \<open>UPDATE jobs SET ... WHERE P\<close>, and the number of rows it touches.\<close>

definition update_where :: "(job_row \<Rightarrow> bool) \<Rightarrow> (job_row \<Rightarrow> job_row) \<Rightarrow> jobs_table \<Rightarrow> jobs_table" where
  "update_where P f t = map (\<lambda>r. if P r then f r else r) t"

definition rowcount :: "(job_row \<Rightarrow> bool) \<Rightarrow> jobs_table \<Rightarrow> nat" where
  "rowcount P t = length (filter P t)"

definition find_row :: "string \<Rightarrow> jobs_table \<Rightarrow> job_row option" where
  "find_row i t = find (\<lambda>r. row_id r = i) t"

text \<open>
  \<open>ORDER BY created_at\<close>: rows are inserted from the last one on, each in front of the first
  row it need not follow, so rows with the same text keep their insertion order.
\<close>

fun insert_by :: "(job_row \<Rightarrow> job_row \<Rightarrow> bool) \<Rightarrow> job_row \<Rightarrow> jobs_table \<Rightarrow> jobs_table" where
  "insert_by lt r [] = [r]"
| "insert_by lt r (x # xs) = (if lt x r then x # insert_by lt r xs else r # x # xs)"

definition order_by :: "(job_row \<Rightarrow> job_row \<Rightarrow> bool) \<Rightarrow> jobs_table \<Rightarrow> jobs_table" where
  "order_by lt t = foldr (insert_by lt) t []"

definition older :: "job_row \<Rightarrow> job_row \<Rightarrow> bool" where
  "older a b \<longleftrightarrow> str_lt (row_created a) (row_created b)"

definition newer :: "job_row \<Rightarrow> job_row \<Rightarrow> bool" where
  "newer a b \<longleftrightarrow> str_lt (row_created b) (row_created a)"

section \<open>Rows and jobs\<close>

text \<open>\<open>now\<close> stands in for an unreadable creation time, as in the source.\<close>

definition row_to_job :: "datetime \<Rightarrow> job_row \<Rightarrow> (store_error, job) result" where
  "row_to_job now r =
     (case parse_status (row_status r) of
        None \<Rightarrow> Inl (BadStatus (row_status r))
      | Some st \<Rightarrow> Inr
         \<lparr>job_id = row_id r, backend = row_backend r, stage = row_stage r,
          design_name = row_design_name r, design_config = row_design_config r,
          pdk = row_pdk r, params = row_params r, status = st,
          run_db_id = row_run_db_id r, log_path = row_log_path r,
          error_message = py_or (row_error r) (PStr []), worker_pid = row_pid r,
          created_at = (case parse_dt (Some (row_created r)) of None \<Rightarrow> now | Some t \<Rightarrow> t),
          started_at = parse_dt (row_started r), finished_at = parse_dt (row_finished r),
          stage_start = row_stage_start r, stage_end = row_stage_end r,
          run_mode = str_or (row_run_mode r) ''stage''\<rparr>)"

fun rows_to_jobs :: "datetime \<Rightarrow> jobs_table \<Rightarrow> (store_error, job list) result" where
  "rows_to_jobs now [] = Inr []"
| "rows_to_jobs now (r # rs) =
     ok_bind (row_to_job now r) (\<lambda>j. ok_bind (rows_to_jobs now rs) (\<lambda>js. Inr (j # js)))"

section \<open>Operations\<close>

text \<open>
  The caller's arguments of \<open>create_job\<close> and \<open>enqueue\<close>; \<open>ja_params\<close> is \<open>None\<close> when it is
  omitted.
\<close>

record job_args =
  ja_backend :: string
  ja_stage :: string
  ja_design_name :: string
  ja_design_config :: string
  ja_pdk :: string
  ja_params :: "pydict option"
  ja_stage_start :: "string option"
  ja_stage_end :: "string option"
  ja_run_mode :: string

definition params_or_empty :: "job_args \<Rightarrow> pyval" where
  "params_or_empty a = PDict (case ja_params a of None \<Rightarrow> [] | Some d \<Rightarrow> d)"

text \<open>
  The inserted row: the columns the \<open>INSERT\<close> does not name take their defaults (\<open>NULL\<close>,
  and the empty text for \<open>error_message\<close>).
\<close>

definition new_row :: "string \<Rightarrow> datetime \<Rightarrow> job_args \<Rightarrow> job_row" where
  "new_row uid now a =
     \<lparr>row_id = uid, row_backend = ja_backend a, row_stage = ja_stage a,
      row_design_name = ja_design_name a, row_design_config = ja_design_config a,
      row_pdk = ja_pdk a, row_params = params_or_empty a, row_status = ''pending'',
      row_run_db_id = PNone, row_log_path = PNone, row_error = PStr [], row_pid = None,
      row_created = isoformat now, row_started = None, row_finished = None,
      row_stage_start = ja_stage_start a, row_stage_end = ja_stage_end a,
      row_run_mode = ja_run_mode a\<rparr>"

definition create_job :: "string \<Rightarrow> datetime \<Rightarrow> job_args \<Rightarrow> jobs_table
    \<Rightarrow> (store_error, job \<times> jobs_table) result" where
  "create_job uid now a t =
     (if find_row uid t \<noteq> None then Inl (IntegrityError uid)
      else Inr
       (\<lparr>job_id = uid, backend = ja_backend a, stage = ja_stage a,
         design_name = ja_design_name a, design_config = ja_design_config a,
         pdk = ja_pdk a, params = params_or_empty a, status = PENDING,
         run_db_id = PNone, log_path = PNone, error_message = PStr [], worker_pid = None,
         created_at = now, started_at = None, finished_at = None,
         stage_start = ja_stage_start a, stage_end = ja_stage_end a, run_mode = ja_run_mode a\<rparr>,
        t @ [new_row uid now a]))"

definition enqueue :: "string \<Rightarrow> datetime \<Rightarrow> job_args \<Rightarrow> jobs_table
    \<Rightarrow> (store_error, string \<times> jobs_table) result" where
  "enqueue uid now a t = ok_bind (create_job uid now a t) (\<lambda>(j, t'). Inr (job_id j, t'))"

definition get_job :: "datetime \<Rightarrow> string \<Rightarrow> jobs_table \<Rightarrow> (store_error, job option) result" where
  "get_job now i t = (case find_row i t of None \<Rightarrow> Inr None
     | Some r \<Rightarrow> ok_bind (row_to_job now r) (\<lambda>j. Inr (Some j)))"

text \<open>The (id, worker) pairs of the first \<open>SELECT\<close> of \<open>_fix_stale_jobs\<close>.\<close>

definition running_rows :: "jobs_table \<Rightarrow> (string \<times> int option) list" where
  "running_rows t = map (\<lambda>r. (row_id r, row_pid r)) (filter (\<lambda>r. row_status r = ''running'') t)"

text \<open>
  What \<open>os.kill(pid, 0)\<close> does: returns, or raises \<open>ProcessLookupError\<close> or
  \<open>PermissionError\<close>. Both are an \<open>OSError\<close>, the class the code catches.
\<close>

datatype probe = Exists | NoProcess | NoPermission

definition probe_raises :: "probe \<Rightarrow> bool" where
  "probe_raises p \<longleftrightarrow> p \<noteq> Exists"

definition mark_stale :: "datetime \<Rightarrow> string \<Rightarrow> jobs_table \<Rightarrow> jobs_table" where
  "mark_stale now i t = update_where (\<lambda>r. row_id r = i)
     (\<lambda>r. r\<lparr>row_status := ''failed'', row_finished := Some (isoformat now)\<rparr>) t"

fun reap_rows :: "datetime \<Rightarrow> (int \<Rightarrow> probe) \<Rightarrow> (string \<times> int option) list \<Rightarrow> jobs_table \<Rightarrow> jobs_table" where
  "reap_rows now kill0 [] t = t"
| "reap_rows now kill0 ((i, pid) # rows) t =
     reap_rows now kill0 rows
       (case pid of None \<Rightarrow> t | Some p \<Rightarrow> if probe_raises (kill0 p) then mark_stale now i t else t)"

definition fix_stale_jobs :: "datetime \<Rightarrow> (int \<Rightarrow> probe) \<Rightarrow> job_status option \<Rightarrow> jobs_table
    \<Rightarrow> (store_error, job list) result \<times> jobs_table" where
  "fix_stale_jobs now kill0 st t =
     (let t' = reap_rows now kill0 (running_rows t) t;
          rows = (case st of
              Some s \<Rightarrow> order_by newer (filter (\<lambda>r. row_status r = status_value s) t')
            | None \<Rightarrow> order_by newer t')
      in (rows_to_jobs now rows, t'))"

definition list_jobs :: "datetime \<Rightarrow> (int \<Rightarrow> probe) \<Rightarrow> job_status option \<Rightarrow> jobs_table
    \<Rightarrow> (store_error, job list) result \<times> jobs_table" where
  "list_jobs now kill0 st t = fix_stale_jobs now kill0 st t"

text \<open>The transaction of \<open>claim_pending_job\<close>: \<open>None\<close> when it rolls back on an empty queue.\<close>

definition claim_txn :: "datetime \<Rightarrow> int \<Rightarrow> jobs_table \<Rightarrow> (string \<times> jobs_table) option" where
  "claim_txn now pid t =
     (case order_by older (filter (\<lambda>r. row_status r = ''pending'') t) of
        [] \<Rightarrow> None
      | row # _ \<Rightarrow> Some (row_id row, update_where (\<lambda>r. row_id r = row_id row)
          (\<lambda>r. r\<lparr>row_status := ''running'', row_started := Some (isoformat now), row_pid := Some pid\<rparr>) t))"

definition claim_pending_job :: "datetime \<Rightarrow> int \<Rightarrow> jobs_table
    \<Rightarrow> (store_error, job option) result \<times> jobs_table" where
  "claim_pending_job now pid t =
     (case claim_txn now pid t of None \<Rightarrow> (Inr None, t) | Some (i, t') \<Rightarrow> (get_job now i t', t'))"

fun bindable :: "pyval \<Rightarrow> bool" where
  "bindable (PList _) = False"
| "bindable (PDict _) = False"
| "bindable _ = True"

definition mark_done :: "datetime \<Rightarrow> string \<Rightarrow> job_status \<Rightarrow> pyval \<Rightarrow> pyval \<Rightarrow> pyval \<Rightarrow> jobs_table
    \<Rightarrow> (store_error, jobs_table) result" where
  "mark_done now i st rid lp err t =
     (if \<not> (bindable rid \<and> bindable lp \<and> bindable err) then Inl UnbindableValue
      else if err = PNone \<and> find_row i t \<noteq> None then Inl NotNullFailed
      else Inr (update_where (\<lambda>r. row_id r = i)
          (\<lambda>r. r\<lparr>row_status := status_value st, row_run_db_id := rid, row_log_path := lp,
                 row_error := err, row_finished := Some (isoformat now)\<rparr>) t))"

definition cancel_job :: "string \<Rightarrow> jobs_table \<Rightarrow> bool \<times> jobs_table" where
  "cancel_job i t =
     (let P = (\<lambda>r. row_id r = i \<and> row_status r = ''pending'')
      in (rowcount P t > 0, update_where P (\<lambda>r. r\<lparr>row_status := ''cancelled''\<rparr>) t))"

end
