(* ===== verification/JobQueue.thy ===== *)
theory JobQueue
  imports JobStore "HOL-Library.Multiset"
begin

text \<open>
  What the job table promises: the laws of its operations on the status of each job, stated
  as the interface \<open>job_queue\<close> the worker and the command line rely on, and the executions
  of several workers, clients and listings over one table as a step relation.
\<close>

section \<open>The table as a map from ids to statuses\<close>

definition status_of :: "jobs_table \<Rightarrow> string \<Rightarrow> job_status option" where
  "status_of t i = Option.bind (find_row i t) (\<lambda>r. parse_status (row_status r))"

definition ids :: "jobs_table \<Rightarrow> string list" where
  "ids t = map row_id t"

definition wf_table :: "jobs_table \<Rightarrow> bool" where
  "wf_table t \<longleftrightarrow> distinct (ids t) \<and> (\<forall>r \<in> set t. parse_status (row_status r) \<noteq> None)"

lemma find_row_Nil [simp]: "find_row i [] = None"
  by (simp add: find_row_def)

lemma find_row_Cons [simp]: "find_row i (r # t) = (if row_id r = i then Some r else find_row i t)"
  by (simp add: find_row_def)

lemma find_row_append: "find_row i (t @ u) = (case find_row i t of None \<Rightarrow> find_row i u | Some r \<Rightarrow> Some r)"
  by (induction t) auto

lemma find_row_None_iff: "find_row i t = None \<longleftrightarrow> i \<notin> set (ids t)"
  by (induction t) (auto simp: ids_def)

lemma find_row_SomeD: "find_row i t = Some r \<Longrightarrow> r \<in> set t \<and> row_id r = i"
  by (induction t) (auto split: if_splits)

lemma find_row_eq: "distinct (ids t) \<Longrightarrow> r \<in> set t \<Longrightarrow> find_row (row_id r) t = Some r"
  by (induction t) (auto simp: ids_def)

lemma ids_update_where [simp]: "(\<And>r. row_id (f r) = row_id r) \<Longrightarrow> ids (update_where P f t) = ids t"
  by (induction t) (auto simp: ids_def update_where_def)

lemma find_row_update_where:
  "(\<And>r. row_id (f r) = row_id r) \<Longrightarrow>
   find_row i (update_where P f t) = map_option (\<lambda>r. if P r then f r else r) (find_row i t)"
  by (induction t) (auto simp: update_where_def)

lemma wf_update_where:
  assumes "wf_table t" "\<And>r. row_id (f r) = row_id r" "\<And>r. P r \<Longrightarrow> parse_status (row_status (f r)) \<noteq> None"
  shows "wf_table (update_where P f t)"
  using assms by (auto simp: wf_table_def) (auto simp: update_where_def split: if_splits)

section \<open>The order of the queue\<close>

lemma mset_insert_by [simp]: "mset (insert_by lt r xs) = add_mset r (mset xs)"
  by (induction xs) auto

lemma mset_order_by [simp]: "mset (order_by lt t) = mset t"
  by (induction t) (auto simp: order_by_def)

lemma set_order_by [simp]: "set (order_by lt t) = set t"
  by (metis mset_order_by set_mset_mset)

text \<open>No row stands behind one it precedes.\<close>

definition ordered_by :: "(job_row \<Rightarrow> job_row \<Rightarrow> bool) \<Rightarrow> jobs_table \<Rightarrow> bool" where
  "ordered_by lt xs \<longleftrightarrow> sorted_wrt (\<lambda>a b. \<not> lt b a) xs"

lemma set_insert_by [simp]: "set (insert_by lt r xs) = insert r (set xs)"
  by (induction xs) auto

lemma ordered_insert_by:
  assumes asym: "\<And>a b. lt a b \<Longrightarrow> \<not> lt b a"
    and ntrans: "\<And>a b c. \<not> lt b a \<Longrightarrow> \<not> lt c b \<Longrightarrow> \<not> lt c a"
  shows "ordered_by lt xs \<Longrightarrow> ordered_by lt (insert_by lt r xs)"
proof (induction xs)
  case Nil
  then show ?case by (simp add: ordered_by_def)
next
  case (Cons x xs)
  then have xs: "ordered_by lt xs" "\<forall>y \<in> set xs. \<not> lt y x" by (auto simp: ordered_by_def)
  show ?case
  proof (cases "lt x r")
    case True
    with Cons.IH [OF xs(1)] xs(2) asym show ?thesis by (auto simp: ordered_by_def)
  next
    case False
    with xs have "\<forall>y \<in> set xs. \<not> lt y r" using ntrans by blast
    with False xs show ?thesis by (auto simp: ordered_by_def)
  qed
qed

lemma ordered_order_by:
  assumes "\<And>a b. lt a b \<Longrightarrow> \<not> lt b a" "\<And>a b c. \<not> lt b a \<Longrightarrow> \<not> lt c b \<Longrightarrow> \<not> lt c a"
  shows "ordered_by lt (order_by lt t)"
proof (induction t)
  case Nil
  then show ?case by (simp add: order_by_def ordered_by_def)
next
  case (Cons r t)
  then show ?case using ordered_insert_by [OF assms] by (simp add: order_by_def)
qed

lemma not_str_lt_trans: "\<not> str_lt b a \<Longrightarrow> \<not> str_lt c b \<Longrightarrow> \<not> str_lt c a"
  by (metis str_lt_linear str_lt_trans)

lemma ordered_older: "ordered_by older (order_by older t)"
  by (rule ordered_order_by) (auto simp: older_def dest: str_lt_asym not_str_lt_trans)

lemma ordered_newer: "ordered_by newer (order_by newer t)"
  by (rule ordered_order_by) (auto simp: newer_def dest: str_lt_asym not_str_lt_trans)

section \<open>Laws of the operations\<close>

lemma status_of_Some: "status_of t i = Some st \<longleftrightarrow> (\<exists>r. find_row i t = Some r \<and> row_status r = status_value st)"
  by (auto simp: status_of_def parse_status_Some split: bind_splits)

lemma status_of_None: "wf_table t \<Longrightarrow> status_of t i = None \<longleftrightarrow> i \<notin> set (ids t)"
  unfolding status_of_def find_row_None_iff [symmetric]
  by (auto simp: wf_table_def dest: find_row_SomeD split: bind_splits)

lemma create_job_Inr:
  "create_job uid now a t = Inr (j, t') \<longleftrightarrow>
     find_row uid t = None \<and> t' = t @ [new_row uid now a] \<and>
     j = \<lparr>job_id = uid, backend = ja_backend a, stage = ja_stage a,
         design_name = ja_design_name a, design_config = ja_design_config a,
         pdk = ja_pdk a, params = params_or_empty a, status = PENDING,
         run_db_id = PNone, log_path = PNone, error_message = PStr [], worker_pid = None,
         created_at = now, started_at = None, finished_at = None,
         stage_start = ja_stage_start a, stage_end = ja_stage_end a, run_mode = ja_run_mode a\<rparr>"
  by (auto simp: create_job_def)

lemma wf_create_job: "wf_table t \<Longrightarrow> create_job uid now a t = Inr (j, t') \<Longrightarrow> wf_table t'"
  by (auto simp: create_job_Inr wf_table_def find_row_None_iff ids_def new_row_def parse_status_def)

lemma status_create_job:
  "create_job uid now a t = Inr (j, t') \<Longrightarrow> status_of t' = (status_of t)(uid \<mapsto> PENDING)"
  by (auto simp: create_job_Inr status_of_def find_row_append new_row_def parse_status_def
      fun_eq_iff split: option.splits)

lemma order_by_hd:
  assumes "order_by older (filter (\<lambda>r. row_status r = ''pending'') t) = row # rest"
  shows "row \<in> set t" "row_status row = ''pending''"
    "\<forall>r \<in> set t. row_status r = ''pending'' \<longrightarrow> \<not> older r row"
proof -
  have s: "set (row # rest) = {r \<in> set t. row_status r = ''pending''}"
    unfolding assms [symmetric] by simp
  then show "row \<in> set t" "row_status row = ''pending''" by auto
  have "ordered_by older (row # rest)" unfolding assms [symmetric] by (rule ordered_older)
  then have "\<forall>r \<in> set (row # rest). \<not> older r row" by (auto simp: ordered_by_def older_def)
  with s show "\<forall>r \<in> set t. row_status r = ''pending'' \<longrightarrow> \<not> older r row" by auto
qed

lemma claim_txn_Some:
  assumes "claim_txn now pid t = Some (i, t')"
  obtains row where "row \<in> set t" "row_id row = i" "row_status row = ''pending''"
    "\<forall>r \<in> set t. row_status r = ''pending'' \<longrightarrow> \<not> older r row"
    "t' = update_where (\<lambda>r. row_id r = i)
       (\<lambda>r. r\<lparr>row_status := ''running'', row_started := Some (isoformat now), row_pid := Some pid\<rparr>) t"
proof (cases "order_by older (filter (\<lambda>r. row_status r = ''pending'') t)")
  case Nil
  with assms show ?thesis by (simp add: claim_txn_def)
next
  case (Cons row rest)
  with assms have "row_id row = i" and "t' = update_where (\<lambda>r. row_id r = i)
       (\<lambda>r. r\<lparr>row_status := ''running'', row_started := Some (isoformat now), row_pid := Some pid\<rparr>) t"
    by (auto simp: claim_txn_def)
  with order_by_hd [OF Cons] that show ?thesis by blast
qed

lemma claim_txn_None: "claim_txn now pid t = None \<longleftrightarrow> (\<forall>r \<in> set t. row_status r \<noteq> ''pending'')"
proof -
  have "claim_txn now pid t = None \<longleftrightarrow> order_by older (filter (\<lambda>r. row_status r = ''pending'') t) = []"
    by (auto simp: claim_txn_def split: list.splits)
  also have "\<dots> \<longleftrightarrow> filter (\<lambda>r. row_status r = ''pending'') t = []"
    by (metis mset_order_by mset_zero_iff)
  finally show ?thesis by (simp add: filter_empty_conv)
qed

lemma status_update_where:
  assumes "\<And>r. row_id (f r) = row_id r" "\<And>r. row_status (f r) = s" "parse_status s = Some st"
  shows "status_of (update_where (\<lambda>r. row_id r = i) f t) =
    (if find_row i t = None then status_of t else (status_of t)(i \<mapsto> st))"
proof
  fix k
  show "status_of (update_where (\<lambda>r. row_id r = i) f t) k =
    (if find_row i t = None then status_of t else (status_of t)(i \<mapsto> st)) k"
    using assms by (cases "find_row k t") (auto simp: status_of_def find_row_update_where dest: find_row_SomeD)
qed

lemma wf_claim_txn: "wf_table t \<Longrightarrow> claim_txn now pid t = Some (i, t') \<Longrightarrow> wf_table t'"
  by (erule claim_txn_Some) (auto intro!: wf_update_where simp: parse_status_def)

lemma status_claim_txn:
  assumes "wf_table t" "claim_txn now pid t = Some (i, t')"
  shows "status_of t i = Some PENDING" "status_of t' = (status_of t)(i \<mapsto> RUNNING)"
proof -
  from assms(2) obtain row where row: "row \<in> set t" "row_id row = i" "row_status row = ''pending''"
    and t': "t' = update_where (\<lambda>r. row_id r = i)
       (\<lambda>r. r\<lparr>row_status := ''running'', row_started := Some (isoformat now), row_pid := Some pid\<rparr>) t"
    by (rule claim_txn_Some)
  from row assms(1) have f: "find_row i t = Some row" using find_row_eq by (auto simp: wf_table_def)
  with row show "status_of t i = Some PENDING" by (simp add: status_of_def parse_status_def)
  show "status_of t' = (status_of t)(i \<mapsto> RUNNING)"
    unfolding t' by (subst status_update_where [where s = "''running''" and st = RUNNING])
      (simp_all add: f parse_status_def)
qed

lemma wf_mark_done: "wf_table t \<Longrightarrow> mark_done now i st rid lp err t = Inr t' \<Longrightarrow> wf_table t'"
  by (auto simp: mark_done_def intro!: wf_update_where split: if_splits)

lemma status_mark_done:
  "mark_done now i st rid lp err t = Inr t' \<Longrightarrow>
   status_of t' = (if find_row i t = None then status_of t else (status_of t)(i \<mapsto> st))"
  unfolding mark_done_def
  by (auto split: if_splits simp: status_update_where [where s = "status_value st" and st = st])

lemma wf_cancel_job: "wf_table t \<Longrightarrow> wf_table (snd (cancel_job i t))"
  by (auto simp: cancel_job_def Let_def parse_status_def intro!: wf_update_where)

lemma cancel_job_spec:
  assumes "wf_table t"
  shows "fst (cancel_job i t) \<longleftrightarrow> status_of t i = Some PENDING"
    "status_of (snd (cancel_job i t)) =
      (if status_of t i = Some PENDING then (status_of t)(i \<mapsto> CANCELLED) else status_of t)"
proof -
  have "fst (cancel_job i t) \<longleftrightarrow> (\<exists>r \<in> set t. row_id r = i \<and> row_status r = ''pending'')"
    by (auto simp: cancel_job_def Let_def rowcount_def filter_empty_conv)
  also have "\<dots> \<longleftrightarrow> status_of t i = Some PENDING"
    using assms by (auto simp: status_of_Some wf_table_def dest: find_row_SomeD find_row_eq)
  finally show "fst (cancel_job i t) \<longleftrightarrow> status_of t i = Some PENDING" .
  have "status_of (snd (cancel_job i t)) k = (if status_of t i = Some PENDING then (status_of t)(i \<mapsto> CANCELLED) else status_of t) k" for k
    by (cases "find_row k t")
      (auto simp: cancel_job_def Let_def status_of_def find_row_update_where parse_status_def dest: find_row_SomeD)
  then show "status_of (snd (cancel_job i t)) =
      (if status_of t i = Some PENDING then (status_of t)(i \<mapsto> CANCELLED) else status_of t)" by blast
qed

lemma wf_mark_stale: "wf_table t \<Longrightarrow> wf_table (mark_stale now i t)"
  by (auto simp: mark_stale_def parse_status_def intro!: wf_update_where)

lemma status_mark_stale:
  "status_of (mark_stale now i t) = (if find_row i t = None then status_of t else (status_of t)(i \<mapsto> FAILED))"
  unfolding mark_stale_def
  by (rule status_update_where [where s = "''failed''"]) (simp_all add: parse_status_def)

lemma wf_reap_rows: "wf_table t \<Longrightarrow> wf_table (reap_rows now kill0 rows t)"
  by (induction now kill0 rows t rule: reap_rows.induct) (auto simp: wf_mark_stale split: option.splits)

section \<open>The interface of the queue\<close>

text \<open>
  The contract between the store and its clients, on an abstract queue: the statuses it
  holds, and what each operation does to them.
\<close>

locale job_queue =
  fixes st :: "'q \<Rightarrow> string \<Rightarrow> job_status option"
    and inv :: "'q \<Rightarrow> bool"
    and submit :: "string \<Rightarrow> 'q \<Rightarrow> 'q option"
    and claim :: "'q \<Rightarrow> (string \<times> 'q) option"
    and finish :: "string \<Rightarrow> job_status \<Rightarrow> 'q \<Rightarrow> 'q"
    and cancel :: "string \<Rightarrow> 'q \<Rightarrow> bool \<times> 'q"
  assumes submit_inv: "inv q \<Longrightarrow> submit i q = Some q' \<Longrightarrow> inv q'"
    and submit_st: "inv q \<Longrightarrow> submit i q = Some q' \<Longrightarrow> st q i = None \<and> st q' = (st q)(i \<mapsto> PENDING)"
    and claim_inv: "inv q \<Longrightarrow> claim q = Some (i, q') \<Longrightarrow> inv q'"
    and claim_st: "inv q \<Longrightarrow> claim q = Some (i, q') \<Longrightarrow>
      st q i = Some PENDING \<and> st q' = (st q)(i \<mapsto> RUNNING)"
    and claim_empty: "inv q \<Longrightarrow> claim q = None \<Longrightarrow> st q i \<noteq> Some PENDING"
    and finish_inv: "inv q \<Longrightarrow> inv (finish i s q)"
    and finish_st: "inv q \<Longrightarrow> st (finish i s q) = (if st q i = None then st q else (st q)(i \<mapsto> s))"
    and cancel_inv: "inv q \<Longrightarrow> inv (snd (cancel i q))"
    and cancel_flag: "inv q \<Longrightarrow> fst (cancel i q) \<longleftrightarrow> st q i = Some PENDING"
    and cancel_st: "inv q \<Longrightarrow> st (snd (cancel i q)) =
      (if st q i = Some PENDING then (st q)(i \<mapsto> CANCELLED) else st q)"
begin

lemma claim_distinct:
  assumes "inv q" "claim q = Some (i, q1)" "claim q1 = Some (j, q2)"
  shows "i \<noteq> j"
  using claim_st [OF assms(1,2)] claim_st [OF claim_inv [OF assms(1,2)] assms(3)] by auto

lemma cancelled_not_claimed:
  assumes "inv q" "fst (cancel i q)" "claim (snd (cancel i q)) = Some (j, q')"
  shows "j \<noteq> i"
  using assms cancel_st [OF assms(1)] cancel_flag [OF assms(1)]
    claim_st [OF cancel_inv [OF assms(1)] assms(3)] by auto

lemma claimed_not_cancellable:
  assumes "inv q" "claim q = Some (i, q')"
  shows "\<not> fst (cancel i q')" "st (snd (cancel i q')) = st q'"
  using claim_st [OF assms] cancel_flag [OF claim_inv [OF assms]] cancel_st [OF claim_inv [OF assms]]
  by auto

lemma cancel_twice:
  assumes "inv q"
  shows "\<not> fst (cancel i (snd (cancel i q)))"
  using cancel_flag [OF cancel_inv [OF assms]] cancel_st [OF assms] by auto

lemma submit_then_claimable:
  assumes "inv q" "submit i q = Some q'"
  shows "claim q' \<noteq> None"
  using claim_empty [OF submit_inv [OF assms], of i] submit_st [OF assms]
  by (cases "claim q'") auto

end

definition submit_opt :: "datetime \<Rightarrow> job_args \<Rightarrow> string \<Rightarrow> jobs_table \<Rightarrow> jobs_table option" where
  "submit_opt now a i t = (case create_job i now a t of Inl _ \<Rightarrow> None | Inr (_, t') \<Rightarrow> Some t')"

definition finish_plain :: "datetime \<Rightarrow> string \<Rightarrow> job_status \<Rightarrow> jobs_table \<Rightarrow> jobs_table" where
  "finish_plain now i s t = (case mark_done now i s PNone PNone (PStr []) t of Inl _ \<Rightarrow> t | Inr t' \<Rightarrow> t')"

interpretation jq: job_queue status_of wf_table "submit_opt now a" "claim_txn now pid"
  "finish_plain now" cancel_job for now a pid
proof (unfold_locales, goal_cases)
  case (1 q i q')
  then show ?case by (auto simp: submit_opt_def wf_create_job split: sum.splits)
next
  case (2 q i q')
  then obtain j where "create_job i now a q = Inr (j, q')"
    by (auto simp: submit_opt_def split: sum.splits)
  then show ?case
    using status_create_job by (auto simp: create_job_Inr status_of_def)
next
  case (3 q i q')
  then show ?case by (rule wf_claim_txn)
next
  case (4 q i q')
  then show ?case using status_claim_txn by blast
next
  case (5 q i)
  then show ?case by (auto simp: claim_txn_None status_of_Some dest: find_row_SomeD)
next
  case (6 q i s)
  then show ?case by (auto simp: finish_plain_def wf_mark_done split: sum.splits)
next
  case (7 q i s)
  have "mark_done now i s PNone PNone (PStr []) q = Inr (finish_plain now i s q)"
    by (simp add: finish_plain_def mark_done_def)
  from status_mark_done [OF this] 7 show ?case
    by (auto simp: status_of_None find_row_None_iff)
next
  case (8 q i)
  then show ?case by (rule wf_cancel_job)
next
  case (9 q i)
  then show ?case by (rule cancel_job_spec)
next
  case (10 q i)
  then show ?case by (rule cancel_job_spec)
qed

end
