(* ===== verification/QueueSystem.thy ===== *)
theory QueueSystem
  imports JobQueue
begin

text \<open>
  Executions of the queue: worker processes that claim jobs and report their results, clients
  that submit and cancel, and listings. Two granularities: \<open>q_step\<close> lets other processes act
  between the \<open>SELECT\<close>, the probe and the \<open>UPDATE\<close> of \<open>_fix_stale_jobs\<close>, which the store's
  autocommit connection allows; \<open>a_step\<close> runs a whole listing at once, with probes that tell
  the truth about the worker processes.
\<close>

section \<open>States and steps\<close>

text \<open>
  \<open>alive\<close>: the process ids of the running workers; \<open>execs\<close>: the job each busy worker executes;
  \<open>scans\<close>: the (job, worker) pairs a listing has read and not yet probed; \<open>claimed\<close> records
  every successful claim.
\<close>

record qsys =
  tbl :: jobs_table
  alive :: "int set"
  execs :: "(int \<times> string) list"
  scans :: "(string \<times> int) list"
  claimed :: "string list"

definition init_sys :: qsys where
  "init_sys = \<lparr>tbl = [], alive = {}, execs = [], scans = [], claimed = []\<rparr>"

definition drop_exec :: "int \<Rightarrow> (int \<times> string) list \<Rightarrow> (int \<times> string) list" where
  "drop_exec p es = filter (\<lambda>e. fst e \<noteq> p) es"

definition scanned :: "jobs_table \<Rightarrow> (string \<times> int) list" where
  "scanned t = concat (map (\<lambda>(i, p). case p of None \<Rightarrow> [] | Some q \<Rightarrow> [(i, q)]) (running_rows t))"

text \<open>\<open>fp\<close>: the processes of other users, on which the probe raises \<open>PermissionError\<close>.\<close>

inductive q_step :: "int set \<Rightarrow> qsys \<Rightarrow> qsys \<Rightarrow> bool" for fp where
  start: "p \<notin> alive s \<Longrightarrow> q_step fp s (s\<lparr>alive := insert p (alive s)\<rparr>)"
| submit: "create_job uid now a (tbl s) = Inr (j, t') \<Longrightarrow> q_step fp s (s\<lparr>tbl := t'\<rparr>)"
| claim: "p \<in> alive s \<Longrightarrow> p \<notin> fst ` set (execs s) \<Longrightarrow> claim_txn now p (tbl s) = Some (i, t') \<Longrightarrow>
    q_step fp s (s\<lparr>tbl := t', execs := (p, i) # execs s, claimed := i # claimed s\<rparr>)"
| finish: "(p, i) \<in> set (execs s) \<Longrightarrow> st \<in> {SUCCESS, FAILED} \<Longrightarrow>
    mark_done now i st rid lp err (tbl s) = Inr t' \<Longrightarrow>
    q_step fp s (s\<lparr>tbl := t', execs := drop_exec p (execs s)\<rparr>)"
| die: "q_step fp s (s\<lparr>alive := alive s - {p}, execs := drop_exec p (execs s)\<rparr>)"
| cancel: "q_step fp s (s\<lparr>tbl := snd (cancel_job i (tbl s))\<rparr>)"
| scan: "q_step fp s (s\<lparr>scans := scans s @ scanned (tbl s)\<rparr>)"
| reap: "(i, p) \<in> set (scans s) \<Longrightarrow> p \<notin> alive s \<or> p \<in> fp \<Longrightarrow>
    q_step fp s (s\<lparr>tbl := mark_stale now i (tbl s), scans := remove1 (i, p) (scans s)\<rparr>)"

inductive_simps q_step_iff: "q_step fp s s'"

definition q_reachable :: "int set \<Rightarrow> qsys \<Rightarrow> bool" where
  "q_reachable fp s \<longleftrightarrow> (q_step fp)\<^sup>*\<^sup>* init_sys s"

section \<open>The invariant\<close>

definition started_st :: "job_status option \<Rightarrow> bool" where
  "started_st x \<longleftrightarrow> x \<in> {Some RUNNING, Some SUCCESS, Some FAILED}"

definition sys_inv :: "qsys \<Rightarrow> bool" where
  "sys_inv s \<longleftrightarrow> wf_table (tbl s) \<and> distinct (claimed s) \<and>
     (\<forall>i. started_st (status_of (tbl s) i) \<longleftrightarrow> i \<in> set (claimed s)) \<and>
     snd ` set (execs s) \<subseteq> set (claimed s) \<and> fst ` set (scans s) \<subseteq> set (claimed s) \<and>
     distinct (map fst (execs s)) \<and> distinct (map snd (execs s))"

lemma started_st_simps [simp]:
  "started_st (Some RUNNING)" "started_st (Some SUCCESS)" "started_st (Some FAILED)"
  "\<not> started_st None" "\<not> started_st (Some PENDING)" "\<not> started_st (Some CANCELLED)"
  by (simp_all add: started_st_def)

lemma set_drop_exec: "set (drop_exec p es) \<subseteq> set es"
  by (auto simp: drop_exec_def)

lemma distinct_drop_exec:
  "distinct (map f es) \<Longrightarrow> distinct (map f (drop_exec p es))"
  by (simp add: drop_exec_def distinct_map_filter)

lemma scanned_running: "(i, p) \<in> set (scanned t) \<Longrightarrow> \<exists>r \<in> set t. row_id r = i \<and> row_status r = ''running''"
  by (auto simp: scanned_def running_rows_def split: option.splits)

lemma wf_row_status: "wf_table t \<Longrightarrow> r \<in> set t \<Longrightarrow> status_of t (row_id r) = parse_status (row_status r)"
  by (simp add: status_of_def wf_table_def find_row_eq)

lemma scanned_started:
  assumes "wf_table t" "(i, p) \<in> set (scanned t)"
  shows "started_st (status_of t i)"
proof -
  from scanned_running [OF assms(2)] obtain r where "r \<in> set t" "row_id r = i" "row_status r = ''running''"
    by blast
  with wf_row_status [OF assms(1), of r] show ?thesis by (simp add: parse_status_def)
qed

lemma fresh_status: "create_job uid now a t = Inr (j, t') \<Longrightarrow> status_of t uid = None"
  by (simp add: create_job_Inr status_of_def)

lemma sys_inv_execD:
  assumes "sys_inv s" "(p, i) \<in> set (execs s)"
  shows "started_st (status_of (tbl s) i)"
proof -
  have "i \<in> snd ` set (execs s)" using assms(2) by (rule rev_image_eqI) simp
  moreover have "snd ` set (execs s) \<subseteq> set (claimed s)" using assms(1) by (simp add: sys_inv_def)
  ultimately show ?thesis using assms(1) by (auto simp: sys_inv_def)
qed

lemma sys_inv_scanD:
  assumes "sys_inv s" "(i, p) \<in> set (scans s)"
  shows "started_st (status_of (tbl s) i)"
proof -
  have "i \<in> fst ` set (scans s)" using assms(2) by (rule rev_image_eqI) simp
  moreover have "fst ` set (scans s) \<subseteq> set (claimed s)" using assms(1) by (simp add: sys_inv_def)
  ultimately show ?thesis using assms(1) by (auto simp: sys_inv_def)
qed

lemma sys_inv_init: "sys_inv init_sys"
  by (auto simp: sys_inv_def init_sys_def wf_table_def ids_def status_of_def)

lemma sys_inv_status:
  assumes inv: "sys_inv s" and t: "wf_table t'"
    and st: "\<And>i. started_st (status_of t' i) \<longleftrightarrow> started_st (status_of (tbl s) i)"
    and sub: "set es \<subseteq> set (execs s)" "distinct (map fst es)" "distinct (map snd es)"
    and sc: "set sc \<subseteq> set (scans s)"
  shows "sys_inv (s\<lparr>tbl := t', execs := es, scans := sc\<rparr>)"
proof -
  have "snd ` set es \<subseteq> set (claimed s)" "fst ` set sc \<subseteq> set (claimed s)"
    using inv image_mono [OF sub(1), of snd] image_mono [OF sc, of fst]
    by (simp_all only: sys_inv_def) (meson subset_trans)+
  with inv t st sub show ?thesis by (simp add: sys_inv_def)
qed

lemma sys_inv_step: "q_step fp s s' \<Longrightarrow> sys_inv s \<Longrightarrow> sys_inv s'"
proof (induction rule: q_step.induct)
  case (start p s)
  then show ?case by (simp add: sys_inv_def)
next
  case (submit uid now a s j t')
  then have w: "wf_table (tbl s)" by (simp add: sys_inv_def)
  note t' = wf_create_job [OF w submit.hyps]
  have "status_of (tbl s) uid = None" using submit.hyps by (rule fresh_status)
  then have "started_st (status_of t' i) = started_st (status_of (tbl s) i)" for i
    by (simp add: status_create_job [OF submit.hyps])
  with submit.prems t' show ?case by (simp add: sys_inv_def)
next
  case (claim p s now i t')
  then have w: "wf_table (tbl s)" by (simp add: sys_inv_def)
  note st = status_claim_txn [OF w claim.hyps(3)] and w' = wf_claim_txn [OF w claim.hyps(3)]
  from claim.prems have iff: "started_st (status_of (tbl s) k) \<longleftrightarrow> k \<in> set (claimed s)" for k
    by (simp add: sys_inv_def)
  from iff [of i] st(1) have new: "i \<notin> set (claimed s)" by simp
  moreover from new claim.prems have "i \<notin> set (map snd (execs s))" by (auto simp: sys_inv_def)
  moreover have "started_st (status_of t' k) \<longleftrightarrow> k \<in> set (i # claimed s)" for k
    by (simp add: st(2) iff)
  ultimately show ?case using claim.prems claim.hyps(2) w'
    by (simp add: sys_inv_def subset_insertI2)
next
  case (finish p i s st now rid lp err t')
  then have w: "wf_table (tbl s)" by (simp add: sys_inv_def)
  have "started_st (status_of (tbl s) i)" by (rule sys_inv_execD [OF finish.prems finish.hyps(1)])
  then have "started_st (status_of t' k) = started_st (status_of (tbl s) k)" for k
    using finish.hyps(2) by (auto simp: status_mark_done [OF finish.hyps(3)])
  with sys_inv_status [OF finish.prems wf_mark_done [OF w finish.hyps(3)], of "drop_exec p (execs s)" "scans s"]
  show ?case using finish.prems set_drop_exec by (simp add: sys_inv_def distinct_drop_exec)
next
  case (die s p)
  then show ?case using set_drop_exec [of p "execs s"] by (auto simp: sys_inv_def distinct_drop_exec)
next
  case (cancel s i)
  then have w: "wf_table (tbl s)" by (simp add: sys_inv_def)
  have "started_st (status_of (snd (cancel_job i (tbl s))) k) = started_st (status_of (tbl s) k)" for k
    by (simp add: cancel_job_spec(2) [OF w])
  with cancel wf_cancel_job [OF w] show ?case by (simp add: sys_inv_def)
next
  case (scan s)
  then have "fst ` set (scanned (tbl s)) \<subseteq> set (claimed s)"
    using scanned_started by (auto simp: sys_inv_def)
  with scan show ?case by (auto simp: sys_inv_def)
next
  case (reap i p s now)
  then have w: "wf_table (tbl s)" by (simp add: sys_inv_def)
  have "started_st (status_of (tbl s) i)" by (rule sys_inv_scanD [OF reap.prems reap.hyps(1)])
  then have "started_st (status_of (mark_stale now i (tbl s)) k) = started_st (status_of (tbl s) k)" for k
    by (simp add: status_mark_stale)
  with sys_inv_status [OF reap.prems wf_mark_stale [OF w], of now i "execs s" "remove1 (i, p) (scans s)"]
  show ?case using reap.prems set_remove1_subset [of "(i, p)" "scans s"] by (simp add: sys_inv_def)
qed

lemma sys_inv_steps: "(q_step fp)\<^sup>*\<^sup>* s s' \<Longrightarrow> sys_inv s \<Longrightarrow> sys_inv s'"
  by (induction rule: rtranclp_induct) (auto intro: sys_inv_step)

lemma reachable_inv: "q_reachable fp s \<Longrightarrow> sys_inv s"
  unfolding q_reachable_def by (rule sys_inv_steps [OF _ sys_inv_init])

section \<open>Statuses over time\<close>

text \<open>A cancelled job and a job that has left the pending state stay that way.\<close>

lemma cancelled_step:
  "q_step fp s s' \<Longrightarrow> sys_inv s \<Longrightarrow> status_of (tbl s) k = Some CANCELLED \<Longrightarrow> status_of (tbl s') k = Some CANCELLED"
proof (induction rule: q_step.induct)
  case (submit uid now a s j t')
  then have "k \<noteq> uid" using fresh_status by fastforce
  with submit show ?case by (simp add: status_create_job)
next
  case (claim p s now i t')
  then show ?case using status_claim_txn [of "tbl s" now p i t'] by (auto simp: sys_inv_def)
next
  case (finish p i s st now rid lp err t')
  have "started_st (status_of (tbl s) i)" by (rule sys_inv_execD [OF finish.prems(1) finish.hyps(1)])
  with finish show ?case by (auto simp: status_mark_done)
next
  case (cancel s i)
  then show ?case by (simp add: cancel_job_spec(2) sys_inv_def)
next
  case (reap i p s now)
  have "started_st (status_of (tbl s) i)" by (rule sys_inv_scanD [OF reap.prems(1) reap.hyps(1)])
  with reap show ?case by (auto simp: status_mark_stale)
qed simp_all

lemma claimed_step: "q_step fp s s' \<Longrightarrow> set (claimed s) \<subseteq> set (claimed s')"
  by (induction rule: q_step.induct) auto

lemma claimed_steps: "(q_step fp)\<^sup>*\<^sup>* s s' \<Longrightarrow> set (claimed s) \<subseteq> set (claimed s')"
  by (induction rule: rtranclp_induct) (auto dest: claimed_step)

lemma cancelled_steps:
  assumes "(q_step fp)\<^sup>*\<^sup>* s s'" "sys_inv s" "status_of (tbl s) k = Some CANCELLED"
  shows "status_of (tbl s') k = Some CANCELLED"
  using assms(1)
proof (induction rule: rtranclp_induct)
  case base
  show ?case by (rule assms(3))
next
  case (step y z)
  from sys_inv_steps [OF step.hyps(1) assms(2)] show ?case
    using cancelled_step [OF step.hyps(2)] step.IH by blast
qed

section \<open>Listings that run at once\<close>

inductive a_step :: "qsys \<Rightarrow> qsys \<Rightarrow> bool" where
  a_start: "p \<notin> alive s \<Longrightarrow> a_step s (s\<lparr>alive := insert p (alive s)\<rparr>)"
| a_submit: "create_job uid now a (tbl s) = Inr (j, t') \<Longrightarrow> a_step s (s\<lparr>tbl := t'\<rparr>)"
| a_claim: "p \<in> alive s \<Longrightarrow> p \<notin> fst ` set (execs s) \<Longrightarrow> claim_txn now p (tbl s) = Some (i, t') \<Longrightarrow>
    a_step s (s\<lparr>tbl := t', execs := (p, i) # execs s, claimed := i # claimed s\<rparr>)"
| a_finish: "(p, i) \<in> set (execs s) \<Longrightarrow> st \<in> {SUCCESS, FAILED} \<Longrightarrow>
    mark_done now i st rid lp err (tbl s) = Inr t' \<Longrightarrow>
    a_step s (s\<lparr>tbl := t', execs := drop_exec p (execs s)\<rparr>)"
| a_die: "a_step s (s\<lparr>alive := alive s - {p}, execs := drop_exec p (execs s)\<rparr>)"
| a_cancel: "a_step s (s\<lparr>tbl := snd (cancel_job i (tbl s))\<rparr>)"
| a_list: "(\<forall>p \<in> alive s. kill0 p = Exists) \<Longrightarrow>
    a_step s (s\<lparr>tbl := snd (list_jobs now kill0 wanted (tbl s))\<rparr>)"

text \<open>Every busy worker lives, and its job's row is running under its process id.\<close>

definition exec_ok :: "qsys \<Rightarrow> jobs_table \<Rightarrow> int \<times> string \<Rightarrow> bool" where
  "exec_ok s t e \<longleftrightarrow> fst e \<in> alive s \<and>
     (\<exists>r. find_row (snd e) t = Some r \<and> row_status r = ''running'' \<and> row_pid r = Some (fst e))"

definition a_inv :: "qsys \<Rightarrow> bool" where
  "a_inv s \<longleftrightarrow> wf_table (tbl s) \<and> (\<forall>e \<in> set (execs s). exec_ok s (tbl s) e)"

definition done_row :: "job_row \<Rightarrow> bool" where
  "done_row r \<longleftrightarrow> row_status r \<in> {''success'', ''failed'', ''cancelled''}"

lemma done_row_status: "done_row r \<Longrightarrow> row_status r \<noteq> ''running'' \<and> row_status r \<noteq> ''pending''"
  by (auto simp: done_row_def)

lemma find_row_update_id:
  "(\<And>r. row_id (f r) = row_id r) \<Longrightarrow>
   find_row k (update_where (\<lambda>r. row_id r = i) f t) = (if k = i then map_option f (find_row k t) else find_row k t)"
  by (cases "find_row k t") (auto simp: find_row_update_where dest: find_row_SomeD)

lemma find_row_mark_stale: "k \<noteq> i \<Longrightarrow> find_row k (mark_stale now i t) = find_row k t"
  by (simp add: mark_stale_def find_row_update_id)

lemma find_row_reap:
  "(\<And>p. (k, Some p) \<in> set rows \<Longrightarrow> kill0 p = Exists) \<Longrightarrow> find_row k (reap_rows now kill0 rows t) = find_row k t"
proof (induction now kill0 rows t rule: reap_rows.induct)
  case (1 now kill0 t)
  then show ?case by simp
next
  case (2 now kill0 i pid rows t)
  let ?t = "case pid of None \<Rightarrow> t | Some p \<Rightarrow> if probe_raises (kill0 p) then mark_stale now i t else t"
  have "find_row k (reap_rows now kill0 rows ?t) = find_row k ?t"
    by (rule "2.IH") (use "2.prems" in auto)
  moreover have "find_row k ?t = find_row k t"
    using "2.prems" find_row_mark_stale [of k i now t]
    by (cases pid; cases "k = i") (auto simp: probe_raises_def)
  ultimately show ?case by simp
qed

lemma snd_list_jobs: "snd (list_jobs now kill0 st t) = reap_rows now kill0 (running_rows t) t"
  by (simp add: list_jobs_def fix_stale_jobs_def Let_def)

lemma running_rowsD:
  assumes "wf_table t" "(k, p) \<in> set (running_rows t)"
  shows "\<exists>r. find_row k t = Some r \<and> row_status r = ''running'' \<and> row_pid r = p"
proof -
  from assms(2) obtain r where "r \<in> set t" "row_id r = k" "row_status r = ''running''" "row_pid r = p"
    by (auto simp: running_rows_def)
  with assms(1) find_row_eq [of t r] show ?thesis by (auto simp: wf_table_def)
qed

lemma list_keeps:
  assumes "wf_table t" "find_row k t = Some r"
    and "row_status r = ''running'' \<Longrightarrow> \<exists>p. row_pid r = Some p \<and> kill0 p = Exists"
  shows "find_row k (snd (list_jobs now kill0 st t)) = Some r"
  unfolding snd_list_jobs assms(2) [symmetric]
  by (rule find_row_reap) (use assms running_rowsD [OF assms(1)] in fastforce)

lemma create_keeps:
  "create_job uid now a t = Inr (j, t') \<Longrightarrow> find_row k t = Some r \<Longrightarrow> find_row k t' = Some r"
  by (auto simp: create_job_Inr find_row_append)

lemma cancel_keeps:
  "find_row k t = Some r \<Longrightarrow> row_status r \<noteq> ''pending'' \<Longrightarrow> find_row k (snd (cancel_job i t)) = Some r"
  by (simp add: cancel_job_def Let_def find_row_update_where)

lemma claim_keeps:
  assumes "wf_table t" "claim_txn now p t = Some (i, t')" "find_row k t = Some r" "row_status r \<noteq> ''pending''"
  shows "find_row k t' = Some r"
proof -
  from assms(2) obtain row where row: "row \<in> set t" "row_id row = i" "row_status row = ''pending''"
    and t': "t' = update_where (\<lambda>r. row_id r = i)
      (\<lambda>r. r\<lparr>row_status := ''running'', row_started := Some (isoformat now), row_pid := Some p\<rparr>) t"
    by (rule claim_txn_Some)
  from row assms(1) have "find_row i t = Some row" using find_row_eq by (auto simp: wf_table_def)
  with assms(3,4) row have "k \<noteq> i" by auto
  with assms(3) show ?thesis by (simp add: t' find_row_update_id)
qed

lemma claim_row:
  assumes "wf_table t" "claim_txn now p t = Some (i, t')"
  shows "\<exists>r. find_row i t' = Some r \<and> row_status r = ''running'' \<and> row_pid r = Some p"
proof -
  from assms(2) obtain row where row: "row \<in> set t" "row_id row = i" "row_status row = ''pending''"
    and t': "t' = update_where (\<lambda>r. row_id r = i)
      (\<lambda>r. r\<lparr>row_status := ''running'', row_started := Some (isoformat now), row_pid := Some p\<rparr>) t"
    by (rule claim_txn_Some)
  from row assms(1) have "find_row i t = Some row" using find_row_eq by (auto simp: wf_table_def)
  then show ?thesis by (simp add: t' find_row_update_id)
qed

lemma mark_done_keeps:
  "mark_done now i st rid lp err t = Inr t' \<Longrightarrow> k \<noteq> i \<Longrightarrow> find_row k t' = find_row k t"
  by (auto simp: mark_done_def find_row_update_id split: if_splits)

lemmas row_keeps = list_keeps create_keeps cancel_keeps claim_keeps mark_done_keeps

lemma exec_okD: "a_inv s \<Longrightarrow> (p, i) \<in> set (execs s) \<Longrightarrow>
    p \<in> alive s \<and> (\<exists>r. find_row i (tbl s) = Some r \<and> row_status r = ''running'' \<and> row_pid r = Some p)"
  by (force simp: a_inv_def exec_ok_def)

text \<open>The row of a finished job is never written again.\<close>

lemma done_row_step:
  "a_step s s' \<Longrightarrow> a_inv s \<Longrightarrow> find_row k (tbl s) = Some r \<Longrightarrow> done_row r \<Longrightarrow> find_row k (tbl s') = Some r"
proof (induction rule: a_step.induct)
  case (a_finish p i s st now rid lp err t')
  from exec_okD [OF a_finish.prems(1) a_finish.hyps(1)] a_finish.prems have "k \<noteq> i"
    using done_row_status by fastforce
  with a_finish show ?case by (simp add: mark_done_keeps)
qed (auto dest: done_row_status intro: row_keeps simp: a_inv_def)

lemma a_inv_tbl:
  assumes "a_inv s" "wf_table t'"
    and "\<And>p i r. (p, i) \<in> set (execs s) \<Longrightarrow> find_row i (tbl s) = Some r \<Longrightarrow> row_status r = ''running'' \<Longrightarrow>
      row_pid r = Some p \<Longrightarrow> find_row i t' = Some r"
  shows "a_inv (s\<lparr>tbl := t'\<rparr>)"
  using assms(2) exec_okD [OF assms(1)] assms(3) by (fastforce simp: a_inv_def exec_ok_def)

lemma a_inv_step: "a_step s s' \<Longrightarrow> a_inv s \<Longrightarrow> a_inv s'"
proof (induction rule: a_step.induct)
  case (a_start p s)
  then show ?case by (auto simp: a_inv_def exec_ok_def)
next
  case (a_submit uid now a s j t')
  then have "wf_table t'" by (auto simp: a_inv_def intro: wf_create_job)
  with a_submit show ?case by (intro a_inv_tbl) (auto intro: create_keeps)
next
  case (a_claim p s now i t')
  then have w: "wf_table (tbl s)" by (simp add: a_inv_def)
  have "a_inv (s\<lparr>tbl := t'\<rparr>)"
    using a_claim w wf_claim_txn by (intro a_inv_tbl) (auto intro: claim_keeps)
  moreover have "exec_ok s t' (p, i)" using claim_row [OF w a_claim.hyps(3)] a_claim.hyps(1) by (simp add: exec_ok_def)
  ultimately show ?case by (simp add: a_inv_def exec_ok_def)
next
  case (a_finish p i s st now rid lp err t')
  then have w: "wf_table (tbl s)" by (simp add: a_inv_def)
  from exec_okD [OF a_finish.prems a_finish.hyps(1)] obtain r
    where r: "find_row i (tbl s) = Some r" "row_pid r = Some p" by blast
  have "exec_ok s t' (q, k)" if "(q, k) \<in> set (drop_exec p (execs s))" for q k
  proof -
    from that have qk: "(q, k) \<in> set (execs s)" "q \<noteq> p" by (auto simp: drop_exec_def)
    from exec_okD [OF a_finish.prems qk(1)] r qk(2) have "k \<noteq> i" by auto
    then have "find_row k t' = find_row k (tbl s)" by (rule mark_done_keeps [OF a_finish.hyps(3)])
    with exec_okD [OF a_finish.prems qk(1)] show ?thesis by (simp add: exec_ok_def)
  qed
  with wf_mark_done [OF w a_finish.hyps(3)] show ?case by (auto simp: a_inv_def exec_ok_def)
next
  case (a_die s p)
  then show ?case by (auto simp: a_inv_def exec_ok_def drop_exec_def)
next
  case (a_cancel s i)
  then have "wf_table (snd (cancel_job i (tbl s)))" by (auto simp: a_inv_def intro: wf_cancel_job)
  with a_cancel show ?case by (intro a_inv_tbl) (auto intro: cancel_keeps)
next
  case (a_list s kill0 now wanted)
  then have w: "wf_table (tbl s)" by (simp add: a_inv_def)
  then have "wf_table (snd (list_jobs now kill0 wanted (tbl s)))" by (simp add: snd_list_jobs wf_reap_rows)
  then show ?case
  proof (rule a_inv_tbl [OF a_list.prems])
    fix p i r
    assume e: "(p, i) \<in> set (execs s)" and r: "find_row i (tbl s) = Some r" "row_pid r = Some p"
    from exec_okD [OF a_list.prems e] a_list.hyps have "kill0 p = Exists" by blast
    with r show "find_row i (snd (list_jobs now kill0 wanted (tbl s))) = Some r"
      by (intro list_keeps [OF w]) auto
  qed
qed

lemma a_inv_init: "a_inv init_sys"
  by (simp add: a_inv_def init_sys_def wf_table_def ids_def)

lemma a_inv_steps: "a_step\<^sup>*\<^sup>* s s' \<Longrightarrow> a_inv s \<Longrightarrow> a_inv s'"
  by (induction rule: rtranclp_induct) (auto intro: a_inv_step)

lemma done_row_steps:
  assumes "a_step\<^sup>*\<^sup>* s s'" "a_inv s" "find_row k (tbl s) = Some r" "done_row r"
  shows "find_row k (tbl s') = Some r"
  using assms(1)
proof (induction rule: rtranclp_induct)
  case base
  show ?case by (rule assms(3))
next
  case (step y z)
  from a_inv_steps [OF step.hyps(1) assms(2)] show ?case
    using done_row_step [OF step.hyps(2)] step.IH assms(4) by blast
qed

end
