(* ===== verification/Worker.thy ===== *)
theory Worker
  imports QueueSystem
begin

text \<open>
  \<open>eda_agent/queue/worker.py\<close>: one job execution, the PID file, and the polling loop. The
  stage and flow runners of \<open>agent/tools.py\<close>, the clocks and the texts of exceptions are
  arguments; a poll of the loop is one element of a list of environment readings, so a run of
  the worker is a function of that list.
\<close>

section \<open>Executing one job\<close>

record flow_call =
  fc_backend :: string
  fc_stage_start :: string
  fc_stage_end :: "string option"
  fc_design_name :: string
  fc_design_config :: string
  fc_pdk :: string
  fc_params :: pyval
  fc_clean :: pyval

record stage_call =
  sc_backend :: string
  sc_stage :: string
  sc_design_name :: string
  sc_design_config :: string
  sc_pdk :: string
  sc_params :: pyval

text \<open>What can be raised inside the \<open>try\<close> of \<open>_execute_job\<close>.\<close>

datatype job_exc =
    CallRaised string          \<comment> \<open>the runner raised, with this text\<close>
  | NotAttribute               \<comment> \<open>\<open>AttributeError\<close>: \<open>.get\<close> of a value that is no dictionary\<close>
  | NotIterable                \<comment> \<open>\<open>TypeError\<close>: \<open>for\<close> over a value that is no container\<close>
  | StoreRaised store_error    \<comment> \<open>\<open>mark_done\<close> raised\<close>

record worker_env =
  we_flow :: "flow_call \<Rightarrow> (job_exc, pydict) result"
  we_stage :: "stage_call \<Rightarrow> (job_exc, pydict) result"
  we_text :: "job_exc \<Rightarrow> string"
  we_now :: datetime
  we_now_failed :: datetime

text \<open>\<open>v.get(k)\<close> of a value, and iteration over one.\<close>

definition get_attr :: "pyval \<Rightarrow> string \<Rightarrow> (job_exc, pyval) result" where
  "get_attr v k = (case v of PDict d \<Rightarrow> Inr (pget d k) | _ \<Rightarrow> Inl NotAttribute)"

definition iter_val :: "pyval \<Rightarrow> (job_exc, pyval list) result" where
  "iter_val v = (case v of
      PList xs \<Rightarrow> Inr xs
    | PDict d \<Rightarrow> Inr (map PStr (dkeys d))
    | PStr s \<Rightarrow> Inr (map (\<lambda>c. PStr [c]) s)
    | _ \<Rightarrow> Inl NotIterable)"

text \<open>\<open>job.params.get("_clean", False) if job.params else False\<close>.\<close>

definition clean_flag :: "pyval \<Rightarrow> (job_exc, pyval) result" where
  "clean_flag p = (if py_truthy p then
     (case p of PDict d \<Rightarrow> Inr (dgetd d ''_clean'' (PBool False)) | _ \<Rightarrow> Inl NotAttribute)
   else Inr (PBool False))"

text \<open>The loop that keeps the last run id and log path of the stage results.\<close>

fun last_ids :: "pyval list \<Rightarrow> pyval \<times> pyval \<Rightarrow> (job_exc, pyval \<times> pyval) result" where
  "last_ids [] acc = Inr acc"
| "last_ids (r # rs) (rid, lp) =
     ok_bind (get_attr r ''run_id'') (\<lambda>x. ok_bind (get_attr r ''log_path'') (\<lambda>y.
       last_ids rs (if py_truthy x then x else rid, if py_truthy y then y else lp)))"

definition flow_call_of :: "job \<Rightarrow> pyval \<Rightarrow> flow_call" where
  "flow_call_of j clean =
     \<lparr>fc_backend = backend j,
      fc_stage_start = (case stage_start j of None \<Rightarrow> ''all'' | Some s \<Rightarrow> str_or s ''all''),
      fc_stage_end = stage_end j, fc_design_name = design_name j,
      fc_design_config = design_config j, fc_pdk = pdk j, fc_params = params j, fc_clean = clean\<rparr>"

definition stage_call_of :: "job \<Rightarrow> stage_call" where
  "stage_call_of j =
     \<lparr>sc_backend = backend j, sc_stage = stage j, sc_design_name = design_name j,
      sc_design_config = design_config j, sc_pdk = pdk j, sc_params = params j\<rparr>"

definition final_status :: "pyval \<Rightarrow> job_status" where
  "final_status v = (if v = PStr ''success'' then SUCCESS else FAILED)"

definition as_job_exc :: "(store_error, 'a) result \<Rightarrow> (job_exc, 'a) result" where
  "as_job_exc r = (case r of Inl e \<Rightarrow> Inl (StoreRaised e) | Inr x \<Rightarrow> Inr x)"

text \<open>The body of the \<open>try\<close>: the flow branch and the single-stage branch.\<close>

definition try_job :: "worker_env \<Rightarrow> job \<Rightarrow> jobs_table \<Rightarrow> (job_exc, jobs_table) result" where
  "try_job env j t =
     (if run_mode j = ''flow'' then
        ok_bind (clean_flag (params j)) (\<lambda>clean.
        ok_bind (we_flow env (flow_call_of j clean)) (\<lambda>res.
        ok_bind (iter_val (dgetd res ''results'' (PList []))) (\<lambda>rs.
        ok_bind (last_ids rs (PNone, PNone)) (\<lambda>(rid, lp).
          as_job_exc (mark_done (we_now env) (job_id j)
            (final_status (dgetd res ''overall_status'' (PStr ''failed''))) rid lp
            (py_or (pget res ''error'') (PStr [])) t)))))
      else
        ok_bind (we_stage env (stage_call_of j)) (\<lambda>res.
          as_job_exc (mark_done (we_now env) (job_id j) (final_status (pget res ''status''))
            (pget res ''run_id'') (pget res ''log_path'') (py_or (pget res ''error'') (PStr [])) t)))"

text \<open>\<open>_execute_job\<close>: whatever the body raises, the job is marked failed with the text.\<close>

definition execute_job :: "worker_env \<Rightarrow> job \<Rightarrow> jobs_table \<Rightarrow> (store_error, jobs_table) result" where
  "execute_job env j t = (case try_job env j t of
      Inr t' \<Rightarrow> Inr t'
    | Inl e \<Rightarrow> mark_done (we_now_failed env) (job_id j) FAILED PNone PNone (PStr (we_text env e)) t)"

section \<open>The PID file\<close>

text \<open>The content of \<open>worker.pid\<close>, \<open>None\<close> when the file does not exist.\<close>

type_synonym pid_file = "string option"

definition write_pid_file :: "int \<Rightarrow> pid_file" where
  "write_pid_file pid = Some (show_int pid)"

definition remove_pid_file :: "pid_file \<Rightarrow> pid_file" where
  "remove_pid_file f = None"

definition is_worker_running :: "(int \<Rightarrow> probe) \<Rightarrow> pid_file \<Rightarrow> bool \<times> pid_file" where
  "is_worker_running kill0 f = (case f of
      None \<Rightarrow> (False, f)
    | Some content \<Rightarrow> (case int_of_str (py_strip content) of
        None \<Rightarrow> (False, remove_pid_file f)
      | Some pid \<Rightarrow> if probe_raises (kill0 pid) then (False, remove_pid_file f) else (True, f)))"

section \<open>The polling loop\<close>

text \<open>
  What one round of the loop reads: the clock at the claim, \<open>time.monotonic()\<close>, the job
  environment, and whether \<open>SIGTERM\<close> or \<open>SIGINT\<close> arrives while the job runs or while the
  worker sleeps.
\<close>

datatype worker_signal = NoSignal | DuringJob | DuringSleep

record poll =
  po_now :: datetime
  po_mono :: pyfloat
  po_env :: worker_env
  po_signal :: worker_signal

record wstate =
  ws_tbl :: jobs_table
  ws_idle :: "pyfloat option"
  ws_pid_file :: pid_file

datatype poll_result =
    Continue wstate
  | IdleExit wstate            \<comment> \<open>the \<open>break\<close> of the loop\<close>
  | Signalled wstate           \<comment> \<open>\<open>sys.exit(0)\<close> of the signal handler\<close>
  | Crashed store_error wstate \<comment> \<open>an exception leaves the loop\<close>

definition idle_poll :: "pyfloat option \<Rightarrow> poll \<Rightarrow> wstate \<Rightarrow> poll_result" where
  "idle_poll max_idle p s =
     (let sleep = (\<lambda>s'. if po_signal p = DuringSleep
            then Signalled (s'\<lparr>ws_pid_file := remove_pid_file (ws_pid_file s')\<rparr>) else Continue s')
      in case ws_idle s of
           None \<Rightarrow> sleep (s\<lparr>ws_idle := Some (po_mono p)\<rparr>)
         | Some since \<Rightarrow>
             (case max_idle of
                None \<Rightarrow> sleep s
              | Some m \<Rightarrow> if fle m (fsub (po_mono p) since) then IdleExit s else sleep s))"

definition worker_poll :: "pyfloat option \<Rightarrow> int \<Rightarrow> poll \<Rightarrow> wstate \<Rightarrow> poll_result" where
  "worker_poll max_idle pid p s =
     (let (claim, t') = claim_pending_job (po_now p) pid (ws_tbl s); s' = s\<lparr>ws_tbl := t'\<rparr> in
      case claim of
        Inl e \<Rightarrow> Crashed e s'
      | Inr None \<Rightarrow> idle_poll max_idle p s'
      | Inr (Some j) \<Rightarrow>
          if po_signal p = DuringJob
          then Signalled (s'\<lparr>ws_idle := None, ws_pid_file := remove_pid_file (ws_pid_file s')\<rparr>)
          else (case execute_job (po_env p) j t' of
              Inl e \<Rightarrow> Crashed e (s'\<lparr>ws_idle := None\<rparr>)
            | Inr t'' \<Rightarrow> Continue (s'\<lparr>ws_tbl := t'', ws_idle := None\<rparr>)))"

definition finally_remove :: "wstate \<Rightarrow> wstate" where
  "finally_remove s = s\<lparr>ws_pid_file := remove_pid_file (ws_pid_file s)\<rparr>"

fun worker_loop :: "pyfloat option \<Rightarrow> int \<Rightarrow> poll list \<Rightarrow> wstate \<Rightarrow> poll_result" where
  "worker_loop max_idle pid [] s = Continue s"
| "worker_loop max_idle pid (p # ps) s =
     (case worker_poll max_idle pid p s of
        Continue s' \<Rightarrow> worker_loop max_idle pid ps s'
      | IdleExit s' \<Rightarrow> IdleExit (finally_remove s')
      | Signalled s' \<Rightarrow> Signalled (finally_remove s')
      | Crashed e s' \<Rightarrow> Crashed e (finally_remove s'))"

definition run_worker :: "pyfloat option \<Rightarrow> int \<Rightarrow> poll list \<Rightarrow> jobs_table \<Rightarrow> poll_result" where
  "run_worker max_idle pid ps t =
     worker_loop max_idle pid ps \<lparr>ws_tbl = t, ws_idle = None, ws_pid_file = write_pid_file pid\<rparr>"

section \<open>Lemmas\<close>

text \<open>The row a job execution leaves behind.\<close>

definition finished_as :: "job_status \<Rightarrow> job_row \<Rightarrow> job_row \<Rightarrow> bool" where
  "finished_as st r r' \<longleftrightarrow> row_status r' = status_value st \<and> row_finished r' \<noteq> None \<and>
     row_id r' = row_id r \<and> row_pid r' = row_pid r \<and> row_started r' = row_started r \<and>
     row_created r' = row_created r"

lemma mark_done_row:
  assumes "mark_done now i st rid lp err t = Inr t'" "find_row i t = Some r"
  shows "\<exists>r'. find_row i t' = Some r' \<and> finished_as st r r'"
proof -
  from assms(1) have "t' = update_where (\<lambda>r. row_id r = i)
      (\<lambda>r. r\<lparr>row_status := status_value st, row_run_db_id := rid, row_log_path := lp,
             row_error := err, row_finished := Some (isoformat now)\<rparr>) t"
    by (auto simp: mark_done_def split: if_splits)
  then show ?thesis using assms(2) by (simp add: find_row_update_id finished_as_def)
qed

lemma mark_done_failed_ok: "\<exists>t'. mark_done now i st PNone PNone (PStr m) t = Inr t'"
  by (simp add: mark_done_def)

lemma as_job_exc_Inr [simp]: "as_job_exc r = Inr x \<longleftrightarrow> r = Inr x"
  by (cases r) (simp_all add: as_job_exc_def)

lemma try_job_marks:
  assumes "try_job env j t = Inr t'"
  shows "\<exists>v rid lp err. mark_done (we_now env) (job_id j) (final_status v) rid lp err t = Inr t'"
  using assms by (auto simp: try_job_def ok_bind_eq_Inr split: if_splits prod.splits)

lemma execute_job_marks:
  "\<exists>t' now st rid lp err. execute_job env j t = Inr t' \<and> st \<in> {SUCCESS, FAILED} \<and>
     mark_done now (job_id j) st rid lp err t = Inr t'"
proof (cases "try_job env j t")
  case (Inr t')
  from try_job_marks [OF this] obtain v rid lp err
    where "mark_done (we_now env) (job_id j) (final_status v) rid lp err t = Inr t'" by blast
  moreover have "final_status v \<in> {SUCCESS, FAILED}" by (simp add: final_status_def)
  moreover have "execute_job env j t = Inr t'" using Inr by (simp add: execute_job_def)
  ultimately show ?thesis by blast
next
  case (Inl e)
  obtain t' where m: "mark_done (we_now_failed env) (job_id j) FAILED PNone PNone (PStr (we_text env e)) t = Inr t'"
    using mark_done_failed_ok by blast
  with Inl have "execute_job env j t = Inr t'" by (simp add: execute_job_def)
  with m show ?thesis by blast
qed

lemma claim_None_unchanged: "claim_pending_job now pid t = (Inr None, t') \<Longrightarrow> wf_table t \<Longrightarrow>
    t' = t \<and> (\<forall>r \<in> set t. row_status r \<noteq> ''pending'')"
  by (auto simp: claim_pending_job_def get_job_def claim_txn_None ok_bind_eq_Inr
      split: option.splits dest: claim_row)

lemma row_to_job_ok: "parse_status (row_status r) = Some st \<Longrightarrow> \<exists>j. row_to_job now r = Inr j \<and> job_id j = row_id r"
  by (simp add: row_to_job_def)

lemma claim_Some:
  assumes "wf_table t" "claim_pending_job now pid t = (res, t')" "claim_txn now pid t \<noteq> None"
  obtains j r where "res = Inr (Some j)" "claim_txn now pid t = Some (job_id j, t')"
    "find_row (job_id j) t' = Some r" "row_status r = ''running''" "row_pid r = Some pid"
    "row_to_job now r = Inr j"
proof -
  from assms(3) obtain i where c: "claim_txn now pid t = Some (i, t')"
    using assms(2) by (auto simp: claim_pending_job_def)
  from claim_row [OF assms(1) c] obtain r
    where r: "find_row i t' = Some r" "row_status r = ''running''" "row_pid r = Some pid" by blast
  moreover from r obtain j where "row_to_job now r = Inr j" "job_id j = i"
    using row_to_job_ok [of r RUNNING now] find_row_SomeD [OF r(1)] by (auto simp: parse_status_def)
  moreover from this have "res = Inr (Some j)" using assms(2) c r by (simp add: claim_pending_job_def get_job_def)
  ultimately show ?thesis using that c by blast
qed

text \<open>No row is left running under the worker's process id.\<close>

definition none_running_by :: "int \<Rightarrow> jobs_table \<Rightarrow> bool" where
  "none_running_by pid t \<longleftrightarrow> (\<forall>r \<in> set t. \<not> (row_status r = ''running'' \<and> row_pid r = Some pid))"

lemma none_running_find:
  "wf_table t \<Longrightarrow> none_running_by pid t \<longleftrightarrow>
   (\<forall>k r. find_row k t = Some r \<longrightarrow> \<not> (row_status r = ''running'' \<and> row_pid r = Some pid))"
  by (auto simp: none_running_by_def wf_table_def dest: find_row_SomeD find_row_eq)

lemma claim_txn_keeps_other:
  assumes "claim_txn now p t = Some (i, t')" "k \<noteq> i"
  shows "find_row k t' = find_row k t"
proof -
  from assms(1) obtain row where "t' = update_where (\<lambda>r. row_id r = i)
      (\<lambda>r. r\<lparr>row_status := ''running'', row_started := Some (isoformat now), row_pid := Some p\<rparr>) t"
    by (rule claim_txn_Some)
  with assms(2) show ?thesis by (simp add: find_row_update_id)
qed

lemma worker_poll_clean:
  assumes w: "wf_table (ws_tbl s)" "none_running_by pid (ws_tbl s)"
    and p: "worker_poll max_idle pid p s = Continue s'"
  shows "wf_table (ws_tbl s') \<and> none_running_by pid (ws_tbl s')"
proof (cases "claim_txn (po_now p) pid (ws_tbl s)")
  case None
  then have "claim_pending_job (po_now p) pid (ws_tbl s) = (Inr None, ws_tbl s)"
    by (simp add: claim_pending_job_def)
  with p w show ?thesis
    by (auto simp: worker_poll_def idle_poll_def Let_def split: option.splits if_splits)
next
  case (Some c)
  obtain res t' where cl: "claim_pending_job (po_now p) pid (ws_tbl s) = (res, t')" by fastforce
  from claim_Some [OF w(1) cl] Some obtain j r where res: "res = Inr (Some j)"
    and ct: "claim_txn (po_now p) pid (ws_tbl s) = Some (job_id j, t')"
    and r: "find_row (job_id j) t' = Some r" by (metis option.distinct(1))
  from execute_job_marks [of "po_env p" j t'] obtain t'' now st rid lp err
    where ex: "execute_job (po_env p) j t' = Inr t''" and st: "st \<in> {SUCCESS, FAILED}"
      and md: "mark_done now (job_id j) st rid lp err t' = Inr t''" by blast
  have s': "ws_tbl s' = t''" using p by (auto simp: worker_poll_def Let_def cl res ex split: if_splits)
  note w' = wf_claim_txn [OF w(1) ct]
  note w'' = wf_mark_done [OF w' md]
  have "\<not> (row_status q = ''running'' \<and> row_pid q = Some pid)" if q: "find_row k t'' = Some q" for k q
  proof (cases "k = job_id j")
    case True
    with mark_done_row [OF md r] q st show ?thesis by (auto simp: finished_as_def)
  next
    case False
    then have "find_row k (ws_tbl s) = Some q"
      using q mark_done_keeps [OF md False] claim_txn_keeps_other [OF ct False] by simp
    with w show ?thesis by (simp add: none_running_find)
  qed
  with w'' show ?thesis by (simp add: s' none_running_find)
qed

lemma worker_loop_clean:
  "wf_table (ws_tbl s) \<Longrightarrow> none_running_by pid (ws_tbl s) \<Longrightarrow>
   worker_loop max_idle pid ps s = Continue s' \<Longrightarrow> wf_table (ws_tbl s') \<and> none_running_by pid (ws_tbl s')"
proof (induction ps arbitrary: s)
  case Nil
  then show ?case by simp
next
  case (Cons p ps)
  then obtain s1 where s1: "worker_poll max_idle pid p s = Continue s1"
    and l: "worker_loop max_idle pid ps s1 = Continue s'" by (auto split: poll_result.splits)
  from worker_poll_clean [OF Cons.prems(1,2) s1] Cons.IH l show ?case by blast
qed

lemma worker_loop_pid_file:
  "worker_loop max_idle pid ps s = IdleExit s' \<or> worker_loop max_idle pid ps s = Signalled s' \<or>
   worker_loop max_idle pid ps s = Crashed e s' \<Longrightarrow> ws_pid_file s' = None"
  by (induction ps arbitrary: s) (auto simp: finally_remove_def remove_pid_file_def split: poll_result.splits)

lemma idle_poll_IdleExit:
  "idle_poll max_idle p s = IdleExit s' \<longleftrightarrow>
   s' = s \<and> (\<exists>m since. max_idle = Some m \<and> ws_idle s = Some since \<and> fle m (fsub (po_mono p) since))"
  by (auto simp: idle_poll_def Let_def split: option.splits if_splits)

lemma worker_poll_IdleExit:
  assumes "wf_table (ws_tbl s)" "worker_poll max_idle pid p s = IdleExit s'"
  shows "s' = s \<and> (\<forall>r \<in> set (ws_tbl s). row_status r \<noteq> ''pending'') \<and>
    (\<exists>m since. max_idle = Some m \<and> ws_idle s = Some since \<and> fle m (fsub (po_mono p) since))"
proof -
  obtain res t' where cl: "claim_pending_job (po_now p) pid (ws_tbl s) = (res, t')" by fastforce
  from assms(2) have res: "res = Inr None"
    by (auto simp: worker_poll_def Let_def cl split: sum.splits option.splits if_splits)
  then have "t' = ws_tbl s \<and> (\<forall>r \<in> set (ws_tbl s). row_status r \<noteq> ''pending'')"
    using claim_None_unchanged cl assms(1) by blast
  with assms(2) show ?thesis by (simp add: worker_poll_def Let_def cl res idle_poll_IdleExit)
qed

text \<open>The idle mark is the clock reading of an earlier round.\<close>

lemma worker_poll_idle_mark:
  "worker_poll max_idle pid p s = Continue s' \<Longrightarrow> ws_idle s' = None \<or> ws_idle s' = ws_idle s \<or> ws_idle s' = Some (po_mono p)"
  by (auto simp: worker_poll_def idle_poll_def Let_def split: sum.splits option.splits if_splits prod.splits)

lemma worker_poll_wf:
  assumes "wf_table (ws_tbl s)" "worker_poll max_idle pid p s = Continue s'"
  shows "wf_table (ws_tbl s')"
proof (cases "claim_txn (po_now p) pid (ws_tbl s)")
  case None
  then have "claim_pending_job (po_now p) pid (ws_tbl s) = (Inr None, ws_tbl s)"
    by (simp add: claim_pending_job_def)
  with assms show ?thesis
    by (auto simp: worker_poll_def idle_poll_def Let_def split: option.splits if_splits)
next
  case (Some c)
  obtain res t' where cl: "claim_pending_job (po_now p) pid (ws_tbl s) = (res, t')" by fastforce
  from claim_Some [OF assms(1) cl] Some obtain j where res: "res = Inr (Some j)"
    and ct: "claim_txn (po_now p) pid (ws_tbl s) = Some (job_id j, t')" by (metis option.distinct(1))
  from execute_job_marks [of "po_env p" j t'] obtain t'' now st rid lp err
    where ex: "execute_job (po_env p) j t' = Inr t''"
      and md: "mark_done now (job_id j) st rid lp err t' = Inr t''" by blast
  have "ws_tbl s' = t''" using assms(2) by (auto simp: worker_poll_def Let_def cl res ex split: if_splits)
  with wf_mark_done [OF wf_claim_txn [OF assms(1) ct] md] show ?thesis by simp
qed

lemma worker_loop_IdleExit:
  "wf_table (ws_tbl s) \<Longrightarrow> (\<forall>x. ws_idle s = Some x \<longrightarrow> x \<in> po_mono ` set qs) \<Longrightarrow>
   worker_loop max_idle pid ps s = IdleExit s' \<Longrightarrow>
   ws_pid_file s' = None \<and> (\<forall>r \<in> set (ws_tbl s'). row_status r \<noteq> ''pending'') \<and>
   (\<exists>m. max_idle = Some m \<and> (\<exists>p \<in> set (qs @ ps). \<exists>q \<in> set (qs @ ps). fle m (fsub (po_mono p) (po_mono q))))"
proof (induction ps arbitrary: s qs)
  case Nil
  then show ?case by simp
next
  case (Cons p ps)
  show ?case
  proof (cases "worker_poll max_idle pid p s")
    case (Continue s1)
    have "\<forall>x. ws_idle s1 = Some x \<longrightarrow> x \<in> po_mono ` set (qs @ [p])"
      using worker_poll_idle_mark [OF Continue] Cons.prems(2) by auto
    moreover have "worker_loop max_idle pid ps s1 = IdleExit s'" using Cons.prems(3) Continue by simp
    ultimately show ?thesis
      using Cons.IH [OF worker_poll_wf [OF Cons.prems(1) Continue], of "qs @ [p]"] by simp
  next
    case (IdleExit s1)
    from worker_poll_IdleExit [OF Cons.prems(1) this] Cons.prems(2,3) IdleExit show ?thesis
      by (auto simp: finally_remove_def remove_pid_file_def)
  next
    case (Signalled s1)
    with Cons.prems(3) show ?thesis by simp
  next
    case (Crashed e s1)
    with Cons.prems(3) show ?thesis by simp
  qed
qed

lemma worker_poll_empty:
  "\<forall>r \<in> set (ws_tbl s). row_status r \<noteq> ''pending'' \<Longrightarrow> worker_poll max_idle pid p s = idle_poll max_idle p s"
  by (simp add: worker_poll_def claim_pending_job_def iffD2 [OF claim_txn_None] Let_def)

lemma worker_loop_empty:
  "\<forall>r \<in> set (ws_tbl s). row_status r \<noteq> ''pending'' \<Longrightarrow> \<forall>p \<in> set (ps @ [p2]). po_signal p \<noteq> DuringSleep \<Longrightarrow>
   ws_idle s = Some since \<Longrightarrow> fle m (fsub (po_mono p2) since) \<Longrightarrow>
   \<exists>s'. worker_loop (Some m) pid (ps @ [p2]) s = IdleExit s' \<and> ws_tbl s' = ws_tbl s"
  by (induction ps) (auto simp: worker_poll_empty idle_poll_def Let_def finally_remove_def)

end
