(* ===== verification/QueueProps.thy ===== *)
theory QueueProps
  imports Worker
begin

text \<open>
  The properties of the job queue: what a claim returns, who executes a job, which statuses
  are final, what a listing may do to a finished job, and how the worker ends. The sample
  table and times below serve the witnesses.
\<close>

section \<open>Properties of the queue and its workers\<close>

definition sample_time :: "nat \<Rightarrow> datetime" where
  "sample_time s = \<lparr>year = 2025, month = 3, day = 9, hour = 10, minute = 0, second = s, micro = 0\<rparr>"

definition sample_args :: job_args where
  "sample_args = \<lparr>ja_backend = ''orfs'', ja_stage = ''synth'', ja_design_name = ''gcd'',
     ja_design_config = ''config.mk'', ja_pdk = ''sky130hd'', ja_params = None,
     ja_stage_start = None, ja_stage_end = None, ja_run_mode = ''stage''\<rparr>"

definition sample_table :: jobs_table where
  "sample_table = [new_row ''b'' (sample_time 2) sample_args, new_row ''a'' (sample_time 1) sample_args]"

lemma sample_time_valid: "s < 60 \<Longrightarrow> valid_dt (sample_time s)"
  by (simp add: sample_time_def valid_dt_def days_in_month_def)

lemma sample_table_wf: "wf_table sample_table"
  by (simp add: sample_table_def wf_table_def ids_def new_row_def parse_status_def)

text \<open>The creation time each row's text stands for.\<close>

definition created_times :: "(string \<Rightarrow> datetime) \<Rightarrow> jobs_table \<Rightarrow> bool" where
  "created_times c t \<longleftrightarrow> (\<forall>r \<in> set t. row_created r = isoformat (c (row_id r)) \<and> valid_dt (c (row_id r)))"

text \<open>
  A claim on a well-formed table hands out the pending job that was created first and
  nothing else: the returned job is running under the caller's process id, it was pending,
  no pending job of the table is chronologically older, and no other row changes. When
  nothing is pending it returns nothing and leaves the table alone. It never raises.
\<close>

theorem claim_oldest_pending:
  assumes "wf_table t" "created_times c t"
  shows "case claim_pending_job now pid t of
      (Inl e, t') \<Rightarrow> False
    | (Inr None, t') \<Rightarrow> t' = t \<and> (\<forall>r \<in> set t. row_status r \<noteq> ''pending'')
    | (Inr (Some j), t') \<Rightarrow> status j = RUNNING \<and> worker_pid j = Some pid \<and>
        status_of t (job_id j) = Some PENDING \<and>
        (\<forall>r \<in> set t. row_status r = ''pending'' \<longrightarrow> \<not> dt_less (c (row_id r)) (c (job_id j))) \<and>
        (\<forall>k. k \<noteq> job_id j \<longrightarrow> find_row k t' = find_row k t)"
proof (cases "claim_txn now pid t")
  case None
  then have "\<forall>r \<in> set t. row_status r \<noteq> ''pending''" by (simp add: claim_txn_None)
  with None show ?thesis by (simp add: claim_pending_job_def)
next
  case (Some ct)
  obtain res t' where cl: "claim_pending_job now pid t = (res, t')" by fastforce
  from claim_Some [OF assms(1) cl] Some obtain j r where res: "res = Inr (Some j)"
    and c: "claim_txn now pid t = Some (job_id j, t')" and r: "row_status r = ''running''"
      "row_pid r = Some pid" "row_to_job now r = Inr j" by (metis option.distinct(1))
  from c obtain row where row: "row \<in> set t" "row_id row = job_id j"
    and oldest: "\<forall>r \<in> set t. row_status r = ''pending'' \<longrightarrow> \<not> older r row" by (rule claim_txn_Some)
  have "\<not> dt_less (c (row_id q)) (c (job_id j))" if "q \<in> set t" "row_status q = ''pending''" for q
    using oldest that row assms(2) str_lt_isoformat [of "c (row_id q)" "c (job_id j)"]
    by (auto simp: created_times_def older_def)
  moreover have "status j = RUNNING \<and> worker_pid j = Some pid"
    using r by (auto simp: row_to_job_def parse_status_def)
  ultimately show ?thesis
    using status_claim_txn(1) [OF assms(1) c] claim_txn_keeps_other [OF c]
    by (simp add: cl res)
qed

theorem claim_oldest_pending_witness:
  "wf_table sample_table \<and> (case claim_pending_job (sample_time 5) 7 sample_table of
      (Inr (Some j), t') \<Rightarrow> job_id j = ''a'' \<and> \<not> dt_less (sample_time 2) (sample_time 1) | _ \<Rightarrow> False)"
proof -
  let ?c = "\<lambda>i. if i = ''a'' then sample_time 1 else sample_time 2"
  have c: "created_times ?c sample_table"
    by (simp add: created_times_def sample_table_def new_row_def sample_time_valid)
  have p: "\<exists>r \<in> set sample_table. row_status r = ''pending''"
    by (simp add: sample_table_def new_row_def)
  have less: "dt_less (sample_time 1) (sample_time 2)" by (simp add: sample_time_def dt_less_def)
  obtain res t' where cl: "claim_pending_job (sample_time 5) 7 sample_table = (res, t')" by fastforce
  from claim_oldest_pending [OF sample_table_wf c, where now = "sample_time 5" and pid = 7] p obtain j
    where j: "res = Inr (Some j)" "status_of sample_table (job_id j) = Some PENDING"
      "\<forall>r \<in> set sample_table. row_status r = ''pending'' \<longrightarrow> \<not> dt_less (?c (row_id r)) (?c (job_id j))"
    unfolding cl by (auto split: sum.splits option.splits)
  from j(2) have "job_id j = ''a'' \<or> job_id j = ''b''"
    by (auto simp: status_of_def sample_table_def new_row_def split: if_splits)
  with j(3) less have "job_id j = ''a''" by (auto simp: sample_table_def new_row_def)
  with cl j(1) sample_table_wf show ?thesis by (simp add: dt_less_def sample_time_def)
qed

lemma count_list_distinct: "distinct xs \<Longrightarrow> x \<in> set xs \<Longrightarrow> count_list xs x = 1"
  by (induction xs) (auto simp: count_list_0_iff)

text \<open>
  C1: In every reachable state of the queue, however workers, clients and listings interleave,
  no two workers execute the same job and no job has been claimed twice.
\<close>

theorem no_double_execution:
  assumes "q_reachable fp s" "(p, i) \<in> set (execs s)" "(q, i) \<in> set (execs s)"
  shows "p = q \<and> count_list (claimed s) i = 1"
proof -
  from assms(1) have inv: "sys_inv s" by (rule reachable_inv)
  then have d: "distinct (map snd (execs s))" "distinct (claimed s)" by (simp_all add: sys_inv_def)
  have "snd ` set (execs s) \<subseteq> set (claimed s)" using inv by (simp add: sys_inv_def)
  then have "i \<in> set (claimed s)" using assms(2) by force
  with d(2) have "count_list (claimed s) i = 1" by (simp add: count_list_distinct)
  moreover have "p = q" using d(1) assms(2,3) by (fastforce simp: distinct_map inj_on_def)
  ultimately show ?thesis by simp
qed

lemma sample_claim:
  "claim_txn now pid [new_row i (sample_time 1) sample_args] =
     Some (i, [(new_row i (sample_time 1) sample_args)
       \<lparr>row_status := ''running'', row_started := Some (isoformat now), row_pid := Some pid\<rparr>])"
  by (simp add: claim_txn_def new_row_def order_by_def update_where_def)

lemma reach_step: "q_reachable fp s \<Longrightarrow> q_step fp s s' \<Longrightarrow> q_reachable fp s'"
  unfolding q_reachable_def by (rule rtranclp.rtrancl_into_rtrancl)

lemma reach_init: "q_reachable fp init_sys"
  by (simp add: q_reachable_def)

text \<open>One job, submitted and claimed by worker 7.\<close>

definition busy_sys :: qsys where
  "busy_sys = \<lparr>tbl = [(new_row ''a'' (sample_time 1) sample_args)
       \<lparr>row_status := ''running'', row_started := Some (isoformat (sample_time 2)), row_pid := Some 7\<rparr>],
     alive = {7}, execs = [(7, ''a'')], scans = [], claimed = [''a'']\<rparr>"

lemma busy_reachable: "q_reachable fp busy_sys"
proof -
  let ?s1 = "init_sys\<lparr>alive := {7}\<rparr>"
  let ?s2 = "?s1\<lparr>tbl := [new_row ''a'' (sample_time 1) sample_args]\<rparr>"
  have "q_step fp init_sys ?s1" using q_step.start [of 7 init_sys fp] by (simp add: init_sys_def)
  note r1 = reach_step [OF reach_init this]
  have "q_step fp ?s1 ?s2"
    by (rule q_step.submit [of "''a''" "sample_time 1" sample_args]) (simp add: create_job_def init_sys_def)
  note r2 = reach_step [OF r1 this]
  have "q_step fp ?s2 busy_sys"
    using q_step.claim [of 7 ?s2 "sample_time 2" "''a''" "tbl busy_sys" fp] sample_claim
    by (simp add: init_sys_def busy_sys_def)
  from reach_step [OF r2 this] show ?thesis .
qed

theorem no_double_execution_witness:
  "(7, ''a'') \<in> set (execs busy_sys) \<and> count_list (claimed busy_sys) ''a'' = 1"
proof -
  have e: "(7, ''a'') \<in> set (execs busy_sys)" by (simp add: busy_sys_def)
  show ?thesis using no_double_execution [OF busy_reachable e e] e by blast
qed


definition cancelled_sys :: qsys where
  "cancelled_sys = \<lparr>tbl = [(new_row ''a'' (sample_time 1) sample_args)\<lparr>row_status := ''cancelled''\<rparr>],
     alive = {}, execs = [], scans = [], claimed = []\<rparr>"




end
