(* ===== verification/WorkerProps.thy ===== *)
theory WorkerProps
  imports QueueProps
begin

text \<open>
  Properties of the store's remaining operations and of the worker: what a listing returns and
  writes, the race of a listing with a worker that finishes, the round trip of a submitted
  job, the end of a job execution and the end of the worker.
\<close>

section \<open>Listings\<close>

lemma find_row_mark_stale_None: "find_row k (mark_stale now i t) = None \<longleftrightarrow> find_row k t = None"
  by (simp add: mark_stale_def find_row_update_id)

lemma status_reap_rows:
  "status_of (reap_rows now kill0 rows t) k =
     (if (\<exists>p. (k, Some p) \<in> set rows \<and> probe_raises (kill0 p)) \<and> find_row k t \<noteq> None
      then Some FAILED else status_of t k)"
proof (induction now kill0 rows t rule: reap_rows.induct)
  case (1 now kill0 t)
  then show ?case by simp
next
  case (2 now kill0 i pid rows t)
  then show ?case
    by (cases pid) (auto simp: status_mark_stale find_row_mark_stale_None simp del: not_None_eq split: if_splits)
qed

text \<open>The jobs a listing gives up: running under a process the probe does not find.\<close>

definition stale :: "(int \<Rightarrow> probe) \<Rightarrow> jobs_table \<Rightarrow> string \<Rightarrow> bool" where
  "stale kill0 t i \<longleftrightarrow> (\<exists>r p. find_row i t = Some r \<and> row_status r = ''running'' \<and>
     row_pid r = Some p \<and> kill0 p \<noteq> Exists)"

lemma status_list_jobs:
  assumes "wf_table t"
  shows "status_of (snd (list_jobs now kill0 w t)) i =
    (if stale kill0 t i then Some FAILED else status_of t i)"
proof -
  have "(\<exists>p. (i, Some p) \<in> set (running_rows t) \<and> probe_raises (kill0 p)) \<and> find_row i t \<noteq> None
    \<longleftrightarrow> stale kill0 t i" (is "?l \<longleftrightarrow> _")
  proof
    assume ?l
    then obtain p where "(i, Some p) \<in> set (running_rows t)" "probe_raises (kill0 p)" by blast
    with running_rowsD [OF assms] show "stale kill0 t i" by (fastforce simp: stale_def probe_raises_def)
  next
    assume "stale kill0 t i"
    then obtain r p where r: "find_row i t = Some r" "row_status r = ''running''"
      "row_pid r = Some p" "kill0 p \<noteq> Exists" by (auto simp: stale_def)
    then have "(i, Some p) \<in> set (running_rows t)"
      using find_row_SomeD [OF r(1)] by (force simp: running_rows_def)
    with r show ?l by (auto simp: probe_raises_def)
  qed
  then show ?thesis by (simp add: snd_list_jobs status_reap_rows)
qed

lemma rows_to_jobs_ok:
  "\<forall>r \<in> set rs. parse_status (row_status r) \<noteq> None \<Longrightarrow>
   \<exists>js. rows_to_jobs now rs = Inr js \<and> map job_id js = map row_id rs"
proof (induction rs)
  case Nil
  then show ?case by simp
next
  case (Cons r rs)
  then obtain js where "rows_to_jobs now rs = Inr js" "map job_id js = map row_id rs" by auto
  moreover from Cons.prems obtain j where "row_to_job now r = Inr j" "job_id j = row_id r"
    using row_to_job_ok by fastforce
  ultimately show ?case by simp
qed

lemma reap_rows_created:
  "map row_created (reap_rows now kill0 rows t) = map row_created t \<and> ids (reap_rows now kill0 rows t) = ids t"
proof (induction now kill0 rows t rule: reap_rows.induct)
  case (1 now kill0 t)
  then show ?case by simp
next
  case (2 now kill0 i pid rows t)
  moreover have "map row_created (mark_stale now i t) = map row_created t" "ids (mark_stale now i t) = ids t"
    by (simp_all add: mark_stale_def) (simp add: update_where_def)
  ultimately show ?case by (auto split: option.splits)
qed

lemma created_times_cong:
  assumes "created_times c t" "map row_created t' = map row_created t" "ids t' = ids t"
  shows "created_times c t'"
proof -
  have "length t' = length t" using assms(2) by (rule map_eq_imp_length_eq)
  then show ?thesis using assms unfolding created_times_def ids_def
    by (induction t' t rule: list_induct2) auto
qed

lemma newest_first:
  assumes c: "created_times c rs" and o: "ordered_by newer rs"
    and e: "map job_id js = map row_id rs"
  shows "sorted_wrt (\<lambda>a b. \<not> dt_less (c a) (c b)) (map job_id js)"
proof -
  have "sorted_wrt (\<lambda>a b. \<not> dt_less (c (row_id a)) (c (row_id b))) rs"
    using o unfolding ordered_by_def
    by (rule sorted_wrt_mono_rel [rotated])
      (use c str_lt_isoformat in \<open>auto simp: created_times_def newer_def\<close>)
  then show ?thesis by (simp add: e sorted_wrt_map)
qed

lemma selected_ids:
  assumes "wf_table t"
  shows "i \<in> row_id ` set (case wanted of Some s \<Rightarrow> filter (\<lambda>r. row_status r = status_value s) t | None \<Rightarrow> t)
    \<longleftrightarrow> status_of t i \<noteq> None \<and> (wanted = None \<or> status_of t i = wanted)"
proof (cases "find_row i t")
  case None
  then have "i \<notin> row_id ` set t" by (simp add: find_row_None_iff ids_def)
  with None show ?thesis by (auto simp: status_of_def split: option.splits)
next
  case (Some r)
  note r = find_row_SomeD [OF Some]
  have u: "q = r" if "q \<in> set t" "row_id q = i" for q
    using find_row_eq [of t q] that Some assms by (simp add: wf_table_def)
  from assms r obtain st where st: "row_status r = status_value st" by (auto simp: wf_table_def parse_status_Some)
  with Some have "status_of t i = Some st" by (simp add: status_of_def)
  moreover have "i \<in> row_id ` {q \<in> set t. P q} \<longleftrightarrow> P r" for P using r u by blast
  moreover have "i \<in> row_id ` set t" using r by blast
  ultimately show ?thesis using st by (cases wanted) simp_all
qed

text \<open>
  A listing of a well-formed table never raises. It marks as failed exactly the running
  jobs whose worker the probe does not find, leaves the status of every other job alone, and
  returns exactly the jobs that then have the wanted status, once each and newest first.
\<close>

theorem list_jobs_spec:
  assumes "wf_table t" "created_times c t"
  shows "\<exists>js t'. list_jobs now kill0 wanted t = (Inr js, t') \<and>
    (\<forall>i. status_of t' i = (if stale kill0 t i then Some FAILED else status_of t i)) \<and>
    distinct (map job_id js) \<and>
    (\<forall>i. i \<in> job_id ` set js \<longleftrightarrow> status_of t' i \<noteq> None \<and> (wanted = None \<or> status_of t' i = wanted)) \<and>
    sorted_wrt (\<lambda>a b. \<not> dt_less (c a) (c b)) (map job_id js)"
proof -
  define t' where "t' = reap_rows now kill0 (running_rows t) t"
  define sel where "sel = (case wanted of Some s \<Rightarrow> filter (\<lambda>r. row_status r = status_value s) t' | None \<Rightarrow> t')"
  define rows where "rows = order_by newer sel"
  have w: "wf_table t'" unfolding t'_def by (rule wf_reap_rows [OF assms(1)])
  have sub: "set sel \<subseteq> set t'" by (auto simp: sel_def split: option.splits)
  with w have "\<forall>r \<in> set rows. parse_status (row_status r) \<noteq> None"
    by (auto simp: rows_def wf_table_def)
  from rows_to_jobs_ok [OF this, of now] obtain js
    where js': "rows_to_jobs now rows = Inr js" and js2: "map job_id js = map row_id rows" by blast
  have "list_jobs now kill0 wanted t = (rows_to_jobs now rows, t')"
    by (cases wanted) (simp_all add: list_jobs_def fix_stale_jobs_def Let_def rows_def sel_def t'_def)
  with js' js2 have js: "list_jobs now kill0 wanted t = (Inr js, t')" "map job_id js = map row_id rows"
    by simp_all
  have "distinct (map row_id sel)"
    using w by (auto simp: sel_def wf_table_def ids_def distinct_map_filter split: option.splits)
  then have d: "distinct (map job_id js)"
    unfolding js(2) rows_def by (metis mset_order_by mset_map mset_eq_imp_distinct_iff)
  have "job_id ` set js = row_id ` set sel" using js(2) by (metis rows_def set_map set_order_by)
  then have m: "i \<in> job_id ` set js \<longleftrightarrow> status_of t' i \<noteq> None \<and> (wanted = None \<or> status_of t' i = wanted)" for i
    unfolding sel_def by (simp only: selected_ids [OF w])
  have "created_times c rows"
    using created_times_cong [OF assms(2), of t'] reap_rows_created sub
    unfolding t'_def [symmetric] by (auto simp: created_times_def rows_def t'_def)
  then have "sorted_wrt (\<lambda>a b. \<not> dt_less (c a) (c b)) (map job_id js)"
    by (rule newest_first [OF _ _ js(2)]) (simp add: rows_def ordered_newer)
  with js(1) d m status_list_jobs [OF assms(1), of now kill0 wanted] show ?thesis by auto
qed


definition sample_created :: "string \<Rightarrow> datetime" where
  "sample_created i = (if i = ''a'' then sample_time 1 else sample_time 2)"

lemma sample_created_times: "created_times sample_created sample_table"
  by (simp add: created_times_def sample_table_def sample_created_def new_row_def sample_time_valid)

theorem list_jobs_spec_witness:
  "\<exists>js t'. list_jobs (sample_time 5) (\<lambda>p. NoProcess) None sample_table = (Inr js, t') \<and>
     job_id ` set js = {''a'', ''b''} \<and> status_of t' ''a'' = Some PENDING"
proof -
  from list_jobs_spec [OF sample_table_wf sample_created_times, of "sample_time 5" "\<lambda>p. NoProcess" None]
  obtain js t' where l: "list_jobs (sample_time 5) (\<lambda>p. NoProcess) None sample_table = (Inr js, t')"
    and s: "\<forall>i. status_of t' i = (if stale (\<lambda>p. NoProcess) sample_table i then Some FAILED else status_of sample_table i)"
    and m: "\<forall>i. i \<in> job_id ` set js \<longleftrightarrow> status_of t' i \<noteq> None" by auto
  have "\<not> stale (\<lambda>p. NoProcess) sample_table i" for i
    by (auto simp: stale_def sample_table_def new_row_def split: if_splits)
  moreover have "status_of sample_table i = (if i \<in> {''a'', ''b''} then Some PENDING else None)" for i
    by (auto simp: status_of_def sample_table_def new_row_def parse_status_def)
  ultimately have "status_of t' i = (if i \<in> {''a'', ''b''} then Some PENDING else None)" for i
    using s by simp
  moreover from this m have "i \<in> job_id ` set js \<longleftrightarrow> i \<in> {''a'', ''b''}" for i by simp
  then have "job_id ` set js = {''a'', ''b''}" by blast
  ultimately show ?thesis using l by auto
qed

section \<open>The race of a listing with a worker\<close>

text \<open>One job, finished by worker 7 after a listing has read its row; then the worker is gone.\<close>

definition race_row :: job_row where
  "race_row = (new_row ''a'' (sample_time 1) sample_args)
     \<lparr>row_status := ''success'', row_started := Some (isoformat (sample_time 2)), row_pid := Some 7,
      row_finished := Some (isoformat (sample_time 3))\<rparr>"

definition race_sys :: qsys where
  "race_sys = \<lparr>tbl = [race_row], alive = {}, execs = [], scans = [(''a'', 7)], claimed = [''a'']\<rparr>"

lemma race_reachable: "q_reachable fp race_sys"
proof -
  let ?s1 = "busy_sys\<lparr>scans := [(''a'', 7)]\<rparr>"
  let ?s2 = "?s1\<lparr>tbl := [race_row], execs := []\<rparr>"
  have "q_step fp busy_sys ?s1"
    using q_step.scan [of fp busy_sys] by (simp add: busy_sys_def scanned_def running_rows_def new_row_def)
  note r1 = reach_step [OF busy_reachable this]
  have "mark_done (sample_time 3) ''a'' SUCCESS PNone PNone (PStr []) (tbl ?s1) = Inr [race_row]"
    by (simp add: mark_done_def update_where_def busy_sys_def race_row_def new_row_def)
  then have "q_step fp ?s1 ?s2"
    using q_step.finish [of 7 "''a''" ?s1 SUCCESS] by (simp add: busy_sys_def drop_exec_def)
  note r2 = reach_step [OF r1 this]
  have "q_step fp ?s2 race_sys"
    using q_step.die [of fp ?s2 7] by (simp add: busy_sys_def race_sys_def drop_exec_def)
  from reach_step [OF r2 this] show ?thesis .
qed

text \<open>
  C3: Without that atomicity a listing can overwrite a result: a reachable state of the queue
  holds a job that succeeded and has a step, the \<open>UPDATE\<close> of a listing that read the row while
  the job ran, after which the same job counts as failed. The \<open>UPDATE\<close> of \<open>_fix_stale_jobs\<close>
  names the job's id only and does not test that it is still running.
\<close>

theorem listing_overwrites_success:
  "\<exists>s s'. q_reachable {} s \<and> status_of (tbl s) ''a'' = Some SUCCESS \<and> q_step {} s s' \<and>
     status_of (tbl s') ''a'' = Some FAILED"
proof -
  let ?s' = "race_sys\<lparr>tbl := mark_stale (sample_time 4) ''a'' (tbl race_sys), scans := []\<rparr>"
  have "q_step {} race_sys ?s'"
    using q_step.reap [of "''a''" 7 race_sys "{}" "sample_time 4"] by (simp add: race_sys_def)
  moreover have "status_of (tbl race_sys) ''a'' = Some SUCCESS"
    by (simp add: race_sys_def race_row_def new_row_def status_of_def parse_status_def)
  moreover from this have "status_of (tbl ?s') ''a'' = Some FAILED"
    by (simp add: status_mark_stale) (simp add: status_of_def split: bind_splits)
  ultimately show ?thesis using race_reachable by blast
qed

section \<open>Submitting and executing\<close>

text \<open>
  A submitted job reads back as it was returned: on a table that does not hold the id,
  \<open>create_job\<close> succeeds, \<open>get_job\<close> at any later time returns the same job record (identifiers,
  parameters, stages, times), and every row that was there is unchanged.
\<close>

theorem submitted_job_reads_back:
  assumes "find_row uid t = None" "valid_dt now" "ja_run_mode a \<noteq> []"
  shows "\<exists>j t'. create_job uid now a t = Inr (j, t') \<and> get_job later uid t' = Inr (Some j) \<and>
    status j = PENDING \<and> created_at j = now \<and> (\<forall>k. k \<noteq> uid \<longrightarrow> find_row k t' = find_row k t)"
proof -
  have "parse_dt (Some (isoformat now)) = Some now"
    using assms(2) by (simp add: parse_dt_def fromisoformat_isoformat)
  then show ?thesis using assms(1,3)
    by (auto simp: create_job_def get_job_def find_row_append new_row_def row_to_job_def
        parse_status_def py_or_def str_or_def parse_dt_def split: option.splits)
qed

theorem submitted_job_reads_back_witness:
  "\<exists>j t'. create_job ''c'' (sample_time 9) sample_args sample_table = Inr (j, t') \<and>
     get_job (sample_time 30) ''c'' t' = Inr (Some j) \<and> created_at j = sample_time 9"
proof -
  have f: "find_row ''c'' sample_table = None" by (simp add: sample_table_def new_row_def)
  have v: "valid_dt (sample_time 9)" by (simp add: sample_time_valid)
  have m: "ja_run_mode sample_args \<noteq> []" by (simp add: sample_args_def)
  from submitted_job_reads_back [OF f v m, of "sample_time 30"] show ?thesis by blast
qed

text \<open>
  Executing a claimed job always reports a result: whatever the stage or flow runner
  returns or raises, the call returns, the job's row ends as success or failed with a finish
  time, its other times and its worker stay, and no other row changes.
\<close>

theorem execution_always_reports:
  assumes "find_row (job_id j) t = Some r"
  shows "\<exists>t' st r'. execute_job env j t = Inr t' \<and> st \<in> {SUCCESS, FAILED} \<and>
    find_row (job_id j) t' = Some r' \<and> finished_as st r r' \<and>
    (\<forall>k. k \<noteq> job_id j \<longrightarrow> find_row k t' = find_row k t)"
proof -
  from execute_job_marks [of env j t] obtain t' now st rid lp err
    where ex: "execute_job env j t = Inr t'" "st \<in> {SUCCESS, FAILED}"
      and m: "mark_done now (job_id j) st rid lp err t = Inr t'" by blast
  from mark_done_row [OF m assms] obtain r' where "find_row (job_id j) t' = Some r'" "finished_as st r r'"
    by blast
  with ex mark_done_keeps [OF m] show ?thesis by blast
qed

definition sample_env :: worker_env where
  "sample_env = \<lparr>we_flow = (\<lambda>c. Inl (CallRaised ''boom'')), we_stage = (\<lambda>c. Inl (CallRaised ''boom'')),
     we_text = (\<lambda>e. ''boom''), we_now = sample_time 20, we_now_failed = sample_time 21\<rparr>"

theorem execution_always_reports_witness:
  "\<exists>t'. execute_job sample_env
      (fst (projr (create_job ''a'' (sample_time 1) sample_args []))) sample_table = Inr t' \<and>
     status_of t' ''b'' = Some PENDING"
proof -
  let ?j = "fst (projr (create_job ''a'' (sample_time 1) sample_args []))"
  have i: "job_id ?j = ''a''" by (simp add: create_job_def)
  have f: "find_row (job_id ?j) sample_table = Some (new_row ''a'' (sample_time 1) sample_args)"
    unfolding i by (simp add: sample_table_def new_row_def)
  from execution_always_reports [OF f, of sample_env] i obtain t'
    where "execute_job sample_env ?j sample_table = Inr t'" "find_row ''b'' t' = find_row ''b'' sample_table"
    by auto
  then show ?thesis by (auto simp: status_of_def sample_table_def new_row_def parse_status_def)
qed

section \<open>The worker\<close>

text \<open>
  C5: Between two rounds the worker owns no job: started on a well-formed table in which no
  row runs under its process id, after any number of rounds without a signal the table is
  well formed and again no row runs under its process id, whatever the runners did.
\<close>

theorem worker_leaves_no_running_job:
  assumes "wf_table t" "none_running_by pid t"
    and "run_worker max_idle pid ps t = Continue s"
  shows "wf_table (ws_tbl s) \<and> none_running_by pid (ws_tbl s)"
  using worker_loop_clean [OF _ _ assms(3) [unfolded run_worker_def]] assms(1,2) by simp

definition sample_poll :: "rat \<Rightarrow> worker_signal \<Rightarrow> poll" where
  "sample_poll x sig = \<lparr>po_now = sample_time 10, po_mono = Fin x, po_env = sample_env, po_signal = sig\<rparr>"

theorem worker_leaves_no_running_job_witness:
  "\<exists>s. run_worker None 7 [sample_poll 1 NoSignal] sample_table = Continue s \<and>
     none_running_by 7 (ws_tbl s)"
proof -
  have n: "none_running_by 7 sample_table"
    by (simp add: none_running_by_def sample_table_def new_row_def)
  have "\<exists>s. run_worker None 7 [sample_poll 1 NoSignal] sample_table = Continue s"
  proof -
    obtain res t' where cl: "claim_pending_job (sample_time 10) 7 sample_table = (res, t')" by fastforce
    have "claim_txn (sample_time 10) 7 sample_table \<noteq> None"
      by (simp add: claim_txn_None sample_table_def new_row_def)
    from claim_Some [OF sample_table_wf cl this] obtain j where res: "res = Inr (Some j)" by blast
    from execute_job_marks [of sample_env j t'] obtain t'' where "execute_job sample_env j t' = Inr t''" by blast
    with cl res show ?thesis by (simp add: run_worker_def worker_poll_def sample_poll_def Let_def)
  qed
  then obtain s where "run_worker None 7 [sample_poll 1 NoSignal] sample_table = Continue s" by blast
  with worker_leaves_no_running_job [OF sample_table_wf n this] show ?thesis by blast
qed

text \<open>
  The worker ends by itself only when it is told to and the queue is empty: if it leaves
  its loop as idle, a limit was given, the table holds no pending job, two of its clock
  readings are at least the limit apart, and its PID file is gone.
\<close>

theorem idle_exit_is_justified:
  assumes "wf_table t" "run_worker max_idle pid ps t = IdleExit s"
  shows "(\<forall>r \<in> set (ws_tbl s). row_status r \<noteq> ''pending'') \<and> ws_pid_file s = None \<and>
    (\<exists>m. max_idle = Some m \<and>
      (\<exists>p \<in> set ps. \<exists>q \<in> set ps. fle m (fsub (po_mono p) (po_mono q))))"
  using worker_loop_IdleExit [OF _ _ assms(2) [unfolded run_worker_def], of "[]"] assms(1) by simp

theorem idle_exit_is_justified_witness:
  "\<exists>s. run_worker (Some (Fin 0)) 7 [sample_poll 1 NoSignal, sample_poll 1 NoSignal] [] = IdleExit s \<and>
     ws_pid_file s = None"
proof -
  have "\<exists>s. run_worker (Some (Fin 0)) 7 [sample_poll 1 NoSignal, sample_poll 1 NoSignal] [] = IdleExit s"
    by (simp add: run_worker_def worker_poll_empty idle_poll_def sample_poll_def Let_def fsub_def f64_def)
  then obtain s where r: "run_worker (Some (Fin 0)) 7 [sample_poll 1 NoSignal, sample_poll 1 NoSignal] [] = IdleExit s"
    by blast
  have w: "wf_table []" by (simp add: wf_table_def ids_def)
  from idle_exit_is_justified [OF w r] r show ?thesis by blast
qed

text \<open>
  C6: It does end: on a table without pending jobs, a worker with a limit that is not
  interrupted leaves its loop as idle by the first round whose clock reading is at least the
  limit after that of its first round, however many rounds lie between.
\<close>

theorem idle_worker_exits:
  assumes "\<forall>r \<in> set t. row_status r \<noteq> ''pending''"
    and "\<forall>p \<in> set (p1 # ps @ [p2]). po_signal p \<noteq> DuringSleep"
    and "fle m (fsub (po_mono p2) (po_mono p1))"
  shows "\<exists>s. run_worker (Some m) pid (p1 # ps @ [p2]) t = IdleExit s \<and> ws_tbl s = t"
proof -
  let ?s = "\<lparr>ws_tbl = t, ws_idle = None, ws_pid_file = write_pid_file pid\<rparr>"
  let ?s1 = "?s\<lparr>ws_idle := Some (po_mono p1)\<rparr>"
  have "worker_poll (Some m) pid p1 ?s = Continue ?s1"
    using assms(1,2) by (simp add: worker_poll_empty idle_poll_def Let_def)
  moreover have "\<exists>s'. worker_loop (Some m) pid (ps @ [p2]) ?s1 = IdleExit s' \<and> ws_tbl s' = ws_tbl ?s1"
    by (rule worker_loop_empty) (use assms in auto)
  ultimately show ?thesis by (simp add: run_worker_def)
qed

theorem idle_worker_exits_witness:
  "\<exists>s. run_worker (Some (Fin 0)) 7 [sample_poll 1 NoSignal, sample_poll 1 DuringJob] [] = IdleExit s"
proof -
  have "fle (Fin 0) (fsub (po_mono (sample_poll 1 DuringJob)) (po_mono (sample_poll 1 NoSignal)))"
    by (simp add: sample_poll_def fsub_def f64_def)
  from idle_worker_exits [of "[]" "sample_poll 1 NoSignal" "[]" "sample_poll 1 DuringJob", OF _ _ this]
  show ?thesis by (force simp: sample_poll_def)
qed

end
