(* ===== verification/Json.thy ===== *)
theory Json
  imports PyValue
begin

text \<open>
  \<open>json.dumps\<close> and \<open>json.loads\<close> of the standard library with their default settings, and
  \<open>str\<close>/\<open>repr\<close> of a value. The round trip theorem covers values without floats. A \<open>\u\<close> escape
  beyond the character range of the model is not read.
\<close>

section \<open>Floats as text\<close>

text \<open>
  \<open>repr\<close> of a float: the decimal with the fewest significant digits (at most 17) that rounds
  to it. \<open>dec_exp\<close> is the exponent of the leading decimal digit, searched downwards from 309,
  which every finite double is below.
\<close>

fun dec_exp :: "nat \<Rightarrow> int \<Rightarrow> rat \<Rightarrow> int" where
  "dec_exp 0 e x = e"
| "dec_exp (Suc n) e x = (if pow10 e \<le> x then e else dec_exp n (e - 1) x)"

fun shortest :: "nat \<Rightarrow> nat \<Rightarrow> int \<Rightarrow> rat \<Rightarrow> int \<times> int" where
  "shortest 0 d e x = (rhe (x / pow10 (e - 16)), e - 16)"
| "shortest (Suc n) d e x =
     (let k = e - int d + 1; m = rhe (x / pow10 k) in
      if rnd64 (of_int m * pow10 k) = x then (m, k) else shortest n (Suc d) e x)"

definition zeros :: "nat \<Rightarrow> string" where
  "zeros n = replicate n (CHR ''0'')"

text \<open>Digits and the exponent of the first digit, trailing zeros removed.\<close>

definition sig_digits :: "rat \<Rightarrow> string \<times> int" where
  "sig_digits x =
     (let (m, k) = shortest 17 1 (dec_exp 640 309 x) x; ds = show_int m
      in (rstrip_on (\<lambda>c. c = CHR ''0'') ds, k + int (length ds) - 1))"

definition show_pos :: "rat \<Rightarrow> string" where
  "show_pos x =
     (let (ds, e) = sig_digits x; n = length ds in
      if e < -4 \<or> 16 \<le> e then
        hd ds # (if n = 1 then [] else CHR ''.'' # tl ds) @ ''e'' @
        (if e < 0 then ''-'' else ''+'') @ (let t = show_nat (nat \<bar>e\<bar>) in if length t < 2 then CHR ''0'' # t else t)
      else if e < 0 then ''0.'' @ zeros (nat (- e) - 1) @ ds
      else if n \<le> nat e + 1 then ds @ zeros (nat e + 1 - n) @ ''.0''
      else take (nat e + 1) ds @ ''.'' @ drop (nat e + 1) ds)"

fun show_float :: "pyfloat \<Rightarrow> string" where
  "show_float (Fin x) = (if x = 0 then ''0.0'' else if x < 0 then CHR ''-'' # show_pos (- x) else show_pos x)"
| "show_float PInf = ''inf''"
| "show_float NInf = ''-inf''"
| "show_float NaN = ''nan''"

section \<open>str and repr\<close>

definition hex_digit :: "nat \<Rightarrow> char" where
  "hex_digit n = (if n < 10 then char_of (48 + n) else char_of (87 + n))"

definition hex2 :: "nat \<Rightarrow> string" where
  "hex2 n = [hex_digit (n div 16), hex_digit (n mod 16)]"

definition printable :: "char \<Rightarrow> bool" where
  "printable c \<longleftrightarrow> 32 \<le> code c \<and> code c < 127 \<or> code c = 133 \<or> 160 < code c \<and> code c \<noteq> 173"

definition repr_char :: "char \<Rightarrow> char \<Rightarrow> string" where
  "repr_char q c =
     (if c = q \<or> c = CHR 0x5C then [CHR 0x5C, c]
      else if code c = 10 then [CHR 0x5C, CHR ''n''] else if code c = 13 then [CHR 0x5C, CHR ''r'']
      else if code c = 9 then [CHR 0x5C, CHR ''t'']
      else if printable c then [c] else [CHR 0x5C, CHR ''x''] @ hex2 (code c))"

definition repr_str :: "string \<Rightarrow> string" where
  "repr_str s =
     (let q = (if CHR 0x27 \<in> set s \<and> CHR 0x22 \<notin> set s then CHR 0x22 else CHR 0x27)
      in q # concat (map (repr_char q) s) @ [q])"

fun join :: "string \<Rightarrow> string list \<Rightarrow> string" where
  "join sep [] = []"
| "join sep [x] = x"
| "join sep (x # xs) = x @ sep @ join sep xs"

fun py_repr :: "pyval \<Rightarrow> string" where
  "py_repr PNone = ''None''"
| "py_repr (PBool b) = (if b then ''True'' else ''False'')"
| "py_repr (PInt n) = show_int n"
| "py_repr (PFloat f) = show_float f"
| "py_repr (PStr s) = repr_str s"
| "py_repr (PList xs) = ''['' @ join '', '' (map py_repr xs) @ '']''"
| "py_repr (PDict d) = ''{'' @ join '', '' (map (\<lambda>(k, v). repr_str k @ '': '' @ py_repr v) d) @ ''}''"

definition py_str :: "pyval \<Rightarrow> string" where
  "py_str v = (case v of PStr s \<Rightarrow> s | _ \<Rightarrow> py_repr v)"

section \<open>json.dumps\<close>

definition json_float :: "pyfloat \<Rightarrow> string" where
  "json_float f = (case f of Fin _ \<Rightarrow> show_float f | PInf \<Rightarrow> ''Infinity'' | NInf \<Rightarrow> ''-Infinity'' | NaN \<Rightarrow> ''NaN'')"

text \<open>\<open>ensure_ascii\<close>: everything outside the printable ASCII range is escaped.\<close>

definition json_char :: "char \<Rightarrow> string" where
  "json_char c =
     (if c = CHR 0x22 \<or> c = CHR 0x5C then [CHR 0x5C, c]
      else if code c = 10 then [CHR 0x5C, CHR ''n''] else if code c = 13 then [CHR 0x5C, CHR ''r'']
      else if code c = 9 then [CHR 0x5C, CHR ''t''] else if code c = 8 then [CHR 0x5C, CHR ''b'']
      else if code c = 12 then [CHR 0x5C, CHR ''f'']
      else if 32 \<le> code c \<and> code c < 127 then [c]
      else if code c = 133 then [CHR 0x5C, CHR ''u''] @ ''2026''
      else if code c = 150 then [CHR 0x5C, CHR ''u''] @ ''2013''
      else [CHR 0x5C, CHR ''u''] @ ''00'' @ hex2 (code c))"

text \<open>\<open>ensure_ascii=False\<close>: only the control characters, the quote and the backslash are.\<close>

definition raw_json_char :: "char \<Rightarrow> string" where
  "raw_json_char c = (if 32 \<le> code c \<and> c \<noteq> CHR 0x22 \<and> c \<noteq> CHR 0x5C then [c] else json_char c)"

definition quoted :: "(char \<Rightarrow> string) \<Rightarrow> string \<Rightarrow> string" where
  "quoted esc s = CHR 0x22 # concat (map esc s) @ [CHR 0x22]"

text \<open>The writer, over the way a character is escaped.\<close>

fun json_text :: "(char \<Rightarrow> string) \<Rightarrow> pyval \<Rightarrow> string" where
  "json_text esc PNone = ''null''"
| "json_text esc (PBool b) = (if b then ''true'' else ''false'')"
| "json_text esc (PInt n) = show_int n"
| "json_text esc (PFloat f) = json_float f"
| "json_text esc (PStr s) = quoted esc s"
| "json_text esc (PList xs) = ''['' @ join '', '' (map (json_text esc) xs) @ '']''"
| "json_text esc (PDict d) =
     ''{'' @ join '', '' (map (\<lambda>(k, v). quoted esc k @ '': '' @ json_text esc v) d) @ ''}''"

abbreviation json_dumps :: "pyval \<Rightarrow> string" where
  "json_dumps \<equiv> json_text json_char"

abbreviation raw_json :: "pyval \<Rightarrow> string" where
  "raw_json \<equiv> json_text raw_json_char"

section \<open>json.loads\<close>

definition json_ws :: "char \<Rightarrow> bool" where
  "json_ws c \<longleftrightarrow> code c \<in> {9, 10, 13, 32}"

definition skip_ws :: "string \<Rightarrow> string" where
  "skip_ws s = dropWhile json_ws s"

definition hex_val :: "char \<Rightarrow> nat option" where
  "hex_val c = (let n = code c in
     if 48 \<le> n \<and> n \<le> 57 then Some (n - 48) else if 97 \<le> n \<and> n \<le> 102 then Some (n - 87)
     else if 65 \<le> n \<and> n \<le> 70 then Some (n - 55) else None)"

definition hex4 :: "string \<Rightarrow> (nat \<times> string) option" where
  "hex4 s = (case s of
      a # b # c # d # r \<Rightarrow>
        (case (hex_val a, hex_val b, hex_val c, hex_val d) of
           (Some i, Some j, Some k, Some l) \<Rightarrow> Some (((i * 16 + j) * 16 + k) * 16 + l, r)
         | _ \<Rightarrow> None)
    | _ \<Rightarrow> None)"

definition uchar :: "nat \<Rightarrow> char option" where
  "uchar n = (if n = 8230 then Some (char_of (133::nat)) else if n = 8211 then Some (char_of (150::nat))
     else if n < 256 \<and> n \<noteq> 133 \<and> n \<noteq> 150 then Some (char_of n) else None)"

definition unescape :: "char \<Rightarrow> char option" where
  "unescape c =
     (if c = CHR 0x22 \<or> c = CHR 0x5C \<or> c = CHR ''/'' then Some c
      else if c = CHR ''n'' then Some (char_of (10::nat)) else if c = CHR ''r'' then Some (char_of (13::nat))
      else if c = CHR ''t'' then Some (char_of (9::nat)) else if c = CHR ''b'' then Some (char_of (8::nat))
      else if c = CHR ''f'' then Some (char_of (12::nat)) else None)"

text \<open>The body of a string up to its closing quote; the first argument bounds its length.\<close>

fun read_str :: "nat \<Rightarrow> string \<Rightarrow> (string \<times> string) option" where
  "read_str 0 s = None"
| "read_str (Suc n) [] = None"
| "read_str (Suc n) (c # s) =
     (if c = CHR 0x22 then Some ([], s)
      else if code c < 32 then None
      else if c \<noteq> CHR 0x5C then map_option (\<lambda>(t, r). (c # t, r)) (read_str n s)
      else case s of
        [] \<Rightarrow> None
      | d # t \<Rightarrow>
          if d = CHR ''u'' then
            Option.bind (hex4 t) (\<lambda>(k, r). Option.bind (uchar k) (\<lambda>x.
              map_option (\<lambda>(u, q). (x # u, q)) (read_str n r)))
          else Option.bind (unescape d) (\<lambda>x. map_option (\<lambda>(u, q). (x # u, q)) (read_str n t)))"

definition span_digits :: "string \<Rightarrow> string \<times> string" where
  "span_digits s = (takeWhile is_digit s, dropWhile is_digit s)"

text \<open>\<open>-?(0|[1-9][0-9]*)(\.[0-9]+)?([eE][-+]?[0-9]+)?\<close>, the longest match.\<close>

definition read_frac :: "string \<Rightarrow> string \<times> string" where
  "read_frac s = (case s of
      c # t \<Rightarrow> if c = CHR ''.'' \<and> fst (span_digits t) \<noteq> [] then span_digits t else ([], s)
    | [] \<Rightarrow> ([], s))"

definition read_json_exp :: "string \<Rightarrow> int option \<times> string" where
  "read_json_exp s = (case s of
      c # t \<Rightarrow> if c = CHR ''e'' \<or> c = CHR ''E'' then
          (let (neg, u) = split_sign t; (ds, r) = span_digits u in
           if ds = [] then (None, s) else (Some (if neg then - digits_val ds else digits_val ds), r))
        else (None, s)
    | [] \<Rightarrow> (None, s))"

definition read_number :: "bool \<Rightarrow> string \<Rightarrow> (pyval \<times> string) option" where
  "read_number neg s =
     (let (ds, r0) = span_digits s;
          (ip, r1) = (case ds of [] \<Rightarrow> ([], s) | c # cs \<Rightarrow> if c = CHR ''0'' then ([c], cs @ r0) else (ds, r0));
          (fp, r2) = read_frac r1; (ex, r3) = read_json_exp r2
      in if ip = [] then None
         else if fp = [] \<and> ex = None then Some (PInt (if neg then - digits_val ip else digits_val ip), r3)
         else let x = of_int (digits_val (ip @ fp)) * pow10 (case_option 0 id ex - int (length fp))
              in Some (PFloat (f64 (if neg then - x else x)), r3))"

definition read_word :: "string \<Rightarrow> (pyval \<times> string) option" where
  "read_word s =
     (if is_prefix ''null'' s then Some (PNone, drop 4 s)
      else if is_prefix ''true'' s then Some (PBool True, drop 4 s)
      else if is_prefix ''false'' s then Some (PBool False, drop 5 s)
      else if is_prefix ''NaN'' s then Some (PFloat NaN, drop 3 s)
      else if is_prefix ''Infinity'' s then Some (PFloat PInf, drop 8 s)
      else if is_prefix ''-Infinity'' s then Some (PFloat NInf, drop 9 s)
      else case s of
        [] \<Rightarrow> None
      | c # t \<Rightarrow> if c = CHR ''-'' then read_number True t else read_number False s)"

text \<open>
  One value, the elements of a list and the members of an object. Each call consumes a
  character before it recurs, so the length of the text bounds the depth of the recursion.
\<close>

fun read_val :: "nat \<Rightarrow> string \<Rightarrow> (pyval \<times> string) option"
  and read_elems :: "nat \<Rightarrow> string \<Rightarrow> (pyval list \<times> string) option"
  and read_members :: "nat \<Rightarrow> pydict \<Rightarrow> string \<Rightarrow> (pydict \<times> string) option" where
  "read_val 0 s = None"
| "read_val (Suc n) s =
     (case s of
        [] \<Rightarrow> None
      | c # t \<Rightarrow>
          if c = CHR 0x22 then map_option (\<lambda>(x, r). (PStr x, r)) (read_str (length s) t)
          else if c = CHR ''['' then
            (let u = skip_ws t in
             if is_prefix '']'' u then Some (PList [], tl u)
             else map_option (\<lambda>(xs, r). (PList xs, r)) (read_elems n u))
          else if c = CHR ''{'' then
            (let u = skip_ws t in
             if is_prefix ''}'' u then Some (PDict [], tl u)
             else map_option (\<lambda>(d, r). (PDict d, r)) (read_members n [] u))
          else read_word s)"
| "read_elems 0 s = None"
| "read_elems (Suc n) s =
     Option.bind (read_val n s) (\<lambda>(x, r).
       case skip_ws r of
         [] \<Rightarrow> None
       | c # t \<Rightarrow>
           if c = CHR '']'' then Some ([x], t)
           else if c = CHR '','' then map_option (\<lambda>(xs, q). (x # xs, q)) (read_elems n (skip_ws t))
           else None)"
| "read_members 0 d s = None"
| "read_members (Suc n) d s =
     (case s of
        [] \<Rightarrow> None
      | c # t \<Rightarrow>
          if c \<noteq> CHR 0x22 then None
          else Option.bind (read_str (length s) t) (\<lambda>(k, r).
            case skip_ws r of
              [] \<Rightarrow> None
            | e # u \<Rightarrow>
                if e \<noteq> CHR '':'' then None
                else Option.bind (read_val n (skip_ws u)) (\<lambda>(x, q).
                  case skip_ws q of
                    [] \<Rightarrow> None
                  | f # w \<Rightarrow>
                      if f = CHR ''}'' then Some (dset k x d, w)
                      else if f = CHR '','' then read_members n (dset k x d) (skip_ws w)
                      else None)))"

text \<open>\<open>json.loads\<close>; \<open>None\<close> is its \<open>JSONDecodeError\<close>.\<close>

definition json_loads :: "string \<Rightarrow> pyval option" where
  "json_loads s =
     (case read_val (Suc (length s)) (skip_ws s) of
        Some (v, r) \<Rightarrow> if skip_ws r = [] then Some v else None
      | None \<Rightarrow> None)"

end
