(* ===== verification/JsonRoundtrip.thy ===== *)
theory JsonRoundtrip
  imports Json
begin

text \<open>
  Reading back what \<open>json.dumps\<close> wrote: for every value without floats whose dictionaries have
  distinct keys, \<open>json_loads (json_dumps v) = Some v\<close>.
\<close>

section \<open>Strings\<close>

lemma code_less: "code c < 256"
  by (simp add: code_def)

lemma char_of_code [simp]: "char_of (code c) = c"
  by (simp add: code_def)

lemma code_char_of: "n < 256 \<Longrightarrow> code (char_of n) = n"
  by (simp add: code_def)

lemma hex_val_digit [simp]: "n < 16 \<Longrightarrow> hex_val (hex_digit n) = Some n"
  by (simp add: hex_val_def hex_digit_def code_char_of Let_def)

lemma hex4_hex2: "n < 256 \<Longrightarrow> hex4 (CHR ''0'' # CHR ''0'' # hex2 n @ r) = Some (n, r)"
proof -
  assume "n < 256"
  then have "n div 16 < 16" "n mod 16 < 16" by simp_all
  moreover have "hex_val (CHR ''0'') = Some 0" by (simp add: hex_val_def code_def Let_def)
  ultimately show ?thesis by (simp add: hex4_def hex2_def)
qed

lemma hex4_ellipsis: "hex4 (''2026'' @ r) = Some (8230, r)" "hex4 (''2013'' @ r) = Some (8211, r)"
  by (simp_all add: hex4_def hex_val_def code_def Let_def)

lemma code_eq_char: "code c = n \<Longrightarrow> c = char_of n"
  using char_of_code [of c] by simp

lemma read_str_char:
  "read_str (Suc n) (json_char c @ r) = map_option (\<lambda>(t, q). (c # t, q)) (read_str n r)"
proof -
  consider (esc) "c = CHR 0x22 \<or> c = CHR 0x5C" | (short) "code c \<in> {8, 9, 10, 12, 13}"
    | (plain) "c \<noteq> CHR 0x22" "c \<noteq> CHR 0x5C" "32 \<le> code c" "code c < 127"
    | (dots) "code c = 133" | (dash) "code c = 150" | (hex) "c \<noteq> CHR 0x22" "c \<noteq> CHR 0x5C" "code c \<notin> {8, 9, 10, 12, 13, 133, 150}"
      "\<not> (32 \<le> code c \<and> code c < 127)" by auto
  then show ?thesis
  proof cases
    case esc
    then show ?thesis by (auto simp: json_char_def unescape_def code_def)
  next
    case short
    then consider "c = char_of (8::nat)" | "c = char_of (9::nat)" | "c = char_of (10::nat)"
      | "c = char_of (12::nat)" | "c = char_of (13::nat)" by (blast dest: code_eq_char)
    then show ?thesis by cases (simp_all add: json_char_def unescape_def code_def)
  next
    case plain
    then show ?thesis by (simp add: json_char_def)
  next
    case dots
    then have ne: "c \<noteq> CHR 0x22 \<and> c \<noteq> CHR 0x5C" by (auto simp: code_def)
    with dots have "json_char c = CHR 0x5C # CHR ''u'' # ''2026''" by (simp add: json_char_def)
    moreover have "uchar 8230 = Some c" using code_eq_char [OF dots] by (simp add: uchar_def)
    ultimately show ?thesis using hex4_ellipsis(1) [of r] ne by (simp add: code_def)
  next
    case dash
    then have ne: "c \<noteq> CHR 0x22 \<and> c \<noteq> CHR 0x5C" by (auto simp: code_def)
    with dash have "json_char c = CHR 0x5C # CHR ''u'' # ''2013''" by (simp add: json_char_def)
    moreover have "uchar 8211 = Some c" using code_eq_char [OF dash] by (simp add: uchar_def)
    ultimately show ?thesis using hex4_ellipsis(2) [of r] ne by (simp add: code_def)
  next
    case hex
    then have "c \<noteq> CHR 0x22 \<and> c \<noteq> CHR 0x5C" "json_char c = CHR 0x5C # CHR ''u'' # CHR ''0'' # CHR ''0'' # hex2 (code c)"
      by (auto simp: json_char_def)
    moreover have "uchar (code c) = Some c" using code_less [of c] hex(3) by (simp add: uchar_def)
    ultimately show ?thesis using hex4_hex2 [OF code_less [of c]] by (simp add: code_def)
  qed
qed

lemma read_str_raw_char:
  "read_str (Suc n) (raw_json_char c @ r) = map_option (\<lambda>(t, q). (c # t, q)) (read_str n r)"
  by (cases "32 \<le> code c \<and> c \<noteq> CHR 0x22 \<and> c \<noteq> CHR 0x5C") (auto simp: raw_json_char_def read_str_char)

section \<open>Integers\<close>

lemma show_nat_aux_acc: "show_nat_aux f n acc = show_nat_aux f n [] @ acc"
proof (induction f arbitrary: n acc)
  case (Suc f)
  have "show_nat_aux f (n div 10) (x # acc) = show_nat_aux f (n div 10) [x] @ acc" for x
    by (metis Suc append_Cons append_Nil append_assoc)
  then show ?case by (simp add: Let_def)
qed simp

lemma show_nat_aux_fuel: "n < f \<Longrightarrow> n < g \<Longrightarrow> show_nat_aux f n acc = show_nat_aux g n acc"
proof (induction f arbitrary: n g acc)
  case (Suc f)
  obtain h where g: "g = Suc h" using Suc.prems by (cases g) auto
  show ?case
  proof (cases "n < 10")
    case False
    then have "n div 10 < n" by simp
    then have "n div 10 < f" "n div 10 < h" using Suc.prems unfolding g by linarith+
    then have "show_nat_aux f (n div 10) a = show_nat_aux h (n div 10) a" for a by (rule Suc.IH)
    with False show ?thesis by (simp add: g Let_def)
  qed (simp add: g Let_def)
qed simp

lemma show_nat_rec:
  "show_nat n = (if n < 10 then [char_of (48 + n)] else show_nat (n div 10) @ [char_of (48 + n mod 10)])"
proof (cases "n < 10")
  case True
  then show ?thesis by (simp add: show_nat_def Let_def)
next
  case False
  have "show_nat_aux n (n div 10) [x] = show_nat_aux (Suc (n div 10)) (n div 10) [x]" for x
    by (rule show_nat_aux_fuel) (use False in auto)
  moreover have "show_nat n = show_nat_aux n (n div 10) [char_of (48 + n mod 10)]"
    using False by (simp only: show_nat_def show_nat_aux.simps Let_def if_False)
  ultimately show ?thesis using False
    show_nat_aux_acc [of "Suc (n div 10)" "n div 10" "[char_of (48 + n mod 10)]"]
    by (simp only: show_nat_def if_False)
qed

lemma show_nat_digits: "\<forall>c \<in> set (show_nat n). is_digit c"
proof (induction n rule: less_induct)
  case (less n)
  have "is_digit (char_of (48 + n mod 10))" by (simp add: is_digit_def code_char_of)
  moreover have "is_digit (char_of (48 + n))" if "n < 10" using that by (simp add: is_digit_def code_char_of)
  moreover have "\<forall>c \<in> set (show_nat (n div 10)). is_digit c" if "\<not> n < 10"
    by (rule less) (use that in simp)
  ultimately show ?case by (subst show_nat_rec) auto
qed

lemma digits_val_show_nat: "digits_val (show_nat n) = int n"
proof (induction n rule: less_induct)
  case (less n)
  show ?case
  proof (cases "n < 10")
    case True
    then show ?thesis by (subst show_nat_rec) (simp add: digits_val_def digit_val_def code_char_of)
  next
    case False
    then have "digits_val (show_nat (n div 10)) = int (n div 10)" using less by simp
    moreover have "digits_val (xs @ [c]) = 10 * digits_val xs + digit_val c" for xs c
      by (simp add: digits_val_def)
    moreover have "digit_val (char_of (48 + n mod 10)) = int (n mod 10)"
      by (simp add: digit_val_def code_char_of)
    moreover have "10 * int (n div 10) + int (n mod 10) = int n"
      by (metis mult_div_mod_eq of_nat_add of_nat_mult of_nat_numeral)
    ultimately show ?thesis using False by (subst show_nat_rec) simp
  qed
qed

lemma show_nat_head:
  "\<exists>c cs. show_nat n = c # cs \<and> (c = CHR ''0'' \<longrightarrow> cs = [])"
proof (induction n rule: less_induct)
  case (less n)
  show ?case
  proof (cases "n < 10")
    case False
    then obtain c cs where "show_nat (n div 10) = c # cs" "c = CHR ''0'' \<longrightarrow> cs = []"
      using less [of "n div 10"] by auto
    moreover have "c \<noteq> CHR ''0''"
    proof
      assume "c = CHR ''0''"
      with calculation have "digits_val (show_nat (n div 10)) = 0"
        by (simp add: digits_val_def digit_val_def code_def)
      with False show False by (simp add: digits_val_show_nat)
    qed
    ultimately show ?thesis using False by (subst show_nat_rec) simp
  next
    case True
    then show ?thesis by (subst show_nat_rec) simp
  qed
qed

text \<open>What may follow a number without becoming part of it.\<close>

definition num_stop :: "string \<Rightarrow> bool" where
  "num_stop r \<longleftrightarrow> (\<forall>c t. r = c # t \<longrightarrow> \<not> is_digit c \<and> c \<noteq> CHR ''.'' \<and> c \<noteq> CHR ''e'' \<and> c \<noteq> CHR ''E'')"

lemma span_digits_show: "num_stop r \<Longrightarrow> span_digits (show_nat n @ r) = (show_nat n, r)"
  using show_nat_digits [of n]
  by (cases r) (auto simp: span_digits_def num_stop_def takeWhile_append2 dropWhile_append2)

lemma read_number_show:
  assumes "num_stop r"
  shows "read_number neg (show_nat n @ r) = Some (PInt (if neg then - int n else int n), r)"
proof -
  obtain c cs where h: "show_nat n = c # cs" "c = CHR ''0'' \<longrightarrow> cs = []" using show_nat_head by blast
  have "read_frac r = ([], r)" using assms by (cases r) (auto simp: read_frac_def num_stop_def)
  moreover have "read_json_exp r = (None, r)" using assms by (cases r) (auto simp: read_json_exp_def num_stop_def)
  moreover have "digits_val (c # cs) = int n" using digits_val_show_nat [of n] h by simp
  moreover have "span_digits (c # cs @ r) = (c # cs, r)" using span_digits_show [OF assms, of n] h by simp
  ultimately show ?thesis using h by (auto simp: read_number_def)
qed

lemma digit_not: "is_digit c \<Longrightarrow> c \<notin> {CHR ''n'', CHR ''t'', CHR ''f'', CHR ''N'', CHR ''I'', CHR ''-'', CHR 0x22, CHR ''['', CHR ''{''} \<and> \<not> json_ws c"
  by (auto simp: is_digit_def code_def json_ws_def)

lemma read_word_int: "num_stop r \<Longrightarrow> read_word (show_int i @ r) = Some (PInt i, r)"
proof -
  assume r: "num_stop r"
  obtain c cs where h: "show_nat (nat \<bar>i\<bar>) = c # cs" using show_nat_head by blast
  then have d: "is_digit c" using show_nat_digits [of "nat \<bar>i\<bar>"] by simp
  have n: "read_number neg (c # cs @ r) = Some (PInt (if neg then - \<bar>i\<bar> else \<bar>i\<bar>), r)" for neg
    using read_number_show [OF r, of neg "nat \<bar>i\<bar>"] h by simp
  have nz: "c \<notin> {CHR ''n'', CHR ''t'', CHR ''f'', CHR ''N'', CHR ''I'', CHR ''-''}" using digit_not [OF d] by blast
  show ?thesis
  proof (cases "i < 0")
    case True
    then have "show_int i = CHR ''-'' # c # cs" using h by (simp add: show_int_def)
    then show ?thesis using n [of True] nz True by (simp add: read_word_def eq_commute [of _ c])
  next
    case False
    then have "show_int i = c # cs" using h by (simp add: show_int_def)
    then show ?thesis using n [of False] nz False by (simp add: read_word_def eq_commute [of _ c])
  qed
qed

section \<open>Values\<close>

fun json_plain :: "pyval \<Rightarrow> bool" where
  "json_plain (PFloat f) = False"
| "json_plain (PList xs) = (\<forall>x \<in> set xs. json_plain x)"
| "json_plain (PDict d) = (distinct (map fst d) \<and> (\<forall>(k, v) \<in> set d. json_plain v))"
| "json_plain _ = True"

lemma skip_ws_stop: "\<not> json_ws c \<Longrightarrow> skip_ws (c # t) = c # t"
  by (simp add: skip_ws_def)

lemma ws_simps [simp]:
  "json_ws (CHR '' '')" "\<not> json_ws (CHR '','')" "\<not> json_ws (CHR '']'')" "\<not> json_ws (CHR ''}'')"
  "\<not> json_ws (CHR '':'')" "\<not> json_ws (CHR 0x22)"
  by (simp_all add: json_ws_def code_def)

lemma skip_ws_simps [simp]: "skip_ws [] = []" "skip_ws (c # t) = (if json_ws c then skip_ws t else c # t)"
  by (simp_all add: skip_ws_def)

lemma num_stop_simps [simp]: "num_stop []" "num_stop (CHR '','' # t)" "num_stop (CHR '']'' # t)" "num_stop (CHR ''}'' # t)"
  by (auto simp: num_stop_def is_digit_def code_def)

section \<open>The round trip\<close>

text \<open>An escaping the reader undoes, character by character.\<close>

locale json_escape =
  fixes esc :: "char \<Rightarrow> string"
  assumes reads_char: "read_str (Suc n) (esc c @ r) = map_option (\<lambda>(t, q). (c # t, q)) (read_str n r)"
    and grows: "1 \<le> length (esc c)"
begin

lemma read_str_body:
  "length s < n \<Longrightarrow> read_str n (concat (map esc s) @ CHR 0x22 # rest) = Some (s, rest)"
proof (induction s arbitrary: n)
  case Nil
  then show ?case by (cases n) simp_all
next
  case (Cons c s)
  then obtain m where "n = Suc m" "length s < m" by (cases n) auto
  with Cons.IH show ?case by (simp add: reads_char)
qed

lemma length_body: "length s \<le> length (concat (map esc s))"
proof (induction s)
  case (Cons c s)
  then show ?case using grows [of c] by simp
qed simp

lemma dumps_head: "json_plain v \<Longrightarrow> \<exists>c t. json_text esc v = c # t \<and> \<not> json_ws c \<and> c \<noteq> CHR '']'' \<and> c \<noteq> CHR ''}''"
proof (cases v)
  case (PInt i)
  obtain c cs where h: "show_nat (nat \<bar>i\<bar>) = c # cs" using show_nat_head by blast
  then have "is_digit c" using show_nat_digits [of "nat \<bar>i\<bar>"] by simp
  then have c: "\<not> json_ws c \<and> c \<noteq> CHR '']'' \<and> c \<noteq> CHR ''}''"
    by (auto simp: is_digit_def code_def json_ws_def)
  show ?thesis
  proof (cases "i < 0")
    case True
    then have "json_text esc v = CHR ''-'' # c # cs" using PInt h by (simp add: show_int_def)
    then show ?thesis by (simp add: json_ws_def code_def)
  next
    case False
    then have "json_text esc v = c # cs" using PInt h by (simp add: show_int_def)
    with c show ?thesis by simp
  qed
next
  case (PBool b)
  then show ?thesis by (cases b) (simp_all add: json_ws_def code_def)
qed (simp_all add: json_ws_def code_def quoted_def)

lemma skip_ws_dumps [simp]: "json_plain v \<Longrightarrow> skip_ws (json_text esc v @ r) = json_text esc v @ r"
  using dumps_head [of v] by (auto simp: skip_ws_stop)

definition reads_back :: "pyval \<Rightarrow> bool" where
  "reads_back v \<longleftrightarrow> (\<forall>n r. length (json_text esc v) < n \<longrightarrow> num_stop r \<longrightarrow> read_val n (json_text esc v @ r) = Some (v, r))"

lemma read_elems_back:
  "xs \<noteq> [] \<Longrightarrow> \<forall>x \<in> set xs. json_plain x \<and> reads_back x \<Longrightarrow>
   length (join '', '' (map (json_text esc) xs)) + 1 < n \<Longrightarrow>
   read_elems n (join '', '' (map (json_text esc) xs) @ CHR '']'' # r) = Some (xs, r)"
proof (induction xs arbitrary: n)
  case (Cons x xs)
  obtain m where n: "n = Suc m" using Cons.prems by (cases n) auto
  show ?case
  proof (cases xs)
    case Nil
    with Cons.prems n show ?thesis by (simp add: reads_back_def)
  next
    case (Cons y ys)
    then have j: "join '', '' (map (json_text esc) (x # xs)) = json_text esc x @ '', '' @ join '', '' (map (json_text esc) xs)"
      by simp
    then have "length (json_text esc x) < m" "length (join '', '' (map (json_text esc) xs)) + 1 < m"
      using Cons.prems(3) unfolding j n by simp_all
    moreover have "skip_ws (join '', '' (map (json_text esc) xs) @ CHR '']'' # r) = join '', '' (map (json_text esc) xs) @ CHR '']'' # r"
      using Cons Cons.prems(2) skip_ws_dumps [of y] by (cases ys) auto
    ultimately show ?thesis
      using Cons.IH [of m] Cons Cons.prems(2) unfolding j n by (simp add: reads_back_def)
  qed
qed simp

abbreviation member_text :: "string \<times> pyval \<Rightarrow> string" where
  "member_text \<equiv> \<lambda>(k, v). quoted esc k @ '': '' @ json_text esc v"

lemma read_key:
  "length (quoted esc k) \<le> n \<Longrightarrow> read_str n (concat (map esc k) @ CHR 0x22 # r) = Some (k, r)"
  using length_body [of k] by (intro read_str_body) (simp add: quoted_def)

lemma read_one_member:
  assumes "json_plain v" "reads_back v" "length (json_text esc v) < n" "num_stop r"
  shows "read_members (Suc n) d (member_text (k, v) @ r) =
    (case skip_ws r of
       [] \<Rightarrow> None
     | f # w \<Rightarrow> if f = CHR ''}'' then Some (dset k v d, w)
         else if f = CHR '','' then read_members n (dset k v d) (skip_ws w) else None)"
proof -
  have "read_str (length (CHR 0x22 # concat (map esc k) @ CHR 0x22 # '': '' @ json_text esc v @ r))
      (concat (map esc k) @ CHR 0x22 # '': '' @ json_text esc v @ r) = Some (k, '': '' @ json_text esc v @ r)"
    by (rule read_key) (simp add: quoted_def)
  moreover have "read_val n (json_text esc v @ r) = Some (v, r)" using assms by (simp add: reads_back_def)
  moreover have "skip_ws (CHR '' '' # json_text esc v @ r) = json_text esc v @ r" using assms(1) by simp
  ultimately show ?thesis by (simp add: quoted_def)
qed

lemma read_members_back:
  "ms \<noteq> [] \<Longrightarrow> \<forall>(k, v) \<in> set ms. json_plain v \<and> reads_back v \<Longrightarrow> distinct (map fst (d @ ms)) \<Longrightarrow>
   length (join '', '' (map member_text ms)) + 1 < n \<Longrightarrow>
   read_members n d (join '', '' (map member_text ms) @ CHR ''}'' # r) = Some (d @ ms, r)"
proof (induction ms arbitrary: n d)
  case (Cons x ms)
  obtain k v where x: "x = (k, v)" by (cases x)
  obtain m where n: "n = Suc m" using Cons.prems by (cases n) auto
  have v: "json_plain v" "reads_back v" using Cons.prems(2) by (auto simp: x)
  have d: "dset k v d = d @ [(k, v)]" using Cons.prems(3) by (intro dkeys_dset_absent) (auto simp: x)
  show ?case
  proof (cases ms)
    case Nil
    have "length (json_text esc v) < m" using Cons.prems(4) by (simp add: n x Nil)
    from read_one_member [OF v this, of "CHR ''}'' # r" d k] show ?thesis by (simp add: n x Nil d)
  next
    case (Cons y ys)
    then have j: "join '', '' (map member_text (x # ms)) = member_text (k, v) @ '', '' @ join '', '' (map member_text ms)"
      by (simp add: x)
    have l: "length (json_text esc v) < m" "length (join '', '' (map member_text ms)) + 1 < m"
      using Cons.prems(4) unfolding j n by simp_all
    have "skip_ws (CHR '' '' # join '', '' (map member_text ms) @ CHR ''}'' # r) = join '', '' (map member_text ms) @ CHR ''}'' # r"
      using Cons by (cases y; cases ys) (simp_all add: quoted_def)
    moreover have "read_members m (d @ [(k, v)]) (join '', '' (map member_text ms) @ CHR ''}'' # r) = Some ((d @ [(k, v)]) @ ms, r)"
      by (rule Cons.IH) (use Cons Cons.prems l in \<open>auto simp: x\<close>)
    ultimately show ?thesis
      using read_one_member [OF v l(1), of "'', '' @ join '', '' (map member_text ms) @ CHR ''}'' # r" d k]
      unfolding j n by (simp add: d x)
  qed
qed simp

lemma reads_back_plain: "json_plain v \<Longrightarrow> reads_back v"
proof (induction v)
  case (PInt i)
  obtain c t where h: "json_text esc (PInt i) = c # t" using dumps_head [of "PInt i"] by auto
  have c: "c \<noteq> CHR 0x22" "c \<noteq> CHR ''[''" "c \<noteq> CHR ''{''"
  proof -
    have "c = CHR ''-'' \<or> is_digit c"
      using h show_nat_digits [of "nat i"] by (auto simp: show_int_def split: if_splits)
    then show "c \<noteq> CHR 0x22" "c \<noteq> CHR ''[''" "c \<noteq> CHR ''{''" by (auto simp: is_digit_def code_def)
  qed
  show ?case unfolding reads_back_def
  proof (intro allI impI)
    fix n r assume n: "length (json_text esc (PInt i)) < n" and r: "num_stop r"
    obtain m where n: "n = Suc m" using n by (cases n) auto
    have "read_word (c # t @ r) = Some (PInt i, r)" using read_word_int [OF r, of i] h by simp
    with c show "read_val n (json_text esc (PInt i) @ r) = Some (PInt i, r)" by (simp only: n h) simp
  qed
next
  case (PStr s)
  show ?case unfolding reads_back_def
  proof (intro allI impI)
    fix n r assume n: "length (json_text esc (PStr s)) < n"
    obtain m where n: "n = Suc m" using n by (cases n) auto
    have "read_str (length (CHR 0x22 # concat (map esc s) @ CHR 0x22 # r)) (concat (map esc s) @ CHR 0x22 # r) = Some (s, r)"
      by (rule read_key) (simp add: quoted_def)
    then show "read_val n (json_text esc (PStr s) @ r) = Some (PStr s, r)" by (simp add: n quoted_def)
  qed
next
  case (PList xs)
  show ?case unfolding reads_back_def
  proof (intro allI impI)
    fix n r assume l: "length (json_text esc (PList xs)) < n"
    obtain m where n: "n = Suc m" using l by (cases n) auto
    show "read_val n (json_text esc (PList xs) @ r) = Some (PList xs, r)"
    proof (cases xs)
      case Nil
      then show ?thesis by (simp add: n)
    next
      case (Cons y ys)
      then have y: "json_plain y" using PList.prems by simp
      obtain c t where c: "json_text esc y = c # t" "\<not> json_ws c" "c \<noteq> CHR '']''" using dumps_head [OF y] by blast
      obtain u where u: "join '', '' (map (json_text esc) xs) @ CHR '']'' # r = c # u" using Cons c(1) by (cases ys) auto
      have "read_elems m (join '', '' (map (json_text esc) xs) @ CHR '']'' # r) = Some (xs, r)"
        by (rule read_elems_back) (use Cons PList l n in auto)
      with c u show ?thesis by (simp add: n)
    qed
  qed
next
  case (PDict ms)
  show ?case unfolding reads_back_def
  proof (intro allI impI)
    fix n r assume l: "length (json_text esc (PDict ms)) < n"
    obtain m where n: "n = Suc m" using l by (cases n) auto
    show "read_val n (json_text esc (PDict ms) @ r) = Some (PDict ms, r)"
    proof (cases ms)
      case Nil
      then show ?thesis by (simp add: n)
    next
      case (Cons y ys)
      obtain u where u: "join '', '' (map member_text ms) @ CHR ''}'' # r = CHR 0x22 # u"
        using Cons by (cases y; cases ys) (simp_all add: quoted_def)
      have "\<forall>(k, v) \<in> set ms. json_plain v \<and> reads_back v"
        using PDict by (fastforce)
      then have "read_members m [] (join '', '' (map member_text ms) @ CHR ''}'' # r) = Some ([] @ ms, r)"
        by (intro read_members_back) (use Cons PDict.prems l n in auto)
      with u show ?thesis by (simp add: n)
    qed
  qed
next
  case PNone
  show ?case unfolding reads_back_def
  proof (intro allI impI)
    fix n r assume "length (json_text esc PNone) < n"
    then obtain m where n: "n = Suc m" by (cases n) auto
    show "read_val n (json_text esc PNone @ r) = Some (PNone, r)" by (simp add: n read_word_def)
  qed
next
  case (PBool b)
  show ?case unfolding reads_back_def
  proof (intro allI impI)
    fix n r assume "length (json_text esc (PBool b)) < n"
    then obtain m where n: "n = Suc m" by (cases n) auto
    show "read_val n (json_text esc (PBool b) @ r) = Some (PBool b, r)" by (cases b) (simp_all add: n read_word_def)
  qed
qed simp

lemma loads_text: "json_plain v \<Longrightarrow> json_loads (json_text esc v) = Some v"
proof -
  assume v: "json_plain v"
  from reads_back_plain [OF v] have "read_val (Suc (length (json_text esc v))) (json_text esc v @ []) = Some (v, [])"
    unfolding reads_back_def by (blast intro: lessI num_stop_simps)
  moreover have "skip_ws (json_text esc v) = json_text esc v" using skip_ws_dumps [OF v, of "[]"] by simp
  ultimately show ?thesis by (simp add: json_loads_def)
qed

end

interpretation ascii: json_escape json_char
  by unfold_locales (rule read_str_char, simp add: json_char_def)

interpretation unicode: json_escape raw_json_char
  by unfold_locales (rule read_str_raw_char, simp add: raw_json_char_def json_char_def)

lemmas json_loads_dumps = ascii.loads_text
lemmas json_loads_raw = unicode.loads_text

end
