(* ===== verification/Memory.thy ===== *)
theory Memory
  imports JsonRoundtrip Timestamps
begin

text \<open>
  \<open>eda_agent/agent/memory.py\<close>: the bounded message history and scratchpad of a session
  (\<open>AgentMemory\<close>), its token and byte budgets, its dictionary form and the sanitising reader of
  that form, and the case memory. The scratchpad's two namespaces are two dictionaries.
\<close>

section \<open>Messages\<close>

record message =
  msg_role :: string
  msg_content :: pyval
  msg_tool_name :: pyval
  msg_call_id :: pyval
  msg_calls :: pyval

record mem =
  max_messages :: int
  result_cap :: int
  history :: "message list"
  ctx :: pydict
  internal :: pydict

datatype mem_exc =
    NoAttribute   \<comment> \<open>\<open>.get\<close> of a value that is no dictionary\<close>
  | NoIteration   \<comment> \<open>\<open>for\<close> over a value that is no container\<close>
  | NoLength      \<comment> \<open>\<open>len\<close> of a value that has none\<close>
  | NoMapping     \<comment> \<open>\<open>dict(v)\<close> of a value it does not accept\<close>
  | NoItem        \<comment> \<open>\<open>v[k]\<close> of a value that has no such item\<close>
  | NoString      \<comment> \<open>an operation on strings applied to another value\<close>

definition new_mem :: "int \<Rightarrow> int \<Rightarrow> mem" where
  "new_mem n cap = \<lparr>max_messages = n, result_cap = cap, history = [], ctx = [], internal = []\<rparr>"

definition default_cap :: int where
  "default_cap = 8 * 1024"

definition user_msg :: "pyval \<Rightarrow> message" where
  "user_msg c = \<lparr>msg_role = ''user'', msg_content = c, msg_tool_name = PNone, msg_call_id = PNone, msg_calls = PNone\<rparr>"

definition assistant_msg :: "pyval \<Rightarrow> pyval \<Rightarrow> message" where
  "assistant_msg c tc = \<lparr>msg_role = ''assistant'', msg_content = c, msg_tool_name = PNone, msg_call_id = PNone, msg_calls = tc\<rparr>"

definition tool_msg :: "pyval \<Rightarrow> pyval \<Rightarrow> pyval \<Rightarrow> message" where
  "tool_msg c name i = \<lparr>msg_role = ''tool'', msg_content = c, msg_tool_name = name, msg_call_id = i, msg_calls = PNone\<rparr>"

definition is_tool :: "message \<Rightarrow> bool" where
  "is_tool m \<longleftrightarrow> msg_role m = ''tool''"

section \<open>History and eviction\<close>

text \<open>The first message and the tool messages right behind it.\<close>

definition drop_group :: "('a \<Rightarrow> bool) \<Rightarrow> 'a list \<Rightarrow> 'a list" where
  "drop_group tool h = dropWhile tool (tl h)"

lemma length_drop_group: "h \<noteq> [] \<Longrightarrow> length (drop_group tool h) < length h"
  using length_dropWhile_le [of tool "tl h"] by (cases h) (auto simp: drop_group_def)

function evict_loop :: "nat \<Rightarrow> message list \<Rightarrow> message list" where
  "evict_loop n h = (if length h \<le> n then h else evict_loop n (drop_group is_tool h))"
  by pat_completeness auto
termination
  by (relation "measure (\<lambda>(n, h). length h)") (auto intro!: length_drop_group)

declare evict_loop.simps [simp del]

definition evict :: "int \<Rightarrow> message list \<Rightarrow> message list" where
  "evict n h = (if n \<le> 0 \<or> int (length h) \<le> n then h else evict_loop (nat n) h)"

definition add_msg :: "message \<Rightarrow> mem \<Rightarrow> mem" where
  "add_msg m s = s\<lparr>history := evict (max_messages s) (history s @ [m])\<rparr>"

definition add_user :: "string \<Rightarrow> mem \<Rightarrow> mem" where
  "add_user c s = add_msg (user_msg (PStr c)) s"

definition add_assistant :: "string \<Rightarrow> pyval \<Rightarrow> mem \<Rightarrow> mem" where
  "add_assistant c tc s = add_msg (assistant_msg (PStr c) tc) s"

definition truncate_result :: "int \<Rightarrow> pyval \<Rightarrow> pyval" where
  "truncate_result cap c = (case c of
      PStr s \<Rightarrow> if 0 < cap \<and> cap < int (length s)
        then PStr (take (nat cap) s @ CHR 0x0A # CHR 0x85 # ''<truncated '' @
          show_int (int (length s) - cap) @ '' chars; use job_logs / query_timing for the full payload>'')
        else c
    | _ \<Rightarrow> c)"

definition add_tool_result :: "pyval \<Rightarrow> pyval \<Rightarrow> pyval \<Rightarrow> mem \<Rightarrow> mem" where
  "add_tool_result name c i s = add_msg (tool_msg (truncate_result (result_cap s) c) name i) s"

definition clear_history :: "mem \<Rightarrow> mem" where
  "clear_history s = s\<lparr>history := []\<rparr>"

definition forget :: "mem \<Rightarrow> mem" where
  "forget s = s\<lparr>history := [], ctx := [], internal := []\<rparr>"

section \<open>The chat format and its token budget\<close>

definition serialise :: "message \<Rightarrow> pydict" where
  "serialise m =
     [(''role'', PStr (msg_role m)), (''content'', msg_content m)] @
     (if msg_role m = ''tool'' then
        (if py_truthy (msg_tool_name m) then [(''name'', msg_tool_name m)] else []) @
        (if py_truthy (msg_call_id m) then [(''tool_call_id'', msg_call_id m)] else [])
      else if msg_role m = ''assistant'' \<and> py_truthy (msg_calls m)
      then [(''tool_calls'', msg_calls m)] else [])"

definition val_length :: "pyval \<Rightarrow> (mem_exc, nat) result" where
  "val_length v = (case v of PStr s \<Rightarrow> Inr (length s) | PList xs \<Rightarrow> Inr (length xs)
     | PDict d \<Rightarrow> Inr (length d) | _ \<Rightarrow> Inl NoLength)"

definition val_items :: "pyval \<Rightarrow> (mem_exc, pyval list) result" where
  "val_items v = (case v of PList xs \<Rightarrow> Inr xs | PDict d \<Rightarrow> Inr (map PStr (dkeys d))
     | PStr s \<Rightarrow> Inr (map (\<lambda>c. PStr [c]) s) | _ \<Rightarrow> Inl NoIteration)"

definition chars_per_token :: nat where "chars_per_token = 4"
definition overhead_tokens :: nat where "overhead_tokens = 4"

definition estimate_msg :: "pydict \<Rightarrow> (mem_exc, nat) result" where
  "estimate_msg m =
     ok_bind (val_length (py_or (pget m ''content'') (PStr []))) (\<lambda>n.
     ok_bind (val_items (py_or (pget m ''tool_calls'') (PList []))) (\<lambda>tcs.
       Inr (n div chars_per_token + overhead_tokens +
            sum_list (map (\<lambda>tc. length (json_dumps tc) div chars_per_token) tcs))))"

fun estimate :: "pydict list \<Rightarrow> (mem_exc, nat) result" where
  "estimate [] = Inr 0"
| "estimate (m # ms) = ok_bind (estimate_msg m) (\<lambda>a. ok_bind (estimate ms) (\<lambda>b. Inr (a + b)))"

definition role_is :: "string \<Rightarrow> pydict \<Rightarrow> bool" where
  "role_is r m \<longleftrightarrow> pget m ''role'' = PStr r"

function trim_loop :: "pydict list \<Rightarrow> int \<Rightarrow> pydict list \<Rightarrow> (mem_exc, pydict list) result" where
  "trim_loop hd_part n rest =
     (if rest = [] then Inr []
      else ok_bind (estimate (hd_part @ rest)) (\<lambda>e.
        if int e \<le> n then Inr rest else trim_loop hd_part n (drop_group (role_is ''tool'') rest)))"
  by pat_completeness auto
termination
  by (relation "measure (\<lambda>(hd_part, n, rest). length rest)") (auto intro!: length_drop_group)

declare trim_loop.simps [simp del]

definition system_part :: "pydict list \<Rightarrow> pydict list" where
  "system_part ms = (case ms of m # _ \<Rightarrow> if role_is ''system'' m then [m] else [] | [] \<Rightarrow> [])"

definition trim_to_token_budget :: "pydict list \<Rightarrow> int \<Rightarrow> (mem_exc, pydict list) result" where
  "trim_to_token_budget ms n =
     ok_bind (estimate ms) (\<lambda>e.
       if int e \<le> n then Inr ms
       else let hd_part = system_part ms; rest = drop (length hd_part) ms in
         ok_bind (trim_loop hd_part n rest) (\<lambda>rest'. Inr (hd_part @ rest')))"

definition get_messages :: "string \<Rightarrow> int option \<Rightarrow> mem \<Rightarrow> (mem_exc, pydict list) result" where
  "get_messages prompt max_tokens s =
     (let ms = (if prompt = [] then [] else [[(''role'', PStr ''system''), (''content'', PStr prompt)]]) @
            map serialise (history s) in
      case max_tokens of
        Some n \<Rightarrow> if 0 < n then trim_to_token_budget ms n else Inr ms
      | None \<Rightarrow> Inr ms)"

section \<open>The byte budget\<close>

text \<open>The text is ASCII, so its UTF-8 form has one byte per character.\<close>

definition payload_bytes :: "message list \<Rightarrow> nat" where
  "payload_bytes h = length (json_dumps (PList (map (\<lambda>m. PDict (serialise m)) h)))"

function shrink_loop :: "int \<Rightarrow> message list \<Rightarrow> message list" where
  "shrink_loop n h =
     (if h = [] then [] else if int (payload_bytes h) \<le> n then h else shrink_loop n (drop_group is_tool h))"
  by pat_completeness auto
termination
  by (relation "measure (\<lambda>(n, h). length h)") (auto intro!: length_drop_group)

declare shrink_loop.simps [simp del]

definition shrink_to_byte_budget :: "int \<Rightarrow> mem \<Rightarrow> mem" where
  "shrink_to_byte_budget n s = (if n \<le> 0 then s else s\<lparr>history := shrink_loop n (history s)\<rparr>)"

section \<open>The dictionary form\<close>

definition mem_to_dict :: "bool \<Rightarrow> mem \<Rightarrow> pydict" where
  "mem_to_dict persist_internal s =
     [(''messages'', PList (map (\<lambda>m. PDict (serialise m)) (history s))),
      (''scratchpad'', PDict ((''context'', PDict (ctx s)) #
         (if persist_internal then [(''_internal'', PDict (internal s))] else [])))]"

text \<open>
  \<open>dict(v)\<close>: a mapping, or a sequence of pairs; a string of two characters is a pair. A pair
  whose key is no string is outside the model and read as an error.
\<close>

fun pair_of :: "pyval \<Rightarrow> (string \<times> pyval) option" where
  "pair_of (PList [PStr k, v]) = Some (k, v)"
| "pair_of (PStr [a, b]) = Some ([a], PStr [b])"
| "pair_of _ = None"

fun dict_of_pairs :: "pyval list \<Rightarrow> pydict \<Rightarrow> (mem_exc, pydict) result" where
  "dict_of_pairs [] d = Inr d"
| "dict_of_pairs (p # ps) d = (case pair_of p of None \<Rightarrow> Inl NoMapping
     | Some (k, v) \<Rightarrow> dict_of_pairs ps (dset k v d))"

definition dict_of_val :: "pyval \<Rightarrow> (mem_exc, pydict) result" where
  "dict_of_val v = (case v of PDict d \<Rightarrow> Inr d | PList ps \<Rightarrow> dict_of_pairs ps []
     | PStr s \<Rightarrow> (if s = [] then Inr [] else Inl NoMapping) | _ \<Rightarrow> Inl NoMapping)"

text \<open>The ids an assistant turn declares: \<open>{str(t.get("id")) for t in tc if t and t.get("id")}\<close>.\<close>

fun declared_ids :: "pyval list \<Rightarrow> (mem_exc, string list) result" where
  "declared_ids [] = Inr []"
| "declared_ids (t # ts) =
     (if py_truthy t then
        (case t of
           PDict d \<Rightarrow> ok_bind (declared_ids ts) (\<lambda>is.
             Inr (if py_truthy (pget d ''id'') then py_str (pget d ''id'') # is else is))
         | _ \<Rightarrow> Inl NoAttribute)
      else declared_ids ts)"

definition calls_ids :: "pyval \<Rightarrow> (mem_exc, string list) result" where
  "calls_ids tc = ok_bind (val_items (py_or tc (PList []))) declared_ids"

text \<open>
  One message of the loop of \<open>_load_messages\<close>: the pending ids and the history afterwards. A
  role that is none of the four is skipped.
\<close>

definition load_dict :: "pydict \<Rightarrow> string list \<times> message list \<Rightarrow> (mem_exc, string list \<times> message list) result" where
  "load_dict m = (\<lambda>(pend, h).
     let role = dgetd m ''role'' (PStr []); content = py_or (pget m ''content'') (PStr []) in
     if role = PStr ''system'' then Inr (pend, h)
     else if role = PStr ''user'' then Inr ([], h @ [user_msg content])
     else if role = PStr ''assistant'' then
       (let tc = py_or (pget m ''tool_calls'') PNone in
        ok_bind (calls_ids tc) (\<lambda>is. Inr (is, h @ [assistant_msg content tc])))
     else if role = PStr ''tool'' then
       (let i = pget m ''tool_call_id'' in
        if py_truthy i \<and> py_str i \<in> set pend
        then Inr (removeAll (py_str i) pend, h @ [tool_msg content (py_or (pget m ''name'') (PStr [])) i])
        else Inr (pend, h))
     else Inr (pend, h))"

fun load_loop :: "pyval list \<Rightarrow> string list \<times> message list \<Rightarrow> (mem_exc, string list \<times> message list) result" where
  "load_loop [] st = Inr st"
| "load_loop (m # ms) st = (case m of
      PDict d \<Rightarrow> ok_bind (load_dict d st) (load_loop ms)
    | _ \<Rightarrow> Inl NoAttribute)"

definition load_messages :: "pyval \<Rightarrow> mem \<Rightarrow> (mem_exc, mem) result" where
  "load_messages ms s =
     ok_bind (val_items ms) (\<lambda>xs. ok_bind (load_loop xs ([], history s)) (\<lambda>(pend, h).
       Inr (s\<lparr>history := evict (max_messages s) h\<rparr>)))"

definition mem_from_dict :: "pydict \<Rightarrow> int \<Rightarrow> (mem_exc, mem) result" where
  "mem_from_dict payload n =
     ok_bind (load_messages (py_or (pget payload ''messages'') (PList [])) (new_mem n default_cap)) (\<lambda>s.
     (case py_or (pget payload ''scratchpad'') (PDict []) of
        PDict scratch \<Rightarrow>
          ok_bind (dict_of_val (py_or (pget scratch ''context'') (PDict []))) (\<lambda>c.
          Inr (s\<lparr>ctx := c,
                 internal := (case pget scratch ''_internal'' of PDict i \<Rightarrow> i | _ \<Rightarrow> internal s)\<rparr>))
      | _ \<Rightarrow> Inr s))"

definition mem_from_messages :: "pyval \<Rightarrow> int \<Rightarrow> (mem_exc, mem) result" where
  "mem_from_messages ms n = mem_from_dict [(''messages'', ms), (''scratchpad'', PDict [])] n"

section \<open>The scratchpad\<close>

definition volatile :: "string \<Rightarrow> bool" where
  "volatile k \<longleftrightarrow> is_prefix ''_'' k"

definition mem_set :: "string \<Rightarrow> pyval \<Rightarrow> mem \<Rightarrow> mem" where
  "mem_set k v s = (if volatile k then s\<lparr>internal := dset k v (internal s)\<rparr> else s\<lparr>ctx := dset k v (ctx s)\<rparr>)"

definition mem_get :: "string \<Rightarrow> pyval \<Rightarrow> mem \<Rightarrow> pyval" where
  "mem_get k x s = dgetd (if volatile k then internal s else ctx s) k x"

definition context_keys :: "string list" where
  "context_keys = [''design_name'', ''pdk'', ''config_path'', ''design_config'', ''backend'',
     ''last_run_id'', ''run_id'', ''stage'']"

fun learn_keys :: "pydict \<Rightarrow> string list \<Rightarrow> mem \<Rightarrow> mem" where
  "learn_keys src [] s = s"
| "learn_keys src (k # ks) s =
     (let v = pget src k in
      learn_keys src ks
        (if none_or_empty v then s else mem_set (if k = ''design_config'' then ''config_path'' else k) v s))"

definition learn_from :: "pyval \<Rightarrow> mem \<Rightarrow> mem" where
  "learn_from src s = (case src of PDict d \<Rightarrow> learn_keys d context_keys s | _ \<Rightarrow> s)"

definition parsed_result :: "pyval \<Rightarrow> pyval" where
  "parsed_result r = (case r of PStr t \<Rightarrow> (case json_loads t of Some v \<Rightarrow> v | None \<Rightarrow> PNone) | _ \<Rightarrow> r)"

definition update_context_from_tool :: "pyval \<Rightarrow> pyval \<Rightarrow> mem \<Rightarrow> mem" where
  "update_context_from_tool args r s = learn_from (parsed_result r) (learn_from args s)"

definition extract_design_context :: "mem \<Rightarrow> (string, string) dict" where
  "extract_design_context s =
     map (\<lambda>(k, v). (k, py_str v)) (filter (\<lambda>(k, v). \<not> none_or_empty v) (ctx s))"

section \<open>The case memory\<close>

text \<open>
  The table \<open>case_memory\<close> with the next value of its serial key. PostgreSQL's text search is a
  parameter: \<open>ts_match\<close> is \<open>to_tsvector('english', d) @@ plainto_tsquery('english', q)\<close> and
  \<open>ts_rank\<close> its rank. \<open>db_up\<close> says whether the database answers; every failure of the search
  is caught.
\<close>

record case_row =
  c_id :: int
  c_design :: string
  c_pdk :: string
  c_symptoms :: string
  c_root :: string
  c_actions :: pyval
  c_metrics :: pyval
  c_created :: datetime

record case_env =
  ts_match :: "string \<Rightarrow> string \<Rightarrow> bool"
  ts_rank :: "string \<Rightarrow> string \<Rightarrow> rat"
  db_up :: bool

definition save_case :: "datetime \<Rightarrow> string \<Rightarrow> string \<Rightarrow> string \<Rightarrow> string \<Rightarrow> pyval \<Rightarrow> pyval
    \<Rightarrow> int \<times> case_row list \<Rightarrow> int \<times> (int \<times> case_row list)" where
  "save_case now design symptoms cause the_pdk acts metrics = (\<lambda>(next_id, rows).
     (next_id, (next_id + 1, rows @
        [\<lparr>c_id = next_id, c_design = design, c_pdk = the_pdk, c_symptoms = symptoms, c_root = cause,
          c_actions = py_or acts (PList []), c_metrics = py_or metrics (PDict []), c_created = now\<rparr>])))"

text \<open>SQL's \<open>LIKE\<close>: percent, underscore, and the backslash before a literal character.\<close>

function (sequential) like :: "string \<Rightarrow> string \<Rightarrow> bool" where
  "like [] t = (t = [])"
| "like (p # ps) t =
     (if p = CHR ''%'' then (like ps t \<or> (case t of [] \<Rightarrow> False | c # t' \<Rightarrow> like (p # ps) t'))
      else if p = CHR ''_'' then (case t of [] \<Rightarrow> False | c # t' \<Rightarrow> like ps t')
      else if p = CHR 0x5C then
        (case (ps, t) of (q # qs, c # t') \<Rightarrow> c = q \<and> like qs t' | _ \<Rightarrow> False)
      else (case t of [] \<Rightarrow> False | c # t' \<Rightarrow> c = p \<and> like ps t'))"
  by pat_completeness auto
termination by (relation "measure (\<lambda>(p, t). length p + length t)") auto

definition ilike :: "string \<Rightarrow> string \<Rightarrow> bool" where
  "ilike t p \<longleftrightarrow> like (py_lower p) (py_lower t)"

definition case_text :: "case_row \<Rightarrow> string" where
  "case_text r = c_symptoms r @ '' '' @ c_root r"

definition fts_rows :: "case_env \<Rightarrow> string \<Rightarrow> string \<Rightarrow> nat \<Rightarrow> case_row list \<Rightarrow> case_row list" where
  "fts_rows env q design limit rows =
     take limit (sort_desc (\<lambda>a b. ts_rank env (case_text a) q < ts_rank env (case_text b) q)
       (filter (\<lambda>r. ts_match env (case_text r) q \<and> (design = [] \<or> c_design r = design)) rows))"

text \<open>In SQL \<open>AND\<close> binds tighter than \<open>OR\<close>.\<close>

definition fallback_rows :: "string \<Rightarrow> string \<Rightarrow> nat \<Rightarrow> case_row list \<Rightarrow> case_row list" where
  "fallback_rows pat design limit rows =
     take limit (sort_desc (\<lambda>a b. dt_less (c_created a) (c_created b))
       (filter (\<lambda>r. ilike (c_symptoms r) pat \<or> ilike (c_root r) pat \<and> (design = [] \<or> c_design r = design)) rows))"

definition first_word :: "string \<Rightarrow> string" where
  "first_word q = (let w = takeWhile (\<lambda>c. \<not> is_space c) (dropWhile is_space q) in if w = [] then q else w)"

definition json_column :: "(pyval \<Rightarrow> bool) \<Rightarrow> string \<Rightarrow> pyval \<Rightarrow> pyval option" where
  "json_column ok dflt v =
     (if ok v then Some v else case py_or v (PStr dflt) of PStr t \<Rightarrow> json_loads t | _ \<Rightarrow> None)"

fun is_list :: "pyval \<Rightarrow> bool" where
  "is_list (PList _) = True"
| "is_list _ = False"

definition str_dt :: "datetime \<Rightarrow> string" where
  "str_dt t = (let s = isoformat t in take 10 s @ '' '' @ drop 11 s)"

definition case_to_dict :: "case_row \<Rightarrow> pydict option" where
  "case_to_dict r =
     Option.bind (json_column is_list ''[]'' (c_actions r)) (\<lambda>acts.
     map_option (\<lambda>met.
       [(''id'', PInt (c_id r)), (''design_name'', PStr (c_design r)), (''pdk'', PStr (c_pdk r)),
        (''symptoms'', PStr (c_symptoms r)), (''root_cause'', PStr (c_root r)), (''actions'', acts),
        (''result_metrics'', met), (''created_at'', PStr (str_dt (c_created r)))])
     (json_column is_dict ''{}'' (c_metrics r)))"

definition search_similar_cases :: "case_env \<Rightarrow> string \<Rightarrow> string \<Rightarrow> int \<Rightarrow> case_row list \<Rightarrow> pydict list" where
  "search_similar_cases env q design limit rows =
     (if \<not> db_up env \<or> limit < 0 then []
      else let hits = fts_rows env q design (nat limit) rows;
               found = (if hits = [] then fallback_rows (''%'' @ first_word q @ ''%'') design (nat limit) rows else hits)
           in case all_some (map case_to_dict found) of Some ds \<Rightarrow> ds | None \<Rightarrow> [])"

end
