(* ===== verification/MemoryLemmas.thy ===== *)
theory MemoryLemmas
  imports Memory
begin

text \<open>
  Lemmas of the session memory: what dropping message groups keeps (\<open>kept_groups\<close>), the pairing
  of tool results with the calls that asked for them (\<open>pair_run\<close>), the loader's invariant, and
  the reading of a serialised message.
\<close>

section \<open>Dropping groups\<close>

text \<open>A suffix that is everything, nothing, or does not start with a tool message.\<close>

definition kept_groups :: "('a \<Rightarrow> bool) \<Rightarrow> 'a list \<Rightarrow> 'a list \<Rightarrow> bool" where
  "kept_groups tool h' h \<longleftrightarrow> is_suffix h' h \<and> (h' = h \<or> h' = [] \<or> \<not> tool (hd h'))"

lemma kept_groups_refl [simp]: "kept_groups tool h h"
  by (simp add: kept_groups_def)

lemma kept_groups_Nil [simp]: "kept_groups tool [] h"
  by (simp add: kept_groups_def)

lemma drop_group_suffix: "is_suffix (drop_group tool h) h"
  by (cases h) (auto simp: drop_group_def)

lemma hd_drop_group: "drop_group tool h \<noteq> [] \<Longrightarrow> \<not> tool (hd (drop_group tool h))"
  by (simp add: drop_group_def hd_dropWhile)

lemma kept_groups_step: "kept_groups tool h' (drop_group tool h) \<Longrightarrow> kept_groups tool h' h"
  using hd_drop_group [of tool h] is_suffix_trans [OF _ drop_group_suffix]
  by (auto simp: kept_groups_def)

lemma evict_loop_kept: "kept_groups is_tool (evict_loop n h) h \<and> length (evict_loop n h) \<le> n"
proof (induction n h rule: evict_loop.induct)
  case (1 n h)
  then show ?case
    by (cases "length h \<le> n") (auto simp: evict_loop.simps [of n h] intro: kept_groups_step)
qed

lemma evict_kept: "kept_groups is_tool (evict n h) h"
  by (simp add: evict_def evict_loop_kept)

lemma evict_length: "0 < n \<Longrightarrow> int (length (evict n h)) \<le> n"
  using evict_loop_kept [of "nat n" h] by (simp add: evict_def) linarith

lemma evict_id: "int (length h) \<le> n \<or> n \<le> 0 \<Longrightarrow> evict n h = h"
  by (auto simp: evict_def)

lemma shrink_loop_kept:
  "kept_groups is_tool (shrink_loop n h) h \<and> (shrink_loop n h = [] \<or> int (payload_bytes (shrink_loop n h)) \<le> n)"
proof (induction n h rule: shrink_loop.induct)
  case (1 n h)
  then show ?case
    by (cases "h = []"; cases "int (payload_bytes h) \<le> n")
      (auto simp: shrink_loop.simps [of n h] shrink_loop.simps [of n "[]"] intro: kept_groups_step)
qed

lemma trim_loop_kept:
  "trim_loop sys n rest = Inr rest' \<Longrightarrow> kept_groups (role_is ''tool'') rest' rest \<and>
     (rest' = [] \<or> (\<exists>e. estimate (sys @ rest') = Inr e \<and> int e \<le> n))"
proof (induction sys n rest rule: trim_loop.induct)
  case (1 sys n rest)
  show ?case
  proof (cases "rest = []")
    case True
    with "1.prems" show ?thesis by (simp add: trim_loop.simps)
  next
    case False
    with "1.prems" obtain e where e: "estimate (sys @ rest) = Inr e"
      by (auto simp: trim_loop.simps [of sys n rest] ok_bind_eq_Inr)
    show ?thesis
    proof (cases "int e \<le> n")
      case True
      with e False "1.prems" show ?thesis by (auto simp: trim_loop.simps [of sys n rest])
    next
      case False
      with e \<open>rest \<noteq> []\<close> "1.prems" have "trim_loop sys n (drop_group (role_is ''tool'') rest) = Inr rest'"
        by (simp add: trim_loop.simps [of sys n rest])
      from "1.IH" [OF \<open>rest \<noteq> []\<close> False this] show ?thesis by (auto intro: kept_groups_step)
    qed
  qed
qed

section \<open>The token estimate\<close>

definition measurable :: "message \<Rightarrow> bool" where
  "measurable m \<longleftrightarrow> is_str (msg_content m) \<and> (is_list (msg_calls m) \<or> msg_calls m = PNone)"

lemma pget_serialise [simp]:
  "pget (serialise m) ''role'' = PStr (msg_role m)"
  "pget (serialise m) ''content'' = msg_content m"
  "pget (serialise m) ''tool_calls'' =
     (if msg_role m = ''assistant'' \<and> py_truthy (msg_calls m) then msg_calls m else PNone)"
  "pget (serialise m) ''tool_call_id'' =
     (if msg_role m = ''tool'' \<and> py_truthy (msg_call_id m) then msg_call_id m else PNone)"
  "pget (serialise m) ''name'' =
     (if msg_role m = ''tool'' \<and> py_truthy (msg_tool_name m) then msg_tool_name m else PNone)"
  by (auto simp: serialise_def pget_def)

lemma role_is_serialise [simp]: "role_is r (serialise m) \<longleftrightarrow> msg_role m = r"
  by (simp add: role_is_def)

lemma estimate_measurable: "measurable m \<Longrightarrow> \<exists>k. estimate_msg (serialise m) = Inr k"
  by (cases "msg_content m"; cases "msg_calls m")
    (auto simp: measurable_def estimate_msg_def py_or_def val_length_def val_items_def)

definition countable :: "pydict list \<Rightarrow> bool" where
  "countable ms \<longleftrightarrow> (\<forall>m \<in> set ms. \<exists>k. estimate_msg m = Inr k)"

lemma countable_estimate: "countable ms \<Longrightarrow> \<exists>k. estimate ms = Inr k"
  by (induction ms) (auto simp: countable_def)

lemma trim_loop_total: "countable (sys @ rest) \<Longrightarrow> \<exists>rest'. trim_loop sys n rest = Inr rest'"
proof (induction sys n rest rule: trim_loop.induct)
  case (1 sys n rest)
  from countable_estimate [OF "1.prems"] obtain e where e: "estimate (sys @ rest) = Inr e" by blast
  have "set (drop_group (role_is ''tool'') rest) \<subseteq> set rest"
    by (rule is_suffix_set [OF drop_group_suffix])
  then have "countable (sys @ drop_group (role_is ''tool'') rest)"
    using "1.prems" by (auto simp: countable_def)
  with "1.IH" [OF _ _ this] e show ?case
    by (cases "rest = []"; cases "int e \<le> n")
      (auto simp: trim_loop.simps [of sys n rest] trim_loop.simps [of sys n "[]"])
qed

lemma system_part_split: "ms = system_part ms @ drop (length (system_part ms)) ms"
  by (cases ms) (auto simp: system_part_def)

lemma trim_spec:
  assumes "countable ms"
  shows "\<exists>rest'. trim_to_token_budget ms n = Inr (system_part ms @ rest') \<and>
    kept_groups (role_is ''tool'') rest' (drop (length (system_part ms)) ms) \<and>
    (rest' = [] \<or> (\<exists>e. estimate (system_part ms @ rest') = Inr e \<and> int e \<le> n))"
proof -
  from countable_estimate [OF assms] obtain e where e: "estimate ms = Inr e" by blast
  let ?rest = "drop (length (system_part ms)) ms"
  show ?thesis
  proof (cases "int e \<le> n")
    case True
    with e show ?thesis by (intro exI [of _ ?rest]) (simp add: trim_to_token_budget_def system_part_split [symmetric])
  next
    case False
    from assms have "countable (system_part ms @ ?rest)" by (simp add: system_part_split [symmetric])
    then obtain rest' where "trim_loop (system_part ms) n ?rest = Inr rest'" using trim_loop_total by blast
    with False e trim_loop_kept [OF this] show ?thesis by (auto simp: trim_to_token_budget_def Let_def)
  qed
qed

lemma kept_groups_map:
  assumes "kept_groups q xs (map f h)" "\<And>m. q (f m) = p m"
  shows "\<exists>h'. xs = map f h' \<and> kept_groups p h' h"
proof -
  from assms(1) obtain zs where z: "map f h = zs @ xs" by (auto simp: kept_groups_def is_suffix_def)
  let ?h' = "drop (length zs) h"
  have x: "xs = map f ?h'" by (metis append_eq_conv_conj drop_map z)
  moreover have "is_suffix ?h' h" unfolding is_suffix_def by (metis append_take_drop_id)
  moreover have "?h' = h \<or> ?h' = [] \<or> \<not> p (hd ?h')"
  proof (cases "xs = map f h \<or> ?h' = []")
    case True
    then show ?thesis using z by auto
  next
    case False
    then have "\<not> q (hd xs)" using assms(1) x by (auto simp: kept_groups_def)
    then show ?thesis using False x assms(2) by (simp add: hd_map)
  qed
  ultimately show ?thesis by (auto simp: kept_groups_def)
qed

section \<open>Pairing\<close>

text \<open>
  The ids still open after a message sequence, \<open>None\<close> when a tool message answers no call of
  the latest assistant turn (or a message has another role).
\<close>

definition pair_step :: "message \<Rightarrow> string list \<Rightarrow> string list option" where
  "pair_step m pend =
     (if msg_role m = ''user'' then Some []
      else if msg_role m = ''assistant'' then (case calls_ids (msg_calls m) of Inr is \<Rightarrow> Some is | Inl _ \<Rightarrow> None)
      else if msg_role m = ''tool'' \<and> py_truthy (msg_call_id m) \<and> py_str (msg_call_id m) \<in> set pend
      then Some (removeAll (py_str (msg_call_id m)) pend) else None)"

fun pair_run :: "string list \<Rightarrow> message list \<Rightarrow> string list option" where
  "pair_run pend [] = Some pend"
| "pair_run pend (m # ms) = Option.bind (pair_step m pend) (\<lambda>p. pair_run p ms)"

definition well_paired :: "message list \<Rightarrow> bool" where
  "well_paired h \<longleftrightarrow> pair_run [] h \<noteq> None"

lemma pair_run_append: "pair_run p (a @ b) = Option.bind (pair_run p a) (\<lambda>q. pair_run q b)"
  by (induction a arbitrary: p) (auto split: bind_splits)

lemma pair_step_any: "\<not> is_tool m \<Longrightarrow> pair_step m p = pair_step m q"
  by (auto simp: pair_step_def is_tool_def)

lemma pair_run_any: "h = [] \<or> \<not> is_tool (hd h) \<Longrightarrow> pair_run p h \<noteq> None \<Longrightarrow> pair_run q h \<noteq> None"
  using pair_step_any [of "hd h" p q] by (cases h) auto

lemma well_paired_kept:
  assumes "well_paired h" "kept_groups is_tool h' h"
  shows "well_paired h'"
proof -
  from assms(2) obtain zs where z: "h = zs @ h'" and c: "h' = h \<or> h' = [] \<or> \<not> is_tool (hd h')"
    by (auto simp: kept_groups_def is_suffix_def)
  from c consider "h' = h" | "h' = [] \<or> \<not> is_tool (hd h')" by blast
  then show ?thesis
  proof cases
    case 2
    from assms(1) z obtain q where "pair_run q h' \<noteq> None"
      by (auto simp: well_paired_def pair_run_append split: bind_splits)
    with 2 show ?thesis unfolding well_paired_def by (rule pair_run_any)
  qed (use assms in simp)
qed

lemma well_paired_head: "well_paired (m # ms) \<Longrightarrow> \<not> is_tool m"
  by (auto simp: well_paired_def pair_step_def is_tool_def)

lemma calls_ids_or: "calls_ids (py_or v PNone) = calls_ids v"
  by (simp add: calls_ids_def py_or_def)

lemma load_dict_pairs:
  assumes "load_dict m (pend, h) = Inr (pend', h')" "pair_run [] h = Some pend"
  shows "pair_run [] h' = Some pend'"
proof -
  note step = assms(1) [unfolded load_dict_def Let_def prod.case]
  let ?r = "dgetd m ''role'' (PStr [])"
  consider "?r = PStr ''user''" | "?r = PStr ''assistant''" | "?r = PStr ''tool''"
    | "?r \<notin> {PStr ''user'', PStr ''assistant'', PStr ''tool''}" by blast
  then show ?thesis
  proof cases
    case 1
    with step assms(2) show ?thesis by (auto simp: pair_run_append pair_step_def user_msg_def)
  next
    case 2
    with step assms(2) show ?thesis
      by (auto simp: pair_run_append pair_step_def assistant_msg_def ok_bind_eq_Inr)
  next
    case 3
    with step assms(2) show ?thesis
      by (auto simp: pair_run_append pair_step_def tool_msg_def split: if_splits)
  next
    case 4
    with step assms(2) show ?thesis by (auto split: if_splits)
  qed
qed

lemma load_loop_pairs:
  "load_loop ms (pend, h) = Inr (pend', h') \<Longrightarrow> pair_run [] h = Some pend \<Longrightarrow> pair_run [] h' = Some pend'"
proof (induction ms arbitrary: pend h)
  case Nil
  then show ?case by simp
next
  case (Cons m ms)
  then obtain d p1 h1 where "m = PDict d" "load_dict d (pend, h) = Inr (p1, h1)" "load_loop ms (p1, h1) = Inr (pend', h')"
    by (auto simp: ok_bind_eq_Inr split: pyval.splits)
  with load_dict_pairs Cons show ?case by blast
qed

lemma load_messages_spec:
  assumes "load_messages ms s = Inr s'" "history s = []"
  shows "well_paired (history s') \<and> (0 < max_messages s \<longrightarrow> int (length (history s')) \<le> max_messages s)"
proof -
  from assms obtain xs pend h where "load_loop xs ([], []) = Inr (pend, h)"
    and s': "s' = s\<lparr>history := evict (max_messages s) h\<rparr>"
    by (auto simp: load_messages_def ok_bind_eq_Inr)
  then have "well_paired h" using load_loop_pairs [of xs "[]" "[]"] by (simp add: well_paired_def)
  then have "well_paired (evict (max_messages s) h)" by (rule well_paired_kept [OF _ evict_kept])
  with s' evict_length show ?thesis by simp
qed

lemma mem_from_dict_history:
  assumes "mem_from_dict payload n = Inr s"
  shows "\<exists>s0. load_messages (py_or (pget payload ''messages'') (PList [])) (new_mem n default_cap) = Inr s0 \<and>
    history s = history s0"
proof -
  let ?sp = "py_or (pget payload ''scratchpad'') (PDict [])"
  from assms obtain s0 where s0: "load_messages (py_or (pget payload ''messages'') (PList [])) (new_mem n default_cap) = Inr s0"
    unfolding mem_from_dict_def ok_bind_eq_Inr by blast
  have "history s = history s0"
    using assms by (cases ?sp) (auto simp: mem_from_dict_def s0 ok_bind_eq_Inr)
  with s0 show ?thesis by blast
qed

section \<open>Reading a serialised message\<close>

text \<open>The messages the operations build, as the loader builds them again.\<close>

definition canonical :: "message \<Rightarrow> bool" where
  "canonical m \<longleftrightarrow> py_or (msg_content m) (PStr []) = msg_content m \<and>
     (m = user_msg (msg_content m) \<or>
      m = assistant_msg (msg_content m) (msg_calls m) \<and> py_or (msg_calls m) PNone = msg_calls m \<or>
      m = tool_msg (msg_content m) (msg_tool_name m) (msg_call_id m) \<and>
        py_or (msg_tool_name m) (PStr []) = msg_tool_name m)"

lemma py_or_get: "py_or v w = v \<Longrightarrow> py_or (if py_truthy v then v else PNone) w = v"
  by (auto simp: py_or_def)

lemma load_dict_serialise:
  assumes "canonical m" "pair_step m pend = Some q"
  shows "load_dict (serialise m) (pend, h) = Inr (q, h @ [m])"
proof -
  have r: "dgetd (serialise m) ''role'' (PStr []) = PStr (msg_role m)"
    by (simp add: serialise_def dgetd_def)
  from assms(1) have c: "py_or (msg_content m) (PStr []) = msg_content m" by (simp add: canonical_def)
  from assms(1) consider (u) "m = user_msg (msg_content m)"
    | (a) "m = assistant_msg (msg_content m) (msg_calls m)" "py_or (msg_calls m) PNone = msg_calls m"
    | (t) "m = tool_msg (msg_content m) (msg_tool_name m) (msg_call_id m)"
        "py_or (msg_tool_name m) (PStr []) = msg_tool_name m"
    by (auto simp: canonical_def)
  then show ?thesis
  proof cases
    case u
    then have "msg_role m = ''user''" by (metis message.select_convs(1) user_msg_def)
    with assms(2) u c r show ?thesis by (simp add: load_dict_def Let_def pair_step_def)
  next
    case a
    then have role: "msg_role m = ''assistant''" by (metis message.select_convs(1) assistant_msg_def)
    with assms(2) obtain "calls_ids (msg_calls m) = Inr q"
      by (auto simp: pair_step_def split: sum.splits)
    with a c r role py_or_get [OF a(2)] show ?thesis by (simp add: load_dict_def Let_def)
  next
    case t
    then have role: "msg_role m = ''tool''" by (metis message.select_convs(1) tool_msg_def)
    with assms(2) have "py_truthy (msg_call_id m)" "py_str (msg_call_id m) \<in> set pend"
      "q = removeAll (py_str (msg_call_id m)) pend" by (auto simp: pair_step_def split: if_splits)
    with t c r role py_or_get [OF t(2)] show ?thesis by (simp add: load_dict_def Let_def)
  qed
qed

lemma load_loop_serialise:
  "\<forall>m \<in> set ms. canonical m \<Longrightarrow> pair_run pend ms = Some q \<Longrightarrow>
   load_loop (map (\<lambda>m. PDict (serialise m)) ms) (pend, h) = Inr (q, h @ ms)"
proof (induction ms arbitrary: pend h)
  case Nil
  then show ?case by simp
next
  case (Cons m ms)
  then obtain p where "pair_step m pend = Some p" "pair_run p ms = Some q" by (auto split: bind_splits)
  with Cons load_dict_serialise show ?case by simp
qed

lemma memory_back:
  assumes "well_paired (history s)" "\<forall>m \<in> set (history s). canonical m"
    and "n \<le> 0 \<or> int (length (history s)) \<le> n"
  shows "mem_from_dict (mem_to_dict False s) n =
    Inr \<lparr>max_messages = n, result_cap = default_cap, history = history s, ctx = ctx s, internal = []\<rparr>"
proof -
  from assms(1) obtain q where "pair_run [] (history s) = Some q" by (auto simp: well_paired_def)
  with load_loop_serialise [OF assms(2)]
  have l: "load_loop (map (\<lambda>m. PDict (serialise m)) (history s)) ([], []) = Inr (q, history s)" by simp
  have m: "py_or (PList (map (\<lambda>m. PDict (serialise m)) (history s))) (PList []) =
      PList (map (\<lambda>m. PDict (serialise m)) (history s))" by (simp add: py_or_def)
  have "py_or (PDict (ctx s)) (PDict []) = PDict (ctx s)" by (simp add: py_or_def)
  then show ?thesis using assms(3)
    by (auto simp: mem_from_dict_def mem_to_dict_def pget_def load_messages_def m l val_items_def
        new_mem_def evict_id dict_of_val_def py_or_def)
qed

section \<open>The scratchpad\<close>

lemma mem_get_set [simp]: "mem_get k x (mem_set k' v s) = (if k = k' then v else mem_get k x s)"
  by (auto simp: mem_get_def mem_set_def dgetd_dset)

lemma history_mem_set [simp]: "history (mem_set k v s) = history s"
  by (simp add: mem_set_def)

lemma history_learn [simp]: "history (learn_keys d ks s) = history s"
  by (induction ks arbitrary: s) (simp_all add: Let_def)

lemma learn_other: "k \<notin> set ks \<Longrightarrow> k \<noteq> ''config_path'' \<Longrightarrow> mem_get k x (learn_keys d ks s) = mem_get k x s"
  by (induction ks arbitrary: s) (auto simp: Let_def)

lemma learn_one:
  "distinct ks \<Longrightarrow> k \<in> set ks \<Longrightarrow> k \<noteq> ''config_path'' \<Longrightarrow> k \<noteq> ''design_config'' \<Longrightarrow>
   mem_get k x (learn_keys d ks s) = (if none_or_empty (pget d k) then mem_get k x s else pget d k)"
proof (induction ks arbitrary: s)
  case Nil
  then show ?case by simp
next
  case (Cons a ks)
  then show ?case by (cases "a = k") (auto simp: Let_def learn_other)
qed

lemma learn_config_path:
  "mem_get ''config_path'' x (learn_keys d context_keys s) =
     (if \<not> none_or_empty (pget d ''design_config'') then pget d ''design_config''
      else if \<not> none_or_empty (pget d ''config_path'') then pget d ''config_path''
      else mem_get ''config_path'' x s)"
  by (simp add: context_keys_def Let_def)

end
