(* ===== verification/SessionStore.thy ===== *)
theory SessionStore
  imports MemoryLemmas
begin

text \<open>
  \<open>eda_agent/agent/session_store.py\<close>: the table \<open>agent_sessions\<close> and the operations on it. A
  connection is the table with what decides how its statements behave: whether the column
  \<open>scratchpad\<close> exists, whether every statement fails (and with which text), and the two
  version tests. A statement that fails inside a transaction makes the later ones fail until a
  rollback, as PostgreSQL documents; a JSON column holds the value its text encodes.
\<close>

section \<open>Data\<close>

record sess_row =
  ss_id :: string
  ss_user :: pyval
  ss_messages :: pyval
  ss_scratch :: pyval
  ss_updated :: datetime

record sess_db =
  sd_rows :: "sess_row list"
  sd_has_scratch :: bool
  sd_down :: "string option"
  sd_missing_text :: string
  sd_on_conflict :: bool
  sd_jsonb :: bool

record session_info =
  si_id :: string
  si_user :: pyval
  si_updated :: datetime
  si_count :: int

definition max_session_bytes :: int where
  "max_session_bytes = 512 * 1024"

definition missing_column_error :: "string \<Rightarrow> string \<Rightarrow> bool" where
  "missing_column_error exc column \<longleftrightarrow>
     (let t = py_lower exc in
      is_infix (py_lower column) t \<and> (is_infix ''does not exist'' t \<or> is_infix ''undefinedcolumn'' t))"

text \<open>The text a statement raises with, if it does.\<close>

definition stmt_error :: "bool \<Rightarrow> sess_db \<Rightarrow> string option" where
  "stmt_error uses_scratch db =
     (case sd_down db of
        Some e \<Rightarrow> Some e
      | None \<Rightarrow> if uses_scratch \<and> \<not> sd_has_scratch db then Some (sd_missing_text db) else None)"

definition find_session :: "string \<Rightarrow> sess_row list \<Rightarrow> sess_row option" where
  "find_session sid rows = find (\<lambda>r. ss_id r = sid) rows"

definition set_session :: "string \<Rightarrow> (sess_row \<Rightarrow> sess_row) \<Rightarrow> sess_row list \<Rightarrow> sess_row list" where
  "set_session sid f rows = map (\<lambda>r. if ss_id r = sid then f r else r) rows"

section \<open>Saving\<close>

text \<open>
  \<open>scratch\<close> is \<open>None\<close> in the statements of the old layout; an inserted row then has no
  scratchpad.
\<close>

definition write_row :: "datetime \<Rightarrow> pyval \<Rightarrow> pyval option \<Rightarrow> sess_row \<Rightarrow> sess_row" where
  "write_row now msgs scratch r =
     (case scratch of
        Some sc \<Rightarrow> r\<lparr>ss_messages := msgs, ss_scratch := sc, ss_updated := now\<rparr>
      | None \<Rightarrow> r\<lparr>ss_messages := msgs, ss_updated := now\<rparr>)"

definition inserted_row :: "datetime \<Rightarrow> string \<Rightarrow> string \<Rightarrow> pyval \<Rightarrow> pyval option \<Rightarrow> sess_row" where
  "inserted_row now sid user msgs scratch =
     \<lparr>ss_id = sid, ss_user = PStr user, ss_messages = msgs,
      ss_scratch = (case scratch of Some sc \<Rightarrow> sc | None \<Rightarrow> PNone), ss_updated = now\<rparr>"

text \<open>\<open>INSERT ... ON CONFLICT (session_id) DO UPDATE\<close>.\<close>

definition upsert_on_conflict :: "datetime \<Rightarrow> string \<Rightarrow> string \<Rightarrow> pyval \<Rightarrow> pyval option \<Rightarrow> sess_row list \<Rightarrow> sess_row list" where
  "upsert_on_conflict now sid user msgs scratch rows =
     (case find_session sid rows of
        None \<Rightarrow> rows @ [inserted_row now sid user msgs scratch]
      | Some _ \<Rightarrow> set_session sid (write_row now msgs scratch) rows)"

text \<open>\<open>_update_then_insert_session\<close> and its \<open>_legacy\<close> form: the row count decides.\<close>

definition update_then_insert :: "datetime \<Rightarrow> string \<Rightarrow> string \<Rightarrow> pyval \<Rightarrow> pyval option \<Rightarrow> sess_row list \<Rightarrow> sess_row list" where
  "update_then_insert now sid user msgs scratch rows =
     (let rows' = set_session sid (write_row now msgs scratch) rows;
          n = length (filter (\<lambda>r. ss_id r = sid) rows)
      in if n = 0 then rows' @ [inserted_row now sid user msgs scratch] else rows')"

definition write_session :: "datetime \<Rightarrow> string \<Rightarrow> string \<Rightarrow> pyval \<Rightarrow> pyval option \<Rightarrow> sess_db \<Rightarrow> sess_db" where
  "write_session now sid user msgs scratch db =
     db\<lparr>sd_rows := (if sd_on_conflict db then upsert_on_conflict else update_then_insert)
       now sid user msgs scratch (sd_rows db)\<rparr>"

text \<open>The memory is shrunk in place, so the caller sees the shorter history too.\<close>

definition save_session :: "datetime \<Rightarrow> string \<Rightarrow> string \<Rightarrow> mem \<Rightarrow> sess_db option \<Rightarrow> mem \<times> sess_db option" where
  "save_session now sid user s conn =
     (case conn of
        None \<Rightarrow> (s, None)
      | Some db \<Rightarrow>
          let s' = shrink_to_byte_budget max_session_bytes s;
              payload = mem_to_dict False s';
              msgs = pget payload ''messages''; scratch = pget payload ''scratchpad''
          in case stmt_error True db of
               None \<Rightarrow> (s', Some (write_session now sid user msgs (Some scratch) db))
             | Some e \<Rightarrow>
                 if missing_column_error e ''scratchpad'' then
                   (case stmt_error False db of
                      None \<Rightarrow> (s', Some (write_session now sid user msgs None db))
                    | Some _ \<Rightarrow> (s', Some db))
                 else (s', Some db))"

section \<open>Loading\<close>

definition default_mem :: mem where
  "default_mem = new_mem 40 default_cap"

definition unstring :: "pyval \<Rightarrow> pyval \<Rightarrow> pyval" where
  "unstring dflt v = (case v of PStr t \<Rightarrow> (case json_loads t of Some x \<Rightarrow> x | None \<Rightarrow> dflt) | _ \<Rightarrow> v)"

text \<open>A row and whether it was read with the old layout; \<open>None\<close> where the empty memory is returned.\<close>

definition read_session :: "string \<Rightarrow> sess_db \<Rightarrow> (sess_row \<times> bool) option" where
  "read_session sid db =
     (case stmt_error True db of
        None \<Rightarrow> map_option (\<lambda>r. (r, False)) (find_session sid (sd_rows db))
      | Some e \<Rightarrow>
          if \<not> missing_column_error e ''scratchpad'' then None
          else case stmt_error False db of
            None \<Rightarrow> map_option (\<lambda>r. (r, True)) (find_session sid (sd_rows db))
          | Some _ \<Rightarrow> None)"

definition load_session :: "string \<Rightarrow> sess_db option \<Rightarrow> (mem_exc, mem) result" where
  "load_session sid conn =
     (case conn of
        None \<Rightarrow> Inr default_mem
      | Some db \<Rightarrow>
          (case read_session sid db of
             None \<Rightarrow> Inr default_mem
           | Some (r, legacy) \<Rightarrow>
               let msgs = unstring (PList []) (py_or (ss_messages r) (PList []));
                   scratch = unstring (PDict []) (if legacy then PDict [] else py_or (ss_scratch r) (PDict []))
               in mem_from_dict [(''messages'', msgs), (''scratchpad'', scratch)] 40))"

section \<open>Clearing and listing\<close>

definition clear_session :: "string \<Rightarrow> sess_db option \<Rightarrow> sess_db option" where
  "clear_session sid conn =
     map_option (\<lambda>db. case stmt_error False db of
         Some _ \<Rightarrow> db
       | None \<Rightarrow> db\<lparr>sd_rows := filter (\<lambda>r. ss_id r \<noteq> sid) (sd_rows db)\<rparr>) conn"

definition message_count :: "pyval \<Rightarrow> int" where
  "message_count v = (case v of
      PList xs \<Rightarrow> int (length xs)
    | PStr t \<Rightarrow> (case json_loads t of Some (PList xs) \<Rightarrow> int (length xs) | _ \<Rightarrow> 0)
    | _ \<Rightarrow> 0)"

text \<open>\<open>jsonb_array_length\<close>: \<open>NULL\<close> of \<open>NULL\<close>, an error for a value that is no array.\<close>

definition jsonb_length :: "pyval \<Rightarrow> int option" where
  "jsonb_length v = (case v of PNone \<Rightarrow> Some 0 | PList xs \<Rightarrow> Some (int (length xs)) | _ \<Rightarrow> None)"

definition selected_rows :: "string option \<Rightarrow> sess_row list \<Rightarrow> sess_row list" where
  "selected_rows user rows = (case user of None \<Rightarrow> rows | Some u \<Rightarrow> filter (\<lambda>r. ss_user r = PStr u) rows)"

definition latest_rows :: "string option \<Rightarrow> nat \<Rightarrow> sess_row list \<Rightarrow> sess_row list" where
  "latest_rows user limit rows =
     take limit (sort_desc (\<lambda>a b. dt_less (ss_updated a) (ss_updated b)) (selected_rows user rows))"

definition info_of :: "(pyval \<Rightarrow> int) \<Rightarrow> sess_row \<Rightarrow> session_info" where
  "info_of count r = \<lparr>si_id = ss_id r, si_user = py_or (ss_user r) (PStr []), si_updated = ss_updated r,
     si_count = count (ss_messages r)\<rparr>"

text \<open>
  The statement with \<open>jsonb_array_length\<close> fails when a selected row holds no array. The
  fallback runs in the same transaction, so it then fails as well and the outer handler
  answers.
\<close>

definition list_sessions :: "string option \<Rightarrow> nat \<Rightarrow> sess_db option \<Rightarrow> session_info list" where
  "list_sessions user limit conn =
     (case conn of
        None \<Rightarrow> []
      | Some db \<Rightarrow>
          if stmt_error False db \<noteq> None then []
          else if sd_jsonb db then
            (if \<forall>r \<in> set (selected_rows user (sd_rows db)). jsonb_length (ss_messages r) \<noteq> None
             then map (info_of (\<lambda>v. case jsonb_length v of Some n \<Rightarrow> n | None \<Rightarrow> 0)) (latest_rows user limit (sd_rows db))
             else [])
          else map (info_of message_count) (latest_rows user limit (sd_rows db)))"

section \<open>Lemmas\<close>

definition sessions_ok :: "sess_row list \<Rightarrow> bool" where
  "sessions_ok rows \<longleftrightarrow> distinct (map ss_id rows)"

lemma find_session_simps [simp]:
  "find_session sid [] = None"
  "find_session sid (r # rows) = (if ss_id r = sid then Some r else find_session sid rows)"
  by (simp_all add: find_session_def)

lemma write_row_id [simp]: "ss_id (write_row now msgs sc r) = ss_id r"
  by (simp add: write_row_def split: option.splits)

lemma find_set_session:
  "(\<And>r. ss_id (f r) = ss_id r) \<Longrightarrow>
   find_session k (set_session sid f rows) = (if k = sid then map_option f (find_session k rows) else find_session k rows)"
  by (induction rows) (auto simp: set_session_def)

lemma find_session_append: "find_session k (rows @ rows') =
    (case find_session k rows of None \<Rightarrow> find_session k rows' | Some r \<Rightarrow> Some r)"
  by (induction rows) auto

lemma find_session_filter: "filter (\<lambda>r. ss_id r = sid) rows = [] \<longleftrightarrow> find_session sid rows = None"
  by (induction rows) auto

text \<open>The two ways of writing agree.\<close>

lemma update_then_insert_upsert:
  "update_then_insert now sid user msgs sc rows = upsert_on_conflict now sid user msgs sc rows"
proof (cases "find_session sid rows")
  case None
  then have "set_session sid f rows = rows" for f
    by (induction rows) (auto simp: set_session_def split: if_splits)
  with None show ?thesis by (simp add: update_then_insert_def upsert_on_conflict_def Let_def find_session_filter)
next
  case (Some r)
  then have "filter (\<lambda>r. ss_id r = sid) rows \<noteq> []" using find_session_filter by (metis option.distinct(1))
  with Some show ?thesis by (simp add: update_then_insert_def upsert_on_conflict_def Let_def)
qed

lemma find_upsert:
  "find_session k (upsert_on_conflict now sid user msgs sc rows) =
     (if k = sid then Some (case find_session sid rows of
        None \<Rightarrow> inserted_row now sid user msgs sc | Some r \<Rightarrow> write_row now msgs sc r)
      else find_session k rows)"
  by (auto simp: upsert_on_conflict_def find_session_append find_set_session inserted_row_def split: option.splits)

lemma find_write_session:
  "find_session k (sd_rows (write_session now sid user msgs sc db)) =
     (if k = sid then Some (case find_session sid (sd_rows db) of
        None \<Rightarrow> inserted_row now sid user msgs sc | Some r \<Rightarrow> write_row now msgs sc r)
      else find_session k (sd_rows db))"
  by (simp add: write_session_def update_then_insert_upsert find_upsert)

lemma stmt_error_write [simp]: "stmt_error b (write_session now sid user msgs sc db) = stmt_error b db"
  by (auto simp: stmt_error_def write_session_def split: option.splits)

lemma missing_text_write [simp]: "sd_missing_text (write_session now sid user msgs sc db) = sd_missing_text db"
  by (simp add: write_session_def)

end
