(* ===== verification/MemoryProps.thy ===== *)
theory MemoryProps
  imports MemoryLemmas
begin

text \<open>
  The properties of the session memory: the bounds of the history, the pairing of tool results
  with their calls, the token and byte budgets, the round trip of the dictionary form, the
  facts learned from a tool call, and the case search.
\<close>

section \<open>Sample values\<close>

definition sample_call :: pyval where
  "sample_call = PList [PDict [(''id'', PStr ''c1''), (''type'', PStr ''function'')]]"

definition sample_history :: "message list" where
  "sample_history = [user_msg (PStr ''run''), assistant_msg (PStr []) sample_call,
     tool_msg (PStr ''ok'') (PStr ''query_runs'') (PStr ''c1'')]"

definition sample_mem :: mem where
  "sample_mem = (new_mem 40 default_cap)\<lparr>history := sample_history, ctx := [(''pdk'', PStr ''sky130hd'')]\<rparr>"

lemmas msg_simps = user_msg_def assistant_msg_def tool_msg_def

section \<open>The history\<close>

text \<open>
  C7: Adding a message evicts only from the front and only whole groups: the new history is a
  suffix of the old one with the message appended, it holds at most \<open>max_messages\<close> messages
  when that bound is positive, unless nothing was dropped it does not start with a tool
  result, and tool results that answered a declared call still do.
\<close>

theorem add_evicts_groups:
  assumes "well_paired (history s @ [m])"
  shows "is_suffix (history (add_msg m s)) (history s @ [m]) \<and>
    (0 < max_messages s \<longrightarrow> int (length (history (add_msg m s))) \<le> max_messages s) \<and>
    well_paired (history (add_msg m s)) \<and>
    (history (add_msg m s) \<noteq> [] \<longrightarrow> \<not> is_tool (hd (history (add_msg m s))))"
proof -
  let ?h = "history (add_msg m s)"
  have k: "kept_groups is_tool ?h (history s @ [m])" by (simp add: add_msg_def evict_kept)
  then have w: "well_paired ?h" by (rule well_paired_kept [OF assms])
  then have "?h \<noteq> [] \<longrightarrow> \<not> is_tool (hd ?h)" using well_paired_head by (cases ?h) auto
  with k w show ?thesis by (simp add: kept_groups_def add_msg_def evict_length)
qed

theorem add_evicts_groups_witness:
  "well_paired (history sample_mem @ [user_msg (PStr ''next'')]) \<and>
   well_paired (history (add_msg (user_msg (PStr ''next'')) (sample_mem\<lparr>max_messages := 1\<rparr>)))"
proof -
  have w: "well_paired (history (sample_mem\<lparr>max_messages := 1\<rparr>) @ [user_msg (PStr ''next'')])"
    by (simp add: sample_mem_def sample_history_def sample_call_def well_paired_def pair_step_def
        msg_simps calls_ids_def val_items_def py_or_def pget_def py_str_def)
  from add_evicts_groups [OF w] w show ?thesis by simp
qed

lemma add_below: "length (history s) < nat (max_messages s) \<Longrightarrow> history (add_msg m s) = history s @ [m]"
  by (simp add: add_msg_def) (rule evict_id, auto)

lemma max_add [simp]: "max_messages (add_msg m s) = max_messages s"
  by (simp add: add_msg_def)

lemma add_many_below:
  "length (history s) + length ms \<le> nat (max_messages s) \<Longrightarrow>
   history (fold add_msg ms s) = history s @ ms \<and> max_messages (fold add_msg ms s) = max_messages s"
  by (induction ms arbitrary: s) (auto simp: add_below)

lemma evict_group_away:
  assumes "\<forall>x \<in> set ts. is_tool x" "length ts = n" "0 < n"
  shows "evict (int n) (a # ts) = []"
proof -
  have "dropWhile is_tool ts = []" using assms(1) by simp
  then show ?thesis using assms(2,3)
    by (simp add: evict_def evict_loop.simps [of n "a # ts"] drop_group_def del: dropWhile_eq_Nil_conv)
      (simp add: evict_loop.simps [of n "[]"])
qed

text \<open>
  The pairing can still break at run time: when one assistant turn is followed by one
  tool result more than the bound, the turn and its results are evicted together while results
  of it are still to come, and the history is left with a single tool result at its front that
  answers no call. The comment in \<open>_evict_if_needed\<close> says an orphan never stays at the front.
\<close>

theorem eviction_orphans_result:
  fixes n :: nat
  assumes "0 < n" "length ts = n" "\<forall>x \<in> set (ts @ [t]). is_tool x"
  shows "history (fold add_msg (assistant_msg c tc # ts @ [t]) (new_mem (int n) cap)) = [t] \<and>
    \<not> well_paired [t]"
proof -
  obtain us u where ts: "ts = us @ [u]" using assms(1,2) by (metis append_butlast_last_id length_greater_0_conv)
  let ?a = "assistant_msg c tc"
  let ?s = "fold add_msg (?a # us) (new_mem (int n) cap)"
  have "length (?a # us) \<le> n" using assms(2) ts by simp
  then have s: "history ?s = ?a # us" "max_messages ?s = int n"
    using add_many_below [of "new_mem (int n) cap" "?a # us"] by (simp_all add: new_mem_def)
  have "evict (int n) (?a # ts) = []" by (rule evict_group_away) (use assms in auto)
  then have e: "history (add_msg u ?s) = []" using s by (simp add: add_msg_def [of u] ts)
  then have "history (add_msg t (add_msg u ?s)) = [t]"
    using add_below [of "add_msg u ?s" t] assms(1) s(2) by simp
  moreover have "\<not> well_paired [t]" using well_paired_head assms(3) by auto
  ultimately show ?thesis by (simp add: ts)
qed

theorem eviction_orphans_result_witness:
  "\<exists>t. history (fold add_msg [assistant_msg (PStr []) sample_call, t, t] (new_mem 1 8192)) = [t] \<and> is_tool t"
proof -
  let ?t = "tool_msg (PStr ''ok'') (PStr ''query_runs'') (PStr ''c1'')"
  have "\<forall>x \<in> set ([?t] @ [?t]). is_tool x" by (simp add: is_tool_def tool_msg_def)
  from eviction_orphans_result [OF _ _ this, of 1 "PStr []" sample_call 8192] show ?thesis
    by (auto simp: is_tool_def tool_msg_def)
qed

text \<open>
  C8: Loading sanitises: whatever list of messages a stored payload holds, if \<open>from_dict\<close>
  returns a memory then every tool message in it answers a call its latest assistant turn
  declared, no id is answered twice, and the bound holds.
\<close>

theorem loaded_history_well_paired:
  assumes "mem_from_dict payload n = Inr s"
  shows "well_paired (history s) \<and> (0 < n \<longrightarrow> int (length (history s)) \<le> n)"
proof -
  from mem_from_dict_history [OF assms] obtain s0
    where l: "load_messages (py_or (pget payload ''messages'') (PList [])) (new_mem n default_cap) = Inr s0"
      and h: "history s = history s0" by blast
  from load_messages_spec [OF l] h show ?thesis by (simp add: new_mem_def)
qed

theorem loaded_history_well_paired_witness:
  "\<exists>s. mem_from_dict [(''messages'', PList [PDict [(''role'', PStr ''tool''), (''tool_call_id'', PStr ''x'')]])] 40 = Inr s \<and>
     well_paired (history s)"
proof -
  have "\<exists>s. mem_from_dict [(''messages'', PList [PDict [(''role'', PStr ''tool''), (''tool_call_id'', PStr ''x'')]])] 40 = Inr s"
    by (simp add: mem_from_dict_def load_messages_def val_items_def py_or_def pget_def load_dict_def
        dgetd_def Let_def dict_of_val_def)
  with loaded_history_well_paired show ?thesis by blast
qed

text \<open>
  C9: Storing and loading is lossless: for a well-paired history of messages the session
  built, within the bound, \<open>from_dict (to_dict m)\<close> succeeds and returns the same history and
  the same durable context; the volatile namespace comes back empty.
\<close>

theorem memory_roundtrip:
  assumes "well_paired (history s)" "\<forall>m \<in> set (history s). canonical m"
    and "n \<le> 0 \<or> int (length (history s)) \<le> n"
  shows "mem_from_dict (mem_to_dict False s) n =
    Inr \<lparr>max_messages = n, result_cap = default_cap, history = history s, ctx = ctx s, internal = []\<rparr>"
  by (rule memory_back [OF assms])

theorem memory_roundtrip_witness:
  "mem_from_dict (mem_to_dict False sample_mem) 40 = Inr sample_mem \<and> length (history sample_mem) = 3"
proof -
  have w: "well_paired (history sample_mem)"
    by (simp add: sample_mem_def sample_history_def sample_call_def well_paired_def pair_step_def
        msg_simps calls_ids_def val_items_def py_or_def pget_def py_str_def)
  have c: "\<forall>m \<in> set (history sample_mem). canonical m"
    by (simp add: sample_mem_def sample_history_def sample_call_def canonical_def msg_simps py_or_def)
  have "mem_from_dict (mem_to_dict False sample_mem) 40 = Inr \<lparr>max_messages = 40, result_cap = default_cap,
      history = history sample_mem, ctx = ctx sample_mem, internal = []\<rparr>"
    by (rule memory_roundtrip [OF w c]) (simp add: sample_mem_def sample_history_def)
  then show ?thesis by (simp add: sample_mem_def new_mem_def sample_history_def)
qed

section \<open>Budgets\<close>

text \<open>
  C10: The token budget is met or only the system prompt is left: for a history of text
  messages \<open>get_messages\<close> with a positive budget returns, in front the system prompt if there
  is one, then a suffix of the history that starts at a message boundary which is no tool
  result; the estimate of the whole is within the budget unless that suffix is empty.
\<close>

theorem token_budget_met:
  assumes "\<forall>m \<in> set (history s). measurable m \<and> msg_role m \<noteq> ''system''" "0 < n"
  shows "\<exists>kept ms. get_messages prompt (Some n) s = Inr ms \<and>
    ms = (if prompt = [] then [] else [[(''role'', PStr ''system''), (''content'', PStr prompt)]]) @ map serialise kept \<and>
    kept_groups is_tool kept (history s) \<and>
    (kept = [] \<or> (\<exists>e. estimate ms = Inr e \<and> int e \<le> n))"
proof -
  define P where "P = (if prompt = [] then [] else [[(''role'', PStr ''system''), (''content'', PStr prompt)]])"
  let ?ms = "P @ map serialise (history s)"
  have "estimate_msg [(''role'', PStr ''system''), (''content'', PStr prompt)] =
      Inr (length (if prompt = [] then [] else prompt) div chars_per_token + overhead_tokens)"
    by (simp add: estimate_msg_def pget_def py_or_def val_length_def val_items_def)
  then have c: "countable ?ms"
    using assms(1) estimate_measurable by (auto simp: countable_def P_def)
  have sys: "system_part ?ms = P"
  proof (cases "prompt = []")
    case True
    then show ?thesis using assms(1) by (cases "history s") (simp_all add: system_part_def P_def)
  next
    case False
    then show ?thesis by (simp add: system_part_def role_is_def pget_def P_def)
  qed
  then have d: "drop (length (system_part ?ms)) ?ms = map serialise (history s)" by simp
  from trim_spec [OF c, of n] obtain rest where r: "trim_to_token_budget ?ms n = Inr (P @ rest)"
    "kept_groups (role_is ''tool'') rest (map serialise (history s))"
    "rest = [] \<or> (\<exists>e. estimate (P @ rest) = Inr e \<and> int e \<le> n)" by (auto simp: sys)
  have "role_is ''tool'' (serialise m) = is_tool m" for m by (simp add: is_tool_def)
  from kept_groups_map [OF r(2) this] obtain kept
    where k: "rest = map serialise kept" "kept_groups is_tool kept (history s)" by blast
  have "get_messages prompt (Some n) s = Inr (P @ rest)"
    using r(1) assms(2) by (simp add: get_messages_def Let_def P_def)
  with k r(3) show ?thesis by (intro exI [of _ kept] exI [of _ "P @ rest"]) (simp add: P_def)
qed

theorem token_budget_met_witness:
  "\<exists>kept ms. get_messages ''sys'' (Some 12) sample_mem = Inr ms \<and> kept_groups is_tool kept sample_history \<and>
     ms = [(''role'', PStr ''system''), (''content'', PStr ''sys'')] # map serialise kept"
proof -
  have "\<forall>m \<in> set (history sample_mem). measurable m \<and> msg_role m \<noteq> ''system''"
    by (simp add: sample_mem_def sample_history_def sample_call_def measurable_def msg_simps)
  from token_budget_met [OF this, of 12 "''sys''"] show ?thesis by (auto simp: sample_mem_def)
qed

text \<open>
  The byte budget is met or nothing is left: after \<open>shrink_to_byte_budget\<close> with a positive
  budget the JSON text of the history has at most that many bytes or the history is empty;
  what is kept is a suffix that does not start inside a group, and it stays well paired.
\<close>

theorem byte_budget_met:
  assumes "0 < n" "well_paired (history s)"
  shows "(history (shrink_to_byte_budget n s) = [] \<or>
      int (payload_bytes (history (shrink_to_byte_budget n s))) \<le> n) \<and>
    kept_groups is_tool (history (shrink_to_byte_budget n s)) (history s) \<and>
    well_paired (history (shrink_to_byte_budget n s))"
  using shrink_loop_kept [of n "history s"] well_paired_kept [OF assms(2)] assms(1)
  by (simp add: shrink_to_byte_budget_def)

theorem byte_budget_met_witness:
  "well_paired (history (shrink_to_byte_budget 100 sample_mem)) \<and>
   (history (shrink_to_byte_budget 100 sample_mem) = [] \<or>
      payload_bytes (history (shrink_to_byte_budget 100 sample_mem)) \<le> 100)"
proof -
  have w: "well_paired (history sample_mem)"
    by (simp add: sample_mem_def sample_history_def sample_call_def well_paired_def pair_step_def
        msg_simps calls_ids_def val_items_def py_or_def pget_def py_str_def)
  from byte_budget_met [OF _ w, of 100] show ?thesis by auto
qed

section \<open>Facts and cases\<close>

text \<open>
  What a tool call teaches the session: for every context key but the two spellings of the
  configuration path, afterwards the session holds the value the result reports, else the one
  of the arguments, else the old one; an empty text or \<open>None\<close> reports nothing. The
  configuration path takes the design configuration first. The messages are untouched.
\<close>

theorem tool_call_teaches:
  fixes args res x s reply
  defines "s' \<equiv> update_context_from_tool (PDict args) (PStr reply) s"
  assumes "json_loads reply = Some (PDict res)" "k \<in> set context_keys" "k \<noteq> ''config_path''" "k \<noteq> ''design_config''"
  shows "mem_get k x s' =
      (if \<not> none_or_empty (pget res k) then pget res k
       else if \<not> none_or_empty (pget args k) then pget args k else mem_get k x s) \<and>
    (\<not> none_or_empty (pget res ''design_config'') \<longrightarrow>
      mem_get ''config_path'' x s' = pget res ''design_config'') \<and>
    history s' = history s"
proof -
  have d: "distinct context_keys" by (simp add: context_keys_def)
  have s': "s' = learn_keys res context_keys (learn_keys args context_keys s)"
    by (simp add: s'_def update_context_from_tool_def parsed_result_def assms(2) learn_from_def)
  show ?thesis using learn_one [OF d assms(3,4,5)]
    by (simp add: s' learn_config_path history_learn)
qed

theorem tool_call_teaches_witness:
  "mem_get ''run_id'' PNone (update_context_from_tool (PDict [(''run_id'', PInt 3)])
     (PStr (json_dumps (PDict [(''run_id'', PInt 7)]))) sample_mem) = PInt 7"
proof -
  have l: "json_loads (json_dumps (PDict [(''run_id'', PInt 7)])) = Some (PDict [(''run_id'', PInt 7)])"
    by (rule json_loads_dumps) simp
  from tool_call_teaches [OF l, of "''run_id''" PNone "[(''run_id'', PInt 3)]" sample_mem]
  show ?thesis by (simp add: context_keys_def pget_def none_or_empty_def)
qed

text \<open>
  The search for similar cases can return a case of another design although a design was
  asked for: in the fallback query the filter stands behind \<open>OR\<close>, so it restricts the root
  cause only, and any case whose symptoms match is returned.
\<close>

theorem case_search_ignores_design:
  "\<exists>env rows d. search_similar_cases env ''hold'' ''gcd'' 3 rows = [d] \<and> pget d ''design_name'' = PStr ''aes''"
proof -
  let ?env = "\<lparr>ts_match = (\<lambda>d q. False), ts_rank = (\<lambda>d q. 0), db_up = True\<rparr>"
  let ?r = "\<lparr>c_id = 1, c_design = ''aes'', c_pdk = ''asap7'', c_symptoms = ''hold'', c_root = ''skew'',
    c_actions = PList [], c_metrics = PDict [], c_created = \<lparr>year = 2025, month = 3, day = 9, hour = 10,
    minute = 0, second = 0, micro = 0\<rparr>\<rparr>"
  have w: "first_word ''hold'' = ''hold''" by code_simp
  have m: "ilike ''hold'' (''%'' @ ''hold'' @ ''%'')" by code_simp
  have "search_similar_cases ?env ''hold'' ''gcd'' 3 [?r] = [the (case_to_dict ?r)]"
    using m by (simp add: search_similar_cases_def fts_rows_def fallback_rows_def w Let_def
        sort_desc_def case_to_dict_def json_column_def)
  moreover have "pget (the (case_to_dict ?r)) ''design_name'' = PStr ''aes''"
    by (simp add: case_to_dict_def json_column_def pget_def)
  ultimately show ?thesis by blast
qed

end
