(* ===== verification/SessionProps.thy ===== *)
theory SessionProps
  imports SessionStore MemoryProps
begin

text \<open>
  Properties of the session store: what is saved is what is loaded, on the current and on the
  old table layout; a failing database degrades to an empty memory; the fallback of the
  listing never runs.
\<close>

definition layout_ok :: "sess_db \<Rightarrow> bool" where
  "layout_ok db \<longleftrightarrow> sd_down db = None \<and>
     (sd_has_scratch db \<or> missing_column_error (sd_missing_text db) ''scratchpad'')"

lemma read_after_write:
  assumes "layout_ok db"
  shows "\<exists>r. read_session sid (the (snd (save_session now sid user s (Some db)))) = Some (r, \<not> sd_has_scratch db) \<and>
    ss_messages r = pget (mem_to_dict False (shrink_to_byte_budget max_session_bytes s)) ''messages'' \<and>
    (sd_has_scratch db \<longrightarrow> ss_scratch r = pget (mem_to_dict False (shrink_to_byte_budget max_session_bytes s)) ''scratchpad'')"
proof -
  have e: "stmt_error False db = None" using assms by (simp add: layout_ok_def stmt_error_def)
  show ?thesis
  proof (cases "sd_has_scratch db")
    case True
    then have "stmt_error True db = None" using assms by (simp add: layout_ok_def stmt_error_def)
    with True show ?thesis
      by (auto simp: save_session_def Let_def read_session_def find_write_session inserted_row_def write_row_def
          split: option.splits)
  next
    case False
    then have "stmt_error True db = Some (sd_missing_text db)" "missing_column_error (sd_missing_text db) ''scratchpad''"
      using assms by (auto simp: layout_ok_def stmt_error_def)
    with False e show ?thesis
      by (auto simp: save_session_def Let_def read_session_def find_write_session inserted_row_def write_row_def
          split: option.splits)
  qed
qed

lemma other_sessions_kept:
  assumes "k \<noteq> sid"
  shows "find_session k (sd_rows (the (snd (save_session now sid user s (Some db))))) = find_session k (sd_rows db)"
  using assms by (auto simp: save_session_def Let_def find_write_session split: option.splits)

lemma pget_mem_to_dict [simp]:
  "pget (mem_to_dict b s) ''messages'' = PList (map (\<lambda>m. PDict (serialise m)) (history s))"
  "pget (mem_to_dict False s) ''scratchpad'' = PDict [(''context'', PDict (ctx s))]"
  by (simp_all add: mem_to_dict_def pget_def)

lemma py_or_list: "py_or (PList xs) (PList []) = PList xs"
  by (simp add: py_or_def)

lemma py_or_dict: "py_or (PDict d) (PDict []) = PDict d"
  by (simp add: py_or_def)

lemma py_or_none: "py_or PNone w = w"
  by (simp add: py_or_def)

lemma mem_from_dict_scratch:
  assumes "mem_from_dict (mem_to_dict False s) n = Inr m"
  shows "mem_from_dict [(''messages'', PList (map (\<lambda>m. PDict (serialise m)) (history s))), (''scratchpad'', PDict [])] n
    = Inr (m\<lparr>ctx := []\<rparr>)"
  using assms
  by (auto simp: mem_from_dict_def mem_to_dict_def pget_def py_or_list py_or_dict py_or_none ok_bind_eq_Inr dict_of_val_def)


definition sample_db :: sess_db where
  "sample_db = \<lparr>sd_rows = [], sd_has_scratch = True, sd_down = None, sd_missing_text = [],
     sd_on_conflict = True, sd_jsonb = True\<rparr>"

definition sample_now :: datetime where
  "sample_now = \<lparr>year = 2025, month = 3, day = 9, hour = 10, minute = 0, second = 0, micro = 0\<rparr>"


text \<open>
  A database that fails costs the session, never the caller: without a connection, or when
  every statement raises, a load returns the fresh empty memory, a listing returns nothing,
  and saving and clearing leave the table as it is.
\<close>

theorem failing_store_degrades:
  assumes "conn = None \<or> (\<exists>db e. conn = Some db \<and> sd_down db = Some e)"
  shows "load_session sid conn = Inr (new_mem 40 default_cap) \<and> list_sessions user limit conn = [] \<and>
    snd (save_session now sid name s conn) = conn \<and> clear_session sid conn = conn"
  using assms
  by (auto simp: load_session_def default_mem_def list_sessions_def save_session_def clear_session_def
      stmt_error_def read_session_def Let_def)

theorem failing_store_degrades_witness:
  "load_session ''cli'' (Some (sample_db\<lparr>sd_down := Some ''connection refused''\<rparr>)) = Inr (new_mem 40 default_cap)"
proof -
  have "\<exists>db e. Some (sample_db\<lparr>sd_down := Some ''connection refused''\<rparr>) = Some db \<and> sd_down db = Some e"
    by simp
  with failing_store_degrades show ?thesis by blast
qed

text \<open>
  One damaged row hides every session: with the \<open>jsonb\<close> statement, a selected row whose
  messages are no array makes the listing empty, although the other rows are fine and the code
  has a second query for that case; it runs in the transaction the first one aborted.
\<close>

theorem damaged_row_hides_sessions:
  assumes "sd_jsonb db" "r \<in> set (selected_rows user (sd_rows db))" "\<not> is_list (ss_messages r)" "ss_messages r \<noteq> PNone"
  shows "list_sessions user limit (Some db) = []"
proof -
  have "jsonb_length (ss_messages r) = None" using assms(3,4) by (cases "ss_messages r") (auto simp: jsonb_length_def)
  with assms(1,2) show ?thesis by (auto simp: list_sessions_def)
qed

theorem damaged_row_hides_sessions_witness:
  "list_sessions None 20 (Some (sample_db\<lparr>sd_rows :=
     [inserted_row sample_now ''a'' ''ann'' (PList []) None, inserted_row sample_now ''b'' ''ann'' (PStr ''[]'') None]\<rparr>)) = []"
  by (rule damaged_row_hides_sessions [where r = "inserted_row sample_now ''b'' ''ann'' (PStr ''[]'') None"])
    (simp_all add: sample_db_def selected_rows_def inserted_row_def)

end
