(* ===== verification/Guardrails.thy ===== *)
theory Guardrails
  imports Json
begin

text \<open>
  \<open>eda_agent/agent/guardrails.py\<close>: the risk check every tool call passes. The wording of the
  reasons and warnings is not in the character range, so each is a constructor that carries
  the values it quotes. The map of the policies of custom tools is an argument.
\<close>

section \<open>Data\<close>

datatype risk_level = SAFE | WARN | BLOCK

fun risk_rank :: "risk_level \<Rightarrow> nat" where
  "risk_rank SAFE = 0"
| "risk_rank WARN = 1"
| "risk_rank BLOCK = 2"

text \<open>The levels in the order of their severity.\<close>

instantiation risk_level :: linorder
begin

definition less_eq_risk_level :: "risk_level \<Rightarrow> risk_level \<Rightarrow> bool" where
  "less_eq_risk_level a b \<longleftrightarrow> risk_rank a \<le> risk_rank b"

definition less_risk_level :: "risk_level \<Rightarrow> risk_level \<Rightarrow> bool" where
  "less_risk_level a b \<longleftrightarrow> risk_rank a < risk_rank b"

instance
proof
  fix a b :: risk_level
  show "a < b \<longleftrightarrow> a \<le> b \<and> \<not> b \<le> a" by (auto simp: less_eq_risk_level_def less_risk_level_def)
  show "a \<le> b \<Longrightarrow> b \<le> a \<Longrightarrow> a = b" by (cases a; cases b) (simp_all add: less_eq_risk_level_def)
qed (auto simp: less_eq_risk_level_def)

end

datatype guard_text =
    CleanReason
  | UtilTooHigh pyfloat
  | UtilHigh pyfloat
  | UtilLow pyfloat
  | LongRunning string
  | CancelJob
  | NeedsConfirmation string
  | PolicyBlocks string
  | PolicyWarns string
  | AskUser               \<comment> \<open>the \<open>to_proceed\<close> text of a blocked response\<close>

record guard =
  g_level :: risk_level
  g_reason :: "guard_text option"
  g_warnings :: "guard_text list"

definition safe_result :: guard where
  "safe_result = \<lparr>g_level = SAFE, g_reason = None, g_warnings = []\<rparr>"

definition warn_result :: "guard_text list \<Rightarrow> guard" where
  "warn_result ws = \<lparr>g_level = WARN, g_reason = None, g_warnings = ws\<rparr>"

definition block_result :: "guard_text \<Rightarrow> guard" where
  "block_result r = \<lparr>g_level = BLOCK, g_reason = Some r, g_warnings = []\<rparr>"

definition is_blocked :: "guard \<Rightarrow> bool" where
  "is_blocked g \<longleftrightarrow> g_level g = BLOCK"

text \<open>\<open>AttributeError\<close>: \<open>.get\<close> of a value that is no dictionary.\<close>

datatype guard_exc = NotADict

section \<open>The checkers\<close>

text \<open>\<open>args.get("clean") or args.get("params", {}) and args.get("params", {}).get("_clean")\<close>.\<close>

definition check_clean_flag :: "pydict \<Rightarrow> (guard_exc, guard option) result" where
  "check_clean_flag args =
     (let blocked = Some (block_result CleanReason) in
      if py_truthy (pget args ''clean'') then Inr blocked
      else case dgetd args ''params'' (PDict []) of
        PDict d \<Rightarrow> Inr (if d \<noteq> [] \<and> py_truthy (pget d ''_clean'') then blocked else None)
      | v \<Rightarrow> if py_truthy v then Inl NotADict else Inr None)"

definition util_value :: "pyval \<Rightarrow> pyfloat option" where
  "util_value raw = float_of_str (rstrip_on (\<lambda>c. c = CHR ''%'') (py_str raw))"

definition util_verdict :: "pyfloat \<Rightarrow> guard option" where
  "util_verdict val =
     (if flt (Fin 95) val then Some (block_result (UtilTooHigh val))
      else let warnings = (if flt (Fin 85) val then [UtilHigh val] else []) @
                 (if flt val (Fin 25) then [UtilLow val] else [])
           in if warnings \<noteq> [] then Some (warn_result warnings) else None)"

definition check_utilization :: "pydict \<Rightarrow> (guard_exc, guard option) result" where
  "check_utilization args =
     (case py_or (pget args ''params'') (PDict []) of
        PDict d \<Rightarrow>
          let raw = pget d ''CORE_UTILIZATION'' in
          Inr (if raw = PNone then None else case util_value raw of None \<Rightarrow> None | Some v \<Rightarrow> util_verdict v)
      | _ \<Rightarrow> Inl NotADict)"

definition check_long_running :: "string \<Rightarrow> guard option" where
  "check_long_running name =
     (if name \<in> {''tune_ppa'', ''tune_ppa_multistage'', ''tune_congestion_with_blockage''}
      then Some (warn_result [LongRunning name]) else None)"

definition check_cancel :: "string \<Rightarrow> guard option" where
  "check_cancel name = (if name = ''cancel_job'' then Some (warn_result [CancelJob]) else None)"

definition checkers :: "(string \<Rightarrow> pydict \<Rightarrow> (guard_exc, guard option) result) list" where
  "checkers = [\<lambda>name args. check_clean_flag args, \<lambda>name args. check_utilization args,
     \<lambda>name args. Inr (check_long_running name), \<lambda>name args. Inr (check_cancel name)]"

section \<open>Policies of custom tools\<close>

type_synonym policies = "(string, pydict) dict"

definition confirmed :: "pydict \<Rightarrow> bool" where
  "confirmed args \<longleftrightarrow> py_truthy (pget args ''_guardrail_confirmed'')"

definition check_custom_policy :: "policies \<Rightarrow> string \<Rightarrow> pydict \<Rightarrow> guard option" where
  "check_custom_policy ps name args =
     (case dget ps name of
        None \<Rightarrow> None
      | Some p \<Rightarrow>
          if p = [] then None
          else if py_truthy (dgetd p ''requires_confirmation'' (PBool False)) \<and> \<not> confirmed args
          then Some (block_result (NeedsConfirmation name))
          else let risk = py_str (dgetd p ''risk_level'' (PStr ''safe'')) in
            if risk = ''block'' then Some (block_result (PolicyBlocks name))
            else if risk = ''warn'' then Some (warn_result [PolicyWarns name])
            else None)"

section \<open>The check\<close>

text \<open>The loop over the registry: the first block returns, warnings accumulate.\<close>

fun run_checkers :: "(string \<Rightarrow> pydict \<Rightarrow> (guard_exc, guard option) result) list \<Rightarrow> string \<Rightarrow> pydict
    \<Rightarrow> guard_text list \<Rightarrow> (guard_exc, guard) result" where
  "run_checkers [] name args ws = Inr (if ws \<noteq> [] then warn_result ws else safe_result)"
| "run_checkers (c # cs) name args ws =
     ok_bind (c name args) (\<lambda>r.
       case r of
         None \<Rightarrow> run_checkers cs name args ws
       | Some g \<Rightarrow>
           if g_level g = BLOCK then Inr g
           else run_checkers cs name args (if g_level g = WARN then ws @ g_warnings g else ws))"

definition guard_check :: "policies \<Rightarrow> string \<Rightarrow> pydict \<Rightarrow> (guard_exc, guard) result" where
  "guard_check ps name args =
     (if confirmed args then Inr safe_result
      else case check_custom_policy ps name args of
        Some g \<Rightarrow>
          if g_level g = BLOCK then Inr g
          else run_checkers checkers name args (if g_level g = WARN then g_warnings g else [])
      | None \<Rightarrow> run_checkers checkers name args [])"

section \<open>Lemmas\<close>

definition level_of :: "guard option \<Rightarrow> risk_level" where
  "level_of g = (case g of None \<Rightarrow> SAFE | Some x \<Rightarrow> g_level x)"

lemma risk_simps [simp]:
  "SAFE \<le> r" "r \<le> BLOCK" "max SAFE r = r" "max r SAFE = r" "max BLOCK r = BLOCK" "max r BLOCK = BLOCK"
  "max WARN WARN = WARN" "\<not> BLOCK \<le> WARN" "\<not> WARN \<le> SAFE" "\<not> BLOCK \<le> SAFE"
  by (cases r; simp add: less_eq_risk_level_def max_def)+

text \<open>A checker's result is consistent: warnings exactly at level \<open>WARN\<close>, a reason exactly at \<open>BLOCK\<close>.\<close>

definition guard_ok :: "guard \<Rightarrow> bool" where
  "guard_ok g \<longleftrightarrow> (g_level g = WARN \<longleftrightarrow> g_warnings g \<noteq> []) \<and> (g_level g = BLOCK \<longleftrightarrow> g_reason g \<noteq> None)"

lemma guard_ok_results [simp]:
  "guard_ok safe_result" "guard_ok (block_result r)" "guard_ok (warn_result ws) \<longleftrightarrow> ws \<noteq> []"
  by (simp_all add: guard_ok_def safe_result_def block_result_def warn_result_def)

lemma result_levels [simp]:
  "g_level safe_result = SAFE" "g_level (block_result r) = BLOCK" "g_level (warn_result ws) = WARN"
  "g_warnings (warn_result ws) = ws" "g_warnings safe_result = []" "g_warnings (block_result r) = []"
  by (simp_all add: safe_result_def block_result_def warn_result_def)

lemma clean_flag_ok: "check_clean_flag args = Inr (Some g) \<Longrightarrow> guard_ok g \<and> g_level g = BLOCK"
  by (auto simp: check_clean_flag_def Let_def split: pyval.splits if_splits)

lemma util_verdict_ok: "util_verdict v = Some g \<Longrightarrow> guard_ok g"
  by (auto simp: util_verdict_def Let_def split: if_splits)

lemma utilization_ok: "check_utilization args = Inr (Some g) \<Longrightarrow> guard_ok g"
  by (auto simp: check_utilization_def Let_def util_verdict_ok split: pyval.splits if_splits option.splits)

lemma checkers_ok: "c \<in> set checkers \<Longrightarrow> c name args = Inr (Some g) \<Longrightarrow> guard_ok g"
  by (auto simp: checkers_def clean_flag_ok utilization_ok check_long_running_def check_cancel_def split: if_splits)

lemma custom_policy_ok: "check_custom_policy ps name args = Some g \<Longrightarrow> guard_ok g"
  by (auto simp: check_custom_policy_def Let_def split: option.splits if_splits)

text \<open>The level of a run is the most severe of its checkers' levels and of the warnings it starts with.\<close>

definition levels :: "(string \<Rightarrow> pydict \<Rightarrow> (guard_exc, guard option) result) list \<Rightarrow> string \<Rightarrow> pydict \<Rightarrow> risk_level list" where
  "levels cs name args = map (\<lambda>c. level_of (projr (c name args))) cs"

lemma foldr_max_base: "foldr max ls (max a b) = max a (foldr max ls (b :: risk_level))"
  by (induction ls) (simp_all add: max.left_commute)

lemma run_checkers_level:
  assumes "\<And>c g. c \<in> set cs \<Longrightarrow> c name args = Inr (Some g) \<Longrightarrow> guard_ok g"
    and "\<And>c. c \<in> set cs \<Longrightarrow> \<exists>r. c name args = Inr r"
  shows "\<exists>g. run_checkers cs name args ws = Inr g \<and> guard_ok g \<and>
    g_level g = foldr max (levels cs name args) (if ws = [] then SAFE else WARN)"
  using assms
proof (induction cs arbitrary: ws)
  case Nil
  then show ?case by (simp add: levels_def)
next
  case (Cons c cs)
  have IH: "\<exists>g. run_checkers cs name args ws = Inr g \<and> guard_ok g \<and>
    g_level g = foldr max (levels cs name args) (if ws = [] then SAFE else WARN)" for ws
    by (rule Cons.IH) (use Cons.prems in auto)
  obtain r where r: "c name args = Inr r" using Cons.prems(2) by force
  then have l: "levels (c # cs) name args = level_of r # levels cs name args" by (simp add: levels_def)
  show ?case
  proof (cases r)
    case None
    then have "level_of r = SAFE" "run_checkers (c # cs) name args ws = run_checkers cs name args ws"
      using r by (simp_all add: level_of_def)
    with IH [of ws] show ?thesis unfolding l by simp
  next
    case (Some g)
    with r have "c name args = Inr (Some g)" by simp
    then have ok: "guard_ok g" by (rule Cons.prems(1) [rotated]) simp
    have lr: "level_of r = g_level g" using Some by (simp add: level_of_def)
    show ?thesis
    proof (cases "g_level g")
      case BLOCK
      with r Some ok lr l show ?thesis by simp
    next
      case SAFE
      then have "run_checkers (c # cs) name args ws = run_checkers cs name args ws" using r Some by simp
      with IH [of ws] SAFE lr show ?thesis unfolding l by simp
    next
      case WARN
      then have w: "ws @ g_warnings g \<noteq> []" using ok by (simp add: guard_ok_def)
      have "run_checkers (c # cs) name args ws = run_checkers cs name args (ws @ g_warnings g)"
        using r Some WARN by simp
      moreover have "max WARN (foldr max (levels cs name args) (if ws = [] then SAFE else WARN)) =
          foldr max (levels cs name args) WARN" by (simp add: foldr_max_base [symmetric])
      moreover from IH [of "ws @ g_warnings g"] w obtain g'
        where "run_checkers cs name args (ws @ g_warnings g) = Inr g'" "guard_ok g'"
          "g_level g' = foldr max (levels cs name args) WARN" by (simp only: if_False) blast
      ultimately show ?thesis using WARN lr unfolding l by simp
    qed
  qed
qed

end
