(* ===== verification/CustomTools.thy ===== *)
theory CustomTools
  imports Json Timestamps
begin

text \<open>
  \<open>eda_agent/agent/custom_tools.py\<close>: the loader of user-defined tools. A file is the text that
  \<open>read_text\<close> returns, \<open>None\<close> when it does not exist; an entry point is what loading it gives.
  \<open>subprocess.run\<close> and the parts of \<open>str.format\<close> beyond a plain field name are arguments of
  the runner.
\<close>

section \<open>Errors\<close>

text \<open>The cases of \<open>CustomToolConfigError\<close>, with the names their texts quote.\<close>

datatype config_error =
    FileMissing | InvalidJson | RootNotObject | ToolsNotList | ToolNotObject | BadName
  | BadDescription string | ParamsNotObject string | ParamsType string | PropertiesNotObject string
  | RequiredNotStrings string | PermissionsNotObject string | BadRiskLevel string
  | ConfirmationNotBool string | BadCommand string | BadTimeout string
  | SpecNotDict string | SpecMissing string "string list" | SpecNotCallable string

datatype load_exc =
    ConfigError config_error
  | Unhashable string    \<comment> \<open>\<open>TypeError\<close> of \<open>risk_level not in _RISK_LEVELS\<close> for a list or dictionary\<close>

definition max_timeout_sec :: int where "max_timeout_sec = 600"
definition default_timeout_sec :: int where "default_timeout_sec = 30"
definition risk_levels :: "string list" where "risk_levels = [''safe'', ''warn'', ''block'']"

section \<open>Validation\<close>

text \<open>The lists stand for the sets; \<open>None\<close> and the empty set both filter nothing.\<close>

definition should_include_tool :: "string list option \<Rightarrow> string list option \<Rightarrow> string \<Rightarrow> bool" where
  "should_include_tool allowlist denylist name =
     (let allow = (case allowlist of None \<Rightarrow> [] | Some xs \<Rightarrow> xs);
          deny = (case denylist of None \<Rightarrow> [] | Some xs \<Rightarrow> xs)
      in if deny \<noteq> [] \<and> name \<in> set deny then False
         else if allow \<noteq> [] \<and> name \<notin> set allow then False else True)"

definition validate_parameters :: "pyval \<Rightarrow> string \<Rightarrow> (load_exc, pydict) result" where
  "validate_parameters raw name =
     (case raw of
        PDict d \<Rightarrow>
          if pget d ''type'' \<noteq> PStr ''object'' then Inl (ConfigError (ParamsType name))
          else (case pget d ''properties'' of
            PDict props \<Rightarrow>
              (case dgetd d ''required'' (PList []) of
                 PList xs \<Rightarrow>
                   if list_all is_str xs
                   then Inr [(''type'', PStr ''object''), (''properties'', PDict props), (''required'', PList xs)]
                   else Inl (ConfigError (RequiredNotStrings name))
               | _ \<Rightarrow> Inl (ConfigError (RequiredNotStrings name)))
          | _ \<Rightarrow> Inl (ConfigError (PropertiesNotObject name)))
      | _ \<Rightarrow> Inl (ConfigError (ParamsNotObject name)))"

definition policy_of :: "pyval \<Rightarrow> pyval \<Rightarrow> pydict" where
  "policy_of risk conf = [(''risk_level'', risk), (''requires_confirmation'', conf)]"

fun hashable :: "pyval \<Rightarrow> bool" where
  "hashable (PList _) = False"
| "hashable (PDict _) = False"
| "hashable _ = True"

fun is_bool :: "pyval \<Rightarrow> bool" where
  "is_bool (PBool _) = True"
| "is_bool _ = False"

definition validate_permissions :: "pyval \<Rightarrow> string \<Rightarrow> (load_exc, pydict) result" where
  "validate_permissions raw name =
     (case raw of
        PNone \<Rightarrow> Inr (policy_of (PStr ''safe'') (PBool False))
      | PDict d \<Rightarrow>
          let risk = dgetd d ''risk_level'' (PStr ''safe''); conf = dgetd d ''requires_confirmation'' (PBool False) in
          if \<not> hashable risk then Inl (Unhashable name)
          else if risk \<notin> PStr ` set risk_levels then Inl (ConfigError (BadRiskLevel name))
          else if \<not> is_bool conf then Inl (ConfigError (ConfirmationNotBool name))
          else Inr (policy_of risk conf)
      | _ \<Rightarrow> Inl (ConfigError (PermissionsNotObject name)))"

text \<open>\<open>isinstance(v, int)\<close> holds of booleans too.\<close>

definition int_value :: "pyval \<Rightarrow> int option" where
  "int_value v = (case v of PInt n \<Rightarrow> Some n | PBool b \<Rightarrow> Some (if b then 1 else 0) | _ \<Rightarrow> None)"

definition validate_timeout :: "pyval \<Rightarrow> string \<Rightarrow> (load_exc, int) result" where
  "validate_timeout raw name =
     (case int_value raw of
        Some n \<Rightarrow> if n \<le> 0 then Inl (ConfigError (BadTimeout name)) else Inr (min n max_timeout_sec)
      | None \<Rightarrow> Inl (ConfigError (BadTimeout name)))"

fun str_of :: "pyval \<Rightarrow> string option" where
  "str_of (PStr s) = Some s"
| "str_of _ = None"

definition validate_command :: "pyval \<Rightarrow> string \<Rightarrow> (load_exc, string list) result" where
  "validate_command raw name =
     (case raw of
        PList xs \<Rightarrow>
          if xs = [] \<or> \<not> list_all is_str xs then Inl (ConfigError (BadCommand name))
          else Inr (map (\<lambda>x. the (str_of x)) xs)
      | _ \<Rightarrow> Inl (ConfigError (BadCommand name)))"

section \<open>The loaded tools\<close>

record runner =
  rn_name :: string
  rn_command :: "string list"
  rn_allowed :: "string list"
  rn_timeout :: int

text \<open>What a name dispatches to: the runner of a declared command, or the n-th callable of the entry points.\<close>

datatype tool_impl = Command runner | Callable nat

record tool_set =
  ts_schemas :: "pydict list"
  ts_dispatch :: "(string, tool_impl) dict"
  ts_policies :: "(string, pydict) dict"
  ts_sources :: "(string, string) dict"

definition no_tools :: tool_set where
  "no_tools = \<lparr>ts_schemas = [], ts_dispatch = [], ts_policies = [], ts_sources = []\<rparr>"

definition schema_of :: "string \<Rightarrow> string \<Rightarrow> pydict \<Rightarrow> pydict" where
  "schema_of name descr ps =
     [(''type'', PStr ''function''),
      (''function'', PDict [(''name'', PStr name), (''description'', PStr descr), (''parameters'', PDict ps)])]"

definition add_tool :: "string \<Rightarrow> string \<Rightarrow> pydict \<Rightarrow> pydict \<Rightarrow> tool_impl \<Rightarrow> string \<Rightarrow> tool_set \<Rightarrow> tool_set" where
  "add_tool name descr ps perms impl src ts =
     \<lparr>ts_schemas = ts_schemas ts @ [schema_of name descr ps],
      ts_dispatch = dset name impl (ts_dispatch ts),
      ts_policies = dset name perms (ts_policies ts),
      ts_sources = dset name src (ts_sources ts)\<rparr>"

definition params_names :: "pydict \<Rightarrow> string list" where
  "params_names ps = (case pget ps ''properties'' of PDict d \<Rightarrow> dkeys d | _ \<Rightarrow> [])"

section \<open>The file loader\<close>

definition load_item :: "string \<Rightarrow> string list \<Rightarrow> string list option \<Rightarrow> string list option \<Rightarrow> pyval \<Rightarrow> tool_set
    \<Rightarrow> (load_exc, tool_set) result" where
  "load_item path reserved allowlist denylist item ts =
     (case item of
        PDict d \<Rightarrow>
          (case pget d ''name'' of
             PStr name \<Rightarrow>
               if py_strip name = [] then Inl (ConfigError BadName)
               else if name \<in> set reserved then Inr ts
               else if \<not> should_include_tool allowlist denylist name then Inr ts
               else (case pget d ''description'' of
                 PStr descr \<Rightarrow>
                   if py_strip descr = [] then Inl (ConfigError (BadDescription name))
                   else ok_bind (validate_parameters (pget d ''parameters'') name) (\<lambda>ps.
                     ok_bind (validate_permissions (pget d ''permissions'') name) (\<lambda>perms.
                     ok_bind (validate_command (pget d ''command'') name) (\<lambda>cmd.
                     ok_bind (validate_timeout (dgetd d ''timeout_sec'' (PInt default_timeout_sec)) name) (\<lambda>tmo.
                       Inr (add_tool name descr ps perms
                         (Command \<lparr>rn_name = name, rn_command = cmd, rn_allowed = params_names ps, rn_timeout = tmo\<rparr>)
                         (''json:'' @ path) ts)))))
               | _ \<Rightarrow> Inl (ConfigError (BadDescription name)))
           | _ \<Rightarrow> Inl (ConfigError BadName))
      | _ \<Rightarrow> Inl (ConfigError ToolNotObject))"

fun load_items :: "string \<Rightarrow> string list \<Rightarrow> string list option \<Rightarrow> string list option \<Rightarrow> pyval list \<Rightarrow> tool_set
    \<Rightarrow> (load_exc, tool_set) result" where
  "load_items path reserved allowlist denylist [] ts = Inr ts"
| "load_items path reserved allowlist denylist (i # is) ts =
     ok_bind (load_item path reserved allowlist denylist i ts) (load_items path reserved allowlist denylist is)"

definition load_custom_tools :: "string \<Rightarrow> string option \<Rightarrow> string list \<Rightarrow> string list option \<Rightarrow> string list option
    \<Rightarrow> (load_exc, tool_set) result" where
  "load_custom_tools path content reserved allowlist denylist =
     (case content of
        None \<Rightarrow> Inl (ConfigError FileMissing)
      | Some t \<Rightarrow>
          (case json_loads t of
             None \<Rightarrow> Inl (ConfigError InvalidJson)
           | Some (PDict raw) \<Rightarrow>
               (case pget raw ''tools'' of
                  PList tools \<Rightarrow> load_items path reserved allowlist denylist tools no_tools
                | _ \<Rightarrow> Inl (ConfigError ToolsNotList))
           | Some _ \<Rightarrow> Inl (ConfigError RootNotObject)))"

section \<open>The entry point loader\<close>

text \<open>
  A spec is no dictionary, or a dictionary whose field \<open>callable\<close> is kept apart: absent, a
  value that is not callable, or the n-th callable.
\<close>

datatype spec_callable = NoCallable | NotCallable | IsCallable nat

datatype ep_spec = NotASpec | Spec pydict spec_callable

text \<open>An entry point raised while it was loaded, or gave its specs.\<close>

record entry_point =
  ep_name :: string
  ep_specs :: "ep_spec list option"

definition missing_fields :: "pydict \<Rightarrow> spec_callable \<Rightarrow> string list" where
  "missing_fields d c =
     (if c = NoCallable then [''callable''] else []) @
     filter (\<lambda>k. k \<notin> set (dkeys d)) [''description'', ''name'', ''parameters'']"

definition validate_spec :: "ep_spec \<Rightarrow> string \<Rightarrow> (load_exc, pydict \<times> nat) result" where
  "validate_spec spec ep =
     (case spec of
        NotASpec \<Rightarrow> Inl (ConfigError (SpecNotDict ep))
      | Spec d c \<Rightarrow>
          if missing_fields d c \<noteq> [] then Inl (ConfigError (SpecMissing ep (missing_fields d c)))
          else (case c of
            IsCallable n \<Rightarrow> Inr (d, n)
          | _ \<Rightarrow> Inl (ConfigError (SpecNotCallable ep))))"

definition load_spec :: "string \<Rightarrow> string list \<Rightarrow> string list option \<Rightarrow> string list option \<Rightarrow> ep_spec \<Rightarrow> tool_set
    \<Rightarrow> (load_exc, tool_set) result" where
  "load_spec ep reserved allowlist denylist spec ts =
     ok_bind (validate_spec spec ep) (\<lambda>(d, n).
       let name = py_str (pget d ''name'') in
       if name \<in> set reserved \<or> name \<in> set (dkeys (ts_dispatch ts)) then Inr ts
       else if \<not> should_include_tool allowlist denylist name then Inr ts
       else ok_bind (validate_parameters (pget d ''parameters'') name) (\<lambda>ps.
         ok_bind (validate_permissions (pget d ''permissions'') name) (\<lambda>perms.
           Inr (add_tool name (py_str (pget d ''description'')) ps perms (Callable n) (''entrypoint:'' @ ep) ts))))"

fun load_specs :: "string \<Rightarrow> string list \<Rightarrow> string list option \<Rightarrow> string list option \<Rightarrow> ep_spec list \<Rightarrow> tool_set
    \<Rightarrow> (load_exc, tool_set) result" where
  "load_specs ep reserved allowlist denylist [] ts = Inr ts"
| "load_specs ep reserved allowlist denylist (x # xs) ts =
     ok_bind (load_spec ep reserved allowlist denylist x ts) (load_specs ep reserved allowlist denylist xs)"

fun load_entry_points :: "string list \<Rightarrow> string list option \<Rightarrow> string list option \<Rightarrow> entry_point list \<Rightarrow> tool_set
    \<Rightarrow> (load_exc, tool_set) result" where
  "load_entry_points reserved allowlist denylist [] ts = Inr ts"
| "load_entry_points reserved allowlist denylist (e # es) ts =
     (case ep_specs e of
        None \<Rightarrow> load_entry_points reserved allowlist denylist es ts
      | Some specs \<Rightarrow>
          ok_bind (load_specs (ep_name e) reserved allowlist denylist specs ts)
            (load_entry_points reserved allowlist denylist es))"

definition load_custom_tools_from_entry_points :: "entry_point list \<Rightarrow> string list \<Rightarrow> string list option \<Rightarrow> string list option
    \<Rightarrow> (load_exc, tool_set) result" where
  "load_custom_tools_from_entry_points eps reserved allowlist denylist =
     load_entry_points reserved allowlist denylist eps no_tools"

section \<open>The runner\<close>

text \<open>
  \<open>token.format(**args)\<close> on tokens whose fields are plain names: doubled braces are literal, an
  empty or numeric field has no positional argument to take. A token with any other field is
  handed to \<open>fmt_ext\<close>.
\<close>

datatype fmt_exc = FmtKey string | FmtIndex | FmtValue

definition plain_field :: "string \<Rightarrow> bool" where
  "plain_field f \<longleftrightarrow> (\<forall>c \<in> set f. c \<notin> {CHR ''.'', CHR ''['', CHR ''!'', CHR '':'', CHR ''{''})"

fun split_field :: "string \<Rightarrow> (string \<times> string) option" where
  "split_field [] = None"
| "split_field (c # s) = (if c = CHR ''}'' then Some ([], s) else map_option (\<lambda>(f, r). (c # f, r)) (split_field s))"

text \<open>\<open>Broken\<close> is where the parser raises \<open>ValueError\<close>; what stands before it is formatted first.\<close>

datatype fmt_piece = Lit char | Field string | Broken

lemma split_field_length: "split_field s = Some (f, r) \<Longrightarrow> length r < length s"
  by (induction s arbitrary: f r) (simp, force split: if_splits)

function fmt_pieces :: "string \<Rightarrow> fmt_piece list" where
  "fmt_pieces [] = []"
| "fmt_pieces (c # s) =
     (if c = CHR ''{'' then
        (if is_prefix ''{'' s then Lit c # fmt_pieces (tl s)
         else case split_field s of None \<Rightarrow> [Broken] | Some (f, r) \<Rightarrow> Field f # fmt_pieces r)
      else if c = CHR ''}'' then
        (if is_prefix ''}'' s then Lit c # fmt_pieces (tl s) else [Broken])
      else Lit c # fmt_pieces s)"
  by pat_completeness auto
termination
  by (relation "measure length") (auto dest: split_field_length)

fun fill_pieces :: "(string, string) dict \<Rightarrow> fmt_piece list \<Rightarrow> (fmt_exc, string) result" where
  "fill_pieces args [] = Inr []"
| "fill_pieces args (Lit c # ps) = ok_bind (fill_pieces args ps) (\<lambda>t. Inr (c # t))"
| "fill_pieces args (Field f # ps) =
     (if list_all is_digit f then Inl FmtIndex
      else case dget args f of
        None \<Rightarrow> Inl (FmtKey f)
      | Some v \<Rightarrow> ok_bind (fill_pieces args ps) (\<lambda>t. Inr (v @ t)))"
| "fill_pieces args (Broken # ps) = Inl FmtValue"

definition py_format :: "(string \<Rightarrow> (string, string) dict \<Rightarrow> (fmt_exc, string) result)
    \<Rightarrow> string \<Rightarrow> (string, string) dict \<Rightarrow> (fmt_exc, string) result" where
  "py_format fmt_ext token args =
     (let ps = fmt_pieces token in
      if \<forall>p \<in> set ps. case p of Field f \<Rightarrow> plain_field f | _ \<Rightarrow> True
      then fill_pieces args ps else fmt_ext token args)"

datatype runner_exc =
    UnknownArgs string "string list"
  | MissingPlaceholder string string
  | FormatRaised fmt_exc
  | RunRaised string

text \<open>What \<open>subprocess.run\<close> gives back: exit code, standard output and error.\<close>

type_synonym process = "string list \<Rightarrow> int \<Rightarrow> (string, int \<times> string \<times> string) result"

fun insert_str :: "string \<Rightarrow> string list \<Rightarrow> string list" where
  "insert_str x [] = [x]"
| "insert_str x (y # ys) = (if str_lt y x then y # insert_str x ys else x # y # ys)"

definition sort_strs :: "string list \<Rightarrow> string list" where
  "sort_strs xs = foldr insert_str xs []"

definition render_arg :: "pyval \<Rightarrow> string" where
  "render_arg v = (if v = PNone then [] else py_str v)"

fun render_argv :: "(string \<Rightarrow> (string, string) dict \<Rightarrow> (fmt_exc, string) result) \<Rightarrow> string \<Rightarrow> (string, string) dict
    \<Rightarrow> string list \<Rightarrow> (runner_exc, string list) result" where
  "render_argv fmt_ext name args [] = Inr []"
| "render_argv fmt_ext name args (t # ts) =
     (case py_format fmt_ext t args of
        Inl (FmtKey k) \<Rightarrow> Inl (MissingPlaceholder name k)
      | Inl e \<Rightarrow> Inl (FormatRaised e)
      | Inr x \<Rightarrow> ok_bind (render_argv fmt_ext name args ts) (\<lambda>xs. Inr (x # xs)))"

text \<open>The checks and the rendering in front of \<open>subprocess.run\<close>, and the dictionary behind it.\<close>

definition runner_argv :: "(string \<Rightarrow> (string, string) dict \<Rightarrow> (fmt_exc, string) result)
    \<Rightarrow> runner \<Rightarrow> pydict \<Rightarrow> (runner_exc, string list) result" where
  "runner_argv fmt_ext r kwargs =
     (let unknown = sort_strs (filter (\<lambda>k. k \<notin> set (rn_allowed r)) (dkeys kwargs)) in
      if unknown \<noteq> [] then Inl (UnknownArgs (rn_name r) unknown)
      else render_argv fmt_ext (rn_name r) (map (\<lambda>(k, v). (k, render_arg v)) kwargs) (rn_command r))"

definition runner_result :: "runner \<Rightarrow> string list \<Rightarrow> (string, int \<times> string \<times> string) result \<Rightarrow> (runner_exc, pydict) result" where
  "runner_result r argv cp =
     (case cp of
        Inl e \<Rightarrow> Inl (RunRaised e)
      | Inr (rc, outp, err) \<Rightarrow>
          Inr [(''tool'', PStr (rn_name r)), (''command'', PList (map PStr argv)), (''exit_code'', PInt rc),
               (''stdout'', PStr outp), (''stderr'', PStr err), (''ok'', PBool (rc = 0))])"

definition run_custom :: "(string \<Rightarrow> (string, string) dict \<Rightarrow> (fmt_exc, string) result) \<Rightarrow> ('w \<Rightarrow> process)
    \<Rightarrow> (string list \<Rightarrow> int \<Rightarrow> 'w \<Rightarrow> 'w) \<Rightarrow> runner \<Rightarrow> pydict \<Rightarrow> 'w \<Rightarrow> (runner_exc, pydict) result \<times> 'w" where
  "run_custom fmt_ext run after r kwargs w =
     (case runner_argv fmt_ext r kwargs of
        Inl e \<Rightarrow> (Inl e, w)
      | Inr argv \<Rightarrow> (runner_result r argv (run w argv (rn_timeout r)), after argv (rn_timeout r) w))"

section \<open>Lemmas\<close>

text \<open>What every tool of a loaded set satisfies.\<close>

definition policy_ok :: "pydict \<Rightarrow> bool" where
  "policy_ok p \<longleftrightarrow> (\<exists>r \<in> set risk_levels. \<exists>b. p = policy_of (PStr r) (PBool b))"

definition impl_ok :: "string \<Rightarrow> tool_impl \<Rightarrow> bool" where
  "impl_ok name i = (case i of
      Command r \<Rightarrow> rn_name r = name \<and> rn_command r \<noteq> [] \<and> 1 \<le> rn_timeout r \<and> rn_timeout r \<le> max_timeout_sec
    | Callable n \<Rightarrow> True)"

definition schema_name :: "pydict \<Rightarrow> pyval" where
  "schema_name s = (case pget s ''function'' of PDict f \<Rightarrow> pget f ''name'' | _ \<Rightarrow> PNone)"

definition tools_ok :: "string list \<Rightarrow> string list option \<Rightarrow> string list option \<Rightarrow> tool_set \<Rightarrow> bool" where
  "tools_ok reserved allowlist denylist ts \<longleftrightarrow>
     distinct (dkeys (ts_dispatch ts)) \<and>
     dkeys (ts_policies ts) = dkeys (ts_dispatch ts) \<and> dkeys (ts_sources ts) = dkeys (ts_dispatch ts) \<and>
     schema_name ` set (ts_schemas ts) = PStr ` set (dkeys (ts_dispatch ts)) \<and>
     (\<forall>(k, i) \<in> set (ts_dispatch ts). k \<notin> set reserved \<and> should_include_tool allowlist denylist k \<and> impl_ok k i) \<and>
     (\<forall>(k, p) \<in> set (ts_policies ts). policy_ok p)"

lemma schema_name_of [simp]: "schema_name (schema_of name descr ps) = PStr name"
  by (simp add: schema_name_def schema_of_def pget_def)

lemma set_dset: "distinct (dkeys d) \<Longrightarrow> set (dset k v d) = insert (k, v) {p \<in> set d. fst p \<noteq> k}"
proof (induction d)
  case Nil
  then show ?case by simp
next
  case (Cons p d)
  obtain a b where p: "p = (a, b)" by (cases p)
  show ?case
  proof (cases "a = k")
    case True
    with Cons.prems p show ?thesis by (auto simp: rev_image_eqI)
  next
    case False
    with Cons p show ?thesis by auto
  qed
qed

lemma keys_dset_cong: "dkeys d = dkeys e \<Longrightarrow> dkeys (dset k v d) = dkeys (dset k w e)"
  by (cases "k \<in> set (dkeys d)") (simp_all add: dkeys_dset_present dkeys_dset_absent del: set_map)

lemma tools_ok_add:
  assumes "tools_ok reserved allowlist denylist ts" "name \<notin> set reserved" "should_include_tool allowlist denylist name"
    and "policy_ok perms" "impl_ok name impl"
  shows "tools_ok reserved allowlist denylist (add_tool name descr ps perms impl src ts)"
proof -
  have d: "distinct (dkeys (ts_dispatch ts))" "dkeys (ts_policies ts) = dkeys (ts_dispatch ts)"
    "dkeys (ts_sources ts) = dkeys (ts_dispatch ts)"
    "schema_name ` set (ts_schemas ts) = PStr ` set (dkeys (ts_dispatch ts))"
    using assms(1) by (simp_all add: tools_ok_def)
  then have p: "distinct (dkeys (ts_policies ts))" by simp
  show ?thesis using assms d
    by (simp add: tools_ok_def add_tool_def set_dset [OF d(1)] set_dset [OF p] keys_dset_cong [OF d(2)]
        keys_dset_cong [OF d(3)] dkeys_dset del: set_map)
qed

lemma validate_permissions_ok: "validate_permissions raw name = Inr p \<Longrightarrow> policy_ok p"
proof -
  assume v: "validate_permissions raw name = Inr p"
  show ?thesis
  proof (cases raw)
    case PNone
    with v show ?thesis by (auto simp: validate_permissions_def policy_ok_def risk_levels_def)
  next
    case (PDict d)
    let ?r = "dgetd d ''risk_level'' (PStr ''safe'')" and ?c = "dgetd d ''requires_confirmation'' (PBool False)"
    from v PDict have "p = policy_of ?r ?c" "?r \<in> PStr ` set risk_levels" "is_bool ?c"
      by (auto simp: validate_permissions_def Let_def split: if_splits)
    moreover from this(3) obtain b where "?c = PBool b" by (cases ?c) auto
    moreover from calculation(2) obtain r where "r \<in> set risk_levels" "?r = PStr r" by blast
    ultimately show ?thesis unfolding policy_ok_def by auto
  qed (use v in \<open>auto simp: validate_permissions_def\<close>)
qed

lemma validate_timeout_ok: "validate_timeout raw name = Inr n \<Longrightarrow> 1 \<le> n \<and> n \<le> max_timeout_sec"
  by (auto simp: validate_timeout_def max_timeout_sec_def split: option.splits if_splits)

lemma validate_command_ok: "validate_command raw name = Inr c \<Longrightarrow> c \<noteq> []"
  by (auto simp: validate_command_def split: pyval.splits if_splits)

lemma load_item_ok:
  assumes "load_item path reserved allowlist denylist item ts = Inr ts'" "tools_ok reserved allowlist denylist ts"
  shows "tools_ok reserved allowlist denylist ts'"
  using assms
  by (auto simp: load_item_def ok_bind_eq_Inr impl_ok_def validate_permissions_ok validate_command_ok
      split: pyval.splits if_splits dest: validate_timeout_ok intro!: tools_ok_add)

lemma load_items_ok:
  "load_items path reserved allowlist denylist is ts = Inr ts' \<Longrightarrow> tools_ok reserved allowlist denylist ts \<Longrightarrow>
   tools_ok reserved allowlist denylist ts'"
  by (induction "is" arbitrary: ts) (auto simp: ok_bind_eq_Inr dest: load_item_ok)

lemma no_tools_ok [simp]: "tools_ok reserved allowlist denylist no_tools"
  by (simp add: tools_ok_def no_tools_def)

text \<open>The entry point loader never replaces a tool, so its schemas match its dispatch table one by one.\<close>

definition in_step :: "tool_set \<Rightarrow> bool" where
  "in_step ts \<longleftrightarrow> map schema_name (ts_schemas ts) = map PStr (dkeys (ts_dispatch ts))"

lemma load_spec_ok:
  assumes "load_spec ep reserved allowlist denylist spec ts = Inr ts'" "tools_ok reserved allowlist denylist ts" "in_step ts"
  shows "tools_ok reserved allowlist denylist ts' \<and> in_step ts'"
proof -
  have "tools_ok reserved allowlist denylist ts'" using assms(1,2)
    by (auto simp: load_spec_def Let_def ok_bind_eq_Inr impl_ok_def validate_permissions_ok
        split: if_splits intro!: tools_ok_add)
  moreover have "in_step ts'" using assms(1,3)
    by (auto simp: load_spec_def Let_def ok_bind_eq_Inr in_step_def add_tool_def dkeys_dset_absent
        simp del: set_map split: if_splits)
  ultimately show ?thesis ..
qed

lemma load_specs_ok:
  "load_specs ep reserved allowlist denylist xs ts = Inr ts' \<Longrightarrow> tools_ok reserved allowlist denylist ts \<and> in_step ts \<Longrightarrow>
   tools_ok reserved allowlist denylist ts' \<and> in_step ts'"
proof (induction xs arbitrary: ts)
  case Nil
  then show ?case by simp
next
  case (Cons x xs)
  then obtain ts1 where "load_spec ep reserved allowlist denylist x ts = Inr ts1"
    "load_specs ep reserved allowlist denylist xs ts1 = Inr ts'" by (auto simp: ok_bind_eq_Inr)
  with Cons load_spec_ok show ?case by blast
qed

lemma load_entry_points_ok:
  "load_entry_points reserved allowlist denylist es ts = Inr ts' \<Longrightarrow> tools_ok reserved allowlist denylist ts \<and> in_step ts \<Longrightarrow>
   tools_ok reserved allowlist denylist ts' \<and> in_step ts'"
proof (induction es arbitrary: ts)
  case Nil
  then show ?case by simp
next
  case (Cons e es)
  show ?case
  proof (cases "ep_specs e")
    case None
    with Cons show ?thesis by simp
  next
    case (Some specs)
    with Cons.prems obtain ts1 where "load_specs (ep_name e) reserved allowlist denylist specs ts = Inr ts1"
      "load_entry_points reserved allowlist denylist es ts1 = Inr ts'" by (auto simp: ok_bind_eq_Inr)
    with Cons load_specs_ok show ?thesis by blast
  qed
qed

lemma in_step_no_tools [simp]: "in_step no_tools"
  by (simp add: in_step_def no_tools_def)

end
