(* ===== verification/ToolSchemas.thy ===== *)
theory ToolSchemas
  imports JsonRoundtrip
begin

text \<open>
  \<open>eda_agent/agent/tool_schemas.py\<close>: the schemas of the built-in tools, as they are sent to the
  model, and the views of a schema the program and the properties take. The Chinese sentence
  behind the first description (it names \<open>innovus\<close> as the default for \<open>place\<close>) is left out.
\<close>

section \<open>The schemas\<close>

definition schema_run_eda_stage :: pyval where
  "schema_run_eda_stage =
    PDict [
      (''type'', PStr ''function''),
      (''function'', PDict [
        (''name'', PStr ''run_eda_stage''),
        (''description'', PStr (''Run a single EDA flow stage (e.g. synth, place, route) for a given design and '' @
          ''return the run_id and status.'')),
        (''parameters'', PDict [
          (''type'', PStr ''object''),
          (''properties'', PDict [
            (''backend'', PDict [
              (''type'', PStr ''string''),
              (''description'', PStr ''Backend name: 'orfs', 'innovus', 'icc2', or custom. '')]),
            (''stage'', PDict [(''type'', PStr ''string''), (''description'', PStr ''Flow stage to run (e.g. 'route').'')]),
            (''design_name'', PDict [
              (''type'', PStr ''string''),
              (''description'', PStr ''Top-level design/module name (e.g. 'gcd').'')]),
            (''design_config'', PDict [
              (''type'', PStr ''string''),
              (''description'', PStr (''Backend config path. For ORFS this is DESIGN_CONFIG; for Innovus this is treated as '' @
                ''remote workdir root.''))]),
            (''pdk'', PDict [
              (''type'', PStr ''string''),
              (''description'', PStr (''Technology/profile label. For Innovus this is metadata used for traceability '' @
                ''(default: tsmc18).''))]),
            (''innovus_workdir'', PDict [
              (''type'', PStr ''string''),
              (''description'', PStr (''Innovus-only alias for remote workdir root. If provided and design_config is empty, '' @
                ''this value is used.''))]),
            (''tech_profile'', PDict [
              (''type'', PStr ''string''),
              (''description'', PStr (''Innovus-only alias for pdk/technology profile label. If provided and pdk is empty, '' @
                ''this value is used.''))]),
            (''params'', PDict [
              (''type'', PStr ''object''),
              (''description'', PStr ''Key-value EDA parameters (e.g. CORE_UTILIZATION).'')])]),
          (''required'', PList [PStr ''backend'', PStr ''stage'', PStr ''design_name''])])])]"

definition schema_run_eda_flow :: pyval where
  "schema_run_eda_flow =
    PDict [
      (''type'', PStr ''function''),
      (''function'', PDict [
        (''name'', PStr ''run_eda_flow''),
        (''description'', PStr (''Run a sequence of EDA flow stages (e.g. from synth to finish) for a given design. '' @
          ''Stages run sequentially in order. Returns status for each stage.'')),
        (''parameters'', PDict [
          (''type'', PStr ''object''),
          (''properties'', PDict [
            (''backend'', PDict [
              (''type'', PStr ''string''),
              (''description'', PStr ''Backend name: 'orfs', 'innovus', 'icc2', or custom.'')]),
            (''stage_start'', PDict [
              (''type'', PStr ''string''),
              (''description'', PStr ''Starting stage (e.g. 'synth') or 'all' to run all stages.'')]),
            (''stage_end'', PDict [
              (''type'', PStr ''string''),
              (''description'', PStr ''Ending stage (e.g. 'finish'). Ignored if stage_start='all'.'')]),
            (''design_name'', PDict [
              (''type'', PStr ''string''),
              (''description'', PStr ''Top-level design/module name (e.g. 'gcd').'')]),
            (''design_config'', PDict [
              (''type'', PStr ''string''),
              (''description'', PStr (''Backend config path. For ORFS this is DESIGN_CONFIG; for Innovus this is treated as '' @
                ''remote workdir root.''))]),
            (''pdk'', PDict [
              (''type'', PStr ''string''),
              (''description'', PStr (''Technology/profile label. For Innovus this is metadata used for traceability '' @
                ''(default: tsmc18).''))]),
            (''innovus_workdir'', PDict [
              (''type'', PStr ''string''),
              (''description'', PStr (''Innovus-only alias for remote workdir root. If provided and design_config is empty, '' @
                ''this value is used.''))]),
            (''tech_profile'', PDict [
              (''type'', PStr ''string''),
              (''description'', PStr (''Innovus-only alias for pdk/technology profile label. If provided and pdk is empty, '' @
                ''this value is used.''))]),
            (''params'', PDict [
              (''type'', PStr ''object''),
              (''description'', PStr ''Key-value EDA parameters (e.g. CORE_UTILIZATION).'')]),
            (''clean'', PDict [
              (''type'', PStr ''boolean''),
              (''description'', PStr ''If true, run 'make clean' before starting to force rerun all stages.'')])]),
          (''required'', PList [PStr ''backend'', PStr ''stage_start'', PStr ''design_name''])])])]"

definition schema_run_multi_agent_cycle :: pyval where
  "schema_run_multi_agent_cycle =
    PDict [
      (''type'', PStr ''function''),
      (''function'', PDict [
        (''name'', PStr ''run_multi_agent_cycle''),
        (''description'', PStr (''Run one multi-agent orchestration cycle (pnr/sta/signoff/experiment) and optionally '' @
          ''execute an experiment stage when gate status is auto_execute.'')),
        (''parameters'', PDict [
          (''type'', PStr ''object''),
          (''properties'', PDict [
            (''objective'', PDict [
              (''type'', PStr ''string''),
              (''description'', PStr ''Cycle objective, e.g. 'WNS >= -0.1 and overflow_h_pct <= 2.0'.'')]),
            (''session_id'', PDict [(''type'', PStr ''integer''), (''description'', PStr ''Optional flow session id for lineage.'')]),
            (''run_id'', PDict [
              (''type'', PStr ''integer''),
              (''description'', PStr ''Optional baseline run id for diagnosis context.'')]),
            (''constraints'', PDict [
              (''type'', PStr ''object''),
              (''description'', PStr ''Optional constraints such as risk_level/max_runtime_sec.'')]),
            (''inputs'', PDict [
              (''type'', PStr ''object''),
              (''description'', PStr ''Optional cycle inputs for sub-agent skeletons.'')]),
            (''agents'', PDict [
              (''type'', PStr ''array''),
              (''items'', PDict [(''type'', PStr ''string'')]),
              (''description'', PStr ''Optional ordered sub-agent list, default pnr/sta/signoff/experiment.'')]),
            (''execute_experiment'', PDict [
              (''type'', PStr ''boolean''),
              (''description'', PStr ''If true and gate allows, execute experiment_request via run_eda_stage.'')]),
            (''experiment_request'', PDict [
              (''type'', PStr ''object''),
              (''description'', PStr (''Stage execution payload. Expected fields: backend, stage, design_name, '' @
                ''design_config/pdk or innovus_workdir/tech_profile, params.''))])]),
          (''required'', PList [PStr ''objective''])])])]"

definition schema_query_timing :: pyval where
  "schema_query_timing =
    PDict [
      (''type'', PStr ''function''),
      (''function'', PDict [
        (''name'', PStr ''query_timing''),
        (''description'', PStr (''Query timing results (WNS, TNS, failing endpoints) and worst slack paths from the '' @
          ''database for a specific design, stage, and optional run_id. Returns both summary '' @
          ''metrics and individual violating paths.'')),
        (''parameters'', PDict [
          (''type'', PStr ''object''),
          (''properties'', PDict [
            (''design_name'', PDict [(''type'', PStr ''string'')]),
            (''stage'', PDict [(''type'', PStr ''string''), (''description'', PStr ''Filter by stage (optional).'')]),
            (''run_id'', PDict [(''type'', PStr ''integer''), (''description'', PStr ''Specific run ID (optional).'')]),
            (''limit'', PDict [(''type'', PStr ''integer''), (''description'', PStr ''Max rows to return (default 10).'')])]),
          (''required'', PList [PStr ''design_name''])])])]"

definition schema_query_congestion :: pyval where
  "schema_query_congestion =
    PDict [
      (''type'', PStr ''function''),
      (''function'', PDict [
        (''name'', PStr ''query_congestion''),
        (''description'', PStr (''Spatial congestion query. Returns hotspot polygons that overlap a bounding box '' @
          ''(x1,y1,x2,y2) in chip coordinates.'')),
        (''parameters'', PDict [
          (''type'', PStr ''object''),
          (''properties'', PDict [
            (''run_id'', PDict [(''type'', PStr ''integer'')]),
            (''x1'', PDict [(''type'', PStr ''number'')]),
            (''y1'', PDict [(''type'', PStr ''number'')]),
            (''x2'', PDict [(''type'', PStr ''number'')]),
            (''y2'', PDict [(''type'', PStr ''number'')])]),
          (''required'', PList [PStr ''run_id''])])])]"

definition schema_query_congestion_summary :: pyval where
  "schema_query_congestion_summary =
    PDict [
      (''type'', PStr ''function''),
      (''function'', PDict [
        (''name'', PStr ''query_congestion_summary''),
        (''description'', PStr (''Query congestion summary metrics for a run (total overflow, horizontal/vertical '' @
          ''overflow percentages) parsed from Innovus congestion reports.'')),
        (''parameters'', PDict [
          (''type'', PStr ''object''),
          (''properties'', PDict [(''run_id'', PDict [(''type'', PStr ''integer'')])]),
          (''required'', PList [PStr ''run_id''])])])]"

definition schema_compare_runs :: pyval where
  "schema_compare_runs =
    PDict [
      (''type'', PStr ''function''),
      (''function'', PDict [
        (''name'', PStr ''compare_runs''),
        (''description'', PStr ''Compare PPA metrics between two run IDs.''),
        (''parameters'', PDict [
          (''type'', PStr ''object''),
          (''properties'', PDict [
            (''run_id_a'', PDict [(''type'', PStr ''integer''), (''description'', PStr ''Baseline run ID.'')]),
            (''run_id_b'', PDict [(''type'', PStr ''integer''), (''description'', PStr ''New run ID.'')])]),
          (''required'', PList [PStr ''run_id_a'', PStr ''run_id_b''])])])]"

definition schema_query_flow_sessions :: pyval where
  "schema_query_flow_sessions =
    PDict [
      (''type'', PStr ''function''),
      (''function'', PDict [
        (''name'', PStr ''query_flow_sessions''),
        (''description'', PStr (''List flow_sessions lineage roots from the database, optionally filtered by '' @
          ''design_name and status. Returns session metadata sorted by latest update.'')),
        (''parameters'', PDict [
          (''type'', PStr ''object''),
          (''properties'', PDict [
            (''design_name'', PDict [
              (''type'', PStr ''string''),
              (''description'', PStr ''Optional design name filter (e.g. 'gcd').'')]),
            (''status'', PDict [
              (''type'', PStr ''string''),
              (''description'', PStr ''Optional session status filter (e.g. active/completed/failed).'')]),
            (''limit'', PDict [(''type'', PStr ''integer''), (''description'', PStr ''Maximum rows to return (default 20).'')])]),
          (''required'', PList [])])])]"

definition schema_query_session_trace :: pyval where
  "schema_query_session_trace =
    PDict [
      (''type'', PStr ''function''),
      (''function'', PDict [
        (''name'', PStr ''query_session_trace''),
        (''description'', PStr (''Return a full lineage trace for one flow session, including session info, runs, '' @
          ''stage_outcomes, and decision_trace records.'')),
        (''parameters'', PDict [
          (''type'', PStr ''object''),
          (''properties'', PDict [
            (''session_id'', PDict [(''type'', PStr ''integer''), (''description'', PStr ''flow_sessions.id to inspect.'')]),
            (''stage'', PDict [
              (''type'', PStr ''string''),
              (''description'', PStr ''Optional stage filter applied to runs and outcomes.'')]),
            (''from_seq'', PDict [(''type'', PStr ''integer''), (''description'', PStr ''Optional minimum stage_seq (inclusive).'')]),
            (''to_seq'', PDict [(''type'', PStr ''integer''), (''description'', PStr ''Optional maximum stage_seq (inclusive).'')]),
            (''human_approved'', PDict [
              (''type'', PStr ''boolean''),
              (''description'', PStr ''Optional filter for decision_trace.human_approved.'')])]),
          (''required'', PList [PStr ''session_id''])])])]"

definition schema_suggest_params :: pyval where
  "schema_suggest_params =
    PDict [
      (''type'', PStr ''function''),
      (''function'', PDict [
        (''name'', PStr ''suggest_params''),
        (''description'', PStr (''Based on the current run results and historical data, suggest parameter adjustments '' @
          ''to improve PPA.  Returns a JSON object with recommended parameter key-value pairs '' @
          ''and reasoning.'')),
        (''parameters'', PDict [
          (''type'', PStr ''object''),
          (''properties'', PDict [
            (''run_id'', PDict [(''type'', PStr ''integer''), (''description'', PStr ''Current run ID to analyse.'')]),
            (''target_spec'', PDict [
              (''type'', PStr ''string''),
              (''description'', PStr ''Natural language PPA target, e.g. 'WNS >= -0.1ns'.'')])]),
          (''required'', PList [PStr ''run_id'', PStr ''target_spec''])])])]"

definition schema_tune_ppa :: pyval where
  "schema_tune_ppa =
    PDict [
      (''type'', PStr ''function''),
      (''function'', PDict [
        (''name'', PStr ''tune_ppa''),
        (''description'', PStr (''Autonomous PPA tuning loop: repeatedly suggests parameters, runs the EDA stage, and '' @
          ''checks if the target is met.  Returns the iteration history and final PPA metrics.'')),
        (''parameters'', PDict [
          (''type'', PStr ''object''),
          (''properties'', PDict [
            (''backend'', PDict [(''type'', PStr ''string''), (''description'', PStr ''Backend name (e.g. 'orfs').'')]),
            (''stage'', PDict [(''type'', PStr ''string''), (''description'', PStr ''Flow stage to tune (e.g. 'route').'')]),
            (''design_name'', PDict [(''type'', PStr ''string'')]),
            (''design_config'', PDict [
              (''type'', PStr ''string''),
              (''description'', PStr (''Backend config path. For ORFS this is DESIGN_CONFIG; for Innovus this is treated as '' @
                ''remote workdir root.''))]),
            (''pdk'', PDict [
              (''type'', PStr ''string''),
              (''description'', PStr (''Technology/profile label. For Innovus this is metadata used for traceability '' @
                ''(default: tsmc18).''))]),
            (''innovus_workdir'', PDict [
              (''type'', PStr ''string''),
              (''description'', PStr (''Innovus-only alias for remote workdir root. If provided and design_config is empty, '' @
                ''this value is used.''))]),
            (''tech_profile'', PDict [
              (''type'', PStr ''string''),
              (''description'', PStr (''Innovus-only alias for pdk/technology profile label. If provided and pdk is empty, '' @
                ''this value is used.''))]),
            (''target_spec'', PDict [
              (''type'', PStr ''string''),
              (''description'', PStr ''Natural language PPA target, e.g. 'WNS >= -0.1ns'.'')]),
            (''max_iterations'', PDict [(''type'', PStr ''integer''), (''description'', PStr ''Maximum tuning iterations (default 5).'')])]),
          (''required'', PList [PStr ''backend'', PStr ''stage'', PStr ''design_name'', PStr ''target_spec''])])])]"

definition schema_add_placement_blockage :: pyval where
  "schema_add_placement_blockage =
    PDict [
      (''type'', PStr ''function''),
      (''function'', PDict [
        (''name'', PStr ''add_placement_blockage''),
        (''description'', PStr (''Apply one or more Innovus placement blockages (soft/hard/partial) on the remote '' @
          ''design state and persist them for subsequent place runs.'')),
        (''parameters'', PDict [
          (''type'', PStr ''object''),
          (''properties'', PDict [
            (''run_id'', PDict [(''type'', PStr ''integer'')]),
            (''blockages'', PDict [
              (''type'', PStr ''array''),
              (''items'', PDict [
                (''type'', PStr ''object''),
                (''properties'', PDict [
                  (''x1'', PDict [(''type'', PStr ''number'')]),
                  (''y1'', PDict [(''type'', PStr ''number'')]),
                  (''x2'', PDict [(''type'', PStr ''number'')]),
                  (''y2'', PDict [(''type'', PStr ''number'')]),
                  (''type'', PDict [(''type'', PStr ''string''), (''description'', PStr ''Blockage type: soft/hard/partial.'')]),
                  (''reason'', PDict [(''type'', PStr ''string'')])]),
                (''required'', PList [PStr ''x1'', PStr ''y1'', PStr ''x2'', PStr ''y2''])])]),
            (''workdir'', PDict [
              (''type'', PStr ''string''),
              (''description'', PStr ''Optional remote Innovus workdir override.'')]),
            (''stage'', PDict [
              (''type'', PStr ''string''),
              (''description'', PStr ''Flow stage whose output_dir should host blockages.tcl (default: place).'')])]),
          (''required'', PList [PStr ''run_id'', PStr ''blockages''])])])]"

definition schema_tune_congestion_with_blockage :: pyval where
  "schema_tune_congestion_with_blockage =
    PDict [
      (''type'', PStr ''function''),
      (''function'', PDict [
        (''name'', PStr ''tune_congestion_with_blockage''),
        (''description'', PStr (''Iteratively run Innovus place, evaluate congestion summary, let the LLM decide '' @
          ''placement blockages from hotspots, and repeat until overflow target is met.'')),
        (''parameters'', PDict [
          (''type'', PStr ''object''),
          (''properties'', PDict [
            (''backend'', PDict [(''type'', PStr ''string'')]),
            (''design_name'', PDict [(''type'', PStr ''string'')]),
            (''design_config'', PDict [
              (''type'', PStr ''string''),
              (''description'', PStr (''Backend config path. For ORFS this is DESIGN_CONFIG; for Innovus this is treated as '' @
                ''remote workdir root.''))]),
            (''pdk'', PDict [
              (''type'', PStr ''string''),
              (''description'', PStr (''Technology/profile label. For Innovus this is metadata used for traceability '' @
                ''(default: tsmc18).''))]),
            (''innovus_workdir'', PDict [
              (''type'', PStr ''string''),
              (''description'', PStr (''Innovus-only alias for remote workdir root. If provided and design_config is empty, '' @
                ''this value is used.''))]),
            (''tech_profile'', PDict [
              (''type'', PStr ''string''),
              (''description'', PStr (''Innovus-only alias for pdk/technology profile label. If provided and pdk is empty, '' @
                ''this value is used.''))]),
            (''congestion_threshold_pct'', PDict [
              (''type'', PStr ''number''),
              (''description'', PStr ''Target max of horizontal/vertical overflow percentage.'')]),
            (''max_iterations'', PDict [(''type'', PStr ''integer''), (''description'', PStr ''Maximum tuning iterations.'')]),
            (''workdir'', PDict [
              (''type'', PStr ''string''),
              (''description'', PStr ''Optional Innovus remote workdir override.'')])]),
          (''required'', PList [PStr ''backend'', PStr ''design_name''])])])]"

definition schema_query_utilization :: pyval where
  "schema_query_utilization =
    PDict [
      (''type'', PStr ''function''),
      (''function'', PDict [
        (''name'', PStr ''query_utilization''),
        (''description'', PStr (''Query design-area and cell-utilisation results from the database for a specific '' @
          ''design, stage, and optional run_id.'')),
        (''parameters'', PDict [
          (''type'', PStr ''object''),
          (''properties'', PDict [
            (''design_name'', PDict [(''type'', PStr ''string'')]),
            (''stage'', PDict [(''type'', PStr ''string''), (''description'', PStr ''Filter by stage (optional).'')]),
            (''run_id'', PDict [(''type'', PStr ''integer''), (''description'', PStr ''Specific run ID (optional).'')]),
            (''limit'', PDict [(''type'', PStr ''integer''), (''description'', PStr ''Max rows to return (default 10).'')])]),
          (''required'', PList [PStr ''design_name''])])])]"

definition schema_query_power :: pyval where
  "schema_query_power =
    PDict [
      (''type'', PStr ''function''),
      (''function'', PDict [
        (''name'', PStr ''query_power''),
        (''description'', PStr (''Query power breakdown (internal / switching / leakage / total) in Watts from the '' @
          ''database for a specific design, stage, and optional run_id.'')),
        (''parameters'', PDict [
          (''type'', PStr ''object''),
          (''properties'', PDict [
            (''design_name'', PDict [(''type'', PStr ''string'')]),
            (''stage'', PDict [(''type'', PStr ''string''), (''description'', PStr ''Filter by stage (optional).'')]),
            (''run_id'', PDict [(''type'', PStr ''integer''), (''description'', PStr ''Specific run ID (optional).'')]),
            (''limit'', PDict [(''type'', PStr ''integer''), (''description'', PStr ''Max rows to return (default 10).'')])]),
          (''required'', PList [PStr ''design_name''])])])]"

definition schema_get_run_log :: pyval where
  "schema_get_run_log =
    PDict [
      (''type'', PStr ''function''),
      (''function'', PDict [
        (''name'', PStr ''get_run_log''),
        (''description'', PStr (''Read the log file from a failed or successful EDA run to diagnose issues. Returns '' @
          ''the last N lines of the log file.'')),
        (''parameters'', PDict [
          (''type'', PStr ''object''),
          (''properties'', PDict [
            (''run_id'', PDict [(''type'', PStr ''integer''), (''description'', PStr ''Run ID to read log from.'')]),
            (''lines'', PDict [
              (''type'', PStr ''integer''),
              (''description'', PStr ''Number of last lines to return (default 50).'')])]),
          (''required'', PList [PStr ''run_id''])])])]"

definition schema_tune_ppa_multistage :: pyval where
  "schema_tune_ppa_multistage =
    PDict [
      (''type'', PStr ''function''),
      (''function'', PDict [
        (''name'', PStr ''tune_ppa_multistage''),
        (''description'', PStr (''Multi-stage autonomous PPA tuning loop. Unlike tune_ppa (which repeats a single '' @
          ''fixed stage), this tool analyses which stage is the bottleneck (based on setup/hold '' @
          ''violations, congestion, DRC counts) and re-runs the flow from that stage with '' @
          ''adjusted parameters. Returns the full iteration history with per-stage metrics.'')),
        (''parameters'', PDict [
          (''type'', PStr ''object''),
          (''properties'', PDict [
            (''backend'', PDict [(''type'', PStr ''string''), (''description'', PStr ''Backend name (e.g. 'orfs').'')]),
            (''design_name'', PDict [(''type'', PStr ''string'')]),
            (''design_config'', PDict [
              (''type'', PStr ''string''),
              (''description'', PStr (''Backend config path. For ORFS this is DESIGN_CONFIG; for Innovus this is treated as '' @
                ''remote workdir root.''))]),
            (''pdk'', PDict [
              (''type'', PStr ''string''),
              (''description'', PStr (''Technology/profile label. For Innovus this is metadata used for traceability '' @
                ''(default: tsmc18).''))]),
            (''innovus_workdir'', PDict [
              (''type'', PStr ''string''),
              (''description'', PStr (''Innovus-only alias for remote workdir root. If provided and design_config is empty, '' @
                ''this value is used.''))]),
            (''tech_profile'', PDict [
              (''type'', PStr ''string''),
              (''description'', PStr (''Innovus-only alias for pdk/technology profile label. If provided and pdk is empty, '' @
                ''this value is used.''))]),
            (''target_spec'', PDict [
              (''type'', PStr ''string''),
              (''description'', PStr ''Natural language PPA target, e.g. 'WNS >= -0.1ns'.'')]),
            (''start_stage'', PDict [
              (''type'', PStr ''string''),
              (''description'', PStr (''Earliest stage to run in the first pass (default 'place'). Upstream stages '' @
                ''(synth/floorplan) are assumed already done.''))]),
            (''max_iterations'', PDict [(''type'', PStr ''integer''), (''description'', PStr ''Maximum tuning iterations (default 5).'')])]),
          (''required'', PList [PStr ''backend'', PStr ''design_name'', PStr ''design_config'', PStr ''pdk'', PStr ''target_spec''])])])]"

definition schema_submit_job :: pyval where
  "schema_submit_job =
    PDict [
      (''type'', PStr ''function''),
      (''function'', PDict [
        (''name'', PStr ''submit_job''),
        (''description'', PStr (''Submit an EDA job to the asynchronous queue for background execution. Returns a '' @
          ''job_id immediately while the job runs in the background worker. Use 'job_status' to '' @
          ''poll for completion. Set run_mode='flow' to run a sequence of stages (e.g. 'all' '' @
          ''from synth to finish).'')),
        (''parameters'', PDict [
          (''type'', PStr ''object''),
          (''properties'', PDict [
            (''backend'', PDict [
              (''type'', PStr ''string''),
              (''description'', PStr ''Backend name: 'orfs', 'innovus', 'icc2', or custom.'')]),
            (''stage'', PDict [
              (''type'', PStr ''string''),
              (''description'', PStr ''Flow stage to execute (e.g. 'synth', 'place', 'route'). Ignored if run_mode='flow'.'')]),
            (''design_name'', PDict [
              (''type'', PStr ''string''),
              (''description'', PStr ''Top-level design/module name (e.g. 'gcd').'')]),
            (''design_config'', PDict [
              (''type'', PStr ''string''),
              (''description'', PStr (''Backend config path. For ORFS this is DESIGN_CONFIG; for Innovus this is treated as '' @
                ''remote workdir root.''))]),
            (''pdk'', PDict [
              (''type'', PStr ''string''),
              (''description'', PStr (''Technology/profile label. For Innovus this is metadata used for traceability '' @
                ''(default: tsmc18).''))]),
            (''innovus_workdir'', PDict [
              (''type'', PStr ''string''),
              (''description'', PStr (''Innovus-only alias for remote workdir root. If provided and design_config is empty, '' @
                ''this value is used.''))]),
            (''tech_profile'', PDict [
              (''type'', PStr ''string''),
              (''description'', PStr (''Innovus-only alias for pdk/technology profile label. If provided and pdk is empty, '' @
                ''this value is used.''))]),
            (''params'', PDict [(''type'', PStr ''object''), (''description'', PStr ''Key-value EDA parameters (optional).'')]),
            (''stage_start'', PDict [
              (''type'', PStr ''string''),
              (''description'', PStr ''Starting stage for flow mode (e.g. 'synth', 'all').'')]),
            (''stage_end'', PDict [
              (''type'', PStr ''string''),
              (''description'', PStr ''Ending stage for flow mode (e.g. 'finish').'')]),
            (''run_mode'', PDict [
              (''type'', PStr ''string''),
              (''description'', PStr (''Execution mode: 'stage' (single stage) or 'flow' (sequence of stages). Default: '' @
                [CHR 0x27] @ ''stage'.''))])]),
          (''required'', PList [PStr ''backend'', PStr ''design_name''])])])]"

definition schema_job_status :: pyval where
  "schema_job_status =
    PDict [
      (''type'', PStr ''function''),
      (''function'', PDict [
        (''name'', PStr ''job_status''),
        (''description'', PStr (''Check the status of a previously submitted async job. Returns the job status, '' @
          ''run_id (if completed), and error message if failed.'')),
        (''parameters'', PDict [
          (''type'', PStr ''object''),
          (''properties'', PDict [
            (''job_id'', PDict [(''type'', PStr ''string''), (''description'', PStr ''Job ID returned from submit_job.'')])]),
          (''required'', PList [PStr ''job_id''])])])]"

definition schema_job_logs :: pyval where
  "schema_job_logs =
    PDict [
      (''type'', PStr ''function''),
      (''function'', PDict [
        (''name'', PStr ''job_logs''),
        (''description'', PStr ''Fetch the log file from a background job. Returns the last N lines of the log.''),
        (''parameters'', PDict [
          (''type'', PStr ''object''),
          (''properties'', PDict [
            (''job_id'', PDict [(''type'', PStr ''string''), (''description'', PStr ''Job ID returned from submit_job.'')]),
            (''lines'', PDict [
              (''type'', PStr ''integer''),
              (''description'', PStr ''Number of last lines to return (default 50).'')])]),
          (''required'', PList [PStr ''job_id''])])])]"

definition schema_cancel_job :: pyval where
  "schema_cancel_job =
    PDict [
      (''type'', PStr ''function''),
      (''function'', PDict [
        (''name'', PStr ''cancel_job''),
        (''description'', PStr (''Cancel a pending or running background job. Returns whether the cancellation '' @
          ''succeeded.'')),
        (''parameters'', PDict [
          (''type'', PStr ''object''),
          (''properties'', PDict [
            (''job_id'', PDict [(''type'', PStr ''string''), (''description'', PStr ''Job ID returned from submit_job.'')])]),
          (''required'', PList [PStr ''job_id''])])])]"

definition schema_save_case :: pyval where
  "schema_save_case =
    PDict [
      (''type'', PStr ''function''),
      (''function'', PDict [
        (''name'', PStr ''save_case''),
        (''description'', PStr (''Save a resolved debugging case to persistent memory. Call this AFTER diagnosing a '' @
          ''root cause so the knowledge can be retrieved in future sessions with similar '' @
          ''problems.'')),
        (''parameters'', PDict [
          (''type'', PStr ''object''),
          (''properties'', PDict [
            (''design_name'', PDict [(''type'', PStr ''string''), (''description'', PStr ''Top-level design name (e.g. 'gcd').'')]),
            (''pdk'', PDict [(''type'', PStr ''string''), (''description'', PStr ''PDK identifier (e.g. 'sky130hd').'')]),
            (''symptoms'', PDict [
              (''type'', PStr ''string''),
              (''description'', PStr (''Free-text description of the observed problems (timing violations, congestion, DRC '' @
                ''errors, etc.).''))]),
            (''root_cause'', PDict [
              (''type'', PStr ''string''),
              (''description'', PStr ''The diagnosed root cause of the problems.'')]),
            (''actions'', PDict [
              (''type'', PStr ''array''),
              (''items'', PDict [(''type'', PStr ''string'')]),
              (''description'', PStr ''Ordered list of actions taken to fix the issue.'')]),
            (''result_metrics'', PDict [
              (''type'', PStr ''object''),
              (''description'', PStr (''Key QoR metrics before and after the fix, e.g. {\"wns_before\": -0.5, \"wns_after\": '' @
                ''-0.1}.''))])]),
          (''required'', PList [PStr ''symptoms'', PStr ''root_cause''])])])]"

definition schema_infer_root_cause :: pyval where
  "schema_infer_root_cause =
    PDict [
      (''type'', PStr ''function''),
      (''function'', PDict [
        (''name'', PStr ''infer_root_cause''),
        (''description'', PStr (''Run the rule-based root cause inference engine against a specific EDA run and '' @
          ''return ranked root cause hypotheses with evidence and experiment suggestions. Call '' @
          ''this when the user asks WHY a run is failing or wants to diagnose '' @
          ''timing/congestion/DRC issues.'')),
        (''parameters'', PDict [
          (''type'', PStr ''object''),
          (''properties'', PDict [
            (''run_id'', PDict [(''type'', PStr ''integer''), (''description'', PStr ''DB run id (runs.id) to diagnose.'')]),
            (''symptoms'', PDict [
              (''type'', PStr ''string''),
              (''description'', PStr (''Optional free-text description of the observed problems (e.g. 'WNS is -0.5ns and '' @
                ''there are many congestion hotspots'). Stored alongside the inference record.''))])]),
          (''required'', PList [PStr ''run_id''])])])]"

definition schema_confirm_root_cause :: pyval where
  "schema_confirm_root_cause =
    PDict [
      (''type'', PStr ''function''),
      (''function'', PDict [
        (''name'', PStr ''confirm_root_cause''),
        (''description'', PStr (''Confirm the engineer-approved root cause for a previous inference. Persists the '' @
          ''result to case memory so it can be retrieved in future sessions. Call this AFTER '' @
          ''the engineer agrees with a hypothesis.'')),
        (''parameters'', PDict [
          (''type'', PStr ''object''),
          (''properties'', PDict [
            (''inference_id'', PDict [
              (''type'', PStr ''integer''),
              (''description'', PStr ''inference_id returned by infer_root_cause.'')]),
            (''confirmed_cause_id'', PDict [
              (''type'', PStr ''string''),
              (''description'', PStr (''The cause_id to confirm (e.g. 'routing_detour'). Must match one of the cause_id '' @
                ''values in the hypotheses list, or a free-text string if none matched.''))])]),
          (''required'', PList [PStr ''inference_id'', PStr ''confirmed_cause_id''])])])]"

definition schema_optimize_with_inference :: pyval where
  "schema_optimize_with_inference =
    PDict [
      (''type'', PStr ''function''),
      (''function'', PDict [
        (''name'', PStr ''optimize_with_inference''),
        (''description'', PStr (''Run a closed-loop optimisation cycle: infer root cause from the current run, pick '' @
          ''the best experiment suggested by the rule engine, apply it, re-run the stage, '' @
          ''verify whether the root cause was mitigated, and repeat until convergence or max '' @
          ''iterations. Phase B (rule weight learning) is triggered automatically on '' @
          ''convergence.'')),
        (''parameters'', PDict [
          (''type'', PStr ''object''),
          (''properties'', PDict [
            (''run_id'', PDict [
              (''type'', PStr ''integer''),
              (''description'', PStr ''DB run id (runs.id) of the baseline run.'')]),
            (''target_spec'', PDict [
              (''type'', PStr ''string''),
              (''description'', PStr ''Natural-language PPA target, e.g. 'WNS >= -0.1 and overflow_h_pct <= 2.0'.'')]),
            (''backend'', PDict [(''type'', PStr ''string''), (''description'', PStr ''Backend name: 'orfs', 'innovus', 'icc2'.'')]),
            (''stage'', PDict [(''type'', PStr ''string''), (''description'', PStr ''Flow stage to tune (e.g. 'place').'')]),
            (''design_name'', PDict [(''type'', PStr ''string'')]),
            (''design_config'', PDict [
              (''type'', PStr ''string''),
              (''description'', PStr (''Backend config path. For ORFS this is DESIGN_CONFIG; for Innovus this is treated as '' @
                ''remote workdir root.''))]),
            (''pdk'', PDict [
              (''type'', PStr ''string''),
              (''description'', PStr (''Technology/profile label. For Innovus this is metadata used for traceability '' @
                ''(default: tsmc18).''))]),
            (''innovus_workdir'', PDict [
              (''type'', PStr ''string''),
              (''description'', PStr (''Innovus-only alias for remote workdir root. If provided and design_config is empty, '' @
                ''this value is used.''))]),
            (''tech_profile'', PDict [
              (''type'', PStr ''string''),
              (''description'', PStr (''Innovus-only alias for pdk/technology profile label. If provided and pdk is empty, '' @
                ''this value is used.''))]),
            (''max_iterations'', PDict [(''type'', PStr ''integer''), (''description'', PStr ''Maximum loop iterations (default 5).'')])]),
          (''required'', PList [PStr ''run_id'', PStr ''target_spec'', PStr ''backend'', PStr ''stage'', PStr ''design_name''])])])]"

definition tool_schemas :: "pyval list" where
  "tool_schemas = [
     schema_run_eda_stage, schema_run_eda_flow, schema_run_multi_agent_cycle,
     schema_query_timing, schema_query_congestion, schema_query_congestion_summary,
     schema_compare_runs, schema_query_flow_sessions, schema_query_session_trace,
     schema_suggest_params, schema_tune_ppa, schema_add_placement_blockage,
     schema_tune_congestion_with_blockage, schema_query_utilization, schema_query_power,
     schema_get_run_log, schema_tune_ppa_multistage, schema_submit_job,
     schema_job_status, schema_job_logs, schema_cancel_job,
     schema_save_case, schema_infer_root_cause, schema_confirm_root_cause,
     schema_optimize_with_inference]"

section \<open>Views\<close>

fun dict_of :: "pyval \<Rightarrow> pydict" where
  "dict_of (PDict d) = d"
| "dict_of _ = []"

fun str_of :: "pyval \<Rightarrow> string" where
  "str_of (PStr s) = s"
| "str_of _ = []"

fun strs_of :: "pyval \<Rightarrow> string list" where
  "strs_of (PList xs) = map str_of xs"
| "strs_of _ = []"

definition schema_function :: "pyval \<Rightarrow> pydict" where
  "schema_function s = dict_of (pget (dict_of s) ''function'')"

definition advertised_name :: "pyval \<Rightarrow> string" where
  "advertised_name s = str_of (pget (schema_function s) ''name'')"

definition schema_parameters :: "pyval \<Rightarrow> pydict" where
  "schema_parameters s = dict_of (pget (schema_function s) ''parameters'')"

definition schema_properties :: "pyval \<Rightarrow> string list" where
  "schema_properties s = dkeys (dict_of (pget (schema_parameters s) ''properties''))"

definition schema_required :: "pyval \<Rightarrow> string list" where
  "schema_required s = strs_of (pget (schema_parameters s) ''required'')"

lemmas schema_views = schema_function_def advertised_name_def schema_parameters_def schema_properties_def
  schema_required_def

end
