(* ===== verification/ToolDispatch.thy ===== *)
theory ToolDispatch
  imports Guardrails CustomTools ToolSchemas
begin

text \<open>
  The dispatcher of \<open>eda_agent/agent/tools.py\<close>: the built-in table, the binding of custom tools
  at import, the audit record of custom calls, and \<open>execute_tool\<close>. The functions behind the
  names act on a world of type \<open>'w\<close> and are arguments, except the runner of a declared command,
  which is the model's own; the wording of guard texts and of the exceptions of \<open>str.format\<close> is
  an argument as well.
\<close>

section \<open>Names\<close>

definition builtin_tools :: "string list" where
  "builtin_tools =
     [''run_eda_stage'', ''run_eda_flow'', ''run_multi_agent_cycle'', ''get_run_log'', ''query_timing'',
      ''query_congestion'', ''query_congestion_summary'', ''query_utilization'', ''query_power'',
      ''compare_runs'', ''query_flow_sessions'', ''query_session_trace'', ''suggest_params'', ''tune_ppa'',
      ''tune_ppa_multistage'', ''add_placement_blockage'', ''tune_congestion_with_blockage'', ''submit_job'',
      ''job_status'', ''job_logs'', ''cancel_job'', ''save_case'', ''infer_root_cause'',
      ''confirm_root_cause'', ''optimize_with_inference'']"

text \<open>
  What the functions behind the names accept: the arguments without and with a default. Python
  raises \<open>TypeError\<close> for a call that lacks one of the first or has another one.
\<close>

definition tool_signatures :: "(string \<times> (string list \<times> string list)) list" where
  "tool_signatures =
     [(''run_eda_stage'', ([''backend'', ''stage'', ''design_name''], [''design_config'', ''pdk'',
        ''innovus_workdir'', ''tech_profile'', ''params'', ''run_context''])),
      (''run_eda_flow'', ([''backend'', ''stage_start'', ''design_name''], [''design_config'', ''pdk'',
        ''innovus_workdir'', ''tech_profile'', ''stage_end'', ''params'', ''clean''])),
      (''run_multi_agent_cycle'', ([''objective''], [''session_id'', ''run_id'', ''constraints'', ''inputs'',
        ''agents'', ''execute_experiment'', ''experiment_request''])),
      (''get_run_log'', ([''run_id''], [''lines''])),
      (''query_timing'', ([''design_name''], [''stage'', ''run_id'', ''limit''])),
      (''query_congestion'', ([''run_id''], [''x1'', ''y1'', ''x2'', ''y2''])),
      (''query_congestion_summary'', ([''run_id''], [])),
      (''query_utilization'', ([''design_name''], [''stage'', ''run_id'', ''limit''])),
      (''query_power'', ([''design_name''], [''stage'', ''run_id'', ''limit''])),
      (''compare_runs'', ([''run_id_a'', ''run_id_b''], [])),
      (''query_flow_sessions'', ([], [''design_name'', ''status'', ''limit''])),
      (''query_session_trace'', ([''session_id''], [''stage'', ''from_seq'', ''to_seq'', ''human_approved''])),
      (''suggest_params'', ([''run_id'', ''target_spec''], [])),
      (''tune_ppa'', ([''backend'', ''stage'', ''design_name'', ''target_spec''], [''design_config'', ''pdk'',
        ''innovus_workdir'', ''tech_profile'', ''max_iterations''])),
      (''tune_ppa_multistage'', ([''backend'', ''design_name'', ''target_spec''], [''design_config'', ''pdk'',
        ''innovus_workdir'', ''tech_profile'', ''start_stage'', ''max_iterations''])),
      (''add_placement_blockage'', ([''run_id'', ''blockages''], [''workdir'', ''stage''])),
      (''tune_congestion_with_blockage'', ([''backend'', ''design_name''], [''design_config'', ''pdk'',
        ''innovus_workdir'', ''tech_profile'', ''congestion_threshold_pct'', ''max_iterations'', ''workdir''])),
      (''submit_job'', ([''backend'', ''design_name''], [''design_config'', ''pdk'', ''innovus_workdir'',
        ''tech_profile'', ''stage'', ''params'', ''stage_start'', ''stage_end'', ''run_mode''])),
      (''job_status'', ([''job_id''], [])),
      (''job_logs'', ([''job_id''], [''lines''])),
      (''cancel_job'', ([''job_id''], [])),
      (''save_case'', ([''symptoms'', ''root_cause''], [''design_name'', ''pdk'', ''actions'',
        ''result_metrics''])),
      (''infer_root_cause'', ([''run_id''], [''symptoms''])),
      (''confirm_root_cause'', ([''inference_id'', ''confirmed_cause_id''], [])),
      (''optimize_with_inference'', ([''run_id'', ''target_spec'', ''backend'', ''stage'', ''design_name''],
        [''design_config'', ''pdk'', ''innovus_workdir'', ''tech_profile'', ''max_iterations'']))]"

definition binds :: "string list \<times> string list \<Rightarrow> pydict \<Rightarrow> bool" where
  "binds = (\<lambda>(req, opt) args. list_all (\<lambda>k. k \<in> set (dkeys args)) req \<and>
     list_all (\<lambda>k. k \<in> set (req @ opt)) (dkeys args))"

fun split_on :: "char \<Rightarrow> string \<Rightarrow> string list" where
  "split_on d [] = [[]]"
| "split_on d (c # s) =
     (if c = d then [] # split_on d s
      else case split_on d s of [] \<Rightarrow> [[c]] | w # ws \<Rightarrow> (c # w) # ws)"

definition parse_tool_name_set :: "string \<Rightarrow> string list" where
  "parse_tool_name_set raw = remdups (filter (\<lambda>x. x \<noteq> []) (map py_strip (split_on (CHR '','') raw)))"

section \<open>Binding the custom tools\<close>

record tool_settings =
  st_allowlist :: string
  st_denylist :: string
  st_file :: string
  st_entrypoints :: bool

definition or_none :: "string list \<Rightarrow> string list option" where
  "or_none xs = (if xs = [] then None else Some xs)"

definition merge_tools :: "tool_set \<Rightarrow> tool_set \<Rightarrow> tool_set" where
  "merge_tools a b =
     \<lparr>ts_schemas = ts_schemas a @ ts_schemas b,
      ts_dispatch = dupdate (ts_dispatch a) (ts_dispatch b),
      ts_policies = dupdate (ts_policies a) (ts_policies b),
      ts_sources = dupdate (ts_sources a) (ts_sources b)\<rparr>"

text \<open>A configuration error is logged and its source left out; any other exception escapes.\<close>

definition bind_source :: "(load_exc, tool_set) result \<Rightarrow> tool_set \<Rightarrow> (load_exc, tool_set) result" where
  "bind_source loaded ts =
     (case loaded of
        Inr new \<Rightarrow> Inr (merge_tools ts new)
      | Inl (ConfigError e) \<Rightarrow> Inr ts
      | Inl (Unhashable n) \<Rightarrow> Inl (Unhashable n))"

definition load_bindings :: "tool_settings \<Rightarrow> (string \<Rightarrow> string option) \<Rightarrow> entry_point list \<Rightarrow> (load_exc, tool_set) result" where
  "load_bindings st files eps =
     (let allow = or_none (parse_tool_name_set (st_allowlist st));
          deny = or_none (parse_tool_name_set (st_denylist st));
          path = py_strip (st_file st)
      in ok_bind
           (if path \<noteq> [] then bind_source (load_custom_tools path (files path) builtin_tools allow deny) no_tools
            else Inr no_tools) (\<lambda>ts.
         if st_entrypoints st
         then bind_source (load_custom_tools_from_entry_points eps (builtin_tools @ dkeys (ts_dispatch ts)) allow deny) ts
         else Inr ts))"

section \<open>Auditing custom calls\<close>

definition clip :: "nat \<Rightarrow> string \<Rightarrow> string" where
  "clip n s = (if length s \<le> n then s else take n s @ ''...'')"

definition summarize_value :: "pyval \<Rightarrow> pyval" where
  "summarize_value v = (case v of
      PStr s \<Rightarrow> PStr (clip 200 s)
    | PList xs \<Rightarrow> PStr (clip 300 (raw_json v))
    | PDict d \<Rightarrow> PStr (clip 300 (raw_json v))
    | _ \<Rightarrow> v)"

definition summarize_arguments :: "pydict \<Rightarrow> pydict" where
  "summarize_arguments args = map (\<lambda>(k, v). (k, summarize_value v)) args"

record audit_row =
  au_tool :: string
  au_source :: string
  au_arguments :: string
  au_exit_code :: pyval
  au_ok :: bool
  au_error :: string

definition audit_custom_tool_call :: "string \<Rightarrow> string \<Rightarrow> pydict \<Rightarrow> pyval option \<Rightarrow> string option \<Rightarrow> audit_row" where
  "audit_custom_tool_call name source args res err =
     (let (exit_code, okay) =
        (case res of
           Some (PDict d) \<Rightarrow>
             ((case int_value (pget d ''exit_code'') of Some _ \<Rightarrow> pget d ''exit_code'' | None \<Rightarrow> PNone),
              (case pget d ''ok'' of PBool b \<Rightarrow> b | _ \<Rightarrow> err = None))
         | _ \<Rightarrow> (PNone, err = None))
      in \<lparr>au_tool = name, au_source = source, au_arguments = json_dumps (PDict (summarize_arguments args)),
          au_exit_code = exit_code, au_ok = okay,
          au_error = take 2000 (case err of None \<Rightarrow> [] | Some e \<Rightarrow> e)\<rparr>)"

section \<open>Executing a tool\<close>

text \<open>
  \<open>te_builtin\<close> and \<open>te_callable\<close> are the functions behind the built-in names and the entry
  points: a result or the text of what they raise, and the world afterwards. \<open>te_bind_text\<close> is the
  text of the \<open>TypeError\<close> of a built-in that does not accept its arguments.
\<close>

record 'w tool_env =
  te_tools :: tool_set
  te_builtin :: "string \<Rightarrow> pydict \<Rightarrow> 'w \<Rightarrow> (string, pyval) result \<times> 'w"
  te_bind_text :: "string \<Rightarrow> pydict \<Rightarrow> string"
  te_callable :: "nat \<Rightarrow> pydict \<Rightarrow> 'w \<Rightarrow> (string, pyval) result \<times> 'w"
  te_process :: "'w \<Rightarrow> process"
  te_after :: "string list \<Rightarrow> int \<Rightarrow> 'w \<Rightarrow> 'w"
  te_format :: "string \<Rightarrow> (string, string) dict \<Rightarrow> (fmt_exc, string) result"
  te_format_text :: "fmt_exc \<Rightarrow> string"
  te_say :: "guard_text \<Rightarrow> string"

definition runner_text :: "(fmt_exc \<Rightarrow> string) \<Rightarrow> runner_exc \<Rightarrow> string" where
  "runner_text fmt_text e = (case e of
      UnknownArgs n ks \<Rightarrow> ''custom tool '' @ [CHR 0x27] @ n @ [CHR 0x27] @ '' received unknown args: '' @ join '', '' ks
    | MissingPlaceholder n k \<Rightarrow> ''custom tool '' @ [CHR 0x27] @ n @ [CHR 0x27] @ '' missing required placeholder value: '' @ k
    | FormatRaised f \<Rightarrow> fmt_text f
    | RunRaised t \<Rightarrow> t)"

definition call_impl :: "'w tool_env \<Rightarrow> tool_impl \<Rightarrow> pydict \<Rightarrow> 'w \<Rightarrow> (string, pyval) result \<times> 'w" where
  "call_impl env impl args w = (case impl of
      Callable n \<Rightarrow> te_callable env n args w
    | Command r \<Rightarrow>
        (case run_custom (te_format env) (te_process env) (te_after env) r args w of
           (Inl e, w') \<Rightarrow> (Inl (runner_text (te_format_text env) e), w')
         | (Inr d, w') \<Rightarrow> (Inr (PDict d), w')))"

definition call_builtin :: "'w tool_env \<Rightarrow> string \<Rightarrow> pydict \<Rightarrow> 'w \<Rightarrow> (string, pyval) result \<times> 'w" where
  "call_builtin env name args w =
     (if binds (dgetd tool_signatures name ([], [])) args then te_builtin env name args w
      else (Inl (te_bind_text env name args), w))"

text \<open>\<open>_TOOL_DISPATCH\<close> after the update with the custom tools: a custom entry wins.\<close>

definition dispatch :: "'w tool_env \<Rightarrow> string \<Rightarrow> (pydict \<Rightarrow> 'w \<Rightarrow> (string, pyval) result \<times> 'w) option" where
  "dispatch env name =
     (case dget (ts_dispatch (te_tools env)) name of
        Some impl \<Rightarrow> Some (call_impl env impl)
      | None \<Rightarrow> if name \<in> set builtin_tools then Some (call_builtin env name) else None)"

definition strip_flag :: "pydict \<Rightarrow> pydict" where
  "strip_flag args = filter (\<lambda>(k, v). k \<noteq> ''_guardrail_confirmed'') args"

definition blocked_response :: "'w tool_env \<Rightarrow> guard \<Rightarrow> string \<Rightarrow> pyval" where
  "blocked_response env g name =
     PDict [(''blocked'', PBool True), (''tool'', PStr name),
            (''reason'', PStr (case g_reason g of None \<Rightarrow> [] | Some r \<Rightarrow> te_say env r)),
            (''to_proceed'', PStr (te_say env AskUser))]"

definition error_reply :: "string \<Rightarrow> pyval" where
  "error_reply t = PDict [(''error'', PStr t)]"

definition attach_warnings :: "'w tool_env \<Rightarrow> guard \<Rightarrow> pyval \<Rightarrow> pyval" where
  "attach_warnings env g res =
     (if g_level g = WARN \<and> g_warnings g \<noteq> [] then
        (let ws = PList (map (\<lambda>t. PStr (te_say env t)) (g_warnings g)) in
         case res of PDict d \<Rightarrow> PDict (dset ''_warnings'' ws d)
         | _ \<Rightarrow> PDict [(''result'', res), (''_warnings'', ws)])
      else res)"

record 'w outcome =
  oc_reply :: "(guard_exc, pyval) result"
  oc_world :: 'w
  oc_audit :: "audit_row list"

text \<open>
  The value whose JSON text \<open>execute_tool\<close> returns, the world afterwards and the audit rows it
  writes. An exception of the guard check is outside the \<open>try\<close> and escapes.
\<close>

definition execute_value :: "'w tool_env \<Rightarrow> string \<Rightarrow> pydict \<Rightarrow> 'w \<Rightarrow> 'w outcome" where
  "execute_value env name arguments w =
     (case dispatch env name of
        None \<Rightarrow> \<lparr>oc_reply = Inr (error_reply (''Unknown tool: '' @ name)), oc_world = w, oc_audit = []\<rparr>
      | Some fn \<Rightarrow>
          let args = strip_flag arguments in
          (case guard_check (ts_policies (te_tools env)) name arguments of
             Inl e \<Rightarrow> \<lparr>oc_reply = Inl e, oc_world = w, oc_audit = []\<rparr>
           | Inr g \<Rightarrow>
               if is_blocked g
               then \<lparr>oc_reply = Inr (blocked_response env g name), oc_world = w, oc_audit = []\<rparr>
               else
                 let (res, w') = fn args w;
                     source = dgetd (ts_sources (te_tools env)) name ''custom'';
                     row = audit_custom_tool_call name source args
                       (case res of Inr v \<Rightarrow> Some v | Inl _ \<Rightarrow> None)
                       (case res of Inr _ \<Rightarrow> None | Inl e \<Rightarrow> Some e)
                 in \<lparr>oc_reply = Inr (case res of Inr v \<Rightarrow> attach_warnings env g v | Inl e \<Rightarrow> error_reply e),
                     oc_world = w',
                     oc_audit = (if name \<in> set (dkeys (ts_dispatch (te_tools env))) then [row] else [])\<rparr>))"

definition execute_tool :: "'w tool_env \<Rightarrow> string \<Rightarrow> pydict \<Rightarrow> 'w \<Rightarrow> (guard_exc, string) result \<times> 'w \<times> audit_row list" where
  "execute_tool env name arguments w =
     (let out = execute_value env name arguments w
      in (map_sum id json_dumps (oc_reply out), oc_world out, oc_audit out))"

section \<open>Lemmas\<close>

lemma parse_names_no_empty: "[] \<notin> set (parse_tool_name_set raw)"
  by (simp add: parse_tool_name_set_def)

text \<open>The names of a bound set are disjoint from the built-in ones.\<close>

lemma bind_source_Inr:
  "bind_source loaded ts = Inr ts' \<Longrightarrow> ts' = ts \<or> (\<exists>new. loaded = Inr new \<and> ts' = merge_tools ts new)"
  by (auto simp: bind_source_def split: sum.splits load_exc.splits)

lemma load_custom_tools_ok:
  "load_custom_tools path content reserved allow deny = Inr ts \<Longrightarrow> tools_ok reserved allow deny ts"
  by (auto simp: load_custom_tools_def split: option.splits pyval.splits intro: load_items_ok [OF _ no_tools_ok])

lemma load_entry_ok:
  "load_custom_tools_from_entry_points eps reserved allow deny = Inr ts \<Longrightarrow> tools_ok reserved allow deny ts \<and> in_step ts"
  unfolding load_custom_tools_from_entry_points_def by (erule load_entry_points_ok) simp

lemma keys_merge: "set (dkeys (ts_dispatch (merge_tools a b))) = set (dkeys (ts_dispatch a)) \<union> set (dkeys (ts_dispatch b))"
  by (simp add: merge_tools_def dkeys_dupdate del: set_map)

lemma tools_ok_reserved: "tools_ok reserved allow deny ts \<Longrightarrow> k \<in> set (dkeys (ts_dispatch ts)) \<Longrightarrow> k \<notin> set reserved"
  by (auto simp: tools_ok_def)

lemma load_bindings_disjoint:
  assumes "load_bindings st files eps = Inr ts" "k \<in> set (dkeys (ts_dispatch ts))"
  shows "k \<notin> set builtin_tools"
proof -
  let ?allow = "or_none (parse_tool_name_set (st_allowlist st))" and ?deny = "or_none (parse_tool_name_set (st_denylist st))"
  let ?path = "py_strip (st_file st)"
  let ?file = "load_custom_tools ?path (files ?path) builtin_tools ?allow ?deny"
  from assms(1) obtain t1
    where t1: "(if ?path \<noteq> [] then bind_source ?file no_tools else Inr no_tools) = Inr t1"
      and t2: "(if st_entrypoints st
         then bind_source (load_custom_tools_from_entry_points eps (builtin_tools @ dkeys (ts_dispatch t1)) ?allow ?deny) t1
         else Inr t1) = Inr ts"
    by (auto simp: load_bindings_def Let_def ok_bind_eq_Inr)
  have n: "set (dkeys (ts_dispatch no_tools)) = {}" by (simp add: no_tools_def)
  have d1: "k \<notin> set builtin_tools" if "k \<in> set (dkeys (ts_dispatch t1))" for k
  proof (cases "?path = [] \<or> t1 = no_tools")
    case True
    with t1 n that show ?thesis by (auto split: if_splits)
  next
    case False
    with t1 bind_source_Inr [of ?file no_tools t1] obtain new
      where new: "?file = Inr new" "t1 = merge_tools no_tools new" by auto
    have "k \<in> set (dkeys (ts_dispatch new))" using that unfolding new(2) keys_merge n by simp
    with tools_ok_reserved [OF load_custom_tools_ok [OF new(1)]] show ?thesis .
  qed
  show ?thesis
  proof (cases "ts = t1")
    case True
    with d1 assms(2) show ?thesis by blast
  next
    case False
    with t2 bind_source_Inr obtain new
      where new: "load_custom_tools_from_entry_points eps (builtin_tools @ dkeys (ts_dispatch t1)) ?allow ?deny = Inr new"
        "ts = merge_tools t1 new" by (auto split: if_splits)
    from assms(2) have "k \<in> set (dkeys (ts_dispatch t1)) \<or> k \<in> set (dkeys (ts_dispatch new))"
      unfolding new(2) keys_merge by blast
    with d1 tools_ok_reserved [OF conjunct1 [OF load_entry_ok [OF new(1)]]] show ?thesis by auto
  qed
qed

end
