(* ===== verification/ToolProps.thy ===== *)
theory ToolProps
  imports ToolDispatch JsonRoundtrip
begin

text \<open>
  Properties of the tool layer: what the guard decides, that a blocked call has no effect, what
  a loaded tool satisfies, and that custom tools leave the built-in table alone.
\<close>

section \<open>The guard\<close>

lemma clean_total: "\<exists>g. check_clean_flag args = Inr g" if "pget args ''params'' = PNone \<or> is_dict (pget args ''params'')"
proof -
  have "dgetd args ''params'' (PDict []) = PNone \<or> is_dict (dgetd args ''params'' (PDict []))"
    using that by (auto simp: dgetd_def pget_def split: option.splits)
  then show ?thesis by (cases "dgetd args ''params'' (PDict [])") (auto simp: check_clean_flag_def Let_def)
qed

lemma utilization_total: "\<exists>g. check_utilization args = Inr g" if "pget args ''params'' = PNone \<or> is_dict (pget args ''params'')"
  using that by (cases "pget args ''params''") (auto simp: check_utilization_def py_or_def Let_def)

text \<open>
  C12: The verdict on a call that is not confirmed is the most severe of the verdicts of the
  tool's policy and of the four checkers, whatever their order: with the parameters absent or
  a dictionary the check returns, warnings are attached exactly at level WARN and a reason
  exactly at level BLOCK.
\<close>

theorem guard_takes_most_severe:
  assumes "\<not> confirmed args" "pget args ''params'' = PNone \<or> is_dict (pget args ''params'')"
  shows "\<exists>g. guard_check ps name args = Inr g \<and> guard_ok g \<and>
    g_level g = foldr max (levels checkers name args) (level_of (check_custom_policy ps name args))"
proof -
  have ok: "guard_ok g" if "c \<in> set checkers" "c name args = Inr (Some g)" for c g
    using checkers_ok that by blast
  have tot: "\<exists>r. c name args = Inr r" if "c \<in> set checkers" for c
    using that clean_total [OF assms(2)] utilization_total [OF assms(2)] by (auto simp: checkers_def)
  have run: "\<exists>g. run_checkers checkers name args ws = Inr g \<and> guard_ok g \<and>
    g_level g = foldr max (levels checkers name args) (if ws = [] then SAFE else WARN)" for ws
    by (rule run_checkers_level) (use ok tot in blast)+
  show ?thesis
  proof (cases "check_custom_policy ps name args")
    case None
    with run [of "[]"] assms(1) show ?thesis by (simp add: guard_check_def level_of_def)
  next
    case (Some g)
    then have g: "guard_ok g" by (rule custom_policy_ok)
    show ?thesis
    proof (cases "g_level g")
      case BLOCK
      have "foldr max ls BLOCK = BLOCK" for ls by (induction ls) simp_all
      with BLOCK Some g assms(1) show ?thesis by (simp add: guard_check_def level_of_def)
    next
      case WARN
      then have "g_warnings g \<noteq> []" using g by (simp add: guard_ok_def)
      with run [of "g_warnings g"] WARN Some assms(1) show ?thesis by (simp add: guard_check_def level_of_def)
    next
      case SAFE
      with run [of "[]"] Some assms(1) show ?thesis by (simp add: guard_check_def level_of_def)
    qed
  qed
qed

theorem guard_takes_most_severe_witness:
  "\<exists>g. guard_check [] ''cancel_job'' [(''clean'', PBool True)] = Inr g \<and> g_level g = BLOCK"
proof -
  let ?args = "[(''clean'', PBool True)]"
  have "\<not> confirmed ?args" "pget ?args ''params'' = PNone" by (simp_all add: confirmed_def pget_def)
  from guard_takes_most_severe [OF this(1) disjI1 [OF this(2)], of "[]" "''cancel_job''"] show ?thesis
    by (auto simp: levels_def checkers_def check_clean_flag_def pget_def level_of_def)
qed

lemma digits_us_all: "ds \<noteq> [] \<Longrightarrow> \<forall>c \<in> set ds. is_digit c \<Longrightarrow> digits_us ds = Some (ds, [])"
proof (induction ds)
  case (Cons c s)
  then show ?case by (cases s) (auto simp: is_digit_def code_def)
qed simp

lemma strip_no_space: "\<forall>c \<in> set s. \<not> is_space c \<Longrightarrow> py_strip s = s"
proof -
  have d: "dropWhile is_space t = t" if "\<forall>c \<in> set t. \<not> is_space c" for t using that by (cases t) auto
  assume "\<forall>c \<in> set s. \<not> is_space c"
  then show ?thesis by (simp add: py_strip_def lstrip_on_def rstrip_on_def d)
qed

lemma digit_plain: "is_digit c \<Longrightarrow> \<not> is_space c \<and> lower_char c = c \<and> c \<notin> {CHR ''-'', CHR ''+'', CHR ''%'', CHR ''i'', CHR ''n'', CHR ''.''}"
  by (auto simp: is_digit_def is_space_def lower_char_def code_def)

lemma float_of_digits:
  "float_of_str (show_nat n) = Some (f64 (of_int (int n)))"
proof -
  note d = show_nat_digits [of n]
  obtain c cs where h: "show_nat n = c # cs" using show_nat_head by blast
  then have c: "is_digit c" using d by simp
  have "py_strip (show_nat n) = show_nat n" by (rule strip_no_space) (use d digit_plain in blast)
  moreover have "split_sign (show_nat n) = (False, show_nat n)" using digit_plain [OF c] by (simp add: h split_sign_def)
  moreover have "map lower_char (show_nat n) = show_nat n" using d digit_plain by (induction "show_nat n") (auto intro: map_idI)
  moreover have "digits_us (show_nat n) = Some (show_nat n, [])" by (rule digits_us_all) (use h in simp, rule d)
  moreover have "show_nat n \<noteq> []" using h by simp
  moreover have "show_nat n \<notin> {''inf'', ''infinity'', ''nan''}" using digit_plain [OF c] h by auto
  ultimately show ?thesis
    using digits_val_show_nat [of n]
    by (simp add: float_of_str_def py_lower_def Let_def read_decimal_def read_exp_def pow10_def)
qed

lemma rstrip_digits: "rstrip_on (\<lambda>c. c = CHR ''%'') (show_nat n) = show_nat n"
proof -
  have "\<forall>c \<in> set (rev (show_nat n)). c \<noteq> CHR ''%''" using show_nat_digits [of n] digit_plain by auto
  then have "dropWhile (\<lambda>c. c = CHR ''%'') (rev (show_nat n)) = rev (show_nat n)"
    by (cases "rev (show_nat n)") auto
  then show ?thesis by (simp add: rstrip_on_def)
qed

text \<open>
  The bounds on the utilization: for a whole number up to 2^52 the parameter
  \<open>CORE_UTILIZATION\<close> blocks the call above 95, warns above 85 and below 25, and passes
  otherwise.
\<close>

theorem utilization_bounds:
  fixes n :: int
  assumes "0 \<le> n" "n \<le> 2 ^ 52" "pget args ''params'' = PDict d" "pget d ''CORE_UTILIZATION'' = PInt n"
  shows "\<exists>g. check_utilization args = Inr g \<and>
    level_of g = (if 95 < n then BLOCK else if 85 < n \<or> n < 25 then WARN else SAFE)"
proof -
  have "py_truthy (PDict d)" using assms(4) by (cases d) (auto simp: pget_def)
  then have p: "py_or (pget args ''params'') (PDict []) = PDict d" by (simp add: py_or_def assms(3))
  have "float_of_int n = Fin (of_int n)" by (rule float_of_int_small) (use assms(1,2) in simp)
  then have v: "util_value (PInt n) = Some (Fin (of_int n))"
    using float_of_digits [of "nat n"] assms(1)
    by (simp add: util_value_def py_str_def show_int_def rstrip_digits float_of_int_def)
  have l: "(95 :: rat) < of_int n \<longleftrightarrow> 95 < n" "(85 :: rat) < of_int n \<longleftrightarrow> 85 < n" "of_int n < (25 :: rat) \<longleftrightarrow> n < 25"
    by (simp_all only: of_int_less_iff [where 'a = rat, symmetric]) simp_all
  show ?thesis
    by (simp add: check_utilization_def p assms(4) v util_verdict_def level_of_def l)
qed

theorem utilization_bounds_witness:
  "\<exists>g. check_utilization [(''params'', PDict [(''CORE_UTILIZATION'', PInt 96)])] = Inr g \<and> level_of g = BLOCK"
  using utilization_bounds [of 96 "[(''params'', PDict [(''CORE_UTILIZATION'', PInt 96)])]" "[(''CORE_UTILIZATION'', PInt 96)]"]
  by (simp add: pget_def)

text \<open>
  A confirmation overrides every policy: a tool whose policy is \<open>block\<close> is refused with a
  text that asks to change the policy first, and the same call with the confirmation flag is
  passed as safe, without even the warnings.
\<close>

theorem confirmation_overrides_policy:
  "guard_check [(n, policy_of (PStr ''block'') (PBool True))] n [(''_guardrail_confirmed'', PBool True)] = Inr safe_result \<and>
   guard_check [(n, policy_of (PStr ''block'') (PBool False))] n [] = Inr (block_result (PolicyBlocks n))"
  by (simp add: guard_check_def confirmed_def pget_def check_custom_policy_def policy_of_def dgetd_def py_str_def)

section \<open>Execution\<close>

text \<open>
  C13: Nothing runs behind the guard's back: a call either has no effect, no audit row and
  answers with an error or the structured refusal (the name is unknown, the guard raised or it
  blocked), or the function behind the name runs once, on the arguments without the
  confirmation flag, and what it returns or raises is answered; only calls of custom tools are
  audited.
\<close>

theorem guarded_execution:
  "let out = execute_value env name args w in
   (oc_world out = w \<and> oc_audit out = [] \<and>
      ((dispatch env name = None \<and> oc_reply out = Inr (error_reply (''Unknown tool: '' @ name))) \<or>
       (\<exists>e. guard_check (ts_policies (te_tools env)) name args = Inl e \<and> oc_reply out = Inl e) \<or>
       (\<exists>g. guard_check (ts_policies (te_tools env)) name args = Inr g \<and> g_level g = BLOCK \<and>
            oc_reply out = Inr (blocked_response env g name)))) \<or>
   (\<exists>fn g res. dispatch env name = Some fn \<and> guard_check (ts_policies (te_tools env)) name args = Inr g \<and>
      g_level g \<noteq> BLOCK \<and> fn (strip_flag args) w = (res, oc_world out) \<and>
      ''_guardrail_confirmed'' \<notin> set (dkeys (strip_flag args)) \<and>
      oc_reply out = Inr (case res of Inr v \<Rightarrow> attach_warnings env g v | Inl e \<Rightarrow> error_reply e) \<and>
      (oc_audit out \<noteq> [] \<longleftrightarrow> name \<in> set (dkeys (ts_dispatch (te_tools env)))))"
proof -
  have f: "''_guardrail_confirmed'' \<notin> set (dkeys (strip_flag args))" by (auto simp: strip_flag_def)
  show ?thesis
  proof (cases "dispatch env name")
    case None
    then show ?thesis by (simp add: execute_value_def)
  next
    case (Some fn)
    obtain res w' where r: "fn (strip_flag args) w = (res, w')" by fastforce
    show ?thesis
    proof (cases "guard_check (ts_policies (te_tools env)) name args")
      case (Inl e)
      with Some show ?thesis by (simp add: execute_value_def)
    next
      case (Inr g)
      with Some r f show ?thesis by (cases "g_level g = BLOCK") (simp_all add: execute_value_def is_blocked_def Let_def)
    qed
  qed
qed

text \<open>
  Custom tools never replace a built-in one: with the set of tools any configuration and
  any entry points bind, a built-in name still dispatches to the built-in function.
\<close>

theorem builtins_not_shadowed:
  assumes "load_bindings st files eps = Inr (te_tools env)" "name \<in> set builtin_tools"
  shows "dispatch env name = Some (call_builtin env name)"
proof -
  have "name \<notin> set (dkeys (ts_dispatch (te_tools env)))" using load_bindings_disjoint [OF assms(1)] assms(2) by blast
  then have "dget (ts_dispatch (te_tools env)) name = None" by (simp only: dget_None_iff not_False_eq_True)
  with assms(2) show ?thesis by (simp add: dispatch_def)
qed

definition plain_env :: "tool_set \<Rightarrow> int tool_env" where
  "plain_env ts = \<lparr>te_tools = ts, te_builtin = (\<lambda>n args w. (Inr (PStr n), w + 1)),
     te_bind_text = (\<lambda>n args. ''TypeError''), te_callable = (\<lambda>n args w. (Inr PNone, w)), te_process = (\<lambda>w argv t. Inr (0, [], [])),
     te_after = (\<lambda>argv t w. w), te_format = (\<lambda>t args. Inl FmtValue), te_format_text = (\<lambda>e. []),
     te_say = (\<lambda>t. [])\<rparr>"

definition no_settings :: tool_settings where
  "no_settings = \<lparr>st_allowlist = [], st_denylist = [], st_file = [], st_entrypoints = False\<rparr>"

theorem builtins_not_shadowed_witness:
  "dispatch (plain_env no_tools) ''query_power'' = Some (call_builtin (plain_env no_tools) ''query_power'')"
proof -
  have "load_bindings no_settings (\<lambda>p. None) [] = Inr (te_tools (plain_env no_tools))"
    by (simp add: load_bindings_def no_settings_def plain_env_def Let_def py_strip_def lstrip_on_def rstrip_on_def)
  from builtins_not_shadowed [OF this, of "''query_power''"] show ?thesis by (simp add: builtin_tools_def)
qed

section \<open>Loading\<close>

text \<open>
  What the file loader accepts is usable: if a file loads, every tool of it has a name that
  is not reserved and passes the allow and deny lists, exactly one entry in each of the three
  tables and a schema, a policy that is one of the three levels with a truth value, a command
  of at least one word and a timeout of 1 to 600 seconds.
\<close>

theorem loaded_tools_are_valid:
  assumes "load_custom_tools path content reserved allow deny = Inr ts"
  shows "tools_ok reserved allow deny ts"
  using assms by (rule load_custom_tools_ok)

definition sample_item :: "string \<Rightarrow> pyval" where
  "sample_item name = PDict [(''name'', PStr name), (''description'', PStr ''d''),
     (''parameters'', PDict [(''type'', PStr ''object''), (''properties'', PDict [])]),
     (''command'', PList [PStr ''echo''])]"

definition file_of :: "pyval list \<Rightarrow> string" where
  "file_of tools = json_dumps (PDict [(''tools'', PList tools)])"

lemma load_file_of:
  "\<forall>t \<in> set tools. json_plain t \<Longrightarrow>
   load_custom_tools path (Some (file_of tools)) reserved allow deny = load_items path reserved allow deny tools no_tools"
proof -
  assume "\<forall>t \<in> set tools. json_plain t"
  then have "json_loads (file_of tools) = Some (PDict [(''tools'', PList tools)])"
    unfolding file_of_def by (intro json_loads_dumps) simp
  then show ?thesis by (simp add: load_custom_tools_def pget_def)
qed

lemma sample_item_plain: "json_plain (sample_item n)"
  by (simp add: sample_item_def)

lemma load_sample_item:
  assumes "name \<notin> set reserved" "py_strip name = name" "name \<noteq> []"
  shows "load_item path reserved None None (sample_item name) ts = Inr
    (add_tool name ''d'' [(''type'', PStr ''object''), (''properties'', PDict []), (''required'', PList [])]
      (policy_of (PStr ''safe'') (PBool False))
      (Command \<lparr>rn_name = name, rn_command = [''echo''], rn_allowed = [], rn_timeout = 30\<rparr>) (''json:'' @ path) ts)"
proof -
  have "py_strip ''d'' = ''d''" by code_simp
  with assms show ?thesis
    by (simp add: load_item_def sample_item_def pget_def should_include_tool_def validate_parameters_def
        dgetd_def validate_permissions_def validate_command_def validate_timeout_def int_value_def
        default_timeout_sec_def max_timeout_sec_def params_names_def)
qed

theorem loaded_tools_are_valid_witness:
  "\<exists>ts. load_custom_tools ''t.json'' (Some (file_of [sample_item ''note''])) builtin_tools None None = Inr ts \<and>
     tools_ok builtin_tools None None ts \<and> dkeys (ts_dispatch ts) = [''note'']"
proof -
  have n: "''note'' \<notin> set builtin_tools" by (simp add: builtin_tools_def)
  have s: "py_strip ''note'' = ''note''" by code_simp
  let ?l = "load_custom_tools ''t.json'' (Some (file_of [sample_item ''note''])) builtin_tools None None"
  have "?l = load_items ''t.json'' builtin_tools None None [sample_item ''note''] no_tools"
    by (rule load_file_of) (simp add: sample_item_plain)
  then have "\<exists>ts. ?l = Inr ts \<and> dkeys (ts_dispatch ts) = [''note'']"
    by (simp add: load_sample_item [OF n s] add_tool_def no_tools_def)
  then obtain ts where ts: "?l = Inr ts" and d: "dkeys (ts_dispatch ts) = [''note'']" by (elim exE conjE)
  show ?thesis by (intro exI [of _ ts] conjI ts d loaded_tools_are_valid [OF ts])
qed

text \<open>
  The schemas may name a tool twice: a file that declares the same name twice loads, its
  schema list then holds two functions of that name while the dispatch table holds the later
  one only. The entry point loader tests for this, and its schemas match its table one by one.
\<close>

theorem duplicate_schemas:
  "(\<exists>ts. load_custom_tools ''t.json'' (Some (file_of [sample_item ''note'', sample_item ''note''])) builtin_tools None None = Inr ts \<and>
      map schema_name (ts_schemas ts) = [PStr ''note'', PStr ''note''] \<and> length (ts_dispatch ts) = 1) \<and>
   (\<forall>eps ts. load_custom_tools_from_entry_points eps builtin_tools None None = Inr ts \<longrightarrow>
      map schema_name (ts_schemas ts) = map PStr (dkeys (ts_dispatch ts)) \<and> distinct (dkeys (ts_dispatch ts)))"
proof -
  have n: "''note'' \<notin> set builtin_tools" by (simp add: builtin_tools_def)
  have s: "py_strip ''note'' = ''note''" by code_simp
  have "\<exists>ts. load_custom_tools ''t.json'' (Some (file_of [sample_item ''note'', sample_item ''note''])) builtin_tools None None = Inr ts \<and>
      map schema_name (ts_schemas ts) = [PStr ''note'', PStr ''note''] \<and> length (ts_dispatch ts) = 1"
  proof -
    have "load_custom_tools ''t.json'' (Some (file_of [sample_item ''note'', sample_item ''note''])) builtin_tools None None =
        load_items ''t.json'' builtin_tools None None [sample_item ''note'', sample_item ''note''] no_tools"
      by (rule load_file_of) (simp add: sample_item_plain)
    then show ?thesis by (simp add: load_sample_item [OF n s] add_tool_def no_tools_def)
  qed
  moreover have "map schema_name (ts_schemas ts) = map PStr (dkeys (ts_dispatch ts)) \<and> distinct (dkeys (ts_dispatch ts))"
    if "load_custom_tools_from_entry_points eps builtin_tools None None = Inr ts" for eps ts
    using load_entry_ok [OF that] by (simp add: in_step_def tools_ok_def)
  ultimately show ?thesis by blast
qed

theorem duplicate_schemas_witness:
  "\<exists>ts. load_custom_tools_from_entry_points [] builtin_tools None None = Inr ts \<and> distinct (dkeys (ts_dispatch ts))"
proof -
  have "load_custom_tools_from_entry_points [] builtin_tools None None = Inr no_tools"
    by (simp add: load_custom_tools_from_entry_points_def)
  with conjunct2 [OF duplicate_schemas] show ?thesis by blast
qed

text \<open>
  A declared command runs only on declared arguments: a call with any other argument, or
  without a value for a placeholder, raises and starts no process; otherwise the process gets
  the rendered words and the tool's timeout, and the result says ok exactly when it exits with
  0.
\<close>

theorem runner_guards_process:
  "(snd (run_custom fmt run after r kwargs w) \<noteq> w \<longrightarrow> set (dkeys kwargs) \<subseteq> set (rn_allowed r)) \<and>
   (\<forall>d. fst (run_custom fmt run after r kwargs w) = Inr d \<longrightarrow>
      set (dkeys kwargs) \<subseteq> set (rn_allowed r) \<and>
      (\<exists>argv rc outp err. runner_argv fmt r kwargs = Inr argv \<and> length argv = length (rn_command r) \<and>
         run w argv (rn_timeout r) = Inr (rc, outp, err) \<and> pget d ''exit_code'' = PInt rc \<and>
         pget d ''ok'' = PBool (rc = 0)))"
proof -
  have s: "sort_strs xs = [] \<longleftrightarrow> xs = []" for xs
  proof (cases xs)
    case (Cons a ys)
    have "insert_str a zs \<noteq> []" for zs by (cases zs) auto
    then show ?thesis by (simp add: sort_strs_def Cons)
  qed (simp add: sort_strs_def)
  have a: "set (dkeys kwargs) \<subseteq> set (rn_allowed r)" if "runner_argv fmt r kwargs = Inr argv" for argv
  proof -
    have "filter (\<lambda>k. k \<notin> set (rn_allowed r)) (dkeys kwargs) = []"
      using that s by (simp add: runner_argv_def Let_def split: if_splits)
    then show ?thesis by (auto simp: filter_empty_conv)
  qed
  have l: "render_argv fmt n xs ts = Inr argv \<Longrightarrow> length argv = length ts" for n xs ts argv
    by (induction ts arbitrary: argv) (auto simp: ok_bind_eq_Inr split: sum.splits fmt_exc.splits)
  have la: "length argv = length (rn_command r)" if "runner_argv fmt r kwargs = Inr argv" for argv
    using that l by (auto simp: runner_argv_def Let_def split: if_splits)
  show ?thesis
  proof (cases "runner_argv fmt r kwargs")
    case (Inl e)
    then show ?thesis by (simp add: run_custom_def)
  next
    case (Inr argv)
    with a [OF Inr] la [OF Inr] show ?thesis
      by (auto simp: run_custom_def runner_result_def pget_def split: sum.splits)
  qed
qed

theorem runner_guards_process_witness:
  "fst (run_custom (\<lambda>t args. Inl FmtValue) (\<lambda>w argv t. Inr (0, [], [])) (\<lambda>argv t w. w)
     \<lparr>rn_name = ''n'', rn_command = [''echo''], rn_allowed = [], rn_timeout = 30\<rparr> [] (0 :: int)) =
   Inr [(''tool'', PStr ''n''), (''command'', PList [PStr ''echo'']), (''exit_code'', PInt 0), (''stdout'', PStr []),
        (''stderr'', PStr []), (''ok'', PBool True)] \<and>
   pget [(''tool'', PStr ''n''), (''command'', PList [PStr ''echo'']), (''exit_code'', PInt 0), (''stdout'', PStr []),
        (''stderr'', PStr []), (''ok'', PBool True)] ''ok'' = PBool True"
proof -
  let ?r = "\<lparr>rn_name = ''n'', rn_command = [''echo''], rn_allowed = [], rn_timeout = 30\<rparr>"
  let ?d = "[(''tool'', PStr ''n''), (''command'', PList [PStr ''echo'']), (''exit_code'', PInt 0), (''stdout'', PStr []),
        (''stderr'', PStr []), (''ok'', PBool True)]"
  have r: "fst (run_custom (\<lambda>t args. Inl FmtValue) (\<lambda>w argv t. Inr (0, [], [])) (\<lambda>argv t w. w) ?r [] (0 :: int)) = Inr ?d"
    by (simp add: run_custom_def runner_argv_def sort_strs_def runner_result_def py_format_def)
  with runner_guards_process [of "\<lambda>t args. Inl FmtValue" "\<lambda>w argv t. Inr (0, [], [])" "\<lambda>argv t w. w" ?r "[]" "0 :: int"]
  show ?thesis by (simp add: pget_def)
qed

end
