(* ===== verification/ParamMapper.thy ===== *)
theory ParamMapper
  imports Json Timestamps
begin

text \<open>
  \<open>eda_agent/agent/param_mapper.py\<close>: the table of the tunable Innovus parameters with their
  admissible values, stages, impacts and dependencies, and the queries on it. The texts in
  \<open>description\<close> fields, which only prompts show, are left out.
\<close>

section \<open>Data\<close>

datatype objective = SETUP | LEAKAGE | DYNAMIC | AREA | CONGESTION

definition flow_stages_all :: "string list" where
  "flow_stages_all = [''synth'', ''floorplan'', ''powerplan'', ''place'', ''cts'', ''route'', ''signoff'']"

record param_spec =
  ps_name :: string
  ps_tcl :: string
  ps_type :: string
  ps_samples :: "pyval list"
  ps_base :: pyval
  ps_stage :: string
  ps_flow :: "string list"
  ps_timing :: int
  ps_power :: int
  ps_area :: int
  ps_congestion :: int
  ps_deps :: "string list"
  ps_conflicts :: "string list"

definition is_compatible :: "param_spec \<Rightarrow> pydict \<Rightarrow> bool" where
  "is_compatible s d \<longleftrightarrow> \<not> (\<exists>c \<in> set (ps_conflicts s). c \<in> set (dkeys d))"

text \<open>A specification by position; no parameter of the table declares conflicts.\<close>

definition spec :: "string \<Rightarrow> string \<Rightarrow> string \<Rightarrow> pyval list \<Rightarrow> pyval \<Rightarrow> string \<Rightarrow> string list
    \<Rightarrow> int \<Rightarrow> int \<Rightarrow> int \<Rightarrow> int \<Rightarrow> string list \<Rightarrow> param_spec" where
  "spec name tcl ty samples base stage flow ti po ar co deps =
     \<lparr>ps_name = name, ps_tcl = tcl, ps_type = ty, ps_samples = samples, ps_base = base, ps_stage = stage,
      ps_flow = flow, ps_timing = ti, ps_power = po, ps_area = ar, ps_congestion = co,
      ps_deps = deps, ps_conflicts = []\<rparr>"

section \<open>The table\<close>

definition prects_params_1 :: "param_spec list" where
  "prects_params_1 =
    [spec ''design_cong_effort'' ''set_db design_cong_effort'' ''enum''
       [PStr ''auto'', PStr ''high''] (PStr ''auto'')
       ''prects'' [''place''] 1 0 0 (-2) [],
     spec ''place_global_cong_effort'' ''set_db place_global_cong_effort'' ''enum''
       [PStr ''base'', PStr ''auto'', PStr ''high'', PStr ''extreme''] (PStr ''base'')
       ''prects'' [''place''] 1 0 (-1) (-3) [],
     spec ''place_cong_effort'' ''setPlaceMode -congEffort'' ''enum''
       [PStr ''auto'', PStr ''low'', PStr ''high''] (PStr ''auto'')
       ''prects'' [''place''] 2 0 (-1) (-2) [],
     spec ''place_ppa_2'' ''setPlaceMode -exp_skp_scale_WT_cost_ratio'' ''numeric''
       [PFloat (f64 (1 / 2)), PInt 1, PInt 2, PInt 3, PInt 5, PInt 6, PInt 10] (PInt 5)
       ''prects'' [''place''] 1 (-1) 0 0 [],
     spec ''place_global_SPP_enhancement'' ''setPlaceMode -place_global_exp_SPP_enhancement_v2'' ''boolean''
       [PBool False, PBool True] (PBool False)
       ''prects'' [''place''] 0 (-1) 0 0 [''read_activity_file''],
     spec ''place_global_spp_multipass'' ''setPlaceMode -place_global_exp_spp_multipass'' ''boolean''
       [PBool False, PBool True] (PBool False)
       ''prects'' [''place''] 0 (-1) 0 0 [''read_activity_file''],
     spec ''place_detail_wire_length_opt_effort'' ''setPlaceMode -place_detail_wire_length_opt_effort'' ''enum''
       [PStr ''none'', PStr ''medium'', PStr ''high''] (PStr ''medium'')
       ''prects'' [''place''] 1 0 1 0 [],
     spec ''design_flow_effort_3'' ''set_db design_flow_effort'' ''enum''
       [PStr ''standard'', PStr ''extreme''] (PStr ''extreme'')
       ''prects'' [''place'', ''cts'', ''route''] 2 (-1) 0 (-1) [],
     spec ''design_power_effort'' ''set_db design_power_effort + set_db opt_leakage_to_dynamic_ratio'' ''enum''
       [PStr ''base'', PFloat (f64 (1 / 1000)), PFloat (f64 (1 / 5)), PFloat (f64 (1 / 2)), PFloat (f64 (999 / 1000))] (PStr ''base'')
       ''prects'' [''place'', ''cts'', ''route''] 0 (-2) 0 0 [],
     spec ''place_ppa_1'' ''setPlaceMode -NMPspreadOutFactor'' ''numeric''
       [PFloat (f64 (1 / 2)), PInt 1, PFloat (f64 (3 / 2)), PInt 2] (PInt 1)
       ''prects'' [''place''] 1 0 0 (-1) []]"

definition prects_params_2 :: "param_spec list" where
  "prects_params_2 =
    [spec ''place_max_density'' ''setPlaceMode -place_global_max_density'' ''numeric''
       [PFloat (f64 (3 / 4)), PFloat (f64 (4 / 5)), PFloat (f64 (17 / 20)), PFloat (f64 (9 / 10))] (PFloat (f64 (17 / 20)))
       ''prects'' [''place''] 1 0 (-1) (-2) [],
     spec ''opt_all_end_points'' ''setOptMode -opt_all_end_points'' ''boolean''
       [PBool False, PBool True] (PBool False)
       ''prects'' [''place''] 1 (-1) 0 0 [],
     spec ''opt_fix_fanout_load'' ''setOptMode -opt_fix_fanout_load'' ''boolean''
       [PBool False, PBool True] (PBool False)
       ''prects'' [''place''] 1 0 1 0 [],
     spec ''opt_max_length'' ''setOptMode -opt_max_length'' ''numeric''
       [PInt (-1)] (PInt (-1))
       ''prects'' [''place''] 1 0 0 0 [],
     spec ''opt_podv2_flow_effort'' ''setOptMode -opt_pod_v2_effort'' ''enum''
       [PStr ''auto'', PStr ''standard'', PStr ''extreme''] (PStr ''auto'')
       ''prects'' [''place''] 0 (-2) 0 0 [],
     spec ''opt_skew_pre_cts'' ''setOptMode -opt_skew_pre_cts'' ''boolean''
       [PBool True, PBool False] (PBool True)
       ''prects'' [''place''] 1 0 0 0 [],
     spec ''prects_multibit'' ''setOptMode -opt_multi_bit_flop_opt'' ''enum''
       [PInt 0, PInt 1, PInt 2, PInt 3] (PInt 0)
       ''prects'' [''place''] 0 (-1) (-1) 0 [],
     spec ''prects_usk'' ''setOptMode -useful_skew'' ''boolean''
       [PBool False, PBool True] (PBool False)
       ''prects'' [''place''] 2 0 0 0 []]"

definition cts_params :: "param_spec list" where
  "cts_params =
    [spec ''cts_clone_clock_gates'' ''set_ccopt_property clone_clock_gates'' ''boolean''
       [PBool False, PBool True] (PBool False)
       ''cts'' [''cts''] 2 1 2 0 [],
     spec ''cts_ppa_2'' ''setOptMode -expPostCTSGlobalSkew + setOptMode -expGlobalSkewEffort'' ''boolean''
       [PBool False, PBool True] (PBool False)
       ''cts'' [''cts''] 2 0 0 0 [],
     spec ''cts_target_skew_1'' ''set_ccopt_property skew_target'' ''enum''
       [PStr ''base'', PStr ''v0'', PStr ''v1'', PStr ''v2'', PStr ''v3''] (PStr ''base'')
       ''cts'' [''cts''] 1 0 0 0 [],
     spec ''cts_use_inverters'' ''set_db cts_use_inverters'' ''enum''
       [PStr ''auto'', PBool True] (PStr ''auto'')
       ''cts'' [''cts''] 1 (-1) 0 0 [],
     spec ''postcts_multibit_1'' ''setOptMode -opt_multi_bit_flop_opt'' ''enum''
       [PInt 0, PInt 1, PInt 2, PInt 3] (PInt 0)
       ''cts'' [''cts''] 0 (-1) (-1) 0 []]"

definition postcts_params :: "param_spec list" where
  "postcts_params =
    [spec ''postcts_ppa_2'' ''setOptMode -skewClock* (with setUsefulSkewMode -noBoundary)'' ''boolean''
       [PBool False, PBool True] (PBool False)
       ''postcts'' [''cts''] 2 0 1 0 []]"

definition route_params :: "param_spec list" where
  "route_params =
    [spec ''route_ppa_2'' ''setNanoRouteMode -routeExpWithEdr'' ''boolean''
       [PBool False, PBool True] (PBool False)
       ''route'' [''route''] 1 1 (-1) 0 [],
     spec ''route_ppa_3'' ''route_design -explicit_clock_routing'' ''boolean''
       [PBool False, PBool True] (PBool False)
       ''route'' [''route''] 1 0 0 0 []]"

definition postroute_params :: "param_spec list" where
  "postroute_params =
    [spec ''design_flow_effort_2'' ''set_db design_flow_effort'' ''enum''
       [PStr ''standard'', PStr ''extreme''] (PStr ''standard'')
       ''postroute'' [''route'', ''signoff''] 2 (-1) 0 0 [],
     spec ''route_timing_driven'' ''setNanoRouteMode -routeWithTimingDriven'' ''boolean''
       [PBool False, PBool True] (PBool True)
       ''global'' [''route''] 1 1 0 0 []]"

definition all_params :: "param_spec list" where
  "all_params = prects_params_1 @ prects_params_2 @ cts_params @ postcts_params @ route_params @ postroute_params"

definition find_param :: "string \<Rightarrow> param_spec option" where
  "find_param name = find (\<lambda>s. ps_name s = name) all_params"

section \<open>Stages\<close>

definition stage_aliases :: "(string, string list) dict" where
  "stage_aliases =
     [(''synth'', [''global'']), (''floorplan'', [''global'']), (''powerplan'', [''global'']),
      (''place'', [''prects'', ''global'']), (''cts'', [''cts'', ''postcts'', ''global'']),
      (''route'', [''route'', ''postroute'', ''global'']), (''signoff'', [''postroute'', ''global''])]"

definition get_stage_params :: "string \<Rightarrow> param_spec list" where
  "get_stage_params stage = filter (\<lambda>s. ps_stage s = stage) all_params"

definition get_flow_stage_params :: "string \<Rightarrow> param_spec list" where
  "get_flow_stage_params flow_stage =
     (case dget stage_aliases flow_stage of
        None \<Rightarrow> []
      | Some als \<Rightarrow> filter (\<lambda>s. ps_stage s \<in> set als \<or> flow_stage \<in> set (ps_flow s)) all_params)"

definition catalog_entry :: "param_spec \<Rightarrow> pydict" where
  "catalog_entry s =
     [(''name'', PStr (ps_name s)), (''tcl_command'', PStr (ps_tcl s)), (''type'', PStr (ps_type s)),
      (''sample_values'', PList (ps_samples s)), (''base_value'', ps_base s),
      (''impact'', PDict [(''timing'', PInt (ps_timing s)), (''power'', PInt (ps_power s)),
         (''area'', PInt (ps_area s)), (''congestion'', PInt (ps_congestion s))])]"

text \<open>\<open>sorted(entries, key=name)\<close>.\<close>

fun insert_spec :: "param_spec \<Rightarrow> param_spec list \<Rightarrow> param_spec list" where
  "insert_spec s [] = [s]"
| "insert_spec s (x # xs) = (if str_lt (ps_name x) (ps_name s) then x # insert_spec s xs else s # x # xs)"

definition sort_specs :: "param_spec list \<Rightarrow> param_spec list" where
  "sort_specs xs = foldr insert_spec xs []"

definition build_stage_catalog :: "(string, pydict list) dict" where
  "build_stage_catalog =
     map (\<lambda>st. (st, map catalog_entry (sort_specs (get_flow_stage_params st)))) flow_stages_all"

section \<open>Score, suggestion, validation\<close>

definition impact_of :: "objective \<Rightarrow> param_spec \<Rightarrow> int" where
  "impact_of obj s = (case obj of SETUP \<Rightarrow> ps_timing s | LEAKAGE \<Rightarrow> ps_power s | DYNAMIC \<Rightarrow> ps_power s
     | AREA \<Rightarrow> ps_area s | CONGESTION \<Rightarrow> ps_congestion s)"

definition get_impact_score :: "pydict \<Rightarrow> objective \<Rightarrow> pyfloat" where
  "get_impact_score d obj =
     foldl (\<lambda>score (k, v). case find_param k of None \<Rightarrow> score
        | Some s \<Rightarrow> fadd score (Fin (of_int (impact_of obj s * 2)))) (Fin 0) d"

definition suggest_params :: "objective \<Rightarrow> pydict" where
  "suggest_params obj = (case obj of
      SETUP \<Rightarrow>
        [(''place_cong_effort'', PStr ''high''), (''design_flow_effort_3'', PStr ''extreme''),
         (''opt_all_end_points'', PBool True), (''cts_clone_clock_gates'', PBool True),
         (''postcts_ppa_2'', PBool True), (''design_flow_effort_2'', PStr ''extreme'')]
    | LEAKAGE \<Rightarrow>
        [(''design_power_effort'', PFloat (f64 (999 / 1000))), (''opt_podv2_flow_effort'', PStr ''extreme''),
         (''cts_clone_clock_gates'', PBool False), (''postcts_ppa_2'', PBool False)]
    | DYNAMIC \<Rightarrow>
        [(''design_power_effort'', PFloat (f64 (1 / 1000))), (''place_global_SPP_enhancement'', PBool True),
         (''cts_clone_clock_gates'', PBool False)]
    | AREA \<Rightarrow>
        [(''cts_clone_clock_gates'', PBool False), (''design_flow_effort_3'', PStr ''standard''),
         (''postcts_ppa_2'', PBool False), (''opt_fix_fanout_load'', PBool False)]
    | CONGESTION \<Rightarrow>
        [(''design_cong_effort'', PStr ''high''), (''place_global_cong_effort'', PStr ''extreme''),
         (''route_ppa_2'', PBool True), (''route_ppa_3'', PBool True)])"

text \<open>The error texts, with the values they quote.\<close>

datatype param_error =
    UnknownParam string
  | BadValue string pyval "pyval list"
  | Requires string string
  | ConflictsWith string string

definition param_errors :: "pydict \<Rightarrow> string \<times> pyval \<Rightarrow> param_error list" where
  "param_errors d = (\<lambda>(k, v).
     case find_param k of
       None \<Rightarrow> [UnknownParam k]
     | Some s \<Rightarrow>
         (if py_in v (ps_samples s) then [] else [BadValue k v (ps_samples s)]) @
         map (Requires k) (filter (\<lambda>dep. dep \<notin> set (dkeys d)) (ps_deps s)) @
         map (ConflictsWith k) (filter (\<lambda>c. c \<in> set (dkeys d)) (ps_conflicts s)))"

definition validate_params :: "pydict \<Rightarrow> bool \<times> param_error list" where
  "validate_params d = (let errors = concat (map (param_errors d) d) in (errors = [], errors))"

section \<open>Lemmas\<close>

lemmas param_tables = prects_params_1_def prects_params_2_def cts_params_def postcts_params_def
  route_params_def postroute_params_def

lemma all_params_names:
  "map ps_name all_params =
    [''design_cong_effort'', ''place_global_cong_effort'', ''place_cong_effort'', ''place_ppa_2'',
     ''place_global_SPP_enhancement'', ''place_global_spp_multipass'', ''place_detail_wire_length_opt_effort'',
     ''design_flow_effort_3'', ''design_power_effort'', ''place_ppa_1'', ''place_max_density'',
     ''opt_all_end_points'', ''opt_fix_fanout_load'', ''opt_max_length'', ''opt_podv2_flow_effort'',
     ''opt_skew_pre_cts'', ''prects_multibit'', ''prects_usk'', ''cts_clone_clock_gates'', ''cts_ppa_2'',
     ''cts_target_skew_1'', ''cts_use_inverters'', ''postcts_multibit_1'', ''postcts_ppa_2'', ''route_ppa_2'',
     ''route_ppa_3'', ''design_flow_effort_2'', ''route_timing_driven'']"
  by (simp add: all_params_def param_tables spec_def)

lemma find_param_names: "find_param k = None \<longleftrightarrow> k \<notin> ps_name ` set all_params"
  by (auto simp: find_param_def find_None_iff)

lemma find_param_SomeD: "find_param k = Some s \<Longrightarrow> s \<in> set all_params \<and> ps_name s = k"
  by (auto simp: find_param_def find_Some_iff)

lemma feq_f64 [simp]: "feq (f64 x) (f64 x)"
  by (auto simp: f64_def Let_def)

lemma validate_iff:
  "fst (validate_params d) \<longleftrightarrow> (\<forall>(k, v) \<in> set d. param_errors d (k, v) = [])"
  by (auto simp: validate_params_def Let_def)

lemma param_errors_Nil:
  "param_errors d (k, v) = [] \<longleftrightarrow> (\<exists>s. find_param k = Some s \<and> py_in v (ps_samples s) \<and>
     set (ps_deps s) \<subseteq> set (dkeys d) \<and> set (ps_conflicts s) \<inter> set (dkeys d) = {})"
  by (auto simp: param_errors_def filter_empty_conv split: option.splits if_splits)

lemma find_paramI:
  assumes "s \<in> set all_params" "ps_name s = k"
  shows "find_param k = Some s"
proof -
  have d: "distinct (map ps_name all_params)" unfolding all_params_names by simp
  have "find (\<lambda>s. ps_name s = k) xs = Some s" if "distinct (map ps_name xs)" "s \<in> set xs" for xs
    using that assms(2) by (induction xs) auto
  with d assms(1) show ?thesis by (simp add: find_param_def)
qed

text \<open>The entries the suggestions name.\<close>

lemma find_place_cong_effort: "find_param ''place_cong_effort'' =
    Some (spec ''place_cong_effort'' ''setPlaceMode -congEffort'' ''enum''
       [PStr ''auto'', PStr ''low'', PStr ''high''] (PStr ''auto'')
       ''prects'' [''place''] 2 0 (-1) (-2) [])"
  by (rule find_paramI) (simp_all add: all_params_def prects_params_1_def, simp add: spec_def)

lemma find_design_flow_effort_3: "find_param ''design_flow_effort_3'' =
    Some (spec ''design_flow_effort_3'' ''set_db design_flow_effort'' ''enum''
       [PStr ''standard'', PStr ''extreme''] (PStr ''extreme'')
       ''prects'' [''place'', ''cts'', ''route''] 2 (-1) 0 (-1) [])"
  by (rule find_paramI) (simp_all add: all_params_def prects_params_1_def, simp add: spec_def)

lemma find_opt_all_end_points: "find_param ''opt_all_end_points'' =
    Some (spec ''opt_all_end_points'' ''setOptMode -opt_all_end_points'' ''boolean''
       [PBool False, PBool True] (PBool False)
       ''prects'' [''place''] 1 (-1) 0 0 [])"
  by (rule find_paramI) (simp_all add: all_params_def prects_params_2_def, simp add: spec_def)

lemma find_cts_clone_clock_gates: "find_param ''cts_clone_clock_gates'' =
    Some (spec ''cts_clone_clock_gates'' ''set_ccopt_property clone_clock_gates'' ''boolean''
       [PBool False, PBool True] (PBool False)
       ''cts'' [''cts''] 2 1 2 0 [])"
  by (rule find_paramI) (simp_all add: all_params_def cts_params_def, simp add: spec_def)

lemma find_postcts_ppa_2: "find_param ''postcts_ppa_2'' =
    Some (spec ''postcts_ppa_2'' ''setOptMode -skewClock* (with setUsefulSkewMode -noBoundary)'' ''boolean''
       [PBool False, PBool True] (PBool False)
       ''postcts'' [''cts''] 2 0 1 0 [])"
  by (rule find_paramI) (simp_all add: all_params_def postcts_params_def, simp add: spec_def)

lemma find_design_flow_effort_2: "find_param ''design_flow_effort_2'' =
    Some (spec ''design_flow_effort_2'' ''set_db design_flow_effort'' ''enum''
       [PStr ''standard'', PStr ''extreme''] (PStr ''standard'')
       ''postroute'' [''route'', ''signoff''] 2 (-1) 0 0 [])"
  by (rule find_paramI) (simp_all add: all_params_def postroute_params_def, simp add: spec_def)

lemma find_design_power_effort: "find_param ''design_power_effort'' =
    Some (spec ''design_power_effort'' ''set_db design_power_effort + set_db opt_leakage_to_dynamic_ratio'' ''enum''
       [PStr ''base'', PFloat (f64 (1 / 1000)), PFloat (f64 (1 / 5)), PFloat (f64 (1 / 2)), PFloat (f64 (999 / 1000))] (PStr ''base'')
       ''prects'' [''place'', ''cts'', ''route''] 0 (-2) 0 0 [])"
  by (rule find_paramI) (simp_all add: all_params_def prects_params_1_def, simp add: spec_def)

lemma find_opt_podv2_flow_effort: "find_param ''opt_podv2_flow_effort'' =
    Some (spec ''opt_podv2_flow_effort'' ''setOptMode -opt_pod_v2_effort'' ''enum''
       [PStr ''auto'', PStr ''standard'', PStr ''extreme''] (PStr ''auto'')
       ''prects'' [''place''] 0 (-2) 0 0 [])"
  by (rule find_paramI) (simp_all add: all_params_def prects_params_2_def, simp add: spec_def)

lemma find_place_global_SPP_enhancement: "find_param ''place_global_SPP_enhancement'' =
    Some (spec ''place_global_SPP_enhancement'' ''setPlaceMode -place_global_exp_SPP_enhancement_v2'' ''boolean''
       [PBool False, PBool True] (PBool False)
       ''prects'' [''place''] 0 (-1) 0 0 [''read_activity_file''])"
  by (rule find_paramI) (simp_all add: all_params_def prects_params_1_def, simp add: spec_def)

lemma find_place_global_spp_multipass: "find_param ''place_global_spp_multipass'' =
    Some (spec ''place_global_spp_multipass'' ''setPlaceMode -place_global_exp_spp_multipass'' ''boolean''
       [PBool False, PBool True] (PBool False)
       ''prects'' [''place''] 0 (-1) 0 0 [''read_activity_file''])"
  by (rule find_paramI) (simp_all add: all_params_def prects_params_1_def, simp add: spec_def)

lemma find_opt_fix_fanout_load: "find_param ''opt_fix_fanout_load'' =
    Some (spec ''opt_fix_fanout_load'' ''setOptMode -opt_fix_fanout_load'' ''boolean''
       [PBool False, PBool True] (PBool False)
       ''prects'' [''place''] 1 0 1 0 [])"
  by (rule find_paramI) (simp_all add: all_params_def prects_params_2_def, simp add: spec_def)

lemma find_design_cong_effort: "find_param ''design_cong_effort'' =
    Some (spec ''design_cong_effort'' ''set_db design_cong_effort'' ''enum''
       [PStr ''auto'', PStr ''high''] (PStr ''auto'')
       ''prects'' [''place''] 1 0 0 (-2) [])"
  by (rule find_paramI) (simp_all add: all_params_def prects_params_1_def, simp add: spec_def)

lemma find_place_global_cong_effort: "find_param ''place_global_cong_effort'' =
    Some (spec ''place_global_cong_effort'' ''set_db place_global_cong_effort'' ''enum''
       [PStr ''base'', PStr ''auto'', PStr ''high'', PStr ''extreme''] (PStr ''base'')
       ''prects'' [''place''] 1 0 (-1) (-3) [])"
  by (rule find_paramI) (simp_all add: all_params_def prects_params_1_def, simp add: spec_def)

lemma find_route_ppa_2: "find_param ''route_ppa_2'' =
    Some (spec ''route_ppa_2'' ''setNanoRouteMode -routeExpWithEdr'' ''boolean''
       [PBool False, PBool True] (PBool False)
       ''route'' [''route''] 1 1 (-1) 0 [])"
  by (rule find_paramI) (simp_all add: all_params_def route_params_def, simp add: spec_def)

lemma find_route_ppa_3: "find_param ''route_ppa_3'' =
    Some (spec ''route_ppa_3'' ''route_design -explicit_clock_routing'' ''boolean''
       [PBool False, PBool True] (PBool False)
       ''route'' [''route''] 1 0 0 0 [])"
  by (rule find_paramI) (simp_all add: all_params_def route_params_def, simp add: spec_def)

lemmas suggested_entries =
  find_place_cong_effort find_design_flow_effort_3 find_opt_all_end_points find_cts_clone_clock_gates
  find_postcts_ppa_2 find_design_flow_effort_2 find_design_power_effort find_opt_podv2_flow_effort
  find_place_global_SPP_enhancement find_place_global_spp_multipass find_opt_fix_fanout_load find_design_cong_effort
  find_place_global_cong_effort find_route_ppa_2 find_route_ppa_3

end
