(* ===== verification/ParamProps.thy ===== *)
theory ParamProps
  imports ParamMapper
begin

text \<open>
  Properties of the parameter table: its well-formedness, what the validator accepts, which
  suggestions it accepts, and the range of the impact score.
\<close>

text \<open>
  The table is well formed: names are distinct, every default is one of the admissible
  values, every stage is one the flow stages read, every flow stage exists, and every impact
  is within -2 and 2, as the declaration documents, but for one entry: the congestion impact
  of \<open>place_global_cong_effort\<close>, which is -3.
\<close>

theorem param_table_well_formed:
  "distinct (map ps_name all_params) \<and>
   (\<forall>s \<in> set all_params. py_in (ps_base s) (ps_samples s) \<and>
      ps_stage s \<in> {''prects'', ''cts'', ''postcts'', ''route'', ''postroute'', ''global''} \<and>
      ps_flow s \<noteq> [] \<and> set (ps_flow s) \<subseteq> set flow_stages_all \<and>
      {ps_timing s, ps_power s, ps_area s} \<subseteq> {-2..2} \<and>
      (ps_congestion s \<in> {-2..2} \<longleftrightarrow> ps_name s \<noteq> ''place_global_cong_effort'')) \<and>
   (\<exists>s \<in> set all_params. ps_congestion s = -3)"
proof (intro conjI)
  show "distinct (map ps_name all_params)" by (simp add: all_params_names)
  show "\<exists>s \<in> set all_params. ps_congestion s = -3" by (simp add: all_params_def param_tables spec_def)
  show "\<forall>s \<in> set all_params. py_in (ps_base s) (ps_samples s) \<and>
      ps_stage s \<in> {''prects'', ''cts'', ''postcts'', ''route'', ''postroute'', ''global''} \<and>
      ps_flow s \<noteq> [] \<and> set (ps_flow s) \<subseteq> set flow_stages_all \<and>
      {ps_timing s, ps_power s, ps_area s} \<subseteq> {-2..2} \<and>
      (ps_congestion s \<in> {-2..2} \<longleftrightarrow> ps_name s \<noteq> ''place_global_cong_effort'')"
    by (simp add: all_params_def param_tables spec_def py_in_def flow_stages_all_def)
qed

theorem param_table_well_formed_witness:
  "py_in (ps_base (hd prects_params_1)) (ps_samples (hd prects_params_1)) \<and> ps_flow (hd prects_params_1) \<noteq> []"
proof -
  have "hd prects_params_1 \<in> set all_params" by (simp add: all_params_def prects_params_1_def)
  with param_table_well_formed show ?thesis by blast
qed

text \<open>
  C14: The validator accepts exactly the combinations it documents: every name is in the table,
  every value equals one of its admissible values, everything it depends on is set as well, and
  nothing it conflicts with is; it lists no error exactly then.
\<close>

theorem validator_accepts:
  "(fst (validate_params d) \<longleftrightarrow> snd (validate_params d) = []) \<and>
   (fst (validate_params d) \<longleftrightarrow> (\<forall>(k, v) \<in> set d. \<exists>s. find_param k = Some s \<and> py_in v (ps_samples s) \<and>
      set (ps_deps s) \<subseteq> set (dkeys d) \<and> is_compatible s d))"
proof
  have c: "is_compatible s d \<longleftrightarrow> set (ps_conflicts s) \<inter> set (dkeys d) = {}" for s
    by (auto simp: is_compatible_def)
  show "fst (validate_params d) \<longleftrightarrow> snd (validate_params d) = []"
    by (simp add: validate_params_def Let_def)
  show "fst (validate_params d) \<longleftrightarrow> (\<forall>(k, v) \<in> set d. \<exists>s. find_param k = Some s \<and> py_in v (ps_samples s) \<and>
      set (ps_deps s) \<subseteq> set (dkeys d) \<and> is_compatible s d)"
    unfolding validate_iff param_errors_Nil by (simp add: c)
qed

theorem validator_accepts_witness:
  "\<not> fst (validate_params [(''place_cong_effort'', PStr ''high''), (''invalid_param'', PStr ''value'')]) \<and>
   fst (validate_params [(''place_cong_effort'', PStr ''high'')])"
proof
  have "find_param ''invalid_param'' = None"
    unfolding find_param_names by (simp only: set_map [symmetric] all_params_names) simp
  then show "\<not> fst (validate_params [(''place_cong_effort'', PStr ''high''), (''invalid_param'', PStr ''value'')])"
    using validator_accepts [of "[(''place_cong_effort'', PStr ''high''), (''invalid_param'', PStr ''value'')]"] by auto
  show "fst (validate_params [(''place_cong_effort'', PStr ''high'')])"
    using validator_accepts [of "[(''place_cong_effort'', PStr ''high'')]"]
    by (auto simp: suggested_entries spec_def py_in_def is_compatible_def)
qed

lemma spp_deps:
  "k \<in> {''place_global_SPP_enhancement'', ''place_global_spp_multipass''} \<Longrightarrow> find_param k = Some s \<Longrightarrow>
   ps_deps s = [''read_activity_file'']"
  by (auto simp: suggested_entries spec_def)

lemma spp_invalid:
  assumes "(k, v) \<in> set d" "k \<in> {''place_global_SPP_enhancement'', ''place_global_spp_multipass''}"
  shows "\<not> fst (validate_params d)"
proof
  assume v: "fst (validate_params d)"
  with assms(1) obtain s where s: "find_param k = Some s" "set (ps_deps s) \<subseteq> set (dkeys d)"
    by (auto simp: validate_iff param_errors_Nil)
  then have "''read_activity_file'' \<in> set (dkeys d)" using spp_deps [OF assms(2) s(1)] by simp
  then obtain w where "(''read_activity_file'', w) \<in> set d" by auto
  with v obtain t where "find_param ''read_activity_file'' = Some t"
    by (auto simp: validate_iff param_errors_Nil)
  from find_param_SomeD [OF this] have "''read_activity_file'' \<in> set (map ps_name all_params)" by force
  then show False unfolding all_params_names by simp
qed

lemma suggestion_valid:
  "obj \<noteq> DYNAMIC \<Longrightarrow> fst (validate_params (suggest_params obj))"
  by (cases obj) (simp_all add: suggest_params_def validate_iff param_errors_def suggested_entries spec_def py_in_def)

text \<open>
  Activity-driven placement can never be set: a combination that contains one of the two
  parameters that need an activity file is rejected whatever else it holds, because what they
  require is itself an unknown parameter. So the suggestion for dynamic power is rejected by
  the validator, and no combination extends it to a valid one; the other four suggestions are
  accepted.
\<close>

theorem dynamic_suggestion_never_valid:
  "(\<forall>extra. \<not> fst (validate_params (suggest_params DYNAMIC @ extra))) \<and>
   fst (validate_params (suggest_params SETUP)) \<and> fst (validate_params (suggest_params LEAKAGE)) \<and>
   fst (validate_params (suggest_params AREA)) \<and> fst (validate_params (suggest_params CONGESTION))"
proof (intro conjI allI)
  fix extra
  show "\<not> fst (validate_params (suggest_params DYNAMIC @ extra))"
    by (rule spp_invalid [of "''place_global_SPP_enhancement''" "PBool True"]) (simp_all add: suggest_params_def)
qed (simp_all add: suggestion_valid)

lemma fadd_ints: "\<bar>a + b\<bar> < 2 ^ 52 \<Longrightarrow> fadd (Fin (of_int a)) (Fin (of_int b)) = Fin (of_int (a + b))"
  using float_of_int_small [of "a + b"] by (simp add: float_of_int_def)

lemma score_fold:
  assumes "\<And>k v. (k, v) \<in> set d \<Longrightarrow> \<exists>s. find_param k = Some s \<and> \<bar>impact_of obj s\<bar> \<le> 3"
    and "\<bar>n\<bar> \<le> 1000 - 6 * int (length d)"
  shows "foldl (\<lambda>score (k, v). case find_param k of None \<Rightarrow> score
        | Some s \<Rightarrow> fadd score (Fin (of_int (impact_of obj s * 2)))) (Fin (of_int n)) d =
    Fin (of_int (n + 2 * sum_list (map (\<lambda>(k, v). impact_of obj (the (find_param k))) d)))"
  using assms
proof (induction d arbitrary: n)
  case Nil
  then show ?case by simp
next
  case (Cons p d)
  obtain k v where p: "p = (k, v)" by (cases p)
  from Cons.prems(1) [of k v] p obtain s where s: "find_param k = Some s" "\<bar>impact_of obj s\<bar> \<le> 3" by auto
  have n: "\<bar>n + impact_of obj s * 2\<bar> \<le> 1000 - 6 * int (length d)" using Cons.prems(2) s(2) by simp
  then have "fadd (Fin (of_int n)) (Fin (of_int (impact_of obj s * 2))) = Fin (of_int (n + impact_of obj s * 2))"
    by (intro fadd_ints) simp
  moreover have "foldl (\<lambda>score (k, v). case find_param k of None \<Rightarrow> score
        | Some s \<Rightarrow> fadd score (Fin (of_int (impact_of obj s * 2)))) (Fin (of_int (n + impact_of obj s * 2))) d =
    Fin (of_int (n + impact_of obj s * 2 + 2 * sum_list (map (\<lambda>(k, v). impact_of obj (the (find_param k))) d)))"
    by (rule Cons.IH [OF _ n]) (use Cons.prems(1) in auto)
  ultimately show ?case by (simp only: foldl_Cons p prod.case s(1) option.case list.map sum_list.Cons option.sel)
      (simp add: algebra_simps)
qed

lemma score_value:
  assumes "\<forall>(k, v) \<in> set d. \<exists>s. find_param k = Some s \<and> \<bar>impact_of obj s\<bar> \<le> 3" "length d \<le> 100"
  shows "get_impact_score d obj = Fin (of_int (2 * sum_list (map (\<lambda>(k, v). impact_of obj (the (find_param k))) d)))"
  using score_fold [of d obj 0] assms by (fastforce simp: get_impact_score_def)

lemma impact_small: "s \<in> set all_params \<Longrightarrow> \<bar>impact_of obj s\<bar> \<le> 3"
  by (cases obj) (auto simp: all_params_def param_tables spec_def impact_of_def)

lemma suggestion_score:
  "get_impact_score (suggest_params obj) obj =
     Fin (of_int (2 * sum_list (map (\<lambda>(k, v). impact_of obj (the (find_param k))) (suggest_params obj))))"
proof (rule score_value)
  have k: "k \<in> set (map ps_name all_params)" if "(k, v) \<in> set (suggest_params obj)" for k v
    using that unfolding all_params_names by (cases obj) (auto simp: suggest_params_def)
  show "\<forall>(k, v) \<in> set (suggest_params obj). \<exists>s. find_param k = Some s \<and> \<bar>impact_of obj s\<bar> \<le> 3"
  proof clarify
    fix k v assume "(k, v) \<in> set (suggest_params obj)"
    from k [OF this] have "find_param k \<noteq> None" by (simp add: find_param_names)
    then obtain s where s: "find_param k = Some s" by blast
    from impact_small [OF conjunct1 [OF find_param_SomeD [OF s]]] s
    show "\<exists>s. find_param k = Some s \<and> \<bar>impact_of obj s\<bar> \<le> 3" by blast
  qed
  show "length (suggest_params obj) \<le> 100" by (cases obj) (simp_all add: suggest_params_def)
qed

lemma suggestion_impacts:
  "map (\<lambda>(k, v). impact_of SETUP (the (find_param k))) (suggest_params SETUP) = [2, 2, 1, 2, 2, 2]"
  "map (\<lambda>(k, v). impact_of LEAKAGE (the (find_param k))) (suggest_params LEAKAGE) = [-2, -2, 1, 0]"
  "map (\<lambda>(k, v). impact_of DYNAMIC (the (find_param k))) (suggest_params DYNAMIC) = [-2, -1, 1]"
  "map (\<lambda>(k, v). impact_of CONGESTION (the (find_param k))) (suggest_params CONGESTION) = [-2, -3, 0, 0]"
  by (simp_all add: suggest_params_def suggested_entries spec_def impact_of_def)

text \<open>
  The impact score does not mean what its documentation says: it promises a range of -10 to
  10 with higher values better, but the suggestion for timing scores 22, and the suggestions
  for leakage, dynamic power and congestion score -6, -4 and -10, below the score 0 of leaving
  every parameter alone.
\<close>

theorem impact_score_range:
  "get_impact_score [] obj = Fin 0 \<and>
   get_impact_score (suggest_params SETUP) SETUP = Fin 22 \<and>
   get_impact_score (suggest_params LEAKAGE) LEAKAGE = Fin (-6) \<and>
   get_impact_score (suggest_params DYNAMIC) DYNAMIC = Fin (-4) \<and>
   get_impact_score (suggest_params CONGESTION) CONGESTION = Fin (-10)"
  by (simp add: suggestion_score suggestion_impacts) (simp add: get_impact_score_def)

end
