(* ===== verification/Rules.thy ===== *)
theory Rules
  imports PyValue
begin

text \<open>
  The rules of the root cause inference, \<open>eda_agent/agent/inference/rules.py\<close>: threshold
  conditions on a feature vector, the score of a rule and the catalogue of the six rules.
  A feature vector is a dictionary whose values are numbers or \<open>None\<close>. The built-in \<open>sum\<close>
  depends on the interpreter (\<open>summation\<close>): up to 3.11 it adds floats from left to right, from
  3.12 on it carries a compensation term; the repository admits both (3.10 and later). The
  en dash of one description stands as character 0x96, its place in Windows-1252.
\<close>

section \<open>Conditions\<close>

datatype condition = Condition
  (cd_feature: string) (cd_op: string) (cd_threshold: pyval) (cd_weight: pyfloat)

text \<open>\<open>_OPS.get(op)\<close>, the comparison of the value with the threshold.\<close>

definition op_fn :: "string \<Rightarrow> (pyfloat \<Rightarrow> pyfloat \<Rightarrow> bool) option" where
  "op_fn op =
     (if op = ''>'' then Some (\<lambda>x t. flt t x)
      else if op = ''>='' then Some (\<lambda>x t. fle t x)
      else if op = ''<'' then Some flt
      else if op = ''<='' then Some fle
      else if op = ''!='' then Some (\<lambda>x t. \<not> feq x t)
      else None)"

text \<open>
  \<open>evaluate\<close>: a missing or \<open>None\<close> feature is not met. \<open>None\<close> stands for the exception: an unknown
  operator, or a value that is no number.
\<close>

definition evaluate :: "pydict \<Rightarrow> condition \<Rightarrow> bool option" where
  "evaluate fv c =
     (if pget fv (cd_feature c) = PNone then Some False
      else case op_fn (cd_op c) of
          None \<Rightarrow> None
        | Some f \<Rightarrow>
           (case (float_of_val (pget fv (cd_feature c)), py_num (cd_threshold c)) of
              (Some x, Some t) \<Rightarrow> Some (f x t)
            | _ \<Rightarrow> None))"

definition cond_to_dict :: "pydict \<Rightarrow> condition \<Rightarrow> pydict" where
  "cond_to_dict fv c =
     [(''feature'', PStr (cd_feature c)), (''op'', PStr (cd_op c)), (''threshold'', cd_threshold c),
      (''actual'', pget fv (cd_feature c)), (''met'', PBool (evaluate fv c = Some True)),
      (''weight'', PFloat (cd_weight c))]"

text \<open>\<open>[c for c in cs if c.evaluate(fv)]\<close>, \<open>None\<close> when an evaluation raises.\<close>

fun met_conds :: "pydict \<Rightarrow> condition list \<Rightarrow> condition list option" where
  "met_conds fv [] = Some []"
| "met_conds fv (c # cs) =
     Option.bind (evaluate fv c) (\<lambda>b.
       map_option (\<lambda>r. if b then c # r else r) (met_conds fv cs))"

section \<open>The sum of a list of floats\<close>

datatype summation = LeftToRight | Compensated

definition fabs :: "pyfloat \<Rightarrow> pyfloat" where
  "fabs x = (if flt x (Fin 0) then fneg x else x)"

definition comp_step :: "pyfloat \<times> pyfloat \<Rightarrow> pyfloat \<Rightarrow> pyfloat \<times> pyfloat" where
  "comp_step = (\<lambda>(hi, lo) x. let t = fadd hi x in
     (t, fadd lo (if fle (fabs x) (fabs hi) then fadd (fsub hi t) x else fadd (fsub x t) hi)))"

fun py_sum :: "summation \<Rightarrow> pyfloat list \<Rightarrow> pyfloat" where
  "py_sum LeftToRight xs = fsum xs"
| "py_sum Compensated xs =
     (case foldl comp_step (Fin 0, Fin 0) xs of
        (hi, Fin lo) \<Rightarrow> if lo = 0 then hi else fadd hi (Fin lo)
      | (hi, _) \<Rightarrow> hi)"

section \<open>Rules and their scores\<close>

datatype suggestion = ExperimentSuggestion (ex_action: string) (ex_risk: string) (ex_hint: pydict)

record rule =
  ru_id :: string
  ru_display :: string
  ru_descr :: string
  ru_conds :: "condition list"
  ru_antis :: "condition list"
  ru_min :: pyfloat
  ru_exps :: "suggestion list"

definition weight_sum :: "summation \<Rightarrow> condition list \<Rightarrow> pyfloat" where
  "weight_sum sm cs = py_sum sm (map cd_weight cs)"

text \<open>\<open>sum(...) or 1.0\<close>.\<close>

definition total_weight :: "summation \<Rightarrow> condition list \<Rightarrow> pyfloat" where
  "total_weight sm cs = (let s = weight_sum sm cs in if s = Fin 0 then Fin 1 else s)"

text \<open>
  The score, the evidence and the evidence against; \<open>None\<close> when \<open>score\<close> raises. The penalty is
  added up by \<open>+=\<close>, without compensation.
\<close>

definition rule_score :: "summation \<Rightarrow> pydict \<Rightarrow> rule \<Rightarrow> (pyfloat \<times> pydict list \<times> pydict list) option" where
  "rule_score sm fv r =
     Option.bind (met_conds fv (ru_conds r)) (\<lambda>met.
     Option.bind (fdiv (weight_sum sm met) (total_weight sm (ru_conds r))) (\<lambda>raw.
     map_option (\<lambda>antis.
       (fmax (Fin 0) (fsub raw (fsum (map cd_weight antis))), map (cond_to_dict fv) met, map (cond_to_dict fv) antis))
     (met_conds fv (ru_antis r))))"

section \<open>The catalogue\<close>

definition rule_routing_detour :: rule where
  "rule_routing_detour =
    \<lparr>ru_id = ''routing_detour'', ru_display = ''Routing detour (congestion-induced)'',
     ru_descr = ''High congestion forces long detour routes, increasing net delays and causing setup violations on critical paths.'',
     ru_conds =
       [Condition ''wns_ns'' ''<'' (PFloat (f64 (-1 / 5))) (f64 (7 / 20)),
        Condition ''congestion_hotspot_count'' ''>'' (PInt 3) (f64 (3 / 10)),
        Condition ''utilization_pct'' ''>'' (PFloat (f64 (65))) (f64 (1 / 5)),
        Condition ''tns_ns'' ''<'' (PFloat (f64 (-1))) (f64 (3 / 20))],
     ru_antis =
       [Condition ''hold_violations'' ''>'' (PInt 10) (f64 (3 / 20))],
     ru_min = f64 (3 / 10),
     ru_exps =
       [ExperimentSuggestion (''Reduce CORE_UTILIZATION by 5% and rerun placement'') ''low'' [(''CORE_UTILIZATION'', PStr ''-5%'')],
        ExperimentSuggestion (''Enable detailed routing DRC iterations (increase MAX_ROUTING_LAYER_ADJUSTMENT)'') ''low'' [(''MAX_ROUTING_LAYER_ADJUSTMENT'', PStr ''1'')],
        ExperimentSuggestion (''Run congestion-aware global placement (increase PLACE_DENSITY)'') ''medium'' [(''PLACE_DENSITY'', PStr ''+0.02'')]]\<rparr>"

definition rule_cts_skew :: rule where
  "rule_cts_skew =
    \<lparr>ru_id = ''cts_skew'', ru_display = ''CTS clock skew (hold violation root cause)'',
     ru_descr = ''Clock tree imbalance creates large skew between launch and capture flops, causing hold-time violations that cannot be fixed by routing.'',
     ru_conds =
       [Condition ''hold_violations'' ''>'' (PInt 0) (f64 (2 / 5)),
        Condition ''clock_skew_ns'' ''>'' (PFloat (f64 (2 / 25))) (f64 (2 / 5)),
        Condition ''setup_violations'' ''<'' (PInt 5) (f64 (1 / 5))],
     ru_antis =
       [Condition ''wns_ns'' ''<'' (PFloat (f64 (-1 / 2))) (f64 (1 / 5))],
     ru_min = f64 (3 / 10),
     ru_exps =
       [ExperimentSuggestion (''Increase CTS_MAX_SLEW and CTS_MAX_CAP targets to allow more balanced buffers'') ''low'' [(''CTS_MAX_SLEW'', PStr ''+10%'')],
        ExperimentSuggestion (''Run hold repair with stricter margin (TNS_END_PERCENT=0)'') ''low'' [(''TNS_END_PERCENT'', PStr ''0'')]]\<rparr>"

definition rule_over_buffering :: rule where
  "rule_over_buffering =
    \<lparr>ru_id = ''over_buffering'', ru_display = ''Over-buffering (power / area blowup)'',
     ru_descr = ''Aggressive buffer insertion to fix fanout/slew increases power consumption and may worsen congestion near high-fanout nodes.'',
     ru_conds =
       [Condition ''max_fanout_violations'' ''>'' (PInt 0) (f64 (7 / 20)),
        Condition ''total_power_mw'' ''>'' (PFloat (f64 (0))) (f64 (1 / 5)),
        Condition ''max_slew_violations'' ''>'' (PInt 0) (f64 (3 / 10)),
        Condition ''congestion_hotspot_count'' ''>'' (PInt 2) (f64 (3 / 20))],
     ru_antis =
       [Condition ''wns_ns'' ''<'' (PFloat (f64 (-1))) (f64 (3 / 20))],
     ru_min = f64 (1 / 4),
     ru_exps =
       [ExperimentSuggestion (''Increase MAX_FANOUT target by 20% to reduce buffer insertion'') ''low'' [(''MAX_FANOUT'', PStr ''+20%'')],
        ExperimentSuggestion (''Check high-fanout nets and manually size drivers'') ''medium'' []]\<rparr>"

definition rule_density_saturation :: rule where
  "rule_density_saturation =
    \<lparr>ru_id = ''density_saturation'', ru_display = ''Placement density saturation'',
     ru_descr = ''Core utilization is too high, leaving insufficient whitespace for routing tracks and buffer insertion '' @ [CHR 0x96] @ '' causing both congestion and timing issues.'',
     ru_conds =
       [Condition ''utilization_pct'' ''>'' (PFloat (f64 (75))) (f64 (9 / 20)),
        Condition ''congestion_hotspot_count'' ''>'' (PInt 5) (f64 (3 / 10)),
        Condition ''max_overflow'' ''>'' (PFloat (f64 (1 / 2))) (f64 (1 / 4))],
     ru_antis =
       [],
     ru_min = f64 (3 / 10),
     ru_exps =
       [ExperimentSuggestion (''Reduce CORE_UTILIZATION to 70% or lower and rerun floorplan+place'') ''low'' [(''CORE_UTILIZATION'', PStr ''70'')],
        ExperimentSuggestion (''Increase die area / IO ring padding'') ''medium'' [(''DIE_AREA'', PStr ''expand'')]]\<rparr>"

definition rule_hold_margin_tight :: rule where
  "rule_hold_margin_tight =
    \<lparr>ru_id = ''hold_margin_tight'', ru_display = ''Hold margin insufficient (no significant skew)'',
     ru_descr = ''Hold violations are present but clock skew is small.  The design has insufficient hold margin, likely from aggressive synthesis timing constraints or missing hold-fix iterations.'',
     ru_conds =
       [Condition ''hold_violations'' ''>'' (PInt 3) (f64 (1 / 2)),
        Condition ''clock_skew_ns'' ''<'' (PFloat (f64 (3 / 50))) (f64 (3 / 10)),
        Condition ''wns_ns'' ''>'' (PFloat (f64 (-1 / 10))) (f64 (1 / 5))],
     ru_antis =
       [Condition ''clock_skew_ns'' ''>'' (PFloat (f64 (1 / 10))) (f64 (1 / 4))],
     ru_min = f64 (3 / 10),
     ru_exps =
       [ExperimentSuggestion (''Run dedicated hold-repair pass with HOLD_SLACK_MARGIN=0.05'') ''low'' [(''HOLD_SLACK_MARGIN'', PStr ''0.05'')],
        ExperimentSuggestion (''Check that synthesis HOLD_MARGIN constraint is set correctly'') ''low'' []]\<rparr>"

definition rule_drc_routing_congestion :: rule where
  "rule_drc_routing_congestion =
    \<lparr>ru_id = ''drc_routing_congestion'', ru_display = ''DRC violations from routing congestion'',
     ru_descr = ''DRC violations co-occur with congested routing regions, suggesting the router was forced into design-rule violations by lack of track space.'',
     ru_conds =
       [Condition ''drc_total'' ''>'' (PInt 5) (f64 (9 / 20)),
        Condition ''congestion_hotspot_count'' ''>'' (PInt 3) (f64 (7 / 20)),
        Condition ''utilization_pct'' ''>'' (PFloat (f64 (60))) (f64 (1 / 5))],
     ru_antis =
       [],
     ru_min = f64 (3 / 10),
     ru_exps =
       [ExperimentSuggestion (''Run detailed routing with stricter DRC iterations (GRT_OVERFLOW_ITERS=40)'') ''low'' [(''GRT_OVERFLOW_ITERS'', PStr ''40'')],
        ExperimentSuggestion (''Reduce utilization to relieve routing congestion hotspots'') ''low'' [(''CORE_UTILIZATION'', PStr ''-5%'')],
        ExperimentSuggestion (''Enable multi-cut via optimization to reduce DRC count'') ''medium'' [(''ENABLE_MULTI_CUT_VIA'', PStr ''1'')]]\<rparr>"

definition rules :: "rule list" where
  "rules = [rule_routing_detour, rule_cts_skew, rule_over_buffering, rule_density_saturation, rule_hold_margin_tight, rule_drc_routing_congestion]"

lemmas catalogue = rule_routing_detour_def rule_cts_skew_def rule_over_buffering_def
  rule_density_saturation_def rule_hold_margin_tight_def rule_drc_routing_congestion_def

text \<open>\<open>RULE_BY_ID.get(cause)\<close>.\<close>

definition rule_by_id :: "string \<Rightarrow> rule option" where
  "rule_by_id i = find (\<lambda>r. ru_id r = i) rules"

end
