(* ===== verification/Features.thy ===== *)
theory Features
  imports Rules
begin

text \<open>
  \<open>eda_agent/agent/inference/features.py\<close>: the analytics tables and \<open>extract_features\<close>, which
  reads one run out of them into a feature vector. A row keeps its numeric columns in a
  dictionary; a column that is missing or \<open>NULL\<close> reads as \<open>None\<close>.
\<close>

section \<open>The tables\<close>

record timing_row =
  tr_run :: int
  tr_cols :: pydict

record hotspot_row =
  hr_run :: int
  hr_overflow :: int

record summary_row =
  sr_id :: int
  sr_run :: int
  sr_cols :: pydict

record drc_row =
  dr_run :: int
  dr_type :: string
  dr_total :: "int option"

record analytics =
  columns :: "(string \<times> string list) list"
  timing_tab :: "timing_row list"
  hotspot_tab :: "hotspot_row list"
  util_tab :: "summary_row list"
  power_tab :: "summary_row list"
  drc_tab :: "drc_row list"

text \<open>
  \<open>columns\<close> lists the columns each table of the connected database has. These are the ones
  \<open>eda_agent/db/schema.py\<close> declares for the five tables that are read here.
\<close>

definition declared_schema :: "(string \<times> string list) list" where
  "declared_schema =
     [(''timing_summary'', [''id'', ''run_id'', ''view'', ''wns_ns'', ''tns_ns'', ''failing_endpoints'', ''fmax_mhz'',
         ''clock_skew_ns'', ''max_slew_violations'', ''max_fanout_violations'', ''max_cap_violations'',
         ''setup_violations'', ''hold_violations'', ''critical_path_delay_ns'', ''slack_cpd_ratio_pct'', ''created_at'']),
      (''congestion_hotspots'', [''id'', ''run_id'', ''geom'', ''overflow'', ''layer'', ''created_at'']),
      (''utilization_summary'', [''id'', ''run_id'', ''design_area_um2'', ''utilization_pct'', ''num_cells'',
         ''num_registers'', ''created_at'']),
      (''power_summary'', [''id'', ''run_id'', ''internal_power_w'', ''switching_power_w'', ''leakage_power_w'',
         ''total_power_w'', ''created_at'']),
      (''drc_violations'', [''id'', ''run_id'', ''violation_type'', ''layer'', ''nets'', ''bbox_wkt'',
         ''total_violations'', ''created_at''])]"

definition timing_cols :: "string list" where
  "timing_cols = [''wns_ns'', ''tns_ns'', ''failing_endpoints'', ''hold_violations'', ''setup_violations'',
     ''clock_skew_ns'', ''max_fanout_violations'', ''max_slew_violations'', ''max_cap_violations'',
     ''critical_path_delay_ns'', ''fmax_mhz'']"

definition util_cols :: "string list" where
  "util_cols = [''utilization_pct'', ''num_cells'']"

definition power_cols :: "string list" where
  "power_cols = [''total_power_mw'', ''dynamic_power_mw'', ''leakage_power_mw'']"

definition feature_names :: "string list" where
  "feature_names = timing_cols @ [''congestion_hotspot_count'', ''max_overflow''] @ util_cols @ power_cols @ [''drc_total'']"

section \<open>The queries\<close>

text \<open>
  \<open>ORDER BY wns_ns ASC NULLS LAST\<close>: PostgreSQL sorts NaN behind every other number. Rows that tie
  stay in the order of the table.
\<close>

definition before_nulls_last :: "pyval \<Rightarrow> pyval \<Rightarrow> bool" where
  "before_nulls_last v w =
     (case (py_num v, py_num w) of
        (None, _) \<Rightarrow> False
      | (Some x, None) \<Rightarrow> True
      | (Some x, Some y) \<Rightarrow> if is_nan y then \<not> is_nan x else flt x y)"

definition copy_cols :: "string list \<Rightarrow> pydict \<Rightarrow> pydict \<Rightarrow> pydict" where
  "copy_cols ks src fv = foldl (\<lambda>fv k. dset k (pget src k) fv) fv ks"

definition timing_step :: "analytics \<Rightarrow> int \<Rightarrow> pydict \<Rightarrow> pydict" where
  "timing_step db run fv =
     (case sort_desc (\<lambda>a b. before_nulls_last (pget (tr_cols b) ''wns_ns'') (pget (tr_cols a) ''wns_ns''))
        (filter (\<lambda>r. tr_run r = run) (timing_tab db)) of
        [] \<Rightarrow> fv
      | r # _ \<Rightarrow> copy_cols timing_cols (tr_cols r) fv)"

text \<open>\<open>COUNT(*)\<close> and \<open>MAX(overflow)\<close>, which is \<open>NULL\<close> on no rows; the aggregate always has a row.\<close>

definition congestion_step :: "analytics \<Rightarrow> int \<Rightarrow> pydict \<Rightarrow> pydict" where
  "congestion_step db run fv =
     (let os = map hr_overflow (filter (\<lambda>r. hr_run r = run) (hotspot_tab db)) in
      dset ''max_overflow'' (if os = [] then PNone else PInt (foldl max (hd os) os))
        (dset ''congestion_hotspot_count'' (PInt (int (length os))) fv))"

definition latest_row :: "int \<Rightarrow> summary_row list \<Rightarrow> summary_row option" where
  "latest_row run rows =
     (case sort_desc (\<lambda>a b. sr_id a < sr_id b) (filter (\<lambda>r. sr_run r = run) rows) of
        [] \<Rightarrow> None
      | r # _ \<Rightarrow> Some r)"

definition summary_step :: "string list \<Rightarrow> summary_row list \<Rightarrow> int \<Rightarrow> pydict \<Rightarrow> pydict" where
  "summary_step ks rows run fv =
     (case latest_row run rows of None \<Rightarrow> fv | Some r \<Rightarrow> copy_cols ks (sr_cols r) fv)"

text \<open>\<open>SUM\<close> skips \<open>NULL\<close> and is \<open>NULL\<close> when nothing is left.\<close>

definition drc_step :: "analytics \<Rightarrow> int \<Rightarrow> pydict \<Rightarrow> pydict" where
  "drc_step db run fv =
     (let ts = map dr_total (filter (\<lambda>r. dr_run r = run \<and> dr_type r = ''SUMMARY'') (drc_tab db));
          ns = map the (filter (\<lambda>t. t \<noteq> None) ts)
      in if ns = [] then fv else dset ''drc_total'' (PInt (sum_list ns)) fv)"

definition empty_features :: pydict where
  "empty_features = map (\<lambda>k. (k, PNone)) feature_names"

definition feature_steps :: "analytics \<Rightarrow> int \<Rightarrow> (pydict \<Rightarrow> pydict) list" where
  "feature_steps db run =
     [timing_step db run, congestion_step db run, summary_step util_cols (util_tab db) run,
      summary_step power_cols (power_tab db) run, drc_step db run]"

text \<open>
  The table and the columns each statement names. A statement is refused when the database has
  no such table or lacks one of the columns.
\<close>

definition feature_reads :: "(string \<times> string list) list" where
  "feature_reads =
     [(''timing_summary'', ''run_id'' # timing_cols), (''congestion_hotspots'', [''run_id'', ''overflow'']),
      (''utilization_summary'', [''run_id'', ''id''] @ util_cols), (''power_summary'', [''run_id'', ''id''] @ power_cols),
      (''drc_violations'', [''run_id'', ''violation_type'', ''total_violations''])]"

definition accepted :: "analytics \<Rightarrow> string \<times> string list \<Rightarrow> bool" where
  "accepted db = (\<lambda>(t, ks). case map_of (columns db) t of
     None \<Rightarrow> False
   | Some have \<Rightarrow> list_all (\<lambda>k. k \<in> set have) ks)"

text \<open>
  \<open>answered\<close> is the number of statements before the connection fails: the first statement that
  fails, for this reason or because it is refused, ends the extraction, and the vector built so
  far is returned.
\<close>

definition statements_run :: "nat \<Rightarrow> analytics \<Rightarrow> nat" where
  "statements_run answered db = min answered (length (takeWhile (accepted db) feature_reads))"

definition read_features :: "nat \<Rightarrow> analytics \<Rightarrow> int \<Rightarrow> pydict" where
  "read_features n db run = fold (\<lambda>step fv. step fv) (take n (feature_steps db run)) empty_features"

definition extract_features :: "nat \<Rightarrow> analytics \<Rightarrow> int \<Rightarrow> pydict" where
  "extract_features answered db run = read_features (statements_run answered db) db run"

section \<open>Lemmas\<close>

text \<open>Whatever the tables hold, the vector has exactly the declared features, each once, in order.\<close>

lemma dkeys_copy_cols: "set ks \<subseteq> set (dkeys fv) \<Longrightarrow> dkeys (copy_cols ks src fv) = dkeys fv"
proof (induction ks arbitrary: fv)
  case Nil
  then show ?case by (simp add: copy_cols_def)
next
  case (Cons k ks)
  have k: "dkeys (dset k (pget src k) fv) = dkeys fv" by (rule dkeys_dset_present) (use Cons.prems in auto)
  then have "dkeys (copy_cols ks src (dset k (pget src k) fv)) = dkeys (dset k (pget src k) fv)"
    by (intro Cons.IH) (use Cons.prems in auto)
  with k show ?case by (simp add: copy_cols_def)
qed

lemma step_keys:
  assumes "step \<in> set (feature_steps db run)" "dkeys fv = feature_names"
  shows "dkeys (step fv) = feature_names"
proof -
  have c: "dkeys (copy_cols ks src fv) = feature_names" if "set ks \<subseteq> set feature_names" for ks src
    using dkeys_copy_cols [of ks fv src] that assms(2) by simp
  have d: "dkeys (dset k v fv') = feature_names" if "k \<in> set feature_names" "dkeys fv' = feature_names" for k v fv'
    using dkeys_dset_present [of k fv' v] that by simp
  have f: "''congestion_hotspot_count'' \<in> set feature_names" "''max_overflow'' \<in> set feature_names"
    "''drc_total'' \<in> set feature_names" "set timing_cols \<subseteq> set feature_names"
    "set util_cols \<subseteq> set feature_names" "set power_cols \<subseteq> set feature_names"
    by (auto simp: feature_names_def)
  show ?thesis using assms
    by (auto simp: feature_steps_def timing_step_def congestion_step_def summary_step_def drc_step_def Let_def
        c d f split: list.split option.split)
qed

lemma fold_keys:
  "set steps \<subseteq> set (feature_steps db run) \<Longrightarrow> dkeys fv = feature_names \<Longrightarrow>
   dkeys (fold (\<lambda>step fv. step fv) steps fv) = feature_names"
  by (induction steps arbitrary: fv) (auto simp del: set_map intro: step_keys)

lemma feature_keys: "dkeys (extract_features n db run) = feature_names"
  unfolding extract_features_def read_features_def
  by (rule fold_keys [of _ db run]) (auto simp: empty_features_def o_def dest: in_set_takeD)

text \<open>A vector every condition can be evaluated on: \<open>float\<close> succeeds on each feature that is there.\<close>

definition numeric :: "pydict \<Rightarrow> bool" where
  "numeric fv \<longleftrightarrow> (\<forall>(k, v) \<in> set fv. v = PNone \<or> float_of_val v \<noteq> None)"

lemma numeric_pget: "numeric fv \<Longrightarrow> pget fv k = PNone \<or> float_of_val (pget fv k) \<noteq> None"
  by (fastforce simp: numeric_def pget_def dest: dget_Some_in split: option.splits)

text \<open>What the column types of the tables give: small integers, floats and \<open>NULL\<close>.\<close>

definition column_ok :: "pyval \<Rightarrow> bool" where
  "column_ok v \<longleftrightarrow> (case v of PNone \<Rightarrow> True | PInt n \<Rightarrow> \<bar>n\<bar> \<le> 2 ^ 52 | PFloat f \<Rightarrow> True | _ \<Rightarrow> False)"

definition row_ok :: "pydict \<Rightarrow> bool" where
  "row_ok d \<longleftrightarrow> (\<forall>(k, v) \<in> set d. column_ok v)"

definition typed_tables :: "analytics \<Rightarrow> bool" where
  "typed_tables db \<longleftrightarrow>
     (\<forall>r \<in> set (timing_tab db). row_ok (tr_cols r)) \<and>
     (\<forall>r \<in> set (util_tab db) \<union> set (power_tab db). row_ok (sr_cols r)) \<and>
     int (length (hotspot_tab db)) \<le> 2 ^ 52 \<and> (\<forall>r \<in> set (hotspot_tab db). \<bar>hr_overflow r\<bar> \<le> 2 ^ 52) \<and>
     sum_list (map (\<lambda>r. case dr_total r of None \<Rightarrow> 0 | Some n \<Rightarrow> \<bar>n\<bar>) (drc_tab db)) \<le> 2 ^ 52"

lemma column_ok_simps [simp]: "column_ok PNone" "column_ok (PInt n) \<longleftrightarrow> \<bar>n\<bar> \<le> 2 ^ 52" "column_ok (PFloat f)"
  by (simp_all add: column_ok_def)

lemma row_ok_numeric: "row_ok fv \<Longrightarrow> numeric fv"
proof -
  assume r: "row_ok fv"
  have "v = PNone \<or> float_of_val v \<noteq> None" if "column_ok v" for v
    using that by (cases v) (simp_all add: column_ok_def float_of_int_small)
  with r show ?thesis by (auto simp: row_ok_def numeric_def)
qed

lemma row_ok_pget: "row_ok d \<Longrightarrow> column_ok (pget d k)"
  by (auto simp: row_ok_def pget_def dest!: dget_Some_in split: option.split)

lemma row_ok_dset: "row_ok d \<Longrightarrow> column_ok v \<Longrightarrow> row_ok (dset k v d)"
  using set_dset_sub [of k v d] by (fastforce simp: row_ok_def)

lemma row_ok_copy: "row_ok src \<Longrightarrow> row_ok fv \<Longrightarrow> row_ok (copy_cols ks src fv)"
proof (induction ks arbitrary: fv)
  case Nil
  then show ?case by (simp add: copy_cols_def)
next
  case (Cons k ks)
  then have "row_ok (dset k (pget src k) fv)" by (intro row_ok_dset row_ok_pget)
  from Cons.IH [OF Cons.prems(1) this] show ?case by (simp add: copy_cols_def)
qed

lemma head_sort_desc: "sort_desc lt (filter P xs) = r # rs \<Longrightarrow> r \<in> set xs"
  by (metis filter_is_subset list.set_intros(1) set_sort_desc subsetD)

lemma foldl_max_bound: "\<forall>x \<in> set xs. \<bar>x\<bar> \<le> b \<Longrightarrow> \<bar>a\<bar> \<le> b \<Longrightarrow> \<bar>foldl max a xs :: int\<bar> \<le> b"
  by (induction xs arbitrary: a) auto

lemma abs_totals:
  "\<bar>sum_list (map the (filter (\<lambda>t. t \<noteq> None) (map dr_total (filter P rows))))\<bar>
   \<le> sum_list (map (\<lambda>r. case dr_total r of None \<Rightarrow> 0 | Some n \<Rightarrow> \<bar>n\<bar>) rows)"
  by (induction rows) (auto split: option.splits)

lemma step_ok:
  assumes "typed_tables db" "step \<in> set (feature_steps db run)" "row_ok fv"
  shows "row_ok (step fv)"
proof -
  have t: "row_ok (timing_step db run fv)"
    using assms(1,3) by (auto simp: timing_step_def typed_tables_def intro!: row_ok_copy dest: head_sort_desc split: list.split)
  have s: "row_ok (summary_step ks rows run fv)" if "rows = util_tab db \<or> rows = power_tab db" for ks rows
    using assms(1,3) that
    by (auto simp: summary_step_def latest_row_def typed_tables_def intro!: row_ok_copy dest!: head_sort_desc split: list.splits option.split)
  have c: "row_ok (congestion_step db run fv)"
  proof -
    let ?os = "map hr_overflow (filter (\<lambda>r. hr_run r = run) (hotspot_tab db))"
    have b: "\<forall>x \<in> set ?os. \<bar>x\<bar> \<le> 2 ^ 52" using assms(1) by (auto simp: typed_tables_def)
    have "int (length ?os) \<le> int (length (hotspot_tab db))" by simp
    also have "\<dots> \<le> 2 ^ 52" using assms(1) by (simp add: typed_tables_def)
    finally have l: "column_ok (PInt (int (length ?os)))" by simp
    have "\<bar>foldl max (hd ?os) ?os\<bar> \<le> 2 ^ 52" if "?os \<noteq> []"
      by (rule foldl_max_bound [OF b]) (use b that hd_in_set in blast)
    then have "column_ok (if ?os = [] then PNone else PInt (foldl max (hd ?os) ?os))" by simp
    with l assms(3) show ?thesis unfolding congestion_step_def Let_def by (intro row_ok_dset)
  qed
  have "row_ok (drc_step db run fv)"
    using assms(1,3) abs_totals [of "\<lambda>r. dr_run r = run \<and> dr_type r = ''SUMMARY''" "drc_tab db"]
    by (auto simp: drc_step_def Let_def typed_tables_def intro!: row_ok_dset)
  with t s c assms(2) show ?thesis by (auto simp: feature_steps_def)
qed

lemma typed_numeric:
  assumes "typed_tables db"
  shows "numeric (extract_features n db run)"
proof -
  have "row_ok (fold (\<lambda>step fv. step fv) steps fv)"
    if "set steps \<subseteq> set (feature_steps db run)" "row_ok fv" for steps fv
    using that by (induction steps arbitrary: fv) (auto intro: step_ok [OF assms])
  moreover have "row_ok empty_features" by (simp add: row_ok_def empty_features_def)
  ultimately show ?thesis unfolding extract_features_def read_features_def by (intro row_ok_numeric) (auto dest: in_set_takeD)
qed

lemma pget_copy_cols: "pget (copy_cols ks src fv) k = (if k \<in> set ks then pget src k else pget fv k)"
proof (induction ks arbitrary: fv)
  case Nil
  then show ?case by (simp add: copy_cols_def)
next
  case (Cons a ks)
  from Cons [of "dset a (pget src a) fv"] show ?case by (auto simp: copy_cols_def pget_dset)
qed

text \<open>A run without rows: nothing is known but that no hotspot was recorded.\<close>

definition unmeasured :: "analytics \<Rightarrow> int \<Rightarrow> bool" where
  "unmeasured db run \<longleftrightarrow> run \<notin> tr_run ` set (timing_tab db) \<and> run \<notin> hr_run ` set (hotspot_tab db) \<and>
     run \<notin> sr_run ` set (util_tab db) \<and> run \<notin> sr_run ` set (power_tab db) \<and> run \<notin> dr_run ` set (drc_tab db)"

lemma unmeasured_filters:
  assumes "unmeasured db run"
  shows "filter (\<lambda>r. tr_run r = run) (timing_tab db) = []" "filter (\<lambda>r. hr_run r = run) (hotspot_tab db) = []"
    "filter (\<lambda>r. sr_run r = run) (util_tab db) = []" "filter (\<lambda>r. sr_run r = run) (power_tab db) = []"
    "filter (\<lambda>r. dr_run r = run \<and> dr_type r = ''SUMMARY'') (drc_tab db) = []"
  using assms by (auto simp: unmeasured_def filter_empty_conv)

lemma unmeasured_read:
  assumes "unmeasured db run"
  shows "pget (read_features n db run) k \<in> (if k = ''congestion_hotspot_count'' then {PNone, PInt 0} else {PNone})"
proof -
  have "\<exists>v \<in> {PNone, PInt 0}. read_features n db run = dset ''congestion_hotspot_count'' v empty_features
     \<or> read_features n db run = dset ''max_overflow'' PNone (dset ''congestion_hotspot_count'' v empty_features)
     \<or> read_features n db run = empty_features"
    by (cases n; cases "n - 1"; cases "n - 2"; cases "n - 3"; cases "n - 4")
      (auto simp: read_features_def feature_steps_def timing_step_def congestion_step_def summary_step_def
        latest_row_def drc_step_def unmeasured_filters [OF assms] sort_desc_def)
  moreover have "pget empty_features k = PNone" 
    by (simp add: empty_features_def feature_names_def pget_def timing_cols_def util_cols_def power_cols_def)
  ultimately show ?thesis by (auto simp: pget_dset)
qed

lemma unmeasured_features:
  "unmeasured db run \<Longrightarrow>
   pget (extract_features n db run) k \<in> (if k = ''congestion_hotspot_count'' then {PNone, PInt 0} else {PNone})"
  unfolding extract_features_def by (rule unmeasured_read)

section \<open>The declared schema\<close>

text \<open>
  It has no \<open>total_power_mw\<close>, \<open>dynamic_power_mw\<close> or \<open>leakage_power_mw\<close>: the fourth statement is
  refused, and neither it nor the fifth is ever answered.
\<close>

lemma statements_run_declared: "columns db = declared_schema \<Longrightarrow> statements_run n db = min n 3"
  by (simp add: statements_run_def feature_reads_def accepted_def declared_schema_def timing_cols_def util_cols_def
      power_cols_def)

lemma features_declared:
  assumes "columns db = declared_schema"
  shows "extract_features n db run = read_features (min n 3) db run"
  by (simp add: extract_features_def statements_run_declared [OF assms])

lemma read_features_three:
  "m \<le> 3 \<Longrightarrow> read_features m (db\<lparr>power_tab := ps, drc_tab := ds\<rparr>) run = read_features m db run"
  by (cases m; cases "m - 1"; cases "m - 2"; cases "m - 3")
    (auto simp: read_features_def feature_steps_def timing_step_def congestion_step_def)

lemma unread_features:
  assumes "m \<le> 3" "k \<in> insert ''drc_total'' (set power_cols)"
  shows "pget (read_features m db run) k = PNone"
proof -
  have e: "pget empty_features k = PNone"
    by (simp add: empty_features_def feature_names_def pget_def timing_cols_def util_cols_def power_cols_def)
  have k: "k \<notin> set timing_cols" "k \<notin> set util_cols" "k \<noteq> ''congestion_hotspot_count''" "k \<noteq> ''max_overflow''"
    using assms(2) by (auto simp: timing_cols_def util_cols_def power_cols_def)
  have t: "pget (timing_step db run fv) k = pget fv k" for fv
    using k by (simp add: timing_step_def pget_copy_cols split: list.split)
  have c: "pget (congestion_step db run fv) k = pget fv k" for fv
    using k by (simp add: congestion_step_def Let_def pget_dset)
  have u: "pget (summary_step util_cols rows run fv) k = pget fv k" for rows fv
    using k by (simp add: summary_step_def pget_copy_cols split: option.split)
  show ?thesis using assms(1)
    by (cases m; cases "m - 1"; cases "m - 2"; cases "m - 3")
      (auto simp: read_features_def feature_steps_def e t c u)
qed

end
