(* ===== verification/Inference.thy ===== *)
theory Inference
  imports Features Memory
begin

text \<open>
  The root cause inference engine, \<open>eda_agent/agent/inference/engine.py\<close>, and the weights it
  learns from confirmations, \<open>eda_agent/agent/inference/weights.py\<close>. The database is the record
  \<open>knowledge\<close>; a JSON column holds the value written to it. Which statements succeed is part of
  the environment of a call. The Chinese sentences around the values are constructors.
\<close>

section \<open>The database\<close>

record hypothesis =
  h_rank :: nat
  h_cause :: string
  h_display :: string
  h_descr :: string
  h_score :: pyfloat
  h_raw :: pyfloat
  h_mult :: pyfloat
  h_conf :: string
  h_evidence :: "pydict list"
  h_anti :: "pydict list"
  h_exps :: "suggestion list"

record inference_row =
  inf_id :: int
  inf_run :: int
  inf_symptoms :: string
  inf_features :: pydict
  inf_hyps :: "hypothesis list"
  inf_chosen :: "string option"
  inf_confirmed_at :: "datetime option"

record weight_row =
  w_rule :: string
  w_mult :: pyfloat
  w_count :: int
  w_updated :: datetime

text \<open>
  \<open>runs\<close> maps the id of a run to the name and the PDK of its design, an empty text standing
  for \<open>NULL\<close>; \<open>cases\<close> is the table \<open>case_memory\<close> with its next id.
\<close>

record knowledge =
  tables :: analytics
  runs :: "(int \<times> (string \<times> string)) list"
  weights :: "weight_row list"
  inferences :: "inference_row list"
  next_inference :: int
  cases :: "int \<times> case_row list"

section \<open>Weights\<close>

definition DELTA :: pyfloat where "DELTA = f64 (5 / 100)"
definition MIN_MULTIPLIER :: pyfloat where "MIN_MULTIPLIER = f64 (10 / 100)"
definition MAX_MULTIPLIER :: pyfloat where "MAX_MULTIPLIER = Fin 2"

definition clamp :: "pyfloat \<Rightarrow> pyfloat" where
  "clamp v = fmax MIN_MULTIPLIER (fmin MAX_MULTIPLIER v)"

type_synonym multipliers = "(string, pyfloat) dict"

definition get_multipliers :: "bool \<Rightarrow> weight_row list \<Rightarrow> multipliers" where
  "get_multipliers ok rows = (if ok then map (\<lambda>r. (w_rule r, w_mult r)) rows else [])"

definition adj :: "multipliers \<Rightarrow> string \<Rightarrow> pyfloat \<Rightarrow> multipliers \<Rightarrow> multipliers" where
  "adj current i change updates = dset i (clamp (fadd (dgetd current i (Fin 1)) change)) updates"

definition half :: "pyfloat \<Rightarrow> pyfloat" where
  "half x = (case fdiv x (Fin 2) of Some y \<Rightarrow> y | None \<Rightarrow> NaN)"

text \<open>The updates of one confirmation, in the order the code computes them.\<close>

definition weight_updates :: "multipliers \<Rightarrow> string \<Rightarrow> string list \<Rightarrow> pyfloat \<Rightarrow> multipliers" where
  "weight_updates current confirmed top_ids delta =
     (case top_ids of
        [] \<Rightarrow> adj current confirmed delta []
      | lead # _ \<Rightarrow>
          if confirmed = lead then adj current confirmed delta []
          else if confirmed \<in> set top_ids then
            adj current lead (fneg delta) (adj current confirmed delta [])
          else foldl (\<lambda>u i. adj current i (half (fneg delta)) u) (adj current confirmed delta []) top_ids)"

text \<open>
  The two ways to write one multiplier: \<open>INSERT ... ON CONFLICT (rule_id) DO UPDATE\<close>, and an
  \<open>UPDATE\<close> followed by an \<open>INSERT\<close> when it matched no row. \<open>rule_id\<close> is the primary key.
\<close>

definition set_weight :: "datetime \<Rightarrow> pyfloat \<Rightarrow> weight_row \<Rightarrow> weight_row" where
  "set_weight now m r = r\<lparr>w_mult := m, w_count := w_count r + 1, w_updated := now\<rparr>"

fun upsert_weight :: "datetime \<Rightarrow> string \<times> pyfloat \<Rightarrow> weight_row list \<Rightarrow> weight_row list" where
  "upsert_weight now (i, m) [] = [\<lparr>w_rule = i, w_mult = m, w_count = 1, w_updated = now\<rparr>]"
| "upsert_weight now (i, m) (r # rows) =
     (if w_rule r = i then set_weight now m r # rows else r # upsert_weight now (i, m) rows)"

definition update_else_insert :: "datetime \<Rightarrow> string \<times> pyfloat \<Rightarrow> weight_row list \<Rightarrow> weight_row list" where
  "update_else_insert now = (\<lambda>(i, m) rows.
     let rowcount = length (filter (\<lambda>r. w_rule r = i) rows);
         rows' = map (\<lambda>r. if w_rule r = i then set_weight now m r else r) rows
     in if rowcount = 0 then rows' @ [\<lparr>w_rule = i, w_mult = m, w_count = 1, w_updated = now\<rparr>] else rows')"

text \<open>One transaction: a statement that fails rolls back all of it and is only logged.\<close>

definition persist_updates :: "bool \<Rightarrow> bool \<Rightarrow> datetime \<Rightarrow> multipliers \<Rightarrow> weight_row list \<Rightarrow> weight_row list" where
  "persist_updates ok on_conflict now updates rows =
     (if ok then fold (if on_conflict then upsert_weight now else update_else_insert now) updates rows else rows)"

section \<open>infer\<close>

record infer_env =
  ie_sum :: summation
  ie_answered :: nat
  ie_weights :: bool
  ie_insert :: bool

record fired =
  f_adj :: pyfloat
  f_raw :: pyfloat
  f_evidence :: "pydict list"
  f_anti :: "pydict list"
  f_rule :: rule

definition score_one :: "summation \<Rightarrow> multipliers \<Rightarrow> pydict \<Rightarrow> rule \<Rightarrow> fired option" where
  "score_one sm mults fv r =
     map_option (\<lambda>(raw, ev, anti).
       \<lparr>f_adj = fmin (Fin 1) (fmul raw (dgetd mults (ru_id r) (Fin 1))),
        f_raw = raw, f_evidence = ev, f_anti = anti, f_rule = r\<rparr>)
     (rule_score sm fv r)"

definition fires :: "fired \<Rightarrow> bool" where
  "fires f \<longleftrightarrow> fle (ru_min (f_rule f)) (f_adj f)"

definition ranked :: "fired list \<Rightarrow> fired list" where
  "ranked fs = take 3 (sort_desc (\<lambda>a b. flt (f_adj a) (f_adj b)) (filter fires fs))"

definition score_to_confidence :: "pyfloat \<Rightarrow> string" where
  "score_to_confidence s =
     (if fle (f64 (65 / 100)) s then ''high'' else if fle (f64 (35 / 100)) s then ''medium'' else ''low'')"

text \<open>\<open>round(x, 4)\<close> rounds the exact value, ties to even, and gives the nearest float.\<close>

definition round4 :: "pyfloat \<Rightarrow> pyfloat" where
  "round4 x = (case x of Fin q \<Rightarrow> f64 (of_int (rhe (q * 10000)) / 10000) | _ \<Rightarrow> x)"

definition hypothesis_of :: "multipliers \<Rightarrow> nat \<times> fired \<Rightarrow> hypothesis" where
  "hypothesis_of mults = (\<lambda>(rank, f). let r = f_rule f in
     \<lparr>h_rank = rank, h_cause = ru_id r, h_display = ru_display r, h_descr = ru_descr r,
      h_score = round4 (f_adj f), h_raw = round4 (f_raw f),
      h_mult = round4 (dgetd mults (ru_id r) (Fin 1)),
      h_conf = score_to_confidence (f_adj f),
      h_evidence = f_evidence f, h_anti = f_anti f, h_exps = ru_exps r\<rparr>)"

definition hypotheses :: "multipliers \<Rightarrow> fired list \<Rightarrow> hypothesis list" where
  "hypotheses mults fs = map (hypothesis_of mults) (enumerate 1 (ranked fs))"

datatype summary_text =
    NoRootCause
  | MostLikely string string pyfloat
  | MostLikelyThen string string pyfloat string

definition build_summary :: "hypothesis list \<Rightarrow> summary_text" where
  "build_summary hs = (case hs of
      [] \<Rightarrow> NoRootCause
    | [h] \<Rightarrow> MostLikely (h_display h) (h_conf h) (h_score h)
    | h # g # _ \<Rightarrow> MostLikelyThen (h_display h) (h_conf h) (h_score h) (h_display g))"

datatype next_text = CollectMoreData | AnalyseByHand | TryFirst string pydict

definition preferred :: "suggestion list \<Rightarrow> suggestion option" where
  "preferred exps =
     (let low = filter (\<lambda>e. ex_risk e = ''low'') exps
      in case (if low \<noteq> [] then low else exps) of [] \<Rightarrow> None | e # _ \<Rightarrow> Some e)"

definition build_next_action :: "hypothesis list \<Rightarrow> next_text" where
  "build_next_action hs = (case hs of
      [] \<Rightarrow> CollectMoreData
    | h # _ \<Rightarrow> (case preferred (h_exps h) of
        None \<Rightarrow> AnalyseByHand
      | Some e \<Rightarrow> TryFirst (ex_action e) (ex_hint e)))"

text \<open>
  JSON columns take no NaN and no infinity. Every number of the evidence is a feature or a
  constant of the catalogue.
\<close>

fun finite_val :: "pyval \<Rightarrow> bool" where
  "finite_val (PFloat (Fin _)) = True"
| "finite_val (PFloat _) = False"
| "finite_val _ = True"

definition storable :: "pydict \<Rightarrow> hypothesis list \<Rightarrow> bool" where
  "storable fv hs \<longleftrightarrow>
     (\<forall>(k, v) \<in> set fv. finite_val v) \<and>
     (\<forall>h \<in> set hs. \<forall>x \<in> {h_score h, h_raw h, h_mult h}. finite_val (PFloat x))"

definition save_inference :: "bool \<Rightarrow> int \<Rightarrow> string \<Rightarrow> pydict \<Rightarrow> hypothesis list \<Rightarrow> knowledge \<Rightarrow> int \<times> knowledge" where
  "save_inference ok run symptoms fv hs k =
     (if ok \<and> dget (runs k) run \<noteq> None \<and> storable fv hs then
        (next_inference k,
         k\<lparr>next_inference := next_inference k + 1,
           inferences := inferences k @
             [\<lparr>inf_id = next_inference k, inf_run = run, inf_symptoms = symptoms, inf_features = fv,
               inf_hyps = hs, inf_chosen = None, inf_confirmed_at = None\<rparr>]\<rparr>)
      else (-1, k))"

record report =
  rp_id :: int
  rp_run :: int
  rp_features :: pydict
  rp_hyps :: "hypothesis list"
  rp_summary :: summary_text
  rp_next :: next_text

text \<open>\<open>infer\<close>; \<open>None\<close> when the scoring raises.\<close>

definition infer :: "infer_env \<Rightarrow> int \<Rightarrow> string \<Rightarrow> knowledge \<Rightarrow> (report \<times> knowledge) option" where
  "infer env run symptoms k =
     (let fv = extract_features (ie_answered env) (tables k) run;
          mults = get_multipliers (ie_weights env) (weights k)
      in map_option (\<lambda>fs.
           let hs = hypotheses mults fs;
               (i, k') = save_inference (ie_insert env) run symptoms fv hs k
           in (\<lparr>rp_id = i, rp_run = run, rp_features = fv, rp_hyps = hs,
                rp_summary = build_summary hs, rp_next = build_next_action hs\<rparr>, k'))
         (all_some (map (score_one (ie_sum env) mults fv) rules)))"

section \<open>confirm\<close>

record confirm_env =
  ce_record :: bool
  ce_design :: bool
  ce_read_weights :: bool
  ce_write_weights :: bool
  ce_case :: bool
  ce_on_conflict :: bool
  ce_now :: datetime

datatype confirm_result = ConfirmError int | Confirmed int string int

definition mark_chosen :: "string \<Rightarrow> datetime \<Rightarrow> int \<Rightarrow> inference_row list \<Rightarrow> inference_row list" where
  "mark_chosen cause now i rows =
     map (\<lambda>r. if inf_id r = i then r\<lparr>inf_chosen := Some cause, inf_confirmed_at := Some now\<rparr> else r) rows"

definition chosen_actions :: "string \<Rightarrow> hypothesis list \<Rightarrow> string list" where
  "chosen_actions cause hs =
     (case find (\<lambda>h. h_cause h = cause) hs of None \<Rightarrow> [] | Some h \<Rightarrow> map ex_action (h_exps h))"

definition cause_text :: "string \<Rightarrow> string" where
  "cause_text cause = (case rule_by_id cause of None \<Rightarrow> cause | Some r \<Rightarrow> ru_display r)"

definition learn_weights :: "confirm_env \<Rightarrow> string \<Rightarrow> hypothesis list \<Rightarrow> knowledge \<Rightarrow> knowledge" where
  "learn_weights env cause hs k =
     (let updates = weight_updates (get_multipliers (ce_read_weights env) (weights k)) cause (map h_cause hs) DELTA
      in k\<lparr>weights := persist_updates (ce_write_weights env) (ce_on_conflict env) (ce_now env) updates (weights k)\<rparr>)"

definition confirm :: "confirm_env \<Rightarrow> int \<Rightarrow> string \<Rightarrow> knowledge \<Rightarrow> confirm_result \<times> knowledge" where
  "confirm env i cause k =
     (if \<not> ce_record env then (ConfirmError i, k)
      else let k1 = k\<lparr>inferences := mark_chosen cause (ce_now env) i (inferences k)\<rparr> in
        case find (\<lambda>r. inf_id r = i) (inferences k1) of
          None \<Rightarrow> (Confirmed i cause (-1), k1)
        | Some rec \<Rightarrow>
            let (design, pdk) = (if ce_design env then dgetd (runs k1) (inf_run rec) ([], []) else ([], []));
                k2 = learn_weights env cause (inf_hyps rec) k1
            in if ce_case env then
                 let (case_id, cs) = save_case (ce_now env) design (inf_symptoms rec) (cause_text cause) pdk
                       (PList (map PStr (chosen_actions cause (inf_hyps rec))))
                       (PDict [(''inference_id'', PInt i)]) (cases k2)
                 in (Confirmed i cause case_id, k2\<lparr>cases := cs\<rparr>)
               else (ConfirmError i, k2))"

end
