(* ===== verification/InferenceLemmas.thy ===== *)
theory InferenceLemmas
  imports Inference
begin

text \<open>
  The lemmas of the inference engine: what it relies on of the rules is the interface
  \<open>rule_catalogue\<close>, its results about scoring and ranking are proved from it and interpreted on
  the catalogue of the code. Then the arithmetic of the multipliers and of the rounding.
\<close>

section \<open>Evaluation never raises on numbers\<close>

lemma evaluate_numeric:
  assumes "numeric fv" "op_fn (cd_op c) \<noteq> None" "py_num (cd_threshold c) \<noteq> None"
  shows "\<exists>b. evaluate fv c = Some b"
  using numeric_pget [OF assms(1), of "cd_feature c"] assms(2-)
  by (auto simp: evaluate_def split: option.splits)

lemma met_conds_numeric:
  assumes "numeric fv" "\<forall>c \<in> set cs. op_fn (cd_op c) \<noteq> None \<and> py_num (cd_threshold c) \<noteq> None"
  shows "met_conds fv cs = Some (filter (\<lambda>c. evaluate fv c = Some True) cs)"
  using assms(2)
proof (induction cs)
  case Nil
  then show ?case by simp
next
  case (Cons c cs)
  then obtain b where "evaluate fv c = Some b" using evaluate_numeric [OF assms(1), of c] by auto
  with Cons show ?case by simp
qed

lemma total_weight_nonzero [simp]: "total_weight sm cs \<noteq> Fin 0"
  by (simp add: total_weight_def Let_def)

lemma fdiv_defined: "y \<noteq> Fin 0 \<Longrightarrow> \<exists>q. fdiv x y = Some q"
  by (cases x; cases y) auto

section \<open>Bounds of the floats of the engine\<close>

lemma fmin_1_le: "fle (fmin (Fin 1) x) (Fin 1)"
  by (cases x) (auto simp: fmin_def fle_def)

text \<open>A value between 0 and 1, and its rounding to four digits.\<close>

definition unit_float :: "pyfloat \<Rightarrow> bool" where
  "unit_float x \<longleftrightarrow> fle (Fin 0) x \<and> fle x (Fin 1)"

lemma unit_float_iff: "unit_float x \<longleftrightarrow> (\<exists>q. x = Fin q \<and> 0 \<le> q \<and> q \<le> 1)"
  by (cases x) (auto simp: unit_float_def fle_def)

lemma round4_unit:
  assumes "0 \<le> q" "q \<le> 1"
  shows "round4 (Fin q) = Fin (rnd64 (of_int (rhe (q * 10000)) / 10000))"
    "0 \<le> rhe (q * 10000)" "rhe (q * 10000) \<le> 10000"
proof -
  show 0: "0 \<le> rhe (q * 10000)" using assms by (intro rhe_nonneg) simp
  have "rhe (q * 10000) \<le> rhe (of_int 10000)" using assms by (intro rhe_mono) simp
  then show 1: "rhe (q * 10000) \<le> 10000" by (simp only: rhe_of_int)
  have "0 \<le> (of_int (rhe (q * 10000)) :: rat)" "(of_int (rhe (q * 10000)) :: rat) \<le> 10000"
    using 0 1 by (simp_all add: of_int_le_numeral_iff)
  then have "small_rat (of_int (rhe (q * 10000)) / 10000)" by (simp add: small_rat_def)
  then show "round4 (Fin q) = Fin (rnd64 (of_int (rhe (q * 10000)) / 10000))"
    by (simp add: round4_def f64_small)
qed

lemma round4_mono: "unit_float x \<Longrightarrow> unit_float y \<Longrightarrow> fle x y \<Longrightarrow> fle (round4 x) (round4 y)"
  by (auto simp: unit_float_iff round4_unit intro!: rnd64_mono divide_right_mono rhe_mono mult_right_mono)

lemma unit_float_round4:
  assumes "unit_float x"
  shows "unit_float (round4 x)"
proof -
  from assms obtain q where q: "x = Fin q" "0 \<le> q" "q \<le> 1" by (auto simp: unit_float_iff)
  note r = round4_unit [OF q(2,3)]
  have "(of_int (rhe (q * 10000)) :: rat) / 10000 \<le> 1" "0 \<le> (of_int (rhe (q * 10000)) :: rat) / 10000"
    using r(2,3) by (simp_all add: of_int_le_numeral_iff)
  then show ?thesis by (simp add: unit_float_iff q(1) r(1) rnd64_nonneg rnd64_le_1)
qed

lemma rnd64_above_quarter: "1 / 4 \<le> x \<Longrightarrow> 0 < rnd64 x"
proof -
  assume "1 / 4 \<le> x"
  then have "rnd64 (1 / 4) \<le> rnd64 x" by (rule rnd64_mono)
  moreover have "rnd64 (1 / 4) = 1 / 4" by code_simp
  ultimately show ?thesis by simp
qed

section \<open>What the engine relies on of its rules\<close>

text \<open>The scored rules \<open>fs\<close> of a run.\<close>

definition scored :: "rule list \<Rightarrow> summation \<Rightarrow> multipliers \<Rightarrow> pydict \<Rightarrow> fired list \<Rightarrow> bool" where
  "scored rs sm mults fv fs \<longleftrightarrow> all_some (map (score_one sm mults fv) rs) = Some fs \<and> map f_rule fs = rs"

text \<open>The rules that fire, the best first.\<close>

definition by_score :: "fired list \<Rightarrow> fired list" where
  "by_score fs = sort_desc (\<lambda>a b. flt (f_adj a) (f_adj b)) (filter fires fs)"

locale rule_catalogue =
  fixes rs :: "rule list"
  assumes ids: "distinct (map ru_id rs)"
    and conds: "r \<in> set rs \<Longrightarrow> c \<in> set (ru_conds r @ ru_antis r) \<Longrightarrow>
      op_fn (cd_op c) \<noteq> None \<and> py_num (cd_threshold c) \<noteq> None"
    and congested: "r \<in> set rs \<Longrightarrow> c \<in> set (ru_conds r @ ru_antis r) \<Longrightarrow>
      cd_feature c = ''congestion_hotspot_count'' \<Longrightarrow> cd_op c = ''>'' \<and>
      (\<exists>n \<ge> 0. cd_threshold c = PInt n)"
    and mins: "r \<in> set rs \<Longrightarrow> flt (Fin 0) (ru_min r)"
    and low_risk: "r \<in> set rs \<Longrightarrow> \<exists>e \<in> set (ru_exps r). ex_risk e = ''low''"
begin

lemma score_defined:
  assumes "numeric fv" "r \<in> set rs"
  shows "\<exists>f. score_one sm mults fv r = Some f \<and> f_rule f = r"
proof -
  obtain q where q: "fdiv (weight_sum sm (filter (\<lambda>c. evaluate fv c = Some True) (ru_conds r)))
      (total_weight sm (ru_conds r)) = Some q" using fdiv_defined [OF total_weight_nonzero] by blast
  have "met_conds fv (ru_conds r) = Some (filter (\<lambda>c. evaluate fv c = Some True) (ru_conds r))"
    "met_conds fv (ru_antis r) = Some (filter (\<lambda>c. evaluate fv c = Some True) (ru_antis r))"
    by (rule met_conds_numeric [OF assms(1)]; use conds [OF assms(2)] in simp)+
  with q show ?thesis by (simp add: score_one_def rule_score_def)
qed

lemma scores:
  assumes "numeric fv"
  shows "\<exists>fs. all_some (map (score_one sm mults fv) rs) = Some fs \<and> map f_rule fs = rs"
proof -
  have "\<exists>fs. map (score_one sm mults fv) xs = map Some fs \<and> map f_rule fs = xs" if "set xs \<subseteq> set rs" for xs
    using that
  proof (induction xs)
    case Nil
    then show ?case by simp
  next
    case (Cons x xs)
    then obtain fs where "map (score_one sm mults fv) xs = map Some fs" "map f_rule fs = xs" by auto
    moreover obtain f where "score_one sm mults fv x = Some f" "f_rule f = x"
      using score_defined [OF assms, of x] Cons.prems by auto
    ultimately show ?case by (intro exI [of _ "f # fs"]) simp
  qed
  from this [of rs] show ?thesis by (auto simp: all_some_iff)
qed

lemma fires_unit:
  assumes "score_one sm mults fv r = Some f" "r \<in> set rs" "fires f"
  shows "unit_float (f_adj f)"
proof -
  from assms(1) have f: "f_rule f = r" "fle (f_adj f) (Fin 1)"
    by (auto simp: score_one_def fmin_1_le)
  from assms(3) f mins [OF assms(2)] show ?thesis
    by (auto simp: fires_def unit_float_def intro: fle_trans) (auto simp: fle_def intro: flt_fle_trans)
qed

lemma scored_member:
  assumes "scored rs sm mults fv fs" "f \<in> set fs"
  shows "f_rule f \<in> set rs" "score_one sm mults fv (f_rule f) = Some f"
proof -
  from assms(1) have m: "map f_rule fs = rs" and s: "map (score_one sm mults fv) rs = map Some fs"
    by (auto simp: scored_def all_some_iff)
  from m assms(2) show "f_rule f \<in> set rs" by auto
  from s have "map (score_one sm mults fv \<circ> f_rule) fs = map Some fs" by (simp add: m [symmetric])
  with assms(2) show "score_one sm mults fv (f_rule f) = Some f" by (simp add: list_eq_iff_nth_eq in_set_conv_nth) blast
qed

lemma scored_unit: "scored rs sm mults fv fs \<Longrightarrow> f \<in> set fs \<Longrightarrow> fires f \<Longrightarrow> unit_float (f_adj f)"
  using scored_member fires_unit by blast

lemma scored_causes: "scored rs sm mults fv fs \<Longrightarrow> distinct (map (\<lambda>f. ru_id (f_rule f)) fs)"
proof -
  assume "scored rs sm mults fv fs"
  then have "map f_rule fs = rs" by (simp add: scored_def)
  then have "map (\<lambda>f. ru_id (f_rule f)) fs = map ru_id rs" by auto
  with ids show ?thesis by simp
qed

lemma ranked_by_score: "ranked fs = take 3 (by_score fs)"
  by (simp add: ranked_def by_score_def)

lemma set_by_score [simp]: "set (by_score fs) = {f \<in> set fs. fires f}"
  by (auto simp: by_score_def)

lemma sorted_by_score:
  assumes "scored rs sm mults fv fs"
  shows "sorted_wrt (\<lambda>a b. fle (f_adj b) (f_adj a)) (by_score fs)"
  unfolding by_score_def
proof (rule sorted_sort_desc [of "\<lambda>f. unit_float (f_adj f)"])
  show "\<forall>f \<in> set (filter fires fs). unit_float (f_adj f)" using scored_unit [OF assms] by auto
  show "fle (f_adj c) (f_adj a)" if "fle (f_adj b) (f_adj a)" "fle (f_adj c) (f_adj b)" for a b c
    using that by (blast intro: fle_trans)
qed (auto simp: unit_float_iff fle_def)

lemma ranked_facts:
  assumes "scored rs sm mults fv fs"
  shows "length (ranked fs) \<le> 3" "distinct (map (\<lambda>f. ru_id (f_rule f)) (ranked fs))"
    "sorted_wrt (\<lambda>a b. fle (f_adj b) (f_adj a)) (ranked fs)"
    "f \<in> set (ranked fs) \<Longrightarrow> f \<in> set fs \<and> fires f"
proof -
  show "length (ranked fs) \<le> 3" by (simp add: ranked_def)
  have "distinct (map (\<lambda>f. ru_id (f_rule f)) (by_score fs))"
    using scored_causes [OF assms] by (simp add: by_score_def distinct_map_filter)
  then show "distinct (map (\<lambda>f. ru_id (f_rule f)) (ranked fs))"
    by (metis ranked_by_score take_map distinct_take)
  show "sorted_wrt (\<lambda>a b. fle (f_adj b) (f_adj a)) (ranked fs)"
    unfolding ranked_by_score by (rule sorted_wrt_take) (rule sorted_by_score [OF assms])
  show "f \<in> set fs \<and> fires f" if "f \<in> set (ranked fs)"
    using that set_by_score by (auto simp: ranked_by_score dest: in_set_takeD)
qed

lemma unranked:
  assumes "scored rs sm mults fv fs" "f \<in> set fs" "fires f" "f \<notin> set (ranked fs)"
  shows "length (ranked fs) = 3" "\<forall>g \<in> set (ranked fs). fle (f_adj f) (f_adj g)"
proof -
  have "f \<in> set (take 3 (by_score fs) @ drop 3 (by_score fs))" using assms(2,3) by simp
  then have d: "f \<in> set (drop 3 (by_score fs))"
    using assms(4) unfolding set_append ranked_by_score by blast
  then have "drop 3 (by_score fs) \<noteq> []" by auto
  then show "length (ranked fs) = 3" by (simp add: ranked_by_score)
  have "sorted_wrt (\<lambda>a b. fle (f_adj b) (f_adj a)) (take 3 (by_score fs) @ drop 3 (by_score fs))"
    using sorted_by_score [OF assms(1)] by simp
  with d show "\<forall>g \<in> set (ranked fs). fle (f_adj f) (f_adj g)"
    unfolding sorted_wrt_append ranked_by_score by blast
qed

text \<open>On a run without data no rule fires, whatever finite multipliers it has.\<close>

lemma unmeasured_evaluate:
  assumes "unmeasured db run" "r \<in> set rs" "c \<in> set (ru_conds r @ ru_antis r)"
  shows "evaluate (extract_features n db run) c = Some False"
proof (cases "cd_feature c = ''congestion_hotspot_count''")
  case True
  obtain m where m: "cd_op c = ''>''" "0 \<le> m" "cd_threshold c = PInt m" using congested [OF assms(2,3) True] by blast
  have "pget (extract_features n db run) (cd_feature c) \<in> {PNone, PInt 0}"
    using unmeasured_features [OF assms(1), of n "cd_feature c"] True by simp
  moreover have "float_of_val (PInt 0) = Some (Fin 0)" by (simp add: float_of_int_def f64_def)
  ultimately show ?thesis using m by (auto simp: evaluate_def op_fn_def)
next
  case False
  then have "pget (extract_features n db run) (cd_feature c) = PNone"
    using unmeasured_features [OF assms(1), of n "cd_feature c"] by simp
  then show ?thesis by (simp add: evaluate_def)
qed

lemma met_conds_none: "\<forall>c \<in> set cs. evaluate fv c = Some False \<Longrightarrow> met_conds fv cs = Some []"
  by (induction cs) auto

lemma weight_sum_Nil [simp]: "weight_sum sm [] = Fin 0"
  by (cases sm) (simp_all add: weight_sum_def fsum_def)

lemma zero_raw: "fdiv (Fin 0) y = Some q \<Longrightarrow> fmax (Fin 0) (fsub q (Fin 0)) = Fin 0"
  by (cases y) (auto simp: fmax_def fsub_def f64_def split: if_splits)

lemma unmeasured_score:
  assumes "unmeasured db run" "r \<in> set rs"
  shows "rule_score sm (extract_features n db run) r = Some (Fin 0, [], [])"
proof -
  note e = unmeasured_evaluate [OF assms]
  obtain q where q: "fdiv (Fin 0) (total_weight sm (ru_conds r)) = Some q"
    using fdiv_defined [OF total_weight_nonzero] by blast
  have "met_conds (extract_features n db run) (ru_conds r) = Some []"
    "met_conds (extract_features n db run) (ru_antis r) = Some []"
    by (rule met_conds_none; use e in simp)+
  with q zero_raw [OF q] show ?thesis by (simp add: rule_score_def fsum_def)
qed

lemma unmeasured_not_fired:
  assumes "unmeasured db run" "r \<in> set rs" "dgetd m (ru_id r) (Fin 1) = Fin w"
  shows "\<exists>f. score_one sm m (extract_features n db run) r = Some f \<and> \<not> fires f"
  using mins [OF assms(2)] unmeasured_score [OF assms(1,2), of sm n]
  by (auto simp: score_one_def fires_def assms(3) f64_def fmin_def dest: flt_not_fle)

lemma unmeasured_ranked:
  assumes "unmeasured db run" "\<forall>r \<in> set rs. \<exists>w. dgetd m (ru_id r) (Fin 1) = Fin w"
  shows "\<exists>fs. all_some (map (score_one sm m (extract_features n db run)) rs) = Some fs \<and> ranked fs = []"
proof -
  have "\<exists>fs. map (score_one sm m (extract_features n db run)) xs = map Some fs \<and> filter fires fs = []"
    if "set xs \<subseteq> set rs" for xs using that
  proof (induction xs)
    case Nil
    then show ?case by simp
  next
    case (Cons x xs)
    then obtain fs where "map (score_one sm m (extract_features n db run)) xs = map Some fs" "filter fires fs = []"
      by auto
    moreover obtain f where "score_one sm m (extract_features n db run) x = Some f" "\<not> fires f"
      using unmeasured_not_fired [OF assms(1), of x m] assms(2) Cons.prems by (metis insert_subset list.simps(15))
    ultimately show ?case by (intro exI [of _ "f # fs"]) simp
  qed
  from this [of rs] show ?thesis by (auto simp: all_some_iff ranked_def sort_desc_def)
qed

lemma preferred_low:
  assumes "r \<in> set rs"
  shows "\<exists>e \<in> set (ru_exps r). preferred (ru_exps r) = Some e \<and> ex_risk e = ''low''"
proof -
  let ?low = "filter (\<lambda>e. ex_risk e = ''low'') (ru_exps r)"
  from low_risk [OF assms] have ne: "?low \<noteq> []" by (auto simp: filter_empty_conv)
  then obtain e es where e: "?low = e # es" by (cases ?low) auto
  have "e \<in> set ?low" unfolding e by simp
  then have "e \<in> set (ru_exps r)" "ex_risk e = ''low''" by simp_all
  with e show ?thesis by (auto simp: preferred_def Let_def)
qed

end

interpretation cat: rule_catalogue rules
proof unfold_locales
  show "distinct (map ru_id rules)" by (simp add: rules_def catalogue)
  have "list_all (\<lambda>r. list_all (\<lambda>c. cd_op c \<in> {''<'', ''>''} \<and> py_num (cd_threshold c) \<noteq> None) (ru_conds r @ ru_antis r)) rules"
    by (simp add: rules_def catalogue)
  then show "op_fn (cd_op c) \<noteq> None \<and> py_num (cd_threshold c) \<noteq> None"
    if "r \<in> set rules" "c \<in> set (ru_conds r @ ru_antis r)" for r c
    using that by (fastforce simp: list_all_iff op_fn_def)
  have "list_all (\<lambda>r. list_all (\<lambda>c. cd_feature c = ''congestion_hotspot_count'' \<longrightarrow> cd_op c = ''>'' \<and>
      (\<exists>n \<ge> 0. cd_threshold c = PInt n)) (ru_conds r @ ru_antis r)) rules"
    by (simp add: rules_def catalogue)
  then show "cd_op c = ''>'' \<and> (\<exists>n \<ge> 0. cd_threshold c = PInt n)"
    if "r \<in> set rules" "c \<in> set (ru_conds r @ ru_antis r)" "cd_feature c = ''congestion_hotspot_count''" for r c
    using that unfolding list_all_iff by blast
  show "flt (Fin 0) (ru_min r)" if "r \<in> set rules" for r
    using that by (auto simp: rules_def catalogue f64_small small_rat_def rnd64_above_quarter)
  show "\<exists>e \<in> set (ru_exps r). ex_risk e = ''low''" if "r \<in> set rules" for r
    using that by (auto simp: rules_def catalogue)
qed

end
