(* ===== verification/WeightLemmas.thy ===== *)
theory WeightLemmas
  imports InferenceLemmas
begin

text \<open>
  The learning of multipliers: the table of weights refines a dictionary from rules to
  multipliers, both ways of writing a row do the same, and a step keeps every multiplier a
  double between the bounds, raises the confirmed rule and lowers the others.
\<close>

section \<open>Arithmetic\<close>

definition is_double :: "pyfloat \<Rightarrow> bool" where
  "is_double x \<longleftrightarrow> (case x of Fin q \<Rightarrow> rnd64 q = q | _ \<Rightarrow> True)"

definition valid_mult :: "pyfloat \<Rightarrow> bool" where
  "valid_mult x \<longleftrightarrow> is_double x \<and> fle MIN_MULTIPLIER x \<and> fle x MAX_MULTIPLIER"

lemma is_double_f64 [simp]: "is_double (f64 x)"
  by (simp add: f64_def is_double_def Let_def)

lemma is_double_fadd [simp]: "is_double x \<Longrightarrow> is_double y \<Longrightarrow> is_double (fadd x y)"
  by (cases x; cases y) (simp_all, simp_all add: is_double_def)

lemma is_double_consts [simp]: "is_double (Fin 1)" "is_double (Fin 2)" "is_double DELTA" "is_double MIN_MULTIPLIER"
  using rnd64_of_int [of 2] by (simp_all add: DELTA_def MIN_MULTIPLIER_def) (simp_all add: is_double_def)

lemma is_double_fneg [simp]: "is_double x \<Longrightarrow> is_double (fneg x)"
  by (cases x) (auto simp: is_double_def rnd64_def)

lemma is_double_half [simp]: "is_double (half x)"
  by (cases x) (simp_all add: half_def, simp_all add: is_double_def)

lemma unit_consts:
  "\<exists>m. MIN_MULTIPLIER = Fin m \<and> 0 \<le> m \<and> m \<le> 1" "\<exists>d. DELTA = Fin d \<and> 0 \<le> d \<and> d \<le> 1"
proof -
  have "f64 (10 / 100) = Fin (rnd64 (10 / 100))" "f64 (5 / 100) = Fin (rnd64 (5 / 100))"
    by (rule f64_small, simp add: small_rat_def)+
  then show "\<exists>m. MIN_MULTIPLIER = Fin m \<and> 0 \<le> m \<and> m \<le> 1" "\<exists>d. DELTA = Fin d \<and> 0 \<le> d \<and> d \<le> 1"
    by (auto simp: MIN_MULTIPLIER_def DELTA_def intro: rnd64_nonneg rnd64_le_1)
qed

lemma half_neg_delta: "\<exists>d. half (fneg DELTA) = Fin d \<and> - 1 \<le> d \<and> d \<le> 0"
proof -
  obtain d where d: "DELTA = Fin d" "0 \<le> d" "d \<le> 1" using unit_consts(2) by blast
  have "half (fneg DELTA) = f64 (- d / 2)" by (simp add: half_def d(1))
  also have "\<dots> = Fin (rnd64 (- d / 2))" by (rule f64_small) (use d in \<open>simp add: small_rat_def\<close>)
  finally have h: "half (fneg DELTA) = Fin (rnd64 (- d / 2))" .
  have "rnd64 (- d / 2) \<le> of_int 0" by (rule rnd64_le_of_int) (use d in simp_all)
  moreover have "of_int (- 1) \<le> rnd64 (- d / 2)" by (rule rnd64_ge_of_int) (use d in simp_all)
  ultimately show ?thesis using h by simp
qed

lemma valid_multD: "valid_mult x \<Longrightarrow> \<exists>q. x = Fin q \<and> rnd64 q = q \<and> 0 \<le> q \<and> q \<le> 2"
proof -
  assume v: "valid_mult x"
  obtain m where m: "MIN_MULTIPLIER = Fin m" "0 \<le> m" using unit_consts(1) by blast
  show ?thesis using v m(2) by (cases x) (auto simp: valid_mult_def is_double_def MAX_MULTIPLIER_def fle_def m(1))
qed

lemma clamp_valid:
  assumes "is_double v"
  shows "valid_mult (clamp v)"
proof -
  obtain m where m: "MIN_MULTIPLIER = Fin m" "0 \<le> m" "m \<le> 1" using unit_consts(1) by blast
  have "is_double (Fin m)" using is_double_consts(4) by (simp only: m(1))
  with assms m(2,3) show ?thesis
    by (cases v) (auto simp: valid_mult_def clamp_def fmax_def fmin_def MAX_MULTIPLIER_def fle_def m(1))
qed

lemma valid_1: "valid_mult (Fin 1)"
proof -
  obtain m where m: "MIN_MULTIPLIER = Fin m" "m \<le> 1" using unit_consts(1) by blast
  then show ?thesis by (simp add: valid_mult_def MAX_MULTIPLIER_def m(1))
qed

lemma clamp_add:
  assumes "valid_mult x" "- 1 \<le> d" "d \<le> 1"
  shows "0 \<le> d \<Longrightarrow> fle x (clamp (fadd x (Fin d)))" "d \<le> 0 \<Longrightarrow> fle (clamp (fadd x (Fin d))) x"
proof -
  obtain m where m: "MIN_MULTIPLIER = Fin m" using unit_consts(1) by blast
  obtain q where q: "x = Fin q" "rnd64 q = q" "0 \<le> q" "q \<le> 2" using valid_multD [OF assms(1)] by blast
  have mq: "m \<le> q" using assms(1) by (simp add: valid_mult_def m q(1))
  have s: "fadd x (Fin d) = Fin (rnd64 (q + d))"
    using q assms by (simp add: f64_small small_rat_def abs_le_iff)
  note defs = clamp_def fmax_def fmin_def MAX_MULTIPLIER_def m
  show "fle x (clamp (fadd x (Fin d)))" if "0 \<le> d"
    using rnd64_mono [of q "q + d"] that q(2,4) mq
    unfolding s defs unfolding q(1) by simp
  show "fle (clamp (fadd x (Fin d))) x" if "d \<le> 0"
    using rnd64_mono [of "q + d" q] that q(2,4) mq
    unfolding s defs unfolding q(1) by simp
qed

section \<open>The updates of one confirmation\<close>

definition mult_of :: "multipliers \<Rightarrow> string \<Rightarrow> pyfloat" where
  "mult_of m i = dgetd m i (Fin 1)"

lemma dget_adj [simp]: "dget (adj cur i c u) j = (if j = i then Some (clamp (fadd (mult_of cur i) c)) else dget u j)"
  by (simp add: adj_def mult_of_def)

lemma wf_adj [simp]: "wf_dict u \<Longrightarrow> wf_dict (adj cur i c u)"
  by (simp add: adj_def)

lemma dget_adj_all:
  "dget (foldl (\<lambda>u i. adj cur i c u) u ids) j =
     (if j \<in> set ids then Some (clamp (fadd (mult_of cur j) c)) else dget u j)"
  by (induction ids arbitrary: u) auto

lemma wf_adj_all: "wf_dict u \<Longrightarrow> wf_dict (foldl (\<lambda>u i. adj cur i c u) u ids)"
  by (induction ids arbitrary: u) auto

lemma wf_weight_updates: "wf_dict (weight_updates cur c ids d)"
  by (auto simp: weight_updates_def wf_adj_all wf_dict_def [of "[]"] split: list.split)

lemma updates_confirmed: "dget (weight_updates cur c ids d) c = Some (clamp (fadd (mult_of cur c) d))"
  by (auto simp: weight_updates_def dget_adj_all split: list.split)

lemma updates_other:
  "j \<noteq> c \<Longrightarrow> dget (weight_updates cur c ids d) j = Some m \<Longrightarrow>
     j \<in> set ids \<and> (m = clamp (fadd (mult_of cur j) (fneg d)) \<or> m = clamp (fadd (mult_of cur j) (half (fneg d))))"
  by (auto simp: weight_updates_def dget_adj_all split: list.splits if_splits)

section \<open>The table refines a dictionary\<close>

abbreviation mults :: "weight_row list \<Rightarrow> multipliers" where
  "mults rows \<equiv> get_multipliers True rows"

lemma mults_upsert: "mults (upsert_weight now (i, m) rows) = dset i m (mults rows)"
  by (induction rows) (auto simp: get_multipliers_def set_weight_def)

lemma dkeys_mults: "dkeys (mults rows) = map w_rule rows"
  by (simp add: get_multipliers_def)

lemma rules_upsert: "map w_rule (upsert_weight now (i, m) rows) = dkeys (dset i m (mults rows))"
  by (simp only: mults_upsert [of now, symmetric] dkeys_mults)

lemma update_none: "i \<notin> set (map w_rule rows) \<Longrightarrow>
   map (\<lambda>r. if w_rule r = i then set_weight now m r else r) rows = rows"
  by (rule map_idI) auto

lemma update_else_insert_eq:
  "distinct (map w_rule rows) \<Longrightarrow> update_else_insert now (i, m) rows = upsert_weight now (i, m) rows"
proof (induction rows)
  case Nil
  then show ?case by (simp add: update_else_insert_def)
next
  case (Cons r rows)
  show ?case
  proof (cases "w_rule r = i")
    case True
    with Cons.prems have "i \<notin> set (map w_rule rows)" by simp
    from update_none [OF this] True show ?thesis by (simp add: update_else_insert_def)
  next
    case False
    with Cons show ?thesis by (simp add: update_else_insert_def Let_def split: if_splits)
  qed
qed

lemma distinct_upsert: "distinct (map w_rule rows) \<Longrightarrow> distinct (map w_rule (upsert_weight now p rows))"
  by (cases p) (simp only: rules_upsert, simp only: distinct_dset dkeys_mults)

lemma persist_refines:
  "distinct (map w_rule rows) \<Longrightarrow>
   mults (persist_updates True oc now us rows) = dupdate (mults rows) us \<and>
   distinct (map w_rule (persist_updates True oc now us rows))"
proof (induction us arbitrary: rows)
  case Nil
  then show ?case by (simp add: persist_updates_def)
next
  case (Cons p us)
  obtain i m where p: "p = (i, m)" by (cases p)
  let ?rows = "upsert_weight now (i, m) rows"
  have "distinct (map w_rule ?rows)" using Cons.prems by (rule distinct_upsert)
  from Cons.IH [OF this] update_else_insert_eq [OF Cons.prems, of now i m] show ?case
    by (cases oc) (simp_all add: persist_updates_def p mults_upsert)
qed

end
