(* ===== verification/InferenceProps.thy ===== *)
theory InferenceProps
  imports WeightLemmas
begin

text \<open>
  Properties of the inference engine: the ranked report of \<open>infer\<close>, the runs without data, and
  what a confirmation teaches the multipliers.
\<close>

section \<open>The report\<close>

lemma fst_enumerate: "map fst (enumerate n xs) = [n..<n + length xs]"
  by (simp add: enumerate_eq_zip)

lemma snd_enumerate: "map snd (enumerate n xs) = xs"
  by (simp add: enumerate_eq_zip)

lemma hypotheses_fields:
  "map h_rank (hypotheses m fs) = [1..<Suc (length (ranked fs))]"
  "map h_cause (hypotheses m fs) = map (\<lambda>f. ru_id (f_rule f)) (ranked fs)"
  "map h_score (hypotheses m fs) = map (\<lambda>f. round4 (f_adj f)) (ranked fs)"
  "map h_exps (hypotheses m fs) = map (\<lambda>f. ru_exps (f_rule f)) (ranked fs)"
proof -
  have r: "h_rank \<circ> hypothesis_of m = fst" "h_cause \<circ> hypothesis_of m = (\<lambda>f. ru_id (f_rule f)) \<circ> snd"
    "h_score \<circ> hypothesis_of m = (\<lambda>f. round4 (f_adj f)) \<circ> snd"
    "h_exps \<circ> hypothesis_of m = (\<lambda>f. ru_exps (f_rule f)) \<circ> snd"
    by (auto simp: hypothesis_of_def Let_def fun_eq_iff)
  show "map h_rank (hypotheses m fs) = [1..<Suc (length (ranked fs))]"
    unfolding hypotheses_def map_map r fst_enumerate by simp
  show "map h_cause (hypotheses m fs) = map (\<lambda>f. ru_id (f_rule f)) (ranked fs)"
    "map h_score (hypotheses m fs) = map (\<lambda>f. round4 (f_adj f)) (ranked fs)"
    "map h_exps (hypotheses m fs) = map (\<lambda>f. ru_exps (f_rule f)) (ranked fs)"
    unfolding hypotheses_def map_map r unfolding map_map [symmetric] snd_enumerate by simp_all
qed

lemma length_hypotheses [simp]: "length (hypotheses m fs) = length (ranked fs)"
  by (simp add: hypotheses_def)

lemma score_in_hypotheses:
  assumes "h \<in> set (hypotheses m fs)"
  shows "\<exists>f \<in> set (ranked fs). h_cause h = ru_id (f_rule f) \<and> h_score h = round4 (f_adj f)"
proof -
  from assms obtain n f where "(n, f) \<in> set (enumerate 1 (ranked fs))" "h = hypothesis_of m (n, f)"
    by (auto simp: hypotheses_def)
  moreover from this(1) have "f \<in> set (map snd (enumerate 1 (ranked fs)))"
    unfolding set_map by (rule image_eqI [rotated]) simp
  then have "f \<in> set (ranked fs)" by (simp only: snd_enumerate)
  ultimately show ?thesis by (auto simp: hypothesis_of_def Let_def)
qed

lemma infer_scored:
  assumes "numeric (extract_features (ie_answered env) (tables k) run)"
  obtains fs where
    "scored rules (ie_sum env) (get_multipliers (ie_weights env) (weights k))
       (extract_features (ie_answered env) (tables k) run) fs"
    "\<exists>rep k'. infer env run symptoms k = Some (rep, k') \<and>
       rp_hyps rep = hypotheses (get_multipliers (ie_weights env) (weights k)) fs \<and>
       rp_next rep = build_next_action (rp_hyps rep) \<and> rp_summary rep = build_summary (rp_hyps rep)"
proof -
  let ?m = "get_multipliers (ie_weights env) (weights k)"
  let ?fv = "extract_features (ie_answered env) (tables k) run"
  obtain fs where fs: "all_some (map (score_one (ie_sum env) ?m ?fv) rules) = Some fs" "map f_rule fs = rules"
    using cat.scores [OF assms] by blast
  show ?thesis
  proof (rule that [of fs])
    show "scored rules (ie_sum env) ?m ?fv fs" using fs by (simp add: scored_def)
    show "\<exists>rep k'. infer env run symptoms k = Some (rep, k') \<and> rp_hyps rep = hypotheses ?m fs \<and>
       rp_next rep = build_next_action (rp_hyps rep) \<and> rp_summary rep = build_summary (rp_hyps rep)"
      using fs(1) by (auto simp: infer_def Let_def split: prod.split)
  qed
qed

text \<open>The hypotheses built from the scored rules of a run.\<close>

lemma hyps_sorted:
  assumes "scored rules sm m fv fs"
  shows "distinct (map h_cause (hypotheses m fs))"
    "sorted_wrt (\<lambda>a b. fle (h_score b) (h_score a)) (hypotheses m fs)"
proof -
  note r = cat.ranked_facts [OF assms]
  show "distinct (map h_cause (hypotheses m fs))" using r(2) by (simp add: hypotheses_fields)
  have "sorted_wrt (\<lambda>a b. fle (round4 (f_adj b)) (round4 (f_adj a))) (ranked fs)"
    by (rule sorted_wrt_mono_rel [OF _ r(3)]) (use r(4) cat.scored_unit [OF assms] in \<open>blast intro: round4_mono\<close>)
  then have "sorted_wrt (\<lambda>a b. fle b a) (map h_score (hypotheses m fs))"
    by (simp add: hypotheses_fields sorted_wrt_map)
  then show "sorted_wrt (\<lambda>a b. fle (h_score b) (h_score a)) (hypotheses m fs)" by (simp add: sorted_wrt_map)
qed

lemma hyps_scores:
  assumes "scored rules sm m fv fs" "h \<in> set (hypotheses m fs)"
  shows "fle (Fin 0) (h_score h) \<and> fle (h_score h) (Fin 1) \<and>
    (\<exists>r \<in> set rules. \<exists>f. score_one sm m fv r = Some f \<and> fle (ru_min r) (f_adj f) \<and>
       h_cause h = ru_id r \<and> h_score h = round4 (f_adj f))"
proof -
  obtain f where f: "f \<in> set (ranked fs)" "h_cause h = ru_id (f_rule f)" "h_score h = round4 (f_adj f)"
    using score_in_hypotheses [OF assms(2)] by blast
  with cat.ranked_facts(4) [OF assms(1)] have m: "f \<in> set fs" "fires f" by blast+
  from unit_float_round4 [OF cat.scored_unit [OF assms(1) m]] cat.scored_member [OF assms(1) m(1)] m(2) f
  show ?thesis unfolding unit_float_def fires_def by metis
qed

lemma hyps_complete:
  assumes "scored rules sm m fv fs" "r \<in> set rules" "score_one sm m fv r = Some f" "fle (ru_min r) (f_adj f)"
    and "ru_id r \<notin> h_cause ` set (hypotheses m fs)"
  shows "length (hypotheses m fs) = 3 \<and> (\<forall>h \<in> set (hypotheses m fs). fle (round4 (f_adj f)) (h_score h))"
proof -
  from assms(1) have "map f_rule fs = rules" by (simp add: scored_def)
  with assms(2) have "r \<in> f_rule ` set fs" by (metis set_map)
  then obtain g where g: "g \<in> set fs" "f_rule g = r" by auto
  with cat.scored_member(2) [OF assms(1) g(1)] assms(3) have "g = f" by simp
  with g have f: "f \<in> set fs" "f_rule f = r" by simp_all
  with assms(4) have fi: "fires f" by (simp add: fires_def)
  have "ru_id r \<notin> set (map h_cause (hypotheses m fs))" using assms(5) by simp
  then have nr: "f \<notin> set (ranked fs)" using f(2) unfolding hypotheses_fields by auto
  note u = cat.unranked [OF assms(1) f(1) fi nr]
  have "fle (round4 (f_adj f)) (h_score h)" if mem: "h \<in> set (hypotheses m fs)" for h
  proof -
    obtain g where g: "g \<in> set (ranked fs)" "h_score h = round4 (f_adj g)"
      using score_in_hypotheses [OF mem] by blast
    with u(2) cat.ranked_facts(4) [OF assms(1) g(1)] cat.scored_unit [OF assms(1)] f(1) fi
    show ?thesis by (auto intro: round4_mono)
  qed
  with u(1) show ?thesis by simp
qed

lemma hyps_next:
  assumes "scored rules sm m fv fs" "hypotheses m fs \<noteq> []"
  shows "\<exists>e \<in> set (h_exps (hd (hypotheses m fs))). ex_risk e = ''low'' \<and>
    build_next_action (hypotheses m fs) = TryFirst (ex_action e) (ex_hint e)"
proof -
  obtain h hs where h: "hypotheses m fs = h # hs" using assms(2) by (cases "hypotheses m fs") auto
  with hypotheses_fields(4) [of m fs] obtain f where f: "f \<in> set (ranked fs)" "h_exps h = ru_exps (f_rule f)"
    by (cases "ranked fs") auto
  with cat.ranked_facts(4) [OF assms(1)] have "f_rule f \<in> set rules" using cat.scored_member(1) [OF assms(1)] by blast
  from cat.preferred_low [OF this] f(2) show ?thesis by (auto simp: h build_next_action_def)
qed

text \<open>
  C15: On tables whose columns hold numbers \<open>infer\<close> returns a report. It lists at most three
  hypotheses with the ranks 1, 2, 3, each of another rule, in descending order of their scores,
  which lie between 0 and 1; each belongs to a rule whose score, weighted by its multiplier,
  reaches the rule's minimum. A rule that reaches its minimum is missing only behind three that
  score at least as high. When there is a hypothesis the recommended action is a low-risk
  experiment of the first one.
\<close>

theorem infer_ranked:
  fixes env :: infer_env and run :: int
  assumes "typed_tables (tables k)"
  defines "one \<equiv> score_one (ie_sum env) (get_multipliers (ie_weights env) (weights k))
      (extract_features (ie_answered env) (tables k) run)"
  shows "\<exists>rep k'. infer env run symptoms k = Some (rep, k') \<and>
    length (rp_hyps rep) \<le> 3 \<and> map h_rank (rp_hyps rep) = [1..<Suc (length (rp_hyps rep))] \<and>
    distinct (map h_cause (rp_hyps rep)) \<and>
    sorted_wrt (\<lambda>a b. fle (h_score b) (h_score a)) (rp_hyps rep) \<and>
    (\<forall>h \<in> set (rp_hyps rep). fle (Fin 0) (h_score h) \<and> fle (h_score h) (Fin 1) \<and>
       (\<exists>r \<in> set rules. \<exists>f. one r = Some f \<and> fle (ru_min r) (f_adj f) \<and>
          h_cause h = ru_id r \<and> h_score h = round4 (f_adj f))) \<and>
    (\<forall>r \<in> set rules. \<forall>f. one r = Some f \<longrightarrow> fle (ru_min r) (f_adj f) \<longrightarrow> ru_id r \<notin> h_cause ` set (rp_hyps rep) \<longrightarrow>
       length (rp_hyps rep) = 3 \<and> (\<forall>h \<in> set (rp_hyps rep). fle (round4 (f_adj f)) (h_score h))) \<and>
    (rp_hyps rep \<noteq> [] \<longrightarrow> (\<exists>e \<in> set (h_exps (hd (rp_hyps rep))). ex_risk e = ''low'' \<and>
       rp_next rep = TryFirst (ex_action e) (ex_hint e)))"
proof -
  obtain fs where fs: "scored rules (ie_sum env) (get_multipliers (ie_weights env) (weights k))
      (extract_features (ie_answered env) (tables k) run) fs"
    and rep: "\<exists>rep k'. infer env run symptoms k = Some (rep, k') \<and>
       rp_hyps rep = hypotheses (get_multipliers (ie_weights env) (weights k)) fs \<and>
       rp_next rep = build_next_action (rp_hyps rep) \<and> rp_summary rep = build_summary (rp_hyps rep)"
    by (rule infer_scored [OF typed_numeric [OF assms(1)]])
  then obtain rep k' where i: "infer env run symptoms k = Some (rep, k')"
    and h: "rp_hyps rep = hypotheses (get_multipliers (ie_weights env) (weights k)) fs"
    and n: "rp_next rep = build_next_action (rp_hyps rep)" by blast
  have "length (rp_hyps rep) \<le> 3" unfolding h by (simp add: cat.ranked_facts(1) [OF fs])
  moreover have "map h_rank (rp_hyps rep) = [1..<Suc (length (rp_hyps rep))]"
    unfolding h by (simp add: hypotheses_fields)
  moreover note hyps_sorted [OF fs, folded h]
  moreover note ballI [OF hyps_scores [OF fs, folded h]]
  moreover have "\<forall>r \<in> set rules. \<forall>f. one r = Some f \<longrightarrow> fle (ru_min r) (f_adj f) \<longrightarrow>
      ru_id r \<notin> h_cause ` set (rp_hyps rep) \<longrightarrow>
      length (rp_hyps rep) = 3 \<and> (\<forall>h \<in> set (rp_hyps rep). fle (round4 (f_adj f)) (h_score h))"
    using hyps_complete [OF fs, folded h] unfolding one_def by blast
  moreover have "rp_hyps rep \<noteq> [] \<longrightarrow> (\<exists>e \<in> set (h_exps (hd (rp_hyps rep))). ex_risk e = ''low'' \<and>
      rp_next rep = TryFirst (ex_action e) (ex_hint e))"
    using hyps_next [OF fs, folded h] unfolding n by blast
  ultimately show ?thesis using i unfolding one_def by (intro exI conjI) assumption+
qed

text \<open>A run that is measured on one table only.\<close>

definition example_tables :: analytics where
  "example_tables =
     \<lparr>columns = declared_schema,
      timing_tab = [\<lparr>tr_run = 1, tr_cols = [(''wns_ns'', PFloat (Fin (- 2)))]\<rparr>], hotspot_tab = [],
      util_tab = [], power_tab = [], drc_tab = []\<rparr>"

definition example_knowledge :: knowledge where
  "example_knowledge =
     \<lparr>tables = example_tables, runs = [(1, (''aes'', ''sky130hd''))], weights = [], inferences = [],
      next_inference = 1, cases = (1, [])\<rparr>"

theorem infer_ranked_witness:
  "\<exists>rep k'. infer \<lparr>ie_sum = LeftToRight, ie_answered = 1, ie_weights = True, ie_insert = True\<rparr> 1 ''slow'' example_knowledge
      = Some (rep, k') \<and> length (rp_hyps rep) \<le> 3"
proof -
  let ?env = "\<lparr>ie_sum = LeftToRight, ie_answered = 1, ie_weights = True, ie_insert = True\<rparr>"
  have "typed_tables (tables example_knowledge)"
    by (simp add: example_knowledge_def example_tables_def typed_tables_def row_ok_def)
  from infer_ranked [OF this] show ?thesis by blast
qed

section \<open>Runs without data\<close>

lemma infer_unmeasured:
  assumes "unmeasured (tables k) run" "\<forall>r \<in> set (weights k). valid_mult (w_mult r)"
  shows "\<exists>rep k'. infer env run symptoms k = Some (rep, k') \<and> rp_hyps rep = [] \<and>
    rp_summary rep = NoRootCause \<and> rp_next rep = CollectMoreData"
proof -
  let ?m = "get_multipliers (ie_weights env) (weights k)"
  have "\<exists>w. dgetd ?m i (Fin 1) = Fin w" for i
    using assms(2) valid_multD
    by (fastforce simp: dgetd_def get_multipliers_def dest!: dget_Some_in split: option.split)
  then obtain fs where fs: "all_some (map (score_one (ie_sum env) ?m (extract_features (ie_answered env) (tables k) run)) rules) = Some fs"
    "ranked fs = []"
    using cat.unmeasured_ranked [OF assms(1)] by blast
  then show ?thesis
    by (auto simp: infer_def Let_def hypotheses_def build_summary_def build_next_action_def split: prod.split)
qed

text \<open>
  On a database with the declared schema the power figures and the number of design-rule
  violations are never read: whatever the two tables hold, \<open>infer\<close> reports the same, with these
  features missing.
\<close>

theorem declared_schema_hides_drc:
  fixes env :: infer_env and run :: int and ps :: "summary_row list" and ds :: "drc_row list"
  assumes "columns (tables k) = declared_schema"
  defines "k' \<equiv> k\<lparr>tables := (tables k)\<lparr>power_tab := ps, drc_tab := ds\<rparr>\<rparr>"
  shows "map_option fst (infer env run symptoms k') = map_option fst (infer env run symptoms k) \<and>
    (\<forall>feature \<in> {''drc_total'', ''total_power_mw'', ''dynamic_power_mw'', ''leakage_power_mw''}.
       pget (extract_features (ie_answered env) (tables k') run) feature = PNone)"
proof -
  note f = features_declared [of "tables k'" "ie_answered env" run] features_declared [OF assms(1), of "ie_answered env" run]
  have c: "columns (tables k') = declared_schema" using assms(1) by (simp add: k'_def)
  have x: "extract_features (ie_answered env) (tables k') run = extract_features (ie_answered env) (tables k) run"
    using f c by (simp add: k'_def read_features_three)
  have w: "weights k' = weights k" "next_inference k' = next_inference k" "runs k' = runs k" by (simp_all add: k'_def)
  have "map_option fst (infer env run symptoms k') = map_option fst (infer env run symptoms k)"
    unfolding infer_def Let_def x w
    by (simp add: option.map_comp o_def split_beta save_inference_def w if_distrib cong: if_cong)
  moreover have "pget (extract_features (ie_answered env) (tables k') run) feature = PNone"
    if "feature \<in> insert ''drc_total'' (set power_cols)" for feature
    unfolding f(1) [OF c] by (rule unread_features [OF _ that]) simp
  ultimately show ?thesis by (simp add: power_cols_def)
qed

theorem declared_schema_hides_drc_witness:
  "pget (extract_features 5 (example_tables\<lparr>drc_tab := [\<lparr>dr_run = 1, dr_type = ''SUMMARY'', dr_total = Some 900\<rparr>]\<rparr>) 1)
     ''drc_total'' = PNone"
proof -
  have "columns (tables example_knowledge) = declared_schema" by (simp add: example_knowledge_def example_tables_def)
  from declared_schema_hides_drc [OF this, of "\<lparr>ie_sum = LeftToRight, ie_answered = 5, ie_weights = True, ie_insert = True\<rparr>"
      1 "[]" "[\<lparr>dr_run = 1, dr_type = ''SUMMARY'', dr_total = Some 900\<rparr>]"]
  show ?thesis by (simp add: example_knowledge_def example_tables_def)
qed

section \<open>Learning\<close>

definition weights_ok :: "weight_row list \<Rightarrow> bool" where
  "weights_ok rows \<longleftrightarrow> distinct (map w_rule rows) \<and> (\<forall>r \<in> set rows. valid_mult (w_mult r))"

lemma find_mark_chosen:
  "find (\<lambda>r. inf_id r = i) (mark_chosen cause now j rows) =
   map_option (\<lambda>r. if inf_id r = j then r\<lparr>inf_chosen := Some cause, inf_confirmed_at := Some now\<rparr> else r)
     (find (\<lambda>r. inf_id r = i) rows)"
  by (induction rows) (auto simp: mark_chosen_def)

lemma confirm_weights:
  assumes "find (\<lambda>r. inf_id r = i) (inferences k) = Some rec" "ce_record env"
  shows "weights (snd (confirm env i cause k)) =
    persist_updates (ce_write_weights env) (ce_on_conflict env) (ce_now env)
      (weight_updates (get_multipliers (ce_read_weights env) (weights k)) cause (map h_cause (inf_hyps rec)) DELTA)
      (weights k)"
  using assms
  by (auto simp: confirm_def Let_def find_mark_chosen learn_weights_def split: prod.split)

lemma mult_of_dupdate:
  "wf_dict us \<Longrightarrow> mult_of (dupdate d us) j = (case dget us j of None \<Rightarrow> mult_of d j | Some m \<Rightarrow> m)"
  by (auto simp: mult_of_def dgetd_def dget_dupdate split: option.splits)

lemma mult_of_valid: "weights_ok rows \<Longrightarrow> valid_mult (mult_of (mults rows) i)"
  by (auto simp: mult_of_def dgetd_def weights_ok_def get_multipliers_def valid_1 dest!: dget_Some_in split: option.split)

lemma weights_ok_iff: "weights_ok rows \<longleftrightarrow> wf_dict (mults rows) \<and> (\<forall>m \<in> snd ` set (mults rows). valid_mult m)"
  by (auto simp: weights_ok_def wf_dict_def get_multipliers_def o_def)

lemma valid_dupdate:
  "\<forall>m \<in> snd ` set d. P m \<Longrightarrow> \<forall>m \<in> snd ` set us. P m \<Longrightarrow> \<forall>m \<in> snd ` set (dupdate d us). P m"
proof (induction us arbitrary: d)
  case Nil
  then show ?case by simp
next
  case (Cons p us)
  obtain k v where p: "p = (k, v)" by (cases p)
  have "\<forall>m \<in> snd ` set (dset k v d). P m" using Cons.prems set_dset_sub [of k v d] p by fastforce
  from Cons.IH [OF this] Cons.prems(2) show ?case by (simp add: p)
qed

lemma weight_update_valid:
  assumes "weights_ok rows" "dget (weight_updates (mults rows) c ids DELTA) j = Some m"
  shows "valid_mult m" "j = c \<Longrightarrow> fle (mult_of (mults rows) j) m" "j \<noteq> c \<Longrightarrow> fle m (mult_of (mults rows) j) \<and> j \<in> set ids"
proof -
  let ?x = "mult_of (mults rows) j"
  have v: "valid_mult ?x" by (rule mult_of_valid [OF assms(1)])
  then have d: "is_double ?x" by (simp add: valid_mult_def)
  obtain e where e: "DELTA = Fin e" "0 \<le> e" "e \<le> 1" using unit_consts(2) by blast
  obtain g where g: "half (fneg DELTA) = Fin g" "- 1 \<le> g" "g \<le> 0" using half_neg_delta by blast
  have n: "fneg DELTA = Fin (- e)" by (simp add: e(1))
  have cases: "j = c \<and> m = clamp (fadd ?x DELTA) \<or>
      j \<noteq> c \<and> j \<in> set ids \<and> (m = clamp (fadd ?x (fneg DELTA)) \<or> m = clamp (fadd ?x (half (fneg DELTA))))"
    using assms(2) updates_confirmed [of "mults rows" c ids DELTA] updates_other [of j c "mults rows" ids DELTA m]
    by (cases "j = c") auto
  then show "valid_mult m" using d by (auto intro!: clamp_valid)
  show "fle ?x m" if "j = c" using cases clamp_add(1) [OF v, of e] e that by auto
  show "fle m ?x \<and> j \<in> set ids" if "j \<noteq> c"
    using cases clamp_add(2) [OF v, of "- e"] clamp_add(2) [OF v, of g] e(2,3) g that n by auto
qed


definition example_recorded :: knowledge where
  "example_recorded = example_knowledge\<lparr>inferences :=
     [\<lparr>inf_id = 1, inf_run = 1, inf_symptoms = ''slow'', inf_features = [], inf_hyps = [], inf_chosen = None,
       inf_confirmed_at = None\<rparr>]\<rparr>"

definition example_confirm :: confirm_env where
  "example_confirm = \<lparr>ce_record = True, ce_design = True, ce_read_weights = True, ce_write_weights = True,
     ce_case = True, ce_on_conflict = True,
     ce_now = \<lparr>year = 2026, month = 1, day = 1, hour = 0, minute = 0, second = 0, micro = 0\<rparr>\<rparr>"


text \<open>
  C17: The table of weights refines a dictionary: reading it behind a write gives the dictionary
  updated by the written multipliers, whichever way the rows are written, or the old one when the
  write fails. Both ways leave the same table, and \<open>rule_id\<close> stays a key.
\<close>

theorem weights_refine_dictionary:
  fixes rows :: "weight_row list" and us :: multipliers and ok on_conflict :: bool and now :: datetime
  assumes "distinct (map w_rule rows)"
  defines "written \<equiv> persist_updates ok on_conflict now us rows"
  shows "get_multipliers True written = (if ok then dupdate (get_multipliers True rows) us else get_multipliers True rows) \<and>
    distinct (map w_rule written) \<and> written = persist_updates ok True now us rows"
proof -
  have "fold (update_else_insert now) us rows = fold (upsert_weight now) us rows"
    using assms(1)
  proof (induction us arbitrary: rows)
    case Nil
    then show ?case by simp
  next
    case (Cons p us)
    from Cons.IH [OF distinct_upsert [OF Cons.prems, of now p]] update_else_insert_eq [OF Cons.prems]
    show ?case by (cases p) simp
  qed
  then have "written = persist_updates ok True now us rows" by (simp add: written_def persist_updates_def)
  with persist_refines [OF assms(1), of True now us] assms(1) show ?thesis
    by (cases ok) (simp_all add: persist_updates_def)
qed

theorem weights_refine_dictionary_witness:
  "get_multipliers True (persist_updates True False (ce_now example_confirm) [(''cts_skew'', Fin 1)] []) =
     [(''cts_skew'', Fin 1)]"
  using conjunct1 [OF weights_refine_dictionary
    [of "[]" True False "ce_now example_confirm" "[(''cts_skew'', Fin 1)]", simplified if_True]]
  by (simp add: get_multipliers_def [of True "[]"])

end
