(* ===== verification/TargetCheck.thy ===== *)
theory TargetCheck
  imports PyValue
begin

text \<open>
  \<open>eda_agent/agent/tool_impl_tuning_eval.py\<close>: the check of a target such as
  \<open>WNS >= -0.1 and overflow_h_pct <= 2.0\<close> against the metrics of a run, and the choice of the stage
  to run again. The two regular expressions are read by hand: no alternative is a match where an
  earlier one fails, so matching needs no backtracking. \<open>None\<close> is the exception of \<open>float\<close>.
\<close>

section \<open>Reading the conditions of a target\<close>

type_synonym target_cond = "string \<times> string \<times> string"

definition timing_aliases :: "string list" where
  "timing_aliases = [''wns'', ''tns'', ''fmax'', ''fep'', ''failing_endpoints'', ''failing endpoints'',
     ''setup_violations'', ''hold_violations'']"

definition congestion_aliases :: "string list" where
  "congestion_aliases = [''overflow_h_pct'', ''overflow_v_pct'', ''overflow_pct'', ''overflow'']"

definition operators :: "string list" where
  "operators = [''>='', ''<='', ''>'', ''<'', ''=='']"

text \<open>The first of the alternatives that starts the text, and the rest.\<close>

definition match_first :: "string list \<Rightarrow> string \<Rightarrow> (string \<times> string) option" where
  "match_first alts s = map_option (\<lambda>a. (a, drop (length a) s)) (find (\<lambda>a. is_prefix a s) alts)"

definition skip_spaces :: "string \<Rightarrow> string" where
  "skip_spaces s = dropWhile is_space s"

definition number_char :: "char \<Rightarrow> bool" where
  "number_char c \<longleftrightarrow> is_digit c \<or> c = CHR ''.''"

text \<open>\<open>-?[\d.]+\<close>\<close>

definition match_number :: "string \<Rightarrow> (string \<times> string) option" where
  "match_number s =
     (let (sign, t) = (case s of CHR ''-'' # t \<Rightarrow> (''-'', t) | _ \<Rightarrow> ('''', s));
          ds = takeWhile number_char t
      in if ds = [] then None else Some (sign @ ds, dropWhile number_char t))"

text \<open>One condition at the start of the text; \<open>pct\<close> for the expression that ends in \<open>%?\<close>.\<close>

definition match_cond :: "bool \<Rightarrow> string list \<Rightarrow> string \<Rightarrow> (target_cond \<times> string) option" where
  "match_cond pct aliases s =
     Option.bind (match_first aliases s) (\<lambda>(a, r).
     Option.bind (match_first operators (skip_spaces r)) (\<lambda>(op, r).
     map_option (\<lambda>(n, r). ((a, op, n), case r of CHR ''%'' # t \<Rightarrow> (if pct then t else r) | _ \<Rightarrow> r))
       (match_number (skip_spaces r))))"

lemma match_first_length: "match_first alts s = Some (a, r) \<Longrightarrow> length r \<le> length s"
  by (auto simp: match_first_def)

lemma skip_spaces_length: "length (skip_spaces s) \<le> length s"
  by (simp add: skip_spaces_def length_dropWhile_le)

lemma match_number_length: "match_number s = Some (n, r) \<Longrightarrow> length r < length s"
proof -
  assume a: "match_number s = Some (n, r)"
  define t where "t = snd (case s of CHR ''-'' # t \<Rightarrow> (''-'', t) | _ \<Rightarrow> ('''', s))"
  have "length t \<le> length s" by (auto simp: t_def split: list.split char.split bool.split)
  moreover from a have "r = dropWhile number_char t" "takeWhile number_char t \<noteq> []"
    by (auto simp: match_number_def t_def Let_def split: prod.splits if_splits)
  moreover have "length (takeWhile number_char t) + length (dropWhile number_char t) = length t"
    by (metis length_append takeWhile_dropWhile_id)
  ultimately show ?thesis by (cases "takeWhile number_char t") auto
qed

lemma match_cond_length:
  assumes "match_cond pct aliases s = Some (m, r)"
  shows "length r < length s"
proof -
  from assms obtain a r1 op r2 n r3 where
    "match_first aliases s = Some (a, r1)" "match_first operators (skip_spaces r1) = Some (op, r2)"
    "match_number (skip_spaces r2) = Some (n, r3)" "r = (case r3 of CHR ''%'' # t \<Rightarrow> (if pct then t else r3) | _ \<Rightarrow> r3)"
    by (auto simp: match_cond_def bind_eq_Some_conv)
  moreover have "length (case r3 of CHR ''%'' # t \<Rightarrow> (if pct then t else r3) | _ \<Rightarrow> r3) \<le> length r3"
    by (auto split: list.split char.split bool.split)
  ultimately show ?thesis
    using match_first_length match_number_length skip_spaces_length
    by (metis le_less_trans less_le_trans)
qed

text \<open>\<open>re.findall\<close>: the matches from left to right, without overlap.\<close>

function find_conds :: "bool \<Rightarrow> string list \<Rightarrow> string \<Rightarrow> target_cond list" where
  "find_conds pct aliases [] = []"
| "find_conds pct aliases (c # s) =
     (case match_cond pct aliases (c # s) of
        None \<Rightarrow> find_conds pct aliases s
      | Some (m, r) \<Rightarrow> m # find_conds pct aliases r)"
  by pat_completeness auto
termination
  by (relation "measure (\<lambda>(_, _, s). length s)") (auto dest: match_cond_length)

section \<open>Evaluating them\<close>

text \<open>\<open>metric_map.get(alias.replace(" ", "_"))\<close>\<close>

definition metric_key :: "string \<Rightarrow> string option" where
  "metric_key a = dget
     [(''wns'', ''wns_ns''), (''tns'', ''tns_ns''), (''fmax'', ''fmax_mhz''), (''fep'', ''failing_endpoints''),
      (''failing_endpoints'', ''failing_endpoints''), (''failing endpoints'', ''failing_endpoints''),
      (''setup_violations'', ''setup_violations''), (''hold_violations'', ''hold_violations'')]
     (map (\<lambda>c. if c = CHR '' '' then CHR ''_'' else c) a)"

definition apply_op :: "string \<Rightarrow> pyfloat \<Rightarrow> pyfloat \<Rightarrow> bool" where
  "apply_op op x t =
     (if op = ''>='' then fle t x else if op = ''<='' then fle x t
      else if op = ''>'' then flt t x else if op = ''<'' then flt x t
      else if op = ''=='' then feq x t else False)"

definition compare_text :: "string \<Rightarrow> pyval \<Rightarrow> string \<Rightarrow> bool option" where
  "compare_text op actual n =
     (case (float_of_val actual, float_of_str n) of
        (Some x, Some t) \<Rightarrow> Some (apply_op op x t)
      | _ \<Rightarrow> None)"

text \<open>The loop over the timing conditions: \<open>Some True\<close> when all hold.\<close>

fun timing_met :: "pydict \<Rightarrow> target_cond list \<Rightarrow> bool option" where
  "timing_met latest [] = Some True"
| "timing_met latest ((a, op, n) # cs) =
     (case metric_key a of
        None \<Rightarrow> timing_met latest cs
      | Some key \<Rightarrow>
          if pget latest key = PNone then Some False
          else (case compare_text op (pget latest key) n of
              None \<Rightarrow> None
            | Some b \<Rightarrow> if b then timing_met latest cs else Some False))"

text \<open>\<open>float(summary.get(key, 0.0) or 0.0)\<close>\<close>

definition pct_of :: "pydict \<Rightarrow> string \<Rightarrow> pyfloat option" where
  "pct_of d key = float_of_val (py_or (pget d key) (PFloat (Fin 0)))"

text \<open>
  \<open>worst_overflow\<close>: the larger of the two percentages; an exception is \<open>None\<close>. The other two
  aliases name their column.
\<close>

definition worst_overflow :: "pydict \<Rightarrow> pyfloat option" where
  "worst_overflow d =
     (case (pct_of d ''overflow_h_pct'', pct_of d ''overflow_v_pct'') of
        (Some h, Some v) \<Rightarrow> Some (fmax h v)
      | _ \<Rightarrow> None)"

fun congestion_met :: "pydict \<Rightarrow> target_cond list \<Rightarrow> bool option" where
  "congestion_met d [] = Some True"
| "congestion_met d ((a, op, n) # cs) =
     (let rest = (\<lambda>b. if b then congestion_met d cs else Some False) in
      if a \<in> {''overflow'', ''overflow_pct''} then
        Option.bind (worst_overflow d) (\<lambda>x. Option.bind (compare_text op (PFloat x) n) rest)
      else if a \<notin> {''overflow_h_pct'', ''overflow_v_pct''} then congestion_met d cs
      else if pget d a = PNone then Some False
      else Option.bind (compare_text op (pget d a) n) rest)"

text \<open>The rows of \<open>timing["summary"]\<close>, the target and the congestion summary.\<close>

definition check_ppa_target :: "pydict list \<Rightarrow> string \<Rightarrow> pydict \<Rightarrow> bool option" where
  "check_ppa_target summary spec congestion =
     (case summary of
        [] \<Rightarrow> Some False
      | latest # _ \<Rightarrow>
          let low = py_lower spec;
              ts = find_conds False timing_aliases low;
              cs = find_conds True congestion_aliases low
          in if ts = [] \<and> cs = [] then Some (py_eq (py_or (pget latest ''failing_endpoints'') (PInt 0)) (PInt 0))
             else Option.bind (timing_met latest ts) (\<lambda>b.
               if \<not> b then Some False
               else if cs = [] then Some True
               else if congestion = [] then Some False
               else congestion_met congestion cs))"

section \<open>Choosing the stage\<close>

text \<open>
  \<open>query\<close> is the congestion query of the database; every exception of it and of the conversions is
  caught. \<open>None\<close> is the \<open>TypeError\<close> of comparing something else than a number; \<open>or\<close> looks at its
  second operand only when the first is false.
\<close>

definition congested :: "(int \<Rightarrow> pydict option) \<Rightarrow> int option \<Rightarrow> pyfloat \<Rightarrow> bool" where
  "congested query run threshold =
     (case Option.bind run (\<lambda>r. Option.bind (query r) worst_overflow) of
        None \<Rightarrow> False
      | Some x \<Rightarrow> flt threshold x)"

definition counter :: "pydict \<Rightarrow> string \<Rightarrow> pyfloat option" where
  "counter d key = py_num (py_or (pget d key) (PInt 0))"

definition below :: "pyfloat option \<Rightarrow> pyfloat \<Rightarrow> bool option" where
  "below x t = map_option (\<lambda>x. flt x t) x"

definition above :: "pyfloat option \<Rightarrow> pyfloat \<Rightarrow> bool option" where
  "above x t = map_option (\<lambda>x. flt t x) x"

definition or_else :: "bool option \<Rightarrow> bool option \<Rightarrow> bool option" where
  "or_else a b = (case a of Some False \<Rightarrow> b | _ \<Rightarrow> a)"

definition pick_bottleneck_stage :: "(int \<Rightarrow> pydict option) \<Rightarrow> pydict list \<Rightarrow> int option \<Rightarrow> pyfloat \<Rightarrow> string option" where
  "pick_bottleneck_stage query summary run threshold =
     (let d = (case summary of [] \<Rightarrow> [] | r # _ \<Rightarrow> r);
          hold = counter d ''hold_violations''; setup = counter d ''setup_violations'';
          wns = counter d ''wns_ns''; fep = counter d ''failing_endpoints''
      in if congested query run threshold then Some ''place''
         else Option.bind (above hold (Fin 0)) (\<lambda>b.
           if b then Some ''cts''
           else Option.bind (or_else (below wns (f64 (- 3 / 10))) (or_else (above setup (Fin 10)) (above fep (Fin 20)))) (\<lambda>b.
             if b then Some ''cts''
             else map_option (\<lambda>b. if b then ''route'' else ''place'') (or_else (above fep (Fin 0)) (below wns (Fin 0))))))"

end
