(* ===== verification/OptLoop.thy ===== *)
theory OptLoop
  imports InferenceProps TargetCheck
begin

text \<open>
  The closed optimisation loop, \<open>eda_agent/agent/optimization_loop.py\<close>: infer the root cause of a run, apply
  an experiment, run the stage again, verify, and confirm the cause when the loop converges. The
  stage run and the two metric queries are functions of the environment (they reach the EDA tools
  and the database); \<open>None\<close> stands for an exception of theirs.
\<close>

section \<open>Records\<close>

record choice =
  x_cause :: string
  x_display :: string
  x_action :: string
  x_risk :: string
  x_hint :: pydict

record iteration =
  it_number :: nat
  it_inference :: int
  it_cause :: string
  it_display :: string
  it_action :: string
  it_risk :: string
  it_params :: pydict
  it_new_run :: "int option"
  it_status :: string
  it_converged :: bool
  it_target_met :: bool
  it_score_dropped :: bool

text \<open>The fixed arguments of a stage run, and the decision trace rows the loop asks for.\<close>

record design_args =
  d_backend :: string
  d_stage :: string
  d_name :: string
  d_config :: string
  d_pdk :: string

record decision =
  dt_session :: int
  dt_source :: int
  dt_target :: int
  dt_iteration :: nat
  dt_cause :: string
  dt_display :: string
  dt_action :: string
  dt_risk :: string
  dt_converged :: bool
  dt_inference :: int

record loop_env =
  le_infer :: "nat \<Rightarrow> infer_env"
  le_verify :: "nat \<Rightarrow> infer_env"
  le_final :: infer_env
  le_confirm :: confirm_env
  le_run :: "design_args \<Rightarrow> pydict \<Rightarrow> pydict \<Rightarrow> knowledge \<Rightarrow> (pydict \<times> knowledge) option"
  le_timing :: "int \<Rightarrow> knowledge \<Rightarrow> pydict list option"
  le_congestion :: "int \<Rightarrow> knowledge \<Rightarrow> pydict option"

record loop_config =
  lc_session :: int
  lc_max :: int
  lc_threshold :: pyfloat

section \<open>The steps\<close>

definition choice_of :: "hypothesis \<Rightarrow> suggestion \<Rightarrow> choice" where
  "choice_of h e = \<lparr>x_cause = h_cause h, x_display = h_display h, x_action = ex_action e, x_risk = ex_risk e,
     x_hint = ex_hint e\<rparr>"

definition select_experiment :: "hypothesis list \<Rightarrow> choice option" where
  "select_experiment hs =
     (case hs of
        [] \<Rightarrow> None
      | lead # _ \<Rightarrow>
         (case h_exps lead of
            [] \<Rightarrow> None
          | first # _ \<Rightarrow>
             (case find (\<lambda>e. ex_risk e = ''low'') (h_exps lead) of
                Some e \<Rightarrow> Some (choice_of lead e)
              | None \<Rightarrow> Some (choice_of lead first))))"

text \<open>A text with a dot is tried as a float, another one as an int, and kept when it is neither.\<close>

definition param_value :: "pyval \<Rightarrow> pyval" where
  "param_value v =
     (case v of
        PStr s \<Rightarrow>
          if CHR ''.'' \<in> set s then (case float_of_str s of Some x \<Rightarrow> PFloat x | None \<Rightarrow> v)
          else (case int_of_str s of Some n \<Rightarrow> PInt n | None \<Rightarrow> v)
      | _ \<Rightarrow> v)"

definition experiment_to_params :: "choice \<Rightarrow> pydict" where
  "experiment_to_params x = map (\<lambda>(k, v). (k, param_value v)) (x_hint x)"

definition score_dropped :: "hypothesis list \<Rightarrow> pyfloat \<Rightarrow> bool" where
  "score_dropped hs threshold = (case hs of [] \<Rightarrow> True | h # _ \<Rightarrow> flt (h_score h) threshold)"

definition run_context :: "int \<Rightarrow> nat \<Rightarrow> int \<Rightarrow> int \<Rightarrow> pydict" where
  "run_context session n prev inference =
     [(''session_id'', PInt session), (''stage_seq'', PInt (int n)), (''variant_tag'', PStr (''opt_iter_'' @ show_nat n)),
      (''rerun_reason'', PStr (''optimization_loop iteration '' @ show_nat n @ '' inference_id='' @ show_int inference)),
      (''is_baseline'', PBool (n = 1)), (''is_selected'', PBool False), (''parent_run_id'', PInt prev),
      (''root_cause_inference_id'', PInt inference)]"

text \<open>\<open>result.get("run_id")\<close> and \<open>result.get("status", "failed")\<close> of the answer of the stage run.\<close>

definition result_run :: "pydict \<Rightarrow> int option" where
  "result_run res = (case pget res ''run_id'' of PInt n \<Rightarrow> Some n | _ \<Rightarrow> None)"

definition result_status :: "pydict \<Rightarrow> string" where
  "result_status res = (case dget res ''status'' of None \<Rightarrow> ''failed'' | Some (PStr s) \<Rightarrow> s | Some _ \<Rightarrow> '''')"

definition check_target :: "loop_env \<Rightarrow> int \<Rightarrow> string \<Rightarrow> knowledge \<Rightarrow> bool" where
  "check_target env run spec k =
     (case (le_timing env run k, le_congestion env run k) of
        (Some timing, Some congestion) \<Rightarrow>
          (case check_ppa_target timing spec congestion of Some b \<Rightarrow> b | None \<Rightarrow> False)
      | _ \<Rightarrow> False)"

definition verify_symptoms :: "choice \<Rightarrow> string \<Rightarrow> string" where
  "verify_symptoms x spec = ''after experiment '' @ [CHR 0x27] @ x_action x @ [CHR 0x27] @ '': '' @ spec"

section \<open>One iteration\<close>

record loop_state =
  history :: "iteration list"
  traces :: "decision list"
  world :: knowledge

text \<open>\<open>_record_iteration\<close>: the record, and a trace row where an experiment led to a new run.\<close>

definition record_iteration :: "int \<Rightarrow> nat \<Rightarrow> report \<Rightarrow> choice option \<Rightarrow> pydict \<Rightarrow> int option \<Rightarrow> string \<Rightarrow>
    bool \<Rightarrow> bool \<Rightarrow> bool \<Rightarrow> loop_state \<Rightarrow> loop_state" where
  "record_iteration session n rep ex params new_run status conv met dropped st =
     (let cause = (case rp_hyps rep of [] \<Rightarrow> '''' | h # _ \<Rightarrow> h_cause h);
          display = (case rp_hyps rep of [] \<Rightarrow> '''' | h # _ \<Rightarrow> h_display h);
          action = (case ex of None \<Rightarrow> '''' | Some x \<Rightarrow> x_action x);
          risk = (case ex of None \<Rightarrow> '''' | Some x \<Rightarrow> x_risk x);
          st' = st\<lparr>history := history st @
            [\<lparr>it_number = n, it_inference = rp_id rep, it_cause = cause, it_display = display, it_action = action,
              it_risk = risk, it_params = params, it_new_run = new_run, it_status = status, it_converged = conv,
              it_target_met = met, it_score_dropped = dropped\<rparr>]\<rparr>
      in case (ex, new_run) of
           (Some x, Some r) \<Rightarrow> st'\<lparr>traces := traces st' @
             [\<lparr>dt_session = session, dt_source = rp_run rep, dt_target = r, dt_iteration = n, dt_cause = cause,
               dt_display = display, dt_action = action, dt_risk = risk, dt_converged = conv,
               dt_inference = rp_id rep\<rparr>]\<rparr>
         | _ \<Rightarrow> st')"

text \<open>The second inference, only on a successful new run: whether the score dropped.\<close>

definition verify :: "loop_env \<Rightarrow> loop_config \<Rightarrow> nat \<Rightarrow> choice \<Rightarrow> string \<Rightarrow> int option \<Rightarrow> string \<Rightarrow> knowledge
    \<Rightarrow> (bool \<times> knowledge) option" where
  "verify env cfg n x spec new_run status k =
     (case new_run of
        Some r \<Rightarrow>
          if status = ''success'' then
            map_option (\<lambda>(rep, k'). (score_dropped (rp_hyps rep) (lc_threshold cfg), k'))
              (infer (le_verify env n) r (verify_symptoms x spec) k)
          else Some (False, k)
      | None \<Rightarrow> Some (False, k))"

definition target_reached :: "loop_env \<Rightarrow> string \<Rightarrow> int option \<Rightarrow> string \<Rightarrow> knowledge \<Rightarrow> bool" where
  "target_reached env spec new_run status k =
     (case new_run of
        Some r \<Rightarrow> r \<noteq> 0 \<and> status = ''success'' \<and> check_target env r spec k
      | None \<Rightarrow> False)"

text \<open>
  The body of the loop: whether it goes on, the run the next iteration starts from and the new
  state.
\<close>

definition iterate :: "loop_env \<Rightarrow> loop_config \<Rightarrow> design_args \<Rightarrow> pydict \<Rightarrow> string \<Rightarrow> nat \<Rightarrow> int \<Rightarrow> loop_state
    \<Rightarrow> (bool \<times> int \<times> loop_state) option" where
  "iterate env cfg d base spec n run st =
     Option.bind (infer (le_infer env n) run spec (world st)) (\<lambda>(rep, k1).
       let st1 = st\<lparr>world := k1\<rparr> in
       case select_experiment (rp_hyps rep) of
         None \<Rightarrow> Some (False, run, record_iteration (lc_session cfg) n rep None [] None ''skipped'' False False False st1)
       | Some x \<Rightarrow>
           let params = experiment_to_params x in
           Option.bind (le_run env d (dupdate base params) (run_context (lc_session cfg) n run (rp_id rep)) k1) (\<lambda>(res, k2).
             let new_run = result_run res; status = result_status res in
             map_option (\<lambda>(dropped, k3).
               let met = target_reached env spec new_run status k3;
                   conv = (met \<or> dropped);
                   st3 = record_iteration (lc_session cfg) n rep (Some x) params new_run status conv met dropped (st\<lparr>world := k3\<rparr>)
               in if conv then
                    (False, run, if 0 < rp_id rep then st3\<lparr>world := snd (confirm (le_confirm env) (rp_id rep) (x_cause x) k3)\<rparr> else st3)
                  else (True, (case new_run of Some r \<Rightarrow> r | None \<Rightarrow> run), st3))
             (verify env cfg n x spec new_run status k2)))"

fun loop :: "loop_env \<Rightarrow> loop_config \<Rightarrow> design_args \<Rightarrow> pydict \<Rightarrow> string \<Rightarrow> nat \<Rightarrow> nat \<Rightarrow> int \<Rightarrow> loop_state
    \<Rightarrow> (int \<times> loop_state) option" where
  "loop env cfg d base spec 0 n run st = Some (run, st)"
| "loop env cfg d base spec (Suc left) n run st =
     Option.bind (iterate env cfg d base spec n run st) (\<lambda>(go, run', st').
       if go then loop env cfg d base spec left (Suc n) run' st' else Some (run', st'))"

record loop_result =
  lr_converged :: bool
  lr_iterations :: nat
  lr_spec :: string
  lr_session :: int
  lr_cycle :: "iteration list"
  lr_final :: "report option"

text \<open>
  \<open>orchestrate\<close> on the history the object holds: the result, and the history, the trace rows and
  the database it leaves.
\<close>

definition orchestrate :: "loop_env \<Rightarrow> loop_config \<Rightarrow> design_args \<Rightarrow> pydict \<Rightarrow> string \<Rightarrow> int \<Rightarrow> loop_state
    \<Rightarrow> (loop_result \<times> loop_state) option" where
  "orchestrate env cfg d base spec run st0 =
     Option.bind (loop env cfg d base spec (nat (lc_max cfg)) 1 run st0) (\<lambda>(run', st).
       let res = \<lparr>lr_converged = (\<exists>r \<in> set (history st). it_converged r), lr_iterations = length (history st),
             lr_spec = spec, lr_session = lc_session cfg, lr_cycle = history st, lr_final = None\<rparr>
       in if history st \<noteq> [] \<and> \<not> it_converged (last (history st)) then
            map_option (\<lambda>(rep, k'). (res\<lparr>lr_final := Some rep\<rparr>, st\<lparr>world := k'\<rparr>)) (infer (le_final env) run' spec (world st))
          else Some (res, st))"

text \<open>
  \<open>optimize_with_inference\<close>: a new object, so an empty history, and the default threshold. The
  session is the one given or the one \<open>_create_flow_session\<close> returned.
\<close>

definition new_loop :: "knowledge \<Rightarrow> loop_state" where
  "new_loop k = \<lparr>history = [], traces = [], world = k\<rparr>"

definition optimize_with_inference :: "loop_env \<Rightarrow> int \<Rightarrow> int \<Rightarrow> design_args \<Rightarrow> string \<Rightarrow> int \<Rightarrow> knowledge
    \<Rightarrow> (loop_result \<times> loop_state) option" where
  "optimize_with_inference env session max_iterations d spec run k =
     orchestrate env \<lparr>lc_session = session, lc_max = max_iterations, lc_threshold = f64 (35 / 100)\<rparr> d [] spec run (new_loop k)"

end
