(* ===== verification/LoopProps.thy ===== *)
theory LoopProps
  imports OptLoop
begin

text \<open>
  Properties of the optimisation loop: it returns after at most the given number of iterations, a
  run without metrics counts as converged, the targets mean what they say, and the loop picks the
  experiment the report recommends.
\<close>

section \<open>What the steps keep\<close>

lemma infer_frame:
  "infer env run s k = Some (rep, k') \<Longrightarrow> tables k' = tables k \<and> weights k' = weights k \<and> rp_run rep = run"
  by (auto simp: infer_def Let_def save_inference_def split: prod.splits if_splits)

lemma infer_total:
  assumes "typed_tables (tables k)"
  obtains rep k' where "infer env run s k = Some (rep, k')" "tables k' = tables k"
proof -
  obtain fs where "\<exists>rep k'. infer env run s k = Some (rep, k') \<and>
       rp_hyps rep = hypotheses (get_multipliers (ie_weights env) (weights k)) fs \<and>
       rp_next rep = build_next_action (rp_hyps rep) \<and> rp_summary rep = build_summary (rp_hyps rep)"
    by (rule infer_scored [OF typed_numeric [OF assms]])
  then show ?thesis using that infer_frame by blast
qed

lemma confirm_tables: "tables (snd (confirm env i cause k)) = tables k"
  by (auto simp: confirm_def Let_def learn_weights_def split: option.split prod.split)

lemma record_frame [simp]:
  "world (record_iteration s n rep ex ps r status c m dr st) = world st"
  by (auto simp: record_iteration_def Let_def split: option.split)

text \<open>The stage run returns, and keeps the types of the tables: what the loop relies on.\<close>

definition runs_ok :: "loop_env \<Rightarrow> bool" where
  "runs_ok env \<longleftrightarrow> (\<forall>d ps ctx k. typed_tables (tables k) \<longrightarrow>
     (\<exists>res k'. le_run env d ps ctx k = Some (res, k') \<and> typed_tables (tables k')))"

lemma verify_total:
  assumes "typed_tables (tables k)"
  obtains dropped k' where "verify env cfg n x spec new_run status k = Some (dropped, k')" "tables k' = tables k"
    "dropped \<Longrightarrow> new_run \<noteq> None \<and> status = ''success''"
proof (cases "new_run \<noteq> None \<and> status = ''success''")
  case True
  then obtain r where r: "new_run = Some r" by blast
  obtain rep k' where "infer (le_verify env n) r (verify_symptoms x spec) k = Some (rep, k')" "tables k' = tables k"
    by (rule infer_total [OF assms])
  with True r show ?thesis using that [of "score_dropped (rp_hyps rep) (lc_threshold cfg)" k'] by (simp add: verify_def)
next
  case False
  then have "verify env cfg n x spec new_run status k = Some (False, k)"
    by (auto simp: verify_def split: option.split)
  then show ?thesis using that [of False k] by simp
qed

text \<open>One iteration adds one record; a converged one rests on a successful run and ends the loop.\<close>

definition good_record :: "nat \<Rightarrow> iteration \<Rightarrow> bool" where
  "good_record n rec \<longleftrightarrow> it_number rec = n \<and> (it_converged rec \<longrightarrow> it_new_run rec \<noteq> None \<and> it_status rec = ''success'')"

lemma record_good:
  assumes "c \<longrightarrow> r \<noteq> None \<and> status = ''success''"
  shows "\<exists>rec. history (record_iteration s n rep ex ps r status c m dr (st\<lparr>world := w\<rparr>)) = history st @ [rec] \<and>
     good_record n rec \<and> it_converged rec = c \<and> it_status rec = status"
  using assms by (auto simp: record_iteration_def Let_def good_record_def split: option.split)

lemma iterate_stop:
  assumes "infer (le_infer env n) run spec (world st) = Some (rep, k1)" "select_experiment (rp_hyps rep) = None"
  shows "iterate env cfg d base spec n run st = Some (False, run,
     record_iteration (lc_session cfg) n rep None [] None ''skipped'' False False False (st\<lparr>world := k1\<rparr>))"
  by (simp add: iterate_def assms)

lemma iterate_run:
  fixes cfg :: loop_config and n :: nat and spec :: string and st :: loop_state
  assumes "infer (le_infer env n) run spec (world st) = Some (rep, k1)" "select_experiment (rp_hyps rep) = Some x"
    and "le_run env d (dupdate base (experiment_to_params x)) (run_context (lc_session cfg) n run (rp_id rep)) k1 = Some (res, k2)"
    and "verify env cfg n x spec (result_run res) (result_status res) k2 = Some (dropped, k3)"
  defines "met \<equiv> target_reached env spec (result_run res) (result_status res) k3"
  defines "st3 \<equiv> record_iteration (lc_session cfg) n rep (Some x) (experiment_to_params x) (result_run res)
      (result_status res) (met \<or> dropped) met dropped (st\<lparr>world := k3\<rparr>)"
  shows "iterate env cfg d base spec n run st =
    (if met \<or> dropped then
       Some (False, run, if 0 < rp_id rep then st3\<lparr>world := snd (confirm (le_confirm env) (rp_id rep) (x_cause x) k3)\<rparr> else st3)
     else Some (True, (case result_run res of Some r \<Rightarrow> r | None \<Rightarrow> run), st3))"
  by (simp add: iterate_def Let_def assms(1-4)) (simp add: met_def st3_def)

lemma iterate_total:
  assumes ok: "runs_ok env" and ty: "typed_tables (tables (world st))"
  obtains go run' st' rec where "iterate env cfg d base spec n run st = Some (go, run', st')"
    "typed_tables (tables (world st'))" "history st' = history st @ [rec]" "good_record n rec"
    "go \<Longrightarrow> \<not> it_converged rec" "\<not> go \<Longrightarrow> it_converged rec \<or> it_status rec = ''skipped''"
proof -
  obtain rep k1 where i: "infer (le_infer env n) run spec (world st) = Some (rep, k1)" "tables k1 = tables (world st)"
    by (rule infer_total [OF ty])
  show ?thesis
  proof (cases "select_experiment (rp_hyps rep)")
    case None
    let ?st = "record_iteration (lc_session cfg) n rep None [] None ''skipped'' False False False (st\<lparr>world := k1\<rparr>)"
    obtain rec where h: "history ?st = history st @ [rec]" "good_record n rec" "\<not> it_converged rec" "it_status rec = ''skipped''"
      using record_good [of False] by blast
    have "typed_tables (tables (world ?st))" using i(2) ty by simp
    from that [OF iterate_stop [OF i(1) None] this h(1,2)] h(3,4) show ?thesis by blast
  next
    case (Some x)
    let ?ps = "experiment_to_params x"
    obtain res k2 where r: "le_run env d (dupdate base ?ps) (run_context (lc_session cfg) n run (rp_id rep)) k1 = Some (res, k2)"
      "typed_tables (tables k2)" using ok i(2) ty unfolding runs_ok_def by metis
    let ?r = "result_run res" and ?s = "result_status res"
    obtain dr k3 where v: "verify env cfg n x spec ?r ?s k2 = Some (dr, k3)" "tables k3 = tables k2"
      "dr \<Longrightarrow> ?r \<noteq> None \<and> ?s = ''success''" by (rule verify_total [OF r(2)]) blast
    let ?met = "target_reached env spec ?r ?s k3"
    have met: "?met \<Longrightarrow> ?r \<noteq> None \<and> ?s = ''success''" by (auto simp: target_reached_def split: option.splits)
    let ?st3 = "record_iteration (lc_session cfg) n rep (Some x) ?ps ?r ?s (?met \<or> dr) ?met dr (st\<lparr>world := k3\<rparr>)"
    obtain rec where h: "history ?st3 = history st @ [rec]" "good_record n rec" "it_converged rec = (?met \<or> dr)"
      using record_good [of "?met \<or> dr" ?r ?s] met v(3) by blast
    note it = iterate_run [OF i(1) Some r(1) v(1)]
    show ?thesis
    proof (cases "?met \<or> dr")
      case True
      let ?st = "if 0 < rp_id rep then ?st3\<lparr>world := snd (confirm (le_confirm env) (rp_id rep) (x_cause x) k3)\<rparr> else ?st3"
      have "iterate env cfg d base spec n run st = Some (False, run, ?st)" unfolding it by (simp add: True)
      moreover have "typed_tables (tables (world ?st))" using r(2) v(2) by (simp add: confirm_tables)
      moreover have "history ?st = history st @ [rec]" using h(1) by simp
      ultimately show ?thesis by (rule that) (use h(2,3) True in simp_all)
    next
      case False
      then have "iterate env cfg d base spec n run st = Some (True, (case ?r of Some r \<Rightarrow> r | None \<Rightarrow> run), ?st3)"
        unfolding it by simp
      moreover have "typed_tables (tables (world ?st3))" using r(2) v(2) by simp
      ultimately show ?thesis by (rule that [OF _ _ h(1,2)]) (use False h(3) in simp_all)
    qed
  qed
qed

section \<open>The loop\<close>

definition good_cycle :: "nat \<Rightarrow> iteration list \<Rightarrow> bool" where
  "good_cycle n recs \<longleftrightarrow> map it_number recs = [n..<n + length recs] \<and>
     (\<forall>r \<in> set (butlast recs). \<not> it_converged r) \<and>
     (\<forall>r \<in> set recs. it_converged r \<longrightarrow> it_new_run r \<noteq> None \<and> it_status r = ''success'')"

lemma loop_total:
  assumes ok: "runs_ok env"
  shows "typed_tables (tables (world st)) \<Longrightarrow>
    \<exists>run' st' recs. loop env cfg d base spec left n run st = Some (run', st') \<and> typed_tables (tables (world st')) \<and>
      history st' = history st @ recs \<and> good_cycle n recs \<and> length recs \<le> left \<and> (0 < left \<longrightarrow> recs \<noteq> []) \<and>
      (length recs < left \<longrightarrow> it_converged (last recs) \<or> it_status (last recs) = ''skipped'')"
proof (induction left arbitrary: n run st)
  case 0
  then show ?case by (simp add: good_cycle_def)
next
  case (Suc left)
  obtain go run' st' rec where it: "iterate env cfg d base spec n run st = Some (go, run', st')"
    and ty: "typed_tables (tables (world st'))" and h: "history st' = history st @ [rec]" and g: "good_record n rec"
    and go: "go \<Longrightarrow> \<not> it_converged rec" and stop: "\<not> go \<Longrightarrow> it_converged rec \<or> it_status rec = ''skipped''"
    by (rule iterate_total [OF ok Suc.prems, where cfg = cfg and d = d and base = base and spec = spec and n = n and run = run]) blast
  show ?case
  proof (cases go)
    case False
    with it ty h g stop show ?thesis
      by (intro exI [of _ run'] exI [of _ st'] exI [of _ "[rec]"]) (simp add: good_cycle_def good_record_def)
  next
    case True
    obtain run2 st2 recs where l: "loop env cfg d base spec left (Suc n) run' st' = Some (run2, st2)"
      "typed_tables (tables (world st2))" "history st2 = history st' @ recs" "good_cycle (Suc n) recs"
      "length recs \<le> left" "0 < left \<longrightarrow> recs \<noteq> []"
      "length recs < left \<longrightarrow> it_converged (last recs) \<or> it_status (last recs) = ''skipped''"
      using Suc.IH [OF ty] by blast
    have "good_cycle n (rec # recs)"
      using l(4) g go [OF True] by (auto simp: good_cycle_def good_record_def upt_rec)
    with True it l h show ?thesis
      by (intro exI [of _ run2] exI [of _ st2] exI [of _ "rec # recs"]) auto
  qed
qed

lemma converged_is_last:
  "good_cycle n recs \<Longrightarrow> (\<exists>r \<in> set recs. it_converged r) \<longleftrightarrow> recs \<noteq> [] \<and> it_converged (last recs)"
  by (cases recs rule: rev_cases) (auto simp: good_cycle_def)

text \<open>
  C18: When the stage run returns and the tables hold numbers, the loop returns: after at most the
  given number of iterations, numbered from 1, and at least one if one is allowed. Only the last
  record can have converged, and then on a successful new run; the loop ends early only for
  that or because no experiment was left. The result says converged exactly then, and carries a
  final inference exactly when iterations ran and the last one did not converge.
\<close>

theorem loop_returns:
  assumes "runs_ok env" "typed_tables (tables k)"
  shows "\<exists>res st. optimize_with_inference env session max_iterations d spec run k = Some (res, st) \<and>
    lr_cycle res = history st \<and> lr_iterations res = length (history st) \<and>
    length (history st) \<le> nat max_iterations \<and> (0 < max_iterations \<longrightarrow> history st \<noteq> []) \<and>
    map it_number (history st) = [1..<Suc (length (history st))] \<and>
    (\<forall>r \<in> set (butlast (history st)). \<not> it_converged r) \<and>
    (lr_converged res \<longleftrightarrow> history st \<noteq> [] \<and> it_converged (last (history st))) \<and>
    (lr_converged res \<longrightarrow> it_new_run (last (history st)) \<noteq> None \<and> it_status (last (history st)) = ''success'') \<and>
    (length (history st) < nat max_iterations \<longrightarrow> lr_converged res \<or> it_status (last (history st)) = ''skipped'') \<and>
    (lr_final res = None \<longleftrightarrow> history st = [] \<or> lr_converged res)"
proof -
  define cfg where "cfg = \<lparr>lc_session = session, lc_max = max_iterations, lc_threshold = f64 (35 / 100)\<rparr>"
  obtain run' st where l: "loop env cfg d [] spec (nat max_iterations) 1 run (new_loop k) = Some (run', st)"
    and ty: "typed_tables (tables (world st))" and g: "good_cycle 1 (history st)"
    and n: "length (history st) \<le> nat max_iterations" "0 < nat max_iterations \<longrightarrow> history st \<noteq> []"
    and e: "length (history st) < nat max_iterations \<longrightarrow> it_converged (last (history st)) \<or> it_status (last (history st)) = ''skipped''"
    using loop_total [OF assms(1), of "new_loop k" cfg d "[]" spec "nat max_iterations" 1 run] assms(2)
    by (auto simp: new_loop_def)
  obtain rep k' where i: "infer (le_final env) run' spec (world st) = Some (rep, k')" by (rule infer_total [OF ty])
  let ?again = "history st \<noteq> [] \<and> \<not> it_converged (last (history st))"
  note c = converged_is_last [OF g]
  have "optimize_with_inference env session max_iterations d spec run k =
      Some (\<lparr>lr_converged = (\<exists>r \<in> set (history st). it_converged r), lr_iterations = length (history st), lr_spec = spec,
          lr_session = session, lr_cycle = history st, lr_final = (if ?again then Some rep else None)\<rparr>,
        if ?again then st\<lparr>world := k'\<rparr> else st)"
    using l i by (simp add: optimize_with_inference_def orchestrate_def cfg_def Let_def)
  moreover have "map it_number (history st) = [1..<Suc (length (history st))]"
    "\<forall>r \<in> set (butlast (history st)). \<not> it_converged r"
    "history st \<noteq> [] \<and> it_converged (last (history st)) \<longrightarrow>
      it_new_run (last (history st)) \<noteq> None \<and> it_status (last (history st)) = ''success''"
    using g by (simp_all add: good_cycle_def)
  ultimately show ?thesis using n e by (intro exI conjI) (assumption | auto simp: c simp del: upt_Suc)+
qed

definition example_loop_env :: loop_env where
  "example_loop_env =
     \<lparr>le_infer = (\<lambda>_. \<lparr>ie_sum = LeftToRight, ie_answered = 5, ie_weights = True, ie_insert = True\<rparr>),
      le_verify = (\<lambda>_. \<lparr>ie_sum = LeftToRight, ie_answered = 5, ie_weights = True, ie_insert = True\<rparr>),
      le_final = \<lparr>ie_sum = LeftToRight, ie_answered = 5, ie_weights = True, ie_insert = True\<rparr>,
      le_confirm = example_confirm,
      le_run = (\<lambda>d ps ctx k. Some ([(''run_id'', PInt 2), (''status'', PStr ''success'')], k)),
      le_timing = (\<lambda>r k. Some []), le_congestion = (\<lambda>r k. Some [])\<rparr>"

definition example_design :: design_args where
  "example_design = \<lparr>d_backend = ''innovus'', d_stage = ''place'', d_name = ''aes'', d_config = ''/cfg/aes.mk'',
     d_pdk = ''sky130hd''\<rparr>"

theorem loop_returns_witness:
  "\<exists>res st. optimize_with_inference example_loop_env 42 5 example_design ''wns >= 0'' 1 example_knowledge = Some (res, st) \<and>
     1 \<le> lr_iterations res \<and> lr_iterations res \<le> 5"
proof -
  have "runs_ok example_loop_env" by (simp add: runs_ok_def example_loop_env_def)
  moreover have "typed_tables (tables example_knowledge)"
    by (simp add: example_knowledge_def example_tables_def typed_tables_def row_ok_def)
  ultimately obtain res st where
    "optimize_with_inference example_loop_env 42 5 example_design ''wns >= 0'' 1 example_knowledge = Some (res, st)"
    "lr_iterations res = length (history st)" "length (history st) \<le> nat 5" "history st \<noteq> []"
    using loop_returns [of example_loop_env example_knowledge 42 5 example_design "''wns >= 0''" 1] by auto
  then show ?thesis by (cases "history st") auto
qed

section \<open>The experiment the loop picks\<close>

text \<open>The loop picks the experiment the report recommends, as its comment says.\<close>

lemma select_preferred:
  "select_experiment hs = (case hs of [] \<Rightarrow> None | h # _ \<Rightarrow> map_option (choice_of h) (preferred (h_exps h)))"
proof -
  have "find P xs = (case filter P xs of [] \<Rightarrow> None | y # _ \<Rightarrow> Some y)" for P and xs :: "suggestion list"
    by (induction xs) auto
  then show ?thesis
    by (auto simp: select_experiment_def preferred_def Let_def split: list.splits)
qed

lemma select_iff_next:
  "(case select_experiment hs of Some x \<Rightarrow> build_next_action hs = TryFirst (x_action x) (x_hint x)
    | None \<Rightarrow> build_next_action hs \<in> {CollectMoreData, AnalyseByHand})"
  by (auto simp: select_preferred build_next_action_def choice_of_def split: list.split option.split)

section \<open>A run without metrics\<close>

text \<open>
  When the first inference finds a cause and the experiment's run reports success but left no
  row in the analytics tables, the loop stops after that iteration and reports convergence,
  whatever the target is: no rule fires on missing data, and an empty list of hypotheses counts
  as a dropped score. When the first inference was recorded, its cause is confirmed as well.
\<close>

theorem unmeasured_run_converges:
  assumes "infer (le_infer env 1) run spec k = Some (rep, k1)" "select_experiment (rp_hyps rep) = Some x"
    and "le_run env d (dupdate [] (experiment_to_params x)) (run_context session 1 run (rp_id rep)) k1 =
      Some ([(''run_id'', PInt r), (''status'', PStr ''success'')], k2)"
    and "unmeasured (tables k2) r" "\<forall>w \<in> set (weights k2). valid_mult (w_mult w)" "0 < max_iterations"
  shows "\<exists>res st k3. optimize_with_inference env session max_iterations d spec run k = Some (res, st) \<and>
    lr_converged res \<and> lr_iterations res = 1 \<and> it_score_dropped (last (lr_cycle res)) \<and> lr_final res = None \<and>
    tables k3 = tables k2 \<and> weights k3 = weights k2 \<and>
    world st = (if 0 < rp_id rep then snd (confirm (le_confirm env) (rp_id rep) (x_cause x) k3) else k3)"
proof -
  let ?res = "[(''run_id'', PInt r), (''status'', PStr ''success'')]"
  define cfg where "cfg = \<lparr>lc_session = session, lc_max = max_iterations, lc_threshold = f64 (35 / 100)\<rparr>"
  have res: "result_run ?res = Some r" "result_status ?res = ''success''"
    by (simp_all add: result_run_def result_status_def pget_def)
  obtain rep2 k3 where v: "infer (le_verify env 1) r (verify_symptoms x spec) k2 = Some (rep2, k3)" "rp_hyps rep2 = []"
    using infer_unmeasured [OF assms(4,5)] by blast
  have ver: "verify env cfg 1 x spec (result_run ?res) (result_status ?res) k2 = Some (True, k3)"
    unfolding res using v by (simp add: verify_def score_dropped_def)
  have fst: "infer (le_infer env 1) run spec (world (new_loop k)) = Some (rep, k1)"
    using assms(1) by (simp add: new_loop_def)
  have run: "le_run env d (dupdate [] (experiment_to_params x)) (run_context (lc_session cfg) 1 run (rp_id rep)) k1 = Some (?res, k2)"
    using assms(3) by (simp add: cfg_def)
  let ?met = "target_reached env spec (Some r) ''success'' k3"
  let ?st = "record_iteration session 1 rep (Some x) (experiment_to_params x) (Some r) ''success'' True ?met True (new_loop k\<lparr>world := k3\<rparr>)"
  let ?fin = "if 0 < rp_id rep then ?st\<lparr>world := snd (confirm (le_confirm env) (rp_id rep) (x_cause x) k3)\<rparr> else ?st"
  have it: "iterate env cfg d [] spec 1 run (new_loop k) = Some (False, run, ?fin)"
    using iterate_run [OF fst assms(2) run ver] by (simp add: res cfg_def)
  have "nat max_iterations = Suc (nat (max_iterations - 1))" using assms(6) by simp
  with it have lp: "loop env cfg d [] spec (nat max_iterations) 1 run (new_loop k) = Some (run, ?fin)" by simp
  obtain h where h: "history ?fin = [h]" "it_converged h" "it_score_dropped h"
    by (auto simp: record_iteration_def Let_def new_loop_def)
  have w: "world ?fin = (if 0 < rp_id rep then snd (confirm (le_confirm env) (rp_id rep) (x_cause x) k3) else k3)"
    by simp
  define en where "en = ?fin"
  have c: "lc_max cfg = max_iterations" "lc_session cfg = session" by (simp_all add: cfg_def)
  have "orchestrate env cfg d [] spec run (new_loop k) =
      Some (\<lparr>lr_converged = True, lr_iterations = 1, lr_spec = spec, lr_session = session, lr_cycle = [h], lr_final = None\<rparr>, en)"
    using lp [folded en_def] h [folded en_def] by (simp add: orchestrate_def c)
  then show ?thesis using w [folded en_def] infer_frame [OF v(1)] h(2,3)
    unfolding optimize_with_inference_def cfg_def
    by (intro exI [of _ "\<lparr>lr_converged = True, lr_iterations = 1, lr_spec = spec, lr_session = session, lr_cycle = [h],
        lr_final = None\<rparr>"] exI [of _ en] exI [of _ k3] conjI) (assumption | simp)+
qed

definition example_skewed :: knowledge where
  "example_skewed = example_knowledge\<lparr>tables := example_tables\<lparr>timing_tab :=
     [\<lparr>tr_run = 1, tr_cols = [(''hold_violations'', PInt 4), (''clock_skew_ns'', PFloat (Fin (1 / 4)))]\<rparr>]\<rparr>\<rparr>"

lemma example_fires:
  "case score_one LeftToRight [] (extract_features 5 (tables example_skewed) 1) rule_cts_skew of
     Some f \<Rightarrow> fires f | None \<Rightarrow> False"
  by code_simp

lemma example_infer:
  obtains rep k1 x where "infer (le_infer example_loop_env 1) 1 ''wns >= 0'' example_skewed = Some (rep, k1)"
    "select_experiment (rp_hyps rep) = Some x"
proof -
  let ?env = "le_infer example_loop_env 1" and ?fv = "extract_features 5 (tables example_skewed) 1"
  have e: "ie_sum ?env = LeftToRight" "ie_answered ?env = 5" "get_multipliers (ie_weights ?env) (weights example_skewed) = []"
    by (simp_all add: example_loop_env_def example_skewed_def example_knowledge_def get_multipliers_def)
  have ty: "typed_tables (tables example_skewed)"
    by (simp add: example_skewed_def example_knowledge_def example_tables_def typed_tables_def row_ok_def)
  obtain fs where s: "scored rules LeftToRight [] ?fv fs"
    and i: "\<exists>rep k'. infer ?env 1 ''wns >= 0'' example_skewed = Some (rep, k') \<and>
      rp_hyps rep = hypotheses [] fs \<and> rp_next rep = build_next_action (rp_hyps rep) \<and>
      rp_summary rep = build_summary (rp_hyps rep)"
    by (rule infer_scored [OF typed_numeric [OF ty], of ?env 1, unfolded e])
  obtain f where f: "score_one LeftToRight [] ?fv rule_cts_skew = Some f" "fires f"
    using example_fires by (auto split: option.splits)
  have r: "rule_cts_skew \<in> set rules" by (simp add: rules_def)
  from f(2) f(1) have "fle (ru_min rule_cts_skew) (f_adj f)"
    by (auto simp: fires_def score_one_def)
  then have ne: "hypotheses [] fs \<noteq> []"
    using hyps_complete [OF s r f(1)] by (cases "hypotheses [] fs") auto
  from hyps_next [OF s ne] have "build_next_action (hypotheses [] fs) \<notin> {CollectMoreData, AnalyseByHand}" by auto
  with select_iff_next [of "hypotheses [] fs"] obtain x where "select_experiment (hypotheses [] fs) = Some x"
    by (cases "select_experiment (hypotheses [] fs)") auto
  with i show ?thesis using that by metis
qed

theorem unmeasured_run_converges_witness:
  "\<exists>res st. optimize_with_inference example_loop_env 42 5 example_design ''wns >= 0'' 1 example_skewed = Some (res, st) \<and>
     lr_converged res \<and> lr_iterations res = 1"
proof -
  obtain rep k1 x where i: "infer (le_infer example_loop_env 1) 1 ''wns >= 0'' example_skewed = Some (rep, k1)"
    "select_experiment (rp_hyps rep) = Some x" by (rule example_infer)
  from infer_frame [OF i(1)] have k1: "unmeasured (tables k1) 2" "\<forall>w \<in> set (weights k1). valid_mult (w_mult w)"
    by (simp_all add: unmeasured_def example_skewed_def example_knowledge_def example_tables_def)
  have run: "le_run example_loop_env example_design (dupdate [] (experiment_to_params x)) (run_context 42 1 1 (rp_id rep)) k1
      = Some ([(''run_id'', PInt 2), (''status'', PStr ''success'')], k1)"
    by (simp add: example_loop_env_def)
  from unmeasured_run_converges [OF i run k1, of 5] show ?thesis by auto
qed

end
