(* ===== verification/TargetProps.thy ===== *)
theory TargetProps
  imports TargetCheck
begin

text \<open>The target check against its reading: a target holds when each condition written in it does.\<close>

definition compares :: "string \<Rightarrow> pyfloat \<Rightarrow> pyfloat \<Rightarrow> bool" where
  "compares op x t \<longleftrightarrow> op = ''>='' \<and> fle t x \<or> op = ''<='' \<and> fle x t \<or> op = ''>'' \<and> flt t x \<or>
     op = ''<'' \<and> flt x t \<or> op = ''=='' \<and> feq x t"

lemma apply_op_compares: "apply_op op x t = compares op x t"
  by (auto simp: apply_op_def compares_def)

definition holds_timing :: "pydict \<Rightarrow> target_cond \<Rightarrow> bool" where
  "holds_timing latest = (\<lambda>(a, op, n). \<exists>key x t. metric_key a = Some key \<and> pget latest key \<noteq> PNone \<and>
     float_of_val (pget latest key) = Some x \<and> float_of_str n = Some t \<and> compares op x t)"

definition congestion_value :: "pydict \<Rightarrow> string \<Rightarrow> pyfloat option" where
  "congestion_value d a =
     (if a \<in> {''overflow'', ''overflow_pct''} then worst_overflow d
      else if pget d a = PNone then None else float_of_val (pget d a))"

definition holds_congestion :: "pydict \<Rightarrow> target_cond \<Rightarrow> bool" where
  "holds_congestion d = (\<lambda>(a, op, n). \<exists>x t. congestion_value d a = Some x \<and> float_of_str n = Some t \<and> compares op x t)"

lemma match_cond_alias: "match_cond pct aliases s = Some ((a, op, n), r) \<Longrightarrow> a \<in> set aliases \<and> op \<in> set operators"
  by (auto simp: match_cond_def match_first_def bind_eq_Some_conv find_Some_iff)

lemma find_conds_aliases: "(a, op, n) \<in> set (find_conds pct aliases s) \<Longrightarrow> a \<in> set aliases \<and> op \<in> set operators"
proof (induction pct aliases s rule: find_conds.induct)
  case (1 pct aliases)
  then show ?case by simp
next
  case (2 pct aliases c s)
  then show ?case using match_cond_alias [of pct aliases "c # s"]
    by (auto split: option.splits prod.splits)
qed

lemma timing_alias_key: "a \<in> set timing_aliases \<Longrightarrow> metric_key a \<noteq> None"
  by (auto simp: timing_aliases_def metric_key_def)

lemma compare_text_True:
  "compare_text op v n = Some True \<longleftrightarrow> (\<exists>x t. float_of_val v = Some x \<and> float_of_str n = Some t \<and> compares op x t)"
  by (auto simp: compare_text_def apply_op_compares split: option.splits)

lemma timing_met_iff:
  "\<forall>(a, op, n) \<in> set cs. metric_key a \<noteq> None \<Longrightarrow>
   timing_met latest cs = Some True \<longleftrightarrow> (\<forall>c \<in> set cs. holds_timing latest c)"
proof (induction cs)
  case Nil
  then show ?case by simp
next
  case (Cons c cs)
  obtain a op n where c: "c = (a, op, n)" by (cases c)
  with Cons.prems obtain key where k: "metric_key a = Some key" by auto
  have "timing_met latest (c # cs) = Some True \<longleftrightarrow>
      pget latest key \<noteq> PNone \<and> compare_text op (pget latest key) n = Some True \<and> timing_met latest cs = Some True"
    by (simp add: c k split: option.split)
  also have "\<dots> \<longleftrightarrow> holds_timing latest c \<and> timing_met latest cs = Some True"
    by (auto simp: c k holds_timing_def compare_text_True)
  finally show ?case using Cons by simp
qed

lemma congestion_met_iff:
  "\<forall>(a, op, n) \<in> set cs. a \<in> set congestion_aliases \<Longrightarrow>
   congestion_met d cs = Some True \<longleftrightarrow> (\<forall>c \<in> set cs. holds_congestion d c)"
proof (induction cs)
  case Nil
  then show ?case by simp
next
  case (Cons c cs)
  obtain a op n where c: "c = (a, op, n)" by (cases c)
  have b: "Option.bind r (\<lambda>b. if b then congestion_met d cs else Some False) = Some True \<longleftrightarrow>
      r = Some True \<and> congestion_met d cs = Some True" for r
    by (cases r) auto
  have v: "float_of_val (PFloat x) = Some x" for x by simp
  have "congestion_met d (c # cs) = Some True \<longleftrightarrow> holds_congestion d c \<and> congestion_met d cs = Some True"
    using Cons.prems
    by (cases "a \<in> {''overflow'', ''overflow_pct''}")
      (auto simp: c Let_def b bind_eq_Some_conv holds_congestion_def congestion_value_def compare_text_True congestion_aliases_def)
  with Cons show ?case by simp
qed

text \<open>
  The check answers that a target is met exactly when there is a timing row and, in the lower
  case text of the target, every timing condition found compares true with the latest row, and
  every congestion condition found with the congestion summary, which must not be empty then; a
  text in which no condition is found is met exactly when the failing endpoints are zero or
  unknown. A value that is missing or a threshold that is no number never meets a target.
\<close>

theorem target_met_iff:
  "check_ppa_target summary spec congestion = Some True \<longleftrightarrow>
    summary \<noteq> [] \<and>
    (let ts = find_conds False timing_aliases (py_lower spec); cs = find_conds True congestion_aliases (py_lower spec)
     in if ts = [] \<and> cs = [] then py_eq (py_or (pget (hd summary) ''failing_endpoints'') (PInt 0)) (PInt 0)
        else (\<forall>c \<in> set ts. holds_timing (hd summary) c) \<and>
          (cs \<noteq> [] \<longrightarrow> congestion \<noteq> []) \<and> (\<forall>c \<in> set cs. holds_congestion congestion c))"
proof (cases summary)
  case Nil
  then show ?thesis by (simp add: check_ppa_target_def)
next
  case (Cons latest rest)
  let ?ts = "find_conds False timing_aliases (py_lower spec)" and ?cs = "find_conds True congestion_aliases (py_lower spec)"
  have t: "timing_met latest ?ts = Some True \<longleftrightarrow> (\<forall>c \<in> set ?ts. holds_timing latest c)"
    by (rule timing_met_iff) (use find_conds_aliases timing_alias_key in blast)
  have c: "congestion_met congestion ?cs = Some True \<longleftrightarrow> (\<forall>c \<in> set ?cs. holds_congestion congestion c)"
    by (rule congestion_met_iff) (use find_conds_aliases in blast)
  have b: "Option.bind r (\<lambda>b. if \<not> b then Some False else q) = Some True \<longleftrightarrow> r = Some True \<and> q = Some True" for r q
    by (cases r) auto
  show ?thesis
    using t c by (auto simp: Cons check_ppa_target_def Let_def b)
qed

theorem target_met_iff_witness:
  "check_ppa_target [[(''wns_ns'', PFloat (Fin (- 1 / 20)))]] ''skew <= 0.1'' [] = Some True \<and>
   check_ppa_target [] ''WNS >= -0.1'' [] \<noteq> Some True"
proof -
  have n: "find_conds False timing_aliases (py_lower ''skew <= 0.1'') = []"
    "find_conds True congestion_aliases (py_lower ''skew <= 0.1'') = []" by code_simp+
  show ?thesis
    using target_met_iff [of "[[(''wns_ns'', PFloat (Fin (- 1 / 20)))]]" "''skew <= 0.1''" "[]"]
      target_met_iff [of "[]" "''WNS >= -0.1''" "[]"]
    by (simp add: n pget_def py_or_def)
qed

text \<open>A full stop behind the last threshold is read as part of it, and \<open>float\<close> raises.\<close>

lemma full_stop_raises:
  "check_ppa_target [[(''wns_ns'', PFloat (Fin (- 1 / 20)))]] ''WNS >= -0.1.'' [] = None"
  "check_ppa_target [[(''wns_ns'', PFloat (Fin (- 1 / 20)))]] ''WNS >= -0.1'' [] = Some True"
  by code_simp+

end
