(* ===== verification/ChatFormat.thy ===== *)
theory ChatFormat
  imports ToolDispatch Memory
begin

text \<open>
  The texts of \<open>eda_agent/agent/planner.py\<close>: the system prompt with its context, case and tool
  appendices, the chat of a model without a tool interface (\<open>prompt\<close> mode), and the readers that
  turn text replies back into tool calls. The constant part of the system prompt is an argument.
  \<open>uuid\<close> stands for \<open>uuid.uuid4\<close>: the ids of the process in the order they are drawn.
\<close>

section \<open>Access to replies\<close>

text \<open>\<open>v.get(k, x)\<close>.\<close>

definition val_get :: "pyval \<Rightarrow> string \<Rightarrow> pyval \<Rightarrow> (mem_exc, pyval) result" where
  "val_get v k x = (case v of PDict d \<Rightarrow> Inr (dgetd d k x) | _ \<Rightarrow> Inl NoAttribute)"

text \<open>\<open>v.get(k) or x\<close>.\<close>

definition get_or :: "pyval \<Rightarrow> string \<Rightarrow> pyval \<Rightarrow> (mem_exc, pyval) result" where
  "get_or v k x = ok_bind (val_get v k PNone) (\<lambda>r. Inr (py_or r x))"

text \<open>\<open>v[k]\<close> with a string key.\<close>

definition val_item :: "pyval \<Rightarrow> string \<Rightarrow> (mem_exc, pyval) result" where
  "val_item v k = (case v of
      PDict d \<Rightarrow> (case dget d k of Some x \<Rightarrow> Inr x | None \<Rightarrow> Inl NoItem)
    | _ \<Rightarrow> Inl NoItem)"

text \<open>\<open>v[0]\<close>.\<close>

definition first_item :: "pyval \<Rightarrow> (mem_exc, pyval) result" where
  "first_item v = (case v of
      PList (x # xs) \<Rightarrow> Inr x
    | PStr (c # s) \<Rightarrow> Inr (PStr [c])
    | _ \<Rightarrow> Inl NoItem)"

text \<open>\<open>v[:n]\<close>.\<close>

definition val_take :: "nat \<Rightarrow> pyval \<Rightarrow> (mem_exc, pyval list) result" where
  "val_take n v = (case v of
      PList xs \<Rightarrow> Inr (take n xs)
    | PStr s \<Rightarrow> Inr (map (\<lambda>c. PStr [c]) (take n s))
    | _ \<Rightarrow> Inl NoItem)"

fun ok_map :: "('a \<Rightarrow> ('e, 'b) result) \<Rightarrow> 'a list \<Rightarrow> ('e, 'b list) result" where
  "ok_map f [] = Inr []"
| "ok_map f (x # xs) = ok_bind (f x) (\<lambda>y. ok_bind (ok_map f xs) (\<lambda>ys. Inr (y # ys)))"

section \<open>The system prompt\<close>

definition nl :: string where "nl = [CHR 0x0A]"

definition case_text_max :: nat where "case_text_max = 400"
definition case_actions_max :: nat where "case_actions_max = 4"
definition case_metrics_max :: nat where "case_metrics_max = 300"

definition truncate_text :: "pyval \<Rightarrow> nat \<Rightarrow> string" where
  "truncate_text v limit =
     (let text = py_str (py_or v (PStr [])) in
      if limit = 0 then [] else if length text \<le> limit then text else take (limit - 1) text @ [CHR 0x85])"

definition format_case :: "nat \<Rightarrow> pyval \<Rightarrow> (mem_exc, string) result" where
  "format_case i c =
     ok_bind (get_or c ''actions'' (PList [])) (\<lambda>acts.
     ok_bind (val_take case_actions_max acts) (\<lambda>shown.
     ok_bind (val_get c ''design_name'' (PStr ''unknown'')) (\<lambda>design.
     ok_bind (val_get c ''symptoms'' (PStr [])) (\<lambda>symptoms.
     ok_bind (val_get c ''root_cause'' (PStr [])) (\<lambda>cause.
     ok_bind (get_or c ''result_metrics'' (PDict [])) (\<lambda>metrics.
       Inr (nl @ ''### Case '' @ show_nat i @ '' (design: '' @ py_str design @ '')'' @ nl @
         ''**Symptoms**: '' @ truncate_text symptoms case_text_max @ nl @
         ''**Root cause**: '' @ truncate_text cause case_text_max @ nl @
         ''**Actions taken**: '' @ join ''; '' (map (\<lambda>a. truncate_text a case_text_max) shown) @ nl @
         (if py_truthy metrics
          then ''**Result metrics**: '' @ truncate_text (PStr (raw_json metrics)) case_metrics_max @ nl else []))))))))"

definition format_similar_cases :: "pyval list \<Rightarrow> (mem_exc, string) result" where
  "format_similar_cases cs =
     (if cs = [] then Inr []
      else ok_bind (ok_map (\<lambda>(i, c). format_case i c) (enumerate 1 cs)) (\<lambda>ts.
        Inr (nl @ nl @ ''## Similar Historical Cases (for reference)'' @ nl @ concat ts)))"

definition context_prompt :: "mem \<Rightarrow> string" where
  "context_prompt s =
     (let context = extract_design_context s in
      if context = [] then []
      else nl @ nl @ ''## Current Design Context (USE THIS)'' @ nl @
        concat (map (\<lambda>(k, v). ''- '' @ k @ '': '' @ v @ nl) context))"

definition build_system_prompt :: "string \<Rightarrow> bool \<Rightarrow> mem \<Rightarrow> (mem_exc, string) result" where
  "build_system_prompt base with_cases s =
     ok_bind
       (if with_cases
        then ok_bind (val_items (py_or (mem_get ''_similar_cases'' PNone s) (PList []))) format_similar_cases
        else Inr [])
       (\<lambda>cs. Inr (base @ context_prompt s @ cs))"

definition compact_schema :: "pyval \<Rightarrow> (mem_exc, pyval) result" where
  "compact_schema entry =
     ok_bind (get_or entry ''function'' entry) (\<lambda>fn.
     ok_bind (val_get fn ''name'' (PStr [])) (\<lambda>n.
     ok_bind (val_get fn ''description'' (PStr [])) (\<lambda>d.
     ok_bind (val_get fn ''parameters'' (PDict [])) (\<lambda>p.
       Inr (PDict [(''name'', n), (''description'', d), (''parameters'', p)])))))"

definition tools_to_system_appendix :: "pyval list \<Rightarrow> (mem_exc, string) result" where
  "tools_to_system_appendix tools =
     ok_bind (ok_map compact_schema tools) (\<lambda>cs. Inr (
       nl @ nl @ ''## Available Tools'' @ nl @ nl @
       ''You can call the following tools to help the user.  '' @
       ''When you need to invoke a tool, include a `<tool_call>` block in '' @
       ''your response (you may also include brief explanatory text):'' @ nl @ nl @
       ''<tool_call>'' @ nl @
       ''{\"name\": \"TOOL_NAME\", \"arguments\": {\"arg\": \"value\"}}'' @ nl @
       ''</tool_call>'' @ nl @ nl @
       ''After receiving a tool result you may call another tool or give '' @
       ''your final answer.'' @ nl @ nl @
       ''### Tool schemas (JSON)'' @ nl @ ''```json'' @ nl @ raw_json (PList cs) @ nl @ ''```''))"

section \<open>The chat in prompt mode\<close>

definition open_tag :: string where "open_tag = ''<tool_call>''"
definition close_tag :: string where "close_tag = ''</tool_call>''"

definition call_block :: "string \<Rightarrow> string \<Rightarrow> string" where
  "call_block name args =
     open_tag @ nl @ ''{\"name\": \"'' @ name @ ''\", \"arguments\": '' @ args @ ''}'' @ nl @ close_tag"

definition pretty_args :: "pyval \<Rightarrow> string" where
  "pretty_args raw = (case raw of
      PStr t \<Rightarrow> (case json_loads t of Some v \<Rightarrow> raw_json v | None \<Rightarrow> t)
    | _ \<Rightarrow> py_str raw)"

definition render_call :: "pyval \<Rightarrow> (mem_exc, string) result" where
  "render_call tc =
     ok_bind (get_or tc ''function'' (PDict [])) (\<lambda>fn.
     ok_bind (val_get fn ''name'' (PStr ''unknown'')) (\<lambda>name.
     ok_bind (val_get fn ''arguments'' (PStr ''{}'')) (\<lambda>raw.
       Inr (call_block (py_str name) (pretty_args raw)))))"

definition prompt_message :: "pydict \<Rightarrow> (mem_exc, pydict list) result" where
  "prompt_message m =
     (let role = dgetd m ''role'' (PStr ''user''); content = py_or (pget m ''content'') (PStr []) in
      if role = PStr ''system'' \<or> role = PStr ''user'' then Inr [[(''role'', role), (''content'', content)]]
      else if role = PStr ''assistant'' then
        ok_bind (val_items (py_or (pget m ''tool_calls'') (PList []))) (\<lambda>calls.
        ok_bind (ok_map render_call calls) (\<lambda>parts.
          let text = join nl parts;
              content' = (if calls = [] then content
                else if py_truthy content then PStr (py_str content @ nl @ text) else PStr text)
          in Inr [[(''role'', PStr ''assistant''), (''content'', content')]]))
      else if role = PStr ''tool'' then
        Inr [[(''role'', PStr ''user''),
              (''content'', PStr (''[Tool result for '' @ py_str (dgetd m ''name'' (PStr ''unknown_tool'')) @ '']'' @
                 nl @ py_str content))]]
      else Inr [])"

definition messages_for_prompt_mode :: "pydict list \<Rightarrow> (mem_exc, pydict list) result" where
  "messages_for_prompt_mode ms = ok_bind (ok_map prompt_message ms) (\<lambda>ms'. Inr (concat ms'))"

section \<open>Tool calls in texts\<close>

text \<open>The text before and behind the first occurrence.\<close>

fun split_sub :: "string \<Rightarrow> string \<Rightarrow> (string \<times> string) option" where
  "split_sub p [] = (if p = [] then Some ([], []) else None)"
| "split_sub p (c # s) =
     (if is_prefix p (c # s) then Some ([], drop (length p) (c # s))
      else map_option (\<lambda>(a, b). (c # a, b)) (split_sub p s))"

lemma split_sub_length: "split_sub p s = Some (a, b) \<Longrightarrow> length s = length a + length p + length b"
proof (induction s arbitrary: a)
  case Nil
  then show ?case by (auto split: if_splits)
next
  case (Cons c s)
  show ?case
  proof (cases "is_prefix p (c # s)")
    case True
    then obtain r where r: "c # s = p @ r" unfolding is_prefix_iff by blast
    from True Cons.prems have "a = []" "b = drop (length p) (c # s)" by simp_all
    then show ?thesis unfolding r by simp
  next
    case False
    with Cons show ?thesis by (auto split: if_splits)
  qed
qed

text \<open>
  The matches of \<open><tool_call>\s*(.*?)\s*</tool_call>\<close>, each with the text between it and the match
  before, and the text behind the last one. A group is its body without surrounding space.
\<close>

function segments :: "string \<Rightarrow> (string \<times> string) list \<times> string" where
  "segments s =
     (case split_sub open_tag s of
        None \<Rightarrow> ([], s)
      | Some (before, behind) \<Rightarrow>
          (case split_sub close_tag behind of
             None \<Rightarrow> ([], s)
           | Some (body, rest) \<Rightarrow> let (ps, r) = segments rest in ((before, body) # ps, r)))"
  by pat_completeness auto
termination
  by (relation "measure length") (auto dest!: split_sub_length simp: open_tag_def)

declare segments.simps [simp del]

definition call_entry :: "string \<Rightarrow> pyval \<Rightarrow> string \<Rightarrow> pyval" where
  "call_entry i name args =
     PDict [(''id'', PStr i), (''type'', PStr ''function''),
            (''function'', PDict [(''name'', name), (''arguments'', PStr args)])]"

fun parse_blocks :: "(nat \<Rightarrow> string) \<Rightarrow> nat \<Rightarrow> string list \<Rightarrow> pyval list \<times> nat" where
  "parse_blocks uuid n [] = ([], n)"
| "parse_blocks uuid n (b # bs) =
     (case json_loads (py_strip b) of
        Some (PDict d) \<Rightarrow>
          if py_truthy (pget d ''name'') then
            (let (cs, m) = parse_blocks uuid (Suc n) bs in
             (call_entry (uuid n) (pget d ''name'') (raw_json (dgetd d ''arguments'' (PDict []))) # cs, m))
          else parse_blocks uuid n bs
      | _ \<Rightarrow> parse_blocks uuid n bs)"

definition parse_tool_calls_from_text :: "(nat \<Rightarrow> string) \<Rightarrow> nat \<Rightarrow> string \<Rightarrow> pyval list \<times> nat" where
  "parse_tool_calls_from_text uuid n text = parse_blocks uuid n (map snd (fst (segments text)))"

text \<open>\<open>_TOOL_CALL_RE.sub("", text).strip()\<close>.\<close>

definition strip_blocks :: "string \<Rightarrow> string" where
  "strip_blocks text = (let (ps, r) = segments text in py_strip (concat (map fst ps) @ r))"

section \<open>Normalised replies\<close>

text \<open>The reply with the message of its first choice replaced.\<close>

definition with_calls :: "pydict \<Rightarrow> pyval list \<Rightarrow> pydict \<Rightarrow> pydict \<Rightarrow> string \<Rightarrow> pyval list \<Rightarrow> pyval" where
  "with_calls reply others choice message content calls =
     PDict (dset ''choices'' (PList (PDict (dset ''finish_reason'' (PStr ''tool_calls'')
        (dset ''message'' (PDict (dset ''tool_calls'' (PList calls) (dset ''content'' (PStr content) message))) choice))
        # others)) reply)"

definition choices_of :: "pyval \<Rightarrow> (mem_exc, pyval) result" where
  "choices_of reply = get_or reply ''choices'' (PList [])"

text \<open>What both readers look at: the first choice and its message; \<open>None\<close> without a choice.\<close>

definition first_message :: "pyval \<Rightarrow> (mem_exc, (pydict \<times> pyval list \<times> pydict \<times> pydict) option) result" where
  "first_message reply =
     ok_bind (choices_of reply) (\<lambda>choices.
       if \<not> py_truthy choices then Inr None
       else ok_bind (first_item choices) (\<lambda>choice.
         ok_bind (get_or choice ''message'' (PDict [])) (\<lambda>message.
           case (reply, choices, choice, message) of
             (PDict d, PList (x # xs), PDict c, PDict m) \<Rightarrow> Inr (Some (d, xs, c, m))
           | _ \<Rightarrow> Inl NoAttribute)))"

definition normalize_prompt_mode_response :: "(nat \<Rightarrow> string) \<Rightarrow> nat \<Rightarrow> pyval \<Rightarrow> (mem_exc, pyval \<times> nat) result" where
  "normalize_prompt_mode_response uuid n reply =
     ok_bind (first_message reply) (\<lambda>fm.
       case fm of
         None \<Rightarrow> Inr (reply, n)
       | Some (d, others, choice, message) \<Rightarrow>
           (case py_or (pget message ''content'') (PStr []) of
              PStr content \<Rightarrow>
                (let (calls, m) = parse_tool_calls_from_text uuid n content in
                 if calls = [] then Inr (reply, n)
                 else Inr (with_calls d others choice message (strip_blocks content) calls, m))
            | _ \<Rightarrow> Inl NoString))"

definition ollama_args :: "pyval \<Rightarrow> pyval" where
  "ollama_args raw = (case raw of
      PStr t \<Rightarrow> (case json_loads t of Some v \<Rightarrow> v | None \<Rightarrow> PDict [])
    | PDict d \<Rightarrow> raw
    | _ \<Rightarrow> PDict [])"

definition normalize_ollama_tool_response :: "(nat \<Rightarrow> string) \<Rightarrow> nat \<Rightarrow> pyval \<Rightarrow> (mem_exc, pyval \<times> nat) result" where
  "normalize_ollama_tool_response uuid n reply =
     ok_bind (first_message reply) (\<lambda>fm.
       case fm of
         None \<Rightarrow> Inr (reply, n)
       | Some (d, others, choice, message) \<Rightarrow>
           (case py_or (pget message ''content'') (PStr []) of
              PStr content \<Rightarrow>
                (case json_loads content of
                   Some (PDict data) \<Rightarrow>
                     if ''name'' \<in> set (dkeys data) then
                       Inr (with_calls d others choice message []
                              [call_entry (uuid n) (pget data ''name'')
                                 (raw_json (ollama_args (dgetd data ''arguments'' (PDict []))))], Suc n)
                     else Inr (reply, n)
                 | _ \<Rightarrow> Inr (reply, n))
            | _ \<Rightarrow> Inr (reply, n)))"

end
