(* ===== verification/ChatProps.thy ===== *)
theory ChatProps
  imports ChatFormat
begin

text \<open>
  Properties of the chat texts: tool calls written into a chat in prompt mode are read back.
\<close>

section \<open>Substrings\<close>

lemma split_sub_first:
  assumes "\<not> is_infix (c # q) body" "c \<notin> set q"
  shows "split_sub (c # q) (body @ (c # q) @ rest) = Some (body, rest)"
  using assms(1)
proof (induction body)
  case Nil
  then show ?case by (simp add: is_prefix_iff)
next
  case (Cons b body)
  have "\<not> is_prefix (c # q) (b # body @ (c # q) @ rest)"
  proof
    assume "is_prefix (c # q) (b # body @ (c # q) @ rest)"
    then obtain r where r: "(b # body) @ (c # q) @ rest = (c # q) @ r" by (auto simp: is_prefix_iff)
    show False
    proof (cases "length (c # q) \<le> length (b # body)")
      case True
      from arg_cong [OF r, of "take (length (c # q))"] True
      have "take (length (c # q)) (b # body) = c # q" by simp
      then have "b # body = (c # q) @ drop (length (c # q)) (b # body)" by (metis append_take_drop_id)
      then have "is_prefix (c # q) (b # body)" unfolding is_prefix_iff by blast
      with Cons.prems show False by simp
    next
      case False
      with r obtain u where "c # q = (b # body) @ u" "u \<noteq> []" "(c # q) @ rest = u @ r"
        unfolding append_eq_append_conv2 by auto
      then have "c \<in> set (tl (c # q))" by (cases u) auto
      with assms(2) show False by simp
    qed
  qed
  moreover have "\<not> is_infix (c # q) body" using Cons.prems by simp
  ultimately show ?case using Cons.IH by simp
qed

lemma infix_snoc: "is_infix p (s @ [c]) \<Longrightarrow> c \<notin> set p \<Longrightarrow> p \<noteq> [] \<Longrightarrow> is_infix p s"
proof (induction s)
  case Nil
  then show ?case by (cases p) auto
next
  case (Cons a s)
  have "is_prefix p (a # s)" if "is_prefix p (a # s @ [c])"
  proof -
    from that obtain r where r: "(a # s) @ [c] = p @ r" by (auto simp: is_prefix_iff)
    then have "r \<noteq> []" using Cons.prems(2) by (metis append.right_neutral in_set_conv_decomp)
    then obtain r' where "r = r' @ [last r]" by (metis append_butlast_last_id)
    with r have "a # s = p @ r'" by (metis append_assoc butlast_snoc)
    then show ?thesis by (auto simp: is_prefix_iff)
  qed
  with Cons show ?case by auto
qed

lemma infix_Cons: "is_infix p (c # s) \<Longrightarrow> c \<notin> set p \<Longrightarrow> p \<noteq> [] \<Longrightarrow> is_infix p s"
  by (cases p) auto

section \<open>Surrounding space\<close>

lemma strip_append_space: "\<forall>c \<in> set w. is_space c \<Longrightarrow> py_strip (s @ w) = py_strip s"
proof -
  assume w: "\<forall>c \<in> set w. is_space c"
  show "py_strip (s @ w) = py_strip s"
  proof (cases "\<forall>c \<in> set s. is_space c")
    case True
    with w have "dropWhile is_space (s @ w) = []" "dropWhile is_space s = []" by (auto simp: dropWhile_eq_Nil_conv)
    then show ?thesis by (simp only: py_strip_def lstrip_on_def)
  next
    case False
    then obtain x where "x \<in> set s" "\<not> is_space x" by blast
    then have "dropWhile is_space (s @ w) = dropWhile is_space s @ w" by (rule dropWhile_append1)
    moreover have "dropWhile is_space (rev w @ t) = dropWhile is_space t" for t
      by (rule dropWhile_append2) (use w in simp)
    ultimately show ?thesis by (simp add: py_strip_def lstrip_on_def rstrip_on_def)
  qed
qed

lemma strip_prepend_space: "is_space c \<Longrightarrow> py_strip (c # s) = py_strip s"
  by (simp add: py_strip_def lstrip_on_def)

lemma strip_solid: "\<not> is_space a \<Longrightarrow> \<not> is_space z \<Longrightarrow> py_strip (a # s @ [z]) = a # s @ [z]"
  by (simp add: py_strip_def lstrip_on_def rstrip_on_def)

lemma nl_space [simp]: "is_space (CHR 0x0A)"
  by (simp add: is_space_def code_def)

section \<open>Blocks\<close>

definition plain_name :: "string \<Rightarrow> bool" where
  "plain_name s \<longleftrightarrow> s \<noteq> [] \<and> (\<forall>c \<in> set s. 32 \<le> code c \<and> c \<noteq> CHR 0x22 \<and> c \<noteq> CHR 0x5C)"

text \<open>The JSON object inside the block of a call.\<close>

definition call_json :: "string \<Rightarrow> pyval \<Rightarrow> string" where
  "call_json name v = raw_json (PDict [(''name'', PStr name), (''arguments'', v)])"

lemma plain_name_quoted: "plain_name s \<Longrightarrow> quoted raw_json_char s = CHR 0x22 # s @ [CHR 0x22]"
proof -
  assume "plain_name s"
  then have "map raw_json_char s = map (\<lambda>c. [c]) s" by (auto simp: plain_name_def raw_json_char_def)
  then show ?thesis by (simp only: quoted_def concat_map_singleton map_ident append_Cons append_Nil)
qed

lemma plain_keys: "plain_name ''name''" "plain_name ''arguments''"
  by (auto simp: plain_name_def code_def)

lemma call_block_json:
  "plain_name name \<Longrightarrow> call_block name (raw_json v) = open_tag @ (nl @ call_json name v @ nl) @ close_tag"
  by (simp add: call_block_def call_json_def plain_name_quoted plain_keys nl_def)

lemma call_json_shape: "\<exists>s. call_json name v = CHR ''{'' # s @ [CHR ''}'']"
  by (simp add: call_json_def)

lemma strip_call_json: "py_strip (nl @ call_json name v @ nl) = call_json name v"
proof -
  obtain s where s: "call_json name v = CHR ''{'' # s @ [CHR ''}'']" using call_json_shape by blast
  have "py_strip (nl @ (call_json name v @ nl)) = py_strip (call_json name v)"
    by (simp add: nl_def strip_prepend_space strip_append_space)
  also have "\<dots> = call_json name v" unfolding s by (rule strip_solid) (simp_all add: is_space_def code_def)
  finally show ?thesis .
qed

lemma body_closed:
  assumes "\<not> is_infix close_tag (call_json name v)"
  shows "\<not> is_infix close_tag (nl @ call_json name v @ nl)"
proof
  have n: "CHR 0x0A \<notin> set close_tag" "close_tag \<noteq> []" by (simp_all add: close_tag_def)
  assume "is_infix close_tag (nl @ call_json name v @ nl)"
  then have "is_infix close_tag (CHR 0x0A # (call_json name v @ [CHR 0x0A]))" by (simp add: nl_def)
  from infix_snoc [OF infix_Cons [OF this n] n] assms show False by simp
qed

lemma open_split: "\<not> is_infix open_tag s \<Longrightarrow> split_sub open_tag (s @ open_tag @ rest) = Some (s, rest)"
  unfolding open_tag_def by (rule split_sub_first) simp_all

lemma close_split: "\<not> is_infix close_tag s \<Longrightarrow> split_sub close_tag (s @ close_tag @ rest) = Some (s, rest)"
  unfolding close_tag_def by (rule split_sub_first) simp_all

lemma split_none: "\<not> is_infix p s \<Longrightarrow> split_sub p s = None"
  by (induction s) auto

text \<open>A call as the properties take it: id, name and the value of its arguments.\<close>

type_synonym call = "string \<times> string \<times> pyval"

definition readable :: "call \<Rightarrow> bool" where
  "readable = (\<lambda>(i, name, v). plain_name name \<and> json_plain v \<and> \<not> is_infix close_tag (call_json name v))"

definition call_value :: "call \<Rightarrow> pyval" where
  "call_value = (\<lambda>(i, name, v). call_entry i (PStr name) (raw_json v))"

definition call_text :: "call \<Rightarrow> string" where
  "call_text = (\<lambda>(i, name, v). call_block name (raw_json v))"

definition call_body :: "call \<Rightarrow> string" where
  "call_body = (\<lambda>(i, name, v). nl @ call_json name v @ nl)"

lemma segments_calls:
  assumes "cs \<noteq> []" "\<forall>c \<in> set cs. readable c" "\<not> is_infix open_tag before"
  shows "segments (before @ join nl (map call_text cs)) =
    ((before, call_body (hd cs)) # map (\<lambda>c. (nl, call_body c)) (tl cs), [])"
  using assms
proof (induction cs arbitrary: before)
  case Nil
  then show ?case by simp
next
  case (Cons c cs)
  obtain i name v where c: "c = (i, name, v)" by (cases c)
  have r: "plain_name name" "\<not> is_infix close_tag (nl @ call_json name v @ nl)"
    using Cons.prems(2) body_closed by (auto simp: c readable_def)
  let ?behind = "if cs = [] then [] else nl @ join nl (map call_text cs)"
  have t: "before @ join nl (map call_text (c # cs)) = before @ open_tag @ call_body c @ close_tag @ ?behind"
    by (cases cs) (simp_all add: c call_text_def call_body_def call_block_json [OF r(1)])
  have "split_sub close_tag (call_body c @ close_tag @ ?behind) = Some (call_body c, ?behind)"
    by (rule close_split) (use r(2) in \<open>simp add: c call_body_def\<close>)
  then have s: "segments (before @ join nl (map call_text (c # cs))) =
      (let (ps, r) = segments ?behind in ((before, call_body c) # ps, r))"
    unfolding t by (subst segments.simps) (simp only: open_split [OF Cons.prems(3)] option.case prod.case)
  show ?case
  proof (cases cs)
    case Nil
    have "segments [] = ([], [])" by (subst segments.simps) (simp add: open_tag_def)
    with s Nil show ?thesis by simp
  next
    case (Cons d ds)
    have "\<not> is_infix open_tag nl" by (simp add: nl_def open_tag_def)
    from Cons.IH [OF _ _ this] Cons.prems(2) Cons s show ?thesis by simp
  qed
qed

lemma parse_bodies:
  "\<forall>c \<in> set cs. readable c \<Longrightarrow>
   parse_blocks uuid n (map call_body cs) =
     (map (\<lambda>(k, i, name, v). call_value (uuid k, name, v)) (enumerate n cs), n + length cs)"
proof (induction cs arbitrary: n)
  case Nil
  then show ?case by simp
next
  case (Cons c cs)
  obtain i name v where c: "c = (i, name, v)" by (cases c)
  with Cons.prems have v: "plain_name name" "json_plain v" by (auto simp: readable_def)
  have "json_loads (call_json name v) = Some (PDict [(''name'', PStr name), (''arguments'', v)])"
    unfolding call_json_def by (rule json_loads_raw) (simp add: v)
  moreover have "name \<noteq> []" using v by (simp add: plain_name_def)
  ultimately show ?case
    using Cons by (simp add: c call_body_def strip_call_json pget_def dgetd_def call_value_def)
qed

lemma render_calls:
  assumes "\<forall>c \<in> set cs. readable c"
  shows "ok_map render_call (map call_value cs) = Inr (map call_text cs)"
  using assms
proof (induction cs)
  case (Cons c cs)
  obtain i name v where c: "c = (i, name, v)" by (cases c)
  with Cons.prems have "json_loads (raw_json v) = Some v" by (intro json_loads_raw) (auto simp: readable_def)
  then have "render_call (call_value c) = Inr (call_text c)"
    by (simp add: c render_call_def call_value_def call_entry_def get_or_def val_get_def dgetd_def py_or_def
        pretty_args_def py_str_def call_text_def)
  with Cons show ?case by simp
qed simp

section \<open>The round trip\<close>



text \<open>A closing tag inside an argument ends the block early, and the call is lost.\<close>

lemma closing_tag_loses_call:
  "fst (parse_tool_calls_from_text (\<lambda>k. ''c2'') 0 (call_block ''f'' (raw_json (PDict [(''a'', PStr close_tag)])))) = []"
proof -
  have "fst (segments (call_block ''f'' (raw_json (PDict [(''a'', PStr close_tag)])))) =
      [([], nl @ ''{\"name\": \"f\", \"arguments\": {\"a\": \"'')]" by code_simp
  moreover have "parse_blocks (\<lambda>k. ''c2'') 0 [nl @ ''{\"name\": \"f\", \"arguments\": {\"a\": \"''] = ([], 0)"
    by code_simp
  ultimately show ?thesis by (simp only: parse_tool_calls_from_text_def list.map snd_conv fst_conv)
qed

end
