(* ===== verification/Streaming.thy ===== *)
theory Streaming
  imports ChatFormat
begin

text \<open>
  \<open>Planner._call_llm_stream\<close>: an SSE reply is read line by line and put together into a regular
  response. The caller swallows every exception of the reader, so a failure carries only what was
  accumulated, of which the content fragments have been shown to the listener.
\<close>

section \<open>The accumulated reply\<close>

text \<open>
  A key of \<open>tool_calls_by_index\<close>: \<open>None\<close>, a number (booleans and floats are equal to integers) or
  a string. Lists and dictionaries are not hashable; NaN and the infinities are outside the model.
\<close>

datatype index = IxNone | IxNum rat | IxStr string

definition index_of :: "pyval \<Rightarrow> index option" where
  "index_of v = (case v of
      PNone \<Rightarrow> Some IxNone
    | PBool b \<Rightarrow> Some (IxNum (if b then 1 else 0))
    | PInt n \<Rightarrow> Some (IxNum (of_int n))
    | PFloat (Fin q) \<Rightarrow> Some (IxNum q)
    | PStr s \<Rightarrow> Some (IxStr s)
    | _ \<Rightarrow> None)"

record slot =
  sl_id :: pyval
  sl_type :: pyval
  sl_name :: pyval
  sl_args :: string

record stream_acc =
  sa_model :: pyval
  sa_finish :: pyval
  sa_content :: "pyval list"
  sa_reasoning :: "pyval list"
  sa_slots :: "(index \<times> slot) list"

definition start_acc :: "string \<Rightarrow> stream_acc" where
  "start_acc model = \<lparr>sa_model = PStr model, sa_finish = PStr ''stop'', sa_content = [], sa_reasoning = [], sa_slots = []\<rparr>"

section \<open>One chunk\<close>

definition keep_true :: "pyval \<Rightarrow> pyval list \<Rightarrow> pyval list" where
  "keep_true v xs = (if py_truthy v then xs @ [v] else xs)"

text \<open>One fragment of a tool call; \<open>None\<close> where it raises.\<close>

definition fragment_step :: "pyval \<Rightarrow> (index \<times> slot) list \<Rightarrow> (index \<times> slot) list option" where
  "fragment_step tc slots =
     (case tc of
        PDict d \<Rightarrow>
          Option.bind (index_of (dgetd d ''index'' (PInt 0))) (\<lambda>i.
            let slot = dgetd slots i
                  \<lparr>sl_id = pget d ''id'', sl_type = dgetd d ''type'' (PStr ''function''), sl_name = PStr [], sl_args = []\<rparr>;
                slot = (if py_truthy (pget d ''id'') then slot\<lparr>sl_id := pget d ''id''\<rparr> else slot)
            in case py_or (pget d ''function'') (PDict []) of
                 PDict fn \<Rightarrow>
                   let slot = (if py_truthy (pget fn ''name'') then slot\<lparr>sl_name := pget fn ''name''\<rparr> else slot);
                       args = pget fn ''arguments''
                   in if \<not> py_truthy args then Some (dset i slot slots)
                      else (case args of PStr a \<Rightarrow> Some (dset i (slot\<lparr>sl_args := sl_args slot @ a\<rparr>) slots) | _ \<Rightarrow> None)
               | _ \<Rightarrow> None)
      | _ \<Rightarrow> None)"

fun fragments_step :: "pyval list \<Rightarrow> (index \<times> slot) list \<Rightarrow> (index \<times> slot) list option" where
  "fragments_step [] slots = Some slots"
| "fragments_step (t # ts) slots = Option.bind (fragment_step t slots) (fragments_step ts)"

text \<open>\<open>Inl\<close> is an exception, with what was accumulated before it.\<close>

definition delta_step :: "pyval \<Rightarrow> stream_acc \<Rightarrow> (stream_acc, stream_acc) result" where
  "delta_step delta acc =
     (case delta of
        PDict d \<Rightarrow>
          let acc = acc\<lparr>sa_content := keep_true (pget d ''content'') (sa_content acc),
                        sa_reasoning := keep_true (pget d ''reasoning_content'') (sa_reasoning acc)\<rparr>
          in (case val_items (py_or (pget d ''tool_calls'') (PList [])) of
                Inl e \<Rightarrow> Inl acc
              | Inr ts \<Rightarrow> (case fragments_step ts (sa_slots acc) of
                  None \<Rightarrow> Inl acc
                | Some slots \<Rightarrow> Inr (acc\<lparr>sa_slots := slots\<rparr>)))
      | _ \<Rightarrow> Inl acc)"

definition chunk_step :: "pyval \<Rightarrow> stream_acc \<Rightarrow> (stream_acc, stream_acc) result" where
  "chunk_step chunk acc =
     (case chunk of
        PDict c \<Rightarrow>
          let acc = acc\<lparr>sa_model := dgetd c ''model'' (sa_model acc)\<rparr>;
              choices = py_or (pget c ''choices'') (PList [])
          in if \<not> py_truthy choices then Inr acc
             else (case first_item choices of
                 Inr (PDict choice) \<Rightarrow>
                   delta_step (py_or (pget choice ''delta'') (PDict []))
                     (acc\<lparr>sa_finish := py_or (pget choice ''finish_reason'') (sa_finish acc)\<rparr>)
               | _ \<Rightarrow> Inl acc)
      | _ \<Rightarrow> Inl acc)"

section \<open>The lines\<close>

text \<open>\<open>broken\<close>: the connection fails behind the last line.\<close>

fun feed :: "bool \<Rightarrow> string list \<Rightarrow> stream_acc \<Rightarrow> (stream_acc, stream_acc) result" where
  "feed broken [] acc = (if broken then Inl acc else Inr acc)"
| "feed broken (l # ls) acc =
     (if \<not> is_prefix ''data:'' l then feed broken ls acc
      else let text = py_strip (drop 5 l) in
        if text = ''[DONE]'' then Inr acc
        else case json_loads text of
          None \<Rightarrow> feed broken ls acc
        | Some chunk \<Rightarrow> ok_bind (chunk_step chunk acc) (feed broken ls))"

section \<open>The response\<close>

fun str_less :: "string \<Rightarrow> string \<Rightarrow> bool" where
  "str_less [] t = (t \<noteq> [])"
| "str_less (a # s) [] = False"
| "str_less (a # s) (b # t) = (code a < code b \<or> a = b \<and> str_less s t)"

definition index_less :: "index \<Rightarrow> index \<Rightarrow> bool" where
  "index_less i j = (case (i, j) of
      (IxNum x, IxNum y) \<Rightarrow> x < y
    | (IxStr s, IxStr t) \<Rightarrow> str_less s t
    | _ \<Rightarrow> False)"

fun is_num :: "index \<Rightarrow> bool" where
  "is_num (IxNum x) = True"
| "is_num _ = False"

fun is_text :: "index \<Rightarrow> bool" where
  "is_text (IxStr s) = True"
| "is_text _ = False"

text \<open>\<open>sorted(...)\<close> of the keys raises when it has to compare two kinds.\<close>

definition ordered_slots :: "(index \<times> slot) list \<Rightarrow> slot list option" where
  "ordered_slots slots =
     (if length slots \<le> 1 \<or> list_all (is_num \<circ> fst) slots \<or> list_all (is_text \<circ> fst) slots
      then Some (map snd (sort_desc (\<lambda>a b. index_less (fst b) (fst a)) slots)) else None)"

fun number_slots :: "(nat \<Rightarrow> string) \<Rightarrow> nat \<Rightarrow> slot list \<Rightarrow> slot list \<times> nat" where
  "number_slots uuid n [] = ([], n)"
| "number_slots uuid n (s # ss) =
     (if py_truthy (sl_id s) then let (ts, m) = number_slots uuid n ss in (s # ts, m)
      else let (ts, m) = number_slots uuid (Suc n) ss in (s\<lparr>sl_id := PStr (uuid n)\<rparr> # ts, m))"

definition slot_value :: "slot \<Rightarrow> pyval" where
  "slot_value s =
     PDict [(''id'', sl_id s), (''type'', sl_type s),
            (''function'', PDict [(''name'', sl_name s), (''arguments'', PStr (sl_args s))])]"

text \<open>\<open>"".join(xs)\<close>.\<close>

definition joined :: "pyval list \<Rightarrow> string option" where
  "joined xs = (if list_all is_str xs then Some (concat (map py_str xs)) else None)"

definition assemble :: "(nat \<Rightarrow> string) \<Rightarrow> nat \<Rightarrow> stream_acc \<Rightarrow> (pyval \<times> nat) option" where
  "assemble uuid n acc =
     Option.bind (joined (sa_content acc)) (\<lambda>content.
     Option.bind (joined (sa_reasoning acc)) (\<lambda>reasoning.
     map_option (\<lambda>slots.
       let (calls, m) = number_slots uuid n slots;
           message = [(''role'', PStr ''assistant''), (''content'', PStr content)] @
             (if sa_reasoning acc = [] then [] else [(''reasoning_content'', PStr reasoning)]) @
             (if calls = [] then [] else [(''tool_calls'', PList (map slot_value calls))])
       in (PDict [(''model'', sa_model acc),
                  (''choices'', PList [PDict [(''finish_reason'', sa_finish acc), (''message'', PDict message)]])], m))
     (ordered_slots (sa_slots acc))))"

text \<open>
  The response, \<open>None\<close> where the reader raises, with the next unused id, and the content
  fragments shown on the way.
\<close>

definition read_stream :: "(nat \<Rightarrow> string) \<Rightarrow> nat \<Rightarrow> string \<Rightarrow> string list \<Rightarrow> bool \<Rightarrow> (pyval \<times> nat) option \<times> pyval list" where
  "read_stream uuid n model lines broken =
     (case feed broken lines (start_acc model) of
        Inl acc \<Rightarrow> (None, sa_content acc)
      | Inr acc \<Rightarrow> (assemble uuid n acc, sa_content acc))"

end
