(* ===== verification/Planner.thy ===== *)
theory Planner
  imports Streaming
begin

text \<open>
  \<open>Planner\<close> of \<open>eda_agent/agent/planner.py\<close>: its configuration, the payload of a request with its
  one retry, the reply of the model, and \<open>run\<close>, the loop that executes the tool calls of one user
  turn. The server, the tools and the case memory act on a world of type \<open>'w\<close>.
\<close>

section \<open>Configuration\<close>

record llm_settings =
  llm_backend :: string
  llm_tool_calling_mode :: string
  ollama_model :: string
  ollama_base_url :: string
  vllm_model :: string
  vllm_base_url :: string
  vllm_max_output_tokens :: int
  minimax_api_key :: string
  minimax_model :: string
  minimax_base_url :: string
  minimax_group_id :: string
  minimax_max_tokens :: int
  minimax_temperature :: pyval
  minimax_input_max_tokens :: int
  minimax_timeout_retry_input_max_tokens :: int
  agent_max_iterations :: int

record planner =
  pl_api_key :: string
  pl_model :: string
  pl_base_url :: string
  pl_max_output_tokens :: "int option"
  pl_max_iterations :: int
  pl_input_max_tokens :: int
  pl_retry_max_tokens :: int

definition str_or :: "string option \<Rightarrow> string \<Rightarrow> string" where
  "str_or a b = (case a of Some (c # s) \<Rightarrow> c # s | _ \<Rightarrow> b)"

definition strip_slash :: "string \<Rightarrow> string" where
  "strip_slash s = rstrip_on (\<lambda>c. c = CHR ''/'') s"

definition new_planner :: "llm_settings \<Rightarrow> string option \<Rightarrow> string option \<Rightarrow> int option \<Rightarrow> planner" where
  "new_planner st key model n =
     (let (k, m, u, out) =
        (if llm_backend st = ''ollama'' then
           (str_or key ''ollama'', str_or model (ollama_model st), strip_slash (ollama_base_url st), None)
         else if llm_backend st = ''vllm'' then
           (str_or key ''vllm'', str_or model (vllm_model st), strip_slash (vllm_base_url st),
            Some (min 500 (vllm_max_output_tokens st)))
         else (str_or key (minimax_api_key st), str_or model (minimax_model st), strip_slash (minimax_base_url st), None))
      in \<lparr>pl_api_key = k, pl_model = m, pl_base_url = u, pl_max_output_tokens = out,
          pl_max_iterations = (case n of Some i \<Rightarrow> if i \<noteq> 0 then i else agent_max_iterations st | None \<Rightarrow> agent_max_iterations st),
          pl_input_max_tokens = minimax_input_max_tokens st,
          pl_retry_max_tokens = minimax_timeout_retry_input_max_tokens st\<rparr>)"

definition endpoint :: "llm_settings \<Rightarrow> planner \<Rightarrow> string" where
  "endpoint st p =
     (if llm_backend st = ''ollama'' then pl_base_url p @ ''/chat/completions''
      else if minimax_group_id st \<noteq> [] then pl_base_url p @ ''/text/chatcompletion_v2?GroupId='' @ minimax_group_id st
      else pl_base_url p @ ''/chat/completions'')"

section \<open>The environment and the state\<close>

text \<open>A POST: the decoded body, a timeout, or any other failure (status, transport, body).\<close>

datatype post_result = Replied pyval | TimedOut | PostFailed

record 'w llm_env =
  le_settings :: llm_settings
  le_planner :: planner
  le_prompt :: string
  le_stream :: bool
  le_uuid :: "nat \<Rightarrow> string"
  le_post :: "string \<Rightarrow> pydict \<Rightarrow> 'w \<Rightarrow> post_result \<times> 'w"
  le_sse :: "string \<Rightarrow> pydict \<Rightarrow> 'w \<Rightarrow> (string list \<times> bool) \<times> 'w"
  le_trace :: "'w \<Rightarrow> pyval option"
  le_tools :: "'w tool_env"
  le_case_env :: "'w \<Rightarrow> case_env"
  le_case_rows :: "'w \<Rightarrow> case_row list"

datatype event =
    IterationStart nat
  | Token pyval
  | Trace pyval
  | ToolCall pyval pydict
  | ToolResult pyval string
  | ToolRaised pyval
  | AsyncSubmission pydict

text \<open>\<open>ps_sent\<close> and \<open>ps_audit\<close> record the payloads sent and the audit rows written.\<close>

record 'w pstate =
  ps_mem :: mem
  ps_world :: 'w
  ps_ids :: nat
  ps_events :: "event list"
  ps_sent :: "pydict list"
  ps_audit :: "audit_row list"

datatype planner_exc =
    Raised mem_exc
  | GuardRaised guard_exc
  | UnhashableName
  | BadJson pyval pyval
  | NotObject pyval
  | LlmTimeout
  | LlmFailed

datatype reply =
    Text pyval
  | Submitted pyval pyval pyval   \<comment> \<open>job id, status and note of an asynchronous submission\<close>

definition emit :: "event \<Rightarrow> 'w pstate \<Rightarrow> 'w pstate" where
  "emit e s = s\<lparr>ps_events := ps_events s @ [e]\<rparr>"

definition lift_exc :: "(mem_exc, 'a) result \<Rightarrow> (planner_exc, 'a) result" where
  "lift_exc r = map_sum Raised id r"

section \<open>Similar cases\<close>

definition case_cache_max :: nat where "case_cache_max = 8"

definition refresh_similar_cases :: "case_env \<Rightarrow> case_row list \<Rightarrow> string \<Rightarrow> mem \<Rightarrow> (mem_exc, mem) result" where
  "refresh_similar_cases ce rows message s =
     (let query = py_strip message in
      if query = [] then Inr (mem_set ''_similar_cases'' (PList []) s)
      else case py_or (mem_get ''_cases_cache'' PNone s) (PDict []) of
        PDict cache \<Rightarrow>
          (case dget cache query of
             Some found \<Rightarrow> Inr (mem_set ''_similar_cases'' found s)
           | None \<Rightarrow>
               let similar = PList (map PDict (search_similar_cases ce query [] 3 rows));
                   cache' = dset query similar cache;
                   cache' = (if case_cache_max < length cache' then tl cache' else cache')
               in Inr (mem_set ''_similar_cases'' similar (mem_set ''_cases_cache'' (PDict cache') s)))
      | _ \<Rightarrow> Inl NoItem)"

section \<open>The payload\<close>

definition prompt_mode :: "llm_settings \<Rightarrow> bool" where
  "prompt_mode st \<longleftrightarrow> llm_tool_calling_mode st = ''prompt''"

definition all_schemas :: "'w tool_env \<Rightarrow> pyval list" where
  "all_schemas te = tool_schemas @ map PDict (ts_schemas (te_tools te))"

definition vllm_tool_schemas :: "pyval list \<Rightarrow> pyval list" where
  "vllm_tool_schemas ts = map ((!) ts) [0, 3, 4, 7, 8, 15, 13, 14]"

definition build_payload :: "'w llm_env \<Rightarrow> bool \<Rightarrow> int \<Rightarrow> mem \<Rightarrow> (mem_exc, pydict) result" where
  "build_payload env with_cases max_input s =
     (let st = le_settings env; tools = all_schemas (le_tools env) in
      ok_bind (build_system_prompt (le_prompt env) with_cases s) (\<lambda>prompt.
      ok_bind (if prompt_mode st
               then tools_to_system_appendix (if llm_backend st \<noteq> ''vllm'' then tools else vllm_tool_schemas tools)
               else Inr []) (\<lambda>appendix.
      ok_bind (get_messages (prompt @ appendix) (if 0 < max_input then Some max_input else None) s) (\<lambda>ms.
      ok_bind (if prompt_mode st then messages_for_prompt_mode ms else Inr ms) (\<lambda>ms.
        Inr ([(''model'', PStr (pl_model (le_planner env))),
              (''messages'', PList (map PDict ms)),
              (''max_tokens'', PInt (if llm_backend st = ''vllm''
                 then min (minimax_max_tokens st) (case_option 0 id (pl_max_output_tokens (le_planner env)))
                 else minimax_max_tokens st)),
              (''temperature'', minimax_temperature st)] @
             (if prompt_mode st then []
              else [(''tools'', PList tools),
                    (''tool_choice'', PStr (if llm_backend st = ''vllm'' then ''none'' else ''auto''))])))))))"

section \<open>Requests\<close>

definition send_json_request :: "'w llm_env \<Rightarrow> pydict \<Rightarrow> 'w pstate \<Rightarrow> post_result \<times> 'w pstate" where
  "send_json_request env payload s =
     (let (r, w) = le_post env (endpoint (le_settings env) (le_planner env)) payload (ps_world s)
      in (r, s\<lparr>ps_world := w, ps_sent := ps_sent s @ [payload]\<rparr>))"

definition retry_budget :: "'w llm_env \<Rightarrow> int" where
  "retry_budget env =
     (let p = le_planner env in
      if 0 < pl_retry_max_tokens p then pl_retry_max_tokens p
      else if 0 < pl_input_max_tokens p then max 1 (pl_input_max_tokens p div 2)
      else max 1 (minimax_max_tokens (le_settings env) div 2))"

definition reduces_context :: "'w llm_env \<Rightarrow> mem \<Rightarrow> bool" where
  "reduces_context env s \<longleftrightarrow>
     py_truthy (mem_get ''_similar_cases'' PNone s) \<or>
     0 < pl_input_max_tokens (le_planner env) \<and> retry_budget env < pl_input_max_tokens (le_planner env)"

definition post_chat_completion :: "'w llm_env \<Rightarrow> pydict \<Rightarrow> 'w pstate \<Rightarrow> (planner_exc, pyval) result \<times> 'w pstate" where
  "post_chat_completion env payload s =
     (case send_json_request env payload s of
        (Replied v, s') \<Rightarrow> (Inr v, s')
      | (PostFailed, s') \<Rightarrow> (Inl LlmFailed, s')
      | (TimedOut, s') \<Rightarrow>
          if \<not> reduces_context env (ps_mem s') then (Inl LlmTimeout, s')
          else case build_payload env False (retry_budget env) (ps_mem s') of
            Inl e \<Rightarrow> (Inl (Raised e), s')
          | Inr retry_payload \<Rightarrow>
              (case send_json_request env retry_payload s' of
                 (Replied v, s'') \<Rightarrow> (Inr v, s'')
               | (PostFailed, s'') \<Rightarrow> (Inl LlmFailed, s'')
               | (TimedOut, s'') \<Rightarrow> (Inl LlmTimeout, s'')))"

text \<open>The streaming request; every failure falls back to the plain one.\<close>

definition stream_or_post :: "'w llm_env \<Rightarrow> pydict \<Rightarrow> 'w pstate \<Rightarrow> (planner_exc, pyval) result \<times> 'w pstate" where
  "stream_or_post env payload s =
     (if \<not> le_stream env then post_chat_completion env payload s
      else let streaming = dset ''stream'' (PBool True) payload;
               ((lines, broken), w) = le_sse env (endpoint (le_settings env) (le_planner env)) streaming (ps_world s);
               (r, tokens) = read_stream (le_uuid env) (ps_ids s) (pl_model (le_planner env)) lines broken;
               s' = s\<lparr>ps_world := w, ps_sent := ps_sent s @ [streaming],
                      ps_events := ps_events s @ map Token tokens\<rparr>
           in (case r of
                 Some (v, n) \<Rightarrow> (Inr v, s'\<lparr>ps_ids := n\<rparr>)
               | None \<Rightarrow> post_chat_completion env payload s'))"

definition trace_chat :: "pyval option \<Rightarrow> pyval \<Rightarrow> (mem_exc, pyval) result" where
  "trace_chat trace v = (case trace of
      None \<Rightarrow> Inr v
    | Some t \<Rightarrow> (case v of PDict d \<Rightarrow> Inr (PDict (dset ''_tracing'' t d)) | _ \<Rightarrow> Inl NoItem))"

text \<open>The readers of textual tool calls and the trace, in their order.\<close>

definition finish_reply :: "'w llm_env \<Rightarrow> nat \<Rightarrow> pyval option \<Rightarrow> pyval \<Rightarrow> (mem_exc, pyval \<times> nat) result" where
  "finish_reply env n trace v =
     ok_bind (if prompt_mode (le_settings env) then normalize_prompt_mode_response (le_uuid env) n v else Inr (v, n))
       (\<lambda>(v, n).
     ok_bind (if llm_backend (le_settings env) = ''ollama'' then normalize_ollama_tool_response (le_uuid env) n v
              else Inr (v, n)) (\<lambda>(v, n).
     ok_bind (trace_chat trace v) (\<lambda>v. Inr (v, n))))"

definition call_llm :: "'w llm_env \<Rightarrow> 'w pstate \<Rightarrow> (planner_exc, pyval) result \<times> 'w pstate" where
  "call_llm env s =
     (case build_payload env True (pl_input_max_tokens (le_planner env)) (ps_mem s) of
        Inl e \<Rightarrow> (Inl (Raised e), s)
      | Inr payload \<Rightarrow>
          (case stream_or_post env payload s of
             (Inl e, s') \<Rightarrow> (Inl e, s')
           | (Inr v, s') \<Rightarrow>
               (case finish_reply env (ps_ids s') (le_trace env (ps_world s')) v of
                  Inl e \<Rightarrow> (Inl (Raised e), s')
                | Inr (v, n) \<Rightarrow> (Inr v, s'\<lparr>ps_ids := n\<rparr>))))"

section \<open>One tool call\<close>

definition extract_job_submission :: "string \<Rightarrow> pydict option" where
  "extract_job_submission r =
     (case json_loads r of
        Some (PDict d) \<Rightarrow> if py_truthy (pget d ''job_id'') then Some d else None
      | _ \<Rightarrow> None)"

definition format_async_submission_reply :: "pydict \<Rightarrow> reply" where
  "format_async_submission_reply d =
     Submitted (pget d ''job_id'') (dgetd d ''status'' (PStr ''pending''))
       (py_or (pget d ''message'') (PStr ''Job submitted successfully.''))"

text \<open>\<open>tc["function"]["name"]\<close> and the parsed arguments.\<close>

definition read_call :: "pyval \<Rightarrow> (planner_exc, pyval \<times> pydict) result" where
  "read_call tc =
     ok_bind (lift_exc (val_item tc ''function'')) (\<lambda>fn.
     ok_bind (lift_exc (val_item fn ''name'')) (\<lambda>name.
     ok_bind (lift_exc (val_get fn ''arguments'' (PStr ''{}''))) (\<lambda>raw.
       case raw of
         PStr t \<Rightarrow>
           (case json_loads t of
              None \<Rightarrow> Inl (BadJson name raw)
            | Some (PDict args) \<Rightarrow> Inr (name, args)
            | Some v \<Rightarrow> Inl (NotObject name))
       | _ \<Rightarrow> Inl (Raised NoString))))"

text \<open>\<open>execute_tool\<close> for the name as it came; a list or a dictionary cannot be looked up.\<close>

definition execute_named :: "'w tool_env \<Rightarrow> pyval \<Rightarrow> pydict \<Rightarrow> 'w \<Rightarrow> (planner_exc, string) result \<times> 'w \<times> audit_row list" where
  "execute_named te name args w =
     (case name of
        PStr n \<Rightarrow> (case execute_tool te n args w of (r, w', rows) \<Rightarrow> (map_sum GuardRaised id r, w', rows))
      | PList xs \<Rightarrow> (Inl UnhashableName, w, [])
      | PDict d \<Rightarrow> (Inl UnhashableName, w, [])
      | _ \<Rightarrow> (Inr (json_dumps (error_reply (''Unknown tool: '' @ py_str name))), w, []))"

definition submits :: "pyval \<Rightarrow> bool" where
  "submits name \<longleftrightarrow> name = PStr ''submit_job'' \<or> name = PStr ''run_eda_flow''"

text \<open>One call: its job submission, if it is one. The fresh id is drawn in any case.\<close>

definition run_call :: "'w llm_env \<Rightarrow> pyval \<Rightarrow> 'w pstate \<Rightarrow> (planner_exc, pydict option) result \<times> 'w pstate" where
  "run_call env tc s =
     (case val_get tc ''id'' (PStr (le_uuid env (ps_ids s))) of
        Inl e \<Rightarrow> (Inl (Raised e), s)
      | Inr tc_id \<Rightarrow>
          let s = s\<lparr>ps_ids := Suc (ps_ids s)\<rparr> in
          (case read_call tc of
             Inl e \<Rightarrow> (Inl e, s)
           | Inr (name, args) \<Rightarrow>
               let s = emit (ToolCall name args) s;
                   (r, w, rows) = execute_named (le_tools env) name args (ps_world s);
                   s = s\<lparr>ps_world := w, ps_audit := ps_audit s @ rows\<rparr>
               in (case r of
                     Inl e \<Rightarrow> (Inl e, emit (ToolRaised name) s)
                   | Inr res \<Rightarrow>
                       let s = emit (ToolResult name res) s;
                           m = add_tool_result name (PStr res) tc_id (ps_mem s);
                           m = update_context_from_tool (PDict args) (PStr res) m
                       in (Inr (if submits name then extract_job_submission res else None), s\<lparr>ps_mem := m\<rparr>))))"

text \<open>All calls of a turn; the last submission counts.\<close>

fun run_calls :: "'w llm_env \<Rightarrow> pyval list \<Rightarrow> pydict option \<Rightarrow> 'w pstate
    \<Rightarrow> (planner_exc, pydict option) result \<times> 'w pstate" where
  "run_calls env [] job s = (Inr job, s)"
| "run_calls env (tc # tcs) job s =
     (case run_call env tc s of
        (Inl e, s') \<Rightarrow> (Inl e, s')
      | (Inr j, s') \<Rightarrow> run_calls env tcs (if j = None then job else j) s')"

section \<open>The loop\<close>

definition last_assistant_text :: "mem \<Rightarrow> string" where
  "last_assistant_text s =
     (case find (\<lambda>m. msg_role m = ''assistant'' \<and> py_truthy (msg_content m)) (rev (history s)) of
        None \<Rightarrow> []
      | Some m \<Rightarrow> py_str (msg_content m))"

definition last_text_or :: "mem \<Rightarrow> string \<Rightarrow> reply" where
  "last_text_or s dflt = Text (PStr (if last_assistant_text s = [] then dflt else last_assistant_text s))"

datatype verdict = Return reply | Break | Next

text \<open>What the loop takes from a response; \<open>None\<close> when it has no choices.\<close>

definition read_choice :: "pyval \<Rightarrow> (mem_exc, (pyval \<times> pyval \<times> pyval) option) result" where
  "read_choice response =
     (if \<not> py_truthy response then Inr None
      else ok_bind (val_get response ''choices'' PNone) (\<lambda>choices.
        if \<not> py_truthy choices then Inr None
        else ok_bind (first_item choices) (\<lambda>choice.
          ok_bind (val_get choice ''finish_reason'' (PStr ''stop'')) (\<lambda>finish.
          ok_bind (val_get choice ''message'' (PDict [])) (\<lambda>message.
          ok_bind (get_or message ''content'' (PStr [])) (\<lambda>content.
          ok_bind (get_or message ''tool_calls'' (PList [])) (\<lambda>calls.
          ok_bind (val_get message ''reasoning_content'' (PStr [])) (\<lambda>reasoning.
            Inr (Some (finish, if \<not> py_truthy content \<and> py_truthy reasoning then reasoning else content, calls))))))))))"

definition act_on :: "'w llm_env \<Rightarrow> pyval \<Rightarrow> pyval \<Rightarrow> pyval \<Rightarrow> 'w pstate \<Rightarrow> (planner_exc, verdict) result \<times> 'w pstate" where
  "act_on env finish text calls s =
     (if \<not> py_truthy calls then
        (Inr (Return (Text (py_or text (PStr (''Tool executed. Here'' @ [CHR 0x27] @ ''s your result:''))))),
         if py_truthy text then s\<lparr>ps_mem := add_msg (assistant_msg text PNone) (ps_mem s)\<rparr> else s)
      else
        let s = s\<lparr>ps_mem := add_msg (assistant_msg text calls) (ps_mem s)\<rparr> in
        (case val_items calls of
           Inl e \<Rightarrow> (Inl (Raised e), s)
         | Inr tcs \<Rightarrow>
             (case run_calls env tcs None s of
                (Inl e, s') \<Rightarrow> (Inl e, s')
              | (Inr (Some job), s') \<Rightarrow> (Inr (Return (format_async_submission_reply job)), emit (AsyncSubmission job) s')
              | (Inr None, s') \<Rightarrow> (Inr (if finish = PStr ''stop'' then Break else Next), s'))))"

definition react_step :: "'w llm_env \<Rightarrow> nat \<Rightarrow> 'w pstate \<Rightarrow> (planner_exc, verdict) result \<times> 'w pstate" where
  "react_step env i s =
     (case call_llm env (emit (IterationStart (Suc i)) s) of
        (Inl e, s') \<Rightarrow> (Inl e, s')
      | (Inr response, s') \<Rightarrow>
          let trace = pget (dict_of response) ''_tracing'';
              s' = (if py_truthy trace then emit (Trace trace) s' else s')
          in (case read_choice response of
                Inl e \<Rightarrow> (Inl (Raised e), s')
              | Inr None \<Rightarrow> (Inr (Return (last_text_or (ps_mem s') (''Sorry, I couldn'' @ [CHR 0x27] @ ''t process that request.''))), s')
              | Inr (Some (finish, text, calls)) \<Rightarrow> act_on env finish text calls s'))"

fun react_loop :: "'w llm_env \<Rightarrow> nat \<Rightarrow> nat \<Rightarrow> 'w pstate \<Rightarrow> (planner_exc, reply) result \<times> 'w pstate" where
  "react_loop env i 0 s = (Inr (last_text_or (ps_mem s) ''Agent reached max iterations.''), s)"
| "react_loop env i (Suc n) s =
     (case react_step env i s of
        (Inl e, s') \<Rightarrow> (Inl e, s')
      | (Inr (Return r), s') \<Rightarrow> (Inr r, s')
      | (Inr Break, s') \<Rightarrow> (Inr (last_text_or (ps_mem s') ''Agent reached max iterations.''), s')
      | (Inr Next, s') \<Rightarrow> react_loop env (Suc i) n s')"

definition run :: "'w llm_env \<Rightarrow> string \<Rightarrow> 'w pstate \<Rightarrow> (planner_exc, reply) result \<times> 'w pstate" where
  "run env message s =
     (case refresh_similar_cases (le_case_env env (ps_world s)) (le_case_rows env (ps_world s)) message (ps_mem s) of
        Inl e \<Rightarrow> (Inl (Raised e), s)
      | Inr m \<Rightarrow>
          react_loop env 0 (nat (pl_max_iterations (le_planner env))) (s\<lparr>ps_mem := add_user message m\<rparr>))"

end
