(* ===== verification/PlannerLemmas.thy ===== *)
theory PlannerLemmas
  imports Planner MemoryLemmas
begin

text \<open>
  Lemmas on the planner: histories in which every call is answered before the next message, how
  eviction and the calls of a turn keep them so, and what a request adds to the log.
\<close>

section \<open>Answered histories\<close>

text \<open>The open ids, \<open>None\<close> also when a message other than a tool result comes while an id is open.\<close>

definition open_step :: "message \<Rightarrow> string list \<Rightarrow> string list option" where
  "open_step m pend = (if is_tool m \<or> pend = [] then pair_step m pend else None)"

fun open_run :: "string list \<Rightarrow> message list \<Rightarrow> string list option" where
  "open_run pend [] = Some pend"
| "open_run pend (m # ms) = Option.bind (open_step m pend) (\<lambda>p. open_run p ms)"

definition answered :: "message list \<Rightarrow> bool" where
  "answered h \<longleftrightarrow> open_run [] h = Some []"

lemma answered_Nil [simp]: "answered []"
  by (simp add: answered_def)

lemma open_run_append: "open_run p (a @ b) = Option.bind (open_run p a) (\<lambda>q. open_run q b)"
  by (induction a arbitrary: p) (auto split: bind_splits)

lemma open_run_pair: "open_run p h = Some q \<Longrightarrow> pair_run p h = Some q"
  by (induction h arbitrary: p) (auto simp: open_step_def split: bind_splits if_splits)

lemma answered_well_paired: "answered h \<Longrightarrow> well_paired h"
  by (auto simp: answered_def well_paired_def dest: open_run_pair)

lemma answered_append: "answered a \<Longrightarrow> answered b \<Longrightarrow> answered (a @ b)"
  by (simp add: answered_def open_run_append)

lemma answered_kept:
  assumes "answered h" "kept_groups is_tool h' h"
  shows "answered h'"
proof -
  from assms(2) obtain zs where z: "h = zs @ h'" and c: "h' = h \<or> h' = [] \<or> \<not> is_tool (hd h')"
    by (auto simp: kept_groups_def is_suffix_def)
  from c consider "h' = h" | "h' = []" | "h' \<noteq> []" "\<not> is_tool (hd h')" by blast
  then show ?thesis
  proof cases
    case 3
    from assms(1) z obtain q where "open_run q h' = Some []"
      by (auto simp: answered_def open_run_append split: bind_splits)
    with 3 show ?thesis by (cases h') (auto simp: answered_def open_step_def split: bind_splits if_splits)
  qed (use assms in simp_all)
qed

text \<open>Eviction keeps the last group when it fits.\<close>

lemma evict_loop_keeps_tail:
  assumes "\<not> is_tool a" "length (a # ts) \<le> n"
  shows "\<exists>g'. evict_loop n (g @ a # ts) = g' @ a # ts \<and> kept_groups is_tool g' g"
proof (induction "length g" arbitrary: g rule: less_induct)
  case less
  show ?case
  proof (cases "length (g @ a # ts) \<le> n")
    case True
    then show ?thesis using evict_loop.simps [of n "g @ a # ts"] by (intro exI [of _ g]) simp
  next
    case False
    with assms(2) have g: "g \<noteq> []" by auto
    have d: "drop_group is_tool (g @ a # ts) = drop_group is_tool g @ a # ts"
    proof (cases g)
      case (Cons x xs)
      then show ?thesis using assms(1)
        by (cases "\<forall>y \<in> set xs. is_tool y") (auto simp: drop_group_def dropWhile_append1 dropWhile_append2 dropWhile_eq_Nil_conv)
    qed (use g in simp)
    from less [OF length_drop_group [OF g]] obtain g'
      where g': "evict_loop n (drop_group is_tool g @ a # ts) = g' @ a # ts" "kept_groups is_tool g' (drop_group is_tool g)"
      by blast
    have "evict_loop n (g @ a # ts) = evict_loop n (drop_group is_tool g @ a # ts)"
      using False evict_loop.simps [of n "g @ a # ts"] d by simp
    with g' kept_groups_step show ?thesis by metis
  qed
qed

lemma evict_keeps_tail:
  assumes "\<not> is_tool a" "n \<le> 0 \<or> int (length (a # ts)) \<le> n"
  shows "\<exists>g'. evict n (g @ a # ts) = g' @ a # ts \<and> kept_groups is_tool g' g"
proof (cases "n \<le> 0 \<or> int (length (g @ a # ts)) \<le> n")
  case True
  then have "evict n (g @ a # ts) = g @ a # ts" by (auto simp: evict_def)
  then show ?thesis by (intro exI [of _ g]) simp
next
  case False
  with assms(2) have "length (a # ts) \<le> nat n" by auto
  from evict_loop_keeps_tail [OF assms(1) this, of g] False show ?thesis by (simp add: evict_def)
qed

lemma max_add_msg [simp]: "max_messages (add_msg m s) = max_messages s"
  by (simp add: add_msg_def)

lemma max_mem_set [simp]: "max_messages (mem_set k v s) = max_messages s"
  by (simp add: mem_set_def)

lemma max_learn [simp]: "max_messages (learn_keys d ks s) = max_messages s"
  by (induction ks arbitrary: s) (simp_all add: Let_def)

lemma update_context_frame [simp]:
  "history (update_context_from_tool args r s) = history s"
  "max_messages (update_context_from_tool args r s) = max_messages s"
  by (simp_all add: update_context_from_tool_def learn_from_def split: pyval.split)

text \<open>A message that is no tool result and opens no call.\<close>

lemma add_closed_answered:
  assumes "answered (history s)" "\<not> is_tool m" "pair_step m [] = Some []"
  shows "answered (history (add_msg m s))"
proof -
  have "max_messages s \<le> 0 \<or> int (length [m]) \<le> max_messages s" by auto
  from evict_keeps_tail [OF assms(2) this, of "history s"] obtain g
    where g: "evict (max_messages s) (history s @ [m]) = g @ [m]" "kept_groups is_tool g (history s)" by blast
  have "answered [m]" using assms(3) by (simp add: answered_def open_step_def)
  with g answered_kept [OF assms(1) g(2)] show ?thesis by (simp add: add_msg_def answered_append)
qed

section \<open>The calls of a turn\<close>

definition call_id :: "pyval \<Rightarrow> string" where
  "call_id tc = (case tc of PDict d \<Rightarrow> (case pget d ''id'' of PStr i \<Rightarrow> i | _ \<Rightarrow> []) | _ \<Rightarrow> [])"

text \<open>A list of fewer than \<open>k\<close> calls with ids of their own.\<close>

definition good_calls :: "nat \<Rightarrow> pyval \<Rightarrow> bool" where
  "good_calls k v = (case v of
      PList tcs \<Rightarrow> length tcs < k \<and> [] \<notin> set (map call_id tcs) \<and> distinct (map call_id tcs)
    | _ \<Rightarrow> False)"

lemma call_id_dict: "call_id tc \<noteq> [] \<Longrightarrow> \<exists>d. tc = PDict d \<and> dget d ''id'' = Some (PStr (call_id tc))"
  by (auto simp: call_id_def pget_def split: pyval.splits option.splits)

lemma declared_call_ids: "[] \<notin> set (map call_id tcs) \<Longrightarrow> declared_ids tcs = Inr (map call_id tcs)"
proof (induction tcs)
  case Nil
  then show ?case by simp
next
  case (Cons tc tcs)
  then have nz: "call_id tc \<noteq> []" by auto
  from call_id_dict [OF nz] obtain d where d: "tc = PDict d" "dget d ''id'' = Some (PStr (call_id tc))" by blast
  then have "py_truthy tc" "pget d ''id'' = PStr (call_id tc)" by (auto simp: pget_def)
  moreover have "declared_ids tcs = Inr (map call_id tcs)" using Cons by simp
  ultimately show ?case using d(1) nz by (simp add: py_str_def)
qed

lemma run_call_history:
  assumes "run_call env tc s = (Inr j, s')" "call_id tc \<noteq> []"
  shows "\<exists>c name. history (ps_mem s') = history (add_msg (tool_msg c name (PStr (call_id tc))) (ps_mem s)) \<and>
    max_messages (ps_mem s') = max_messages (ps_mem s)"
proof -
  from call_id_dict [OF assms(2)] obtain d where "tc = PDict d" "dget d ''id'' = Some (PStr (call_id tc))" by blast
  then have i: "val_get tc ''id'' x = Inr (PStr (call_id tc))" for x by (simp add: val_get_def dgetd_def)
  from assms(1) show ?thesis
    by (auto simp: run_call_def i Let_def emit_def add_tool_result_def split: sum.splits prod.splits) blast
qed

lemma tool_answers:
  "open_run [] (a # ts) = Some (i # is) \<Longrightarrow> i \<notin> set is \<Longrightarrow> i \<noteq> [] \<Longrightarrow>
   open_run [] (a # ts @ [tool_msg c name (PStr i)]) = Some is"
  using open_run_append [of "[]" "a # ts" "[tool_msg c name (PStr i)]"]
  by (simp add: open_step_def pair_step_def tool_msg_def is_tool_def py_str_def del: open_run.simps)
    (simp add: open_step_def pair_step_def is_tool_def py_str_def)

lemma run_calls_answered:
  assumes "run_calls env tcs job s = (Inr j, s')"
    and "history (ps_mem s) = g @ a # ts" "answered g" "\<not> is_tool a"
    and "open_run [] (a # ts) = Some (map call_id tcs)" "[] \<notin> set (map call_id tcs)" "distinct (map call_id tcs)"
    and "max_messages (ps_mem s) \<le> 0 \<or> int (length (a # ts) + length tcs) \<le> max_messages (ps_mem s)"
  shows "answered (history (ps_mem s')) \<and> max_messages (ps_mem s') = max_messages (ps_mem s)"
  using assms
proof (induction tcs arbitrary: job s g ts)
  case Nil
  then have "answered (a # ts)" by (simp add: answered_def)
  with Nil show ?case by (simp add: answered_append)
next
  case (Cons tc tcs)
  have "call_id tc \<noteq> []" using Cons.prems(6) by auto
  from Cons.prems(1) obtain j1 s1
    where s1: "run_call env tc s = (Inr j1, s1)" "run_calls env tcs (if j1 = None then job else j1) s1 = (Inr j, s')"
    by (auto split: prod.splits sum.splits)
  from run_call_history [OF s1(1) \<open>call_id tc \<noteq> []\<close>] obtain c name
    where h1: "history (ps_mem s1) = history (add_msg (tool_msg c name (PStr (call_id tc))) (ps_mem s))"
      and m1: "max_messages (ps_mem s1) = max_messages (ps_mem s)" by blast
  let ?t = "tool_msg c name (PStr (call_id tc))" and ?n = "max_messages (ps_mem s)"
  have "?n \<le> 0 \<or> int (length (a # ts @ [?t])) \<le> ?n" using Cons.prems(8) by auto
  from evict_keeps_tail [OF Cons.prems(4) this, of g] obtain g'
    where g': "evict ?n (g @ a # ts @ [?t]) = g' @ a # ts @ [?t]" "kept_groups is_tool g' g" by auto
  have "history (ps_mem s1) = g' @ a # (ts @ [?t])"
    unfolding h1 add_msg_def using g'(1) Cons.prems(2) by simp
  moreover have "open_run [] (a # (ts @ [?t])) = Some (map call_id tcs)"
    using tool_answers [of a ts "call_id tc" "map call_id tcs"] Cons.prems(5-7) by auto
  moreover have "max_messages (ps_mem s1) \<le> 0 \<or>
      int (length (a # (ts @ [?t])) + length tcs) \<le> max_messages (ps_mem s1)"
    using Cons.prems(8) m1 by auto
  ultimately show ?case
    using Cons.IH [OF s1(2) _ answered_kept [OF Cons.prems(3) g'(2)] Cons.prems(4)] Cons.prems(6,7) m1 by auto
qed

section \<open>Requests\<close>

lemma post_frame:
  "post_chat_completion env payload s = (r, s') \<Longrightarrow>
   ps_mem s' = ps_mem s \<and> ps_events s' = ps_events s \<and> length (ps_sent s') \<le> length (ps_sent s) + 2"
  by (auto simp: post_chat_completion_def send_json_request_def Let_def split: prod.splits post_result.splits
      sum.splits if_splits)

lemma stream_frame:
  "stream_or_post env payload s = (r, s') \<Longrightarrow>
   ps_mem s' = ps_mem s \<and> length (ps_sent s') \<le> length (ps_sent s) + (if le_stream env then 3 else 2)"
  by (auto simp: stream_or_post_def Let_def split: if_splits prod.splits option.splits dest!: post_frame)

lemma call_llm_frame:
  "call_llm env s = (r, s') \<Longrightarrow>
   ps_mem s' = ps_mem s \<and> length (ps_sent s') \<le> length (ps_sent s) + (if le_stream env then 3 else 2)"
  by (auto simp: call_llm_def split: sum.splits prod.splits dest!: stream_frame)

lemma run_call_sent: "run_call env tc s = (r, s') \<Longrightarrow> ps_sent s' = ps_sent s"
  by (auto simp: run_call_def Let_def emit_def split: sum.splits prod.splits)

lemma run_calls_sent: "run_calls env tcs job s = (r, s') \<Longrightarrow> ps_sent s' = ps_sent s"
proof (induction tcs arbitrary: job s)
  case Nil
  then show ?case by simp
next
  case (Cons tc tcs)
  obtain r1 s1 where s1: "run_call env tc s = (r1, s1)" by fastforce
  from run_call_sent [OF s1] Cons s1 show ?case by (cases r1) auto
qed

lemma act_on_sent: "act_on env f t calls s = (r, s') \<Longrightarrow> ps_sent s' = ps_sent s"
  by (auto simp: act_on_def Let_def emit_def split: if_splits sum.splits prod.splits option.splits dest!: run_calls_sent)

lemma react_step_sent:
  assumes "react_step env i s = (r, s')"
  shows "length (ps_sent s') \<le> length (ps_sent s) + (if le_stream env then 3 else 2)"
proof -
  obtain r1 s1 where s1: "call_llm env (emit (IterationStart (Suc i)) s) = (r1, s1)" by fastforce
  from call_llm_frame [OF s1] have "length (ps_sent s1) \<le> length (ps_sent s) + (if le_stream env then 3 else 2)"
    by (simp add: emit_def)
  moreover have "ps_sent s' = ps_sent s1"
    using assms s1
    by (auto simp: react_step_def Let_def emit_def split: sum.splits option.splits if_splits dest!: act_on_sent)
  ultimately show ?thesis by simp
qed

end
