(* ===== verification/SchemaProps.thy ===== *)
theory SchemaProps
  imports ToolProps
begin

text \<open>
  The schemas the model is shown against the functions they describe: the two agree, and the
  call the system prompt gives as an example is none of the calls they allow.
\<close>

section \<open>Schemas and functions\<close>

definition schema_fits :: "pyval \<Rightarrow> bool" where
  "schema_fits s \<longleftrightarrow>
     (let (req, opt) = dgetd tool_signatures (advertised_name s) ([], []) in
      list_all (\<lambda>k. k \<in> set (schema_required s)) req \<and>
      list_all (\<lambda>k. k \<in> set (schema_properties s)) (schema_required s) \<and>
      list_all (\<lambda>k. k \<in> set (req @ opt)) (schema_properties s))"

lemma schemas_fit: "list_all schema_fits tool_schemas"
  by code_simp

lemma advertised_names:
  "map advertised_name tool_schemas =
     [''run_eda_stage'', ''run_eda_flow'', ''run_multi_agent_cycle'', ''query_timing'', ''query_congestion'',
      ''query_congestion_summary'', ''compare_runs'', ''query_flow_sessions'', ''query_session_trace'',
      ''suggest_params'', ''tune_ppa'', ''add_placement_blockage'', ''tune_congestion_with_blockage'',
      ''query_utilization'', ''query_power'', ''get_run_log'', ''tune_ppa_multistage'', ''submit_job'',
      ''job_status'', ''job_logs'', ''cancel_job'', ''save_case'', ''infer_root_cause'',
      ''confirm_root_cause'', ''optimize_with_inference'']"
  by code_simp

lemma schema_binds:
  assumes "s \<in> set tool_schemas" "set (schema_required s) \<subseteq> set (dkeys args)"
    and "set (dkeys args) \<subseteq> set (schema_properties s)"
  shows "binds (dgetd tool_signatures (advertised_name s) ([], [])) args"
proof -
  have "schema_fits s" using schemas_fit assms(1) by (simp add: list_all_iff)
  with assms(2,3) show ?thesis
    by (fastforce simp: schema_fits_def binds_def list_all_iff split: prod.splits simp del: set_map)
qed

text \<open>
  C23: The schemas name the built-in tools, each once, and a call that conforms to its schema
  (the arguments it requires, none it does not declare) reaches the function behind the name.
\<close>

theorem advertised_calls_bind:
  assumes "s \<in> set tool_schemas" "set (schema_required s) \<subseteq> set (dkeys args)"
    and "set (dkeys args) \<subseteq> set (schema_properties s)"
  shows "distinct (map advertised_name tool_schemas) \<and> set (map advertised_name tool_schemas) = set builtin_tools \<and>
    call_builtin env (advertised_name s) args w = te_builtin env (advertised_name s) args w"
proof -
  have "distinct (map advertised_name tool_schemas)"
    unfolding advertised_names by simp
  moreover have "set (map advertised_name tool_schemas) = set builtin_tools"
    unfolding advertised_names by (auto simp: builtin_tools_def)
  ultimately show ?thesis using schema_binds [OF assms] by (simp add: call_builtin_def del: set_map)
qed

theorem advertised_calls_bind_witness:
  "call_builtin (plain_env no_tools) ''job_status'' [(''job_id'', PStr ''j'')] 0 = (Inr (PStr ''job_status''), 1)"
proof -
  have "schema_job_status \<in> set tool_schemas" by (simp add: tool_schemas_def)
  moreover have v: "schema_required schema_job_status = [''job_id'']" "schema_properties schema_job_status = [''job_id'']"
    "advertised_name schema_job_status = ''job_status''" by code_simp+
  ultimately show ?thesis
    using advertised_calls_bind [of schema_job_status "[(''job_id'', PStr ''j'')]" "plain_env no_tools" 0]
    by (simp add: plain_env_def)
qed

section \<open>The example of the system prompt\<close>

lemma run_stage_signature:
  "dgetd tool_signatures ''run_eda_stage'' ([], []) =
     ([''backend'', ''stage'', ''design_name''],
      [''design_config'', ''pdk'', ''innovus_workdir'', ''tech_profile'', ''params'', ''run_context''])"
  by (simp add: dgetd_def tool_signatures_def)

text \<open>
  The system prompt tells the model that \<open>backend\<close> may be left out of \<open>run_eda_stage\<close> and is
  inferred from the stage. Without a custom tool or policy of that name, such a call always
  answers with the text of a \<open>TypeError\<close> and runs nothing.
\<close>

theorem prompted_call_fails:
  assumes "dget (ts_dispatch (te_tools env)) ''run_eda_stage'' = None"
    and "dget (ts_policies (te_tools env)) ''run_eda_stage'' = None"
  defines "args \<equiv> [(''stage'', PStr ''place''), (''design_name'', PStr ''DTMF_CHIP'')]"
  shows "execute_value env ''run_eda_stage'' args w =
    \<lparr>oc_reply = Inr (error_reply (te_bind_text env ''run_eda_stage'' args)), oc_world = w, oc_audit = []\<rparr>"
proof -
  have d: "dispatch env ''run_eda_stage'' = Some (call_builtin env ''run_eda_stage'')"
    using assms(1) by (simp add: dispatch_def builtin_tools_def)
  have b: "call_builtin env ''run_eda_stage'' args w = (Inl (te_bind_text env ''run_eda_stage'' args), w)"
    by (simp add: call_builtin_def run_stage_signature binds_def args_def)
  have g: "guard_check (ts_policies (te_tools env)) ''run_eda_stage'' args = Inr safe_result"
    using assms(2) by (simp add: guard_check_def confirmed_def args_def check_custom_policy_def dgetd_def pget_def
        py_or_def checkers_def check_clean_flag_def check_utilization_def check_long_running_def check_cancel_def)
  have f: "strip_flag args = args" by (simp add: strip_flag_def args_def)
  have k: "''run_eda_stage'' \<notin> set (dkeys (ts_dispatch (te_tools env)))"
    using assms(1) by (simp only: dget_None_iff not_False_eq_True)
  show ?thesis
    using k by (simp add: execute_value_def d g b f is_blocked_def Let_def del: set_map)
qed

theorem prompted_call_fails_witness:
  "execute_value (plain_env no_tools) ''run_eda_stage'' [(''stage'', PStr ''place''), (''design_name'', PStr ''DTMF_CHIP'')] 0 =
    \<lparr>oc_reply = Inr (PDict [(''error'', PStr ''TypeError'')]), oc_world = 0, oc_audit = []\<rparr>"
proof -
  have t: "dget (ts_dispatch (te_tools (plain_env no_tools))) ''run_eda_stage'' = None"
    "dget (ts_policies (te_tools (plain_env no_tools))) ''run_eda_stage'' = None"
    by (simp_all add: plain_env_def no_tools_def)
  from prompted_call_fails [OF t, of 0] show ?thesis by (simp add: plain_env_def error_reply_def)
qed

end
