(* ===== verification/StreamProps.thy ===== *)
theory StreamProps
  imports Streaming ChatProps
begin

text \<open>
  The reader of streamed replies against its specification: however a reply is cut into deltas,
  the response is the one the whole pieces give.
\<close>

section \<open>A reply in pieces\<close>

text \<open>One fragment of a tool call; an empty id or name is not sent.\<close>

record frag =
  fr_index :: nat
  fr_id :: string
  fr_name :: string
  fr_args :: string

datatype delta = Say string | Calls "frag list"

fun said :: "delta \<Rightarrow> string" where
  "said (Say t) = t"
| "said (Calls fs) = []"

fun frags :: "delta \<Rightarrow> frag list" where
  "frags (Say t) = []"
| "frags (Calls fs) = fs"

definition frag_value :: "frag \<Rightarrow> pyval" where
  "frag_value f = PDict ([(''index'', PInt (int (fr_index f)))] @
     (if fr_id f = [] then [] else [(''id'', PStr (fr_id f))]) @
     [(''function'', PDict ((if fr_name f = [] then [] else [(''name'', PStr (fr_name f))]) @
        [(''arguments'', PStr (fr_args f))]))])"

definition delta_value :: "delta \<Rightarrow> pyval" where
  "delta_value d = PDict (case d of
      Say t \<Rightarrow> [(''content'', PStr t)]
    | Calls fs \<Rightarrow> [(''tool_calls'', PList (map frag_value fs))])"

definition line_of :: "delta \<Rightarrow> string" where
  "line_of d = ''data: '' @ json_dumps (PDict [(''choices'', PList [PDict [(''delta'', delta_value d)]])])"

section \<open>The specification\<close>

definition last_given :: "string list \<Rightarrow> string" where
  "last_given xs = (let ys = filter (\<lambda>x. x \<noteq> []) xs in if ys = [] then [] else last ys)"

text \<open>The call of an index: the last id and name given, the arguments in one piece.\<close>

definition whole_call :: "frag list \<Rightarrow> nat \<Rightarrow> pyval" where
  "whole_call fs i =
     (let own = filter (\<lambda>f. fr_index f = i) fs in
      call_entry (last_given (map fr_id own)) (PStr (last_given (map fr_name own))) (concat (map fr_args own)))"

definition whole_message :: "delta list \<Rightarrow> pydict" where
  "whole_message ds =
     (let fs = concat (map frags ds); ks = sorted_list_of_set (set (map fr_index fs)) in
      [(''role'', PStr ''assistant''), (''content'', PStr (concat (map said ds)))] @
      (if ks = [] then [] else [(''tool_calls'', PList (map (whole_call fs) ks))]))"

section \<open>Fragments\<close>

definition fresh_slot :: slot where
  "fresh_slot = \<lparr>sl_id = PNone, sl_type = PStr ''function'', sl_name = PStr [], sl_args = []\<rparr>"

definition merge_frag :: "frag \<Rightarrow> slot \<Rightarrow> slot" where
  "merge_frag f s = \<lparr>sl_id = if fr_id f = [] then sl_id s else PStr (fr_id f), sl_type = sl_type s,
     sl_name = if fr_name f = [] then sl_name s else PStr (fr_name f), sl_args = sl_args s @ fr_args f\<rparr>"

abbreviation at_index :: "nat \<Rightarrow> index" where
  "at_index i \<equiv> IxNum (of_nat i)"

definition absorb :: "frag \<Rightarrow> (index \<times> slot) list \<Rightarrow> (index \<times> slot) list" where
  "absorb f slots = dset (at_index (fr_index f)) (merge_frag f (dgetd slots (at_index (fr_index f)) fresh_slot)) slots"

lemma fragment_absorbed: "fragment_step (frag_value f) slots = Some (absorb f slots)"
proof -
  have i: "index_of (PInt (int (fr_index f))) = Some (at_index (fr_index f))" by (simp add: index_of_def)
  note defs = fragment_step_def frag_value_def dgetd_def i pget_def py_or_def Let_def absorb_def merge_frag_def
    fresh_slot_def
  show ?thesis
  proof (cases "dget slots (at_index (fr_index f))")
    case None
    then show ?thesis by (auto simp: defs)
  next
    case (Some s)
    then show ?thesis by (cases s) (auto simp: defs)
  qed
qed

lemma fragments_absorbed: "fragments_step (map frag_value fs) slots = Some (fold absorb fs slots)"
  by (induction fs arbitrary: slots) (simp_all add: fragment_absorbed)

text \<open>What is kept for an index depends on its own fragments only.\<close>

lemma absorbed_get:
  "dget (fold absorb fs []) (at_index i) =
   (let own = filter (\<lambda>f. fr_index f = i) fs in
    if own = [] then None else Some (fold merge_frag own fresh_slot))"
proof (induction fs rule: rev_induct)
  case Nil
  then show ?case by simp
next
  case (snoc f fs)
  then show ?case by (auto simp: absorb_def Let_def dgetd_def dget_dset)
qed

lemma absorbed_keys:
  "set (dkeys (fold absorb fs [])) = (\<lambda>f. at_index (fr_index f)) ` set fs \<and> distinct (dkeys (fold absorb fs []))"
proof (induction fs rule: rev_induct)
  case Nil
  then show ?case by simp
next
  case (snoc f fs)
  have "fold absorb (fs @ [f]) [] = absorb f (fold absorb fs [])" by simp
  with snoc show ?case unfolding absorb_def [of f] by (auto simp: dkeys_dset simp del: set_map)
qed

lemma last_given_snoc: "last_given (xs @ [x]) = (if x = [] then last_given xs else x)"
  by (simp add: last_given_def Let_def)

lemma merged_whole:
  "fold merge_frag fs fresh_slot =
   \<lparr>sl_id = if last_given (map fr_id fs) = [] then PNone else PStr (last_given (map fr_id fs)),
    sl_type = PStr ''function'', sl_name = PStr (last_given (map fr_name fs)), sl_args = concat (map fr_args fs)\<rparr>"
proof (induction fs rule: rev_induct)
  case Nil
  then show ?case by (simp add: fresh_slot_def last_given_def)
next
  case (snoc f fs)
  then show ?case by (simp add: merge_frag_def last_given_snoc)
qed

text \<open>The slots in the order of their indices.\<close>

lemma absorbed_ordered:
  fixes fs :: "frag list"
  defines "js \<equiv> sorted_list_of_set (set (map fr_index fs))"
    and "own \<equiv> \<lambda>i. filter (\<lambda>f. fr_index f = i) fs"
  shows "ordered_slots (fold absorb fs []) = Some (map (\<lambda>i. fold merge_frag (own i) fresh_slot) js)"
proof -
  let ?slots = "fold absorb fs []"
  let ?key = "\<lambda>p :: index \<times> slot. case fst p of IxNum q \<Rightarrow> q | _ \<Rightarrow> 0"
  let ?xs = "sort_desc (\<lambda>a b. index_less (fst b) (fst a)) ?slots"
  have n: "\<forall>p \<in> set ?slots. is_num (fst p)"
  proof
    fix p assume "p \<in> set ?slots"
    then have "fst p \<in> set (dkeys ?slots)" by simp
    then show "is_num (fst p)" unfolding conjunct1 [OF absorbed_keys] by auto
  qed
  have k: "set (map fst ?xs) = at_index ` set (map fr_index fs)"
    using absorbed_keys [of fs] by (simp add: image_image)
  then have "\<forall>y \<in> set (map fst ?xs). \<exists>x. y = at_index x" by blast
  from iffD2 [OF ex_map_conv this] obtain ks where i: "map fst ?xs = map at_index ks" by blast
  have "distinct (map fst ?xs)" using absorbed_keys [of fs] by simp
  then have d: "distinct ks" unfolding i by (simp add: distinct_map)
  have "inj at_index" by (auto intro: injI)
  moreover from k i have "at_index ` set ks = at_index ` set (map fr_index fs)" by (simp only: set_map)
  ultimately have s: "set ks = set (map fr_index fs)" by (simp only: inj_image_eq_iff)
  have "sorted_wrt (\<lambda>a b. ?key a \<le> ?key b) ?xs"
    by (rule sorted_sort_desc [of "\<lambda>p. is_num (fst p)", OF _ _ _ n])
      (auto simp: index_less_def elim!: is_num.elims)
  then have "sorted_wrt (\<lambda>a b. (case a of IxNum q \<Rightarrow> q | _ \<Rightarrow> 0) \<le> (case b of IxNum q \<Rightarrow> q | _ \<Rightarrow> 0)) (map fst ?xs)"
    by (simp add: sorted_wrt_map)
  then have "sorted ks" unfolding i by (simp add: sorted_wrt_map)
  with d s have js: "ks = js" unfolding js_def by (metis sorted_list_of_set.idem_if_sorted_distinct)
  have "snd p = fold merge_frag (own (THE i. fst p = at_index i)) fresh_slot" if mem: "p \<in> set ?xs" for p
  proof -
    from mem have "fst p \<in> fst ` set ?xs" by (rule imageI)
    then have "fst p \<in> at_index ` set ks" by (simp only: i set_map [symmetric])
    then obtain j where j: "fst p = at_index j" by blast
    from mem have "(fst p, snd p) \<in> set ?slots" by simp
    then have "(at_index j, snd p) \<in> set ?slots" by (simp only: j)
    then have "dget ?slots (at_index j) = Some (snd p)"
      using absorbed_keys [of fs] by (simp add: dget_eq_Some_iff wf_dict_def)
    then have "snd p = fold merge_frag (own j) fresh_slot"
      unfolding absorbed_get own_def Let_def by (auto split: if_splits)
    with j show ?thesis by simp
  qed
  then have "map snd ?xs = map (\<lambda>x. fold merge_frag (own (THE i. x = at_index i)) fresh_slot) (map fst ?xs)" by simp
  also have "\<dots> = map (\<lambda>i. fold merge_frag (own i) fresh_slot) js" unfolding i js by simp
  finally show ?thesis using n by (simp add: ordered_slots_def list_all_iff)
qed

section \<open>Lines\<close>

lemma delta_plain: "json_plain (PDict [(''choices'', PList [PDict [(''delta'', delta_value d)]])])"
  by (cases d) (auto simp: delta_value_def frag_value_def)

lemma line_text: "py_strip (drop 5 (line_of d)) = json_dumps (PDict [(''choices'', PList [PDict [(''delta'', delta_value d)]])])"
proof -
  let ?v = "PDict [(''choices'', PList [PDict [(''delta'', delta_value d)]])]"
  obtain s where s: "json_dumps ?v = CHR ''{'' # s @ [CHR ''}'']" by simp
  have "drop 5 (line_of d) = CHR '' '' # json_dumps ?v" by (simp add: line_of_def)
  moreover have "is_space (CHR '' '')" by (simp add: is_space_def code_def)
  moreover have "py_strip (json_dumps ?v) = json_dumps ?v"
    unfolding s by (rule strip_solid) (simp_all add: is_space_def code_def)
  ultimately show ?thesis by (simp only: strip_prepend_space)
qed

text \<open>What a delta adds.\<close>

definition with_delta :: "delta \<Rightarrow> stream_acc \<Rightarrow> stream_acc" where
  "with_delta d acc = acc\<lparr>sa_content := keep_true (PStr (said d)) (sa_content acc),
     sa_slots := fold absorb (frags d) (sa_slots acc)\<rparr>"

lemma delta_chunk: "chunk_step (PDict [(''choices'', PList [PDict [(''delta'', delta_value d)]])]) acc = Inr (with_delta d acc)"
proof (cases d)
  case (Say t)
  then show ?thesis
    by (simp add: chunk_step_def delta_step_def delta_value_def with_delta_def dgetd_def pget_def py_or_def
        first_item_def val_items_def keep_true_def Let_def)
next
  case (Calls fs)
  then show ?thesis
    by (simp add: chunk_step_def delta_step_def delta_value_def with_delta_def dgetd_def pget_def py_or_def
        first_item_def val_items_def keep_true_def Let_def fragments_absorbed)
qed

lemma feed_line: "feed broken (line_of d # ls) acc = feed broken ls (with_delta d acc)"
proof -
  let ?v = "PDict [(''choices'', PList [PDict [(''delta'', delta_value d)]])]"
  have p: "is_prefix ''data:'' (line_of d)" by (simp add: line_of_def)
  have "json_dumps ?v \<noteq> ''[DONE]''" by simp
  then show ?thesis
    by (simp only: feed.simps p not_True_eq_False if_False Let_def line_text json_loads_dumps [OF delta_plain]
        option.case delta_chunk ok_bind_simps)
qed

lemma feed_lines:
  "feed broken (map line_of ds @ [''data: [DONE]'']) acc = Inr (fold with_delta ds acc)"
proof (induction ds arbitrary: acc)
  case Nil
  show ?case by (simp add: py_strip_def lstrip_on_def rstrip_on_def is_space_def code_def)
next
  case (Cons d ds)
  then show ?case by (simp only: list.map append_Cons feed_line fold.simps o_apply)
qed

lemma fold_deltas:
  "fold with_delta ds acc = acc\<lparr>
     sa_content := sa_content acc @ map PStr (filter (\<lambda>t. t \<noteq> []) (map said ds)),
     sa_slots := fold absorb (concat (map frags ds)) (sa_slots acc)\<rparr>"
  by (induction ds arbitrary: acc) (auto simp: with_delta_def keep_true_def)

section \<open>The property\<close>

lemma number_given: "\<forall>s \<in> set ss. py_truthy (sl_id s) \<Longrightarrow> number_slots uuid n ss = (ss, n)"
  by (induction ss) auto

lemma concat_given: "concat (filter (\<lambda>t. t \<noteq> []) ts) = concat ts"
  by (induction ts) auto

lemma assemble_numbered:
  assumes "joined (sa_content acc) = Some c" "sa_reasoning acc = []" "ordered_slots (sa_slots acc) = Some ss"
    and "number_slots uuid n ss = (ss, n)"
  shows "assemble uuid n acc = Some (PDict [(''model'', sa_model acc),
    (''choices'', PList [PDict [(''finish_reason'', sa_finish acc), (''message'', PDict
       ([(''role'', PStr ''assistant''), (''content'', PStr c)] @
        (if ss = [] then [] else [(''tool_calls'', PList (map slot_value ss))])))]])], n)"
  using assms by (simp add: assemble_def joined_def)

text \<open>
  C22: A streamed reply reads as the whole reply. However the text and the tool calls are cut
  into deltas, and whether or not the connection fails behind the terminator, the response
  holds the concatenated text and one call per index, in the order of the indices, with the last
  name given and the concatenated arguments; no fragment of text is shown twice or left out.
\<close>

theorem stream_reassembles:
  assumes "\<forall>f \<in> set (concat (map frags ds)). \<exists>g \<in> set (concat (map frags ds)). fr_index g = fr_index f \<and> fr_id g \<noteq> []"
  shows "read_stream uuid n model (map line_of ds @ [''data: [DONE]'']) broken =
    (Some (PDict [(''model'', PStr model),
       (''choices'', PList [PDict [(''finish_reason'', PStr ''stop''), (''message'', PDict (whole_message ds))]])], n),
     map PStr (filter (\<lambda>t. t \<noteq> []) (map said ds)))"
proof -
  let ?fs = "concat (map frags ds)"
  let ?js = "sorted_list_of_set (set (map fr_index ?fs))"
  let ?own = "\<lambda>i. filter (\<lambda>f. fr_index f = i) ?fs"
  let ?slots = "map (\<lambda>i. fold merge_frag (?own i) fresh_slot) ?js"
  let ?said = "map PStr (filter (\<lambda>t. t \<noteq> []) (map said ds))"
  have given: "last_given (map fr_id (?own i)) \<noteq> []" if "i \<in> set ?js" for i
  proof -
    from that obtain f where "f \<in> set ?fs" "fr_index f = i" by auto
    with assms obtain g where "g \<in> set (?own i)" "fr_id g \<noteq> []" by fastforce
    let ?ids = "filter (\<lambda>x. x \<noteq> []) (map fr_id (?own i))"
    have ne: "?ids \<noteq> []" using \<open>g \<in> set (?own i)\<close> \<open>fr_id g \<noteq> []\<close> by (force simp: filter_empty_conv)
    have "last ?ids \<noteq> []" using last_in_set [OF ne] by (simp only: set_filter mem_Collect_eq not_False_eq_True)
    with ne show ?thesis unfolding last_given_def Let_def by (simp only: if_False not_False_eq_True)
  qed
  then have "\<forall>s \<in> set ?slots. py_truthy (sl_id s)" by (auto simp: merged_whole simp del: set_sorted_list_of_set)
  then have num: "number_slots uuid n ?slots = (?slots, n)" by (rule number_given)
  have calls: "map slot_value ?slots = map (whole_call ?fs) ?js"
    using given by (auto simp: merged_whole whole_call_def Let_def slot_value_def call_entry_def
        simp del: set_sorted_list_of_set)
  have join: "joined ?said = Some (concat (map said ds))"
    by (simp add: joined_def list_all_iff py_str_def o_def concat_given)
  have "feed broken (map line_of ds @ [''data: [DONE]'']) (start_acc model) =
      Inr ((start_acc model)\<lparr>sa_content := ?said, sa_slots := fold absorb ?fs []\<rparr>)"
    unfolding feed_lines fold_deltas by (simp add: start_acc_def)
  moreover let ?acc = "(start_acc model)\<lparr>sa_content := ?said, sa_slots := fold absorb ?fs []\<rparr>"
  have "joined (sa_content ?acc) = Some (concat (map said ds))" "sa_reasoning ?acc = []"
    "ordered_slots (sa_slots ?acc) = Some ?slots" "sa_model ?acc = PStr model" "sa_finish ?acc = PStr ''stop''"
    using join by (simp_all add: start_acc_def absorbed_ordered)
  from assemble_numbered [OF this(1-3) num, unfolded this(4,5)]
  have "assemble uuid n ?acc =
      Some (PDict [(''model'', PStr model),
       (''choices'', PList [PDict [(''finish_reason'', PStr ''stop''), (''message'', PDict (whole_message ds))]])], n)"
    unfolding whole_message_def Let_def calls map_is_Nil_conv .
  ultimately show ?thesis by (simp add: read_stream_def)
qed

definition sample_deltas :: "delta list" where
  "sample_deltas = [Say ''Hi'', Calls [\<lparr>fr_index = 0, fr_id = ''c1'', fr_name = ''f'', fr_args = ''[1''\<rparr>],
     Calls [\<lparr>fr_index = 0, fr_id = [], fr_name = [], fr_args = '']''\<rparr>]]"

theorem stream_reassembles_witness:
  "read_stream (\<lambda>k. []) 0 ''m'' (map line_of sample_deltas @ [''data: [DONE]'']) True =
    (Some (PDict [(''model'', PStr ''m''),
       (''choices'', PList [PDict [(''finish_reason'', PStr ''stop''), (''message'', PDict
          [(''role'', PStr ''assistant''), (''content'', PStr ''Hi''),
           (''tool_calls'', PList [call_entry ''c1'' (PStr ''f'') ''[1]''])])]])], 0), [PStr ''Hi''])"
proof -
  have c: "concat (map frags sample_deltas) =
      [\<lparr>fr_index = 0, fr_id = ''c1'', fr_name = ''f'', fr_args = ''[1''\<rparr>,
       \<lparr>fr_index = 0, fr_id = [], fr_name = [], fr_args = '']''\<rparr>]" by (simp add: sample_deltas_def)
  have "\<forall>f \<in> set (concat (map frags sample_deltas)).
      \<exists>g \<in> set (concat (map frags sample_deltas)). fr_index g = fr_index f \<and> fr_id g \<noteq> []" unfolding c by simp
  note r = stream_reassembles [OF this, of "\<lambda>k. []" 0 "''m''" True]
  have "whole_message sample_deltas = [(''role'', PStr ''assistant''), (''content'', PStr ''Hi''),
      (''tool_calls'', PList [call_entry ''c1'' (PStr ''f'') ''[1]''])]"
    unfolding whole_message_def c Let_def by (simp add: whole_call_def last_given_def sample_deltas_def)
  moreover have "map PStr (filter (\<lambda>t. t \<noteq> []) (map said sample_deltas)) = [PStr ''Hi'']"
    by (simp add: sample_deltas_def)
  ultimately show ?thesis unfolding r by simp
qed

end
