(* ===== verification/PlannerProps.thy ===== *)
theory PlannerProps
  imports PlannerLemmas SchemaProps StreamProps
begin

text \<open>
  Properties of the planner: the bound on the requests of a turn, the pairing of calls and
  results, the calls that leave the session without an answer, the cache of similar cases, and
  the retry.
\<close>

section \<open>A turn\<close>

lemma react_loop_sent:
  "react_loop env i n s = (r, s') \<Longrightarrow> length (ps_sent s') \<le> length (ps_sent s) + (if le_stream env then 3 else 2) * n"
proof (induction n arbitrary: i s)
  case 0
  then show ?case by simp
next
  case (Suc n)
  obtain r1 s1 where s1: "react_step env i s = (r1, s1)" by fastforce
  note b = react_step_sent [OF s1]
  show ?case
  proof (cases "r1 = Inr Next")
    case True
    with Suc.prems s1 have "react_loop env (Suc i) n s1 = (r, s')" by simp
    from Suc.IH [OF this] b show ?thesis by auto
  next
    case False
    with Suc.prems s1 have "s' = s1" by (auto split: sum.splits verdict.splits)
    with b show ?thesis by (auto split: if_splits)
  qed
qed

lemma last_text_true: "dflt \<noteq> [] \<Longrightarrow> last_text_or s dflt = Text v \<Longrightarrow> py_truthy v"
  by (auto simp: last_text_or_def)

lemma act_on_text: "act_on env f t calls s = (Inr (Return (Text v)), s') \<Longrightarrow> py_truthy v"
  by (auto simp: act_on_def py_or_def Let_def format_async_submission_reply_def
      split: if_splits sum.splits prod.splits option.splits)

lemma react_step_text: "react_step env i s = (Inr (Return (Text v)), s') \<Longrightarrow> py_truthy v"
  by (auto simp: react_step_def Let_def split: sum.splits prod.splits option.splits
      dest!: act_on_text intro: last_text_true [rotated])

lemma react_loop_text: "react_loop env i n s = (Inr (Text v), s') \<Longrightarrow> py_truthy v"
proof (induction n arbitrary: i s)
  case 0
  then show ?case by (auto intro: last_text_true [rotated])
next
  case (Suc n)
  then show ?case
    by (auto split: sum.splits prod.splits verdict.splits dest!: react_step_text intro: last_text_true [rotated])
qed


section \<open>Every call is answered\<close>

text \<open>What the planner needs of the server: calls with ids of their own, fewer than \<open>k\<close> a turn.\<close>

definition replies_good :: "'w llm_env \<Rightarrow> nat \<Rightarrow> bool" where
  "replies_good env k \<longleftrightarrow> (\<forall>s response s' finish text calls. call_llm env s = (Inr response, s') \<longrightarrow>
     read_choice response = Inr (Some (finish, text, calls)) \<longrightarrow> py_truthy calls \<longrightarrow> good_calls k calls)"

lemma act_on_answered:
  assumes "act_on env finish text calls s = (Inr v, s')" "py_truthy calls \<Longrightarrow> good_calls k calls"
    and "answered (history (ps_mem s))" "max_messages (ps_mem s) \<le> 0 \<or> int k \<le> max_messages (ps_mem s)"
  shows "answered (history (ps_mem s')) \<and> max_messages (ps_mem s') = max_messages (ps_mem s)"
proof (cases "py_truthy calls")
  case False
  have "pair_step (assistant_msg text PNone) [] = Some []" "\<not> is_tool (assistant_msg text PNone)"
    by (simp_all add: pair_step_def assistant_msg_def calls_ids_def py_or_def val_items_def is_tool_def)
  from add_closed_answered [OF assms(3) this(2,1)] False assms(1,3) show ?thesis by (auto simp: act_on_def)
next
  case True
  with assms(2) obtain tcs where c: "calls = PList tcs" "length tcs < k" "[] \<notin> set (map call_id tcs)"
    "distinct (map call_id tcs)" by (auto simp: good_calls_def split: pyval.splits)
  let ?a = "assistant_msg text calls" and ?n = "max_messages (ps_mem s)"
  let ?s = "s\<lparr>ps_mem := add_msg ?a (ps_mem s)\<rparr>"
  have a: "\<not> is_tool ?a" by (simp add: is_tool_def assistant_msg_def)
  have "?n \<le> 0 \<or> int (length [?a]) \<le> ?n" using assms(4) c(2) by auto
  from evict_keeps_tail [OF a this, of "history (ps_mem s)"] obtain g
    where g: "evict ?n (history (ps_mem s) @ [?a]) = g @ [?a]" "kept_groups is_tool g (history (ps_mem s))" by auto
  have "\<exists>j s1. run_calls env tcs None ?s = (Inr j, s1) \<and> ps_mem s' = ps_mem s1"
    using assms(1) True c(1)
    by (auto simp: act_on_def Let_def val_items_def emit_def split: prod.splits sum.splits option.splits)
  then obtain j s1 where s1: "run_calls env tcs None ?s = (Inr j, s1)" "ps_mem s' = ps_mem s1" by blast
  have "calls_ids calls = Inr (map call_id tcs)"
    using True declared_call_ids [OF c(3)] by (simp add: calls_ids_def c(1) py_or_def val_items_def)
  then have o: "open_run [] [?a] = Some (map call_id tcs)"
    by (simp add: open_step_def pair_step_def assistant_msg_def)
  have "history (ps_mem ?s) = g @ [?a]" using g(1) by (simp add: add_msg_def)
  from run_calls_answered [OF s1(1) this answered_kept [OF assms(3) g(2)] a o c(3,4)] s1(2) assms(4) c(2)
  show ?thesis by auto
qed

lemma react_step_answered:
  assumes "react_step env i s = (Inr v, s')" "replies_good env k"
    and "answered (history (ps_mem s))" "max_messages (ps_mem s) \<le> 0 \<or> int k \<le> max_messages (ps_mem s)"
  shows "answered (history (ps_mem s')) \<and> max_messages (ps_mem s') = max_messages (ps_mem s)"
proof -
  let ?s0 = "emit (IterationStart (Suc i)) s"
  from assms(1) obtain response s1 where s1: "call_llm env ?s0 = (Inr response, s1)"
    by (auto simp: react_step_def split: prod.splits sum.splits)
  let ?s2 = "if py_truthy (pget (dict_of response) ''_tracing'') then emit (Trace (pget (dict_of response) ''_tracing'')) s1 else s1"
  have m: "ps_mem ?s2 = ps_mem s" using call_llm_frame [OF s1] by (simp add: emit_def)
  have step: "(case read_choice response of
      Inl e \<Rightarrow> (Inl (Raised e), ?s2)
    | Inr None \<Rightarrow> (Inr (Return (last_text_or (ps_mem ?s2) (''Sorry, I couldn'' @ [CHR 0x27] @ ''t process that request.''))), ?s2)
    | Inr (Some (finish, text, calls)) \<Rightarrow> act_on env finish text calls ?s2) = (Inr v, s')"
    using assms(1) s1 by (simp add: react_step_def Let_def)
  consider (same) "s' = ?s2" | (act) finish shown calls where "read_choice response = Inr (Some (finish, shown, calls))"
      "act_on env finish shown calls ?s2 = (Inr v, s')"
    using step by (auto split: sum.splits option.splits prod.splits)
  then show ?thesis
  proof cases
    case same
    with m assms(3) show ?thesis by simp
  next
    case act
    have "good_calls k calls" if "py_truthy calls" using assms(2) s1 act(1) that unfolding replies_good_def by blast
    from act_on_answered [OF act(2) this] assms(3,4) m show ?thesis by simp
  qed
qed

lemma react_loop_answered:
  assumes "react_loop env i n s = (Inr r, s')" "replies_good env k"
    and "answered (history (ps_mem s))" "max_messages (ps_mem s) \<le> 0 \<or> int k \<le> max_messages (ps_mem s)"
  shows "answered (history (ps_mem s'))"
  using assms
proof (induction n arbitrary: i s)
  case 0
  then show ?case by simp
next
  case (Suc n)
  then obtain v s1 where s1: "react_step env i s = (Inr v, s1)" by (auto split: prod.splits sum.splits)
  note a = react_step_answered [OF s1 Suc.prems(2-4)]
  show ?case
  proof (cases "v = Next")
    case True
    with Suc.prems(1) s1 have "react_loop env (Suc i) n s1 = (Inr r, s')" by simp
    from Suc.IH [OF this Suc.prems(2)] a Suc.prems(4) show ?thesis by auto
  next
    case False
    with Suc.prems(1) s1 have "s' = s1" by (auto split: verdict.splits)
    with a show ?thesis by simp
  qed
qed

lemma refresh_frame:
  "refresh_similar_cases ce rows message s = Inr m \<Longrightarrow> history m = history s \<and> max_messages m = max_messages s"
  by (auto simp: refresh_similar_cases_def Let_def split: if_splits pyval.splits option.splits)


text \<open>A server that calls one tool and then answers; the world counts the steps.\<close>

definition demo_settings :: llm_settings where
  "demo_settings = \<lparr>llm_backend = ''minimax'', llm_tool_calling_mode = ''native'', ollama_model = [], ollama_base_url = [],
     vllm_model = [], vllm_base_url = [], vllm_max_output_tokens = 100, minimax_api_key = ''k'', minimax_model = ''m'',
     minimax_base_url = ''http://h/v1/'', minimax_group_id = [], minimax_max_tokens = 4096, minimax_temperature = PNone,
     minimax_input_max_tokens = 0, minimax_timeout_retry_input_max_tokens = 4000, agent_max_iterations = 10\<rparr>"

definition reply_of :: "string \<Rightarrow> pydict \<Rightarrow> pyval" where
  "reply_of finish message = PDict [(''choices'', PList [PDict [(''finish_reason'', PStr finish), (''message'', PDict message)]])]"

definition status_call :: pyval where
  "status_call = call_entry ''c1'' (PStr ''job_status'') ''{}''"

definition demo_env :: "string \<Rightarrow> int llm_env" where
  "demo_env finish = \<lparr>le_settings = demo_settings, le_planner = new_planner demo_settings None None None, le_prompt = ''p'',
     le_stream = False, le_uuid = (\<lambda>n. ''u''),
     le_post = (\<lambda>url payload w. (Replied (if w = 0
        then reply_of finish [(''content'', PNone), (''tool_calls'', PList [status_call])]
        else reply_of ''stop'' [(''content'', PStr ''Done.'')]), w + 1)),
     le_sse = (\<lambda>url payload w. (([], True), w)), le_trace = (\<lambda>w. None), le_tools = plain_env no_tools,
     le_case_env = (\<lambda>w. \<lparr>ts_match = (\<lambda>a b. False), ts_rank = (\<lambda>a b. 0), db_up = False\<rparr>), le_case_rows = (\<lambda>w. [])\<rparr>"

definition demo_state :: "int pstate" where
  "demo_state = \<lparr>ps_mem = new_mem 40 default_cap, ps_world = 0, ps_ids = 0, ps_events = [], ps_sent = [], ps_audit = []\<rparr>"

lemma demo_reply:
  assumes "call_llm (demo_env finish) s = (Inr response, s')"
  shows "response \<in> {reply_of finish [(''content'', PNone), (''tool_calls'', PList [status_call])],
    reply_of ''stop'' [(''content'', PStr ''Done.'')]}"
proof -
  have f: "finish_reply (demo_env finish) n t v = ok_bind (trace_chat t v) (\<lambda>v. Inr (v, n))" for n t v
    by (simp add: finish_reply_def demo_env_def demo_settings_def prompt_mode_def)
  have t: "le_trace (demo_env finish) w = None" "\<not> le_stream (demo_env finish)" for w by (simp_all add: demo_env_def)
  have p: "le_post (demo_env finish) url payload w = (Replied (if w = 0
        then reply_of finish [(''content'', PNone), (''tool_calls'', PList [status_call])]
        else reply_of ''stop'' [(''content'', PStr ''Done.'')]), w + 1)" for url payload w
    by (simp add: demo_env_def)
  from assms show ?thesis
    by (auto simp: call_llm_def stream_or_post_def t f trace_chat_def post_chat_completion_def send_json_request_def p
        split: sum.splits)
qed

lemma demo_good: "replies_good (demo_env finish) 2"
proof -
  have "good_calls 2 calls" if "read_choice response = Inr (Some (f, shown, calls))" "py_truthy calls"
    "response \<in> {reply_of finish [(''content'', PNone), (''tool_calls'', PList [status_call])],
      reply_of ''stop'' [(''content'', PStr ''Done.'')]}" for response f shown calls
    using that
    by (auto simp: read_choice_def reply_of_def val_get_def get_or_def dgetd_def first_item_def py_or_def
        good_calls_def status_call_def call_entry_def call_id_def pget_def)
  then show ?thesis unfolding replies_good_def using demo_reply by blast
qed

lemma demo_call:
  assumes "mem_get ''_similar_cases'' PNone (ps_mem s) = PList []"
  shows "\<exists>p. call_llm (demo_env finish) s = (Inr (if ps_world s = 0
      then reply_of finish [(''content'', PNone), (''tool_calls'', PList [status_call])]
      else reply_of ''stop'' [(''content'', PStr ''Done.'')]),
    s\<lparr>ps_world := ps_world s + 1, ps_sent := ps_sent s @ [p]\<rparr>)"
proof -
  have "\<exists>p. build_payload (demo_env finish) True (pl_input_max_tokens (le_planner (demo_env finish))) (ps_mem s) = Inr p"
    using assms by (simp add: build_payload_def demo_env_def demo_settings_def new_planner_def prompt_mode_def Let_def
        build_system_prompt_def py_or_def val_items_def format_similar_cases_def get_messages_def)
  moreover have "finish_reply (demo_env finish) n (le_trace (demo_env finish) w) v = Inr (v, n)" for n w v
    by (simp add: finish_reply_def demo_env_def demo_settings_def prompt_mode_def trace_chat_def)
  moreover have "stream_or_post (demo_env finish) p s = (Inr (if ps_world s = 0
      then reply_of finish [(''content'', PNone), (''tool_calls'', PList [status_call])]
      else reply_of ''stop'' [(''content'', PStr ''Done.'')]),
    s\<lparr>ps_world := ps_world s + 1, ps_sent := ps_sent s @ [p]\<rparr>)" for p
    by (simp add: stream_or_post_def post_chat_completion_def send_json_request_def demo_env_def Let_def)
  ultimately show ?thesis by (auto simp: call_llm_def)
qed

lemma demo_choice:
  "read_choice (reply_of finish [(''content'', PNone), (''tool_calls'', PList [status_call])]) =
     Inr (Some (PStr finish, PStr [], PList [status_call]))"
  "read_choice (reply_of ''stop'' [(''content'', PStr ''Done.'')]) = Inr (Some (PStr ''stop'', PStr ''Done.'', PList []))"
  "pget (dict_of (reply_of f m)) ''_tracing'' = PNone"
  by (simp_all add: read_choice_def reply_of_def val_get_def get_or_def dgetd_def first_item_def py_or_def pget_def)

lemma similar_cases_kept: "mem_get ''_similar_cases'' x (update_context_from_tool args r s) = mem_get ''_similar_cases'' x s"
proof -
  have "mem_get ''_similar_cases'' x (learn_keys d context_keys s) = mem_get ''_similar_cases'' x s" for d s
    by (rule learn_other) (simp_all add: context_keys_def)
  then show ?thesis by (simp add: update_context_from_tool_def learn_from_def split: pyval.split)
qed

lemma mem_get_add [simp]: "mem_get k x (add_msg m s) = mem_get k x s"
  by (simp add: mem_get_def add_msg_def)

lemma demo_read: "read_call status_call = Inr (PStr ''job_status'', [])"
proof -
  have "json_loads ''{}'' = Some (PDict [])" by code_simp
  then show ?thesis
    by (simp add: read_call_def status_call_def call_entry_def val_item_def val_get_def dgetd_def lift_exc_def)
qed

lemma demo_tool:
  "execute_named (plain_env no_tools) (PStr ''job_status'') [] w = (Inr (json_dumps (error_reply ''TypeError'')), w, [])"
proof -
  have "guard_check [] ''job_status'' [] = Inr safe_result"
    by (simp add: guard_check_def confirmed_def check_custom_policy_def dgetd_def pget_def py_or_def checkers_def
        check_clean_flag_def check_utilization_def check_long_running_def check_cancel_def)
  then show ?thesis
    by (simp add: execute_named_def execute_tool_def execute_value_def dispatch_def plain_env_def no_tools_def
        builtin_tools_def call_builtin_def tool_signatures_def dgetd_def binds_def strip_flag_def is_blocked_def Let_def)
qed

lemma demo_run_call:
  "\<exists>s'. run_call (demo_env finish) status_call s = (Inr None, s') \<and> ps_world s' = ps_world s \<and>
     mem_get ''_similar_cases'' PNone (ps_mem s') = mem_get ''_similar_cases'' PNone (ps_mem s)"
proof -
  have i: "val_get status_call ''id'' x = Inr (PStr ''c1'')" for x
    by (simp add: status_call_def call_entry_def val_get_def dgetd_def)
  have "le_tools (demo_env finish) = plain_env no_tools" by (simp add: demo_env_def)
  then show ?thesis
    by (simp add: run_call_def i demo_read demo_tool Let_def emit_def submits_def similar_cases_kept add_tool_result_def)
qed

text \<open>The first iteration calls the tool.\<close>

lemma demo_first:
  assumes "mem_get ''_similar_cases'' PNone (ps_mem s) = PList []" "ps_world s = 0"
  shows "\<exists>s'. react_step (demo_env finish) i s = (Inr (if finish = ''stop'' then Break else Next), s') \<and>
    ps_world s' = 1 \<and> mem_get ''_similar_cases'' PNone (ps_mem s') = PList []"
proof -
  let ?env = "demo_env finish" and ?s0 = "emit (IterationStart (Suc i)) s"
  have "mem_get ''_similar_cases'' PNone (ps_mem ?s0) = PList []" "ps_world ?s0 = 0" using assms by (simp_all add: emit_def)
  with demo_call [of ?s0 finish] obtain p where c: "call_llm ?env ?s0 =
      (Inr (reply_of finish [(''content'', PNone), (''tool_calls'', PList [status_call])]),
       ?s0\<lparr>ps_world := 1, ps_sent := ps_sent ?s0 @ [p]\<rparr>)" by auto
  let ?s1 = "?s0\<lparr>ps_world := 1, ps_sent := ps_sent ?s0 @ [p]\<rparr>"
  let ?s2 = "?s1\<lparr>ps_mem := add_msg (assistant_msg (PStr []) (PList [status_call])) (ps_mem ?s1)\<rparr>"
  from demo_run_call [of finish ?s2] obtain s3 where s3: "run_call ?env status_call ?s2 = (Inr None, s3)"
    "ps_world s3 = 1" "mem_get ''_similar_cases'' PNone (ps_mem s3) = PList []" using assms(1) by (auto simp: emit_def)
  have "react_step ?env i s = act_on ?env (PStr finish) (PStr []) (PList [status_call]) ?s1"
    by (simp add: react_step_def c demo_choice Let_def)
  moreover have "act_on ?env (PStr finish) (PStr []) (PList [status_call]) ?s1 =
      (Inr (if finish = ''stop'' then Break else Next), s3)"
    using s3(1) by (simp add: act_on_def val_items_def Let_def)
  ultimately show ?thesis using s3(2,3) by simp
qed

lemma demo_second:
  assumes "mem_get ''_similar_cases'' PNone (ps_mem s) = PList []" "ps_world s = 1"
  shows "\<exists>s'. react_step (demo_env finish) i s = (Inr (Return (Text (PStr ''Done.''))), s')"
proof -
  let ?s0 = "emit (IterationStart (Suc i)) s"
  have "mem_get ''_similar_cases'' PNone (ps_mem ?s0) = PList []" "ps_world ?s0 = 1" using assms by (simp_all add: emit_def)
  with demo_call [of ?s0 finish] obtain s1
    where "call_llm (demo_env finish) ?s0 = (Inr (reply_of ''stop'' [(''content'', PStr ''Done.'')]), s1)" by auto
  then show ?thesis by (simp add: react_step_def demo_choice act_on_def py_or_def Let_def)
qed

lemma add_msg_set: "set (history (add_msg m s)) \<subseteq> insert m (set (history s))"
  using is_suffix_set [of "history (add_msg m s)" "history s @ [m]"] evict_kept [of "max_messages s" "history s @ [m]"]
  by (auto simp: add_msg_def kept_groups_def)

definition speechless :: "mem \<Rightarrow> bool" where
  "speechless s \<longleftrightarrow> (\<forall>m \<in> set (history s). \<not> (msg_role m = ''assistant'' \<and> py_truthy (msg_content m)))"

lemma speechless_text: "speechless s \<Longrightarrow> last_text_or s dflt = Text (PStr dflt)"
proof -
  assume "speechless s"
  then have "find (\<lambda>m. msg_role m = ''assistant'' \<and> py_truthy (msg_content m)) (rev (history s)) = None"
    by (simp add: speechless_def find_None_iff)
  then show ?thesis by (simp add: last_text_or_def last_assistant_text_def)
qed

lemma speechless_add:
  "speechless s \<Longrightarrow> msg_role m \<noteq> ''assistant'' \<or> \<not> py_truthy (msg_content m) \<Longrightarrow> speechless (add_msg m s)"
  using add_msg_set [of m s] by (auto simp: speechless_def)

lemma demo_start:
  "\<exists>m n. run (demo_env finish) ''hi'' demo_state = react_loop (demo_env finish) 0 (Suc (Suc n)) (demo_state\<lparr>ps_mem := m\<rparr>) \<and>
     mem_get ''_similar_cases'' PNone m = PList [] \<and> speechless m \<and> max_messages m = 40"
proof -
  have "py_strip ''hi'' = ''hi''" by code_simp
  then have "\<exists>m. refresh_similar_cases (le_case_env (demo_env finish) w) rows ''hi'' (ps_mem demo_state) = Inr m \<and>
      mem_get ''_similar_cases'' PNone m = PList [] \<and> history m = [] \<and> max_messages m = 40" for w rows
    by (simp add: refresh_similar_cases_def demo_env_def demo_state_def new_mem_def mem_get_def py_or_def volatile_def
        dgetd_def search_similar_cases_def case_cache_max_def mem_set_def Let_def)
  then obtain m where m: "refresh_similar_cases (le_case_env (demo_env finish) (ps_world demo_state))
      (le_case_rows (demo_env finish) (ps_world demo_state)) ''hi'' (ps_mem demo_state) = Inr m"
    "mem_get ''_similar_cases'' PNone m = PList []" "history m = []" "max_messages m = 40" by blast
  have "nat (pl_max_iterations (le_planner (demo_env finish))) = Suc (Suc 8)"
    by (simp add: demo_env_def demo_settings_def new_planner_def)
  then have "run (demo_env finish) ''hi'' demo_state =
      react_loop (demo_env finish) 0 (Suc (Suc 8)) (demo_state\<lparr>ps_mem := add_user ''hi'' m\<rparr>)"
    by (simp only: run_def m(1) sum.case)
  moreover have "mem_get ''_similar_cases'' PNone (add_user ''hi'' m) = PList []" "max_messages (add_user ''hi'' m) = 40"
    using m(2,4) by (simp_all add: add_user_def)
  moreover have "speechless (add_user ''hi'' m)" unfolding add_user_def
    by (rule speechless_add) (simp_all add: speechless_def m(3) user_msg_def)
  ultimately show ?thesis by blast
qed

lemma demo_run: "\<exists>s'. run (demo_env ''tool_calls'') ''hi'' demo_state = (Inr (Text (PStr ''Done.'')), s')"
proof -
  obtain m n where m: "run (demo_env ''tool_calls'') ''hi'' demo_state =
      react_loop (demo_env ''tool_calls'') 0 (Suc (Suc n)) (demo_state\<lparr>ps_mem := m\<rparr>)"
    "mem_get ''_similar_cases'' PNone m = PList []" using demo_start [of "''tool_calls''"] by blast
  let ?s = "demo_state\<lparr>ps_mem := m\<rparr>"
  have "ps_world ?s = 0" "mem_get ''_similar_cases'' PNone (ps_mem ?s) = PList []" using m(2) by (simp_all add: demo_state_def)
  with demo_first [of ?s "''tool_calls''" 0] obtain s1
    where s1: "react_step (demo_env ''tool_calls'') 0 ?s = (Inr Next, s1)"
      "ps_world s1 = 1" "mem_get ''_similar_cases'' PNone (ps_mem s1) = PList []" by auto
  from demo_second [OF s1(3,2), of "''tool_calls''" "Suc 0"] obtain s2
    where "react_step (demo_env ''tool_calls'') (Suc 0) s1 = (Inr (Return (Text (PStr ''Done.''))), s2)" by blast
  with s1(1) have "\<exists>s'. react_loop (demo_env ''tool_calls'') 0 (Suc (Suc n)) ?s = (Inr (Text (PStr ''Done.'')), s')" by simp
  then show ?thesis by (simp only: m(1))
qed


section \<open>A finished reply with calls\<close>

text \<open>What the first iteration of the sample server leaves behind.\<close>

lemma demo_first_memory:
  assumes "react_step (demo_env finish) i s = (Inr v, s')" "ps_world s = 0" "speechless (ps_mem s)"
    and "mem_get ''_similar_cases'' PNone (ps_mem s) = PList []" "2 < max_messages (ps_mem s)"
  shows "speechless (ps_mem s') \<and> length (ps_sent s') = Suc (length (ps_sent s)) \<and>
    (\<exists>c. last (history (ps_mem s')) = tool_msg c (PStr ''job_status'') (PStr ''c1''))"
proof -
  let ?env = "demo_env finish" and ?s0 = "emit (IterationStart (Suc i)) s"
  have "mem_get ''_similar_cases'' PNone (ps_mem ?s0) = PList []" "ps_world ?s0 = 0" using assms(2,4) by (simp_all add: emit_def)
  with demo_call [of ?s0 finish] obtain p where c: "call_llm ?env ?s0 =
      (Inr (reply_of finish [(''content'', PNone), (''tool_calls'', PList [status_call])]),
       ?s0\<lparr>ps_world := 1, ps_sent := ps_sent ?s0 @ [p]\<rparr>)" by auto
  let ?s1 = "?s0\<lparr>ps_world := 1, ps_sent := ps_sent ?s0 @ [p]\<rparr>"
  let ?a = "assistant_msg (PStr []) (PList [status_call])"
  let ?s2 = "?s1\<lparr>ps_mem := add_msg ?a (ps_mem ?s1)\<rparr>"
  let ?t = "tool_msg (truncate_result (result_cap (ps_mem ?s2)) (PStr (json_dumps (error_reply ''TypeError''))))
      (PStr ''job_status'') (PStr ''c1'')"
  have i: "val_get status_call ''id'' x = Inr (PStr ''c1'')" for x
    by (simp add: status_call_def call_entry_def val_get_def dgetd_def)
  have t: "le_tools ?env = plain_env no_tools" by (simp add: demo_env_def)
  have "react_step ?env i s = act_on ?env (PStr finish) (PStr []) (PList [status_call]) ?s1"
    by (simp add: react_step_def c demo_choice Let_def)
  with assms(1) have s': "history (ps_mem s') = history (add_msg ?t (ps_mem ?s2))" "ps_sent s' = ps_sent ?s1"
    by (auto simp: act_on_def val_items_def Let_def run_call_def i demo_read t demo_tool emit_def submits_def
        add_tool_result_def)
  have "speechless (add_msg ?a (ps_mem s))"
    by (rule speechless_add [OF assms(3)]) (simp add: assistant_msg_def)
  then have "speechless (add_msg ?t (ps_mem ?s2))" by (intro speechless_add) (simp_all add: tool_msg_def emit_def)
  then have "speechless (ps_mem s')" using s'(1) by (simp add: speechless_def)
  moreover have "\<not> is_tool ?a" by (simp add: is_tool_def assistant_msg_def)
  then obtain g where "history (ps_mem ?s2) = g @ [?a]"
    using evict_keeps_tail [of ?a "max_messages (ps_mem s)" "[]" "history (ps_mem s)"] assms(5)
    by (auto simp: add_msg_def emit_def)
  then obtain g' where "history (add_msg ?t (ps_mem ?s2)) = g' @ [?a, ?t]"
    using evict_keeps_tail [of ?a "max_messages (ps_mem s)" "[?t]" g] assms(5) \<open>\<not> is_tool ?a\<close>
    by (auto simp: add_msg_def emit_def)
  then have "last (history (ps_mem s')) = ?t" using s'(1) by simp
  ultimately show ?thesis using s'(2) by (auto simp: emit_def)
qed

text \<open>
  When a reply carries tool calls and its \<open>finish_reason\<close> is \<open>stop\<close> (the default where a server
  sends none, and of every streamed reply that does not name one) the calls are executed, but the
  model is not asked again: the turn ends after one request, with the text for a turn that has run
  out of iterations and the results unread.
\<close>

theorem stop_reply_ends_turn:
  "\<exists>s'. run (demo_env ''stop'') ''hi'' demo_state = (Inr (Text (PStr ''Agent reached max iterations.'')), s') \<and>
     length (ps_sent s') = 1 \<and> (\<exists>c. last (history (ps_mem s')) = tool_msg c (PStr ''job_status'') (PStr ''c1''))"
proof -
  obtain m n where m: "run (demo_env ''stop'') ''hi'' demo_state =
      react_loop (demo_env ''stop'') 0 (Suc (Suc n)) (demo_state\<lparr>ps_mem := m\<rparr>)"
    "mem_get ''_similar_cases'' PNone m = PList []" "speechless m" "max_messages m = 40"
    using demo_start [of "''stop''"] by blast
  let ?s = "demo_state\<lparr>ps_mem := m\<rparr>"
  have w: "ps_world ?s = 0" "mem_get ''_similar_cases'' PNone (ps_mem ?s) = PList []" "speechless (ps_mem ?s)"
    "2 < max_messages (ps_mem ?s)" using m by (simp_all add: demo_state_def)
  with demo_first [of ?s "''stop''" 0] obtain s1 where s1: "react_step (demo_env ''stop'') 0 ?s = (Inr Break, s1)" by auto
  from demo_first_memory [OF s1 w(1,3,2,4)] have f: "speechless (ps_mem s1)" "length (ps_sent s1) = 1"
    "\<exists>c. last (history (ps_mem s1)) = tool_msg c (PStr ''job_status'') (PStr ''c1'')" by (simp_all add: demo_state_def)
  have "react_loop (demo_env ''stop'') 0 (Suc (Suc n)) ?s = (Inr (Text (PStr ''Agent reached max iterations.'')), s1)"
    using s1 speechless_text [OF f(1)] by simp
  with m(1) f(2,3) show ?thesis by simp
qed

section \<open>Unreadable arguments\<close>

text \<open>
  A call whose arguments are no JSON raises \<open>ValueError\<close> out of the turn after the assistant
  message was stored and before any result is: the call stays open, and the next message of the
  user is stored behind it, so every later request shows the server a call without a result.
\<close>

theorem bad_arguments_leave_call_open:
  assumes "read_call tc = Inl (BadJson name raw)" "[] \<notin> set (map call_id (tc # tcs))"
    and "max_messages (ps_mem s) \<le> 0 \<or> 2 \<le> max_messages (ps_mem s)"
  shows "\<exists>s'. act_on env finish shown (PList (tc # tcs)) s = (Inl (BadJson name raw), s') \<and>
    last (history (ps_mem s')) = assistant_msg shown (PList (tc # tcs)) \<and>
    \<not> answered (history (add_user next (ps_mem s')))"
proof -
  let ?a = "assistant_msg shown (PList (tc # tcs))" and ?n = "max_messages (ps_mem s)" and ?u = "user_msg (PStr next)"
  let ?s = "s\<lparr>ps_mem := add_msg ?a (ps_mem s)\<rparr>"
  have "call_id tc \<noteq> []" using assms(2) by auto
  from call_id_dict [OF this] obtain d where d: "tc = PDict d" by blast
  have "run_call env tc ?s = (Inl (BadJson name raw), ?s\<lparr>ps_ids := Suc (ps_ids ?s)\<rparr>)"
    using assms(1) by (simp add: run_call_def d val_get_def Let_def)
  then have act: "act_on env finish shown (PList (tc # tcs)) s = (Inl (BadJson name raw), ?s\<lparr>ps_ids := Suc (ps_ids ?s)\<rparr>)"
    by (simp add: act_on_def val_items_def Let_def)
  have a: "\<not> is_tool ?a" by (simp add: is_tool_def assistant_msg_def)
  obtain g where g: "history (ps_mem ?s) = g @ [?a]"
    using evict_keeps_tail [OF a, of ?n "[]" "history (ps_mem s)"] assms(3) by (auto simp: add_msg_def)
  obtain g' where g': "history (add_user next (ps_mem ?s)) = g' @ [?a, ?u]"
    using evict_keeps_tail [OF a, of ?n "[?u]" g] assms(3) g by (auto simp: add_user_def add_msg_def)
  have "calls_ids (PList (tc # tcs)) = Inr (map call_id (tc # tcs))"
    using declared_call_ids [OF assms(2)] by (simp add: calls_ids_def py_or_def val_items_def)
  then have "pair_step ?a q = Some (map call_id (tc # tcs))" for q by (simp add: pair_step_def assistant_msg_def)
  then have "open_run q [?a, ?u] = None" for q by (simp add: open_step_def a is_tool_def user_msg_def assistant_msg_def)
  then have "\<not> answered (history (add_user next (ps_mem ?s)))"
    unfolding g' answered_def open_run_append by (auto split: bind_splits)
  with act g show ?thesis by simp
qed

theorem bad_arguments_leave_call_open_witness:
  "\<exists>s'. act_on (demo_env ''tool_calls'') (PStr ''tool_calls'') (PStr [])
      (PList [call_entry ''c1'' (PStr ''job_status'') ''{'']) demo_state =
    (Inl (BadJson (PStr ''job_status'') (PStr ''{'')), s') \<and> \<not> answered (history (add_user ''again'' (ps_mem s')))"
proof -
  let ?tc = "call_entry ''c1'' (PStr ''job_status'') ''{''"
  have "json_loads ''{'' = None" by code_simp
  then have r: "read_call ?tc = Inl (BadJson (PStr ''job_status'') (PStr ''{''))"
    by (simp add: read_call_def call_entry_def val_item_def val_get_def dgetd_def lift_exc_def)
  have "[] \<notin> set (map call_id [?tc])" by (simp add: call_id_def call_entry_def pget_def)
  from bad_arguments_leave_call_open [OF r this, of demo_state "demo_env ''tool_calls''" "PStr ''tool_calls''" "PStr []" "''again''"]
  show ?thesis by (auto simp: demo_state_def new_mem_def)
qed

section \<open>Similar cases\<close>

definition case_cache :: "mem \<Rightarrow> pyval" where
  "case_cache s = py_or (mem_get ''_cases_cache'' PNone s) (PDict [])"

text \<open>
  The cache of similar cases stays within eight queries, each once, and after the refresh the
  planner sees what the cache now holds for the query: the cached answer or a fresh search.
\<close>

theorem case_cache_bounded:
  fixes message :: string
  assumes "case_cache s = PDict c" "wf_dict c" "length c \<le> 8"
  defines "query \<equiv> py_strip message"
  shows "\<exists>m c'. refresh_similar_cases ce rows message s = Inr m \<and> case_cache m = PDict c' \<and> wf_dict c' \<and> length c' \<le> 8 \<and>
    mem_get ''_similar_cases'' PNone m =
      (if query = [] then PList []
       else case dget c query of Some found \<Rightarrow> found | None \<Rightarrow> PList (map PDict (search_similar_cases ce query [] 3 rows))) \<and>
    (query \<noteq> [] \<longrightarrow> dget c' query = Some (mem_get ''_similar_cases'' PNone m))"
proof (cases "query = []")
  case True
  with assms show ?thesis
    by (intro exI [of _ "mem_set ''_similar_cases'' (PList []) s"] exI [of _ c])
      (simp add: refresh_similar_cases_def case_cache_def query_def)
next
  case False
  show ?thesis
  proof (cases "dget c query")
    case (Some found)
    with False assms show ?thesis
      by (intro exI [of _ "mem_set ''_similar_cases'' found s"] exI [of _ c])
        (simp add: refresh_similar_cases_def case_cache_def query_def)
  next
    case None
    let ?new = "PList (map PDict (search_similar_cases ce query [] 3 rows))"
    let ?c = "c @ [(query, ?new)]"
    let ?c' = "if case_cache_max < length ?c then tl ?c else ?c"
    have d: "dset query ?new c = ?c" by (rule dkeys_dset_absent [OF iffD1 [OF dget_None_iff None]])
    have w: "wf_dict ?c" using assms(2) d wf_dset [of c query ?new] by simp
    have "wf_dict (tl ?c)" using w by (simp only: wf_dict_def map_tl distinct_tl)
    with w have w': "wf_dict ?c'" by simp
    have l: "length ?c' \<le> 8" "?c' \<noteq> []" using assms(3) by (cases c; simp add: case_cache_max_def)+
    have i: "(query, ?new) \<in> set ?c'" using l(2) by (cases c) (auto split: if_splits)
    let ?m = "mem_set ''_similar_cases'' ?new (mem_set ''_cases_cache'' (PDict ?c') s)"
    have "refresh_similar_cases ce rows message s = Inr ?m"
      using False None assms(1) d by (simp add: refresh_similar_cases_def case_cache_def query_def Let_def)
    moreover have "case_cache ?m = PDict ?c'" using l(2) by (simp add: case_cache_def py_or_def)
    moreover have "dget ?c' query = Some ?new" using i w' by (simp only: dget_eq_Some_iff)
    ultimately show ?thesis using w' l None False by (intro exI conjI) (assumption | simp)+
  qed
qed

theorem case_cache_bounded_witness:
  "\<exists>m c'. refresh_similar_cases \<lparr>ts_match = (\<lambda>a b. False), ts_rank = (\<lambda>a b. 0), db_up = True\<rparr> [] '' slow ''
      (new_mem 40 default_cap) = Inr m \<and> case_cache m = PDict c' \<and> length c' \<le> 8"
proof -
  have "case_cache (new_mem 40 default_cap) = PDict []"
    by (simp add: case_cache_def new_mem_def mem_get_def volatile_def dgetd_def py_or_def)
  from case_cache_bounded [OF this, of "\<lparr>ts_match = (\<lambda>a b. False), ts_rank = (\<lambda>a b. 0), db_up = True\<rparr>" "[]" "'' slow ''"]
  show ?thesis by (auto simp: wf_dict_def)
qed

section \<open>Requests\<close>

lemma retry_budget_pos: "0 < retry_budget env"
  by (auto simp: retry_budget_def Let_def max_def)

text \<open>
  A request is repeated at most once, only after a timeout, and only in a reduced form:
  without the similar cases, under a positive token budget, and not unless there were similar
  cases to leave out or the budget is below the first one. A second timeout, or a first one that
  leaves nothing to reduce, is reported as a timeout.
\<close>

theorem retry_reduces_context:
  fixes env :: "'w llm_env" and s :: "'w pstate"
  defines "first \<equiv> \<lambda>payload. fst (le_post env (endpoint (le_settings env) (le_planner env)) payload (ps_world s))"
  shows "let (r, s') = post_chat_completion env payload s in
    (ps_sent s' = ps_sent s @ [payload] \<and>
       (case first payload of
          Replied v \<Rightarrow> r = Inr v
        | PostFailed \<Rightarrow> r = Inl LlmFailed
        | TimedOut \<Rightarrow> r = Inl LlmTimeout \<and> \<not> reduces_context env (ps_mem s) \<or>
            (\<exists>e. build_payload env False (retry_budget env) (ps_mem s) = Inl e \<and> r = Inl (Raised e)))) \<or>
    (\<exists>reduced. ps_sent s' = ps_sent s @ [payload, reduced] \<and> first payload = TimedOut \<and>
       build_payload env False (retry_budget env) (ps_mem s) = Inr reduced \<and> 0 < retry_budget env \<and>
       (py_truthy (mem_get ''_similar_cases'' PNone (ps_mem s)) \<or>
        retry_budget env < pl_input_max_tokens (le_planner env)))"
  unfolding first_def using retry_budget_pos [of env]
  by (auto simp: post_chat_completion_def send_json_request_def reduces_context_def Let_def
      split: prod.splits post_result.splits sum.splits)

section \<open>The tools of a small model\<close>

text \<open>
  With vLLM in prompt mode the model is offered eight tools. The comments of the list name
  \<open>submit_job\<close> and \<open>job_status\<close> at its fourth and fifth place, but the indices are those of
  \<open>query_flow_sessions\<close> and \<open>query_session_trace\<close>: no tool is offered that submits a job or reads
  its state, as the system prompt asks for.
\<close>

theorem vllm_tools_cannot_submit:
  "map advertised_name (vllm_tool_schemas (all_schemas te)) =
     [''run_eda_stage'', ''query_timing'', ''query_congestion'', ''query_flow_sessions'', ''query_session_trace'',
      ''get_run_log'', ''query_utilization'', ''query_power'']"
proof -
  have l: "length tool_schemas = 25" using arg_cong [OF advertised_names, of length] by simp
  have "map advertised_name (vllm_tool_schemas (all_schemas te)) =
      map ((!) (map advertised_name tool_schemas)) [0, 3, 4, 7, 8, 15, 13, 14]"
    using l by (simp add: vllm_tool_schemas_def all_schemas_def nth_append)
  then show ?thesis unfolding advertised_names by simp
qed

end
