(* ===== verification/SqlSchema.thy ===== *)
theory SqlSchema
  imports JsonRoundtrip
begin

text \<open>
  Database tables and the schema operations of Alembic (\<open>op.create_table\<close>, \<open>op.add_column\<close>, ...) on
  PostgreSQL. A table carries its rows and the next value of its serial column, so that an
  operation acts on the declaration and on the data; it fails as the server does.
\<close>

section \<open>Tables\<close>

datatype sql_type =
    Varchar nat
  | Txt
  | Integer
  | BigInteger
  | Boolean
  | Float
  | Timestamp
  | Json
  | Polygon

datatype default = Value pyval | Now

datatype on_delete = NoAction | SetNull | Cascade

text \<open>\<open>client_default\<close> is the value the object mapper fills in; a textual statement does not see it.\<close>

record column =
  col_name :: string
  col_type :: sql_type
  nullable :: bool
  primary :: bool
  server_default :: "default option"
  client_default :: "pyval option"

record fkey =
  fk_name :: "string option"
  fk_col :: string
  fk_table :: string
  fk_target :: string
  fk_delete :: on_delete

record table =
  tab_name :: string
  columns :: "column list"
  uniques :: "string list list"
  fkeys :: "fkey list"
  indexes :: "(string \<times> string list) list"
  rows :: "pydict list"
  next_id :: int

type_synonym database = "table list"

definition col :: "string \<Rightarrow> sql_type \<Rightarrow> column" where
  "col n t = \<lparr>col_name = n, col_type = t, nullable = True, primary = False, server_default = None, client_default = None\<rparr>"

definition required :: "column \<Rightarrow> column" where
  "required c = c\<lparr>nullable := False\<rparr>"

definition primary_key :: "column \<Rightarrow> column" where
  "primary_key c = c\<lparr>nullable := False, primary := True\<rparr>"

definition server :: "default \<Rightarrow> column \<Rightarrow> column" where
  "server d c = c\<lparr>server_default := Some d\<rparr>"

definition client :: "pyval \<Rightarrow> column \<Rightarrow> column" where
  "client v c = c\<lparr>client_default := Some v\<rparr>"

text \<open>A foreign key declared with its column has no name of its own.\<close>

definition ref :: "string \<Rightarrow> string \<Rightarrow> string \<Rightarrow> on_delete \<Rightarrow> fkey" where
  "ref c t k d = \<lparr>fk_name = None, fk_col = c, fk_table = t, fk_target = k, fk_delete = d\<rparr>"

definition new_table :: "string \<Rightarrow> column list \<Rightarrow> string list list \<Rightarrow> fkey list \<Rightarrow> (string \<times> string list) list \<Rightarrow> table" where
  "new_table n cs us fks ixs = \<lparr>tab_name = n, columns = cs, uniques = us, fkeys = fks, indexes = ixs, rows = [], next_id = 1\<rparr>"

definition column_names :: "table \<Rightarrow> string list" where
  "column_names t = map col_name (columns t)"

definition find_table :: "database \<Rightarrow> string \<Rightarrow> table option" where
  "find_table db n = find (\<lambda>t. tab_name t = n) db"

definition change_table :: "string \<Rightarrow> (table \<Rightarrow> table) \<Rightarrow> database \<Rightarrow> database" where
  "change_table n f db = map (\<lambda>t. if tab_name t = n then f t else t) db"

section \<open>Schema operations\<close>

datatype schema_op =
    CreateTable table
  | DropTable string
  | AddColumn string column "fkey list"
  | DropColumn string string
  | CreateIndex string string "string list"
  | DropIndex string string
  | CreateForeignKey string fkey
  | DropConstraint string string
  | InsertMissing string string "pydict list"   \<comment> \<open>rows whose key column has a new value\<close>
  | FillColumn string string "pydict \<Rightarrow> pyval option"   \<comment> \<open>an \<open>UPDATE\<close> of one column with its \<open>WHERE\<close>\<close>

definition has_value :: "database \<Rightarrow> string \<Rightarrow> string \<Rightarrow> pyval \<Rightarrow> bool" where
  "has_value db n c v = (case find_table db n of None \<Rightarrow> False | Some t \<Rightarrow> list_ex (\<lambda>r. pget r c = v) (rows t))"

text \<open>The values of a new foreign key exist in the table it refers to.\<close>

definition fkey_holds :: "database \<Rightarrow> table \<Rightarrow> fkey \<Rightarrow> bool" where
  "fkey_holds db t fk \<longleftrightarrow>
     list_all (\<lambda>r. pget r (fk_col fk) = PNone \<or> has_value db (fk_table fk) (fk_target fk) (pget r (fk_col fk))) (rows t)"

definition fkey_declared :: "database \<Rightarrow> fkey \<Rightarrow> bool" where
  "fkey_declared db fk = (case find_table db (fk_table fk) of None \<Rightarrow> False | Some t \<Rightarrow> fk_target fk \<in> set (column_names t))"

definition default_of :: "pyval \<Rightarrow> column \<Rightarrow> pyval" where
  "default_of now c = (case server_default c of None \<Rightarrow> PNone | Some (Value v) \<Rightarrow> v | Some Now \<Rightarrow> now)"

definition table_columns_ok :: "table \<Rightarrow> bool" where
  "table_columns_ok t \<longleftrightarrow> (let cs = column_names t in
     distinct cs \<and> list_all (\<lambda>u. set u \<subseteq> set cs) (uniques t) \<and> list_all (\<lambda>k. fk_col k \<in> set cs) (fkeys t) \<and>
     list_all (\<lambda>(i, js). set js \<subseteq> set cs) (indexes t) \<and> distinct (map fst (indexes t)))"

text \<open>Columns that go take the keys, the unique constraints and the indexes on them along.\<close>

definition drop_col :: "string \<Rightarrow> table \<Rightarrow> table" where
  "drop_col c t = t\<lparr>
     columns := filter (\<lambda>d. col_name d \<noteq> c) (columns t),
     uniques := filter (\<lambda>u. c \<notin> set u) (uniques t),
     fkeys := filter (\<lambda>k. fk_col k \<noteq> c) (fkeys t),
     indexes := filter (\<lambda>(i, cs). c \<notin> set cs) (indexes t),
     rows := map (filter (\<lambda>(k, v). k \<noteq> c)) (rows t)\<rparr>"

definition add_col :: "pyval \<Rightarrow> column \<Rightarrow> fkey list \<Rightarrow> table \<Rightarrow> table" where
  "add_col now c fks t = t\<lparr>
     columns := columns t @ [c],
     fkeys := fkeys t @ fks,
     rows := map (\<lambda>r. r @ [(col_name c, default_of now c)]) (rows t)\<rparr>"

definition insert_missing :: "pyval \<Rightarrow> string \<Rightarrow> pydict list \<Rightarrow> table \<Rightarrow> table" where
  "insert_missing now key new t = fold (\<lambda>r t.
     if list_ex (\<lambda>r'. pget r' key = pget r key) (rows t) then t
     else t\<lparr>rows := rows t @ [map (\<lambda>c. (col_name c,
              if col_name c = ''id'' then PInt (next_id t) else dgetd r (col_name c) (default_of now c))) (columns t)],
            next_id := next_id t + 1\<rparr>) new t"

fun op_table :: "schema_op \<Rightarrow> string" where
  "op_table (CreateTable t) = tab_name t"
| "op_table (DropTable n) = n"
| "op_table (AddColumn n c fks) = n"
| "op_table (DropColumn n c) = n"
| "op_table (CreateIndex i n cs) = n"
| "op_table (DropIndex i n) = n"
| "op_table (CreateForeignKey n k) = n"
| "op_table (DropConstraint x n) = n"
| "op_table (InsertMissing n key new) = n"
| "op_table (FillColumn n c f) = n"

text \<open>Whether the server accepts the operation.\<close>

definition table_accepts :: "pyval \<Rightarrow> database \<Rightarrow> schema_op \<Rightarrow> table \<Rightarrow> bool" where
  "table_accepts now db op t =
     (case op of
        DropTable n \<Rightarrow> list_all (\<lambda>u. tab_name u = n \<or> list_all (\<lambda>k. fk_table k \<noteq> n) (fkeys u)) db
      | AddColumn n c fks \<Rightarrow>
          col_name c \<notin> set (column_names t) \<and> (nullable c \<or> server_default c \<noteq> None \<or> rows t = []) \<and>
          list_all (\<lambda>k. fk_col k = col_name c \<and> fk_name k = None \<and> fkey_declared db k) fks \<and>
          list_all (\<lambda>k. default_of now c = PNone \<or> rows t = [] \<or> has_value db (fk_table k) (fk_target k) (default_of now c)) fks
      | DropColumn n c \<Rightarrow>
          c \<in> set (column_names t) \<and> list_all (\<lambda>u. list_all (\<lambda>k. fk_table k \<noteq> n \<or> fk_target k \<noteq> c) (fkeys u)) db
      | CreateIndex i n cs \<Rightarrow> set cs \<subseteq> set (column_names t) \<and> list_all (\<lambda>u. i \<notin> set (map fst (indexes u))) db
      | DropIndex i n \<Rightarrow> i \<in> set (map fst (indexes t))
      | CreateForeignKey n k \<Rightarrow>
          fk_col k \<in> set (column_names t) \<and> fkey_declared db k \<and> fkey_holds db t k \<and>
          fk_name k \<noteq> None \<and> fk_name k \<notin> set (map fk_name (fkeys t))
      | DropConstraint x n \<Rightarrow> Some x \<in> set (map fk_name (fkeys t))
      | InsertMissing n key new \<Rightarrow> key \<in> set (column_names t)
      | FillColumn n c f \<Rightarrow> c \<in> set (column_names t)
      | _ \<Rightarrow> True)"

definition op_ok :: "pyval \<Rightarrow> schema_op \<Rightarrow> database \<Rightarrow> bool" where
  "op_ok now op db =
     (case op of
        CreateTable t \<Rightarrow>
          find_table db (tab_name t) = None \<and> table_columns_ok t \<and> rows t = [] \<and>
          list_all (\<lambda>u. set (map fst (indexes u)) \<inter> set (map fst (indexes t)) = {}) db \<and>
          list_all (fkey_declared (db @ [t])) (fkeys t)
      | _ \<Rightarrow> (case find_table db (op_table op) of None \<Rightarrow> False | Some t \<Rightarrow> table_accepts now db op t))"

text \<open>What it does to its table, and to the database.\<close>

fun table_effect :: "pyval \<Rightarrow> schema_op \<Rightarrow> table \<Rightarrow> table" where
  "table_effect now (AddColumn n c fks) t = add_col now c fks t"
| "table_effect now (DropColumn n c) t = drop_col c t"
| "table_effect now (CreateIndex i n cs) t = t\<lparr>indexes := indexes t @ [(i, cs)]\<rparr>"
| "table_effect now (DropIndex i n) t = t\<lparr>indexes := filter (\<lambda>(j, cs). j \<noteq> i) (indexes t)\<rparr>"
| "table_effect now (CreateForeignKey n k) t = t\<lparr>fkeys := fkeys t @ [k]\<rparr>"
| "table_effect now (DropConstraint x n) t = t\<lparr>fkeys := filter (\<lambda>k. fk_name k \<noteq> Some x) (fkeys t)\<rparr>"
| "table_effect now (InsertMissing n key new) t = insert_missing now key new t"
| "table_effect now (FillColumn n c f) t =
     t\<lparr>rows := map (\<lambda>r. case f r of None \<Rightarrow> r | Some v \<Rightarrow> dset c v r) (rows t)\<rparr>"
| "table_effect now _ t = t"

definition op_run :: "pyval \<Rightarrow> schema_op \<Rightarrow> database \<Rightarrow> database" where
  "op_run now op db =
     (case op of
        CreateTable t \<Rightarrow> db @ [t]
      | DropTable n \<Rightarrow> filter (\<lambda>t. tab_name t \<noteq> n) db
      | _ \<Rightarrow> change_table (op_table op) (table_effect now op) db)"

definition apply_op :: "pyval \<Rightarrow> schema_op \<Rightarrow> database \<Rightarrow> database option" where
  "apply_op now op db = (if op_ok now op db then Some (op_run now op db) else None)"

fun apply_ops :: "pyval \<Rightarrow> schema_op list \<Rightarrow> database \<Rightarrow> database option" where
  "apply_ops now [] db = Some db"
| "apply_ops now (op # ops) db = Option.bind (apply_op now op db) (apply_ops now ops)"

section \<open>Lemmas\<close>

lemma apply_ops_append: "apply_ops now (xs @ ys) db = Option.bind (apply_ops now xs db) (apply_ops now ys)"
  by (induction xs arbitrary: db) (auto split: Option.bind_split)

lemma find_table_append: "find_table (db @ db') n = (case find_table db n of None \<Rightarrow> find_table db' n | Some t \<Rightarrow> Some t)"
  by (induction db) (auto simp: find_table_def)

lemma find_table_SomeD: "find_table db n = Some t \<Longrightarrow> t \<in> set db \<and> tab_name t = n"
  by (auto simp: find_table_def find_Some_iff)

lemma find_table_None: "find_table db n = None \<longleftrightarrow> n \<notin> tab_name ` set db"
  by (auto simp: find_table_def find_None_iff)

lemma find_table_change:
  "(\<And>t. tab_name (f t) = tab_name t) \<Longrightarrow>
     find_table (change_table m f db) n = (if m = n then map_option f (find_table db n) else find_table db n)"
  by (induction db) (auto simp: find_table_def change_table_def)

lemma find_table_drop: "find_table (filter (\<lambda>t. tab_name t \<noteq> m) db) n = (if m = n then None else find_table db n)"
  by (induction db) (auto simp: find_table_def)

lemma insert_missing_frame [simp]:
  "tab_name (insert_missing now key new t) = tab_name t" "columns (insert_missing now key new t) = columns t"
  "uniques (insert_missing now key new t) = uniques t" "fkeys (insert_missing now key new t) = fkeys t"
  "indexes (insert_missing now key new t) = indexes t"
  unfolding insert_missing_def by (induction new arbitrary: t) auto

lemma name_add_drop [simp]: "tab_name (add_col now c fks t) = tab_name t" "tab_name (drop_col n t) = tab_name t"
  by (simp_all add: add_col_def drop_col_def)

lemma name_table_effect [simp]: "tab_name (table_effect now op t) = tab_name t"
  by (cases "(now, op, t)" rule: table_effect.cases) simp_all

text \<open>What becomes of one table depends on the operations on it only.\<close>

definition op_effect :: "pyval \<Rightarrow> string \<Rightarrow> schema_op \<Rightarrow> table option \<Rightarrow> table option" where
  "op_effect now n op u =
     (if op_table op \<noteq> n then u
      else case op of CreateTable t \<Rightarrow> Some t | DropTable m \<Rightarrow> None | _ \<Rightarrow> map_option (table_effect now op) u)"

lemma find_table_op: "apply_op now op db = Some db' \<Longrightarrow> find_table db' n = op_effect now n op (find_table db n)"
proof -
  assume a: "apply_op now op db = Some db'"
  then have r: "db' = op_run now op db" by (simp add: apply_op_def split: if_splits)
  show ?thesis
  proof (cases op)
    case (CreateTable t)
    with a have "find_table db (tab_name t) = None" by (auto simp: apply_op_def op_ok_def split: if_splits)
    with CreateTable r show ?thesis
      by (auto simp: op_run_def op_effect_def find_table_append find_table_def [of "[t]"] split: option.splits)
  next
    case (DropTable m)
    with r show ?thesis by (simp add: op_run_def op_effect_def find_table_drop)
  qed (use r in \<open>simp_all add: op_run_def op_effect_def find_table_change\<close>)
qed

lemma find_table_ops:
  "apply_ops now ops db = Some db' \<Longrightarrow> find_table db' n = fold (op_effect now n) ops (find_table db n)"
  by (induction ops arbitrary: db) (auto split: Option.bind_splits dest: find_table_op [where n = n])

end
