(* ===== verification/MigrationLemmas.thy ===== *)
theory MigrationLemmas
  imports SqlSchema
begin

text \<open>
  Undoing schema operations. A well-formed database has consistent declarations, rows with exactly
  the declared columns and foreign keys to existing columns; the operations of an upgrade keep it
  well formed, and the inverse of each gives back the database, its rows included.
\<close>

definition wf_table :: "table \<Rightarrow> bool" where
  "wf_table t \<longleftrightarrow> table_columns_ok t \<and> (\<forall>r \<in> set (rows t). dkeys r = column_names t)"

definition wf_database :: "database \<Rightarrow> bool" where
  "wf_database db \<longleftrightarrow> distinct (map tab_name db) \<and> (\<forall>t \<in> set db. wf_table t) \<and>
     (\<forall>t \<in> set db. \<forall>k \<in> set (fkeys t). fkey_declared db k)"

fun undo_op :: "schema_op \<Rightarrow> schema_op option" where
  "undo_op (CreateTable t) = Some (DropTable (tab_name t))"
| "undo_op (AddColumn n c fks) = Some (DropColumn n (col_name c))"
| "undo_op (CreateIndex i n cs) = Some (DropIndex i n)"
| "undo_op (CreateForeignKey n k) = (case fk_name k of None \<Rightarrow> None | Some x \<Rightarrow> Some (DropConstraint x n))"
| "undo_op _ = None"

section \<open>Changing one table\<close>

lemma names_change [simp]: "(\<And>t. tab_name (f t) = tab_name t) \<Longrightarrow> map tab_name (change_table n f db) = map tab_name db"
  by (induction db) (auto simp: change_table_def)

lemma find_table_same: "distinct (map tab_name db) \<Longrightarrow> t \<in> set db \<Longrightarrow> find_table db (tab_name t) = Some t"
  by (induction db) (auto simp: find_table_def image_iff)

lemma fkey_declared_names: "fkey_declared db k \<Longrightarrow> fk_table k \<in> tab_name ` set db"
  by (cases "find_table db (fk_table k)") (force simp: fkey_declared_def dest: find_table_SomeD)+

lemma fkey_declared_change:
  assumes "fkey_declared db k" "\<And>t. tab_name (f t) = tab_name t"
    and "\<And>t. find_table db n = Some t \<Longrightarrow> set (column_names t) \<subseteq> set (column_names (f t))"
  shows "fkey_declared (change_table n f db) k"
proof -
  obtain t where t: "find_table db (fk_table k) = Some t" "fk_target k \<in> set (column_names t)"
    using assms(1) by (auto simp: fkey_declared_def split: option.splits)
  with assms(3) [of t] show ?thesis by (auto simp: fkey_declared_def find_table_change [OF assms(2)])
qed

lemma fkey_declared_append: "fkey_declared db k \<Longrightarrow> fkey_declared (db @ db') k"
  by (auto simp: fkey_declared_def find_table_append split: option.splits)

lemma wf_change:
  assumes "wf_database db" "find_table db n = Some t" "\<And>t. tab_name (f t) = tab_name t"
    and "wf_table (f t)" "set (column_names t) \<subseteq> set (column_names (f t))"
    and "\<And>k. k \<in> set (fkeys (f t)) \<Longrightarrow> k \<in> set (fkeys t) \<or> fkey_declared db k"
  shows "wf_database (change_table n f db)"
proof -
  note w = assms(1) [unfolded wf_database_def]
  have only: "u = t" if "u \<in> set db" "tab_name u = n" for u
    using find_table_same [of db u] that assms(2) w by auto
  have t: "t \<in> set db" using find_table_SomeD [OF assms(2)] by simp
  have up: "fkey_declared (change_table n f db) k" if "fkey_declared db k" for k
    using fkey_declared_change [OF that assms(3)] assms(2,5) by fastforce
  have "fkey_declared (change_table n f db) k" if u: "u \<in> set (change_table n f db)" and k: "k \<in> set (fkeys u)" for u k
  proof -
    obtain v where v: "v \<in> set db" "u = (if tab_name v = n then f v else v)"
      using u unfolding change_table_def set_map by blast
    show ?thesis
    proof (cases "tab_name v = n")
      case True
      with v only have "u = f t" by auto
      with k assms(6) t w up show ?thesis by blast
    next
      case False
      with v k w up show ?thesis by auto
    qed
  qed
  moreover have "wf_table u" if "u \<in> set (change_table n f db)" for u
    using that w assms(4) only by (auto simp: change_table_def)
  ultimately show ?thesis using w by (simp add: wf_database_def assms(3))
qed

lemma change_undone:
  assumes "wf_database db" "find_table db n = Some t" "\<And>t. tab_name (f t) = tab_name t" "g (f t) = t"
  shows "change_table n g (change_table n f db) = db"
proof -
  have "u = t" if "u \<in> set db" "tab_name u = n" for u
    using find_table_same [of db u] that assms(1,2) by (auto simp: wf_database_def)
  then have "g (f u) = u" if "u \<in> set db" "tab_name u = n" for u using that assms(4) by metis
  then show ?thesis using assms(3) by (auto simp: change_table_def intro!: map_idI)
qed

section \<open>The operations\<close>

lemma drop_add_col:
  assumes "wf_table t" "col_name c \<notin> set (column_names t)" "\<forall>k \<in> set fks. fk_col k = col_name c"
  shows "drop_col (col_name c) (add_col now c fks t) = t"
proof -
  note ok = assms(1) [unfolded wf_table_def table_columns_ok_def Let_def list_all_iff]
  have cs: "filter (\<lambda>d. col_name d \<noteq> col_name c) (columns t) = columns t"
    using assms(2) by (intro filter_True ballI) (metis column_names_def image_eqI set_map)
  have us: "filter (\<lambda>u. col_name c \<notin> set u) (uniques t) = uniques t" using ok assms(2) by (auto intro!: filter_True)
  have ks: "filter (\<lambda>k. fk_col k \<noteq> col_name c) (fkeys t @ fks) = fkeys t"
    using ok assms(2,3) by (auto simp: filter_empty_conv intro!: filter_True)
  have ix: "filter (\<lambda>(i, js). col_name c \<notin> set js) (indexes t) = indexes t"
    using ok assms(2) by (fastforce intro!: filter_True)
  have "filter (\<lambda>(k, v). k \<noteq> col_name c) (r @ [(col_name c, x)]) = r" if "r \<in> set (rows t)" for r x
  proof -
    have "set (dkeys r) = set (column_names t)" using ok that by auto
    then have "\<forall>p \<in> set r. fst p \<noteq> col_name c" using assms(2) by force
    then show ?thesis by (auto intro!: filter_True)
  qed
  then have "map (filter (\<lambda>(k, v). k \<noteq> col_name c)) (map (\<lambda>r. r @ [(col_name c, default_of now c)]) (rows t)) = rows t"
    by (auto intro!: map_idI)
  with cs us ks ix show ?thesis by (simp add: drop_col_def add_col_def)
qed

lemma wf_add_col:
  assumes "wf_table t" "col_name c \<notin> set (column_names t)" "\<forall>k \<in> set fks. fk_col k = col_name c"
  shows "wf_table (add_col now c fks t)"
proof -
  have n: "column_names (add_col now c fks t) = column_names t @ [col_name c]" by (simp add: column_names_def add_col_def)
  from assms show ?thesis
    by (auto simp: wf_table_def table_columns_ok_def n list_all_iff Let_def) (auto simp: add_col_def)
qed

lemma op_on_table:
  assumes "apply_op now op db = Some db'" "\<And>t. op \<noteq> CreateTable t" "\<And>n. op \<noteq> DropTable n"
  shows "\<exists>t. find_table db (op_table op) = Some t \<and> table_accepts now db op t \<and>
    db' = change_table (op_table op) (table_effect now op) db"
  using assms by (cases op) (auto simp: apply_op_def op_ok_def op_run_def split: if_splits option.splits)

lemma undo_create:
  assumes "wf_database db" "apply_op now (CreateTable t) db = Some db'"
  shows "apply_op now (DropTable (tab_name t)) db' = Some db \<and> wf_database db'"
proof -
  have n: "tab_name t \<notin> tab_name ` set db" and db': "db' = db @ [t]" and ok: "table_columns_ok t" "rows t = []"
    and k: "\<forall>k \<in> set (fkeys t). fkey_declared (db @ [t]) k"
    using assms(2) by (auto simp: apply_op_def op_ok_def op_run_def find_table_None list_all_iff split: if_splits)
  have "filter (\<lambda>u. tab_name u \<noteq> tab_name t) db = db" using n by (intro filter_True ballI) (metis image_eqI)
  moreover have "fk_table k \<noteq> tab_name t" if "u \<in> set db" "k \<in> set (fkeys u)" for u k
    using assms(1) that n fkey_declared_names unfolding wf_database_def by metis
  ultimately have "apply_op now (DropTable (tab_name t)) db' = Some db"
    using n by (auto simp: apply_op_def op_ok_def op_run_def db' find_table_append table_accepts_def list_all_iff
      find_table_None [symmetric] find_table_def [of "[t]"])
  moreover have "wf_database db'"
    using assms(1) n ok k by (auto simp: wf_database_def db' wf_table_def intro: fkey_declared_append)
  ultimately show ?thesis by simp
qed

lemma undo_add_column:
  assumes "wf_database db" "apply_op now (AddColumn n c fks) db = Some db'"
  shows "apply_op now (DropColumn n (col_name c)) db' = Some db \<and> wf_database db'"
proof -
  obtain t where t: "find_table db n = Some t" "col_name c \<notin> set (column_names t)"
    and k: "\<forall>k \<in> set fks. fk_col k = col_name c \<and> fkey_declared db k"
    and db': "db' = change_table n (add_col now c fks) db"
    using op_on_table [OF assms(2)] by (auto simp: table_accepts_def list_all_iff change_table_def)
  have tw: "wf_table t" using assms(1) find_table_SomeD [OF t(1)] by (simp add: wf_database_def)
  have undone: "drop_col (col_name c) (add_col now c fks t) = t" using drop_add_col [OF tw t(2)] k by blast
  have w: "wf_database db'" unfolding db'
    by (rule wf_change [OF assms(1) t(1)]) (use wf_add_col [OF tw t(2)] k in \<open>auto simp: add_col_def column_names_def\<close>)
  have "fk_table k \<noteq> n \<or> fk_target k \<noteq> col_name c" if "fkey_declared db k" for k
    using that t by (auto simp: fkey_declared_def)
  then have "list_all (\<lambda>u. list_all (\<lambda>k. fk_table k \<noteq> n \<or> fk_target k \<noteq> col_name c) (fkeys u)) db'"
    using assms(1) k by (fastforce simp: list_all_iff db' change_table_def wf_database_def add_col_def split: if_splits)
  moreover have "find_table db' n = Some (add_col now c fks t)" using t(1) by (simp add: db' find_table_change)
  moreover have "col_name c \<in> set (column_names (add_col now c fks t))" by (simp add: add_col_def column_names_def)
  ultimately have "apply_op now (DropColumn n (col_name c)) db' = Some (change_table n (drop_col (col_name c)) db')"
    by (simp add: apply_op_def op_ok_def op_run_def table_accepts_def change_table_def)
  with change_undone [where f = "add_col now c fks" and g = "drop_col (col_name c)", OF assms(1) t(1) _ undone] w show ?thesis by (simp add: db')
qed

lemma undo_create_index:
  assumes "wf_database db" "apply_op now (CreateIndex i n cs) db = Some db'"
  shows "apply_op now (DropIndex i n) db' = Some db \<and> wf_database db'"
proof -
  let ?f = "\<lambda>t. t\<lparr>indexes := indexes t @ [(i, cs)]\<rparr>"
  let ?g = "\<lambda>t. t\<lparr>indexes := filter (\<lambda>(j, cs). j \<noteq> i) (indexes t)\<rparr>"
  obtain t where t: "find_table db n = Some t" "set cs \<subseteq> set (column_names t)" "\<forall>u \<in> set db. i \<notin> set (map fst (indexes u))"
    and db': "db' = change_table n ?f db"
    using op_on_table [OF assms(2)] by (auto simp: table_accepts_def list_all_iff change_table_def)
  have tw: "wf_table t" and td: "t \<in> set db" using assms(1) find_table_SomeD [OF t(1)] by (simp_all add: wf_database_def)
  have undone: "?g (?f t) = t"
  proof -
    have "filter (\<lambda>(j, cs). j \<noteq> i) (indexes t) = indexes t" using t(3) td by (intro filter_True) force
    then show ?thesis by simp
  qed
  have w: "wf_database db'" unfolding db'
    by (rule wf_change [OF assms(1) t(1)])
      (use tw t td in \<open>auto simp: wf_table_def table_columns_ok_def column_names_def Let_def\<close>)
  have "find_table db' n = Some (?f t)" using t(1) by (simp add: db' find_table_change)
  then have "apply_op now (DropIndex i n) db' = Some (change_table n ?g db')"
    by (simp add: apply_op_def op_ok_def op_run_def table_accepts_def change_table_def)
  with change_undone [where f = ?f and g = ?g, OF assms(1) t(1) _ undone] w show ?thesis by (simp add: db')
qed

lemma undo_create_fkey:
  assumes "wf_database db" "apply_op now (CreateForeignKey n k) db = Some db'" "fk_name k = Some x"
  shows "apply_op now (DropConstraint x n) db' = Some db \<and> wf_database db'"
proof -
  let ?f = "\<lambda>t. t\<lparr>fkeys := fkeys t @ [k]\<rparr>"
  let ?g = "\<lambda>t. t\<lparr>fkeys := filter (\<lambda>k. fk_name k \<noteq> Some x) (fkeys t)\<rparr>"
  obtain t where t: "find_table db n = Some t" "fk_col k \<in> set (column_names t)" "fkey_declared db k"
      "Some x \<notin> set (map fk_name (fkeys t))"
    and db': "db' = change_table n ?f db"
    using op_on_table [OF assms(2)] assms(3) by (auto simp: table_accepts_def list_all_iff change_table_def)
  have tw: "wf_table t" using assms(1) find_table_SomeD [OF t(1)] by (simp add: wf_database_def)
  have undone: "?g (?f t) = t"
  proof -
    have "filter (\<lambda>k. fk_name k \<noteq> Some x) (fkeys t) = fkeys t" using t(4) by (intro filter_True) force
    then show ?thesis using assms(3) by simp
  qed
  have w: "wf_database db'" unfolding db'
    by (rule wf_change [OF assms(1) t(1)])
      (use tw t in \<open>auto simp: wf_table_def table_columns_ok_def column_names_def Let_def\<close>)
  have "find_table db' n = Some (?f t)" using t(1) by (simp add: db' find_table_change)
  then have "apply_op now (DropConstraint x n) db' = Some (change_table n ?g db')"
    using assms(3) by (simp add: apply_op_def op_ok_def op_run_def table_accepts_def change_table_def)
  with change_undone [where f = ?f and g = ?g, OF assms(1) t(1) _ undone] w show ?thesis by (simp add: db')
qed

lemma undo_op_back:
  assumes "wf_database db" "apply_op now op db = Some db'" "undo_op op = Some u"
  shows "apply_op now u db' = Some db \<and> wf_database db'"
proof (cases op)
  case (CreateTable t)
  with assms(3) undo_create [OF assms(1)] assms(2) show ?thesis by auto
next
  case (AddColumn n c fks)
  with assms(3) undo_add_column [OF assms(1)] assms(2) show ?thesis by auto
next
  case (CreateIndex i n cs)
  with assms(3) undo_create_index [OF assms(1)] assms(2) show ?thesis by auto
next
  case (CreateForeignKey n k)
  with assms(3) obtain x where x: "fk_name k = Some x" "u = DropConstraint x n" by (auto split: option.splits)
  with CreateForeignKey assms undo_create_fkey show ?thesis by blast
qed (use assms(3) in simp_all)

section \<open>Runs of operations\<close>

text \<open>
  \<open>downs\<close> undoes the reversed \<open>ups\<close>: each operation has its inverse, but an index goes with its table
  and a filled column is dropped with its values.
\<close>

inductive undone :: "schema_op list \<Rightarrow> schema_op list \<Rightarrow> bool" where
  undone_Nil: "undone [] []"
| undone_index: "undone us (DropTable n # ds) \<Longrightarrow> undone (CreateIndex i n cs # us) (DropTable n # ds)"
| undone_fill: "undone us (DropColumn n c # ds) \<Longrightarrow> undone (FillColumn n c f # us) (DropColumn n c # ds)"
| undone_step: "undo_op u = Some d \<Longrightarrow> undone us ds \<Longrightarrow> undone (u # us) (d # ds)"

fun undoes :: "schema_op list \<Rightarrow> schema_op list \<Rightarrow> bool" where
  "undoes [] ds = (ds = [])"
| "undoes (CreateIndex i n cs # us) (DropTable m # ds) = (n = m \<and> undoes us (DropTable m # ds))"
| "undoes (FillColumn n c f # us) (DropColumn m d # ds) = (n = m \<and> c = d \<and> undoes us (DropColumn m d # ds))"
| "undoes (u # us) (d # ds) = (undo_op u = Some d \<and> undoes us ds)"
| "undoes (u # us) [] = False"

lemma undoes_undone: "undoes us ds \<Longrightarrow> undone us ds"
  by (induction us ds rule: undoes.induct) (auto intro: undone.intros)

lemma index_with_table: "apply_op now (CreateIndex i n cs) db = Some db' \<Longrightarrow> apply_op now (DropTable n) db' = apply_op now (DropTable n) db"
proof -
  let ?f = "\<lambda>t. t\<lparr>indexes := indexes t @ [(i, cs)]\<rparr>"
  assume a: "apply_op now (CreateIndex i n cs) db = Some db'"
  obtain t where t: "find_table db n = Some t" and db': "db' = change_table n ?f db"
    using op_on_table [OF a] by (auto simp: change_table_def)
  have "filter (\<lambda>t. tab_name t \<noteq> n) (change_table n ?f db) = filter (\<lambda>t. tab_name t \<noteq> n) db"
    by (induction db) (auto simp: change_table_def)
  moreover have "list_all (\<lambda>u. tab_name u = n \<or> list_all (\<lambda>k. fk_table k \<noteq> n) (fkeys u)) (change_table n ?f db) =
      list_all (\<lambda>u. tab_name u = n \<or> list_all (\<lambda>k. fk_table k \<noteq> n) (fkeys u)) db"
    by (induction db) (auto simp: change_table_def)
  moreover have "find_table db' n = Some (?f t)" using t by (simp add: db' find_table_change)
  ultimately show ?thesis using t by (simp add: apply_op_def op_ok_def op_run_def table_accepts_def db')
qed

lemma filter_dset [simp]: "filter (\<lambda>(k, v). k \<noteq> c) (dset c x r) = filter (\<lambda>(k, v). k \<noteq> c) r"
  by (induction r) auto

lemma fill_with_column: "apply_op now (FillColumn n c f) db = Some db' \<Longrightarrow> apply_op now (DropColumn n c) db' = apply_op now (DropColumn n c) db"
proof -
  let ?f = "\<lambda>t. t\<lparr>rows := map (\<lambda>r. case f r of None \<Rightarrow> r | Some v \<Rightarrow> dset c v r) (rows t)\<rparr>"
  assume a: "apply_op now (FillColumn n c f) db = Some db'"
  obtain t where t: "find_table db n = Some t" and db': "db' = change_table n ?f db"
    using op_on_table [OF a] by (auto simp: change_table_def)
  have "drop_col c (?f t) = drop_col c t" for t by (auto simp: drop_col_def split: option.splits)
  then have "change_table n (drop_col c) (change_table n ?f db) = change_table n (drop_col c) db"
    by (simp add: change_table_def)
  moreover have "list_all (\<lambda>u. list_all (\<lambda>k. fk_table k \<noteq> n \<or> fk_target k \<noteq> c) (fkeys u)) (change_table n ?f db) =
      list_all (\<lambda>u. list_all (\<lambda>k. fk_table k \<noteq> n \<or> fk_target k \<noteq> c) (fkeys u)) db"
    by (induction db) (auto simp: change_table_def)
  moreover have "find_table db' n = Some (?f t)" using t by (simp add: db' find_table_change)
  moreover have "table_effect now (DropColumn n c) = drop_col c" by (rule ext) simp
  ultimately show ?thesis using t by (simp add: apply_op_def op_ok_def op_run_def table_accepts_def db' column_names_def)
qed

lemma wf_fill:
  assumes "wf_database db" "apply_op now (FillColumn n c f) db = Some db'"
  shows "wf_database db'"
proof -
  let ?f = "\<lambda>t. t\<lparr>rows := map (\<lambda>r. case f r of None \<Rightarrow> r | Some v \<Rightarrow> dset c v r) (rows t)\<rparr>"
  obtain t where t: "find_table db n = Some t" "c \<in> set (column_names t)" and db': "db' = change_table n ?f db"
    using op_on_table [OF assms(2)] by (auto simp: table_accepts_def change_table_def)
  have tw: "wf_table t" using assms(1) find_table_SomeD [OF t(1)] by (simp add: wf_database_def)
  have "dkeys (dset c v r) = dkeys r" if "r \<in> set (rows t)" for r v
    using tw that t(2) by (intro dkeys_dset_present) (simp add: wf_table_def)
  with tw have "wf_table (?f t)"
    by (auto simp: wf_table_def table_columns_ok_def column_names_def Let_def split: option.splits)
  with assms(1) t show ?thesis unfolding db' by (intro wf_change) (auto simp: column_names_def)
qed

lemma apply_snoc:
  "apply_ops now (rev (u # us)) db = Some db' \<longleftrightarrow> (\<exists>mid. apply_ops now (rev us) db = Some mid \<and> apply_op now u mid = Some db')"
  by (auto simp: apply_ops_append split: Option.bind_splits)

lemma undone_wf:
  assumes "undone us ds" "wf_database db" "apply_ops now (rev us) db = Some db'"
  shows "wf_database db'"
  using assms
proof (induction arbitrary: db' rule: undone.induct)
  case undone_Nil
  then show ?case by simp
next
  case (undone_index us n ds i cs)
  then show ?case using undo_create_index unfolding apply_snoc by blast
next
  case (undone_fill us n c ds f)
  then show ?case using wf_fill unfolding apply_snoc by blast
next
  case (undone_step u d us ds)
  then show ?case using undo_op_back unfolding apply_snoc by blast
qed

theorem undone_back:
  assumes "undone us ds" "wf_database db" "apply_ops now (rev us) db = Some db'"
  shows "apply_ops now ds db' = Some db"
  using assms
proof (induction arbitrary: db' rule: undone.induct)
  case undone_Nil
  then show ?case by simp
next
  case (undone_index us n ds i cs)
  then obtain mid where "apply_ops now (rev us) db = Some mid" "apply_op now (CreateIndex i n cs) mid = Some db'"
    unfolding apply_snoc by blast
  with undone_index show ?case by (simp add: index_with_table)
next
  case (undone_fill us n c ds f)
  then obtain mid where "apply_ops now (rev us) db = Some mid" "apply_op now (FillColumn n c f) mid = Some db'"
    unfolding apply_snoc by blast
  with undone_fill show ?case by (simp add: fill_with_column)
next
  case (undone_step u d us ds)
  then obtain mid where m: "apply_ops now (rev us) db = Some mid" "apply_op now u mid = Some db'"
    unfolding apply_snoc by blast
  from undone_wf [OF undone_step(2,4) m(1)] undo_op_back [OF _ m(2) undone_step(1)] undone_step.IH [OF undone_step(4) m(1)]
  show ?case by simp
qed

section \<open>Rows survive\<close>

text \<open>Nothing is dropped, and an \<open>UPDATE\<close> fills only a column (of \<open>A\<close>) that was added before it.\<close>

fun only_adds :: "(string \<times> string) list \<Rightarrow> schema_op list \<Rightarrow> bool" where
  "only_adds A [] = True"
| "only_adds A (AddColumn n c fks # ops) = only_adds ((n, col_name c) # A) ops"
| "only_adds A (FillColumn n c f # ops) = (List.member A (n, c) \<and> only_adds A ops)"
| "only_adds A (DropTable n # ops) = False"
| "only_adds A (DropColumn n c # ops) = False"
| "only_adds A (op # ops) = only_adds A ops"

lemma only_adds_mono: "only_adds A ops \<Longrightarrow> set A \<subseteq> set B \<Longrightarrow> only_adds B ops"
proof (induction A ops arbitrary: B rule: only_adds.induct)
  case (2 A n c fks ops)
  have "set ((n, col_name c) # A) \<subseteq> set ((n, col_name c) # B)" using 2(3) by auto
  with 2(1) 2(2) show ?case by simp
qed auto

lemma only_adds_append: "only_adds A xs \<Longrightarrow> only_adds [] ys \<Longrightarrow> only_adds A (xs @ ys)"
  by (induction A xs rule: only_adds.induct) (auto intro: only_adds_mono)

lemma only_adds_concat: "list_all (only_adds []) xss \<Longrightarrow> only_adds [] (concat xss)"
  by (induction xss) (auto intro: only_adds_append)

text \<open>The value of a row in a column.\<close>

definition holds_on :: "string \<Rightarrow> pydict list \<Rightarrow> table \<Rightarrow> bool" where
  "holds_on c rs t \<longleftrightarrow> c \<in> set (column_names t) \<and> length rs \<le> length (rows t) \<and>
     (\<forall>i < length rs. pget (rows t ! i) c = pget (rs ! i) c)"

lemma insert_missing_rows: "\<exists>more. rows (insert_missing now key new t) = rows t @ more"
proof (induction new arbitrary: t)
  case (Cons r new)
  let ?t = "insert_missing now key [r] t"
  have "insert_missing now key (r # new) t = insert_missing now key new ?t" by (simp add: insert_missing_def)
  moreover obtain more where "rows ?t = rows t @ more" by (fastforce simp: insert_missing_def)
  ultimately show ?case using Cons [of ?t] by auto
qed (simp add: insert_missing_def)

lemma pget_snoc: "c \<noteq> d \<Longrightarrow> pget (r @ [(d, v)]) c = pget r c"
  by (induction r) (auto simp: pget_def)

lemma holds_op:
  assumes "find_table db n = Some t" "holds_on c rs t" "apply_op now op db = Some db'"
    and "\<And>n. op \<noteq> DropTable n" "\<And>n c. op \<noteq> DropColumn n c" "\<And>f. op \<noteq> FillColumn n c f"
  shows "\<exists>t'. find_table db' n = Some t' \<and> holds_on c rs t' \<and> (\<forall>d fks. op \<noteq> AddColumn n d fks \<or> col_name d \<noteq> c)"
proof (cases "op_table op = n")
  case False
  with find_table_op [OF assms(3), of n] assms(1,2) show ?thesis by (auto simp: op_effect_def)
next
  case True
  have f: "find_table db' n = op_effect now n op (Some t)" using find_table_op [OF assms(3), of n] assms(1) by simp
  have create: "op \<noteq> CreateTable u" for u
    using assms(1,3) True by (auto simp: apply_op_def op_ok_def split: if_splits)
  show ?thesis
  proof (cases op)
    case (AddColumn m d fks)
    from op_on_table [OF assms(3) create assms(4)] AddColumn True assms(1) have "col_name d \<notin> set (column_names t)"
      by (auto simp: table_accepts_def)
    with assms(2) have "c \<noteq> col_name d" by (auto simp: holds_on_def)
    with f AddColumn True assms(2) show ?thesis
      by (auto simp: op_effect_def add_col_def holds_on_def column_names_def pget_snoc)
  next
    case (InsertMissing m key new)
    obtain more where "rows (insert_missing now key new t) = rows t @ more" using insert_missing_rows by blast
    with f InsertMissing True assms(2) show ?thesis by (auto simp: op_effect_def holds_on_def column_names_def nth_append)
  next
    case (FillColumn m d g)
    with True assms(6) have "d \<noteq> c" by auto
    with f FillColumn True assms(2) show ?thesis
      by (auto simp: op_effect_def holds_on_def column_names_def pget_dset split: option.splits)
  qed (use f True create assms(2,4,5) in \<open>auto simp: op_effect_def holds_on_def column_names_def\<close>)
qed

lemma only_adds_head:
  assumes "only_adds A (op # ops)"
  shows "(\<exists>B. only_adds B ops \<and> (\<forall>n c. (n, c) \<in> set B \<longrightarrow> (n, c) \<in> set A \<or> (\<exists>d fks. op = AddColumn n d fks \<and> col_name d = c))) \<and>
    (\<forall>n. op \<noteq> DropTable n) \<and> (\<forall>n c. op \<noteq> DropColumn n c) \<and> (\<forall>n c f. op = FillColumn n c f \<longrightarrow> (n, c) \<in> set A)"
proof (cases op)
  case (AddColumn n d fks)
  with assms show ?thesis by (auto intro!: exI [of _ "(n, col_name d) # A"])
qed (use assms in \<open>auto intro!: exI [of _ A]\<close>)

theorem holds_ops:
  assumes "only_adds A ops" "apply_ops now ops db = Some db'" "find_table db n = Some t" "holds_on c rs t" "(n, c) \<notin> set A"
  shows "\<exists>t'. find_table db' n = Some t' \<and> holds_on c rs t'"
  using assms
proof (induction ops arbitrary: A db t)
  case Nil
  then show ?case by auto
next
  case (Cons op ops)
  obtain mid where m: "apply_op now op db = Some mid" "apply_ops now ops mid = Some db'"
    using Cons.prems(2) by (auto split: Option.bind_splits)
  obtain B where b: "only_adds B ops"
      "\<forall>n c. (n, c) \<in> set B \<longrightarrow> (n, c) \<in> set A \<or> (\<exists>d fks. op = AddColumn n d fks \<and> col_name d = c)"
    and o: "\<And>n. op \<noteq> DropTable n" "\<And>n c. op \<noteq> DropColumn n c" "\<And>f. op \<noteq> FillColumn n c f"
    using only_adds_head [OF Cons.prems(1)] Cons.prems(5) by blast
  obtain t' where t': "find_table mid n = Some t'" "holds_on c rs t'" "\<forall>d fks. op \<noteq> AddColumn n d fks \<or> col_name d \<noteq> c"
    using holds_op [OF Cons.prems(3,4) m(1) o] by blast
  have "(n, c) \<notin> set B" using b(2) t'(3) Cons.prems(5) by blast
  from Cons.IH [OF b(1) m(2) t'(1,2) this] show ?case .
qed

section \<open>Agreement with a declaration\<close>

definition covers :: "'a list \<Rightarrow> 'a list \<Rightarrow> bool" where
  "covers xs ys \<longleftrightarrow> list_all (\<lambda>y. List.member xs y) ys"

text \<open>
  A migrated table \<open>m\<close> is the declared one \<open>d\<close>: the same columns, types, primary keys, foreign keys
  and unique constraints, at least its indexes, and for every default the mapper fills in the same
  default on the server. A column that defaults to the time of insertion may differ in \<open>NOT NULL\<close>.
\<close>

definition column_matches :: "column \<Rightarrow> column \<Rightarrow> bool" where
  "column_matches d m \<longleftrightarrow>
     (server_default m = Some Now \<or> nullable m = nullable d) \<and>
     server_default m = (case client_default d of None \<Rightarrow> server_default d | Some v \<Rightarrow> Some (Value v))"

definition matches :: "table \<Rightarrow> table \<Rightarrow> bool" where
  "matches d m \<longleftrightarrow>
     (let sig = \<lambda>t. map (\<lambda>c. (col_name c, col_type c, primary c)) (columns t);
          keys = \<lambda>t. map (\<lambda>k. (fk_col k, fk_table k, fk_target k, fk_delete k)) (fkeys t)
      in covers (sig d) (sig m) \<and> covers (sig m) (sig d) \<and>
         list_all (\<lambda>c. list_all (\<lambda>c'. col_name c \<noteq> col_name c' \<or> column_matches c c') (columns m)) (columns d) \<and>
         covers (keys d) (keys m) \<and> covers (keys m) (keys d) \<and>
         covers (uniques d) (uniques m) \<and> covers (uniques m) (uniques d) \<and> covers (indexes m) (indexes d))"

end
