(* ===== verification/DbSchema.thy ===== *)
theory DbSchema
  imports MigrationLemmas
begin

text \<open>
  \<open>eda_agent/db/schema.py\<close>: the tables the object mapper declares. A column annotated with a type
  that has no \<open>None\<close> is \<open>NOT NULL\<close>. The type of \<open>congestion_hotspots.geom\<close> depends on the setting
  \<open>enable_postgis\<close>.
\<close>

definition table_backends :: table where
  "table_backends = new_table ''backends''
     [
       primary_key (col ''id'' Integer),
       required (col ''name'' (Varchar 64)),
       required (client (PStr ''unknown'') (col ''version'' (Varchar 128))),
       required (client (PBool True) (col ''is_active'' Boolean)),
       required (server Now (col ''created_at'' Timestamp))]
     [[''name'']]
     []
     []"

definition table_designs :: table where
  "table_designs = new_table ''designs''
     [
       primary_key (col ''id'' Integer),
       required (col ''name'' (Varchar 256)),
       required (client (PStr []) (col ''pdk'' (Varchar 128))),
       required (client (PStr []) (col ''config_path'' Txt)),
       required (client (PStr []) (col ''rtl_hash'' (Varchar 128))),
       required (client (PStr []) (col ''description'' Txt)),
       col ''target_frequency_mhz'' Float,
       col ''target_utilization_pct'' Float,
       col ''voltage_v'' Float,
       required (client (PStr ''block'') (col ''design_type'' (Varchar 64))),
       required (server Now (col ''created_at'' Timestamp))]
     [[''name'', ''pdk'']]
     []
     []"

definition table_flow_sessions :: table where
  "table_flow_sessions = new_table ''flow_sessions''
     [
       primary_key (col ''id'' Integer),
       required (col ''session_uuid'' (Varchar 36)),
       required (col ''design_id'' Integer),
       required (client (PStr ''pnr'') (col ''objective'' (Varchar 64))),
       required (client (PStr ''active'') (col ''status'' (Varchar 32))),
       col ''baseline_run_id'' BigInteger,
       col ''parent_session_id'' Integer,
       col ''last_inference_id'' Integer,
       col ''last_case_id'' Integer,
       col ''last_rule_id'' (Varchar 128),
       col ''env_snapshot'' Json,
       required (client (PStr []) (col ''notes'' Txt)),
       required (server Now (col ''created_at'' Timestamp)),
       required (server Now (col ''updated_at'' Timestamp))]
     [[''session_uuid'']]
     [
       ref ''design_id'' ''designs'' ''id'' NoAction,
       ref ''baseline_run_id'' ''runs'' ''id'' SetNull,
       ref ''parent_session_id'' ''flow_sessions'' ''id'' SetNull,
       ref ''last_inference_id'' ''root_cause_inferences'' ''id'' SetNull,
       ref ''last_case_id'' ''case_memory'' ''id'' SetNull,
       ref ''last_rule_id'' ''rule_weights'' ''rule_id'' SetNull]
     [
       (''ix_flow_sessions_last_inference_id'', [''last_inference_id'']),
       (''ix_flow_sessions_last_case_id'', [''last_case_id'']),
       (''ix_flow_sessions_last_rule_id'', [''last_rule_id''])]"

definition table_runs :: table where
  "table_runs = new_table ''runs''
     [
       primary_key (col ''id'' BigInteger),
       required (col ''run_uuid'' (Varchar 36)),
       required (col ''backend_id'' Integer),
       required (col ''design_id'' Integer),
       col ''session_id'' Integer,
       required (col ''stage'' (Varchar 64)),
       required (client (PInt 0) (col ''stage_seq'' Integer)),
       required (client (PStr []) (col ''variant_tag'' (Varchar 64))),
       required (client (PStr []) (col ''rerun_reason'' Txt)),
       required (client (PBool False) (col ''is_baseline'' Boolean)),
       required (client (PBool False) (col ''is_selected'' Boolean)),
       required (client (PStr ''pending'') (col ''status'' (Varchar 32))),
       col ''parent_run_id'' BigInteger,
       required (client (PDict []) (col ''params'' Json)),
       required (client (PStr []) (col ''git_hash'' (Varchar 128))),
       required (client (PStr []) (col ''log_path'' Txt)),
       required (client (PStr []) (col ''report_dir'' Txt)),
       required (client (PStr []) (col ''error_message'' Txt)),
       col ''started_at'' Timestamp,
       col ''finished_at'' Timestamp,
       required (server Now (col ''created_at'' Timestamp))]
     [[''run_uuid'']]
     [
       ref ''backend_id'' ''backends'' ''id'' NoAction,
       ref ''design_id'' ''designs'' ''id'' NoAction,
       ref ''session_id'' ''flow_sessions'' ''id'' SetNull,
       ref ''parent_run_id'' ''runs'' ''id'' NoAction]
     [
       (''ix_runs_backend_design_stage'', [''backend_id'', ''design_id'', ''stage'']),
       (''ix_runs_status'', [''status'']),
       (''ix_runs_created_at'', [''created_at'']),
       (''ix_runs_session_id'', [''session_id'']),
       (''ix_runs_parent_run_id'', [''parent_run_id'']),
       (''ix_runs_session_stage'', [''session_id'', ''stage'', ''created_at''])]"

definition table_timing_summary :: table where
  "table_timing_summary = new_table ''timing_summary''
     [
       primary_key (col ''id'' BigInteger),
       required (col ''run_id'' BigInteger),
       required (client (PStr ''default'') (col ''view'' (Varchar 128))),
       col ''wns_ns'' Float,
       col ''tns_ns'' Float,
       col ''failing_endpoints'' Integer,
       col ''fmax_mhz'' Float,
       col ''clock_skew_ns'' Float,
       col ''max_slew_violations'' Integer,
       col ''max_fanout_violations'' Integer,
       col ''max_cap_violations'' Integer,
       col ''setup_violations'' Integer,
       col ''hold_violations'' Integer,
       col ''critical_path_delay_ns'' Float,
       col ''slack_cpd_ratio_pct'' Float,
       required (server Now (col ''created_at'' Timestamp))]
     []
     [ref ''run_id'' ''runs'' ''id'' Cascade]
     [(''ix_timing_summary_run_id'', [''run_id'']), (''ix_timing_summary_wns'', [''wns_ns''])]"

definition table_timing_paths :: table where
  "table_timing_paths = new_table ''timing_paths''
     [
       primary_key (col ''id'' BigInteger),
       required (col ''run_id'' BigInteger),
       required (client (PStr []) (col ''startpoint'' Txt)),
       required (client (PStr []) (col ''endpoint'' Txt)),
       col ''path_group'' (Varchar 256),
       required (col ''slack_ns'' Float),
       required (server Now (col ''created_at'' Timestamp))]
     []
     [ref ''run_id'' ''runs'' ''id'' Cascade]
     [(''ix_timing_paths_run_id'', [''run_id'']), (''ix_timing_paths_slack'', [''slack_ns''])]"

definition table_congestion_hotspots :: "bool \<Rightarrow> table" where
  "table_congestion_hotspots postgis = new_table ''congestion_hotspots''
     [
       primary_key (col ''id'' BigInteger),
       required (col ''run_id'' BigInteger),
       required (col ''geom'' (if postgis then Polygon else Txt)),
       required (client (PInt 0) (col ''overflow'' Integer)),
       col ''layer'' (Varchar 64),
       required (server Now (col ''created_at'' Timestamp))]
     []
     [ref ''run_id'' ''runs'' ''id'' Cascade]
     [
       (''ix_congestion_hotspots_run_id'', [''run_id'']),
       (''ix_congestion_hotspots_geom'', [''geom''])]"

definition table_artifacts :: table where
  "table_artifacts = new_table ''artifacts''
     [
       primary_key (col ''id'' BigInteger),
       required (col ''run_id'' BigInteger),
       required (col ''file_path'' Txt),
       required (client (PStr []) (col ''artifact_type'' (Varchar 64))),
       col ''file_size_bytes'' BigInteger,
       required (server Now (col ''created_at'' Timestamp))]
     []
     [ref ''run_id'' ''runs'' ''id'' Cascade]
     [(''ix_artifacts_run_id'', [''run_id''])]"

definition table_utilization_summary :: table where
  "table_utilization_summary = new_table ''utilization_summary''
     [
       primary_key (col ''id'' BigInteger),
       required (col ''run_id'' BigInteger),
       col ''design_area_um2'' Float,
       col ''utilization_pct'' Float,
       col ''num_cells'' Integer,
       col ''num_registers'' Integer,
       required (server Now (col ''created_at'' Timestamp))]
     []
     [ref ''run_id'' ''runs'' ''id'' Cascade]
     [(''ix_utilization_summary_run_id'', [''run_id''])]"

definition table_power_summary :: table where
  "table_power_summary = new_table ''power_summary''
     [
       primary_key (col ''id'' BigInteger),
       required (col ''run_id'' BigInteger),
       col ''internal_power_w'' Float,
       col ''switching_power_w'' Float,
       col ''leakage_power_w'' Float,
       col ''total_power_w'' Float,
       required (server Now (col ''created_at'' Timestamp))]
     []
     [ref ''run_id'' ''runs'' ''id'' Cascade]
     [(''ix_power_summary_run_id'', [''run_id''])]"

definition table_drc_violations :: table where
  "table_drc_violations = new_table ''drc_violations''
     [
       primary_key (col ''id'' BigInteger),
       required (col ''run_id'' BigInteger),
       required (client (PStr []) (col ''violation_type'' (Varchar 128))),
       col ''layer'' (Varchar 64),
       col ''nets'' Json,
       col ''bbox_wkt'' Txt,
       col ''total_violations'' Integer,
       required (server Now (col ''created_at'' Timestamp))]
     []
     [ref ''run_id'' ''runs'' ''id'' Cascade]
     [(''ix_drc_violations_run_id'', [''run_id''])]"

definition table_agent_sessions :: table where
  "table_agent_sessions = new_table ''agent_sessions''
     [
       primary_key (col ''id'' Integer),
       required (col ''session_id'' (Varchar 256)),
       required (client (PStr []) (col ''username'' (Varchar 128))),
       required (client (PList []) (col ''messages'' Json)),
       required (server (Value (PDict [])) (client (PDict []) (col ''scratchpad'' Json))),
       required (server Now (col ''created_at'' Timestamp)),
       required (server Now (col ''updated_at'' Timestamp))]
     [[''session_id'']]
     []
     [(''ix_agent_sessions_username'', [''username''])]"

definition table_custom_tool_audit :: table where
  "table_custom_tool_audit = new_table ''custom_tool_audit''
     [
       primary_key (col ''id'' BigInteger),
       required (col ''tool_name'' (Varchar 128)),
       required (client (PStr []) (col ''source'' (Varchar 256))),
       required (client (PDict []) (col ''arguments_summary'' Json)),
       required (client (PInt 0) (col ''duration_ms'' Integer)),
       col ''exit_code'' Integer,
       required (client (PBool False) (col ''ok'' Boolean)),
       required (client (PStr []) (col ''error_message'' Txt)),
       required (server Now (col ''created_at'' Timestamp))]
     []
     []
     [
       (''ix_custom_tool_audit_tool_name'', [''tool_name'']),
       (''ix_custom_tool_audit_created_at'', [''created_at''])]"

definition table_root_cause_inferences :: table where
  "table_root_cause_inferences = new_table ''root_cause_inferences''
     [
       primary_key (col ''id'' Integer),
       col ''run_id'' BigInteger,
       required (client (PStr []) (col ''symptoms'' Txt)),
       required (client (PDict []) (col ''features'' Json)),
       required (client (PList []) (col ''hypotheses'' Json)),
       col ''chosen_cause'' (Varchar 256),
       col ''confirmed_at'' Timestamp,
       required (server Now (col ''created_at'' Timestamp))]
     []
     [ref ''run_id'' ''runs'' ''id'' SetNull]
     [(''ix_root_cause_inferences_run_id'', [''run_id''])]"

definition table_rule_weights :: table where
  "table_rule_weights = new_table ''rule_weights''
     [
       primary_key (col ''rule_id'' (Varchar 128)),
       required (client (PFloat (Fin 1)) (col ''multiplier'' Float)),
       required (client (PInt 0) (col ''confirm_count'' Integer)),
       required (server Now (col ''updated_at'' Timestamp))]
     []
     []
     []"

definition table_case_memory :: table where
  "table_case_memory = new_table ''case_memory''
     [
       primary_key (col ''id'' Integer),
       required (client (PStr []) (col ''design_name'' (Varchar 256))),
       required (client (PStr []) (col ''pdk'' (Varchar 128))),
       required (client (PStr []) (col ''symptoms'' Txt)),
       required (client (PStr []) (col ''root_cause'' Txt)),
       required (client (PList []) (col ''actions'' Json)),
       required (client (PDict []) (col ''result_metrics'' Json)),
       required (server Now (col ''created_at'' Timestamp))]
     []
     []
     [(''ix_case_memory_design_name'', [''design_name''])]"

definition table_stage_outcomes :: table where
  "table_stage_outcomes = new_table ''stage_outcomes''
     [
       primary_key (col ''id'' Integer),
       required (col ''run_id'' BigInteger),
       required (col ''stage_name'' (Varchar 64)),
       required (client (PStr ''pending'') (col ''status'' (Varchar 32))),
       col ''started_at'' Timestamp,
       col ''finished_at'' Timestamp,
       required (client (PDict []) (col ''input_params_snapshot'' Json)),
       required (client (PDict []) (col ''output_metrics_snapshot'' Json)),
       required (client (PList []) (col ''artifact_refs'' Json)),
       col ''root_cause_inference_id'' Integer,
       required (client (PStr []) (col ''recommendation'' Txt)),
       required (client (PStr ''pending'') (col ''approval_status'' (Varchar 32))),
       required (server Now (col ''created_at'' Timestamp))]
     []
     [
       ref ''run_id'' ''runs'' ''id'' Cascade,
       ref ''root_cause_inference_id'' ''root_cause_inferences'' ''id'' SetNull]
     [
       (''ix_stage_outcomes_run_stage'', [''run_id'', ''stage_name'']),
       (''ix_stage_outcomes_status'', [''status'']),
       (''ix_stage_outcomes_created_at'', [''created_at''])]"

definition table_decision_trace :: table where
  "table_decision_trace = new_table ''decision_trace''
     [
       primary_key (col ''id'' Integer),
       required (col ''session_id'' Integer),
       required (col ''source_run_id'' BigInteger),
       required (col ''target_run_id'' BigInteger),
       col ''inference_id'' Integer,
       col ''case_id'' Integer,
       col ''rule_id'' (Varchar 128),
       required (client (PStr []) (col ''llm_reason'' Txt)),
       col ''llm_reason_structured'' Json,
       required (client (PBool False) (col ''human_approved'' Boolean)),
       required (server Now (col ''created_at'' Timestamp))]
     []
     [
       ref ''session_id'' ''flow_sessions'' ''id'' Cascade,
       ref ''source_run_id'' ''runs'' ''id'' Cascade,
       ref ''target_run_id'' ''runs'' ''id'' Cascade,
       ref ''inference_id'' ''root_cause_inferences'' ''id'' SetNull,
       ref ''case_id'' ''case_memory'' ''id'' SetNull,
       ref ''rule_id'' ''rule_weights'' ''rule_id'' SetNull]
     [
       (''ix_decision_trace_session_id'', [''session_id'']),
       (''ix_decision_trace_run_pair'', [''source_run_id'', ''target_run_id'']),
       (''ix_decision_trace_inference_id'', [''inference_id''])]"

definition table_users :: table where
  "table_users = new_table ''users''
     [
       primary_key (col ''id'' Integer),
       required (col ''username'' (Varchar 128)),
       required (col ''hashed_password'' (Varchar 256)),
       required (client (PBool True) (col ''is_active'' Boolean)),
       required (client (PBool False) (col ''is_admin'' Boolean)),
       required (server Now (col ''created_at'' Timestamp))]
     [[''username'']]
     []
     []"

definition declared_tables :: "bool \<Rightarrow> database" where
  "declared_tables postgis = [
     table_backends, table_designs, table_flow_sessions, table_runs,
     table_timing_summary, table_timing_paths, table_congestion_hotspots postgis, table_artifacts,
     table_utilization_summary, table_power_summary, table_drc_violations, table_agent_sessions,
     table_custom_tool_audit, table_root_cause_inferences, table_rule_weights, table_case_memory,
     table_stage_outcomes, table_decision_trace, table_users]"

text \<open>A database with the tables as they are declared with PostGIS, up to what \<open>matches\<close> leaves open.\<close>

definition as_declared :: "database \<Rightarrow> bool" where
  "as_declared db \<longleftrightarrow> list_all (\<lambda>d. \<exists>m. find_table db (tab_name d) = Some m \<and> matches d m) (declared_tables True)"

lemmas declared_table_defs = table_backends_def
  table_designs_def
  table_flow_sessions_def
  table_runs_def
  table_timing_summary_def
  table_timing_paths_def
  table_congestion_hotspots_def
  table_artifacts_def
  table_utilization_summary_def
  table_power_summary_def
  table_drc_violations_def
  table_agent_sessions_def
  table_custom_tool_audit_def
  table_root_cause_inferences_def
  table_rule_weights_def
  table_case_memory_def
  table_stage_outcomes_def
  table_decision_trace_def
  table_users_def

end
