(* ===== verification/Migrations.thy ===== *)
theory Migrations
  imports SqlSchema
begin

text \<open>
  \<open>eda_agent/db/migrations/versions/\<close>: the operations of each revision, \<open>up\<close> and \<open>down\<close>, on a server with
  JSONB. The statements that enable PostGIS do not act on tables and are left out; the index on an
  expression names the columns of the expression.
\<close>

definition up_0001 :: "schema_op list" where
  "up_0001 = [
     CreateTable (new_table ''backends''
        [
          primary_key (col ''id'' Integer),
          required (col ''name'' (Varchar 64)),
          required (server (Value (PStr ''unknown'')) (col ''version'' (Varchar 128))),
          required (server (Value (PBool True)) (col ''is_active'' Boolean)),
          server Now (col ''created_at'' Timestamp)]
        [[''name'']]
        []
        []),
     CreateTable (new_table ''designs''
        [
          primary_key (col ''id'' Integer),
          required (col ''name'' (Varchar 256)),
          required (server (Value (PStr [])) (col ''pdk'' (Varchar 128))),
          required (server (Value (PStr [])) (col ''config_path'' Txt)),
          required (server (Value (PStr [])) (col ''rtl_hash'' (Varchar 128))),
          required (server (Value (PStr [])) (col ''description'' Txt)),
          server Now (col ''created_at'' Timestamp)]
        [[''name'', ''pdk'']]
        []
        []),
     CreateTable (new_table ''users''
        [
          primary_key (col ''id'' Integer),
          required (col ''username'' (Varchar 128)),
          required (col ''hashed_password'' (Varchar 256)),
          required (server (Value (PBool True)) (col ''is_active'' Boolean)),
          required (server (Value (PBool False)) (col ''is_admin'' Boolean)),
          server Now (col ''created_at'' Timestamp)]
        [[''username'']]
        []
        []),
     CreateTable (new_table ''runs''
        [
          primary_key (col ''id'' BigInteger),
          required (col ''run_uuid'' (Varchar 36)),
          required (col ''backend_id'' Integer),
          required (col ''design_id'' Integer),
          required (col ''stage'' (Varchar 64)),
          required (server (Value (PStr ''pending'')) (col ''status'' (Varchar 32))),
          required (server (Value (PDict [])) (col ''params'' Json)),
          required (server (Value (PStr [])) (col ''git_hash'' (Varchar 128))),
          required (server (Value (PStr [])) (col ''log_path'' Txt)),
          required (server (Value (PStr [])) (col ''report_dir'' Txt)),
          required (server (Value (PStr [])) (col ''error_message'' Txt)),
          col ''started_at'' Timestamp,
          col ''finished_at'' Timestamp,
          server Now (col ''created_at'' Timestamp)]
        [[''run_uuid'']]
        [
          ref ''backend_id'' ''backends'' ''id'' NoAction,
          ref ''design_id'' ''designs'' ''id'' NoAction]
        []),
     CreateIndex ''ix_runs_backend_design_stage'' ''runs'' [''backend_id'', ''design_id'', ''stage''],
     CreateIndex ''ix_runs_status'' ''runs'' [''status''],
     CreateIndex ''ix_runs_created_at'' ''runs'' [''created_at''],
     CreateTable (new_table ''timing_summary''
        [
          primary_key (col ''id'' BigInteger),
          required (col ''run_id'' BigInteger),
          required (server (Value (PStr ''default'')) (col ''view'' (Varchar 128))),
          col ''wns_ns'' Float,
          col ''tns_ns'' Float,
          col ''failing_endpoints'' Integer,
          server Now (col ''created_at'' Timestamp)]
        []
        [ref ''run_id'' ''runs'' ''id'' Cascade]
        []),
     CreateIndex ''ix_timing_summary_run_id'' ''timing_summary'' [''run_id''],
     CreateIndex ''ix_timing_summary_wns'' ''timing_summary'' [''wns_ns''],
     CreateTable (new_table ''timing_paths''
        [
          primary_key (col ''id'' BigInteger),
          required (col ''run_id'' BigInteger),
          required (server (Value (PStr [])) (col ''startpoint'' Txt)),
          required (server (Value (PStr [])) (col ''endpoint'' Txt)),
          col ''path_group'' (Varchar 256),
          required (col ''slack_ns'' Float),
          server Now (col ''created_at'' Timestamp)]
        []
        [ref ''run_id'' ''runs'' ''id'' Cascade]
        []),
     CreateIndex ''ix_timing_paths_run_id'' ''timing_paths'' [''run_id''],
     CreateIndex ''ix_timing_paths_slack'' ''timing_paths'' [''slack_ns''],
     CreateTable (new_table ''congestion_hotspots''
        [
          primary_key (col ''id'' BigInteger),
          required (col ''run_id'' BigInteger),
          required (col ''geom'' Polygon),
          required (server (Value (PInt 0)) (col ''overflow'' Integer)),
          col ''layer'' (Varchar 64),
          server Now (col ''created_at'' Timestamp)]
        []
        [ref ''run_id'' ''runs'' ''id'' Cascade]
        []),
     CreateIndex ''ix_congestion_hotspots_run_id'' ''congestion_hotspots'' [''run_id''],
     CreateIndex ''ix_congestion_hotspots_geom'' ''congestion_hotspots'' [''geom''],
     CreateTable (new_table ''artifacts''
        [
          primary_key (col ''id'' BigInteger),
          required (col ''run_id'' BigInteger),
          required (col ''file_path'' Txt),
          required (server (Value (PStr [])) (col ''artifact_type'' (Varchar 64))),
          col ''file_size_bytes'' BigInteger,
          server Now (col ''created_at'' Timestamp)]
        []
        [ref ''run_id'' ''runs'' ''id'' Cascade]
        []),
     CreateIndex ''ix_artifacts_run_id'' ''artifacts'' [''run_id''],
     InsertMissing ''backends'' ''name'' (map (\<lambda>(n, v, a). [(''name'', PStr n), (''version'', PStr v), (''is_active'', PBool a)])
       [(''orfs'', ''unknown'', True), (''innovus'', ''stub'', False), (''icc2'', ''stub'', False)])]"

definition down_0001 :: "schema_op list" where
  "down_0001 = [
     DropTable ''artifacts'',
     DropTable ''congestion_hotspots'',
     DropTable ''timing_paths'',
     DropTable ''timing_summary'',
     DropTable ''runs'',
     DropTable ''users'',
     DropTable ''designs'',
     DropTable ''backends'']"

definition up_0002 :: "schema_op list" where
  "up_0002 = [
     CreateTable (new_table ''utilization_summary''
        [
          primary_key (col ''id'' BigInteger),
          required (col ''run_id'' BigInteger),
          col ''design_area_um2'' Float,
          col ''utilization_pct'' Float,
          col ''num_cells'' Integer,
          col ''num_registers'' Integer,
          server Now (col ''created_at'' Timestamp)]
        []
        [ref ''run_id'' ''runs'' ''id'' Cascade]
        []),
     CreateIndex ''ix_utilization_summary_run_id'' ''utilization_summary'' [''run_id''],
     CreateTable (new_table ''power_summary''
        [
          primary_key (col ''id'' BigInteger),
          required (col ''run_id'' BigInteger),
          col ''internal_power_w'' Float,
          col ''switching_power_w'' Float,
          col ''leakage_power_w'' Float,
          col ''total_power_w'' Float,
          server Now (col ''created_at'' Timestamp)]
        []
        [ref ''run_id'' ''runs'' ''id'' Cascade]
        []),
     CreateIndex ''ix_power_summary_run_id'' ''power_summary'' [''run_id''],
     CreateTable (new_table ''drc_violations''
        [
          primary_key (col ''id'' BigInteger),
          required (col ''run_id'' BigInteger),
          required (server (Value (PStr [])) (col ''violation_type'' (Varchar 128))),
          col ''layer'' (Varchar 64),
          col ''nets'' Json,
          col ''bbox_wkt'' Txt,
          col ''total_violations'' Integer,
          server Now (col ''created_at'' Timestamp)]
        []
        [ref ''run_id'' ''runs'' ''id'' Cascade]
        []),
     CreateIndex ''ix_drc_violations_run_id'' ''drc_violations'' [''run_id''],
     CreateTable (new_table ''agent_sessions''
        [
          primary_key (col ''id'' Integer),
          required (col ''session_id'' (Varchar 256)),
          required (server (Value (PStr [])) (col ''username'' (Varchar 128))),
          required (server (Value (PList [])) (col ''messages'' Json)),
          server Now (col ''created_at'' Timestamp),
          server Now (col ''updated_at'' Timestamp)]
        [[''session_id'']]
        []
        []),
     CreateIndex ''ix_agent_sessions_username'' ''agent_sessions'' [''username'']]"

definition down_0002 :: "schema_op list" where
  "down_0002 = [
     DropTable ''agent_sessions'',
     DropTable ''drc_violations'',
     DropTable ''power_summary'',
     DropTable ''utilization_summary'']"

definition up_0003 :: "schema_op list" where
  "up_0003 = [
     AddColumn ''timing_summary'' (col ''fmax_mhz'' Float) [],
     AddColumn ''timing_summary'' (col ''clock_skew_ns'' Float) [],
     AddColumn ''timing_summary'' (col ''max_slew_violations'' Integer) [],
     AddColumn ''timing_summary'' (col ''max_fanout_violations'' Integer) [],
     AddColumn ''timing_summary'' (col ''max_cap_violations'' Integer) [],
     AddColumn ''timing_summary'' (col ''setup_violations'' Integer) [],
     AddColumn ''timing_summary'' (col ''hold_violations'' Integer) [],
     AddColumn ''timing_summary'' (col ''critical_path_delay_ns'' Float) [],
     AddColumn ''timing_summary'' (col ''slack_cpd_ratio_pct'' Float) []]"

definition down_0003 :: "schema_op list" where
  "down_0003 = [
     DropColumn ''timing_summary'' ''slack_cpd_ratio_pct'',
     DropColumn ''timing_summary'' ''critical_path_delay_ns'',
     DropColumn ''timing_summary'' ''hold_violations'',
     DropColumn ''timing_summary'' ''setup_violations'',
     DropColumn ''timing_summary'' ''max_cap_violations'',
     DropColumn ''timing_summary'' ''max_fanout_violations'',
     DropColumn ''timing_summary'' ''max_slew_violations'',
     DropColumn ''timing_summary'' ''clock_skew_ns'',
     DropColumn ''timing_summary'' ''fmax_mhz'']"

definition up_0004 :: "schema_op list" where
  "up_0004 = [
     CreateTable (new_table ''case_memory''
        [
          primary_key (col ''id'' Integer),
          required (server (Value (PStr [])) (col ''design_name'' (Varchar 256))),
          required (server (Value (PStr [])) (col ''pdk'' (Varchar 128))),
          required (server (Value (PStr [])) (col ''symptoms'' Txt)),
          required (server (Value (PStr [])) (col ''root_cause'' Txt)),
          required (server (Value (PList [])) (col ''actions'' Json)),
          required (server (Value (PDict [])) (col ''result_metrics'' Json)),
          server Now (col ''created_at'' Timestamp)]
        []
        []
        []),
     CreateIndex ''ix_case_memory_design_name'' ''case_memory'' [''design_name''],
     CreateIndex ''ix_case_memory_fts'' ''case_memory'' [''symptoms'', ''root_cause'']]"

definition down_0004 :: "schema_op list" where
  "down_0004 = [
     DropIndex ''ix_case_memory_fts'' ''case_memory'',
     DropIndex ''ix_case_memory_design_name'' ''case_memory'',
     DropTable ''case_memory'']"

definition up_0005 :: "schema_op list" where
  "up_0005 = [
     CreateTable (new_table ''root_cause_inferences''
        [
          primary_key (col ''id'' Integer),
          col ''run_id'' BigInteger,
          required (server (Value (PStr [])) (col ''symptoms'' Txt)),
          required (server (Value (PDict [])) (col ''features'' Json)),
          required (server (Value (PList [])) (col ''hypotheses'' Json)),
          col ''chosen_cause'' (Varchar 256),
          col ''confirmed_at'' Timestamp,
          server Now (col ''created_at'' Timestamp)]
        []
        [ref ''run_id'' ''runs'' ''id'' SetNull]
        []),
     CreateIndex ''ix_root_cause_inferences_run_id'' ''root_cause_inferences'' [''run_id'']]"

definition down_0005 :: "schema_op list" where
  "down_0005 = [
     DropIndex ''ix_root_cause_inferences_run_id'' ''root_cause_inferences'',
     DropTable ''root_cause_inferences'']"

definition up_0006 :: "schema_op list" where
  "up_0006 = [
     CreateTable (new_table ''rule_weights''
        [
          primary_key (col ''rule_id'' (Varchar 128)),
          required (server (Value (PFloat (Fin 1))) (col ''multiplier'' Float)),
          required (server (Value (PInt 0)) (col ''confirm_count'' Integer)),
          server Now (col ''updated_at'' Timestamp)]
        []
        []
        [])]"

definition down_0006 :: "schema_op list" where
  "down_0006 = [
     DropTable ''rule_weights'']"

definition up_0007 :: "schema_op list" where
  "up_0007 = [
     AddColumn ''designs'' (col ''target_frequency_mhz'' Float) [],
     AddColumn ''designs'' (col ''target_utilization_pct'' Float) [],
     AddColumn ''designs'' (col ''voltage_v'' Float) [],
     AddColumn ''designs'' (required (server (Value (PStr ''block'')) (col ''design_type'' (Varchar 64)))) [],
     AddColumn ''runs'' (col ''parent_run_id'' BigInteger) [ref ''parent_run_id'' ''runs'' ''id'' NoAction],
     CreateIndex ''ix_runs_parent_run_id'' ''runs'' [''parent_run_id'']]"

definition down_0007 :: "schema_op list" where
  "down_0007 = [
     DropIndex ''ix_runs_parent_run_id'' ''runs'',
     DropColumn ''runs'' ''parent_run_id'',
     DropColumn ''designs'' ''design_type'',
     DropColumn ''designs'' ''voltage_v'',
     DropColumn ''designs'' ''target_utilization_pct'',
     DropColumn ''designs'' ''target_frequency_mhz'']"

definition up_0008 :: "schema_op list" where
  "up_0008 = [
     CreateTable (new_table ''flow_sessions''
        [
          primary_key (col ''id'' Integer),
          required (col ''session_uuid'' (Varchar 36)),
          required (col ''design_id'' Integer),
          required (server (Value (PStr ''pnr'')) (col ''objective'' (Varchar 64))),
          required (server (Value (PStr ''active'')) (col ''status'' (Varchar 32))),
          col ''baseline_run_id'' BigInteger,
          col ''parent_session_id'' Integer,
          required (server (Value (PStr [])) (col ''notes'' Txt)),
          server Now (col ''created_at'' Timestamp),
          server Now (col ''updated_at'' Timestamp)]
        [[''session_uuid''], [''session_uuid'']]
        [
          ref ''design_id'' ''designs'' ''id'' NoAction,
          ref ''parent_session_id'' ''flow_sessions'' ''id'' SetNull]
        []),
     CreateIndex ''ix_flow_sessions_design_status'' ''flow_sessions'' [''design_id'', ''status''],
     CreateIndex ''ix_flow_sessions_parent_session_id'' ''flow_sessions'' [''parent_session_id''],
     CreateIndex ''ix_flow_sessions_baseline_run_id'' ''flow_sessions'' [''baseline_run_id''],
     AddColumn ''runs'' (col ''session_id'' Integer) [],
     AddColumn ''runs'' (required (server (Value (PInt 0)) (col ''stage_seq'' Integer))) [],
     AddColumn ''runs'' (required (server (Value (PStr [])) (col ''variant_tag'' (Varchar 64)))) [],
     AddColumn ''runs'' (required (server (Value (PStr [])) (col ''rerun_reason'' Txt))) [],
     AddColumn ''runs'' (required (server (Value (PBool False)) (col ''is_baseline'' Boolean))) [],
     AddColumn ''runs'' (required (server (Value (PBool False)) (col ''is_selected'' Boolean))) [],
     CreateIndex ''ix_runs_session_id'' ''runs'' [''session_id''],
     CreateIndex ''ix_runs_session_stage'' ''runs'' [''session_id'', ''stage'', ''created_at''],
     CreateForeignKey ''runs'' ((ref ''session_id'' ''flow_sessions'' ''id'' SetNull)
         \<lparr>fk_name := Some ''fk_runs_session_id_flow_sessions''\<rparr>),
     CreateForeignKey ''flow_sessions'' ((ref ''baseline_run_id'' ''runs'' ''id'' SetNull)
         \<lparr>fk_name := Some ''fk_flow_sessions_baseline_run_id_runs''\<rparr>),
     CreateTable (new_table ''stage_outcomes''
        [
          primary_key (col ''id'' Integer),
          required (col ''run_id'' BigInteger),
          required (col ''stage_name'' (Varchar 64)),
          required (server (Value (PStr ''pending'')) (col ''status'' (Varchar 32))),
          col ''started_at'' Timestamp,
          col ''finished_at'' Timestamp,
          required (server (Value (PDict [])) (col ''input_params_snapshot'' Json)),
          required (server (Value (PDict [])) (col ''output_metrics_snapshot'' Json)),
          required (server (Value (PList [])) (col ''artifact_refs'' Json)),
          col ''root_cause_inference_id'' Integer,
          required (server (Value (PStr [])) (col ''recommendation'' Txt)),
          required (server (Value (PStr ''pending'')) (col ''approval_status'' (Varchar 32))),
          server Now (col ''created_at'' Timestamp)]
        []
        [
          ref ''run_id'' ''runs'' ''id'' Cascade,
          ref ''root_cause_inference_id'' ''root_cause_inferences'' ''id'' SetNull]
        []),
     CreateIndex ''ix_stage_outcomes_run_stage'' ''stage_outcomes'' [''run_id'', ''stage_name''],
     CreateIndex ''ix_stage_outcomes_status'' ''stage_outcomes'' [''status''],
     CreateIndex ''ix_stage_outcomes_created_at'' ''stage_outcomes'' [''created_at''],
     CreateIndex ''ix_stage_outcomes_root_cause_inference_id'' ''stage_outcomes'' [''root_cause_inference_id''],
     CreateTable (new_table ''decision_trace''
        [
          primary_key (col ''id'' Integer),
          required (col ''session_id'' Integer),
          required (col ''source_run_id'' BigInteger),
          required (col ''target_run_id'' BigInteger),
          col ''inference_id'' Integer,
          col ''case_id'' Integer,
          col ''rule_id'' (Varchar 128),
          required (server (Value (PStr [])) (col ''llm_reason'' Txt)),
          required (server (Value (PBool False)) (col ''human_approved'' Boolean)),
          server Now (col ''created_at'' Timestamp)]
        []
        [
          ref ''session_id'' ''flow_sessions'' ''id'' Cascade,
          ref ''source_run_id'' ''runs'' ''id'' Cascade,
          ref ''target_run_id'' ''runs'' ''id'' Cascade,
          ref ''inference_id'' ''root_cause_inferences'' ''id'' SetNull,
          ref ''case_id'' ''case_memory'' ''id'' SetNull,
          ref ''rule_id'' ''rule_weights'' ''rule_id'' SetNull]
        []),
     CreateIndex ''ix_decision_trace_session_id'' ''decision_trace'' [''session_id''],
     CreateIndex ''ix_decision_trace_run_pair'' ''decision_trace'' [''source_run_id'', ''target_run_id''],
     CreateIndex ''ix_decision_trace_inference_id'' ''decision_trace'' [''inference_id''],
     CreateIndex ''ix_decision_trace_case_id'' ''decision_trace'' [''case_id'']]"

definition down_0008 :: "schema_op list" where
  "down_0008 = [
     DropIndex ''ix_decision_trace_case_id'' ''decision_trace'',
     DropIndex ''ix_decision_trace_inference_id'' ''decision_trace'',
     DropIndex ''ix_decision_trace_run_pair'' ''decision_trace'',
     DropIndex ''ix_decision_trace_session_id'' ''decision_trace'',
     DropTable ''decision_trace'',
     DropIndex ''ix_stage_outcomes_root_cause_inference_id'' ''stage_outcomes'',
     DropIndex ''ix_stage_outcomes_created_at'' ''stage_outcomes'',
     DropIndex ''ix_stage_outcomes_status'' ''stage_outcomes'',
     DropIndex ''ix_stage_outcomes_run_stage'' ''stage_outcomes'',
     DropTable ''stage_outcomes'',
     DropConstraint ''fk_flow_sessions_baseline_run_id_runs'' ''flow_sessions'',
     DropConstraint ''fk_runs_session_id_flow_sessions'' ''runs'',
     DropIndex ''ix_runs_session_stage'' ''runs'',
     DropIndex ''ix_runs_session_id'' ''runs'',
     DropColumn ''runs'' ''is_selected'',
     DropColumn ''runs'' ''is_baseline'',
     DropColumn ''runs'' ''rerun_reason'',
     DropColumn ''runs'' ''variant_tag'',
     DropColumn ''runs'' ''stage_seq'',
     DropColumn ''runs'' ''session_id'',
     DropIndex ''ix_flow_sessions_baseline_run_id'' ''flow_sessions'',
     DropIndex ''ix_flow_sessions_parent_session_id'' ''flow_sessions'',
     DropIndex ''ix_flow_sessions_design_status'' ''flow_sessions'',
     DropTable ''flow_sessions'']"

definition up_0009 :: "schema_op list" where
  "up_0009 = [
     AddColumn ''flow_sessions'' (col ''last_inference_id'' Integer) [],
     AddColumn ''flow_sessions'' (col ''last_case_id'' Integer) [],
     AddColumn ''flow_sessions'' (col ''last_rule_id'' (Varchar 128)) [],
     CreateForeignKey ''flow_sessions'' ((ref ''last_inference_id'' ''root_cause_inferences'' ''id'' SetNull)
         \<lparr>fk_name := Some ''fk_flow_sessions_last_inference_id_root_cause_inferences''\<rparr>),
     CreateForeignKey ''flow_sessions'' ((ref ''last_case_id'' ''case_memory'' ''id'' SetNull)
         \<lparr>fk_name := Some ''fk_flow_sessions_last_case_id_case_memory''\<rparr>),
     CreateForeignKey ''flow_sessions'' ((ref ''last_rule_id'' ''rule_weights'' ''rule_id'' SetNull)
         \<lparr>fk_name := Some ''fk_flow_sessions_last_rule_id_rule_weights''\<rparr>),
     CreateIndex ''ix_flow_sessions_last_inference_id'' ''flow_sessions'' [''last_inference_id''],
     CreateIndex ''ix_flow_sessions_last_case_id'' ''flow_sessions'' [''last_case_id''],
     CreateIndex ''ix_flow_sessions_last_rule_id'' ''flow_sessions'' [''last_rule_id'']]"

definition down_0009 :: "schema_op list" where
  "down_0009 = [
     DropIndex ''ix_flow_sessions_last_rule_id'' ''flow_sessions'',
     DropIndex ''ix_flow_sessions_last_case_id'' ''flow_sessions'',
     DropIndex ''ix_flow_sessions_last_inference_id'' ''flow_sessions'',
     DropConstraint ''fk_flow_sessions_last_rule_id_rule_weights'' ''flow_sessions'',
     DropConstraint ''fk_flow_sessions_last_case_id_case_memory'' ''flow_sessions'',
     DropConstraint ''fk_flow_sessions_last_inference_id_root_cause_inferences'' ''flow_sessions'',
     DropColumn ''flow_sessions'' ''last_rule_id'',
     DropColumn ''flow_sessions'' ''last_case_id'',
     DropColumn ''flow_sessions'' ''last_inference_id'']"

definition up_0010 :: "schema_op list" where
  "up_0010 = [
     AddColumn ''flow_sessions'' (col ''env_snapshot'' Json) [],
     CreateIndex ''ix_flow_sessions_env_snapshot_gin'' ''flow_sessions'' [''env_snapshot'']]"

definition down_0010 :: "schema_op list" where
  "down_0010 = [
     DropIndex ''ix_flow_sessions_env_snapshot_gin'' ''flow_sessions'',
     DropColumn ''flow_sessions'' ''env_snapshot'']"

definition up_0011 :: "schema_op list" where
  "up_0011 = [
     AddColumn ''decision_trace'' (col ''llm_reason_structured'' Json) [],
     FillColumn ''decision_trace'' ''llm_reason_structured'' (\<lambda>r. if pget r ''llm_reason'' = PNone \<or> pget r ''llm_reason'' = PStr [] then None
       else Some (PDict [(''kind'', PStr ''legacy_text''), (''text'', pget r ''llm_reason'')]))]"

definition down_0011 :: "schema_op list" where
  "down_0011 = [
     DropColumn ''decision_trace'' ''llm_reason_structured'']"

definition up_0012 :: "schema_op list" where
  "up_0012 = [
     AddColumn ''agent_sessions'' (required (server (Value (PDict [])) (col ''scratchpad'' Json))) []]"

definition down_0012 :: "schema_op list" where
  "down_0012 = [
     DropColumn ''agent_sessions'' ''scratchpad'']"

definition up_0013 :: "schema_op list" where
  "up_0013 = [
     CreateTable (new_table ''custom_tool_audit''
        [
          primary_key (col ''id'' BigInteger),
          required (col ''tool_name'' (Varchar 128)),
          required (server (Value (PStr [])) (col ''source'' (Varchar 256))),
          required (server (Value (PDict [])) (col ''arguments_summary'' Json)),
          required (server (Value (PInt 0)) (col ''duration_ms'' Integer)),
          col ''exit_code'' Integer,
          required (server (Value (PBool False)) (col ''ok'' Boolean)),
          required (server (Value (PStr [])) (col ''error_message'' Txt)),
          required (server Now (col ''created_at'' Timestamp))]
        []
        []
        []),
     CreateIndex ''ix_custom_tool_audit_tool_name'' ''custom_tool_audit'' [''tool_name''],
     CreateIndex ''ix_custom_tool_audit_created_at'' ''custom_tool_audit'' [''created_at'']]"

definition down_0013 :: "schema_op list" where
  "down_0013 = [
     DropIndex ''ix_custom_tool_audit_created_at'' ''custom_tool_audit'',
     DropIndex ''ix_custom_tool_audit_tool_name'' ''custom_tool_audit'',
     DropTable ''custom_tool_audit'']"

definition upgrades :: "schema_op list list" where
  "upgrades = [up_0001, up_0002, up_0003, up_0004, up_0005, up_0006, up_0007, up_0008, up_0009, up_0010, up_0011, up_0012, up_0013]"

definition downgrades :: "schema_op list list" where
  "downgrades = [down_0001, down_0002, down_0003, down_0004, down_0005, down_0006, down_0007, down_0008, down_0009, down_0010, down_0011, down_0012, down_0013]"

lemmas migration_defs = up_0001_def down_0001_def
  up_0002_def down_0002_def
  up_0003_def down_0003_def
  up_0004_def down_0004_def
  up_0005_def down_0005_def
  up_0006_def down_0006_def
  up_0007_def down_0007_def
  up_0008_def down_0008_def
  up_0009_def down_0009_def
  up_0010_def down_0010_def
  up_0011_def down_0011_def
  up_0012_def down_0012_def
  up_0013_def down_0013_def

end
