(* ===== verification/MigrationRun.thy ===== *)
theory MigrationRun
  imports DbSchema Migrations MigrationLemmas
begin

text \<open>
  What the migrations leave of the declared tables, by evaluation: the run from an empty database
  succeeds, and the operations on each table give the declared one.
\<close>

definition final_table :: "pyval \<Rightarrow> string \<Rightarrow> table option" where
  "final_table now n = fold (op_effect now n) (concat upgrades) None"

definition comes_out :: "pyval \<Rightarrow> table \<Rightarrow> bool" where
  "comes_out now d = (case final_table now (tab_name d) of None \<Rightarrow> False | Some m \<Rightarrow> matches d m)"

lemma migrations_succeed: "apply_ops now (concat upgrades) [] \<noteq> None"
  by code_simp

lemma declared_come_out: "list_all (comes_out now) (declared_tables True)"
  by code_simp

lemma migrated_names: "set (map op_table (concat upgrades)) = set (map tab_name (declared_tables True))"
  by code_simp

text \<open>Without PostGIS the mapper declares another type for the polygons.\<close>

lemma hotspots_without_postgis: "\<not> comes_out now (table_congestion_hotspots False)"
  by code_simp

end
