(* ===== verification/MigrationProps.thy ===== *)
theory MigrationProps
  imports MigrationRun
begin

text \<open>
  What the migrations do: together they give the declared tables, each is undone by its downgrade,
  and an upgrade keeps every stored value.
\<close>

section \<open>The declared tables\<close>

lemma fold_op_effect_other: "n \<notin> set (map op_table ops) \<Longrightarrow> fold (op_effect now n) ops u = u"
  by (induction ops) (auto simp: op_effect_def)

lemma migrated_database:
  "\<exists>db. apply_ops now (concat upgrades) [] = Some db \<and> as_declared db \<and> (\<forall>n. find_table db n = final_table now n)"
proof -
  obtain db where db: "apply_ops now (concat upgrades) [] = Some db" using migrations_succeed by blast
  have f: "find_table db n = final_table now n" for n
    using find_table_ops [OF db, of n] by (simp add: final_table_def find_table_def)
  have m: "\<exists>m. find_table db (tab_name d) = Some m \<and> matches d m" if "comes_out now d" for d
    using that by (auto simp: comes_out_def f split: option.splits)
  have "as_declared db"
    using declared_come_out [of now] m unfolding as_declared_def by (rule list.pred_mono_strong)
  with db f show ?thesis by blast
qed


section \<open>Downgrades\<close>

lemma downgrades_undo: "list_all (\<lambda>(u, d). undoes (rev u) d) (zip (tl upgrades) (tl downgrades))"
  by (simp add: upgrades_def downgrades_def migration_defs new_table_def col_def required_def primary_key_def server_def ref_def)

lemma first_downgrade: "Option.bind (apply_ops now up_0001 []) (apply_ops now down_0001) = Some []"
  by code_simp

text \<open>
  C38: A downgrade right behind its upgrade gives the database back as it was, the rows included;
  for the first revision, which creates the tables, that is the empty database.
\<close>

theorem downgrade_undoes_upgrade:
  assumes "k < length upgrades" "k = 0 \<longrightarrow> db = []" "wf_database db" "apply_ops now (upgrades ! k) db = Some db'"
  shows "apply_ops now (downgrades ! k) db' = Some db"
proof (cases k)
  case 0
  with assms(2,4) first_downgrade [of now] show ?thesis by (simp add: upgrades_def downgrades_def)
next
  case (Suc i)
  have l: "length downgrades = length upgrades" by (simp add: upgrades_def downgrades_def)
  then have "(upgrades ! k, downgrades ! k) = zip (tl upgrades) (tl downgrades) ! i"
    using assms(1) Suc by (simp add: nth_tl)
  with downgrades_undo l assms(1) Suc have "undoes (rev (upgrades ! k)) (downgrades ! k)"
    by (auto simp: list_all_length)
  from undone_back [OF undoes_undone [OF this] assms(3)] assms(4) show ?thesis by simp
qed

theorem downgrade_undoes_upgrade_witness:
  "\<exists>db'. apply_ops PNone up_0004 [] = Some db' \<and> apply_ops PNone down_0004 db' = Some []"
proof -
  have "apply_ops PNone up_0004 [] \<noteq> None" by code_simp
  then obtain db' where "apply_ops PNone up_0004 [] = Some db'" by blast
  with downgrade_undoes_upgrade [of 3 "[]" PNone db'] show ?thesis
    by (simp add: upgrades_def downgrades_def wf_database_def numeral_3_eq_3)
qed

section \<open>Rows\<close>

lemma upgrades_add: "list_all (only_adds []) upgrades"
  by (simp add: upgrades_def migration_defs new_table_def col_def required_def server_def)

text \<open>
  Upgrading from any revision keeps every row at its place and every value in it; only new
  columns and, in the first revision, new rows are added.
\<close>

theorem upgrade_keeps_rows:
  assumes "apply_ops now (concat (drop k upgrades)) db = Some db'" "find_table db n = Some t"
    and "c \<in> set (column_names t)" "i < length (rows t)"
  shows "\<exists>t'. find_table db' n = Some t' \<and> c \<in> set (column_names t') \<and> i < length (rows t') \<and>
    pget (rows t' ! i) c = pget (rows t ! i) c"
proof -
  have "list_all (only_adds []) (drop k upgrades)"
    using upgrades_add by (auto simp: list_all_iff dest: in_set_dropD)
  from holds_ops [OF only_adds_concat [OF this] assms(1,2), of c "rows t"] assms(3,4) show ?thesis
    by (fastforce simp: holds_on_def)
qed

theorem upgrade_keeps_rows_witness:
  "\<exists>db' t'. apply_ops PNone (concat (drop 12 upgrades))
      [(new_table ''users'' [col ''id'' Integer] [] [] [])\<lparr>rows := [[(''id'', PInt 7)]]\<rparr>] = Some db' \<and>
    find_table db' ''users'' = Some t' \<and> pget (rows t' ! 0) ''id'' = PInt 7"
proof -
  let ?t = "(new_table ''users'' [col ''id'' Integer] [] [] [])\<lparr>rows := [[(''id'', PInt 7)]]\<rparr>"
  have "apply_ops PNone (concat (drop 12 upgrades)) [?t] \<noteq> None" by code_simp
  then obtain db' where db': "apply_ops PNone (concat (drop 12 upgrades)) [?t] = Some db'" by blast
  moreover have "find_table [?t] ''users'' = Some ?t" by (simp add: find_table_def new_table_def)
  ultimately show ?thesis
    using upgrade_keeps_rows [of PNone 12 "[?t]" db' "''users''" ?t "''id''" 0]
    by (auto simp: new_table_def column_names_def col_def pget_def)
qed

end
