(* ===== verification/SqlData.thy ===== *)
theory SqlData
  imports MigrationLemmas
begin

text \<open>
  Statements on rows and transactions (PostgreSQL under SQLAlchemy, \<open>get_db\<close> of
  \<open>eda_agent/db/session.py\<close>). A textual \<open>INSERT\<close> fills the columns it does not name with the defaults
  of the server, not with those of the object mapper. A statement that fails aborts the
  transaction: every later one fails, and its \<open>COMMIT\<close> is a rollback. Values of a column are of its
  own type: the automatic casts of the server between types are not modelled. Timestamps and
  polygons stand as their texts; rows that tie in an \<open>ORDER BY\<close> stay in the order of insertion.
\<close>

section \<open>Values\<close>

datatype sql_error =
    NoTable
  | NoColumn
  | NullViolation string
  | BadValue string
  | NotUnique
  | NoParent
  | TxnAborted

fun json_finite :: "pyval \<Rightarrow> bool" where
  "json_finite (PFloat f) = (case f of Fin q \<Rightarrow> True | _ \<Rightarrow> False)"
| "json_finite (PList xs) = (\<forall>x \<in> set xs. json_finite x)"
| "json_finite (PDict d) = (\<forall>(k, v) \<in> set d. json_finite v)"
| "json_finite _ = True"

definition cast_to :: "sql_type \<Rightarrow> pyval \<Rightarrow> pyval option" where
  "cast_to t v =
     (if v = PNone then Some v
      else case t of
        Varchar n \<Rightarrow> (case v of PStr s \<Rightarrow> if length s \<le> n then Some v else None | _ \<Rightarrow> None)
      | Txt \<Rightarrow> (case v of PStr s \<Rightarrow> Some v | _ \<Rightarrow> None)
      | Timestamp \<Rightarrow> (case v of PStr s \<Rightarrow> Some v | _ \<Rightarrow> None)
      | Polygon \<Rightarrow> (case v of PStr s \<Rightarrow> Some v | _ \<Rightarrow> None)
      | Integer \<Rightarrow> (case v of PInt i \<Rightarrow> if - (2 ^ 31) \<le> i \<and> i < 2 ^ 31 then Some v else None | _ \<Rightarrow> None)
      | BigInteger \<Rightarrow> (case v of PInt i \<Rightarrow> if - (2 ^ 63) \<le> i \<and> i < 2 ^ 63 then Some v else None | _ \<Rightarrow> None)
      | Boolean \<Rightarrow> (case v of PBool b \<Rightarrow> Some v | _ \<Rightarrow> None)
      | Float \<Rightarrow> (case v of PFloat f \<Rightarrow> Some v | PInt i \<Rightarrow> map_option PFloat (py_num v) | _ \<Rightarrow> None)
      | Json \<Rightarrow> (case v of PStr s \<Rightarrow> (case json_loads s of Some x \<Rightarrow> if json_finite x then Some x else None | None \<Rightarrow> None)
                 | _ \<Rightarrow> None))"

section \<open>Statements\<close>

definition serial :: "column \<Rightarrow> bool" where
  "serial c \<longleftrightarrow> primary c \<and> (col_type c = Integer \<or> col_type c = BigInteger)"

definition raw_value :: "pyval \<Rightarrow> table \<Rightarrow> pydict \<Rightarrow> column \<Rightarrow> (sql_error, pyval) result" where
  "raw_value now t given c =
     (case dget given (col_name c) of
        None \<Rightarrow> Inr (if serial c then PInt (next_id t) else default_of now c)
      | Some v \<Rightarrow> (case cast_to (col_type c) v of None \<Rightarrow> Inl (BadValue (col_name c)) | Some x \<Rightarrow> Inr x))"

text \<open>JSON \<open>null\<close> is a value: \<open>NOT NULL\<close> looks at what was given.\<close>

definition is_null :: "pyval \<Rightarrow> pydict \<Rightarrow> column \<Rightarrow> bool" where
  "is_null now given c =
     (case dget given (col_name c) of None \<Rightarrow> \<not> serial c \<and> default_of now c = PNone | Some v \<Rightarrow> v = PNone)"

fun build_row :: "pyval \<Rightarrow> table \<Rightarrow> pydict \<Rightarrow> column list \<Rightarrow> (sql_error, pydict) result" where
  "build_row now t given [] = Inr []"
| "build_row now t given (c # cs) =
     ok_bind (raw_value now t given c) (\<lambda>v.
       if \<not> nullable c \<and> is_null now given c then Inl (NullViolation (col_name c))
       else ok_bind (build_row now t given cs) (\<lambda>r. Inr ((col_name c, v) # r)))"

definition clashes :: "table \<Rightarrow> pydict \<Rightarrow> bool" where
  "clashes t r \<longleftrightarrow> list_ex (\<lambda>r'. list_ex (\<lambda>u. list_all (\<lambda>c. pget r c \<noteq> PNone \<and> pget r c = pget r' c) u)
     (map (\<lambda>c. [col_name c]) (filter primary (columns t)) @ uniques t)) (rows t)"

definition parents_exist :: "database \<Rightarrow> table \<Rightarrow> pydict \<Rightarrow> bool" where
  "parents_exist db t r \<longleftrightarrow>
     list_all (\<lambda>k. pget r (fk_col k) = PNone \<or> has_value db (fk_table k) (fk_target k) (pget r (fk_col k))) (fkeys t)"

definition add_row :: "pydict \<Rightarrow> table \<Rightarrow> table" where
  "add_row r t = t\<lparr>rows := rows t @ [r], next_id := next_id t + 1\<rparr>"

definition insert_sql :: "pyval \<Rightarrow> string \<Rightarrow> pydict \<Rightarrow> database \<Rightarrow> (sql_error, pydict \<times> database) result" where
  "insert_sql now n given db =
     (case find_table db n of
        None \<Rightarrow> Inl NoTable
      | Some t \<Rightarrow>
          if \<not> set (dkeys given) \<subseteq> set (column_names t) then Inl NoColumn
          else ok_bind (build_row now t given (columns t)) (\<lambda>r.
            if clashes t r then Inl NotUnique
            else let db' = change_table n (add_row r) db
                 in if parents_exist db' t r then Inr (r, db') else Inl NoParent))"

text \<open>\<open>UPDATE n SET ... WHERE\<close>, without unique columns: the new values may depend on the row.\<close>

definition cast_row :: "table \<Rightarrow> pydict \<Rightarrow> pydict option" where
  "cast_row t given = all_some (map (\<lambda>(k, v). case find (\<lambda>c. col_name c = k) (columns t) of
     None \<Rightarrow> None | Some c \<Rightarrow> map_option (Pair k) (cast_to (col_type c) v)) given)"

definition updated :: "table \<Rightarrow> (pydict \<Rightarrow> pydict) \<Rightarrow> pydict \<Rightarrow> pydict" where
  "updated t f r = (case cast_row t (f r) of None \<Rightarrow> r | Some new \<Rightarrow> dupdate r new)"

definition update_rows :: "(pydict \<Rightarrow> bool) \<Rightarrow> (pydict \<Rightarrow> pydict) \<Rightarrow> table \<Rightarrow> table" where
  "update_rows wh f t = t\<lparr>rows := map (\<lambda>r. if wh r then updated t f r else r) (rows t)\<rparr>"

definition update_sql :: "string \<Rightarrow> (pydict \<Rightarrow> bool) \<Rightarrow> (pydict \<Rightarrow> pydict) \<Rightarrow> database \<Rightarrow> (sql_error, nat \<times> database) result" where
  "update_sql n wh f db =
     (case find_table db n of
        None \<Rightarrow> Inl NoTable
      | Some t \<Rightarrow>
          let hit = filter wh (rows t); db' = change_table n (update_rows wh f) db
          in if list_ex (\<lambda>r. cast_row t (f r) = None) hit then Inl (BadValue n)
             else if list_ex (\<lambda>r. list_ex (\<lambda>c. \<not> nullable c \<and> dget (f r) (col_name c) = Some PNone) (columns t)) hit
             then Inl (NullViolation n)
             else if list_all (\<lambda>r. parents_exist db' t (updated t f r)) hit then Inr (length hit, db') else Inl NoParent)"

definition rows_of :: "database \<Rightarrow> string \<Rightarrow> pydict list" where
  "rows_of db n = (case find_table db n of None \<Rightarrow> [] | Some t \<Rightarrow> rows t)"

definition select_sql :: "string \<Rightarrow> (pydict \<Rightarrow> bool) \<Rightarrow> database \<Rightarrow> (sql_error, pydict list \<times> database) result" where
  "select_sql n wh db = (case find_table db n of None \<Rightarrow> Inl NoTable | Some t \<Rightarrow> Inr (filter wh (rows t), db))"

section \<open>Transactions\<close>

record session =
  work :: database
  aborted :: bool

type_synonym ('e, 'a) action = "session \<Rightarrow> ('e, 'a) result \<times> session"

datatype db_exc =
    Sql sql_error
  | PyRaised   \<comment> \<open>an exception of the program itself\<close>

definition exec :: "(database \<Rightarrow> (sql_error, 'a \<times> database) result) \<Rightarrow> (db_exc, 'a) action" where
  "exec stmt s =
     (if aborted s then (Inl (Sql TxnAborted), s)
      else case stmt (work s) of
        Inl e \<Rightarrow> (Inl (Sql e), s\<lparr>aborted := True\<rparr>)
      | Inr (x, db) \<Rightarrow> (Inr x, s\<lparr>work := db\<rparr>))"

definition yields :: "'a \<Rightarrow> ('e, 'a) action" where
  "yields x s = (Inr x, s)"

definition raises :: "'e \<Rightarrow> ('e, 'a) action" where
  "raises e s = (Inl e, s)"

definition andthen :: "('e, 'a) action \<Rightarrow> ('a \<Rightarrow> ('e, 'b) action) \<Rightarrow> ('e, 'b) action" where
  "andthen m f s = (case m s of (Inl e, s') \<Rightarrow> (Inl e, s') | (Inr x, s') \<Rightarrow> f x s')"

text \<open>\<open>try: ... except Exception: log\<close>.\<close>

definition attempt :: "('e, 'a) action \<Rightarrow> ('e, unit) action" where
  "attempt m s = (case m s of (r, s') \<Rightarrow> (Inr (), s'))"

fun each :: "('a \<Rightarrow> ('e, unit) action) \<Rightarrow> 'a list \<Rightarrow> ('e, unit) action" where
  "each f [] = yields ()"
| "each f (x # xs) = andthen (f x) (\<lambda>_. each f xs)"

text \<open>A rollback keeps the numbers that were drawn.\<close>

definition rolled_back :: "database \<Rightarrow> database \<Rightarrow> database" where
  "rolled_back old new = map (\<lambda>t. case find_table new (tab_name t) of None \<Rightarrow> t | Some u \<Rightarrow> t\<lparr>next_id := next_id u\<rparr>) old"

definition with_db :: "('e, 'a) action \<Rightarrow> database \<Rightarrow> ('e, 'a) result \<times> database" where
  "with_db body db =
     (case body \<lparr>work = db, aborted = False\<rparr> of
        (Inr x, s) \<Rightarrow> (Inr x, if aborted s then rolled_back db (work s) else work s)
      | (Inl e, s) \<Rightarrow> (Inl e, rolled_back db (work s)))"

end
