(* ===== verification/RunStore.thy ===== *)
theory RunStore
  imports SqlData DbSchema
begin

text \<open>
  Persistence of runs: \<open>agent/tool_impl_persistence.py\<close>, \<open>agent/tool_impl_flow_session.py\<close>,
  \<open>agent/tool_impl_trace.py\<close> and the transaction helpers of \<open>agent/tools.py\<close>. Every function is an
  action of a transaction, or a whole one on the database. What the backend, its reports and their
  parsers give is a value.
\<close>

section \<open>Values of a backend\<close>

datatype stage_status = StPending | StRunning | StSuccess | StFailed | StSkipped

fun stage_status_value :: "stage_status \<Rightarrow> string" where
  "stage_status_value StPending = ''pending''"
| "stage_status_value StRunning = ''running''"
| "stage_status_value StSuccess = ''success''"
| "stage_status_value StFailed = ''failed''"
| "stage_status_value StSkipped = ''skipped''"

record run_result =
  rr_uuid :: string
  rr_backend :: string
  rr_design :: string
  rr_stage :: string
  rr_status :: stage_status
  rr_started :: string
  rr_finished :: string
  rr_log :: "string option"
  rr_report_dir :: "string option"
  rr_params :: pydict
  rr_error :: string

record design_spec =
  ds_name :: string
  ds_config :: string
  ds_pdk :: string

text \<open>A report file with its size, if it exists, and the records of its parser, if it does not raise.\<close>

record report_file =
  rp_path :: string
  rp_type :: string
  rp_stage :: string
  rp_size :: "int option"
  rp_records :: "pydict list option"

record store_env =
  se_now :: pyval
  se_postgis :: bool
  se_wkt_ok :: "string \<Rightarrow> bool"   \<comment> \<open>\<open>ST_GeomFromText\<close> accepts the text\<close>

section \<open>Python conversions\<close>

definition py_int :: "pyval \<Rightarrow> int option" where
  "py_int v = (case v of
      PInt i \<Rightarrow> Some i
    | PBool b \<Rightarrow> Some (if b then 1 else 0)
    | PFloat (Fin q) \<Rightarrow> Some (if q < 0 then - \<lfloor>- q\<rfloor> else \<lfloor>q\<rfloor>)
    | PStr s \<Rightarrow> int_of_str s
    | _ \<Rightarrow> None)"

definition path_or_empty :: "string option \<Rightarrow> pyval" where
  "path_or_empty p = PStr (case p of None \<Rightarrow> [] | Some s \<Rightarrow> s)"

section \<open>Runs\<close>

definition insert_into :: "store_env \<Rightarrow> string \<Rightarrow> pydict \<Rightarrow> (db_exc, pydict) action" where
  "insert_into env n given = exec (insert_sql (se_now env) n given)"

text \<open>The id of the first matching row; a row is inserted when there is none.\<close>

definition find_or_insert :: "store_env \<Rightarrow> string \<Rightarrow> (pydict \<Rightarrow> bool) \<Rightarrow> pydict \<Rightarrow> (db_exc, pyval) action" where
  "find_or_insert env n wh given =
     andthen (exec (select_sql n wh)) (\<lambda>found.
       case found of
         r # rs \<Rightarrow> yields (pget r ''id'')
       | [] \<Rightarrow> andthen (insert_into env n given) (\<lambda>_.
           andthen (exec (select_sql n wh)) (\<lambda>found. yields (case found of [] \<Rightarrow> PNone | r # rs \<Rightarrow> pget r ''id''))))"

definition backend_id :: "store_env \<Rightarrow> string \<Rightarrow> (db_exc, pyval) action" where
  "backend_id env name =
     find_or_insert env ''backends'' (\<lambda>r. pget r ''name'' = PStr name) [(''name'', PStr name), (''version'', PStr ''unknown'')]"

definition design_id :: "store_env \<Rightarrow> design_spec \<Rightarrow> (db_exc, pyval) action" where
  "design_id env d =
     find_or_insert env ''designs'' (\<lambda>r. pget r ''name'' = PStr (ds_name d) \<and> pget r ''pdk'' = PStr (ds_pdk d))
       [(''name'', PStr (ds_name d)), (''pdk'', PStr (ds_pdk d)), (''config_path'', PStr (ds_config d))]"

definition run_columns :: "run_result \<Rightarrow> pydict \<Rightarrow> pyval \<Rightarrow> pyval \<Rightarrow> int \<Rightarrow> pydict" where
  "run_columns r ctx bid did seq =
     [(''run_uuid'', PStr (rr_uuid r)), (''backend_id'', bid), (''design_id'', did), (''session_id'', pget ctx ''session_id''),
      (''stage'', PStr (rr_stage r)), (''stage_seq'', PInt seq),
      (''variant_tag'', PStr (py_str (py_or (pget ctx ''variant_tag'') (PStr [])))),
      (''rerun_reason'', PStr (py_str (py_or (pget ctx ''rerun_reason'') (PStr [])))),
      (''is_baseline'', PBool (py_truthy (pget ctx ''is_baseline''))),
      (''is_selected'', PBool (py_truthy (pget ctx ''is_selected''))),
      (''parent_run_id'', pget ctx ''parent_run_id''), (''status'', PStr (stage_status_value (rr_status r))),
      (''params'', PStr (json_dumps (PDict (rr_params r)))), (''log_path'', path_or_empty (rr_log r)),
      (''report_dir'', path_or_empty (rr_report_dir r)), (''error_message'', PStr (rr_error r)),
      (''started_at'', PStr (rr_started r)), (''finished_at'', PStr (rr_finished r))]"

definition upsert_run :: "store_env \<Rightarrow> run_result \<Rightarrow> design_spec \<Rightarrow> pydict \<Rightarrow> (db_exc, pyval) action" where
  "upsert_run env r d ctx =
     andthen (backend_id env (rr_backend r)) (\<lambda>bid.
     andthen (design_id env d) (\<lambda>did.
       case py_int (py_or (pget ctx ''stage_seq'') (PInt 0)) of
         None \<Rightarrow> raises PyRaised
       | Some seq \<Rightarrow>
           andthen (insert_into env ''runs'' (run_columns r ctx bid did seq)) (\<lambda>_.
           andthen (exec (select_sql ''runs'' (\<lambda>row. pget row ''run_uuid'' = PStr (rr_uuid r)))) (\<lambda>found.
             yields (case found of [] \<Rightarrow> PNone | row # rs \<Rightarrow> pget row ''id'')))))"

section \<open>Reports\<close>

definition upsert_artifact :: "store_env \<Rightarrow> pyval \<Rightarrow> report_file \<Rightarrow> (db_exc, unit) action" where
  "upsert_artifact env run rp =
     andthen (insert_into env ''artifacts''
       [(''run_id'', run), (''file_path'', PStr (rp_path rp)), (''artifact_type'', PStr (rp_type rp)),
        (''file_size_bytes'', case rp_size rp of None \<Rightarrow> PNone | Some n \<Rightarrow> PInt n)]) (\<lambda>_. yields ())"

text \<open>A hotspot: with PostGIS the text has to be a geometry.\<close>

definition insert_hotspot :: "store_env \<Rightarrow> pydict \<Rightarrow> (db_exc, unit) action" where
  "insert_hotspot env given =
     andthen (exec (\<lambda>db.
       if se_postgis env \<and> (case pget given ''geom'' of PStr s \<Rightarrow> \<not> se_wkt_ok env s | _ \<Rightarrow> False) then Inl (BadValue ''geom'')
       else insert_sql (se_now env) ''congestion_hotspots'' given db)) (\<lambda>_. yields ())"

definition has_key :: "pydict \<Rightarrow> string \<Rightarrow> bool" where
  "has_key d k \<longleftrightarrow> dget d k \<noteq> None"

definition timing_metrics :: "string list" where
  "timing_metrics = [''wns_ns'', ''tns_ns'', ''failing_endpoints'', ''fmax_mhz'', ''clock_skew_ns'',
     ''max_slew_violations'', ''max_fanout_violations'', ''max_cap_violations'', ''setup_violations'', ''hold_violations'',
     ''critical_path_delay_ns'', ''slack_cpd_ratio_pct'']"

definition take_keys :: "string list \<Rightarrow> pydict \<Rightarrow> pydict" where
  "take_keys ks rec = map (\<lambda>k. (k, pget rec k)) ks"

definition ingest_record :: "store_env \<Rightarrow> pyval \<Rightarrow> pydict \<Rightarrow> (db_exc, unit) action" where
  "ingest_record env run rec =
     (let kind = pget rec ''kind'';
          insert = \<lambda>n given. andthen (insert_into env n ((''run_id'', run) # given)) (\<lambda>_. yields ())
      in
      if kind = PStr ''summary'' \<and> has_key rec ''wns_ns'' then
        insert ''timing_summary'' ((''view'', dgetd rec ''view'' (PStr ''default'')) # take_keys timing_metrics rec)
      else if kind = PStr ''path'' then
        insert ''timing_paths''
          [(''startpoint'', dgetd rec ''startpoint'' (PStr [])), (''endpoint'', dgetd rec ''endpoint'' (PStr [])),
           (''path_group'', pget rec ''path_group''), (''slack_ns'', dgetd rec ''slack_ns'' (PFloat (Fin 0)))]
      else if kind = PStr ''hotspot'' then
        (case dget rec ''wkt'' of
           None \<Rightarrow> raises PyRaised
         | Some wkt \<Rightarrow> insert_hotspot env
             [(''run_id'', run), (''geom'', wkt), (''overflow'', dgetd rec ''overflow'' (PInt 0))])
      else if kind = PStr ''orfs_violation'' then
        (if \<not> py_truthy (pget rec ''wkt'') then yields ()
         else insert_hotspot env
           [(''run_id'', run), (''geom'', pget rec ''wkt''), (''overflow'', dgetd rec ''overflow'' (PInt 0)), (''layer'', pget rec ''layer'')])
      else if kind = PStr ''summary'' \<and> has_key rec ''design_area_um2'' then
        insert ''utilization_summary'' (take_keys [''design_area_um2'', ''utilization_pct'', ''num_cells'', ''num_registers''] rec)
      else if kind = PStr ''summary'' \<and> has_key rec ''total_power_w'' then
        insert ''power_summary'' (take_keys [''internal_power_w'', ''switching_power_w'', ''leakage_power_w'', ''total_power_w''] rec)
      else if kind = PStr ''summary'' \<and> has_key rec ''total_violations'' then
        insert ''drc_violations'' [(''violation_type'', PStr ''SUMMARY''), (''total_violations'', pget rec ''total_violations'')]
      else if kind = PStr ''drc_violation'' then
        insert ''drc_violations''
          [(''violation_type'', dgetd rec ''violation_type'' (PStr [])), (''layer'', pget rec ''layer''),
           (''nets'', PStr (json_dumps (py_or (pget rec ''nets'') (PList [])))), (''bbox_wkt'', pget rec ''bbox_wkt'')]
      else yields ())"

definition ingest_report :: "store_env \<Rightarrow> pyval \<Rightarrow> report_file \<Rightarrow> (db_exc, unit) action" where
  "ingest_report env run rp =
     (case rp_records rp of None \<Rightarrow> raises PyRaised | Some recs \<Rightarrow> each (ingest_record env run) recs)"

text \<open>\<open>reports\<close>: \<open>None\<close> without a backend, \<open>Some None\<close> where \<open>collect_reports\<close> raises.\<close>

definition save_run_and_parse ::
  "store_env \<Rightarrow> run_result \<Rightarrow> design_spec \<Rightarrow> report_file list option option \<Rightarrow> pydict \<Rightarrow> database
    \<Rightarrow> (db_exc, pyval) result \<times> database" where
  "save_run_and_parse env r d reports ctx =
     with_db (andthen (upsert_run env r d ctx) (\<lambda>run.
       if rr_status r \<noteq> StSuccess then yields run
       else case reports of
         None \<Rightarrow> yields run
       | Some None \<Rightarrow> raises PyRaised
       | Some (Some rps) \<Rightarrow>
           andthen (attempt (each (upsert_artifact env run) rps)) (\<lambda>_.
           andthen (each (\<lambda>rp. attempt (ingest_report env run rp)) rps) (\<lambda>_. yields run))))"

section \<open>Flow sessions\<close>

definition create_flow_session ::
  "store_env \<Rightarrow> string \<Rightarrow> pyval \<Rightarrow> design_spec \<Rightarrow> string \<Rightarrow> string \<Rightarrow> database \<Rightarrow> (db_exc, pyval) result \<times> database" where
  "create_flow_session env uuid snapshot d objective notes =
     with_db (andthen (design_id env d) (\<lambda>did.
       andthen (insert_into env ''flow_sessions''
         [(''session_uuid'', PStr uuid), (''design_id'', did), (''objective'', PStr objective), (''status'', PStr ''active''),
          (''notes'', PStr notes), (''env_snapshot'', PStr (json_dumps snapshot))]) (\<lambda>row. yields (pget row ''id''))))"

definition update_flow_session_status ::
  "store_env \<Rightarrow> pyval \<Rightarrow> string \<Rightarrow> pyval \<Rightarrow> database \<Rightarrow> (db_exc, unit) result \<times> database" where
  "update_flow_session_status env sid status baseline =
     with_db (andthen (exec (update_sql ''flow_sessions'' (\<lambda>r. pget r ''id'' = sid)
       (\<lambda>r. (''status'', PStr status) # (if baseline = PNone then [] else [(''baseline_run_id'', baseline)]) @
             [(''updated_at'', se_now env)]))) (\<lambda>_. yields ()))"

text \<open>The latest inference, case and rule: a value that is not given stays.\<close>

definition set_inference_context ::
  "store_env \<Rightarrow> pyval \<Rightarrow> pyval \<Rightarrow> pyval \<Rightarrow> pyval \<Rightarrow> database \<Rightarrow> (db_exc, unit) result \<times> database" where
  "set_inference_context env sid infer cas rule db =
     (if infer = PNone \<and> cas = PNone \<and> rule = PNone then (Inr (), db)
      else with_db (andthen (exec (update_sql ''flow_sessions'' (\<lambda>r. pget r ''id'' = sid)
        (\<lambda>r. let keep = \<lambda>v k. (k, if v = PNone then pget r k else v)
             in [keep infer ''last_inference_id'', keep cas ''last_case_id'', keep rule ''last_rule_id'', (''updated_at'', se_now env)])))
        (\<lambda>_. yields ())) db)"

definition set_context_from_run ::
  "store_env \<Rightarrow> pyval \<Rightarrow> pyval \<Rightarrow> pyval \<Rightarrow> pyval \<Rightarrow> database \<Rightarrow> (db_exc, unit) result \<times> database" where
  "set_context_from_run env run infer cas rule db =
     (case with_db (exec (select_sql ''runs'' (\<lambda>r. pget r ''id'' = run))) db of
        (Inl e, db') \<Rightarrow> (Inl e, db')
      | (Inr found, db') \<Rightarrow>
          (case found of
             [] \<Rightarrow> (Inr (), db')
           | r # rs \<Rightarrow> if pget r ''session_id'' = PNone then (Inr (), db')
                       else set_inference_context env (pget r ''session_id'') infer cas rule db'))"

section \<open>Outcomes and decisions\<close>

definition record_stage_outcome ::
  "store_env \<Rightarrow> pyval \<Rightarrow> string \<Rightarrow> run_result \<Rightarrow> pyval \<Rightarrow> database \<Rightarrow> (db_exc, unit) result \<times> database" where
  "record_stage_outcome env run stage r infer =
     with_db (andthen (insert_into env ''stage_outcomes''
       [(''run_id'', run), (''stage_name'', PStr stage), (''status'', PStr (stage_status_value (rr_status r))),
        (''started_at'', PStr (rr_started r)), (''finished_at'', PStr (rr_finished r)),
        (''input_params_snapshot'', PStr (json_dumps (PDict (rr_params r)))),
        (''output_metrics_snapshot'', PStr (json_dumps (PDict [(''status'', PStr (stage_status_value (rr_status r))),
            (''error'', PStr (rr_error r)), (''run_uuid'', PStr (rr_uuid r))]))),
        (''artifact_refs'', PStr (json_dumps (PList (case rr_log r of None \<Rightarrow> [] | Some p \<Rightarrow> [PStr p])))),
        (''root_cause_inference_id'', infer), (''recommendation'', PStr []), (''approval_status'', PStr ''pending'')])
       (\<lambda>_. yields ()))"

record decision =
  dc_session :: pyval
  dc_source :: pyval
  dc_target :: pyval
  dc_reason :: string
  dc_structured :: pyval
  dc_inference :: pyval
  dc_case :: pyval
  dc_rule :: pyval
  dc_approved :: bool

definition record_decision_trace :: "store_env \<Rightarrow> decision \<Rightarrow> database \<Rightarrow> (db_exc, unit) result \<times> database" where
  "record_decision_trace env d =
     with_db (andthen (insert_into env ''decision_trace''
       [(''session_id'', dc_session d), (''source_run_id'', dc_source d), (''target_run_id'', dc_target d),
        (''inference_id'', dc_inference d), (''case_id'', dc_case d), (''rule_id'', dc_rule d),
        (''llm_reason'', PStr (dc_reason d)),
        (''llm_reason_structured'', PStr (json_dumps
           (if dc_structured d \<noteq> PNone then dc_structured d
            else if dc_reason d = [] then PNone
            else PDict [(''kind'', PStr ''text''), (''text'', PStr (dc_reason d))]))),
        (''human_approved'', PBool (dc_approved d))]) (\<lambda>_. yields ()))"

end
