(* ===== verification/RunStoreLemmas.thy ===== *)
theory RunStoreLemmas
  imports RunStore
begin

text \<open>
  Invariants of the database under the persistence functions: the locale \<open>store_invariant\<close> names
  what a statement and a rollback have to keep, and every function keeps it then (\<open>insert_invariant\<close> for those that only
  insert). It is interpreted
  for the integrity of the foreign keys and for the declarations of the tables.
\<close>

section \<open>Statements\<close>

lemma build_row_keys: "build_row now t given cs = Inr r \<Longrightarrow> dkeys r = map col_name cs"
  by (induction cs arbitrary: r) (auto simp: ok_bind_eq_Inr split: if_splits)

lemma build_row_value:
  "build_row now t given cs = Inr r \<Longrightarrow> distinct (map col_name cs) \<Longrightarrow> c \<in> set cs \<Longrightarrow>
   raw_value now t given c = Inr (pget r (col_name c)) \<and> (nullable c \<or> \<not> is_null now given c)"
proof (induction cs arbitrary: r)
  case (Cons d cs)
  then obtain v r' where r: "raw_value now t given d = Inr v" "build_row now t given cs = Inr r'" "r = (col_name d, v) # r'"
    "nullable d \<or> \<not> is_null now given d"
    by (auto simp: ok_bind_eq_Inr split: if_splits)
  show ?case
  proof (cases "c = d")
    case False
    with Cons.prems have "c \<in> set cs" by simp
    moreover from this have "col_name c \<in> set (map col_name cs)" by simp
    with Cons.prems have "col_name c \<noteq> col_name d" by auto
    ultimately have "col_name c \<noteq> col_name d" "c \<in> set cs" by simp_all
    with Cons.IH [OF r(2)] Cons.prems r(3) show ?thesis by (simp add: pget_def)
  qed (use r in \<open>simp add: pget_def\<close>)
qed simp

lemma build_row_refused:
  "c \<in> set cs \<Longrightarrow> \<not> nullable c \<Longrightarrow> is_null now given c \<Longrightarrow> \<exists>e. build_row now t given cs = Inl e"
proof (induction cs)
  case (Cons d cs)
  then show ?case by (cases "raw_value now t given d") (auto simp: ok_bind_def)
qed simp

lemma insert_sqlD:
  assumes "insert_sql now n given db = Inr (r, db')"
  shows "\<exists>t. find_table db n = Some t \<and> set (dkeys given) \<subseteq> set (column_names t) \<and> build_row now t given (columns t) = Inr r \<and>
    \<not> clashes t r \<and> db' = change_table n (add_row r) db \<and> parents_exist db' t r"
  using assms by (auto simp: insert_sql_def ok_bind_eq_Inr Let_def split: option.splits if_splits)

lemma add_row_frame [simp]:
  "tab_name (add_row r t) = tab_name t" "columns (add_row r t) = columns t" "uniques (add_row r t) = uniques t"
  "fkeys (add_row r t) = fkeys t" "indexes (add_row r t) = indexes t" "rows (add_row r t) = rows t @ [r]"
  "column_names (add_row r t) = column_names t"
  by (simp_all add: add_row_def column_names_def)

lemma update_rows_frame [simp]:
  "tab_name (update_rows wh f t) = tab_name t" "columns (update_rows wh f t) = columns t"
  "uniques (update_rows wh f t) = uniques t" "fkeys (update_rows wh f t) = fkeys t"
  "indexes (update_rows wh f t) = indexes t" "column_names (update_rows wh f t) = column_names t"
  by (simp_all add: update_rows_def column_names_def)

lemma update_sqlD:
  assumes "update_sql n wh f db = Inr (x, db')"
  shows "\<exists>t. find_table db n = Some t \<and> db' = change_table n (update_rows wh f) db \<and>
    (\<forall>r \<in> set (rows t). wh r \<longrightarrow> cast_row t (f r) \<noteq> None \<and> parents_exist db' t (updated t f r))"
  using assms by (auto simp: update_sql_def Let_def list_ex_iff list_all_iff split: option.splits if_splits)

lemma all_some_map: "all_some (map f xs) = Some ys \<Longrightarrow> list_all2 (\<lambda>x y. f x = Some y) xs ys"
  by (induction xs arbitrary: ys) (auto split: Option.bind_splits)

lemma cast_row_keys:
  assumes "cast_row t given = Some new"
  shows "dkeys new = dkeys given" "set (dkeys given) \<subseteq> set (column_names t)"
proof -
  let ?f = "\<lambda>(k, v). case find (\<lambda>c. col_name c = k) (columns t) of None \<Rightarrow> None | Some c \<Rightarrow> map_option (Pair k) (cast_to (col_type c) v)"
  have one: "?f x = Some y \<Longrightarrow> fst y = fst x \<and> fst x \<in> set (column_names t)" for x y
    by (auto simp: column_names_def find_Some_iff split: option.splits prod.splits)
  have "list_all2 (\<lambda>x y. ?f x = Some y) given new" using assms unfolding cast_row_def by (rule all_some_map)
  then show "dkeys new = dkeys given" "set (dkeys given) \<subseteq> set (column_names t)"
  proof (induction rule: list_all2_induct)
    case (Cons x xs y ys)
    { case 1 show ?case using Cons one by simp }
    { case 2 show ?case using Cons one by auto }
  qed simp_all
qed

lemma dkeys_updated:
  assumes "dkeys r = column_names t"
  shows "dkeys (updated t f r) = dkeys r"
proof (cases "cast_row t (f r)")
  case (Some new)
  have k: "dkeys new = dkeys (f r)" "set (dkeys (f r)) \<subseteq> set (dkeys r)" using cast_row_keys [OF Some] assms by simp_all
  then have "set (dkeys new) \<subseteq> set (dkeys r)" by simp
  then have "dkeys (dupdate r new) = dkeys r"
  proof (induction new arbitrary: r)
    case (Cons p new)
    obtain k v where p: "p = (k, v)" by (cases p)
    have s: "dkeys (dset k v r) = dkeys r" using Cons.prems p by (intro dkeys_dset_present) auto
    with Cons.IH [of "dset k v r"] Cons.prems p show ?case by (simp add: dupdate_Cons)
  qed simp
  with Some show ?thesis by (simp add: updated_def)
qed (simp add: updated_def)

section \<open>Rollbacks\<close>

text \<open>Two databases that differ in the numbers drawn only.\<close>

definition same_table :: "table \<Rightarrow> table \<Rightarrow> bool" where
  "same_table t u \<longleftrightarrow> u = t\<lparr>next_id := next_id u\<rparr>"

definition same_data :: "database \<Rightarrow> database \<Rightarrow> bool" where
  "same_data db db' \<longleftrightarrow> list_all2 same_table db db'"

lemma same_tableD:
  "same_table t u \<Longrightarrow> tab_name u = tab_name t \<and> columns u = columns t \<and> uniques u = uniques t \<and> fkeys u = fkeys t \<and>
     indexes u = indexes t \<and> rows u = rows t \<and> column_names u = column_names t"
  unfolding same_table_def column_names_def by (metis table.select_convs(1,2,3,4,5,6) table.surjective table.update_convs(7))

lemma same_data_rollback: "same_data db (rolled_back db new)"
  unfolding same_data_def rolled_back_def list_all2_map2
  by (rule list_all2_refl) (auto simp: same_table_def split: option.split)

lemma same_data_find:
  "same_data db db' \<Longrightarrow> rel_option same_table (find_table db n) (find_table db' n)"
  unfolding same_data_def find_table_def by (induction rule: list_all2_induct) (auto dest: same_tableD)

lemma same_data_rows: "same_data db db' \<Longrightarrow> rows_of db' n = rows_of db n"
  using same_data_find [of db db' n] by (auto simp: rows_of_def option_rel_Some1 option_rel_Some2 dest: same_tableD
    elim: option.rel_cases split: option.splits)


section \<open>Actions\<close>

text \<open>An action keeps a property of the database it works on.\<close>

definition keeps :: "(database \<Rightarrow> bool) \<Rightarrow> ('e, 'a) action \<Rightarrow> bool" where
  "keeps I m \<longleftrightarrow> (\<forall>s. I (work s) \<longrightarrow> I (work (snd (m s))))"

named_theorems keeps_intros "an action keeps a property when its parts do"

lemma keeps_yields [keeps_intros]: "keeps I (yields x)"
  by (simp add: keeps_def yields_def)

lemma keeps_raises [keeps_intros]: "keeps I (raises e)"
  by (simp add: keeps_def raises_def)

lemma keeps_andthen [keeps_intros]: "keeps I m \<Longrightarrow> (\<And>x. keeps I (f x)) \<Longrightarrow> keeps I (andthen m f)"
  by (fastforce simp: keeps_def andthen_def split: prod.splits sum.splits)

lemma keeps_attempt [keeps_intros]: "keeps I m \<Longrightarrow> keeps I (attempt m)"
  by (fastforce simp: keeps_def attempt_def split: prod.splits)

lemma keeps_each [keeps_intros]: "(\<And>x. keeps I (f x)) \<Longrightarrow> keeps I (each f xs)"
  by (induction xs) (simp_all add: keeps_yields keeps_andthen)

lemma keeps_if [keeps_intros]: "keeps I a \<Longrightarrow> keeps I b \<Longrightarrow> keeps I (if c then a else b)"
  by simp

lemma keeps_case_option [keeps_intros]: "keeps I a \<Longrightarrow> (\<And>x. keeps I (f x)) \<Longrightarrow> keeps I (case x of None \<Rightarrow> a | Some x \<Rightarrow> f x)"
  by (cases x) simp_all

lemma keeps_case_list [keeps_intros]: "keeps I a \<Longrightarrow> (\<And>x xs. keeps I (f x xs)) \<Longrightarrow> keeps I (case xs of [] \<Rightarrow> a | x # xs \<Rightarrow> f x xs)"
  by (cases xs) simp_all

lemma keeps_exec: "(\<And>db x db'. I db \<Longrightarrow> stmt db = Inr (x, db') \<Longrightarrow> I db') \<Longrightarrow> keeps I (exec stmt)"
  by (auto simp: keeps_def exec_def split: sum.splits prod.splits)

lemma keeps_select [keeps_intros]: "keeps I (exec (select_sql n wh))"
  by (rule keeps_exec) (auto simp: select_sql_def split: option.splits)

text \<open>The columns other tables refer to are not assigned by the updates.\<close>

definition key_columns :: "string set" where
  "key_columns = {''id'', ''rule_id''}"

locale insert_invariant =
  fixes I :: "database \<Rightarrow> bool"
  assumes insert_keeps: "I db \<Longrightarrow> insert_sql now n given db = Inr (r, db') \<Longrightarrow> I db'"
    and same_data_keeps: "I db \<Longrightarrow> same_data db db' \<Longrightarrow> I db'"
begin

lemma keeps_insert [keeps_intros]: "keeps I (insert_into env n given)"
  unfolding insert_into_def by (rule keeps_exec) (auto intro: insert_keeps)

lemma with_db_keeps: "keeps I m \<Longrightarrow> I db \<Longrightarrow> I (snd (with_db m db))"
proof -
  assume m: "keeps I m" and db: "I db"
  have old: "I (rolled_back db new)" for new by (rule same_data_keeps [OF db same_data_rollback])
  obtain x s where s: "m \<lparr>work = db, aborted = False\<rparr> = (x, s)" by (cases "m \<lparr>work = db, aborted = False\<rparr>")
  from m [unfolded keeps_def, rule_format, of "\<lparr>work = db, aborted = False\<rparr>"] db s have "I (work s)" by simp
  with old s show ?thesis by (auto simp: with_db_def split: sum.split)
qed

lemma keeps_find_or_insert [keeps_intros]: "keeps I (find_or_insert env n wh given)"
  unfolding find_or_insert_def by (intro keeps_intros)

lemma keeps_upsert_run [keeps_intros]: "keeps I (upsert_run env r d ctx)"
  unfolding upsert_run_def backend_id_def design_id_def by (intro keeps_intros)

lemma keeps_artifact [keeps_intros]: "keeps I (upsert_artifact env run rp)"
  unfolding upsert_artifact_def by (intro keeps_intros)

lemma keeps_hotspot [keeps_intros]: "keeps I (insert_hotspot env given)"
  unfolding insert_hotspot_def by (intro keeps_intros keeps_exec) (auto intro: insert_keeps split: if_splits)

lemma keeps_ingest_record [keeps_intros]: "keeps I (ingest_record env run rec)"
  unfolding ingest_record_def Let_def by (intro keeps_intros)

lemma keeps_ingest_report [keeps_intros]: "keeps I (ingest_report env run rp)"
  unfolding ingest_report_def by (intro keeps_intros)

lemma save_run_keeps: "I db \<Longrightarrow> I (snd (save_run_and_parse env r d reports ctx db))"
  unfolding save_run_and_parse_def by (intro with_db_keeps keeps_intros)

lemma create_flow_session_keeps: "I db \<Longrightarrow> I (snd (create_flow_session env uuid snap d obj notes db))"
  unfolding create_flow_session_def design_id_def by (intro with_db_keeps keeps_intros)

lemma stage_outcome_keeps: "I db \<Longrightarrow> I (snd (record_stage_outcome env run stage r infer db))"
  unfolding record_stage_outcome_def by (intro with_db_keeps keeps_intros)

lemma decision_trace_keeps: "I db \<Longrightarrow> I (snd (record_decision_trace env d db))"
  unfolding record_decision_trace_def by (intro with_db_keeps keeps_intros)

end

locale store_invariant = insert_invariant +
  assumes update_keeps: "I db \<Longrightarrow> (\<And>r. set (dkeys (f r)) \<inter> key_columns = {}) \<Longrightarrow> update_sql n wh f db = Inr (x, db') \<Longrightarrow> I db'"
begin

lemma keeps_update: "(\<And>r. set (dkeys (f r)) \<inter> key_columns = {}) \<Longrightarrow> keeps I (exec (update_sql n wh f))"
  by (rule keeps_exec) (rule update_keeps)

lemma update_status_keeps: "I db \<Longrightarrow> I (snd (update_flow_session_status env sid status base db))"
  unfolding update_flow_session_status_def
  by (intro with_db_keeps keeps_intros keeps_update) (auto simp: key_columns_def)

lemma set_inference_context_keeps: "I db \<Longrightarrow> I (snd (set_inference_context env sid infer cas rule db))"
proof (cases "infer = PNone \<and> cas = PNone \<and> rule = PNone")
  case False
  assume "I db"
  with False show ?thesis unfolding set_inference_context_def if_not_P [OF False]
    by (intro with_db_keeps keeps_intros keeps_update) (auto simp: key_columns_def Let_def)
qed (simp add: set_inference_context_def)

lemma set_context_from_run_keeps:
  assumes "I db"
  shows "I (snd (set_context_from_run env run infer cas rule db))"
proof -
  have "I (snd (with_db (exec (select_sql ''runs'' (\<lambda>r. pget r ''id'' = run))) db))" by (rule with_db_keeps [OF keeps_select assms])
  then show ?thesis
    unfolding set_context_from_run_def by (auto intro: set_inference_context_keeps split: prod.splits sum.splits list.split)
qed

end

section \<open>Referential integrity\<close>

definition integrity :: "database \<Rightarrow> bool" where
  "integrity db \<longleftrightarrow> wf_database db \<and> (\<forall>t \<in> set db. \<forall>k \<in> set (fkeys t). fk_target k \<in> key_columns) \<and>
     (\<forall>t \<in> set db. \<forall>r \<in> set (rows t). parents_exist db t r)"

lemma parents_cong: "fkeys u = fkeys t \<Longrightarrow> parents_exist db u r = parents_exist db t r"
  by (simp add: parents_exist_def)

lemma parents_mono:
  assumes "parents_exist db t r" "\<And>n c v. c \<in> key_columns \<Longrightarrow> has_value db n c v \<Longrightarrow> has_value db' n c v"
    and "\<forall>k \<in> set (fkeys t). fk_target k \<in> key_columns"
  shows "parents_exist db' t r"
  using assms by (auto simp: parents_exist_def list_all_iff)

text \<open>One table gets new contents.\<close>

lemma integrity_change:
  assumes "integrity db" "find_table db n = Some t" "\<And>t. tab_name (f t) = tab_name t" "\<And>t. column_names (f t) = column_names t"
    and "wf_table (f t)" "fkeys (f t) = fkeys t"
    and keep: "\<And>c v. c \<in> key_columns \<Longrightarrow> list_ex (\<lambda>r. pget r c = v) (rows t) \<Longrightarrow> list_ex (\<lambda>r. pget r c = v) (rows (f t))"
    and new: "\<And>r. r \<in> set (rows (f t)) \<Longrightarrow> r \<in> set (rows t) \<or> parents_exist (change_table n f db) t r"
  shows "integrity (change_table n f db)"
proof -
  let ?db' = "change_table n f db"
  note i = assms(1) [unfolded integrity_def]
  have only: "u = t" if "u \<in> set db" "tab_name u = n" for u
    using find_table_same [of db u] that assms(2) i by (auto simp: wf_database_def)
  have t: "t \<in> set db" using find_table_SomeD [OF assms(2)] by simp
  have h: "has_value ?db' m c v" if "c \<in> key_columns" "has_value db m c v" for m c v
    using that assms(2) keep [OF that(1)] by (auto simp: has_value_def find_table_change [OF assms(3)] split: option.splits)
  have "parents_exist ?db' u r \<and> (\<forall>k \<in> set (fkeys u). fk_target k \<in> key_columns)"
    if u: "u \<in> set ?db'" and r: "r \<in> set (rows u)" for u r
  proof -
    obtain v where v: "v \<in> set db" "u = (if tab_name v = n then f v else v)"
      using u unfolding change_table_def set_map by blast
    show ?thesis
    proof (cases "tab_name v = n")
      case True
      with v only have u: "u = f t" by auto
      from new [of r] r u have "parents_exist ?db' t r"
        using parents_mono [OF _ h, of db t r] i t by auto
      with u i t assms(6) parents_cong [OF assms(6)] show ?thesis by simp
    next
      case False
      with v r i have "parents_exist db u r" "\<forall>k \<in> set (fkeys u). fk_target k \<in> key_columns" by auto
      with parents_mono [OF _ h, of db u r] show ?thesis by auto
    qed
  qed
  moreover have "wf_database ?db'"
    by (rule wf_change [OF _ assms(2,3)]) (use i assms(4,5,6) in auto)
  moreover have "fk_target k \<in> key_columns" if "u \<in> set ?db'" "k \<in> set (fkeys u)" for u k
    using that i assms(6) only by (auto simp: change_table_def)
  ultimately show ?thesis by (simp add: integrity_def)
qed

lemma integrity_insert:
  assumes "integrity db" "insert_sql now n given db = Inr (r, db')"
  shows "integrity db'"
proof -
  obtain t where t: "find_table db n = Some t" "build_row now t given (columns t) = Inr r"
      "db' = change_table n (add_row r) db" "parents_exist db' t r"
    using insert_sqlD [OF assms(2)] by blast
  have "wf_table t" using assms(1) find_table_SomeD [OF t(1)] by (auto simp: integrity_def wf_database_def)
  moreover have "dkeys r = column_names t" using build_row_keys [OF t(2)] by (simp add: column_names_def)
  ultimately have "wf_table (add_row r t)" by (auto simp: wf_table_def table_columns_ok_def)
  with integrity_change [OF assms(1) t(1), of "add_row r"] t(3,4) show ?thesis by auto
qed

lemma pget_updated_key:
  assumes "set (dkeys (f r)) \<inter> key_columns = {}" "c \<in> key_columns"
  shows "pget (updated t f r) c = pget r c"
proof (cases "cast_row t (f r)")
  case (Some new)
  have "c \<notin> set (dkeys new)" using cast_row_keys(1) [OF Some] assms by auto
  with Some show ?thesis by (simp add: updated_def pget_def dget_dupdate_absent)
qed (simp add: updated_def)

lemma integrity_update:
  assumes "integrity db" "\<And>r. set (dkeys (f r)) \<inter> key_columns = {}" "update_sql n wh f db = Inr (x, db')"
  shows "integrity db'"
proof -
  obtain t where t: "find_table db n = Some t" "db' = change_table n (update_rows wh f) db"
      "\<forall>r \<in> set (rows t). wh r \<longrightarrow> parents_exist db' t (updated t f r)"
    using update_sqlD [OF assms(3)] by blast
  have w: "wf_table t" using assms(1) find_table_SomeD [OF t(1)] by (auto simp: integrity_def wf_database_def)
  then have "dkeys (updated t f r) = column_names t" if "r \<in> set (rows t)" for r
    using dkeys_updated [of r t f] that by (simp add: wf_table_def)
  with w have "wf_table (update_rows wh f t)"
    by (auto simp: wf_table_def table_columns_ok_def) (auto simp: update_rows_def split: if_splits)
  moreover have "list_ex (\<lambda>r. pget r c = v) (rows (update_rows wh f t))" if c: "c \<in> key_columns" "list_ex (\<lambda>r. pget r c = v) (rows t)" for c v
  proof -
    obtain r where r: "r \<in> set (rows t)" "pget r c = v" using c(2) by (auto simp: list_ex_iff)
    have "(if wh r then updated t f r else r) \<in> set (rows (update_rows wh f t))" using r(1) by (auto simp: update_rows_def)
    moreover have "pget (if wh r then updated t f r else r) c = v"
      using r(2) pget_updated_key [where f = f, OF assms(2) c(1)] by simp
    ultimately show ?thesis unfolding list_ex_iff by blast
  qed
  ultimately show ?thesis
    using t(3) unfolding t(2)
    by (intro integrity_change [OF assms(1) t(1)]) (auto simp: update_rows_def [of wh f t])
qed

lemma integrity_same_data:
  assumes "integrity db" "same_data db db'"
  shows "integrity db'"
proof -
  have names: "map tab_name db' = map tab_name db" using assms(2) unfolding same_data_def
    by (induction rule: list_all2_induct) (auto dest: same_tableD)
  have each: "\<exists>t \<in> set db. same_table t u" if "u \<in> set db'" for u
    using assms(2) that unfolding same_data_def by (fastforce simp: list_all2_conv_all_nth in_set_conv_nth)
  have h: "has_value db' n c v = has_value db n c v" for n c v
    using same_data_find [OF assms(2), of n] by (auto simp: has_value_def elim!: option.rel_cases dest: same_tableD)
  have d: "fkey_declared db' k = fkey_declared db k" for k
    using same_data_find [OF assms(2), of "fk_table k"] by (auto simp: fkey_declared_def elim!: option.rel_cases dest: same_tableD)
  have "wf_table u \<and> (\<forall>k \<in> set (fkeys u). fkey_declared db' k \<and> fk_target k \<in> key_columns) \<and>
      (\<forall>r \<in> set (rows u). parents_exist db' u r)" if u: "u \<in> set db'" for u
  proof -
    obtain t where t: "t \<in> set db" "same_table t u" using each [OF u] by blast
    note s = same_tableD [OF t(2)]
    have "wf_table t" "\<forall>k \<in> set (fkeys t). fkey_declared db k \<and> fk_target k \<in> key_columns" "\<forall>r \<in> set (rows t). parents_exist db t r"
      using assms(1) t(1) by (auto simp: integrity_def wf_database_def)
    then show ?thesis using s by (simp add: wf_table_def table_columns_ok_def d parents_exist_def h)
  qed
  then show ?thesis using assms(1) names by (auto simp: integrity_def wf_database_def)
qed

interpretation fk: store_invariant integrity
  by unfold_locales (rule integrity_insert integrity_update integrity_same_data; assumption)+

section \<open>Declarations\<close>

text \<open>The declarations of the tables, whatever is stored.\<close>

definition declarations :: "database \<Rightarrow> table list" where
  "declarations db = map (\<lambda>t. t\<lparr>rows := [], next_id := 1\<rparr>) db"

lemma declarations_change: "(\<And>t. (f t)\<lparr>rows := [], next_id := 1\<rparr> = t\<lparr>rows := [], next_id := 1\<rparr>) \<Longrightarrow>
   declarations (change_table n f db) = declarations db"
  by (simp add: declarations_def change_table_def)

lemma same_declaration: "same_table t u \<Longrightarrow> u\<lparr>rows := [], next_id := 1\<rparr> = t\<lparr>rows := [], next_id := 1\<rparr>"
  unfolding same_table_def by (cases t; cases u) simp

lemma declarations_same: "same_data db db' \<Longrightarrow> declarations db' = declarations db"
  unfolding same_data_def declarations_def
  by (induction rule: list_all2_induct) (simp_all add: same_declaration)

interpretation decl: store_invariant "\<lambda>db. declarations db = D"
proof
  show "declarations db' = D" if "declarations db = D" "insert_sql now n given db = Inr (r, db')" for db now n given r db'
    using that insert_sqlD [OF that(2)] by (auto simp: declarations_change add_row_def)
  show "declarations db' = D"
    if "declarations db = D" "\<And>r. set (dkeys (f r)) \<inter> key_columns = {}" "update_sql n wh f db = Inr (x, db')" for db f n wh x db'
    using that(1) update_sqlD [OF that(3)] by (auto simp: declarations_change update_rows_def)
  show "declarations db' = D" if "declarations db = D" "same_data db db'" for db db'
    using that declarations_same by simp
qed

lemma find_declared:
  "find_table db n = Some t \<Longrightarrow> find_table (declarations db) n = Some (t\<lparr>rows := [], next_id := 1\<rparr>)"
  by (induction db) (auto simp: find_table_def declarations_def)

section \<open>Rows that stay\<close>

definition stored :: "(string \<times> pyval) \<Rightarrow> database \<Rightarrow> bool" where
  "stored p db \<longleftrightarrow> (\<exists>r \<in> set (rows_of db (fst p)). pget r ''id'' = snd p)"

lemma rows_add_row: "set (rows_of db m) \<subseteq> set (rows_of (change_table n (add_row r) db) m)"
  by (cases "find_table db m") (auto simp: rows_of_def find_table_change)

interpretation stay: store_invariant "stored p"
proof
  show "stored p db'" if "stored p db" "insert_sql now n given db = Inr (r, db')" for db now n given r db'
  proof -
    have "db' = change_table n (add_row r) db" using insert_sqlD [OF that(2)] by blast
    with that(1) rows_add_row [of db "fst p" n r] show ?thesis unfolding stored_def by blast
  qed
  show "stored p db'"
    if s: "stored p db" "\<And>r. set (dkeys (f r)) \<inter> key_columns = {}" "update_sql n wh f db = Inr (x, db')" for db f n wh x db'
  proof -
    obtain r where r: "r \<in> set (rows_of db (fst p))" "pget r ''id'' = snd p" using s(1) by (auto simp: stored_def)
    obtain t where t: "find_table db n = Some t" "db' = change_table n (update_rows wh f) db" using update_sqlD [OF s(3)] by blast
    show ?thesis
    proof (cases "n = fst p")
      case True
      let ?r = "if wh r then updated t f r else r"
      have "?r \<in> set (rows_of db' (fst p))"
        using r(1) t True by (auto simp: rows_of_def find_table_change update_rows_def)
      moreover have "pget ?r ''id'' = snd p"
        using r(2) pget_updated_key [where f = f, OF s(2), of "''id''"] by (simp add: key_columns_def)
      ultimately show ?thesis unfolding stored_def by blast
    next
      case False
      with s(1) t(2) show ?thesis by (simp add: stored_def rows_of_def find_table_change)
    qed
  qed
  show "stored p db'" if "stored p db" "same_data db db'" for db db'
    using that by (simp add: stored_def same_data_rows)
qed

end
