(* ===== verification/RunStoreProps.thy ===== *)
theory RunStoreProps
  imports RunStoreLemmas
begin

text \<open>
  What the persistence of runs gives and where it fails: integrity of everything stored, the row of a
  saved run, and three ways to lose what should have been saved.
\<close>

section \<open>Integrity\<close>

inductive store_step :: "database \<Rightarrow> database \<Rightarrow> bool" where
  save_run: "store_step db (snd (save_run_and_parse env r d reports ctx db))"
| open_session: "store_step db (snd (create_flow_session env uuid snapshot d objective notes db))"
| session_status: "store_step db (snd (update_flow_session_status env sid status baseline db))"
| session_context: "store_step db (snd (set_inference_context env sid infer cas rule db))"
| run_context: "store_step db (snd (set_context_from_run env run infer cas rule db))"
| outcome: "store_step db (snd (record_stage_outcome env run stage r infer db))"
| trace: "store_step db (snd (record_decision_trace env d db))"

lemma step_keeps: "store_invariant I \<Longrightarrow> store_step db db' \<Longrightarrow> I db \<Longrightarrow> I db'"
  by (frule store_invariant.axioms(1), erule store_step.cases)
    (simp_all add: insert_invariant.save_run_keeps insert_invariant.create_flow_session_keeps store_invariant.update_status_keeps
      store_invariant.set_inference_context_keeps store_invariant.set_context_from_run_keeps insert_invariant.stage_outcome_keeps
      insert_invariant.decision_trace_keeps)

lemma steps_keep:
  assumes "store_invariant I" "store_step\<^sup>*\<^sup>* db db'" "I db"
  shows "I db'"
  using assms(2,3) by (induction rule: rtranclp_induct) (auto dest: step_keeps [OF assms(1)])

text \<open>
  Whatever sequence of persistence functions runs, with whatever failures: the foreign keys of
  every row lead to a stored row, the declarations stay, and no stored row is lost.
\<close>

theorem store_keeps_integrity:
  assumes "store_step\<^sup>*\<^sup>* db db'" "integrity db"
  shows "integrity db' \<and> declarations db' = declarations db \<and>
    (\<forall>n. \<forall>r \<in> set (rows_of db n). \<exists>r' \<in> set (rows_of db' n). pget r' ''id'' = pget r ''id'')"
proof -
  have "\<exists>r' \<in> set (rows_of db' n). pget r' ''id'' = pget r ''id''" if "r \<in> set (rows_of db n)" for n r
    using steps_keep [OF stay.store_invariant_axioms assms(1), of "(n, pget r ''id'')"] that by (auto simp: stored_def)
  with steps_keep [OF fk.store_invariant_axioms assms] steps_keep [OF decl.store_invariant_axioms assms(1) refl]
  show ?thesis by blast
qed

lemma integrity_empty_schema: "integrity (declared_tables True)"
  unfolding integrity_def by code_simp

theorem store_keeps_integrity_witness:
  "integrity (snd (create_flow_session \<lparr>se_now = PNone, se_postgis = True, se_wkt_ok = \<lambda>s. True\<rparr> ''u'' PNone
     \<lparr>ds_name = ''gcd'', ds_config = [], ds_pdk = ''asap7''\<rparr> [] [] (declared_tables True)))"
  using store_keeps_integrity [OF r_into_rtranclp [of store_step, OF open_session] integrity_empty_schema] by blast

section \<open>Aborted transactions\<close>

text \<open>In an aborted transaction an action changes nothing.\<close>

definition stuck :: "('e, 'a) action \<Rightarrow> bool" where
  "stuck m \<longleftrightarrow> (\<forall>s. aborted s \<longrightarrow> snd (m s) = s)"

named_theorems stuck_intros "an action changes nothing in an aborted transaction when its parts do not"

lemma stuck_exec [stuck_intros]: "stuck (exec stmt)"
  by (simp add: stuck_def exec_def)

lemma stuck_yields [stuck_intros]: "stuck (yields x)"
  by (simp add: stuck_def yields_def)

lemma stuck_raises [stuck_intros]: "stuck (raises e)"
  by (simp add: stuck_def raises_def)

lemma stuck_andthen [stuck_intros]: "stuck m \<Longrightarrow> (\<And>x. stuck (f x)) \<Longrightarrow> stuck (andthen m f)"
  by (fastforce simp: stuck_def andthen_def split: prod.splits sum.splits)

lemma stuck_attempt [stuck_intros]: "stuck m \<Longrightarrow> stuck (attempt m)"
  by (fastforce simp: stuck_def attempt_def split: prod.splits)

lemma stuck_each [stuck_intros]: "(\<And>x. stuck (f x)) \<Longrightarrow> stuck (each f xs)"
  by (induction xs) (simp_all add: stuck_yields stuck_andthen)

lemma stuck_if [stuck_intros]: "stuck a \<Longrightarrow> stuck b \<Longrightarrow> stuck (if c then a else b)"
  by simp

lemma stuck_case_option [stuck_intros]: "stuck a \<Longrightarrow> (\<And>x. stuck (f x)) \<Longrightarrow> stuck (case x of None \<Rightarrow> a | Some x \<Rightarrow> f x)"
  by (cases x) simp_all

lemma stuck_case_list [stuck_intros]: "stuck a \<Longrightarrow> (\<And>x xs. stuck (f x xs)) \<Longrightarrow> stuck (case xs of [] \<Rightarrow> a | x # xs \<Rightarrow> f x xs)"
  by (cases xs) simp_all

lemma stuck_upsert_run [stuck_intros]: "stuck (upsert_run env r d ctx)"
  unfolding upsert_run_def backend_id_def design_id_def find_or_insert_def insert_into_def by (intro stuck_intros)

lemma stuck_artifact [stuck_intros]: "stuck (upsert_artifact env run rp)"
  unfolding upsert_artifact_def insert_into_def by (intro stuck_intros)

lemma stuck_ingest_record [stuck_intros]: "stuck (ingest_record env run rec)"
  unfolding ingest_record_def Let_def insert_hotspot_def insert_into_def by (intro stuck_intros)

lemma stuck_ingest_report [stuck_intros]: "stuck (ingest_report env run rp)"
  unfolding ingest_report_def by (intro stuck_intros)

lemma aborted_stays: "stuck m \<Longrightarrow> aborted s \<Longrightarrow> aborted (snd (m s))"
  by (simp add: stuck_def)

text \<open>One part that always aborts, reached in every run, aborts the whole.\<close>

lemma each_attempt_ok: "fst (each (\<lambda>x. attempt (f x)) xs s) = Inr ()"
  by (induction xs arbitrary: s) (simp_all add: yields_def andthen_def attempt_def split: prod.split)

lemma each_attempt_Cons: "each (\<lambda>x. attempt (f x)) (y # ys) s = each (\<lambda>x. attempt (f x)) ys (snd (f y s))"
  by (simp add: andthen_def attempt_def split: prod.split)

lemma each_attempt_aborts:
  assumes "x \<in> set xs" "\<And>s. aborted (snd (f x s))" "\<And>x. stuck (f x)"
  shows "aborted (snd (each (\<lambda>x. attempt (f x)) xs s))"
  using assms(1)
proof (induction xs arbitrary: s)
  case (Cons y ys)
  show ?case unfolding each_attempt_Cons
  proof (cases "y = x")
    case True
    have "stuck (each (\<lambda>x. attempt (f x)) ys)" by (intro stuck_intros assms(3))
    then show "aborted (snd (each (\<lambda>x. attempt (f x)) ys (snd (f y s))))"
      using aborted_stays [of _ "snd (f y s)"] assms(2) True by simp
  next
    case False
    then show "aborted (snd (each (\<lambda>x. attempt (f x)) ys (snd (f y s))))" using Cons by simp
  qed
qed simp

lemma each_reaches:
  assumes "x \<in> set xs" "\<And>s. aborted (snd (f x s))" "\<And>x. stuck (f x)"
    and "\<And>y s. y \<in> set xs \<Longrightarrow> fst (f y s) = Inr () \<or> aborted (snd (f y s))"
  shows "aborted (snd (each f xs s))"
  using assms(1,4)
proof (induction xs arbitrary: s)
  case (Cons y ys)
  obtain v s' where y: "f y s = (v, s')" by (cases "f y s")
  show ?case
  proof (cases v)
    case (Inl e)
    with Cons.prems(2) [of y s] y show ?thesis by (simp add: andthen_def)
  next
    case (Inr u)
    have "aborted (snd (each f ys s'))"
    proof (cases "y = x")
      case True
      with assms(2) [of s] y have "aborted s'" by simp
      then show ?thesis using aborted_stays [OF stuck_each [of f, OF assms(3)]] by blast
    next
      case False
      with Cons.prems(1) have "x \<in> set ys" by simp
      then show ?thesis by (rule Cons.IH) (use Cons.prems(2) in simp)
    qed
    with Inr y show ?thesis by (simp add: andthen_def)
  qed
qed simp

lemma with_db_loses:
  assumes "m \<lparr>work = db, aborted = False\<rparr> = (v, s)" "(\<exists>e. v = Inl e) \<or> aborted s"
  shows "fst (with_db m db) = v \<and> same_data db (snd (with_db m db))"
  using assms by (auto simp: with_db_def same_data_rollback split: sum.split)

text \<open>A record fails in the database only, unless it is a hotspot without a geometry.\<close>

definition sound :: "('e, 'a) action \<Rightarrow> bool" where
  "sound m \<longleftrightarrow> (\<forall>s. (\<exists>x. fst (m s) = Inr x) \<or> aborted (snd (m s)))"

lemma sound_exec: "sound (exec stmt)"
  by (auto simp: sound_def exec_def split: sum.split)

lemma sound_yields: "sound (yields x)"
  by (simp add: sound_def yields_def)

lemma sound_andthen:
  assumes "sound m" "\<And>x. sound (f x)"
  shows "sound (andthen m f)"
  unfolding sound_def
proof
  fix s
  obtain v s' where m: "m s = (v, s')" by (cases "m s")
  show "(\<exists>x. fst (andthen m f s) = Inr x) \<or> aborted (snd (andthen m f s))"
  proof (cases v)
    case (Inl e)
    with assms(1) [unfolded sound_def, rule_format, of s] m show ?thesis by (simp add: andthen_def)
  next
    case (Inr x)
    with assms(2) [unfolded sound_def, rule_format, of x s'] m show ?thesis by (simp add: andthen_def)
  qed
qed

lemma sound_record:
  assumes "pget rec ''kind'' = PStr ''hotspot'' \<longrightarrow> has_key rec ''wkt''"
  shows "sound (ingest_record env run rec)"
  using assms unfolding ingest_record_def Let_def has_key_def insert_into_def insert_hotspot_def
  by (auto intro!: sound_exec sound_yields sound_andthen)

lemma bad_geometry_aborts:
  assumes "se_postgis env" "\<not> se_wkt_ok env wkt" "pget rec ''kind'' = PStr ''hotspot''" "dget rec ''wkt'' = Some (PStr wkt)"
  shows "aborted (snd (ingest_record env run rec s))"
  using assms
  by (simp add: ingest_record_def Let_def insert_hotspot_def andthen_def exec_def yields_def pget_def split: prod.split sum.split)

text \<open>
  One geometry the database does not accept, in any report, and nothing is stored: neither the
  run nor its artifacts nor any metric; the function returns the id of the run all the same.
\<close>

theorem failed_report_loses_run:
  assumes "rr_status r = StSuccess" "rp \<in> set rps" "rp_records rp = Some recs" "rec \<in> set recs"
    and "se_postgis env" "\<not> se_wkt_ok env wkt" "pget rec ''kind'' = PStr ''hotspot''" "dget rec ''wkt'' = Some (PStr wkt)"
    and "list_all (\<lambda>x. pget x ''kind'' = PStr ''hotspot'' \<longrightarrow> has_key x ''wkt'') recs"
  shows "same_data db (snd (save_run_and_parse env r d (Some (Some rps)) ctx db)) \<and>
    fst (save_run_and_parse env r d (Some (Some rps)) ctx db) = fst (with_db (upsert_run env r d ctx) db)"
proof -
  let ?s = "\<lparr>work = db, aborted = False\<rparr>"
  let ?body = "\<lambda>run. andthen (attempt (each (upsert_artifact env run) rps)) (\<lambda>_.
    andthen (each (\<lambda>rp. attempt (ingest_report env run rp)) rps) (\<lambda>_. yields run))"
  have rep: "aborted (snd (ingest_report env run rp s))" for run s
  proof -
    have "fst (ingest_record env run y s) = Inr () \<or> aborted (snd (ingest_record env run y s))" if "y \<in> set recs" for y s
      using sound_record [of y env run] assms(9) that by (auto simp: list_all_iff sound_def)
    then show ?thesis unfolding ingest_report_def assms(3) option.case
      by (intro each_reaches [OF assms(4)] bad_geometry_aborts [OF assms(5-8)] stuck_ingest_record)
  qed
  have body: "fst (?body run s) = Inr run \<and> aborted (snd (?body run s))" for run s
    using each_attempt_ok [of "ingest_report env run" rps]
      each_attempt_aborts [of rp rps "ingest_report env run", OF assms(2) rep stuck_ingest_report]
    by (auto simp: andthen_def attempt_def yields_def split: prod.split sum.split) (metis fst_conv snd_conv sum.distinct(1))+
  obtain v s where u: "upsert_run env r d ctx ?s = (v, s)" by (cases "upsert_run env r d ctx ?s")
  have save: "save_run_and_parse env r d (Some (Some rps)) ctx db = with_db (andthen (upsert_run env r d ctx) ?body) db"
    unfolding save_run_and_parse_def using assms(1) by simp
  obtain v' s' where m: "andthen (upsert_run env r d ctx) ?body ?s = (v', s')" by (meson surj_pair)
  have "v' = v \<and> ((\<exists>e. v' = Inl e) \<or> aborted s')"
    using m u body by (cases v) (auto simp: andthen_def [of "upsert_run env r d ctx"] split: prod.splits, (metis fst_conv snd_conv)+)
  then have "v' = v" and lost: "(\<exists>e. v' = Inl e) \<or> aborted s'" by blast+
  from m lost have "fst (with_db (andthen (upsert_run env r d ctx) ?body) db) = v' \<and>
      same_data db (snd (with_db (andthen (upsert_run env r d ctx) ?body) db))"
    by (rule with_db_loses)
  moreover have "fst (with_db (upsert_run env r d ctx) db) = v"
    using u by (auto simp: with_db_def split: sum.split)
  ultimately show ?thesis using \<open>v' = v\<close> unfolding save by simp
qed

text \<open>The declared tables with the defaults on the server, as the migrations give them.\<close>

definition on_server :: "column \<Rightarrow> column" where
  "on_server c = c\<lparr>server_default := (case client_default c of None \<Rightarrow> server_default c | Some v \<Rightarrow> Some (Value v))\<rparr>"

definition served_tables :: database where
  "served_tables = map (\<lambda>t. t\<lparr>columns := map on_server (columns t)\<rparr>) (declared_tables True)"

lemma as_declared_iff:
  "as_declared db \<longleftrightarrow> list_all (\<lambda>d. case find_table db (tab_name d) of None \<Rightarrow> False | Some m \<Rightarrow> matches d m) (declared_tables True)"
  by (fastforce simp: as_declared_def list_all_iff split: option.splits)

lemma served_as_declared: "as_declared served_tables"
  unfolding as_declared_iff by code_simp

lemma served_integrity: "integrity served_tables"
  unfolding integrity_def by code_simp

definition some_env :: store_env where
  "some_env = \<lparr>se_now = PStr ''2024-01-01'', se_postgis = True, se_wkt_ok = (\<lambda>s. s = ''POINT(0 0)'')\<rparr>"

definition some_run :: "stage_status \<Rightarrow> run_result" where
  "some_run st = \<lparr>rr_uuid = ''u1'', rr_backend = ''orfs'', rr_design = ''gcd'', rr_stage = ''route'', rr_status = st,
     rr_started = ''2024-01-01'', rr_finished = ''2024-01-01'', rr_log = None, rr_report_dir = None, rr_params = [], rr_error = []\<rparr>"

definition some_design :: design_spec where
  "some_design = \<lparr>ds_name = ''gcd'', ds_config = [], ds_pdk = ''asap7''\<rparr>"

definition some_report :: report_file where
  "some_report = \<lparr>rp_path = ''r.rpt'', rp_type = ''congestion'', rp_stage = ''route'', rp_size = None,
     rp_records = Some [[(''kind'', PStr ''hotspot''), (''wkt'', PStr ''POLYGON('')]]\<rparr>"

lemma some_run_saved: "fst (with_db (upsert_run some_env (some_run StSuccess) some_design []) served_tables) = Inr (PInt 1)"
  by code_simp

theorem failed_report_loses_run_witness:
  "let out = save_run_and_parse some_env (some_run StSuccess) some_design (Some (Some [some_report])) [] served_tables
   in fst out = Inr (PInt 1) \<and> rows_of (snd out) ''runs'' = []"
proof -
  let ?out = "save_run_and_parse some_env (some_run StSuccess) some_design (Some (Some [some_report])) [] served_tables"
  have "same_data served_tables (snd ?out) \<and> fst ?out = fst (with_db (upsert_run some_env (some_run StSuccess) some_design []) served_tables)"
    by (rule failed_report_loses_run [where rp = some_report and recs = "[[(''kind'', PStr ''hotspot''), (''wkt'', PStr ''POLYGON('')]]"
        and rec = "[(''kind'', PStr ''hotspot''), (''wkt'', PStr ''POLYGON('')]"
        and wkt = "''POLYGON(''"])
      (simp_all add: some_run_def some_report_def some_env_def pget_def has_key_def)
  moreover have "rows_of served_tables ''runs'' = []" by code_simp
  ultimately show ?thesis using some_run_saved same_data_rows [of served_tables "snd ?out" "''runs''"] by (simp add: Let_def)
qed

section \<open>Rules that were never learned\<close>

lemma as_declared_table:
  assumes "as_declared db" "d \<in> set (declared_tables True)"
  shows "\<exists>m. find_table db (tab_name d) = Some m \<and> matches d m"
  using assms by (auto simp: as_declared_def list_all_iff)

lemma matches_column:
  assumes "matches d m" "c \<in> set (columns d)"
  shows "\<exists>c' \<in> set (columns m). col_name c' = col_name c \<and> col_type c' = col_type c \<and> primary c' = primary c"
proof -
  let ?sig = "\<lambda>c. (col_name c, col_type c, primary c)"
  have "covers (map ?sig (columns m)) (map ?sig (columns d))" using assms(1) by (simp add: matches_def Let_def)
  then have "?sig c \<in> set (map ?sig (columns m))" using assms(2) by (simp add: covers_def list_all_iff)
  then show ?thesis by auto
qed

lemma matches_key:
  assumes "matches d m" "k \<in> set (fkeys d)"
  shows "\<exists>k' \<in> set (fkeys m). fk_col k' = fk_col k \<and> fk_table k' = fk_table k \<and> fk_target k' = fk_target k"
proof -
  let ?key = "\<lambda>k. (fk_col k, fk_table k, fk_target k, fk_delete k)"
  have "covers (map ?key (fkeys m)) (map ?key (fkeys d))" using assms(1) by (simp add: matches_def Let_def)
  then have "?key k \<in> set (map ?key (fkeys m))" using assms(2) by (simp add: covers_def list_all_iff)
  then show ?thesis by auto
qed

lemma inserted_value:
  assumes "insert_sql now n given db = Inr (r, db')" "find_table db n = Some t" "distinct (column_names t)"
    and "c \<in> set (columns t)" "dget given (col_name c) = Some v"
  shows "cast_to (col_type c) v = Some (pget r (col_name c)) \<and> (nullable c \<or> v \<noteq> PNone)"
proof -
  have "build_row now t given (columns t) = Inr r" using insert_sqlD [OF assms(1)] assms(2) by auto
  from build_row_value [OF this _ assms(4)] assms(3,5) show ?thesis
    by (auto simp: column_names_def raw_value_def is_null_def split: option.splits)
qed

lemma cast_str: "cast_to t (PStr s) = Some x \<Longrightarrow> t \<noteq> Json \<Longrightarrow> x = PStr s"
  by (cases t) (auto simp: cast_to_def split: if_splits)

lemma has_value_other:
  assumes "\<And>t. tab_name (f t) = tab_name t" "n \<noteq> m"
  shows "has_value (change_table n f db) m c v = has_value db m c v"
  using assms by (simp add: has_value_def find_table_change split: option.split)

lemma orphan_insert:
  assumes "insert_sql now n given db = Inr (r, db')" "integrity db" "find_table db n = Some t"
    and "k \<in> set (fkeys t)" "fk_table k \<noteq> n" "c \<in> set (columns t)" "col_name c = fk_col k" "col_type c \<noteq> Json"
    and "dget given (fk_col k) = Some (PStr v)"
  shows "has_value db (fk_table k) (fk_target k) (PStr v)"
proof -
  have d: "distinct (column_names t)" using assms(2,3) find_table_SomeD [OF assms(3)]
    by (auto simp: integrity_def wf_database_def wf_table_def table_columns_ok_def Let_def)
  have "pget r (fk_col k) = PStr v"
    using inserted_value [OF assms(1,3) d assms(6)] assms(7,8,9) cast_str by (metis (no_types, lifting))
  moreover have "parents_exist db' t r" "db' = change_table n (add_row r) db" using insert_sqlD [OF assms(1)] assms(3) by auto
  ultimately show ?thesis using assms(4,5) has_value_other [of "add_row r" n]
    by (fastforce simp: parents_exist_def list_all_iff)
qed

lemma orphan_update:
  assumes "update_sql n wh f db = Inr (x, db')" "find_table db n = Some t" "r \<in> set (rows t)" "wh r"
    and "k \<in> set (fkeys t)" "fk_table k \<noteq> n" "\<And>new. cast_row t (f r) = Some new \<Longrightarrow> pget (dupdate r new) (fk_col k) = PStr v"
  shows "has_value db (fk_table k) (fk_target k) (PStr v)"
proof -
  have u: "cast_row t (f r) \<noteq> None" "parents_exist db' t (updated t f r)" "db' = change_table n (update_rows wh f) db"
    using update_sqlD [OF assms(1)] assms(2,3,4) by auto
  then have "pget (updated t f r) (fk_col k) = PStr v" using assms(7) by (auto simp: updated_def)
  with u(2,3) assms(5,6) has_value_other [of "update_rows wh f" n] show ?thesis
    by (fastforce simp: parents_exist_def list_all_iff)
qed

lemma with_db_single:
  assumes "\<And>x db'. stmt db \<noteq> Inr (x, db')"
  shows "(\<exists>e. fst (with_db (andthen (exec stmt) f) db) = Inl e) \<and> same_data db (snd (with_db (andthen (exec stmt) f) db))"
proof -
  obtain e where "stmt db = Inl e" using assms by (cases "stmt db") auto
  then have "andthen (exec stmt) f \<lparr>work = db, aborted = False\<rparr> = (Inl (Sql e), \<lparr>work = db, aborted = True\<rparr>)"
    by (simp add: andthen_def exec_def)
  then have "fst (with_db (andthen (exec stmt) f) db) = Inl (Sql e) \<and> same_data db (snd (with_db (andthen (exec stmt) f) db))"
    by (rule with_db_loses) simp
  then show ?thesis by blast
qed

lemma no_matching_value:
  "\<lbrakk>has_value db n c v; \<forall>r \<in> set (rows_of db n). pget r c \<noteq> v\<rbrakk> \<Longrightarrow> False"
  by (auto simp: has_value_def rows_of_def list_ex_iff split: option.splits)

lemma cast_row_str:
  assumes "cast_row t given = Some new" "dget given k = Some (PStr v)" "distinct (dkeys given)"
    and "\<forall>c \<in> set (columns t). col_name c = k \<longrightarrow> col_type c \<noteq> Json"
  shows "pget (dupdate r new) k = PStr v"
proof -
  let ?f = "\<lambda>(k, v). case find (\<lambda>c. col_name c = k) (columns t) of None \<Rightarrow> None | Some c \<Rightarrow> map_option (Pair k) (cast_to (col_type c) v)"
  have one: "fst y = fst x \<and> (x = (k, PStr v) \<longrightarrow> y = (k, PStr v))" if "?f x = Some y" for x y
    using that assms(4) by (auto split: option.splits prod.splits dest!: cast_str simp: find_Some_iff)
  have "list_all2 (\<lambda>x y. ?f x = Some y) given new" using assms(1) unfolding cast_row_def by (rule all_some_map)
  then have "list_all2 (\<lambda>x y. fst y = fst x \<and> (x = (k, PStr v) \<longrightarrow> y = (k, PStr v))) given new"
    by (rule list_all2_mono) (rule one)
  then have "dget new k = Some (PStr v)" using assms(2)
    by (induction rule: list_all2_induct) (auto split: if_splits)
  moreover have "dkeys new = dkeys given" by (rule cast_row_keys(1) [OF assms(1)])
  ultimately show ?thesis using assms(3) by (simp add: pget_def dget_dupdate wf_dict_def)
qed

lemma matches_column_back:
  assumes "matches d m" "c \<in> set (columns m)"
  shows "\<exists>c' \<in> set (columns d). col_name c' = col_name c \<and> col_type c' = col_type c"
proof -
  let ?sig = "\<lambda>c. (col_name c, col_type c, primary c)"
  have "covers (map ?sig (columns d)) (map ?sig (columns m))" using assms(1) by (simp add: matches_def Let_def)
  then have "?sig c \<in> set (map ?sig (columns d))" using assms(2) by (simp add: covers_def list_all_iff)
  then show ?thesis by auto
qed

lemma rule_columns:
  assumes "as_declared db"
  shows "\<exists>t k c. find_table db ''decision_trace'' = Some t \<and> k \<in> set (fkeys t) \<and> c \<in> set (columns t) \<and>
      fk_col k = ''rule_id'' \<and> fk_table k = ''rule_weights'' \<and> fk_target k = ''rule_id'' \<and> col_name c = ''rule_id'' \<and> col_type c = Varchar 128"
    and "\<exists>t k. find_table db ''flow_sessions'' = Some t \<and> k \<in> set (fkeys t) \<and>
      fk_col k = ''last_rule_id'' \<and> fk_table k = ''rule_weights'' \<and> fk_target k = ''rule_id'' \<and> (\<forall>c \<in> set (columns t). col_name c = ''last_rule_id'' \<longrightarrow> col_type c \<noteq> Json)"
proof -
  have d: "table_decision_trace \<in> set (declared_tables True)" "table_flow_sessions \<in> set (declared_tables True)"
    by (simp_all add: declared_tables_def)
  obtain t where t: "find_table db ''decision_trace'' = Some t" "matches table_decision_trace t"
    using as_declared_table [OF assms d(1)] by (auto simp: table_decision_trace_def new_table_def)
  have "ref ''rule_id'' ''rule_weights'' ''rule_id'' SetNull \<in> set (fkeys table_decision_trace)"
      "col ''rule_id'' (Varchar 128) \<in> set (columns table_decision_trace)"
    by (simp_all add: table_decision_trace_def new_table_def)
  from matches_key [OF t(2) this(1)] matches_column [OF t(2) this(2)] t(1)
  show "\<exists>t k c. find_table db ''decision_trace'' = Some t \<and> k \<in> set (fkeys t) \<and> c \<in> set (columns t) \<and>
      fk_col k = ''rule_id'' \<and> fk_table k = ''rule_weights'' \<and> fk_target k = ''rule_id'' \<and> col_name c = ''rule_id'' \<and> col_type c = Varchar 128"
    by (auto simp: ref_def col_def)
  obtain t where t: "find_table db ''flow_sessions'' = Some t" "matches table_flow_sessions t"
    using as_declared_table [OF assms d(2)] by (auto simp: table_flow_sessions_def new_table_def)
  have "ref ''last_rule_id'' ''rule_weights'' ''rule_id'' SetNull \<in> set (fkeys table_flow_sessions)"
    by (simp add: table_flow_sessions_def new_table_def)
  moreover have "\<forall>c \<in> set (columns table_flow_sessions). col_name c = ''last_rule_id'' \<longrightarrow> col_type c \<noteq> Json"
    by (simp add: table_flow_sessions_def new_table_def col_def primary_key_def required_def client_def server_def)
  then have "\<forall>c \<in> set (columns t). col_name c = ''last_rule_id'' \<longrightarrow> col_type c \<noteq> Json"
    using matches_column_back [OF t(2)] by metis
  ultimately show "\<exists>t k. find_table db ''flow_sessions'' = Some t \<and> k \<in> set (fkeys t) \<and>
      fk_col k = ''last_rule_id'' \<and> fk_table k = ''rule_weights'' \<and> fk_target k = ''rule_id'' \<and> (\<forall>c \<in> set (columns t). col_name c = ''last_rule_id'' \<longrightarrow> col_type c \<noteq> Json)"
    using matches_key [OF t(2)] t(1) by (fastforce simp: ref_def)
qed

text \<open>
  C40: A decision, or the context of a session, that names a rule without a row of weights is
  refused as a whole: the call raises and nothing is stored. A rule has such a row only once a
  confirmation has set its weight.
\<close>

theorem unlearned_rule_blocks_trace:
  assumes "as_declared db" "integrity db" "\<forall>w \<in> set (rows_of db ''rule_weights''). pget w ''rule_id'' \<noteq> PStr rule"
    and "dc_rule d = PStr rule" "r \<in> set (rows_of db ''flow_sessions'')"
  shows "(\<exists>e. fst (record_decision_trace env d db) = Inl e) \<and> same_data db (snd (record_decision_trace env d db)) \<and>
    (\<exists>e. fst (set_inference_context env (pget r ''id'') infer cas (PStr rule) db) = Inl e) \<and>
    same_data db (snd (set_inference_context env (pget r ''id'') infer cas (PStr rule) db))"
proof -
  note absent = no_matching_value [OF _ assms(3)]
  have "(\<exists>e. fst (record_decision_trace env d db) = Inl e) \<and> same_data db (snd (record_decision_trace env d db))"
  proof -
    obtain t k c where k: "find_table db ''decision_trace'' = Some t" "k \<in> set (fkeys t)" "c \<in> set (columns t)"
        "fk_col k = ''rule_id''" "fk_table k = ''rule_weights''" "fk_target k = ''rule_id''" "col_name c = ''rule_id''"
        "col_type c = Varchar 128"
      using rule_columns(1) [OF assms(1)] by blast
    have "insert_sql now ''decision_trace'' given db \<noteq> Inr (x, db')" if "dget given ''rule_id'' = Some (PStr rule)" for now given x db'
      using orphan_insert [OF _ assms(2) k(1,2) _ k(3), of now given x db' rule] k(4-8) that absent by auto
    then show ?thesis unfolding record_decision_trace_def insert_into_def by (intro with_db_single) (simp add: assms(4))
  qed
  moreover have "(\<exists>e. fst (set_inference_context env (pget r ''id'') infer cas (PStr rule) db) = Inl e) \<and>
      same_data db (snd (set_inference_context env (pget r ''id'') infer cas (PStr rule) db))"
  proof -
    obtain t k where k: "find_table db ''flow_sessions'' = Some t" "k \<in> set (fkeys t)"
        "fk_col k = ''last_rule_id''" "fk_table k = ''rule_weights''" "fk_target k = ''rule_id''"
        "\<forall>c \<in> set (columns t). col_name c = ''last_rule_id'' \<longrightarrow> col_type c \<noteq> Json"
      using rule_columns(2) [OF assms(1)] by blast
    have r: "r \<in> set (rows t)" using assms(5) k(1) by (simp add: rows_of_def)
    have "update_sql ''flow_sessions'' wh f db \<noteq> Inr (x, db')"
      if f: "wh r" "dget (f r) ''last_rule_id'' = Some (PStr rule)" "distinct (dkeys (f r))" for wh f x db'
    proof
      assume u: "update_sql ''flow_sessions'' wh f db = Inr (x, db')"
      have "pget (dupdate r new) (fk_col k) = PStr rule" if "cast_row t (f r) = Some new" for new
        using cast_row_str [OF that f(2,3) k(6)] k(3) by simp
      then have "has_value db (fk_table k) (fk_target k) (PStr rule)"
        using orphan_update [where k = k, OF u k(1) r f(1) k(2)] k(4) by simp
      then show False using absent k(4,5) by simp
    qed
    then show ?thesis unfolding set_inference_context_def by (simp, intro with_db_single) simp
  qed
  ultimately show ?thesis by blast
qed

definition with_session :: database where
  "with_session = snd (create_flow_session some_env ''s1'' PNone some_design ''pnr'' [] served_tables)"

lemma with_session_rows:
  "list_ex (\<lambda>r. pget r ''id'' = PInt 1) (rows_of with_session ''flow_sessions'') \<and> rows_of with_session ''rule_weights'' = []"
  unfolding with_session_def by code_simp

lemma matches_rows: "matches d (t\<lparr>rows := a, next_id := b\<rparr>) = matches d t"
  by (simp add: matches_def)

lemma as_declared_declarations: "as_declared db \<Longrightarrow> declarations db' = declarations db \<Longrightarrow> as_declared db'"
proof -
  assume a: "as_declared db" "declarations db' = declarations db"
  have "\<exists>m'. find_table db' n = Some m' \<and> matches d m'" if m: "find_table db n = Some m" "matches d m" for n d m
  proof -
    have "find_table (declarations db') n \<noteq> None" using find_declared [OF m(1)] a(2) by simp
    then obtain m' where m': "find_table db' n = Some m'"
      by (induction db') (auto simp: find_table_def declarations_def split: if_splits)
    with find_declared [OF m'] find_declared [OF m(1)] a(2) have "m'\<lparr>rows := [], next_id := 1\<rparr> = m\<lparr>rows := [], next_id := 1\<rparr>" by simp
    with m(2) matches_rows m' show ?thesis by metis
  qed
  then show "as_declared db'" using a(1) unfolding as_declared_def list_all_iff by blast
qed

lemma with_session_kept: "as_declared with_session" "integrity with_session"
  unfolding with_session_def
  by (rule as_declared_declarations [OF served_as_declared], rule decl.create_flow_session_keeps, rule refl)
    (rule fk.create_flow_session_keeps [OF served_integrity])

theorem unlearned_rule_blocks_trace_witness:
  "\<exists>e. fst (set_inference_context some_env (PInt 1) PNone PNone (PStr ''R1'') with_session) = Inl e"
proof -
  obtain r where r: "r \<in> set (rows_of with_session ''flow_sessions'')" "pget r ''id'' = PInt 1"
    using with_session_rows by (auto simp: list_ex_iff)
  from unlearned_rule_blocks_trace [OF with_session_kept _ _ r(1), of "''R1''"
      "\<lparr>dc_session = PNone, dc_source = PNone, dc_target = PNone, dc_reason = [], dc_structured = PNone, dc_inference = PNone,
        dc_case = PNone, dc_rule = PStr ''R1'', dc_approved = False\<rparr>" some_env PNone PNone]
    r(2) with_session_rows show ?thesis by simp
qed

section \<open>Tables without server defaults\<close>

lemma insert_refused:
  assumes "find_table db n = Some t" "c \<in> set (columns t)" "\<not> nullable c" "is_null now given c"
  shows "insert_sql now n given db \<noteq> Inr (x, db')"
proof
  assume "insert_sql now n given db = Inr (x, db')"
  from insert_sqlD [OF this] assms(1) have "build_row now t given (columns t) = Inr x" by auto
  moreover obtain e where "build_row now t given (columns t) = Inl e" using build_row_refused [where t = t, OF assms(2-4)] by blast
  ultimately show False by simp
qed

lemma run_refused:
  assumes "declarations db = declared_tables p"
  shows "insert_sql now ''runs'' (run_columns r ctx bid did seq) db \<noteq> Inr (x, db')"
proof -
  have "find_table (declarations db) ''runs'' = Some table_runs"
    unfolding assms by (simp add: find_table_def declared_tables_def table_runs_def table_backends_def table_designs_def
      table_flow_sessions_def new_table_def)
  then obtain t where t: "find_table db ''runs'' = Some t"
    by (induction db) (auto simp: find_table_def declarations_def split: if_splits)
  from find_declared [OF this] \<open>find_table (declarations db) ''runs'' = Some table_runs\<close>
  have "columns t = columns table_runs" by (metis option.inject table.select_convs(2) table.surjective table.update_convs(6,7))
  then have "required (client (PStr []) (col ''git_hash'' (Varchar 128))) \<in> set (columns t)"
    by (simp add: table_runs_def new_table_def)
  then show ?thesis
    by (rule insert_refused [OF t]) (simp_all add: required_def client_def col_def is_null_def run_columns_def serial_def default_of_def)
qed

lemma andthen_raises:
  assumes "\<And>x. \<exists>e. fst (f x (snd (m s))) = Inl e"
  shows "\<exists>e. fst (andthen m f s) = Inl e"
proof -
  obtain v s' where m: "m s = (v, s')" by (meson surj_pair)
  with assms show ?thesis by (cases v) (simp_all add: andthen_def)
qed

lemma andthen_raises_first: "\<exists>e. fst (m s) = Inl e \<Longrightarrow> \<exists>e. fst (andthen m f s) = Inl e"
  by (auto simp: andthen_def split: prod.split)

text \<open>A run whose row is refused whatever backend and design get: the call raises.\<close>

lemma save_refused:
  assumes "insert_invariant I" "I db"
    and refused: "\<And>db' bid did seq x new. I db' \<Longrightarrow> insert_sql (se_now env) ''runs'' (run_columns r ctx bid did seq) db' \<noteq> Inr (x, new)"
  shows "(\<exists>e. fst (save_run_and_parse env r d reports ctx db) = Inl e) \<and>
    same_data db (snd (save_run_and_parse env r d reports ctx db))"
proof -
  let ?s = "\<lparr>work = db, aborted = False\<rparr>"
  let ?m = "andthen (upsert_run env r d ctx)"
  have raises: "\<exists>e. fst (upsert_run env r d ctx s) = Inl e" if "I (work s)" for s
  proof -
    let ?s1 = "snd (backend_id env (rr_backend r) s)"
    let ?s2 = "snd (design_id env d ?s1)"
    note k = insert_invariant.keeps_find_or_insert [OF assms(1), unfolded keeps_def]
    have "I (work ?s1)" unfolding backend_id_def using k that by blast
    then have "I (work ?s2)" unfolding design_id_def using k by blast
    from refused [OF this] have "\<exists>e. fst (insert_into env ''runs'' (run_columns r ctx bid did seq) ?s2) = Inl e" for bid did seq
      by (auto simp: insert_into_def exec_def split: sum.split)
    then show ?thesis
      unfolding upsert_run_def
      by (intro andthen_raises) (auto intro: andthen_raises_first simp: raises_def split: option.split)
  qed
  obtain v s where u: "upsert_run env r d ctx ?s = (v, s)" by (meson surj_pair)
  with raises [of ?s] assms(2) obtain e where "v = Inl e" by auto
  with u have m: "?m f ?s = (Inl e, s)" for f :: "pyval \<Rightarrow> (db_exc, pyval) action" by (simp add: andthen_def)
  have "fst (with_db (?m f) db) = Inl e \<and> same_data db (snd (with_db (?m f) db))" for f :: "pyval \<Rightarrow> (db_exc, pyval) action"
    by (rule with_db_loses [where m = "?m f" and s = s]) (simp_all add: m)
  then show ?thesis unfolding save_run_and_parse_def by blast
qed

text \<open>
  In a database made by \<open>create_all_tables\<close> no run is ever stored, whatever it holds: the textual
  statement leaves out columns that have a default in the mapper only.
\<close>

theorem create_all_stores_no_run:
  assumes "declarations db = declared_tables p"
  shows "(\<exists>e. fst (save_run_and_parse env r d reports ctx db) = Inl e) \<and>
    same_data db (snd (save_run_and_parse env r d reports ctx db))"
  by (rule save_refused [OF decl.insert_invariant_axioms assms]) (rule run_refused)

theorem create_all_stores_no_run_witness:
  "\<exists>e. fst (save_run_and_parse some_env (some_run StFailed) some_design None [] (declared_tables True)) = Inl e"
  using create_all_stores_no_run [where db = "declared_tables True" and p = True and env = some_env and r = "some_run StFailed"
      and d = some_design and reports = None and ctx = "[]"]
  by (simp add: declarations_def declared_tables_def declared_table_defs new_table_def)

end
