(* ===== verification/SavedRuns.thy ===== *)
theory SavedRuns
  imports RunStoreProps
begin

text \<open>
  A saved run reads back, and is saved once only.
\<close>

section \<open>The row of a run\<close>

lemma json_plain_finite: "json_plain v \<Longrightarrow> json_finite v"
  by (induction v rule: json_plain.induct) auto

lemma declared_runs:
  assumes "as_declared db" "integrity db"
  shows "\<exists>t. find_table db ''runs'' = Some t \<and> distinct (column_names t) \<and> List.member (uniques t) [''run_uuid''] \<and>
    (\<forall>c \<in> set (columns table_runs). \<exists>c' \<in> set (columns t). col_name c' = col_name c \<and> col_type c' = col_type c)"
proof -
  have "table_runs \<in> set (declared_tables True)" by (simp add: declared_tables_def)
  then obtain t where t: "find_table db ''runs'' = Some t" "matches table_runs t"
    using as_declared_table [OF assms(1)] by (fastforce simp: table_runs_def new_table_def)
  have "wf_table t" using assms(2) find_table_SomeD [OF t(1)] by (auto simp: integrity_def wf_database_def)
  then have d: "distinct (column_names t)" by (simp add: wf_table_def table_columns_ok_def Let_def)
  have "covers (uniques t) (uniques table_runs)" using t(2) by (simp add: matches_def Let_def)
  then have u: "List.member (uniques t) [''run_uuid'']" by (simp add: covers_def table_runs_def new_table_def)
  have "\<exists>c' \<in> set (columns t). col_name c' = col_name c \<and> col_type c' = col_type c" if "c \<in> set (columns table_runs)" for c
    using matches_column [OF t(2) that] by blast
  with t(1) d u show ?thesis by blast
qed

text \<open>What a row says of its run.\<close>

definition tells :: "run_result \<Rightarrow> pydict \<Rightarrow> pydict \<Rightarrow> bool" where
  "tells r ctx row \<longleftrightarrow> pget row ''run_uuid'' = PStr (rr_uuid r) \<and> pget row ''stage'' = PStr (rr_stage r) \<and>
     pget row ''status'' = PStr (stage_status_value (rr_status r)) \<and> pget row ''error_message'' = PStr (rr_error r) \<and>
     pget row ''started_at'' = PStr (rr_started r) \<and> pget row ''finished_at'' = PStr (rr_finished r) \<and>
     pget row ''session_id'' = pget ctx ''session_id'' \<and> pget row ''parent_run_id'' = pget ctx ''parent_run_id'' \<and>
     (json_plain (PDict (rr_params r)) \<longrightarrow> pget row ''params'' = PDict (rr_params r))"

lemma cast_id: "cast_to t v = Some x \<Longrightarrow> t = Integer \<or> t = BigInteger \<Longrightarrow> x = v"
  by (auto simp: cast_to_def split: if_splits pyval.splits)

lemma cast_params: "cast_to Json (PStr (json_dumps v)) = Some x \<Longrightarrow> json_plain v \<Longrightarrow> x = v"
  by (simp add: cast_to_def json_loads_dumps json_plain_finite)

lemma inserted_run:
  assumes "insert_sql now ''runs'' (run_columns r ctx bid did seq) db = Inr (row, db')" "as_declared db" "integrity db"
  shows "tells r ctx row \<and> \<not> list_ex (\<lambda>row'. pget row' ''run_uuid'' = PStr (rr_uuid r)) (rows_of db ''runs'') \<and>
    rows_of db' ''runs'' = rows_of db ''runs'' @ [row]"
proof -
  obtain t where t: "find_table db ''runs'' = Some t" "distinct (column_names t)" "List.member (uniques t) [''run_uuid'']"
      "\<And>c. c \<in> set (columns table_runs) \<Longrightarrow> \<exists>c' \<in> set (columns t). col_name c' = col_name c \<and> col_type c' = col_type c"
    using declared_runs [OF assms(2,3)] by blast
  have val: "cast_to (col_type c) v = Some (pget row (col_name c))"
    if "c \<in> set (columns table_runs)" "dget (run_columns r ctx bid did seq) (col_name c) = Some v" for c v
    using t(4) [OF that(1)] inserted_value [OF assms(1) t(1,2)] that(2) by metis
  have str: "pget row n = PStr s" if "dget (run_columns r ctx bid did seq) n = Some (PStr s)" "c \<in> set (columns table_runs)"
      "col_name c = n" "col_type c \<noteq> Json" for n s c
    using val [OF that(2)] that(1,3,4) cast_str by metis
  have num: "pget row n = v" if "dget (run_columns r ctx bid did seq) n = Some v" "c \<in> set (columns table_runs)"
      "col_name c = n" "col_type c = Integer \<or> col_type c = BigInteger" for n v c
    using val [OF that(2)] that(1,3,4) cast_id by metis
  have par: "pget row ''params'' = v" if "dget (run_columns r ctx bid did seq) ''params'' = Some (PStr (json_dumps v))" "json_plain v" for v
    using val [of "required (client (PDict []) (col ''params'' Json))"] that cast_params
    by (simp add: table_runs_def new_table_def required_def client_def col_def)
  note cs = table_runs_def new_table_def run_columns_def required_def client_def server_def col_def
  have "pget row ''run_uuid'' = PStr (rr_uuid r)"
    by (rule str [where c = "required (col ''run_uuid'' (Varchar 36))"]) (simp_all add: cs)
  moreover have "pget row ''stage'' = PStr (rr_stage r)"
    by (rule str [where c = "required (col ''stage'' (Varchar 64))"]) (simp_all add: cs)
  moreover have "pget row ''status'' = PStr (stage_status_value (rr_status r))"
    by (rule str [where c = "required (client (PStr ''pending'') (col ''status'' (Varchar 32)))"]) (simp_all add: cs)
  moreover have "pget row ''error_message'' = PStr (rr_error r)"
    by (rule str [where c = "required (client (PStr []) (col ''error_message'' Txt))"]) (simp_all add: cs)
  moreover have "pget row ''started_at'' = PStr (rr_started r)"
    by (rule str [where c = "col ''started_at'' Timestamp"]) (simp_all add: cs)
  moreover have "pget row ''finished_at'' = PStr (rr_finished r)"
    by (rule str [where c = "col ''finished_at'' Timestamp"]) (simp_all add: cs)
  moreover have "pget row ''session_id'' = pget ctx ''session_id''"
    by (rule num [where c = "col ''session_id'' Integer"]) (simp_all add: cs)
  moreover have "pget row ''parent_run_id'' = pget ctx ''parent_run_id''"
    by (rule num [where c = "col ''parent_run_id'' BigInteger"]) (simp_all add: cs)
  moreover have "pget row ''params'' = PDict (rr_params r)" if "json_plain (PDict (rr_params r))"
    by (rule par [OF _ that]) (simp add: run_columns_def)
  ultimately have told: "tells r ctx row" by (simp add: tells_def)
  have new: "\<not> clashes t row" "db' = change_table ''runs'' (add_row row) db" using insert_sqlD [OF assms(1)] t(1) by auto
  have uuid: "pget row ''run_uuid'' = PStr (rr_uuid r)" using told by (simp add: tells_def)
  have "pget row' ''run_uuid'' \<noteq> PStr (rr_uuid r)" if "row' \<in> set (rows t)" for row'
  proof -
    have "\<not> list_all (\<lambda>c. pget row c \<noteq> PNone \<and> pget row c = pget row' c) [''run_uuid'']"
      using new(1) that t(3) unfolding clashes_def list_ex_iff set_append set_map List.member_iff by blast
    then show ?thesis using uuid by simp
  qed
  with told t(1) new(2) show ?thesis by (auto simp: rows_of_def list_ex_iff find_table_change)
qed

section \<open>Saving\<close>

text \<open>A table keeps its rows under insertions.\<close>

definition has_row :: "string \<Rightarrow> pydict \<Rightarrow> database \<Rightarrow> bool" where
  "has_row n row db \<longleftrightarrow> row \<in> set (rows_of db n)"

interpretation held: insert_invariant "has_row n row"
proof
  show "has_row n row db'" if "has_row n row db" "insert_sql now m given db = Inr (r, db')" for db now m given r db'
  proof -
    have "db' = change_table m (add_row r) db" using insert_sqlD [OF that(2)] by blast
    with that(1) rows_add_row [of db n m r] show ?thesis unfolding has_row_def by blast
  qed
  show "has_row n row db'" if "has_row n row db" "same_data db db'" for db db'
    using that by (simp add: has_row_def same_data_rows)
qed

lemma andthen_InrE:
  assumes "andthen m f s = (Inr y, s'')"
  obtains x s' where "m s = (Inr x, s')" "f x s' = (Inr y, s'')"
  using assms by (auto simp: andthen_def split: prod.splits sum.splits)

lemma exec_InrE:
  assumes "exec stmt s = (Inr x, s')"
  obtains "\<not> aborted s" "stmt (work s) = Inr (x, work s')" "\<not> aborted s'"
  using assms by (auto simp: exec_def split: if_splits sum.splits)

lemma upserted_run:
  assumes "upsert_run env r d ctx s = (Inr run, s')" "as_declared (work s)" "integrity (work s)"
  shows "\<exists>row. pget row ''id'' = run \<and> tells r ctx row \<and> has_row ''runs'' row (work s')"
proof -
  let ?q = "exec (select_sql ''runs'' (\<lambda>row. pget row ''run_uuid'' = PStr (rr_uuid r)))"
  let ?last = "\<lambda>found. yields (case found of [] \<Rightarrow> PNone | row # rs \<Rightarrow> pget row ''id'')"
  obtain bid s1 did s2 where b: "backend_id env (rr_backend r) s = (Inr bid, s1)" and d: "design_id env d s1 = (Inr did, s2)"
    and rest: "(case py_int (py_or (pget ctx ''stage_seq'') (PInt 0)) of None \<Rightarrow> raises PyRaised
       | Some seq \<Rightarrow> andthen (insert_into env ''runs'' (run_columns r ctx bid did seq)) (\<lambda>_. andthen ?q ?last)) s2 = (Inr run, s')"
    using assms(1) unfolding upsert_run_def by (elim andthen_InrE) (rule that)
  then obtain seq where "andthen (insert_into env ''runs'' (run_columns r ctx bid did seq)) (\<lambda>_. andthen ?q ?last) s2 = (Inr run, s')"
    by (cases "py_int (py_or (pget ctx ''stage_seq'') (PInt 0))") (simp_all add: raises_def)
  then obtain row s3 found s4 where i: "insert_into env ''runs'' (run_columns r ctx bid did seq) s2 = (Inr row, s3)"
    and q: "?q s3 = (Inr found, s4)" and y: "?last found s4 = (Inr run :: (db_exc, pyval) result, s')"
    by (elim andthen_InrE) (rule that)
  have kept: "I (work s) \<Longrightarrow> I (work s2)" if "insert_invariant I" for I
  proof -
    have "keeps I (backend_id env (rr_backend r))" "keeps I (design_id env d)"
      unfolding backend_id_def design_id_def by (rule insert_invariant.keeps_find_or_insert [OF that])+
    from this(1) [unfolded keeps_def, rule_format, of s] this(2) [unfolded keeps_def, rule_format, of s1]
    show "I (work s) \<Longrightarrow> I (work s2)" using b d by simp
  qed
  have "integrity (work s2)" by (rule kept [OF fk.insert_invariant_axioms assms(3)])
  moreover have "declarations (work s2) = declarations (work s)" by (rule kept [OF decl.insert_invariant_axioms refl])
  with assms(2) have "as_declared (work s2)" by (rule as_declared_declarations)
  moreover have "insert_sql (se_now env) ''runs'' (run_columns r ctx bid did seq) (work s2) = Inr (row, work s3)"
    using i unfolding insert_into_def by (elim exec_InrE)
  ultimately have ins: "tells r ctx row" "\<not> list_ex (\<lambda>row'. pget row' ''run_uuid'' = PStr (rr_uuid r)) (rows_of (work s2) ''runs'')"
      "rows_of (work s3) ''runs'' = rows_of (work s2) ''runs'' @ [row]"
    using inserted_run by blast+
  have "select_sql ''runs'' (\<lambda>row. pget row ''run_uuid'' = PStr (rr_uuid r)) (work s3) = Inr (found, work s4)"
    using q by (elim exec_InrE)
  then have f: "found = filter (\<lambda>row. pget row ''run_uuid'' = PStr (rr_uuid r)) (rows_of (work s3) ''runs'')" "work s4 = work s3"
    by (auto simp: select_sql_def rows_of_def split: option.splits)
  have "filter (\<lambda>row. pget row ''run_uuid'' = PStr (rr_uuid r)) (rows_of (work s2) ''runs'') = []"
    using ins(2) by (auto simp: list_ex_iff filter_empty_conv)
  then have "found = [row]" using ins f(1) by (simp add: tells_def)
  with y f(2) ins show ?thesis by (auto simp: yields_def has_row_def)
qed


definition with_run :: database where
  "with_run = snd (save_run_and_parse some_env (some_run StFailed) some_design None [] served_tables)"

lemma with_run_row: "\<exists>row \<in> set (rows_of with_run ''runs''). pget row ''run_uuid'' = PStr ''u1''"
proof -
  have "list_ex (\<lambda>row. pget row ''run_uuid'' = PStr ''u1'') (rows_of with_run ''runs'')" unfolding with_run_def by code_simp
  then show ?thesis by (auto simp: list_ex_iff)
qed

lemma with_run:
  "save_run_and_parse some_env (some_run StFailed) some_design None [] served_tables = (Inr (PInt 1), with_run) \<and>
   \<not> same_data served_tables with_run \<and> as_declared with_run \<and> integrity with_run"
proof -
  have "fst (save_run_and_parse some_env (some_run StFailed) some_design None [] served_tables) = Inr (PInt 1)" by code_simp
  moreover have "rows_of served_tables ''runs'' = []" by code_simp
  with with_run_row have "\<not> same_data served_tables with_run" using same_data_rows by fastforce
  moreover have "as_declared with_run" unfolding with_run_def
    by (rule as_declared_declarations [OF served_as_declared], rule decl.save_run_keeps, rule refl)
  moreover have "integrity with_run" unfolding with_run_def by (rule fk.save_run_keeps [OF served_integrity])
  ultimately show ?thesis by (simp add: with_run_def prod_eq_iff)
qed


text \<open>
  A run is saved once: saving any result under an identifier that is already stored raises and
  stores nothing, for all that the function behind is called an upsert.
\<close>

theorem second_save_raises:
  assumes "as_declared db" "integrity db" "row \<in> set (rows_of db ''runs'')" "pget row ''run_uuid'' = PStr (rr_uuid r)"
  shows "(\<exists>e. fst (save_run_and_parse env r d reports ctx db) = Inl e) \<and>
    same_data db (snd (save_run_and_parse env r d reports ctx db))"
proof (rule save_refused [where I = "\<lambda>db'. declarations db' = declarations db \<and> integrity db' \<and> has_row ''runs'' row db'"])
  show "insert_invariant (\<lambda>db'. declarations db' = declarations db \<and> integrity db' \<and> has_row ''runs'' row db')"
    by unfold_locales
      (blast intro: decl.insert_keeps fk.insert_keeps held.insert_keeps decl.same_data_keeps fk.same_data_keeps held.same_data_keeps)+
  show "insert_sql (se_now env) ''runs'' (run_columns r ctx bid did seq) db' \<noteq> Inr (x, new)"
    if "declarations db' = declarations db \<and> integrity db' \<and> has_row ''runs'' row db'" for db' bid did seq x new
    using inserted_run [of "se_now env" r ctx bid did seq db' x new] as_declared_declarations [OF assms(1), of db'] that assms(4)
    by (auto simp: has_row_def list_ex_iff)
qed (use assms in \<open>simp_all add: has_row_def\<close>)

theorem second_save_raises_witness:
  "\<exists>e. fst (save_run_and_parse some_env (some_run StFailed) some_design None [] with_run) = Inl e"
proof -
  obtain row where "row \<in> set (rows_of with_run ''runs'')" "pget row ''run_uuid'' = PStr ''u1''" using with_run_row by blast
  with second_save_raises [of with_run row "some_run StFailed" some_env some_design None "[]"] with_run
  show ?thesis by (simp add: some_run_def)
qed

end
