(* ===== verification/JobTools.thy ===== *)
theory JobTools
  imports Worker Json
begin

text \<open>
  The tools around the job queue: \<open>agent/tool_impl_job.py\<close> and \<open>_resolve_backend_design_identity\<close>
  of \<open>agent/tools.py\<close>. The remote work directory of the settings is an argument, as are the text of a
  log file and the new job id. Starting a worker cannot fail a submission and touches no row.
\<close>

section \<open>Identity of a design\<close>

datatype tool_exc =
    NoDesignConfig
  | NoPdk
  | JobStoreExc store_error
  | NoPath                 \<comment> \<open>\<open>TypeError\<close> of \<open>Path\<close> for what is no text\<close>

text \<open>\<open>a or b\<close> where either may be \<open>None\<close>.\<close>

definition or_text :: "string option \<Rightarrow> string option \<Rightarrow> string option" where
  "or_text a b = (case a of None \<Rightarrow> b | Some s \<Rightarrow> if s = [] then b else Some s)"

definition given_text :: "string option \<Rightarrow> bool" where
  "given_text a \<longleftrightarrow> a \<noteq> None \<and> a \<noteq> Some []"

record identity =
  id_config :: "string option"
  id_pdk :: "string option"
  id_workdir :: "string option"
  id_tech :: "string option"

definition resolve_identity :: "string \<Rightarrow> string \<Rightarrow> identity \<Rightarrow> (tool_exc, string \<times> string) result" where
  "resolve_identity remote be x =
     (let innovus = py_lower be = ''innovus'';
          cfg = (if innovus then or_text (or_text (id_config x) (id_workdir x)) (Some remote) else id_config x);
          tech = (if innovus then or_text (or_text (id_pdk x) (id_tech x)) (Some ''tsmc18'') else id_pdk x)
      in if \<not> given_text cfg then Inl NoDesignConfig
         else if \<not> given_text tech then Inl NoPdk
         else Inr (the cfg, the tech))"

section \<open>Submitting\<close>

record submission =
  sb_backend :: string
  sb_design_name :: string
  sb_identity :: identity
  sb_stage :: "string option"
  sb_params :: "pydict option"
  sb_stage_start :: "string option"
  sb_stage_end :: "string option"
  sb_run_mode :: string

definition in_quotes :: "string \<Rightarrow> string" where
  "in_quotes s = CHR 0x27 # s @ [CHR 0x27]"

definition tool_error :: "string \<Rightarrow> pydict" where
  "tool_error msg = [(''error'', PStr msg)]"

definition submit_job :: "string \<Rightarrow> string \<Rightarrow> datetime \<Rightarrow> submission \<Rightarrow> jobs_table \<Rightarrow> (tool_exc, pydict) result \<times> jobs_table" where
  "submit_job remote uid now s t =
     (if sb_run_mode s \<notin> {''stage'', ''flow''} then
        (Inr (tool_error (''Invalid run_mode '' @ in_quotes (sb_run_mode s) @ ''. Use '' @ in_quotes ''stage'' @ '' or '' @ in_quotes ''flow'' @ ''.'')), t)
      else if sb_run_mode s = ''stage'' \<and> \<not> given_text (sb_stage s) then
        (Inr (tool_error (in_quotes ''stage'' @ '' is required when run_mode='' @ in_quotes ''stage'')), t)
      else case resolve_identity remote (sb_backend s) (sb_identity s) of
        Inl e \<Rightarrow> (Inl e, t)
      | Inr (cfg, tech) \<Rightarrow>
          (case enqueue uid now
             \<lparr>ja_backend = sb_backend s,
              ja_stage = the (or_text (or_text (sb_stage s) (sb_stage_start s)) (Some ''all'')),
              ja_design_name = sb_design_name s, ja_design_config = cfg, ja_pdk = tech,
              ja_params = Some (case sb_params s of None \<Rightarrow> [] | Some d \<Rightarrow> d),
              ja_stage_start = sb_stage_start s, ja_stage_end = sb_stage_end s, ja_run_mode = sb_run_mode s\<rparr> t of
             Inl e \<Rightarrow> (Inl (JobStoreExc e), t)
           | Inr (i, t') \<Rightarrow>
               (Inr [(''job_id'', PStr i), (''status'', PStr ''pending''),
                     (''message'', PStr (''Job '' @ i @ '' submitted ('' @ sb_run_mode s @ '' mode). Use job_status to poll.''))], t')))"

record flow_request =
  fr_backend :: string
  fr_stage_start :: string
  fr_design_name :: string
  fr_identity :: identity
  fr_stage_end :: "string option"
  fr_params :: "pydict option"
  fr_clean :: bool

definition run_flow_async :: "string \<Rightarrow> string \<Rightarrow> datetime \<Rightarrow> flow_request \<Rightarrow> jobs_table \<Rightarrow> (tool_exc, pydict) result \<times> jobs_table" where
  "run_flow_async remote uid now f t =
     (let ps = (if fr_clean f
                then Some (dset ''_clean'' (PBool True) (case fr_params f of None \<Rightarrow> [] | Some d \<Rightarrow> d))
                else fr_params f)
      in case resolve_identity remote (fr_backend f) (fr_identity f) of
        Inl e \<Rightarrow> (Inl e, t)
      | Inr (cfg, tech) \<Rightarrow> submit_job remote uid now
          \<lparr>sb_backend = fr_backend f, sb_design_name = fr_design_name f,
           sb_identity = \<lparr>id_config = Some cfg, id_pdk = Some tech, id_workdir = None, id_tech = None\<rparr>,
           sb_stage = Some (fr_stage_start f), sb_params = ps, sb_stage_start = Some (fr_stage_start f),
           sb_stage_end = fr_stage_end f, sb_run_mode = ''flow''\<rparr> t)"

section \<open>Status and log\<close>

definition job_not_found :: "string \<Rightarrow> pydict" where
  "job_not_found i = tool_error (''Job '' @ i @ '' not found'')"

definition job_status_tool :: "datetime \<Rightarrow> string \<Rightarrow> jobs_table \<Rightarrow> (tool_exc, pydict) result" where
  "job_status_tool now i t =
     (case get_job now i t of
        Inl e \<Rightarrow> Inl (JobStoreExc e)
      | Inr None \<Rightarrow> Inr (job_not_found i)
      | Inr (Some j) \<Rightarrow> Inr
          ([(''job_id'', PStr (job_id j)), (''status'', PStr (status_value (status j))), (''backend'', PStr (backend j)),
            (''stage'', PStr (stage j)), (''design_name'', PStr (design_name j))] @
           (if run_db_id j = PNone then [] else [(''run_id'', run_db_id j)]) @
           (if status j \<in> {SUCCESS, FAILED}
            then [(''error_message'', error_message j), (''log_path'', log_path j)] else [])))"

text \<open>\<open>str.splitlines\<close>: the carriage return takes a line feed along, the last line end ends no further line.\<close>

definition line_end :: "char \<Rightarrow> bool" where
  "line_end c \<longleftrightarrow> c \<in> set [CHR 0x0A, CHR 0x0B, CHR 0x0C, CHR 0x0D, CHR 0x1C, CHR 0x1D, CHR 0x1E, CHR 0x85]"

fun splitlines_acc :: "string \<Rightarrow> string \<Rightarrow> string list" where
  "splitlines_acc acc [] = (if acc = [] then [] else [rev acc])"
| "splitlines_acc acc (c # cs) =
     (if \<not> line_end c then splitlines_acc (c # acc) cs
      else rev acc # (case cs of
          d # ds \<Rightarrow> if c = CHR 0x0D \<and> d = CHR 0x0A then splitlines_acc [] ds else splitlines_acc [] cs
        | [] \<Rightarrow> []))"

text \<open>\<open>xs[-n:]\<close>.\<close>

definition last_items :: "int \<Rightarrow> 'a list \<Rightarrow> 'a list" where
  "last_items n xs = (if n > 0 then drop (length xs - nat n) xs else drop (nat (- n)) xs)"

text \<open>\<open>read_text\<close>: the content, or the text of the \<open>OSError\<close>.\<close>

definition job_logs :: "(string \<Rightarrow> (string, string) result) \<Rightarrow> datetime \<Rightarrow> string \<Rightarrow> int \<Rightarrow> jobs_table \<Rightarrow> (tool_exc, pydict) result" where
  "job_logs read_text now i lines t =
     (case get_job now i t of
        Inl e \<Rightarrow> Inl (JobStoreExc e)
      | Inr None \<Rightarrow> Inr (job_not_found i)
      | Inr (Some j) \<Rightarrow>
          if \<not> py_truthy (log_path j) then Inr (tool_error ''No log path available for this job'')
          else case log_path j of
            PStr p \<Rightarrow> (case read_text p of
                Inl e \<Rightarrow> Inr (tool_error (''Failed to read log: '' @ e))
              | Inr content \<Rightarrow> Inr [(''logs'', PStr (join [CHR 0x0A] (last_items lines (splitlines_acc [] content))))])
          | _ \<Rightarrow> Inl NoPath)"

section \<open>Cancelling\<close>

text \<open>
  The tool reads the job and, if it is pending, marks it done. The two statements see the table
  at two moments; the second does not look at the status.
\<close>

definition cancel_looks :: "datetime \<Rightarrow> string \<Rightarrow> jobs_table \<Rightarrow> (tool_exc, pydict option) result" where
  "cancel_looks now i t =
     (case get_job now i t of
        Inl e \<Rightarrow> Inl (JobStoreExc e)
      | Inr None \<Rightarrow> Inr (Some (job_not_found i))
      | Inr (Some j) \<Rightarrow> Inr (if status j \<noteq> PENDING
          then Some [(''success'', PBool False), (''error'', PStr (''Cannot cancel job in status '' @ in_quotes (status_value (status j))))]
          else None))"

definition cancel_marks :: "datetime \<Rightarrow> string \<Rightarrow> jobs_table \<Rightarrow> (tool_exc, pydict) result \<times> jobs_table" where
  "cancel_marks now i t =
     (case mark_done now i CANCELLED PNone PNone (PStr ''Cancelled by user'') t of
        Inl e \<Rightarrow> (Inl (JobStoreExc e), t)
      | Inr t' \<Rightarrow> (Inr [(''success'', PBool True), (''message'', PStr (''Job '' @ i @ '' cancelled''))], t'))"

definition cancel_job_tool :: "datetime \<Rightarrow> datetime \<Rightarrow> string \<Rightarrow> jobs_table \<Rightarrow> jobs_table \<Rightarrow> (tool_exc, pydict) result \<times> jobs_table" where
  "cancel_job_tool now now' i seen t =
     (case cancel_looks now i seen of
        Inl e \<Rightarrow> (Inl e, t)
      | Inr (Some refusal) \<Rightarrow> (Inr refusal, t)
      | Inr None \<Rightarrow> cancel_marks now' i t)"

text \<open>The queue with such cancellations between their two statements.\<close>

inductive t_step :: "int set \<Rightarrow> qsys \<times> string list \<Rightarrow> qsys \<times> string list \<Rightarrow> bool" for fp where
  queue: "q_step fp s s' \<Longrightarrow> t_step fp (s, c) (s', c)"
| look: "cancel_looks now i (tbl s) = Inr None \<Longrightarrow> t_step fp (s, c) (s, i # c)"
| mark: "i \<in> set c \<Longrightarrow> cancel_marks now i (tbl s) = (Inr ans, t') \<Longrightarrow> t_step fp (s, c) (s\<lparr>tbl := t'\<rparr>, remove1 i c)"

end
