(* ===== verification/JobToolProps.thy ===== *)
theory JobToolProps
  imports WorkerProps JobTools
begin

text \<open>
  The tools around the queue: a submitted flow is executed as it was asked for; cancelling is the
  operation of the store when it runs at once, and loses jobs when it does not.
\<close>

section \<open>Submitting a flow\<close>

lemma resolved_again:
  "resolve_identity remote be x = Inr (cfg, tech) \<Longrightarrow>
   resolve_identity remote be \<lparr>id_config = Some cfg, id_pdk = Some tech, id_workdir = a, id_tech = b\<rparr> = Inr (cfg, tech)"
  by (auto simp: resolve_identity_def Let_def given_text_def or_text_def split: if_splits option.splits)

lemma claimed_row:
  assumes "claim_pending_job now p t = (Inr (Some j), t')" "find_row (job_id j) t = Some r"
  shows "run_mode j = str_or (row_run_mode r) ''stage'' \<and> params j = row_params r \<and> backend j = row_backend r \<and>
    stage_start j = row_stage_start r \<and> stage_end j = row_stage_end r \<and> design_name j = row_design_name r \<and>
    design_config j = row_design_config r \<and> pdk j = row_pdk r"
proof -
  obtain i where c: "claim_txn now p t = Some (i, t')" and g: "get_job now i t' = Inr (Some j)"
    using assms(1) by (auto simp: claim_pending_job_def split: option.splits prod.splits)
  obtain r' where r': "find_row i t' = Some r'" "row_to_job now r' = Inr j"
    using g by (auto simp: get_job_def ok_bind_eq_Inr split: option.splits)
  have i: "job_id j = row_id r'" using r'(2) by (auto simp: row_to_job_def split: option.splits)
  with r'(1) have "job_id j = i" by (auto dest: find_row_SomeD)
  moreover obtain row where "t' = update_where (\<lambda>r. row_id r = i)
      (\<lambda>r. r\<lparr>row_status := ''running'', row_started := Some (isoformat now), row_pid := Some p\<rparr>) t"
    using c by (rule claim_txn_Some)
  ultimately have "r' = r\<lparr>row_status := ''running'', row_started := Some (isoformat now), row_pid := Some p\<rparr>"
    using assms(2) r'(1) by (auto simp: find_row_update_id)
  with r'(2) show ?thesis by (auto simp: row_to_job_def split: option.splits)
qed

text \<open>
  The flow a worker runs is the flow that was asked for: when the worker claims the job of an
  accepted request, the call it makes has the stages, the design and the resolved identity of the
  request, its parameters, and the clean flag.
\<close>

theorem submitted_flow_runs_as_asked:
  assumes "run_flow_async remote uid now f t = (Inr ans, t')"
    and "claim_pending_job later p t' = (Inr (Some j), t'')" "job_id j = uid"
  shows "\<exists>cfg tech ps clean. resolve_identity remote (fr_backend f) (fr_identity f) = Inr (cfg, tech) \<and>
    pget ans ''job_id'' = PStr uid \<and> run_mode j = ''flow'' \<and> clean_flag (params j) = Inr clean \<and>
    (fr_clean f \<longrightarrow> clean = PBool True) \<and>
    (\<forall>k. k \<noteq> ''_clean'' \<longrightarrow> pget ps k = pget (case fr_params f of None \<Rightarrow> [] | Some d \<Rightarrow> d) k) \<and>
    flow_call_of j clean =
      \<lparr>fc_backend = fr_backend f, fc_stage_start = str_or (fr_stage_start f) ''all'', fc_stage_end = fr_stage_end f,
       fc_design_name = fr_design_name f, fc_design_config = cfg, fc_pdk = tech, fc_params = PDict ps, fc_clean = clean\<rparr>"
proof -
  let ?ps = "case fr_params f of None \<Rightarrow> [] | Some d \<Rightarrow> d"
  let ?ps' = "if fr_clean f then dset ''_clean'' (PBool True) ?ps else ?ps"
  obtain cfg tech where id: "resolve_identity remote (fr_backend f) (fr_identity f) = Inr (cfg, tech)"
    using assms(1) by (auto simp: run_flow_async_def Let_def split: sum.splits)
  note again = resolved_again [OF id]
  obtain job a where cr: "create_job uid now a t = Inr (job, t')" and ans: "pget ans ''job_id'' = PStr uid"
    and a: "ja_run_mode a = ''flow''" "ja_params a = Some ?ps'" "ja_stage_start a = Some (fr_stage_start f)"
      "ja_stage_end a = fr_stage_end f" "ja_design_name a = fr_design_name f" "ja_design_config a = cfg" "ja_pdk a = tech"
      "ja_backend a = fr_backend f"
    using assms(1) by (auto simp: run_flow_async_def submit_job_def Let_def id again enqueue_def pget_def ok_bind_def create_job_def
        split: sum.splits if_splits option.splits)
  have row: "find_row uid t' = Some (new_row uid now a)"
    using cr by (auto simp: create_job_def find_row_append new_row_def split: if_splits)
  note j = claimed_row [OF assms(2) row [folded assms(3)]]
  obtain clean where c: "clean_flag (PDict ?ps') = Inr clean" "fr_clean f \<longrightarrow> clean = PBool True"
  proof (cases "fr_clean f")
    case True
    have "dset ''_clean'' (PBool True) ?ps \<noteq> []" using dget_dset [of "''_clean''" "PBool True" ?ps "''_clean''"] by fastforce
    with True show ?thesis using that by (simp add: clean_flag_def dgetd_dset)
  next
    case False
    show ?thesis by (rule that [of "if ?ps = [] then PBool False else dgetd ?ps ''_clean'' (PBool False)"])
      (use False in \<open>simp_all add: clean_flag_def\<close>)
  qed
  have "\<forall>k. k \<noteq> ''_clean'' \<longrightarrow> pget ?ps' k = pget ?ps k" by (simp add: pget_def)
  with id ans c j a show ?thesis
    by (intro exI [of _ cfg] exI [of _ tech] exI [of _ ?ps'] exI [of _ clean])
      (auto simp: new_row_def params_or_empty_def str_or_def flow_call_of_def)
qed

definition sample_request :: flow_request where
  "sample_request = \<lparr>fr_backend = ''Innovus'', fr_stage_start = ''place'', fr_design_name = ''gcd'',
     fr_identity = \<lparr>id_config = None, id_pdk = None, id_workdir = None, id_tech = None\<rparr>,
     fr_stage_end = Some ''route'', fr_params = Some [(''density'', PInt 1)], fr_clean = True\<rparr>"

theorem submitted_flow_runs_as_asked_witness:
  "\<exists>ans t' j t''. run_flow_async ''/work'' ''u'' (sample_time 1) sample_request [] = (Inr ans, t') \<and>
     claim_pending_job (sample_time 2) 7 t' = (Inr (Some j), t'') \<and> fc_design_config (flow_call_of j (PBool True)) = ''/work''"
proof -
  have id: "resolve_identity ''/work'' ''Innovus'' \<lparr>id_config = None, id_pdk = None, id_workdir = None, id_tech = None\<rparr> =
      Inr (''/work'', ''tsmc18'')" by code_simp
  note again = resolved_again [OF id]
  obtain ans a where r: "run_flow_async ''/work'' ''u'' (sample_time 1) sample_request [] = (Inr ans, [new_row ''u'' (sample_time 1) a])"
    by (simp add: run_flow_async_def sample_request_def id again submit_job_def enqueue_def create_job_def ok_bind_def given_text_def)
  moreover obtain j t'' where c: "claim_pending_job (sample_time 2) 7 [new_row ''u'' (sample_time 1) a] = (Inr (Some j), t'')" "job_id j = ''u''"
    by (simp add: claim_pending_job_def claim_txn_def order_by_def new_row_def update_where_def get_job_def row_to_job_def
      parse_status_def ok_bind_def)
  moreover have "fc_design_config (flow_call_of j (PBool True)) = ''/work''"
    using submitted_flow_runs_as_asked [OF r c] id by (auto simp: sample_request_def flow_call_of_def)
  ultimately show ?thesis by blast
qed

section \<open>Cancelling\<close>

text \<open>
  When nothing happens between its two statements the cancellation of the tool is the one of
  the store: it succeeds for the same jobs and leaves the same statuses.
\<close>

theorem cancel_tool_at_once:
  assumes "JobQueue.wf_table t"
  shows "\<exists>ans t'. cancel_job_tool now now' i t t = (Inr ans, t') \<and>
    (pget ans ''success'' = PBool True \<longleftrightarrow> fst (cancel_job i t)) \<and> status_of t' = status_of (snd (cancel_job i t))"
proof (cases "find_row i t")
  case None
  then have "status_of t i = None" by (simp add: status_of_def)
  with None show ?thesis
    by (simp add: cancel_job_tool_def cancel_looks_def get_job_def job_not_found_def tool_error_def pget_def cancel_job_spec [OF assms])
next
  case (Some r)
  then have "parse_status (row_status r) \<noteq> None" using assms by (auto simp: JobQueue.wf_table_def dest: find_row_SomeD)
  then obtain st where st: "parse_status (row_status r) = Some st" by blast
  then obtain j where j: "get_job now i t = Inr (Some j)" "status j = st"
    using Some by (simp add: get_job_def row_to_job_def ok_bind_def)
  have s: "status_of t i = Some st" using Some st by (simp add: status_of_def)
  show ?thesis
  proof (cases "st = PENDING")
    case True
    obtain t' where m: "mark_done now' i CANCELLED PNone PNone (PStr ''Cancelled by user'') t = Inr t'"
      by (simp add: mark_done_def)
    have "status_of t' = (status_of t)(i \<mapsto> CANCELLED)" using status_mark_done [OF m] Some by simp
    with m j True s show ?thesis
      by (simp add: cancel_job_tool_def cancel_looks_def cancel_marks_def pget_def cancel_job_spec [OF assms])
  next
    case False
    with j s show ?thesis by (simp add: cancel_job_tool_def cancel_looks_def pget_def cancel_job_spec [OF assms])
  qed
qed

section \<open>The race of a cancellation with a worker\<close>

definition waiting_sys :: qsys where
  "waiting_sys = init_sys\<lparr>tbl := [new_row ''a'' (sample_time 1) sample_args], alive := {7}\<rparr>"

lemma waiting_reachable: "(t_step {})\<^sup>*\<^sup>* (init_sys, []) (waiting_sys, [])"
proof -
  have "q_step {} init_sys (init_sys\<lparr>alive := {7}\<rparr>)" using q_step.start [of 7 init_sys "{}"] by (simp add: init_sys_def)
  moreover have "q_step {} (init_sys\<lparr>alive := {7}\<rparr>) waiting_sys"
    using q_step.submit [of "''a''" "sample_time 1" sample_args "init_sys\<lparr>alive := {7}\<rparr>"]
    by (simp add: create_job_def init_sys_def waiting_sys_def)
  ultimately show ?thesis by (blast intro: t_step.queue converse_rtranclp_into_rtranclp)
qed

lemma waiting_claimed: "q_step {} waiting_sys busy_sys"
  using q_step.claim [of 7 waiting_sys "sample_time 2" "''a''" "tbl busy_sys" "{}"] sample_claim
  by (simp add: init_sys_def busy_sys_def waiting_sys_def)

text \<open>The row after the cancellation, and after the worker has reported.\<close>

definition marked_row :: "job_status \<Rightarrow> string \<Rightarrow> nat \<Rightarrow> job_row" where
  "marked_row st msg n = (hd (tbl busy_sys))
     \<lparr>row_status := status_value st, row_run_db_id := PNone, row_log_path := PNone, row_error := PStr msg,
      row_finished := Some (isoformat (sample_time n))\<rparr>"

lemma marked_status: "status_of [marked_row st msg n] ''a'' = Some st"
  by (cases st) (simp_all add: status_of_def marked_row_def busy_sys_def new_row_def parse_status_def)

text \<open>
  The tool that cancels loses the race with a worker, although the store has an operation that
  does not: a worker claims the job between its two statements, the client is told that the job
  is cancelled while it runs, and when the worker is done the job counts as successful.
\<close>

theorem cancel_tool_races:
  "\<exists>s t'. (t_step {})\<^sup>*\<^sup>* (init_sys, []) (s, [''a'']) \<and> (7, ''a'') \<in> set (execs s) \<and>
     cancel_marks (sample_time 3) ''a'' (tbl s) = (Inr [(''success'', PBool True), (''message'', PStr ''Job a cancelled'')], t') \<and>
     status_of t' ''a'' = Some CANCELLED \<and>
     (\<exists>s'. (t_step {})\<^sup>*\<^sup>* (s\<lparr>tbl := t'\<rparr>, []) (s', []) \<and> status_of (tbl s') ''a'' = Some SUCCESS)"
proof -
  let ?c = "busy_sys\<lparr>tbl := [marked_row CANCELLED ''Cancelled by user'' 3]\<rparr>"
  let ?d = "?c\<lparr>tbl := [marked_row SUCCESS [] 4], execs := []\<rparr>"
  have "cancel_looks (sample_time 2) ''a'' (tbl waiting_sys) = Inr None"
    by (simp add: cancel_looks_def waiting_sys_def init_sys_def get_job_def new_row_def row_to_job_def parse_status_def ok_bind_def)
  then have "t_step {} (waiting_sys, []) (waiting_sys, [''a''])" by (rule t_step.look)
  moreover have "t_step {} (waiting_sys, [''a'']) (busy_sys, [''a''])" by (rule t_step.queue [OF waiting_claimed])
  ultimately have "(t_step {})\<^sup>*\<^sup>* (init_sys, []) (busy_sys, [''a''])"
    using waiting_reachable by (meson rtranclp.rtrancl_into_rtrancl)
  moreover have "(7, ''a'') \<in> set (execs busy_sys)" by (simp add: busy_sys_def)
  moreover have "cancel_marks (sample_time 3) ''a'' (tbl busy_sys) =
      (Inr [(''success'', PBool True), (''message'', PStr ''Job a cancelled'')], [marked_row CANCELLED ''Cancelled by user'' 3])"
    by (simp add: cancel_marks_def mark_done_def update_where_def marked_row_def busy_sys_def new_row_def)
  moreover have "mark_done (sample_time 4) ''a'' SUCCESS PNone PNone (PStr []) (tbl ?c) = Inr [marked_row SUCCESS [] 4]"
    by (simp add: mark_done_def update_where_def marked_row_def busy_sys_def new_row_def)
  then have "q_step {} ?c ?d"
    using q_step.finish [of 7 "''a''" ?c SUCCESS] by (simp add: busy_sys_def drop_exec_def)
  then have "(t_step {})\<^sup>*\<^sup>* (?c, []) (?d, [])" by (blast intro: t_step.queue)
  moreover have "status_of (tbl ?d) ''a'' = Some SUCCESS" by (simp add: marked_status)
  ultimately show ?thesis using marked_status by blast
qed

end
