(* ===== verification/SubAgents.thy ===== *)
theory SubAgents
  imports Json Timestamps
begin

text \<open>
  The multi-agent cycle: \<open>agent/subagents/*.py\<close>, \<open>agent/services/query_service.py\<close>, the orchestration of
  \<open>agent/planner.py\<close> (\<open>run_multi_agent_cycle\<close> and its helpers) and \<open>agent/tool_impl_multi_agent.py\<close>. The
  queries, \<open>infer\<close> and the stage runner act on a world \<open>'w\<close>; an exception is its text, and \<open>ae_type_error\<close> is
  the text of a \<open>TypeError\<close> of the agents themselves. Agents are named by texts.
\<close>

section \<open>Envelopes\<close>

datatype agent_status = AgentOk | AgentError | AgentNeedsApproval

fun agent_status_value :: "agent_status \<Rightarrow> string" where
  "agent_status_value AgentOk = ''ok''"
| "agent_status_value AgentError = ''error''"
| "agent_status_value AgentNeedsApproval = ''needs_approval''"

record envelope =
  en_task :: string
  en_agent :: string
  en_session :: "int option"
  en_run :: "int option"
  en_objective :: string
  en_constraints :: pydict
  en_inputs :: pydict
  en_outputs :: pydict
  en_status :: agent_status
  en_error :: string

definition id_value :: "int option \<Rightarrow> pyval" where
  "id_value i = (case i of None \<Rightarrow> PNone | Some n \<Rightarrow> PInt n)"

text \<open>\<open>envelope.__dict__\<close>.\<close>

definition envelope_dict :: "envelope \<Rightarrow> pydict" where
  "envelope_dict e =
     [(''task_id'', PStr (en_task e)), (''agent'', PStr (en_agent e)), (''session_id'', id_value (en_session e)),
      (''run_id'', id_value (en_run e)), (''objective'', PStr (en_objective e)), (''constraints'', PDict (en_constraints e)),
      (''inputs'', PDict (en_inputs e)), (''outputs'', PDict (en_outputs e)),
      (''status'', PStr (agent_status_value (en_status e))), (''error'', PStr (en_error e))]"

text \<open>\<open>AgentEnvelope.ok\<close> and \<open>error_result\<close>, over the envelope of the task.\<close>

definition answer_ok :: "envelope \<Rightarrow> pydict \<Rightarrow> envelope" where
  "answer_ok task out = task\<lparr>en_outputs := out, en_status := AgentOk, en_error := []\<rparr>"

definition answer_error :: "envelope \<Rightarrow> string \<Rightarrow> envelope" where
  "answer_error task msg = task\<lparr>en_outputs := [], en_status := AgentError, en_error := msg\<rparr>"

section \<open>The environment\<close>

record 'w agent_env =
  ae_infer :: "int \<Rightarrow> string \<Rightarrow> 'w \<Rightarrow> (string, pydict) result \<times> 'w"
  ae_timing :: "string \<Rightarrow> string option \<Rightarrow> int \<Rightarrow> nat \<Rightarrow> 'w \<Rightarrow> (string, pydict) result"
  ae_utilization :: "string \<Rightarrow> string option \<Rightarrow> int \<Rightarrow> nat \<Rightarrow> 'w \<Rightarrow> (string, pydict list) result"
  ae_power :: "string \<Rightarrow> string option \<Rightarrow> int \<Rightarrow> nat \<Rightarrow> 'w \<Rightarrow> (string, pydict list) result"
  ae_type_error :: string

text \<open>\<open>d.get(k) or {}\<close> where the value is a dictionary.\<close>

definition sub_dict :: "pydict \<Rightarrow> string \<Rightarrow> pydict" where
  "sub_dict d k = (case pget d k of PDict e \<Rightarrow> e | _ \<Rightarrow> [])"

text \<open>\<open>list(v)\<close> and \<open>sorted(set(xs))\<close>, \<open>None\<close> where they raise.\<close>

definition list_value :: "pyval \<Rightarrow> pyval list option" where
  "list_value v = (case v of PList xs \<Rightarrow> Some xs | PStr s \<Rightarrow> Some (map (\<lambda>c. PStr [c]) s) | PDict d \<Rightarrow> Some (map PStr (dkeys d)) | _ \<Rightarrow> None)"

fun hashable :: "pyval \<Rightarrow> bool" where
  "hashable (PList _) = False"
| "hashable (PDict _) = False"
| "hashable _ = True"

fun distinct_values :: "pyval list \<Rightarrow> pyval list \<Rightarrow> pyval list" where
  "distinct_values seen [] = rev seen"
| "distinct_values seen (x # xs) = distinct_values (if py_in x seen then seen else x # seen) xs"

definition value_less :: "pyval \<Rightarrow> pyval \<Rightarrow> bool" where
  "value_less x y = (case (x, y) of
      (PStr s, PStr t) \<Rightarrow> str_lt s t
    | _ \<Rightarrow> (case (py_num x, py_num y) of (Some a, Some b) \<Rightarrow> flt a b | _ \<Rightarrow> False))"

fun insert_value :: "pyval \<Rightarrow> pyval list \<Rightarrow> pyval list" where
  "insert_value x [] = [x]"
| "insert_value x (y # ys) = (if value_less x y then x # y # ys else y # insert_value x ys)"

definition sorted_set :: "pyval list \<Rightarrow> pyval list option" where
  "sorted_set xs =
     (let ys = distinct_values [] xs
      in if \<not> list_all hashable xs then None
         else if length ys \<le> 1 \<or> list_all is_str ys \<or> list_all (\<lambda>y. py_num y \<noteq> None) ys
         then Some (foldr insert_value (rev ys) []) else None)"

section \<open>The agents\<close>

definition design_of :: "envelope \<Rightarrow> string" where
  "design_of task = py_str (py_or (pget (en_inputs task) ''design_name'') (PStr []))"

definition stage_of :: "envelope \<Rightarrow> string option" where
  "stage_of task = (case pget (en_inputs task) ''stage'' of PStr s \<Rightarrow> Some s | _ \<Rightarrow> None)"

definition candidates_of :: "pyval \<Rightarrow> pyval list" where
  "candidates_of hyp = (case hyp of
      PDict h \<Rightarrow> (case py_or (pget h ''experiments'') (PList []) of
          PList exps \<Rightarrow> concat (map (\<lambda>x. case x of
              PDict e \<Rightarrow> [PDict [(''cause_id'', dgetd h ''cause_id'' (PStr [])), (''display_name'', dgetd h ''display_name'' (PStr [])),
                (''action'', dgetd e ''action'' (PStr [])), (''risk'', dgetd e ''risk'' (PStr ''unknown'')),
                (''param_hint'', dgetd e ''param_hint'' (PDict []))]]
            | _ \<Rightarrow> []) (take 2 exps))
        | _ \<Rightarrow> [])
    | _ \<Rightarrow> [])"

definition pnr_output :: "envelope \<Rightarrow> pyval list \<Rightarrow> envelope" where
  "pnr_output task hyps =
     (let cands = concat (map candidates_of (take 3 hyps))
      in answer_ok task
        [(''hypotheses'', py_or (PList hyps) (dgetd (en_inputs task) ''hypotheses'' (PList []))),
         (''candidate_experiments'', py_or (PList cands) (dgetd (en_inputs task) ''candidate_experiments'' (PList []))),
         (''note'', PStr ''PnR analysis active'')])"

definition pnr_agent :: "'w agent_env \<Rightarrow> envelope \<Rightarrow> 'w \<Rightarrow> (string, envelope) result \<times> 'w" where
  "pnr_agent env task w =
     (case en_run task of
        None \<Rightarrow> (Inr (pnr_output task []), w)
      | Some run \<Rightarrow>
          (case ae_infer env run (en_objective task) w of
             (Inl e, w') \<Rightarrow> (Inl e, w')
           | (Inr res, w') \<Rightarrow>
               (case py_or (pget res ''hypotheses'') (PList []) of
                  PList hyps \<Rightarrow> (Inr (pnr_output task hyps), w')
                | _ \<Rightarrow> (Inl (ae_type_error env), w'))))"

text \<open>\<open>(v or 0) > 0\<close> and \<open>< 0\<close>, \<open>None\<close> for a \<open>TypeError\<close>.\<close>

definition count_positive :: "pyval \<Rightarrow> bool option" where
  "count_positive v = map_option (\<lambda>x. flt (Fin 0) x) (py_num (py_or v (PInt 0)))"

definition value_negative :: "pyval \<Rightarrow> bool option" where
  "value_negative v = map_option (\<lambda>x. flt x (Fin 0)) (py_num (py_or v (PInt 0)))"

definition timing_warnings :: "pyval list \<Rightarrow> pyval list option" where
  "timing_warnings summary = (case summary of
      [] \<Rightarrow> Some []
    | PDict s # rest \<Rightarrow>
        Option.bind (count_positive (pget s ''hold_violations'')) (\<lambda>h.
        Option.bind (count_positive (pget s ''setup_violations'')) (\<lambda>u.
        Option.bind (value_negative (pget s ''wns_ns'')) (\<lambda>n. Some (
          (if h then [PStr ''hold_violations_detected''] else []) @
          (if u then [PStr ''setup_violations_detected''] else []) @
          (if n then [PStr ''negative_wns''] else [])))))
    | _ \<Rightarrow> None)"

definition as_list :: "pyval \<Rightarrow> pyval list option" where
  "as_list v = (case v of PList xs \<Rightarrow> Some xs | _ \<Rightarrow> None)"

definition sta_output :: "'w agent_env \<Rightarrow> envelope \<Rightarrow> pyval \<Rightarrow> pyval list \<Rightarrow> (string, envelope) result" where
  "sta_output env task paths warnings =
     (case sorted_set warnings of
        None \<Rightarrow> Inl (ae_type_error env)
      | Some ws \<Rightarrow> Inr (answer_ok task
          [(''critical_paths_summary'', paths), (''constraint_warnings'', PList ws), (''note'', PStr ''STA analysis active'')]))"

definition sta_agent :: "'w agent_env \<Rightarrow> envelope \<Rightarrow> 'w \<Rightarrow> (string, envelope) result \<times> 'w" where
  "sta_agent env task w =
     ((case list_value (dgetd (en_inputs task) ''constraint_warnings'' (PList [])) of
        None \<Rightarrow> Inl (ae_type_error env)
      | Some given \<Rightarrow>
          (case en_run task of
             None \<Rightarrow> sta_output env task (dgetd (en_inputs task) ''critical_paths_summary'' (PList [])) given
           | Some run \<Rightarrow>
               ok_bind (ae_timing env (design_of task) (stage_of task) run 5 w) (\<lambda>timing.
                 case (as_list (py_or (pget timing ''summary'') (PList [])), as_list (py_or (pget timing ''paths'') (PList []))) of
                   (Some summary, Some paths) \<Rightarrow>
                     (case timing_warnings summary of
                        None \<Rightarrow> Inl (ae_type_error env)
                      | Some found \<Rightarrow> sta_output env task (PList (take 5 paths)) (given @ found))
                 | _ \<Rightarrow> Inl (ae_type_error env)))), w)"

text \<open>A measured value within its limit; what is no number, or no row at all, counts as within.\<close>

definition in_limit :: "pydict list \<Rightarrow> string \<Rightarrow> pyfloat \<Rightarrow> bool" where
  "in_limit summary key limit = (case summary of
      [] \<Rightarrow> True
    | s # rest \<Rightarrow> (case py_num (pget s key) of None \<Rightarrow> True | Some x \<Rightarrow> fle x limit))"

definition signoff_output :: "envelope \<Rightarrow> bool \<Rightarrow> pydict list \<Rightarrow> pydict list \<Rightarrow> envelope" where
  "signoff_output task ready pwr util =
     answer_ok task
       [(''signoff_ready'', PBool ready), (''drc_hotspots'', dgetd (en_inputs task) ''drc_hotspots'' (PList [])),
        (''ir_em_risks'', dgetd (en_inputs task) ''ir_em_risks'' (PList [])), (''power_summary'', PList (map PDict pwr)),
        (''utilization_summary'', PList (map PDict util)), (''note'', PStr ''Signoff analysis active'')]"

definition signoff_agent :: "'w agent_env \<Rightarrow> envelope \<Rightarrow> 'w \<Rightarrow> (string, envelope) result \<times> 'w" where
  "signoff_agent env task w =
     ((case en_run task of
        None \<Rightarrow> Inr (signoff_output task (py_truthy (dgetd (en_inputs task) ''signoff_ready'' (PBool False))) [] [])
      | Some run \<Rightarrow>
          ok_bind (ae_utilization env (design_of task) (stage_of task) run 1 w) (\<lambda>util.
          ok_bind (ae_power env (design_of task) (stage_of task) run 1 w) (\<lambda>pwr.
            Inr (signoff_output task
              (in_limit util ''utilization_pct'' (Fin 85) \<and> in_limit pwr ''total_power_w'' (Fin 5) \<and>
               \<not> py_truthy (dgetd (en_inputs task) ''drc_hotspots'' (PList [])) \<and>
               \<not> py_truthy (dgetd (en_inputs task) ''ir_em_risks'' (PList []))) pwr util)))), w)"

definition risk_of :: "pydict \<Rightarrow> pydict \<Rightarrow> string" where
  "risk_of inputs constraints = py_str (py_or (py_or (pget inputs ''risk_level'') (pget constraints ''risk_level'')) (PStr ''low''))"

definition experiment_agent :: "envelope \<Rightarrow> envelope" where
  "experiment_agent task =
     (let risk = risk_of (en_inputs task) (en_constraints task); approval = (risk = ''high'')
      in task\<lparr>en_outputs := [(''next_action'', dgetd (en_inputs task) ''next_action'' (PStr ''propose_experiment'')),
             (''risk_level'', PStr risk), (''requires_approval'', PBool approval),
             (''note'', PStr ''Experiment planning skeleton active'')],
           en_status := (if approval then AgentNeedsApproval else AgentOk), en_error := []\<rparr>)"

section \<open>The cycle\<close>

definition all_agents :: "string list" where
  "all_agents = [''pnr'', ''sta'', ''signoff'', ''experiment'']"

text \<open>One agent of the registry, \<open>None\<close> for another name.\<close>

definition registered :: "'w agent_env \<Rightarrow> string \<Rightarrow> (envelope \<Rightarrow> 'w \<Rightarrow> (string, envelope) result \<times> 'w) option" where
  "registered env name =
     (if name = ''pnr'' then Some (pnr_agent env)
      else if name = ''sta'' then Some (sta_agent env)
      else if name = ''signoff'' then Some (signoff_agent env)
      else if name = ''experiment'' then Some (\<lambda>task w. (Inr (experiment_agent task), w))
      else None)"

text \<open>The fields of the task; the name of the agent is filled in for each.\<close>

definition dispatch_one :: "'w agent_env \<Rightarrow> envelope \<Rightarrow> string \<Rightarrow> 'w \<Rightarrow> envelope \<times> 'w" where
  "dispatch_one env task name w =
     (let t = task\<lparr>en_agent := name\<rparr>
      in case registered env name of
           None \<Rightarrow> (answer_error t (''Unknown sub-agent '' @ CHR 0x27 # name @ [CHR 0x27]), w)
         | Some run \<Rightarrow> (case run t w of
               (Inr e, w') \<Rightarrow> (e, w')
             | (Inl msg, w') \<Rightarrow> (answer_error t msg, w')))"

fun dispatch :: "'w agent_env \<Rightarrow> envelope \<Rightarrow> string list \<Rightarrow> 'w \<Rightarrow> envelope list \<times> 'w" where
  "dispatch env task [] w = ([], w)"
| "dispatch env task (n # ns) w =
     (let (e, w') = dispatch_one env task n w; (es, w'') = dispatch env task ns w' in (e # es, w''))"

definition merge_step :: "envelope \<Rightarrow> pydict \<Rightarrow> pydict" where
  "merge_step e by = dset (en_agent e)
     (PDict [(''status'', PStr (agent_status_value (en_status e))), (''outputs'', PDict (en_outputs e)), (''error'', PStr (en_error e))]) by"

definition merge_outputs :: "envelope list \<Rightarrow> pydict" where
  "merge_outputs es =
     [(''by_agent'', PDict (fold merge_step es [])), (''has_error'', PBool (list_ex (\<lambda>e. en_status e = AgentError) es))]"

definition agent_output :: "pydict \<Rightarrow> string \<Rightarrow> pydict" where
  "agent_output merged name = sub_dict (sub_dict (sub_dict merged ''by_agent'') name) ''outputs''"

definition hitl_gate :: "pydict \<Rightarrow> pydict" where
  "hitl_gate merged =
     (let out = agent_output merged ''experiment'';
          blocked = (py_truthy (dgetd out ''requires_approval'' (PBool False)) \<or>
                     py_str (dgetd out ''risk_level'' (PStr ''low'')) = ''high'')
      in [(''blocked'', PBool blocked), (''status'', PStr (if blocked then ''needs_approval'' else ''auto_execute'')),
          (''reason'', PStr (if blocked then ''high risk experiment'' else []))])"

definition status_count :: "envelope list \<Rightarrow> agent_status \<Rightarrow> pyval" where
  "status_count es s = PInt (int (length (filter (\<lambda>e. en_status e = s) es)))"

definition decision_view :: "pydict \<Rightarrow> pydict" where
  "decision_view merged =
     [(''candidate_experiments'', dgetd (agent_output merged ''pnr'') ''candidate_experiments'' (PList [])),
      (''constraint_warnings'', dgetd (agent_output merged ''sta'') ''constraint_warnings'' (PList [])),
      (''signoff_ready'', PBool (py_truthy (dgetd (agent_output merged ''signoff'') ''signoff_ready'' (PBool False)))),
      (''next_action'', dgetd (agent_output merged ''experiment'') ''next_action'' (PStr ''propose_experiment'')),
      (''risk_level'', dgetd (agent_output merged ''experiment'') ''risk_level'' (PStr ''low'')),
      (''requires_approval'', PBool (py_truthy (dgetd (agent_output merged ''experiment'') ''requires_approval'' (PBool False))))]"

text \<open>\<open>run_multi_agent_cycle\<close>: the agents, or all four where the list is empty or missing.\<close>

definition run_cycle :: "'w agent_env \<Rightarrow> envelope \<Rightarrow> string list \<Rightarrow> 'w \<Rightarrow> pydict \<times> 'w" where
  "run_cycle env task agents w =
     (let (es, w') = dispatch env task (if agents = [] then all_agents else agents) w; merged = merge_outputs es
      in ([(''contract_version'', PStr ''v1''), (''task_id'', PStr (en_task task)), (''session_id'', id_value (en_session task)),
           (''run_id'', id_value (en_run task)), (''objective'', PStr (en_objective task)),
           (''agents'', PList (map (PStr \<circ> en_agent) es)), (''envelopes'', PList (map (PDict \<circ> envelope_dict) es)),
           (''merged'', PDict merged),
           (''status_summary'', PDict [(''total'', PInt (int (length es))), (''ok'', status_count es AgentOk),
              (''needs_approval'', status_count es AgentNeedsApproval), (''error'', status_count es AgentError),
              (''has_error'', dgetd merged ''has_error'' (PBool False))]),
           (''decision_view'', PDict (decision_view merged)), (''gate'', PDict (hitl_gate merged))], w'))"

section \<open>The tool\<close>

record stage_request =
  sr_backend :: string
  sr_stage :: string
  sr_design :: string
  sr_config :: string
  sr_pdk :: string
  sr_params :: pyval
  sr_context :: pydict
  sr_workdir :: pyval
  sr_profile :: pyval

record 'w experiment_env =
  ee_agents :: "'w agent_env"
  ee_resolve :: "string \<Rightarrow> pydict \<Rightarrow> (string, string \<times> string) result"
  ee_run :: "stage_request \<Rightarrow> 'w \<Rightarrow> (string, pydict) result \<times> 'w"
  ee_trace :: "pydict \<Rightarrow> 'w \<Rightarrow> 'w"   \<comment> \<open>\<open>record_decision_trace_fn\<close>; what it raises is only logged\<close>

definition setdefault :: "string \<Rightarrow> pyval \<Rightarrow> pydict \<Rightarrow> pydict" where
  "setdefault k v d = (if dget d k = None then dset k v d else d)"

definition experiment_context :: "envelope \<Rightarrow> pydict \<Rightarrow> pydict" where
  "experiment_context task req =
     (let ctx = sub_dict req ''run_context'';
          ctx = (case en_session task of None \<Rightarrow> ctx | Some i \<Rightarrow> setdefault ''session_id'' (PInt i) ctx)
      in setdefault ''is_selected'' (PBool False) (setdefault ''is_baseline'' (PBool False)
           (setdefault ''rerun_reason'' (PStr ''run_multi_agent_cycle'')
             (setdefault ''variant_tag'' (PStr ''multi_agent_experiment'') (setdefault ''stage_seq'' (PInt 1) ctx)))))"

definition text_or_empty :: "pydict \<Rightarrow> string \<Rightarrow> string" where
  "text_or_empty req k = py_str (py_or (pget req k) (PStr []))"

definition cycle_trace :: "envelope \<Rightarrow> pydict \<Rightarrow> pydict \<Rightarrow> pydict" where
  "cycle_trace task cycle req =
     [(''kind'', PStr ''multi_agent_cycle''), (''objective'', PStr (en_objective task)),
      (''gate_status'', pget (sub_dict cycle ''gate'') ''status''), (''agents'', dgetd cycle ''agents'' (PList [])),
      (''execute_experiment'', PBool True),
      (''multi_agent_contract'', PDict [(''contract_version'', dgetd cycle ''contract_version'' (PStr ''v1'')),
         (''status_summary'', dgetd cycle ''status_summary'' (PDict [])), (''decision_view'', dgetd cycle ''decision_view'' (PDict [])),
         (''gate'', dgetd cycle ''gate'' (PDict []))]),
      (''experiment'', PDict [(''backend'', PStr (text_or_empty req ''backend'')), (''stage'', pget req ''stage''),
         (''design_name'', pget req ''design_name'')])]"

definition trace_cycle :: "'w experiment_env \<Rightarrow> envelope \<Rightarrow> pydict \<Rightarrow> pydict \<Rightarrow> pydict \<Rightarrow> 'w \<Rightarrow> 'w" where
  "trace_cycle env task cycle req res w =
     (case (en_session task, en_run task, pget res ''run_id'') of
        (Some sid, Some src, PInt tgt) \<Rightarrow> ee_trace env
          [(''session_id'', PInt sid), (''source_run_id'', PInt src), (''target_run_id'', PInt tgt),
           (''llm_reason'', PStr (''multi_agent_cycle executed experiment '' @ text_or_empty req ''backend'' @ '':'' @
              py_str (dgetd req ''stage'' (PStr [])))),
           (''llm_reason_structured'', PDict (cycle_trace task cycle req)),
           (''human_approved'', PBool (pget (sub_dict cycle ''gate'') ''status'' = PStr ''needs_approval''))] w
      | _ \<Rightarrow> w)"

definition with_execution :: "pydict \<Rightarrow> pydict \<Rightarrow> pydict" where
  "with_execution cycle ex = [(''multi_agent'', PDict cycle), (''experiment_execution'', PDict ex)]"

definition failed_execution :: "string \<Rightarrow> pydict" where
  "failed_execution msg = [(''status'', PStr ''error''), (''error'', PStr msg)]"

definition multi_agent_tool :: "'w experiment_env \<Rightarrow> envelope \<Rightarrow> string list \<Rightarrow> bool \<Rightarrow> pydict \<Rightarrow> 'w \<Rightarrow> pydict \<times> 'w" where
  "multi_agent_tool env task agents execute req w =
     (let (cycle, w') = run_cycle (ee_agents env) task agents w; gate = sub_dict cycle ''gate''
      in if \<not> execute then ([(''multi_agent'', PDict cycle)], w')
         else if pget gate ''status'' \<noteq> PStr ''auto_execute'' then
           (with_execution cycle [(''status'', PStr ''blocked''), (''reason'', dgetd gate ''reason'' (PStr ''needs approval''))], w')
         else if req = [] then
           (with_execution cycle [(''status'', PStr ''skipped''), (''reason'', PStr ''experiment_request not provided'')], w')
         else if text_or_empty req ''backend'' = [] then
           (with_execution cycle (failed_execution ''experiment_request.backend is required''), w')
         else case ee_resolve env (text_or_empty req ''backend'') req of
           Inl msg \<Rightarrow> (with_execution cycle (failed_execution msg), w')
         | Inr (cfg, tech) \<Rightarrow>
             (case ee_run env \<lparr>sr_backend = text_or_empty req ''backend'', sr_stage = text_or_empty req ''stage'',
                 sr_design = text_or_empty req ''design_name'', sr_config = cfg, sr_pdk = tech,
                 sr_params = py_or (pget req ''params'') (PDict []), sr_context = experiment_context task req,
                 sr_workdir = pget req ''innovus_workdir'', sr_profile = pget req ''tech_profile''\<rparr> w' of
                (Inl msg, w'') \<Rightarrow> (with_execution cycle (failed_execution msg), w'')
              | (Inr res, w'') \<Rightarrow>
                  (with_execution cycle [(''status'', PStr (if pget res ''status'' = PStr ''success'' then ''success'' else ''failed'')),
                     (''result'', PDict res)],
                   trace_cycle env task cycle req res w'')))"

end
