(* ===== verification/SubAgentProps.thy ===== *)
theory SubAgentProps
  imports SubAgents
begin

text \<open>
  What the gate of the multi-agent cycle decides, and what runs behind it.
\<close>

section \<open>Dispatching\<close>

lemma answers_keep_agent [simp]:
  "en_agent (answer_ok t out) = en_agent t" "en_agent (answer_error t msg) = en_agent t"
  by (simp_all add: answer_ok_def answer_error_def)

lemma sta_output_name: "sta_output env t paths ws = Inr e \<Longrightarrow> en_agent e = en_agent t"
  by (auto simp: sta_output_def split: option.split_asm)

lemma sta_agent_name: "fst (sta_agent env t w) = Inr e \<Longrightarrow> en_agent e = en_agent t"
  by (auto simp: sta_agent_def ok_bind_eq_Inr dest!: sta_output_name split: option.split_asm)

lemma agents_keep_name:
  assumes "registered env name = Some run" "run t w = (Inr e, w')"
  shows "en_agent e = en_agent t"
proof -
  have "run \<in> {pnr_agent env, sta_agent env, signoff_agent env, \<lambda>task w. (Inr (experiment_agent task), w)}"
    using assms(1) by (auto simp: registered_def split: if_splits)
  then consider "run = pnr_agent env" | "run = sta_agent env" | "run = signoff_agent env"
    | "run = (\<lambda>task w. (Inr (experiment_agent task), w))" by blast
  then show ?thesis
  proof cases
    case 1
    with assms(2) show ?thesis
      by (auto simp: pnr_agent_def pnr_output_def Let_def split: option.split_asm sum.split_asm prod.split_asm pyval.split_asm)
  next
    case 2
    with assms(2) sta_agent_name [of env t w e] show ?thesis by simp
  next
    case 3
    with assms(2) show ?thesis by (auto simp: signoff_agent_def signoff_output_def ok_bind_eq_Inr split: option.split_asm)
  next
    case 4
    with assms(2) show ?thesis by (auto simp: experiment_agent_def Let_def)
  qed
qed

lemma dispatch_one_name: "en_agent (fst (dispatch_one env task n w)) = n"
proof (cases "registered env n")
  case (Some run)
  obtain r w' where r: "run (task\<lparr>en_agent := n\<rparr>) w = (r, w')" by (meson surj_pair)
  show ?thesis
    using Some r agents_keep_name [OF Some, of "task\<lparr>en_agent := n\<rparr>" w] by (cases r) (auto simp: dispatch_one_def Let_def)
qed (simp add: dispatch_one_def Let_def)

lemma dispatch_names: "map en_agent (fst (dispatch env task ns w)) = ns"
proof (induction ns arbitrary: w)
  case (Cons n ns)
  obtain d w1 where d: "dispatch_one env task n w = (d, w1)" by (meson surj_pair)
  obtain ds w2 where ds: "dispatch env task ns w1 = (ds, w2)" by (meson surj_pair)
  show ?case using dispatch_one_name [of env task n w] Cons.IH [of w1] d ds by simp
qed simp

definition experiment_answer :: "envelope \<Rightarrow> envelope" where
  "experiment_answer task = experiment_agent (task\<lparr>en_agent := ''experiment''\<rparr>)"

lemma dispatch_experiment:
  "e \<in> set (fst (dispatch env task ns w)) \<Longrightarrow> en_agent e = ''experiment'' \<Longrightarrow> e = experiment_answer task"
proof (induction ns arbitrary: w)
  case (Cons n ns)
  obtain d w1 where d: "dispatch_one env task n w = (d, w1)" by (meson surj_pair)
  obtain ds w2 where ds: "dispatch env task ns w1 = (ds, w2)" by (meson surj_pair)
  have "en_agent d = n" using dispatch_one_name [of env task n w] d by simp
  moreover have "d = experiment_answer task" if "n = ''experiment''"
    using that d by (simp add: dispatch_one_def registered_def experiment_answer_def Let_def)
  ultimately show ?case using Cons.prems Cons.IH [of w1] d ds by auto
qed simp

section \<open>Merging\<close>

definition agent_entry :: "envelope \<Rightarrow> pyval" where
  "agent_entry e = PDict [(''status'', PStr (agent_status_value (en_status e))), (''outputs'', PDict (en_outputs e)), (''error'', PStr (en_error e))]"

lemma dget_merged:
  assumes "\<And>e. e \<in> set es \<Longrightarrow> en_agent e = n \<Longrightarrow> agent_entry e = v"
  shows "dget (fold merge_step es by) n = (if n \<in> en_agent ` set es then Some v else dget by n)"
  using assms by (induction es arbitrary: "by") (auto simp: merge_step_def agent_entry_def)

lemma experiment_output:
  assumes "dispatch env task ns w = (es, w')"
  shows "agent_output (merge_outputs es) ''experiment'' =
    (if ''experiment'' \<in> set ns then en_outputs (experiment_answer task) else [])"
proof -
  have es: "e = experiment_answer task" if "e \<in> set es" "en_agent e = ''experiment''" for e
    using dispatch_experiment [of e env task ns w] assms that by simp
  have names: "en_agent ` set es = set ns" using dispatch_names [of env task ns w] assms by (metis fst_conv list.set_map)
  have "dget (fold merge_step es []) ''experiment'' =
      (if ''experiment'' \<in> set ns then Some (agent_entry (experiment_answer task)) else None)"
    using dget_merged [of es "''experiment''" "agent_entry (experiment_answer task)" "[]"] es names by auto
  then show ?thesis by (simp add: agent_output_def sub_dict_def merge_outputs_def pget_def agent_entry_def)
qed

section \<open>The gate\<close>

definition selected :: "string list \<Rightarrow> string list" where
  "selected agents = (if agents = [] then all_agents else agents)"

definition cycle_status :: "pydict \<Rightarrow> pyval" where
  "cycle_status cycle = pget (sub_dict cycle ''gate'') ''status''"

lemma cycle_gate:
  "\<exists>es w'. dispatch env task (selected agents) w = (es, w') \<and> snd (run_cycle env task agents w) = w' \<and>
     sub_dict (fst (run_cycle env task agents w)) ''gate'' = hitl_gate (merge_outputs es)"
  by (auto simp: run_cycle_def Let_def selected_def sub_dict_def pget_def split: prod.split)

lemma gate_status:
  "cycle_status (fst (run_cycle env task agents w)) =
     PStr (if ''experiment'' \<in> set (selected agents) \<and> risk_of (en_inputs task) (en_constraints task) = ''high''
           then ''needs_approval'' else ''auto_execute'')"
proof -
  obtain es w' where es: "dispatch env task (selected agents) w = (es, w')"
      "sub_dict (fst (run_cycle env task agents w)) ''gate'' = hitl_gate (merge_outputs es)"
    using cycle_gate [of env task agents w] by blast
  note out = experiment_output [OF es(1)]
  have "en_outputs (experiment_answer task) =
     [(''next_action'', dgetd (en_inputs task) ''next_action'' (PStr ''propose_experiment'')),
      (''risk_level'', PStr (risk_of (en_inputs task) (en_constraints task))),
      (''requires_approval'', PBool (risk_of (en_inputs task) (en_constraints task) = ''high'')),
      (''note'', PStr ''Experiment planning skeleton active'')]"
    by (simp add: experiment_answer_def experiment_agent_def Let_def)
  with out show ?thesis
    by (simp add: cycle_status_def es(2) hitl_gate_def Let_def dgetd_def pget_def py_str_def)
qed

text \<open>
  The gate of a cycle asks for approval exactly when the experiment agent takes part and the
  risk level handed in is the text "high"; nothing an agent finds, and no failure of an agent,
  makes a difference. Otherwise it lets the experiment run.
\<close>

theorem gate_decides:
  "(cycle_status (fst (run_cycle env task agents w)) = PStr ''needs_approval'' \<longleftrightarrow>
     ''experiment'' \<in> set (if agents = [] then all_agents else agents) \<and>
     risk_of (en_inputs task) (en_constraints task) = ''high'') \<and>
   (cycle_status (fst (run_cycle env task agents w)) \<noteq> PStr ''needs_approval'' \<longleftrightarrow>
     cycle_status (fst (run_cycle env task agents w)) = PStr ''auto_execute'')"
  unfolding gate_status selected_def by simp

lemma trace_not_approved:
  assumes "pget (sub_dict cycle ''gate'') ''status'' = PStr (if go then ''auto_execute'' else ''needs_approval'')" "go"
  shows "trace_cycle env task cycle req x w = w \<or>
    (\<exists>tr. pget tr ''human_approved'' = PBool False \<and> trace_cycle env task cycle req x w = ee_trace env tr w)"
proof (cases "(\<exists>sid. en_session task = Some sid) \<and> (\<exists>src. en_run task = Some src) \<and> (\<exists>tgt. pget x ''run_id'' = PInt tgt)")
  case True
  then obtain sid src tgt where "en_session task = Some sid" "en_run task = Some src" "pget x ''run_id'' = PInt tgt" by blast
  then show ?thesis using assms
    by (intro disjI2) (auto simp: trace_cycle_def intro!: exI conjI [rotated, OF refl] simp: pget_def [of "(_, _) # _"])
next
  case False
  then show ?thesis by (cases "en_session task"; cases "en_run task"; cases "pget x ''run_id''") (simp_all add: trace_cycle_def)
qed

text \<open>
  C24: The tool acts beyond the analysis only if it was told to, the gate is open, the request names
  a backend and its design resolves; then it runs one stage and traces it as not approved.
\<close>

theorem experiment_needs_gate:
  assumes "snd (multi_agent_tool env task agents execute req w) \<noteq> snd (run_cycle (ee_agents env) task agents w)"
  shows "execute \<and> \<not> (''experiment'' \<in> set (selected agents) \<and> risk_of (en_inputs task) (en_constraints task) = ''high'') \<and>
    (\<exists>cfg tech rq res w''. ee_resolve env (text_or_empty req ''backend'') req = Inr (cfg, tech) \<and> text_or_empty req ''backend'' \<noteq> [] \<and>
      sr_config rq = cfg \<and> sr_pdk rq = tech \<and> ee_run env rq (snd (run_cycle (ee_agents env) task agents w)) = (res, w'') \<and>
      (snd (multi_agent_tool env task agents execute req w) = w'' \<or>
       (\<exists>tr. pget tr ''human_approved'' = PBool False \<and> snd (multi_agent_tool env task agents execute req w) = ee_trace env tr w'')))"
proof -
  obtain cycle w' where c: "run_cycle (ee_agents env) task agents w = (cycle, w')" by (meson surj_pair)
  let ?go = "\<not> (''experiment'' \<in> set (selected agents) \<and> risk_of (en_inputs task) (en_constraints task) = ''high'')"
  let ?be = "text_or_empty req ''backend''"
  have st: "pget (sub_dict cycle ''gate'') ''status'' = PStr (if ?go then ''auto_execute'' else ''needs_approval'')"
    using gate_status [of "ee_agents env" task agents w] c by (auto simp: cycle_status_def)
  have go: "execute" "?go" "?be \<noteq> []" "req \<noteq> []"
    using assms by (auto simp: multi_agent_tool_def c Let_def st split: if_splits)
  obtain cfg tech where r: "ee_resolve env ?be req = Inr (cfg, tech)"
    using assms go by (cases "ee_resolve env ?be req") (auto simp: multi_agent_tool_def c Let_def st)
  let ?rq = "\<lparr>sr_backend = ?be, sr_stage = text_or_empty req ''stage'', sr_design = text_or_empty req ''design_name'', sr_config = cfg,
     sr_pdk = tech, sr_params = py_or (pget req ''params'') (PDict []), sr_context = experiment_context task req,
      sr_workdir = pget req ''innovus_workdir'', sr_profile = pget req ''tech_profile''\<rparr>"
  obtain res w'' where rn: "ee_run env ?rq w' = (res, w'')" by (meson surj_pair)
  have tr: "trace_cycle env task cycle req x w'' = w'' \<or>
      (\<exists>tr. pget tr ''human_approved'' = PBool False \<and> trace_cycle env task cycle req x w'' = ee_trace env tr w'')" for x
    using st go(2) by (rule trace_not_approved)
  have "snd (multi_agent_tool env task agents execute req w) = w'' \<or>
      (\<exists>tr. pget tr ''human_approved'' = PBool False \<and> snd (multi_agent_tool env task agents execute req w) = ee_trace env tr w'')"
    using go r rn tr by (cases res) (auto simp: multi_agent_tool_def c Let_def st)
  with go r rn show ?thesis unfolding c by (intro conjI exI [of _ cfg] exI [of _ tech] exI [of _ ?rq] exI [of _ res] exI [of _ w'']) auto
qed

text \<open>A world that counts the stage runs; every query is empty, and the agents named \<open>sta\<close> fail.\<close>

definition counting_env :: "nat experiment_env" where
  "counting_env = \<lparr>ee_agents = \<lparr>ae_infer = (\<lambda>run obj w. (Inr [], w)), ae_timing = (\<lambda>d st run n w. Inl ''no database''),
       ae_utilization = (\<lambda>d st run n w. Inr []), ae_power = (\<lambda>d st run n w. Inr []), ae_type_error = ''type''\<rparr>,
     ee_resolve = (\<lambda>be req. Inr (''cfg'', ''pdk'')), ee_run = (\<lambda>rq w. (Inr [(''status'', PStr ''success'')], Suc w)),
     ee_trace = (\<lambda>tr w. w)\<rparr>"

definition some_task :: "string \<Rightarrow> envelope" where
  "some_task risk = \<lparr>en_task = ''t'', en_agent = [], en_session = None, en_run = Some 4, en_objective = ''fix timing'', en_constraints = [],
     en_inputs = [(''risk_level'', PStr risk)], en_outputs = [], en_status = AgentOk, en_error = []\<rparr>"

text \<open>A risk level in capitals, with a failed timing analysis: the stage runs.\<close>

theorem experiment_needs_gate_witness:
  "snd (multi_agent_tool counting_env (some_task ''HIGH'') [] True [(''backend'', PStr ''orfs'')] 0) = 1 \<and>
   risk_of [(''risk_level'', PStr ''HIGH'')] [] \<noteq> ''high'' \<and>
   (\<exists>cfg tech. ee_resolve counting_env (text_or_empty [(''backend'', PStr ''orfs'')] ''backend'') [(''backend'', PStr ''orfs'')] = Inr (cfg, tech))"
proof -
  have runs: "snd (multi_agent_tool counting_env (some_task ''HIGH'') [] True [(''backend'', PStr ''orfs'')] 0) = 1" by code_simp
  moreover have "snd (run_cycle (ee_agents counting_env) (some_task ''HIGH'') [] 0) = 0" by code_simp
  ultimately have "snd (multi_agent_tool counting_env (some_task ''HIGH'') [] True [(''backend'', PStr ''orfs'')] 0) \<noteq>
      snd (run_cycle (ee_agents counting_env) (some_task ''HIGH'') [] 0)" by simp
  from experiment_needs_gate [OF this] runs show ?thesis
    by (auto simp: some_task_def selected_def all_agents_def)
qed

section \<open>Signing off\<close>

text \<open>Without utilisation and power rows, and with nothing handed in, a run counts as ready for signoff.\<close>

lemma unmeasured_run_signs_off:
  assumes "en_run task = Some run" "en_inputs task = []"
    and "ae_utilization env [] None run 1 w = Inr []" "ae_power env [] None run 1 w = Inr []"
  shows "\<exists>e. signoff_agent env task w = (Inr e, w) \<and> pget (en_outputs e) ''signoff_ready'' = PBool True"
proof -
  have "design_of task = []" "stage_of task = None" using assms(2) by (simp_all add: design_of_def stage_of_def pget_def py_or_def py_str_def)
  with assms show ?thesis
    by (simp add: signoff_agent_def ok_bind_def signoff_output_def answer_ok_def in_limit_def dgetd_def pget_def)
qed

end
