(* ===== verification/Effects.thy ===== *)
theory Effects
  imports Prelude
begin

text \<open>
  Code that acts on a world \<open>'w\<close> and may raise: a value, one thing after another, a reading of the
  world, and a call inside a \<open>try\<close> that only logs.
\<close>

type_synonym ('e, 'w, 'a) effect = "'w \<Rightarrow> ('e, 'a) result \<times> 'w"

definition gives :: "'a \<Rightarrow> ('e, 'w, 'a) effect" where
  "gives x w = (Inr x, w)"

definition seq :: "('e, 'w, 'a) effect \<Rightarrow> ('a \<Rightarrow> ('e, 'w, 'b) effect) \<Rightarrow> ('e, 'w, 'b) effect" where
  "seq m f w = (case m w of (Inl e, w') \<Rightarrow> (Inl e, w') | (Inr x, w') \<Rightarrow> f x w')"

definition reads :: "('w \<Rightarrow> ('e, 'a) result) \<Rightarrow> ('e, 'w, 'a) effect" where
  "reads f w = (f w, w)"

definition logged :: "('w \<Rightarrow> 'w) \<Rightarrow> ('e, 'w, 'a) effect \<Rightarrow> ('e, 'w, 'a) effect" where
  "logged f m w = m (f w)"

lemma seq_InrE:
  assumes "seq m f w = (Inr y, w'')"
  obtains x w' where "m w = (Inr x, w')" "f x w' = (Inr y, w'')"
  using assms by (auto simp: seq_def split: prod.splits sum.splits)

lemma effect_simps [simp]:
  "gives x w = (Inr y, w') \<longleftrightarrow> y = x \<and> w' = w" "reads f w = (Inr y, w') \<longleftrightarrow> f w = Inr y \<and> w' = w"
  "logged g m w = m (g w)"
  by (auto simp: gives_def reads_def logged_def)

lemma seq_simps:
  "m w = (Inl e, w') \<Longrightarrow> seq m f w = (Inl e, w')" "m w = (Inr x, w') \<Longrightarrow> seq m f w = f x w'"
  by (simp_all add: seq_def)

end
