(* ===== verification/Tuning.thy ===== *)
theory Tuning
  imports SubAgents Effects
begin

text \<open>
  The tuning loops of \<open>agent/tool_impl_tuning_ppa.py\<close>. The functions they are given (stage runner,
  queries, target check, suggestions, persistence) act on a world \<open>'w\<close>; an exception is its text.
  What is called inside a \<open>try\<close> that only logs gives a world alone. Run ids are integers.
\<close>

type_synonym ('w, 'a) eff = "(string, 'w, 'a) effect"

section \<open>The functions the loops are given\<close>

record 'w tune_env =
  te_resolve :: "string \<Rightarrow> pydict \<Rightarrow> (string, string \<times> string) result"
  te_create :: "string \<Rightarrow> string \<Rightarrow> string \<Rightarrow> string \<Rightarrow> string \<Rightarrow> ('w, pyval) eff"   \<comment> \<open>name, config, pdk, objective, notes\<close>
  te_run :: "stage_request \<Rightarrow> ('w, pydict) eff"
  te_status :: "pyval \<Rightarrow> string \<Rightarrow> pyval \<Rightarrow> 'w \<Rightarrow> 'w"
  te_trace :: "pydict \<Rightarrow> 'w \<Rightarrow> 'w"
  te_timing :: "string \<Rightarrow> string option \<Rightarrow> pyval \<Rightarrow> 'w \<Rightarrow> (string, pydict) result"
  te_congestion :: "pyval \<Rightarrow> 'w \<Rightarrow> (string, pydict) result"
  te_met :: "pydict \<Rightarrow> string \<Rightarrow> pydict \<Rightarrow> (string, bool) result"
  te_bottleneck :: "pydict \<Rightarrow> pyval \<Rightarrow> 'w \<Rightarrow> (string, string) result"
  te_suggest :: "pyval \<Rightarrow> string \<Rightarrow> ('w, pydict) eff"
  te_filter :: "pyval \<Rightarrow> string \<Rightarrow> string \<Rightarrow> (string, pydict) result"
  te_context :: "pyval \<Rightarrow> 'w \<Rightarrow> (string, pydict) result"
  te_reason :: "pydict \<Rightarrow> string \<Rightarrow> (string, string) result"
  te_structured :: "pydict \<Rightarrow> string \<Rightarrow> (string, pydict) result"
  te_type_error :: string

record tune_task =
  tt_backend :: string
  tt_stage :: string
  tt_design :: string
  tt_config :: string
  tt_pdk :: string
  tt_spec :: string
  tt_max :: int
  tt_session :: pyval

section \<open>Pieces both loops share\<close>

text \<open>The first row of the timing summary, if there is one.\<close>

definition first_summary :: "'w tune_env \<Rightarrow> pydict \<Rightarrow> (string, pydict option) result" where
  "first_summary env timing =
     (let s = pget timing ''summary''
      in if \<not> py_truthy s then Inr None
         else case s of PList (PDict d # rest) \<Rightarrow> Inr (Some d) | _ \<Rightarrow> Inl (te_type_error env))"

text \<open>Whether \<open>wns\<close> is better than the best so far; \<open>None\<close> for what cannot be compared.\<close>

definition better :: "pyval \<Rightarrow> pyval \<Rightarrow> bool option" where
  "better wns best =
     (if best = PNone then Some True
      else case (py_num wns, py_num best) of (Some x, Some y) \<Rightarrow> Some (flt y x) | _ \<Rightarrow> None)"

definition better_wns :: "'w tune_env \<Rightarrow> pyval \<Rightarrow> pyval \<Rightarrow> (string, bool) result" where
  "better_wns env wns best =
     (if wns = PNone then Inr False
      else case better wns best of None \<Rightarrow> Inl (te_type_error env) | Some b \<Rightarrow> Inr b)"

definition pending_reason :: "pydict option \<Rightarrow> string \<Rightarrow> string" where
  "pending_reason pend otherwise = (case pend of None \<Rightarrow> otherwise | Some d \<Rightarrow> py_str (dgetd d ''reason'' (PStr [])))"

definition pending_inference :: "pydict option \<Rightarrow> pyval" where
  "pending_inference pend = (case pend of None \<Rightarrow> PNone | Some d \<Rightarrow> pget d ''inference_id'')"

definition tune_context :: "tune_task \<Rightarrow> int \<Rightarrow> int \<Rightarrow> pydict option \<Rightarrow> string \<Rightarrow> pyval \<Rightarrow> pydict" where
  "tune_context task seq_no i pend otherwise prev =
     [(''session_id'', tt_session task), (''stage_seq'', PInt seq_no), (''variant_tag'', PStr (''iter_'' @ show_int i)),
      (''rerun_reason'', PStr (pending_reason pend otherwise)), (''is_baseline'', PBool (i = 1)), (''is_selected'', PBool False),
      (''parent_run_id'', prev), (''root_cause_inference_id'', pending_inference pend)]"

definition tune_request :: "tune_task \<Rightarrow> string \<Rightarrow> pydict \<Rightarrow> pydict \<Rightarrow> stage_request" where
  "tune_request task stage params ctx =
     \<lparr>sr_backend = tt_backend task, sr_stage = stage, sr_design = tt_design task, sr_config = tt_config task, sr_pdk = tt_pdk task,
      sr_params = PDict params, sr_context = ctx, sr_workdir = PNone, sr_profile = PNone\<rparr>"

definition trace_pending :: "'w tune_env \<Rightarrow> tune_task \<Rightarrow> pydict option \<Rightarrow> pyval \<Rightarrow> 'w \<Rightarrow> 'w" where
  "trace_pending env task pend target w =
     (case pend of None \<Rightarrow> w
      | Some d \<Rightarrow> te_trace env
          [(''session_id'', tt_session task), (''source_run_id'', pget d ''source_run_id''), (''target_run_id'', target),
           (''llm_reason'', PStr (py_str (dgetd d ''reason'' (PStr [])))), (''llm_reason_structured'', pget d ''reason_structured''),
           (''inference_id'', pget d ''inference_id''), (''case_id'', pget d ''case_id''), (''rule_id'', pget d ''rule_id'')] w)"

definition next_spec :: "tune_task \<Rightarrow> int \<Rightarrow> bool \<Rightarrow> string" where
  "next_spec task i improved =
     tt_spec task @ (if \<not> improved \<and> i > 1 then '' [last params did NOT improve WNS; try a different direction]'' else [])"

definition new_pending :: "'w tune_env \<Rightarrow> pyval \<Rightarrow> pydict \<Rightarrow> string \<Rightarrow> ('w, pydict) eff" where
  "new_pending env run suggestion prefix =
     seq (reads (te_context env run)) (\<lambda>ctx.
     seq (reads (\<lambda>w. te_reason env suggestion prefix)) (\<lambda>reason.
     seq (reads (\<lambda>w. te_structured env suggestion prefix)) (\<lambda>structured. gives
       [(''source_run_id'', run), (''reason'', PStr reason), (''reason_structured'', PDict structured),
        (''inference_id'', pget ctx ''inference_id''), (''case_id'', pget ctx ''case_id''), (''rule_id'', pget ctx ''rule_id'')])))"

definition raw_suggestion :: "pydict \<Rightarrow> pyval" where
  "raw_suggestion suggestion = dgetd suggestion ''suggested_params'' (PDict [])"

section \<open>Tuning one stage\<close>

record tune_state =
  ts_params :: pydict
  ts_best :: pyval
  ts_prev :: pyval
  ts_pending :: "pydict option"
  ts_history :: "pydict list"

datatype tune_end = RunFailed | TargetMet | Unfinished

definition tune_start :: tune_state where
  "tune_start = \<lparr>ts_params = [], ts_best = PNone, ts_prev = PNone, ts_pending = None, ts_history = []\<rparr>"

text \<open>The record of an iteration whose run succeeded, up to the target check.\<close>

definition measured_record :: "pydict \<Rightarrow> pydict option \<Rightarrow> bool \<Rightarrow> pydict" where
  "measured_record r summary improved =
     dset ''improved'' (PBool improved) (case summary of None \<Rightarrow> r | Some s \<Rightarrow>
       dset ''failing_endpoints'' (pget s ''failing_endpoints'') (dset ''tns_ns'' (pget s ''tns_ns'') (dset ''wns_ns'' (pget s ''wns_ns'') r)))"

definition wns_of :: "pydict option \<Rightarrow> pyval" where
  "wns_of summary = (case summary of None \<Rightarrow> PNone | Some s \<Rightarrow> pget s ''wns_ns'')"

text \<open>The next parameters and the decision to trace once they have been run.\<close>

definition tune_next :: "'w tune_env \<Rightarrow> tune_task \<Rightarrow> int \<Rightarrow> bool \<Rightarrow> pyval \<Rightarrow> tune_state \<Rightarrow> ('w, tune_state) eff" where
  "tune_next env task i improved run st =
     (if i \<ge> tt_max task then gives st
      else seq (te_suggest env run (next_spec task i improved)) (\<lambda>suggestion.
           seq (reads (\<lambda>w. te_filter env (raw_suggestion suggestion) (tt_backend task) (tt_stage task))) (\<lambda>params.
           seq (new_pending env run suggestion (''tune_ppa iteration '' @ show_int i @ '' -> '' @ show_int (i + 1))) (\<lambda>pend.
             gives (st\<lparr>ts_params := params, ts_pending := Some pend\<rparr>)))))"

definition tune_measure :: "'w tune_env \<Rightarrow> tune_task \<Rightarrow> int \<Rightarrow> pyval \<Rightarrow> pydict \<Rightarrow> tune_state \<Rightarrow> ('w, tune_end \<times> tune_state) eff" where
  "tune_measure env task i run rec st =
     seq (reads (te_timing env (tt_design task) (Some (tt_stage task)) run)) (\<lambda>timing.
     seq (reads (\<lambda>w. first_summary env timing)) (\<lambda>summary.
     seq (reads (\<lambda>w. better_wns env (wns_of summary) (ts_best st))) (\<lambda>improved.
     seq (reads (te_congestion env run)) (\<lambda>congestion.
     seq (reads (\<lambda>w. te_met env timing (tt_spec task) congestion)) (\<lambda>met.
       let rec' = dset ''congestion_summary'' (PDict congestion) (dset ''target_met'' (PBool met) (measured_record rec summary improved));
           st' = st\<lparr>ts_best := (if improved then wns_of summary else ts_best st), ts_prev := run, ts_pending := None,
                    ts_history := ts_history st @ [rec']\<rparr>
       in if met then logged (te_status env (tt_session task) ''completed'' run) (gives (TargetMet, st'))
          else seq (tune_next env task i improved run st') (\<lambda>st''. gives (Unfinished, st'')))))))"

definition tune_iteration :: "'w tune_env \<Rightarrow> tune_task \<Rightarrow> int \<Rightarrow> tune_state \<Rightarrow> ('w, tune_end \<times> tune_state) eff" where
  "tune_iteration env task i st =
     seq (te_run env (tune_request task (tt_stage task) (ts_params st)
       (tune_context task i i (ts_pending st) (''tune_ppa iteration '' @ show_int i) (ts_prev st)))) (\<lambda>res.
       let run = pget res ''run_id''; status = pget res ''status'';
           rec = [(''iteration'', PInt i), (''params'', PDict (ts_params st)), (''run_id'', run), (''status'', status),
                  (''target_met'', PBool False), (''improved'', PBool False)]
       in if status \<noteq> PStr ''success'' \<or> run = PNone
          then logged (te_status env (tt_session task) ''failed'' PNone)
                 (gives (RunFailed, st\<lparr>ts_history := ts_history st @ [rec @ [(''error'', pget res ''error'')]]\<rparr>))
          else logged (trace_pending env task (ts_pending st) run) (tune_measure env task i run rec st))"

fun tune_loop :: "'w tune_env \<Rightarrow> tune_task \<Rightarrow> nat \<Rightarrow> int \<Rightarrow> tune_state \<Rightarrow> ('w, tune_end \<times> tune_state) eff" where
  "tune_loop env task 0 i st = gives (Unfinished, st)"
| "tune_loop env task (Suc left) i st =
     seq (tune_iteration env task i st) (\<lambda>(e, st'). if e = Unfinished then tune_loop env task left (i + 1) st' else gives (e, st'))"

definition record_met :: "pydict \<Rightarrow> bool" where
  "record_met r \<longleftrightarrow> py_truthy (pget r ''target_met'')"

definition tune_report :: "tune_task \<Rightarrow> pyval \<Rightarrow> pydict list \<Rightarrow> pydict" where
  "tune_report task best history =
     [(''session_id'', tt_session task), (''iterations_run'', PInt (int (length history))), (''target_spec'', PStr (tt_spec task)),
      (''target_met'', PBool (list_ex record_met history)), (''best_wns_ns'', best), (''history'', PList (map PDict history))]"

text \<open>A session that neither failed nor met its target is closed as failed.\<close>

definition close_session :: "'w tune_env \<Rightarrow> tune_task \<Rightarrow> bool \<Rightarrow> 'w \<Rightarrow> 'w" where
  "close_session env task unfinished w = (if unfinished then te_status env (tt_session task) ''failed'' PNone w else w)"

definition open_session :: "'w tune_env \<Rightarrow> tune_task \<Rightarrow> pydict \<Rightarrow> string \<Rightarrow> string \<Rightarrow> ('w, tune_task) eff" where
  "open_session env task identity objective notes =
     seq (reads (\<lambda>w. te_resolve env (tt_backend task) identity)) (\<lambda>(cfg, tech).
     seq (te_create env (tt_design task) cfg tech objective notes) (\<lambda>sid.
       gives (task\<lparr>tt_config := cfg, tt_pdk := tech, tt_session := sid\<rparr>)))"

definition tune_ppa :: "'w tune_env \<Rightarrow> tune_task \<Rightarrow> pydict \<Rightarrow> ('w, pydict) eff" where
  "tune_ppa env task identity =
     seq (open_session env task identity ''tune_ppa'' (''tune_ppa:'' @ tt_stage task @ '':'' @ tt_spec task)) (\<lambda>task.
     seq (tune_loop env task (nat (tt_max task)) 1 tune_start) (\<lambda>(e, st).
       logged (close_session env task (e = Unfinished)) (gives (tune_report task (ts_best st) (ts_history st)))))"

fun is_int :: "pyval \<Rightarrow> bool" where
  "is_int (PInt n) = True"
| "is_int (PBool b) = True"
| "is_int _ = False"

section \<open>Tuning the flow\<close>

definition orfs_stage_order :: "string list" where
  "orfs_stage_order = [''synth'', ''floorplan'', ''place'', ''cts'', ''route'', ''finish'']"

text \<open>\<open>ORFS_STAGE_ORDER[index(s):]\<close>, with \<open>otherwise\<close> for a stage that is not in it.\<close>

definition stages_from :: "string \<Rightarrow> string list \<Rightarrow> string list" where
  "stages_from s otherwise = (if s \<in> set orfs_stage_order then dropWhile (\<lambda>x. x \<noteq> s) orfs_stage_order else otherwise)"

record stage_pass =
  sp_seq :: int
  sp_prev :: pyval
  sp_pending :: "pydict option"
  sp_records :: "pydict list"
  sp_last :: pyval
  sp_timing :: pydict
  sp_failed :: bool

definition summary_dict :: "pydict option \<Rightarrow> pydict" where
  "summary_dict s = (case s of None \<Rightarrow> [] | Some d \<Rightarrow> d)"

definition stage_measured :: "'w tune_env \<Rightarrow> tune_task \<Rightarrow> string \<Rightarrow> pydict \<Rightarrow> stage_pass \<Rightarrow> ('w, stage_pass) eff" where
  "stage_measured env task stage rec sp =
     seq (reads (te_timing env (tt_design task) (Some stage) (sp_last sp))) (\<lambda>timing.
     seq (reads (\<lambda>w. first_summary env timing)) (\<lambda>summary.
       let s = summary_dict summary;
           rec' = rec @ [(''wns_ns'', pget s ''wns_ns''), (''tns_ns'', pget s ''tns_ns''), (''failing_endpoints'', pget s ''failing_endpoints'')]
       in gives (sp\<lparr>sp_records := sp_records sp @ [rec'], sp_timing := (if stage = ''finish'' then timing else sp_timing sp)\<rparr>)))"

definition run_one_stage :: "'w tune_env \<Rightarrow> tune_task \<Rightarrow> int \<Rightarrow> (string, pydict) dict \<Rightarrow> string \<Rightarrow> stage_pass \<Rightarrow> ('w, stage_pass) eff" where
  "run_one_stage env task i stage_params stage sp =
     (let params = dgetd stage_params stage []; n = sp_seq sp + 1
      in seq (te_run env (tune_request task stage params
           (tune_context task n i (sp_pending sp) (''tune_ppa_multistage iter='' @ show_int i @ '' stage='' @ stage) (sp_prev sp)))) (\<lambda>res.
         let run = pget res ''run_id''; status = pget res ''status'';
             rec = [(''stage'', PStr stage), (''run_id'', run), (''status'', status), (''params'', PDict params)]
         in if status \<noteq> PStr ''success''
            then logged (te_status env (tt_session task) ''failed'' PNone)
                   (gives (sp\<lparr>sp_seq := n, sp_records := sp_records sp @ [rec @ [(''error'', pget res ''error'')]], sp_failed := True\<rparr>))
            else if is_int run
            then logged (trace_pending env task (sp_pending sp) run)
                   (stage_measured env task stage rec (sp\<lparr>sp_seq := n, sp_last := run, sp_prev := run, sp_pending := None\<rparr>))
            else stage_measured env task stage rec (sp\<lparr>sp_seq := n, sp_last := run\<rparr>)))"

fun run_stages :: "'w tune_env \<Rightarrow> tune_task \<Rightarrow> int \<Rightarrow> (string, pydict) dict \<Rightarrow> string list \<Rightarrow> stage_pass \<Rightarrow> ('w, stage_pass) eff" where
  "run_stages env task i params [] sp = gives sp"
| "run_stages env task i params (s # ss) sp =
     seq (run_one_stage env task i params s sp) (\<lambda>sp'. if sp_failed sp' then gives sp' else run_stages env task i params ss sp')"

record multi_state =
  ms_params :: "(string, pydict) dict"
  ms_from :: string
  ms_best :: pyval
  ms_prev :: pyval
  ms_pending :: "pydict option"
  ms_seq :: int
  ms_failed :: bool
  ms_history :: "pydict list"

definition multi_start :: "string \<Rightarrow> multi_state" where
  "multi_start stage = \<lparr>ms_params = [], ms_from = stage, ms_best = PNone, ms_prev = PNone, ms_pending = None, ms_seq = 0,
     ms_failed = False, ms_history = []\<rparr>"

text \<open>The bottleneck stage with its new parameters, and the decision to trace; the record keeps them.\<close>

definition multi_next :: "'w tune_env \<Rightarrow> tune_task \<Rightarrow> int \<Rightarrow> bool \<Rightarrow> pyval \<Rightarrow> pydict \<Rightarrow> pydict \<Rightarrow> multi_state \<Rightarrow> ('w, multi_state) eff" where
  "multi_next env task i improved run timing rec st =
     (if i \<ge> tt_max task \<or> run = PNone then gives (st\<lparr>ms_history := ms_history st @ [rec]\<rparr>)
      else seq (reads (te_bottleneck env timing run)) (\<lambda>bottleneck.
           seq (te_suggest env run (next_spec task i improved)) (\<lambda>suggestion.
           seq (reads (\<lambda>w. te_filter env (raw_suggestion suggestion) (tt_backend task) bottleneck)) (\<lambda>params.
           let rec' = (if params = [] then rec
                       else dset ''next_params'' (PDict params) (dset ''next_bottleneck_stage'' (PStr bottleneck) rec))
           in seq (new_pending env run suggestion (''tune_ppa_multistage iteration '' @ show_int i @ '' rerun_from='' @ bottleneck)) (\<lambda>pend.
             gives (st\<lparr>ms_params := (if params = [] then ms_params st else dset bottleneck params (ms_params st)),
                       ms_from := bottleneck, ms_pending := Some pend, ms_history := ms_history st @ [rec']\<rparr>))))))"

definition multi_judge :: "'w tune_env \<Rightarrow> tune_task \<Rightarrow> int \<Rightarrow> stage_pass \<Rightarrow> multi_state \<Rightarrow> ('w, tune_end \<times> multi_state) eff" where
  "multi_judge env task i sp st =
     (let run = sp_last sp
      in seq (if sp_timing sp = [] \<and> py_truthy run then reads (te_timing env (tt_design task) None run) else gives (sp_timing sp)) (\<lambda>timing.
         seq (reads (\<lambda>w. first_summary env timing)) (\<lambda>summary.
         let wns = wns_of summary
         in seq (reads (\<lambda>w. better_wns env wns (ms_best st))) (\<lambda>improved.
            seq (if py_truthy run then reads (te_congestion env run) else gives []) (\<lambda>congestion.
            seq (reads (\<lambda>w. te_met env timing (tt_spec task) congestion)) (\<lambda>met.
              let rec = [(''iteration'', PInt i), (''rerun_from'', PStr (ms_from st)), (''stages_run'', PList (map PDict (sp_records sp))),
                         (''target_met'', PBool met), (''improved'', PBool improved)] @
                        (if wns = PNone then [] else [(''wns_ns'', wns)]) @ [(''congestion_summary'', PDict congestion)];
                  st' = st\<lparr>ms_best := (if improved then wns else ms_best st)\<rparr>
              in if met then logged (te_status env (tt_session task) ''completed'' run)
                        (gives (TargetMet, st'\<lparr>ms_history := ms_history st @ [rec]\<rparr>))
                 else seq (multi_next env task i improved run timing rec st') (\<lambda>st''. gives (Unfinished, st''))))))))"

definition multi_iteration :: "'w tune_env \<Rightarrow> tune_task \<Rightarrow> string list \<Rightarrow> int \<Rightarrow> multi_state \<Rightarrow> ('w, tune_end \<times> multi_state) eff" where
  "multi_iteration env task otherwise i st =
     seq (run_stages env task i (ms_params st) (stages_from (ms_from st) otherwise)
       \<lparr>sp_seq = ms_seq st, sp_prev = ms_prev st, sp_pending = ms_pending st, sp_records = [], sp_last = PNone, sp_timing = [], sp_failed = False\<rparr>)
       (\<lambda>sp. multi_judge env task i sp
         (st\<lparr>ms_seq := sp_seq sp, ms_prev := sp_prev sp, ms_pending := sp_pending sp, ms_failed := ms_failed st \<or> sp_failed sp\<rparr>))"

text \<open>A failed stage ends its iteration, not the loop.\<close>

fun multi_loop :: "'w tune_env \<Rightarrow> tune_task \<Rightarrow> string list \<Rightarrow> nat \<Rightarrow> int \<Rightarrow> multi_state \<Rightarrow> ('w, tune_end \<times> multi_state) eff" where
  "multi_loop env task otherwise 0 i st = gives (Unfinished, st)"
| "multi_loop env task otherwise (Suc left) i st =
     seq (multi_iteration env task otherwise i st) (\<lambda>(e, st').
       if e = Unfinished then multi_loop env task otherwise left (i + 1) st' else gives (e, st'))"

definition tune_ppa_multistage :: "'w tune_env \<Rightarrow> tune_task \<Rightarrow> pydict \<Rightarrow> string \<Rightarrow> ('w, pydict) eff" where
  "tune_ppa_multistage env task identity start_stage =
     seq (open_session env task identity ''tune_ppa_multistage'' (''tune_ppa_multistage:'' @ start_stage @ '':'' @ tt_spec task)) (\<lambda>task.
     seq (multi_loop env task (stages_from start_stage orfs_stage_order) (nat (tt_max task)) 1 (multi_start start_stage)) (\<lambda>(e, st).
       logged (close_session env task (e = Unfinished \<and> \<not> ms_failed st)) (gives (tune_report task (ms_best st) (ms_history st)))))"

end
