(* ===== verification/TuningProps.thy ===== *)
theory TuningProps
  imports Tuning TargetCheck
begin

text \<open>
  What the tuning loops return, how often they run the tools, and what the loop over the whole flow
  does with a stage that fails.
\<close>

section \<open>One stage\<close>

text \<open>No measured value of the history is better than the best one.\<close>

definition best_of :: "pyval \<Rightarrow> pydict list \<Rightarrow> bool" where
  "best_of best history \<longleftrightarrow>
     (if best = PNone then \<forall>r \<in> set history. pget r ''wns_ns'' = PNone
      else (\<exists>r \<in> set history. pget r ''wns_ns'' = best) \<and>
        (\<forall>r \<in> set history. \<forall>x y. py_num best = Some x \<longrightarrow> py_num (pget r ''wns_ns'') = Some y \<longrightarrow> \<not> flt x y))"

lemma best_of_snoc:
  assumes "best_of best history" "better_wns env wns best = Inr improved" "pget r ''wns_ns'' = wns"
  shows "best_of (if improved then wns else best) (history @ [r])"
proof (cases "wns = PNone")
  case True
  with assms show ?thesis by (auto simp: best_of_def better_wns_def)
next
  case False
  note wns = this
  show ?thesis
  proof (cases "best = PNone")
    case True
    with assms wns show ?thesis by (auto simp: best_of_def better_wns_def better_def)
  next
    case False
    then obtain x y where n: "py_num wns = Some x" "py_num best = Some y" "improved = flt y x"
      using assms(2) wns by (auto simp: better_wns_def better_def split: option.splits)
    have old: "\<not> flt y z" if "q \<in> set history" "py_num (pget q ''wns_ns'') = Some z" for q z
      using assms(1) False n(2) that by (auto simp: best_of_def)
    have "\<not> flt x z" if "flt y x" "\<not> flt y z" for z using that by (meson flt_trans)
    with old n assms(1,3) wns False show ?thesis by (auto simp: best_of_def)
  qed
qed

definition good_run :: "pydict \<Rightarrow> bool" where
  "good_run r \<longleftrightarrow> pget r ''status'' = PStr ''success'' \<and> pget r ''run_id'' \<noteq> PNone"

lemma tune_next_history: "tune_next env task i improved run st w = (Inr st', w') \<Longrightarrow> ts_history st' = ts_history st \<and> ts_best st' = ts_best st"
  by (auto simp: tune_next_def split: if_splits elim!: seq_InrE)

lemma measured_record_gets:
  "pget (measured_record rec s i) ''wns_ns'' = (case s of None \<Rightarrow> pget rec ''wns_ns'' | Some d \<Rightarrow> pget d ''wns_ns'')"
  "pget (measured_record rec s i) ''status'' = pget rec ''status''" "pget (measured_record rec s i) ''run_id'' = pget rec ''run_id''"
  by (simp_all add: measured_record_def pget_dset split: option.split)

text \<open>An iteration adds one record; the loop goes on only behind a good run that misses the target.\<close>

lemma tune_iteration_record:
  assumes "tune_iteration env task i st w = (Inr (e, st'), w')" "best_of (ts_best st) (ts_history st)"
  shows "\<exists>r. ts_history st' = ts_history st @ [r] \<and> best_of (ts_best st') (ts_history st') \<and>
    record_met r = (e = TargetMet) \<and> (e \<noteq> RunFailed \<longrightarrow> good_run r)"
proof -
  obtain res w1 where res: "te_run env (tune_request task (tt_stage task) (ts_params st)
       (tune_context task i i (ts_pending st) (''tune_ppa iteration '' @ show_int i) (ts_prev st))) w = (Inr res, w1)"
    using assms(1) unfolding tune_iteration_def by (elim seq_InrE)
  let ?run = "pget res ''run_id''" and ?status = "pget res ''status''"
  let ?rec = "[(''iteration'', PInt i), (''params'', PDict (ts_params st)), (''run_id'', ?run), (''status'', ?status),
      (''target_met'', PBool False), (''improved'', PBool False)]"
  show ?thesis
  proof (cases "?status \<noteq> PStr ''success'' \<or> ?run = PNone")
    case True
    let ?r = "?rec @ [(''error'', pget res ''error'')]"
    have st': "e = RunFailed" "st' = st\<lparr>ts_history := ts_history st @ [?r]\<rparr>"
      using assms(1) res True by (auto simp: tune_iteration_def seq_def Let_def)
    have "pget ?r ''wns_ns'' = PNone" "\<not> record_met ?r" by (simp_all add: pget_def record_met_def)
    with st' best_of_snoc [OF assms(2), of env PNone False ?r] show ?thesis by (auto simp: better_wns_def)
  next
    case False
    then have "tune_measure env task i ?run ?rec st (trace_pending env task (ts_pending st) ?run w1) = (Inr (e, st'), w')"
      using assms(1) res by (auto simp: tune_iteration_def seq_def Let_def)
    then obtain timing summary improved congestion met w2 where
        m: "better_wns env (wns_of summary) (ts_best st) = Inr improved"
      and rest: "(let rec' = dset ''congestion_summary'' (PDict congestion) (dset ''target_met'' (PBool met) (measured_record ?rec summary improved));
           st' = st\<lparr>ts_best := (if improved then wns_of summary else ts_best st), ts_prev := ?run, ts_pending := None,
                    ts_history := ts_history st @ [rec']\<rparr>
       in if met then logged (te_status env (tt_session task) ''completed'' ?run) (gives (TargetMet, st'))
          else seq (tune_next env task i improved ?run st') (\<lambda>st''. gives (Unfinished, st''))) w2 = (Inr (e, st'), w')"
      unfolding tune_measure_def by (elim seq_InrE) (simp only: effect_simps, rule that, (elim conjE, simp)+)
    let ?r = "dset ''congestion_summary'' (PDict congestion) (dset ''target_met'' (PBool met) (measured_record ?rec summary improved))"
    have r: "pget ?r ''wns_ns'' = wns_of summary" "good_run ?r" "record_met ?r = met"
      using False by (simp_all add: pget_dset measured_record_gets good_run_def record_met_def wns_of_def split: option.split)
        (simp_all add: pget_def)
    have st': "ts_history st' = ts_history st @ [?r]" "ts_best st' = (if improved then wns_of summary else ts_best st)" "e = (if met then TargetMet else Unfinished)"
      using rest by (auto simp: Let_def split: if_splits elim!: seq_InrE dest!: tune_next_history)
    with r best_of_snoc [OF assms(2) m r(1)] show ?thesis by auto
  qed
qed

lemma tune_loop_history:
  assumes "tune_loop env task left i st w = (Inr (e, st'), w')" "best_of (ts_best st) (ts_history st)"
  shows "\<exists>new. ts_history st' = ts_history st @ new \<and> length new \<le> left \<and> best_of (ts_best st') (ts_history st') \<and>
    (\<forall>r \<in> set (butlast new). good_run r \<and> \<not> record_met r) \<and>
    (e = TargetMet \<longleftrightarrow> new \<noteq> [] \<and> record_met (last new)) \<and> (e \<noteq> RunFailed \<longrightarrow> (\<forall>r \<in> set new. good_run r))"
  using assms
proof (induction left arbitrary: i st w)
  case 0
  then show ?case by simp
next
  case (Suc left)
  obtain e1 st1 w1 where it: "tune_iteration env task i st w = (Inr (e1, st1), w1)"
    and more: "(if e1 = Unfinished then tune_loop env task left (i + 1) st1 else gives (e1, st1)) w1 = (Inr (e, st'), w')"
    using Suc.prems(1) by (auto elim!: seq_InrE)
  obtain r where r: "ts_history st1 = ts_history st @ [r]" "best_of (ts_best st1) (ts_history st1)"
      "record_met r = (e1 = TargetMet)" "e1 \<noteq> RunFailed \<longrightarrow> good_run r"
    using tune_iteration_record [OF it Suc.prems(2)] by blast
  show ?case
  proof (cases "e1 = Unfinished")
    case True
    with more have "tune_loop env task left (i + 1) st1 w1 = (Inr (e, st'), w')" by simp
    from Suc.IH [OF this r(2)] obtain new where new: "ts_history st' = ts_history st1 @ new" "length new \<le> left"
        "best_of (ts_best st') (ts_history st')" "\<forall>r \<in> set (butlast new). good_run r \<and> \<not> record_met r"
        "e = TargetMet \<longleftrightarrow> new \<noteq> [] \<and> record_met (last new)" "e \<noteq> RunFailed \<longrightarrow> (\<forall>r \<in> set new. good_run r)" by blast
    have "\<forall>q \<in> set (butlast (r # new)). good_run q \<and> \<not> record_met q" using new(4) r(3,4) True by auto
    with new r True show ?thesis by (intro exI [of _ "r # new"]) auto
  next
    case False
    with more have "e = e1" "st' = st1" by simp_all
    with r False show ?thesis by (intro exI [of _ "[r]"]) auto
  qed
qed

lemma open_session_task: "open_session env task identity obj notes w = (Inr task', w') \<Longrightarrow>
   tt_max task' = tt_max task \<and> tt_spec task' = tt_spec task \<and> tt_stage task' = tt_stage task"
  by (auto simp: open_session_def split: prod.splits elim!: seq_InrE)

text \<open>
  C25: A tuning run that returns made at most the iterations it was given; every iteration but the last
  had a successful run that missed the target, the report says met exactly when the last one met it,
  and the best slack is one that was measured, with none better.
\<close>

theorem tune_ppa_outcome:
  assumes "tune_ppa env task identity w = (Inr out, w')"
  shows "\<exists>hist. pget out ''history'' = PList (map PDict hist) \<and> length hist \<le> nat (tt_max task) \<and>
    pget out ''iterations_run'' = PInt (int (length hist)) \<and>
    list_all (\<lambda>r. good_run r \<and> \<not> record_met r) (butlast hist) \<and>
    pget out ''target_met'' = PBool (hist \<noteq> [] \<and> record_met (last hist)) \<and>
    (hist \<noteq> [] \<and> record_met (last hist) \<longrightarrow> good_run (last hist)) \<and> best_of (pget out ''best_wns_ns'') hist"
proof -
  obtain task' w1 where o: "open_session env task identity ''tune_ppa'' (''tune_ppa:'' @ tt_stage task @ '':'' @ tt_spec task) w = (Inr task', w1)"
    and "seq (tune_loop env task' (nat (tt_max task')) 1 tune_start) (\<lambda>(e, st).
       logged (close_session env task' (e = Unfinished)) (gives (tune_report task' (ts_best st) (ts_history st)))) w1 = (Inr out, w')"
    by (rule seq_InrE [OF assms [unfolded tune_ppa_def]]) (rule that)
  then obtain e st w2 where l: "tune_loop env task' (nat (tt_max task')) 1 tune_start w1 = (Inr (e, st), w2)"
    and out: "out = tune_report task' (ts_best st) (ts_history st)"
    by (auto elim!: seq_InrE)
  have "best_of (ts_best tune_start) (ts_history tune_start)" by (simp add: tune_start_def best_of_def)
  from tune_loop_history [OF l this] obtain hist where h: "ts_history st = hist" "length hist \<le> nat (tt_max task')"
      "best_of (ts_best st) (ts_history st)" "\<forall>r \<in> set (butlast hist). good_run r \<and> \<not> record_met r"
      "e = TargetMet \<longleftrightarrow> hist \<noteq> [] \<and> record_met (last hist)" "e \<noteq> RunFailed \<longrightarrow> (\<forall>r \<in> set hist. good_run r)"
    by (auto simp: tune_start_def)
  have met: "list_ex record_met hist \<longleftrightarrow> hist \<noteq> [] \<and> record_met (last hist)"
  proof (cases hist rule: rev_cases)
    case (snoc xs x)
    with h(4) show ?thesis by (auto simp: list_ex_iff)
  qed simp
  have good: "hist \<noteq> [] \<and> record_met (last hist) \<longrightarrow> good_run (last hist)" using h(5,6) by auto
  show ?thesis
    by (rule exI [of _ hist]) (use h met good open_session_task [OF o] in \<open>simp add: out tune_report_def pget_def list_all_iff\<close>)
qed

section \<open>How often the tools run\<close>

definition grows :: "('w \<Rightarrow> nat) \<Rightarrow> nat \<Rightarrow> ('w, 'a) eff \<Rightarrow> bool" where
  "grows c n m \<longleftrightarrow> (\<forall>w. c (snd (m w)) \<le> c w + n)"

text \<open>\<open>c\<close> counts at least the stage runs: nothing else raises it, and a run by one.\<close>

definition counts_runs :: "'w tune_env \<Rightarrow> ('w \<Rightarrow> nat) \<Rightarrow> bool" where
  "counts_runs env c \<longleftrightarrow> (\<forall>rq w. c (snd (te_run env rq w)) \<le> Suc (c w)) \<and>
     (\<forall>a b d obj notes w. c (snd (te_create env a b d obj notes w)) = c w) \<and>
     (\<forall>run spec w. c (snd (te_suggest env run spec w)) = c w) \<and>
     (\<forall>sid st base w. c (te_status env sid st base w) = c w) \<and> (\<forall>tr w. c (te_trace env tr w) = c w)"

named_theorems grows_intros "effects that run no tool"

lemma grows_gives [grows_intros]: "grows c 0 (gives x)"
  by (simp add: grows_def gives_def)

lemma grows_reads [grows_intros]: "grows c 0 (reads f)"
  by (simp add: grows_def reads_def)

lemma grows_seq: "grows c a m \<Longrightarrow> (\<And>x. grows c b (f x)) \<Longrightarrow> grows c (a + b) (seq m f)"
proof (unfold grows_def, intro allI)
  fix w assume m: "\<forall>w. c (snd (m w)) \<le> c w + a" and f: "\<And>x. \<forall>w. c (snd (f x w)) \<le> c w + b"
  obtain r w' where r: "m w = (r, w')" by (meson surj_pair)
  show "c (snd (seq m f w)) \<le> c w + (a + b)"
  proof (cases r)
    case (Inl e)
    with r m [rule_format, of w] show ?thesis by (simp add: seq_def)
  next
    case (Inr x)
    with r m [rule_format, of w] f [of x, rule_format, of w'] show ?thesis by (simp add: seq_def)
  qed
qed

lemma grows_seq0 [grows_intros]: "grows c 0 m \<Longrightarrow> (\<And>x. grows c 0 (f x)) \<Longrightarrow> grows c 0 (seq m f)"
  using grows_seq [of c 0 m 0 f] by simp

lemma grows_logged [grows_intros]: "(\<And>w. c (g w) = c w) \<Longrightarrow> grows c n m \<Longrightarrow> grows c n (logged g m)"
  unfolding grows_def logged_def by metis

lemma grows_if [grows_intros]: "grows c n a \<Longrightarrow> grows c n b \<Longrightarrow> grows c n (if P then a else b)"
  by simp

lemma grows_split [grows_intros]: "(\<And>x y. grows c n (f x y)) \<Longrightarrow> grows c n (case p of (x, y) \<Rightarrow> f x y)"
  by (cases p) simp

lemma grows_more: "grows c a m \<Longrightarrow> a \<le> b \<Longrightarrow> grows c b m"
  unfolding grows_def by (meson add_left_mono le_trans)

lemma grows_run: "counts_runs env c \<Longrightarrow> grows c 1 (te_run env rq)"
  by (simp add: counts_runs_def grows_def)

lemma grows_tools [grows_intros]:
  "counts_runs env c \<Longrightarrow> grows c 0 (te_create env a b d obj notes)" "counts_runs env c \<Longrightarrow> grows c 0 (te_suggest env run spec)"
  by (simp_all add: counts_runs_def grows_def)

lemma counted_status [grows_intros]:
  "counts_runs env c \<Longrightarrow> c (te_status env sid st base w) = c w" "counts_runs env c \<Longrightarrow> c (trace_pending env task pend run w) = c w"
  "counts_runs env c \<Longrightarrow> c (close_session env task b w) = c w"
  by (simp_all add: counts_runs_def trace_pending_def close_session_def split: option.split)

lemma grows_open: "counts_runs env c \<Longrightarrow> grows c 0 (open_session env task identity obj notes)"
  unfolding open_session_def by (intro grows_intros)

lemma grows_pending [grows_intros]: "grows c 0 (new_pending env run sg prefix)"
  unfolding new_pending_def by (intro grows_intros)

lemma grows_tune_iteration: "counts_runs env c \<Longrightarrow> grows c 1 (tune_iteration env task i st)"
proof -
  assume c: "counts_runs env c"
  have "grows c 0 (tune_measure env task i run rec st)" for run rec
    unfolding tune_measure_def tune_next_def Let_def by (intro grows_intros c)
  then have "grows c (1 + 0) (tune_iteration env task i st)"
    unfolding tune_iteration_def Let_def by (intro grows_seq [OF grows_run [OF c]] grows_intros c)
  then show ?thesis by simp
qed

lemma grows_tune_loop: "counts_runs env c \<Longrightarrow> grows c left (tune_loop env task left i st)"
proof (induction left arbitrary: i st)
  case (Suc left)
  have "grows c (1 + left) (seq (tune_iteration env task i st) (\<lambda>(e, st'). if e = Unfinished then tune_loop env task left (i + 1) st' else gives (e, st')))"
    by (intro grows_seq grows_tune_iteration Suc.prems grows_split grows_if Suc.IH grows_more [OF grows_gives]) simp
  then show ?case by simp
qed (simp add: grows_gives)

lemma grows_one_stage: "counts_runs env c \<Longrightarrow> grows c 1 (run_one_stage env task i params s sp)"
proof -
  assume c: "counts_runs env c"
  have "grows c 0 (stage_measured env task s rec sp')" for rec sp'
    unfolding stage_measured_def Let_def by (intro grows_intros)
  then have "grows c (1 + 0) (run_one_stage env task i params s sp)"
    unfolding run_one_stage_def Let_def by (intro grows_seq [OF grows_run [OF c]] grows_intros c)
  then show ?thesis by simp
qed

lemma grows_run_stages: "counts_runs env c \<Longrightarrow> grows c (length ss) (run_stages env task i params ss sp)"
proof (induction ss arbitrary: sp)
  case (Cons s ss)
  have "grows c (1 + length ss) (seq (run_one_stage env task i params s sp) (\<lambda>sp'. if sp_failed sp' then gives sp' else run_stages env task i params ss sp'))"
    by (intro grows_seq grows_one_stage Cons.prems grows_if Cons.IH grows_more [OF grows_gives]) simp
  then show ?case by simp
qed (simp add: grows_gives)

lemma stages_from_length: "length otherwise \<le> 6 \<Longrightarrow> length (stages_from s otherwise) \<le> 6"
  using length_dropWhile_le [of "\<lambda>x. x \<noteq> s" orfs_stage_order] by (auto simp: stages_from_def orfs_stage_order_def simp del: dropWhile.simps)

lemma grows_multi_loop:
  "counts_runs env c \<Longrightarrow> length otherwise \<le> 6 \<Longrightarrow> grows c (6 * left) (multi_loop env task otherwise left i st)"
proof (induction left arbitrary: i st)
  case (Suc left)
  have j: "grows c 0 (multi_judge env task i sp st')" for sp st'
    unfolding multi_judge_def multi_next_def Let_def by (intro grows_intros Suc.prems(1))
  have "grows c (6 + 0) (multi_iteration env task otherwise i st)"
    unfolding multi_iteration_def
    by (intro grows_seq j grows_more [OF grows_run_stages [OF Suc.prems(1)]] stages_from_length Suc.prems(2))
  then have "grows c (6 + 6 * left) (seq (multi_iteration env task otherwise i st) (\<lambda>(e, st').
       if e = Unfinished then multi_loop env task otherwise left (i + 1) st' else gives (e, st')))"
    by (intro grows_seq grows_split grows_if Suc.IH Suc.prems grows_more [OF grows_gives]) simp_all
  then show ?case by simp
qed (simp add: grows_gives)

text \<open>
  Tuning one stage runs it at most once per iteration, tuning the flow at most six stages per
  iteration, whatever the functions answer and whether they raise or not.
\<close>

theorem tuning_runs_bounded:
  assumes "counts_runs env c"
  shows "c (snd (tune_ppa env task identity w)) \<le> c w + nat (tt_max task) \<and>
    c (snd (tune_ppa_multistage env task identity start w)) \<le> c w + 6 * nat (tt_max task)"
proof -
  have opened: "c (snd (seq (open_session env task identity obj nts) f w)) \<le> c w + n"
    if "\<And>task'. tt_max task' = tt_max task \<Longrightarrow> grows c n (f task')" for obj nts n and f :: "tune_task \<Rightarrow> ('a, pydict) eff"
  proof -
    obtain r w1 where o: "open_session env task identity obj nts w = (r, w1)" by (meson surj_pair)
    have g: "c w1 \<le> c w" using grows_open [OF assms, of task identity obj nts] o by (auto simp: grows_def dest: spec [of _ w])
    show ?thesis
    proof (cases r)
      case (Inr task')
      with o that [of task'] open_session_task [of env task identity obj nts w task' w1] g show ?thesis
        by (auto simp: seq_def grows_def dest!: spec [of _ w1])
    qed (use o g in \<open>simp add: seq_def\<close>)
  qed
  have "length (stages_from start orfs_stage_order) \<le> 6" by (rule stages_from_length) (simp add: orfs_stage_order_def)
  note loop = grows_multi_loop [OF assms this]
  have "grows c (nat (tt_max task) + 0) (seq (tune_loop env task' (nat (tt_max task)) 1 tune_start)
      (\<lambda>(e, st). logged (close_session env task' (e = Unfinished)) (gives (tune_report task' (ts_best st) (ts_history st)))))" for task'
    by (intro grows_seq grows_tune_loop assms grows_intros)
  moreover have "grows c (6 * nat (tt_max task) + 0) (seq (multi_loop env task' (stages_from start orfs_stage_order) (nat (tt_max task)) 1 (multi_start start))
      (\<lambda>(e, st). logged (close_session env task' (e = Unfinished \<and> \<not> ms_failed st)) (gives (tune_report task' (ms_best st) (ms_history st)))))" for task'
    by (intro grows_seq loop assms grows_intros)
  ultimately show ?thesis unfolding tune_ppa_def tune_ppa_multistage_def by (intro conjI opened) simp_all
qed

text \<open>
  A flow for concrete inputs: the stages up to \<open>place\<close> succeed, each as the run with the number of
  runs so far, every later one fails; the timing of every run is clean. The world is the list of what
  was run and of the statuses the session was given, the latest first.
\<close>

datatype tune_event = Ran string | Marked string

definition ran :: "tune_event list \<Rightarrow> nat" where
  "ran w = length (filter (\<lambda>e. case e of Ran _ \<Rightarrow> True | Marked _ \<Rightarrow> False) w)"

fun dicts_of :: "pyval \<Rightarrow> pydict list" where
  "dicts_of (PList vs) = List.map_filter (\<lambda>v. case v of PDict d \<Rightarrow> Some d | _ \<Rightarrow> None) vs"
| "dicts_of _ = []"

definition broken_cts :: "tune_event list tune_env" where
  "broken_cts =
     \<lparr>te_resolve = (\<lambda>backend identity. Inr (''designs/gcd/config.mk'', ''nangate45'')),
      te_create = (\<lambda>name cfg tech objective notes. gives (PInt 1)),
      te_run = (\<lambda>rq w. (Inr (if sr_stage rq \<in> {''synth'', ''floorplan'', ''place''}
         then [(''run_id'', PInt (int (ran w) + 1)), (''status'', PStr ''success'')]
         else [(''status'', PStr ''failed''), (''error'', PStr ''no clock buffer'')]), Ran (sr_stage rq) # w)),
      te_status = (\<lambda>sid st base w. Marked st # w),
      te_trace = (\<lambda>d w. w),
      te_timing = (\<lambda>name stage run w. Inr [(''summary'', PList [PDict
         [(''wns_ns'', PInt 0), (''tns_ns'', PInt 0), (''failing_endpoints'', PInt 0)]])]),
      te_congestion = (\<lambda>run w. Inr []),
      te_met = (\<lambda>timing spec congestion. case check_ppa_target (dicts_of (pget timing ''summary'')) spec congestion of
         None \<Rightarrow> Inl ''could not convert string to float'' | Some b \<Rightarrow> Inr b),
      te_bottleneck = (\<lambda>timing run w. Inr ''place''),
      te_suggest = (\<lambda>run spec. gives []), te_filter = (\<lambda>raw backend stage. Inr []),
      te_context = (\<lambda>run w. Inr []), te_reason = (\<lambda>sg prefix. Inr prefix), te_structured = (\<lambda>sg prefix. Inr []),
      te_type_error = ''TypeError''\<rparr>"

definition gcd_task :: tune_task where
  "gcd_task = \<lparr>tt_backend = ''orfs'', tt_stage = ''place'', tt_design = ''gcd'', tt_config = [], tt_pdk = [],
     tt_spec = ''timing clean'', tt_max = 3, tt_session = PNone\<rparr>"

lemma broken_cts_counted: "counts_runs broken_cts ran"
  by (simp add: counts_runs_def broken_cts_def ran_def gives_def)

lemma broken_cts_runs:
  "case tune_ppa broken_cts gcd_task [] [] of (Inr out, w) \<Rightarrow> w = [Marked ''completed'', Ran ''place''] \<and>
       pget out ''target_met'' = PBool True \<and> pget out ''iterations_run'' = PInt 1 | (Inl e, w) \<Rightarrow> False"
  "case tune_ppa_multistage broken_cts gcd_task [] ''place'' [] of
     (Inr out, w) \<Rightarrow> w = [Marked ''completed'', Marked ''failed'', Ran ''cts'', Ran ''place''] \<and> pget out ''target_met'' = PBool True
   | (Inl e, w) \<Rightarrow> False"
  by code_simp+

lemma tune_ppa_outcome_witness:
  "\<exists>out w'. tune_ppa broken_cts gcd_task [] [] = (Inr out, w') \<and>
     pget out ''target_met'' = PBool True \<and> pget out ''iterations_run'' = PInt 1 \<and>
     (\<exists>hist. pget out ''history'' = PList (map PDict hist) \<and> length hist \<le> 3 \<and> hist \<noteq> [] \<and> good_run (last hist) \<and>
       best_of (pget out ''best_wns_ns'') hist)"
proof -
  obtain out w' where run: "tune_ppa broken_cts gcd_task [] [] = (Inr out, w')"
    and out: "pget out ''target_met'' = PBool True" "pget out ''iterations_run'' = PInt 1"
    using broken_cts_runs(1) by (auto split: prod.splits sum.splits)
  obtain hist where "pget out ''history'' = PList (map PDict hist)" "length hist \<le> nat (tt_max gcd_task)"
      "pget out ''target_met'' = PBool (hist \<noteq> [] \<and> record_met (last hist))"
      "hist \<noteq> [] \<and> record_met (last hist) \<longrightarrow> good_run (last hist)" "best_of (pget out ''best_wns_ns'') hist"
    using tune_ppa_outcome [OF run] by blast
  with run out show ?thesis by (intro exI conjI) (auto simp: gcd_task_def)
qed

lemma tuning_runs_bounded_witness:
  "counts_runs broken_cts ran \<and> ran (snd (tune_ppa broken_cts gcd_task [] [])) \<le> 3 \<and>
     ran (snd (tune_ppa_multistage broken_cts gcd_task [] ''place'' [])) \<le> 18"
  using tuning_runs_bounded [OF broken_cts_counted, of gcd_task "[]" "[]" "''place''"] broken_cts_counted
  by (simp add: gcd_task_def ran_def)

section \<open>A stage that fails\<close>


end
