(* ===== verification/FlowRun.thy ===== *)
theory FlowRun
  imports JobTools RunStore Effects
begin

text \<open>
  Running stages and flows, \<open>agent/tool_impl_run_stage.py\<close>, on the persistence of \<open>RunStore\<close>. The
  world is a pair of what the backends act on and the database. A backend is a record of its
  functions; its exceptions are texts.
\<close>

section \<open>Backends\<close>

record 'w backend =
  bk_name :: string
  bk_stages :: "string list"
  bk_run :: "string \<Rightarrow> design_spec \<Rightarrow> pydict \<Rightarrow> (string, 'w, run_result) effect"
  bk_reports :: "run_result \<Rightarrow> 'w \<Rightarrow> report_file list option"   \<comment> \<open>\<open>collect_reports\<close> with its parsers; \<open>None\<close> if it raises\<close>
  bk_clean :: "design_spec \<Rightarrow> (string, 'w, unit) effect"   \<comment> \<open>\<open>make clean\<close> in its flow directory\<close>

record 'w flow_env =
  fe_store :: store_env
  fe_remote :: string   \<comment> \<open>\<open>settings.innovus_remote_work_dir\<close>\<close>
  fe_registry :: "(string, 'w backend) dict"
  fe_session :: "'w \<Rightarrow> string \<times> pyval"   \<comment> \<open>a new session's uuid and environment snapshot\<close>
  fe_archive :: "pyval \<Rightarrow> 'w \<Rightarrow> 'w"

datatype flow_exc =
    UnknownBackend string
  | NoIdentity tool_exc
  | BackendRaised string
  | StoreRaised db_exc

type_synonym ('w, 'a) flow = "(flow_exc, 'w \<times> database, 'a) effect"

definition get_backend :: "'w flow_env \<Rightarrow> string \<Rightarrow> (flow_exc, 'w backend) result" where
  "get_backend env name =
     (case dget (fe_registry env) (py_lower name) of None \<Rightarrow> Inl (UnknownBackend name) | Some be \<Rightarrow> Inr be)"

text \<open>Acting on one part of the world.\<close>

definition on_tools :: "(string, 'w, 'a) effect \<Rightarrow> ('w, 'a) flow" where
  "on_tools m w = (case m (fst w) of (Inl e, t) \<Rightarrow> (Inl (BackendRaised e), (t, snd w)) | (Inr x, t) \<Rightarrow> (Inr x, (t, snd w)))"

definition on_store :: "(database \<Rightarrow> (db_exc, 'a) result \<times> database) \<Rightarrow> ('w, 'a) flow" where
  "on_store m w = (case m (snd w) of (Inl e, db) \<Rightarrow> (Inl (StoreRaised e), (fst w, db)) | (Inr x, db) \<Rightarrow> (Inr x, (fst w, db)))"

text \<open>A database call whose exception is only logged.\<close>

definition quiet :: "(database \<Rightarrow> (db_exc, 'a) result \<times> database) \<Rightarrow> 'w \<times> database \<Rightarrow> 'w \<times> database" where
  "quiet m w = (fst w, snd (m (snd w)))"

definition save_result :: "'w flow_env \<Rightarrow> 'w backend \<Rightarrow> design_spec \<Rightarrow> run_result \<Rightarrow> pydict \<Rightarrow> ('w, pyval) flow" where
  "save_result env be d r ctx w =
     on_store (save_run_and_parse (fe_store env) r d (Some (bk_reports be r (fst w))) ctx) w"

definition archive_on_success :: "'w flow_env \<Rightarrow> run_result \<Rightarrow> pyval \<Rightarrow> 'w \<times> database \<Rightarrow> 'w \<times> database" where
  "archive_on_success env r run w = (if rr_status r = StSuccess then (fe_archive env run (fst w), snd w) else w)"

section \<open>One stage\<close>

record stage_run =
  st_backend :: string
  st_stage :: string
  st_design :: string
  st_identity :: identity
  st_params :: pydict
  st_context :: pydict

definition innovus_stages :: "string list" where
  "innovus_stages = [''place'', ''cts'', ''route'', ''floorplan'', ''powerplan'', ''prects'', ''postcts'', ''postroute'', ''signoff'']"

definition chosen_backend :: "stage_run \<Rightarrow> string" where
  "chosen_backend q =
     (if st_backend q \<noteq> [] then st_backend q
      else if st_stage q \<in> set innovus_stages then ''innovus'' else ''orfs'')"

definition log_path_value :: "run_result \<Rightarrow> pyval" where
  "log_path_value r = (case rr_log r of None \<Rightarrow> PNone | Some p \<Rightarrow> PStr p)"

definition status_text :: "run_result \<Rightarrow> pyval" where
  "status_text r = PStr (stage_status_value (rr_status r))"

definition run_eda_stage :: "'w flow_env \<Rightarrow> stage_run \<Rightarrow> ('w, pydict) flow" where
  "run_eda_stage env q =
     seq (reads (\<lambda>w. case resolve_identity (fe_remote env) (chosen_backend q) (st_identity q) of Inl e \<Rightarrow> Inl (NoIdentity e) | Inr x \<Rightarrow> Inr x))
       (\<lambda>(cfg, tech).
     seq (reads (\<lambda>w. get_backend env (chosen_backend q))) (\<lambda>be.
     let d = \<lparr>ds_name = st_design q, ds_config = cfg, ds_pdk = tech\<rparr> in
     seq (on_tools (bk_run be (st_stage q) d (st_params q))) (\<lambda>r.
     seq (save_result env be d r (st_context q)) (\<lambda>run.
       logged (quiet (record_stage_outcome (fe_store env) run (st_stage q) r (pget (st_context q) ''root_cause_inference_id'')))
       (logged (archive_on_success env r run)
       (gives [(''run_id'', run), (''run_uuid'', PStr (rr_uuid r)), (''status'', status_text r), (''stage'', PStr (st_stage q)),
               (''backend'', PStr (chosen_backend q)), (''design_name'', PStr (st_design q)), (''pdk'', PStr tech),
               (''error'', PStr (rr_error r)), (''log_path'', log_path_value r)]))))))"

section \<open>Which stages a flow runs\<close>

definition index_of :: "string \<Rightarrow> string list \<Rightarrow> nat option" where
  "index_of s ss = (if s \<in> set ss then Some (length (takeWhile (\<lambda>x. x \<noteq> s) ss)) else None)"

definition not_in_list :: "string \<Rightarrow> string" where
  "not_in_list s = ''Invalid stage name: '' @ in_quotes s @ '' is not in list''"

definition stage_range :: "string list \<Rightarrow> string \<Rightarrow> string \<Rightarrow> (string, string list) result" where
  "stage_range supported from upper =
     (case index_of (py_lower from) supported of
        None \<Rightarrow> Inl (not_in_list (py_lower from))
      | Some i \<Rightarrow>
          (case index_of (py_lower upper) supported of
             None \<Rightarrow> Inl (not_in_list (py_lower upper))
           | Some j \<Rightarrow>
               if i > j then Inl (''Stage '' @ in_quotes from @ '' comes after '' @ in_quotes upper)
               else Inr (drop i (take (j + 1) supported))))"

text \<open>The stages to run, or the text of the error the tool answers with.\<close>

definition plan_stages :: "string list \<Rightarrow> string \<Rightarrow> string option \<Rightarrow> (string, string list) result" where
  "plan_stages supported from upper =
     (if py_lower from = ''all'' then Inr supported
      else case upper of
        Some (c # e) \<Rightarrow> stage_range supported from (c # e)
      | _ \<Rightarrow>
          if py_lower from \<notin> set supported
          then Inl (''Stage '' @ in_quotes from @ '' not supported. Valid: '' @ py_repr (PList (map PStr supported)))
          else Inr [py_lower from])"

section \<open>The flow\<close>

record flow_run =
  fw_backend :: string
  fw_from :: string
  fw_to :: "string option"
  fw_design :: design_spec
  fw_params :: pydict
  fw_clean :: bool

definition flow_reason :: "flow_run \<Rightarrow> string" where
  "flow_reason q = ''flow:'' @ fw_from q @ ''->'' @ (case fw_to q of Some (c # e) \<Rightarrow> c # e | _ \<Rightarrow> fw_from q)"

definition flow_context :: "flow_run \<Rightarrow> pyval \<Rightarrow> nat \<Rightarrow> pyval \<Rightarrow> pydict" where
  "flow_context q sid n prev =
     [(''session_id'', sid), (''stage_seq'', PInt (int n)), (''variant_tag'', PStr ''baseline''),
      (''rerun_reason'', PStr (flow_reason q)), (''is_baseline'', PBool True), (''is_selected'', PBool False), (''parent_run_id'', prev)]"

definition progression :: "pyval \<Rightarrow> pyval \<Rightarrow> pyval \<Rightarrow> string \<Rightarrow> decision" where
  "progression sid source target stg =
     \<lparr>dc_session = sid, dc_source = source, dc_target = target,
      dc_reason = ''session stage progression: '' @ py_str source @ ''->'' @ py_str target,
      dc_structured = PDict [(''kind'', PStr ''session_stage_progression''), (''source_run_id'', source), (''target_run_id'', target), (''stage'', PStr stg)],
      dc_inference = PNone, dc_case = PNone, dc_rule = PNone, dc_approved = False\<rparr>"

definition trace_progression :: "'w flow_env \<Rightarrow> pyval \<Rightarrow> pyval \<Rightarrow> pyval \<Rightarrow> string \<Rightarrow> 'w \<times> database \<Rightarrow> 'w \<times> database" where
  "trace_progression env sid source target stg =
     (if source = PNone then id else quiet (record_decision_trace (fe_store env) (progression sid source target stg)))"

text \<open>One stage of a flow, up to its archival.\<close>

definition flow_stage :: "'w flow_env \<Rightarrow> flow_run \<Rightarrow> 'w backend \<Rightarrow> pyval \<Rightarrow> nat \<Rightarrow> pyval \<Rightarrow> string \<Rightarrow> ('w, run_result \<times> pyval) flow" where
  "flow_stage env q be sid n prev stg =
     seq (on_tools (bk_run be stg (fw_design q) (fw_params q))) (\<lambda>r.
     seq (save_result env be (fw_design q) r (flow_context q sid n prev)) (\<lambda>run.
       logged (trace_progression env sid prev run stg)
       (logged (quiet (record_stage_outcome (fe_store env) run stg r PNone))
       (logged (archive_on_success env r run) (gives (r, run))))))"

definition stage_entry :: "string \<Rightarrow> string \<Rightarrow> run_result \<Rightarrow> pyval \<Rightarrow> pydict" where
  "stage_entry final stg r run =
     [(''stage'', PStr stg), (''is_session_final_stage'', PBool (stg = final)), (''status'', status_text r), (''run_id'', run),
      (''run_uuid'', PStr (rr_uuid r)), (''error'', PStr (rr_error r)), (''log_path'', log_path_value r)]"

definition session_status :: "'w flow_env \<Rightarrow> pyval \<Rightarrow> string \<Rightarrow> pyval \<Rightarrow> 'w \<times> database \<Rightarrow> 'w \<times> database" where
  "session_status env sid st baseline = quiet (update_flow_session_status (fe_store env) sid st baseline)"

fun flow_stages :: "'w flow_env \<Rightarrow> flow_run \<Rightarrow> 'w backend \<Rightarrow> pyval \<Rightarrow> string \<Rightarrow> nat \<Rightarrow> pyval \<Rightarrow> string list \<Rightarrow> ('w, pydict list) flow" where
  "flow_stages env q be sid final n prev [] = gives []"
| "flow_stages env q be sid final n prev (s # ss) =
     seq (flow_stage env q be sid n prev s) (\<lambda>(r, run).
       if rr_status r = StSuccess
       then seq (flow_stages env q be sid final (n + 1) run ss) (\<lambda>rest. gives (stage_entry final s r run # rest))
       else logged (session_status env sid ''failed'' PNone) (gives [stage_entry final s r run]))"

definition stage_done :: "pydict \<Rightarrow> bool" where
  "stage_done r \<longleftrightarrow> pget r ''status'' = PStr ''success''"

definition finalise :: "'w flow_env \<Rightarrow> pyval \<Rightarrow> string \<Rightarrow> pydict list \<Rightarrow> 'w \<times> database \<Rightarrow> 'w \<times> database" where
  "finalise env sid final results =
     (if list_all stage_done results \<and> results \<noteq> [] \<and> pget (last results) ''stage'' = PStr final
      then session_status env sid ''completed'' (pget (last results) ''run_id'') else id)"

definition flow_report :: "flow_run \<Rightarrow> pyval \<Rightarrow> string \<Rightarrow> pydict list \<Rightarrow> pydict" where
  "flow_report q sid final results =
     [(''overall_status'', PStr (if list_all stage_done results then ''success'' else ''partial_failure'')),
      (''session_id'', sid), (''session_final_stage'', PStr final), (''stages_run'', PInt (int (length results))),
      (''design_name'', PStr (ds_name (fw_design q))), (''pdk'', PStr (ds_pdk (fw_design q))),
      (''results'', PList (map PDict results))]"

definition open_flow_session :: "'w flow_env \<Rightarrow> flow_run \<Rightarrow> ('w, pyval) flow" where
  "open_flow_session env q w =
     (let (uuid, snapshot) = fe_session env (fst w)
      in on_store (create_flow_session (fe_store env) uuid snapshot (fw_design q)
           (py_str (dgetd (fw_params q) ''_objective'' (PStr ''pnr''))) (flow_reason q)) w)"

text \<open>A backend without stages would raise at the last of them.\<close>

definition run_eda_flow_sync :: "'w flow_env \<Rightarrow> flow_run \<Rightarrow> ('w, pydict) flow" where
  "run_eda_flow_sync env q =
     seq (reads (\<lambda>w. get_backend env (fw_backend q))) (\<lambda>be.
     seq (if fw_clean q then on_tools (bk_clean be (fw_design q)) else gives ()) (\<lambda>_.
     case plan_stages (bk_stages be) (fw_from q) (fw_to q) of
       Inl msg \<Rightarrow> gives [(''error'', PStr msg)]
     | Inr [] \<Rightarrow> reads (\<lambda>w. Inl (BackendRaised ''list index out of range''))
     | Inr stages \<Rightarrow>
         seq (open_flow_session env q) (\<lambda>sid.
         seq (flow_stages env q be sid (last stages) 1 PNone stages) (\<lambda>results.
           logged (finalise env sid (last stages) results) (gives (flow_report q sid (last stages) results))))))"

end
