(* ===== verification/FlowProps.thy ===== *)
theory FlowProps
  imports FlowRun RunStoreProps
begin

text \<open>
  What a flow reports, what it does to the database, and what a run that is lost does to it.
\<close>

section \<open>The stages that are planned\<close>

lemma index_of_Some: "index_of s ss = Some i \<Longrightarrow> i < length ss \<and> ss ! i = s"
proof -
  assume "index_of s ss = Some i"
  then have i: "i = length (takeWhile (\<lambda>x. x \<noteq> s) ss)" "s \<in> set ss" by (auto simp: index_of_def split: if_splits)
  have less: "i < length ss" using i by (metis (mono_tags, lifting) length_takeWhile_le le_neq_implies_less takeWhile_eq_all_conv takeWhile_eq_take take_all_iff order_refl)
  from nth_length_takeWhile [of "\<lambda>x. x \<noteq> s" ss] less i(1) show ?thesis by auto
qed

text \<open>The stages from the one a flow starts with to the one it ends with, in the order of the backend.\<close>

definition spans :: "string list \<Rightarrow> string \<Rightarrow> string option \<Rightarrow> string list \<Rightarrow> bool" where
  "spans supported a b stages \<longleftrightarrow>
     (\<exists>before after. supported = before @ stages @ after) \<and>
     (if py_lower a = ''all'' then stages = supported
      else stages \<noteq> [] \<and> hd stages = py_lower a \<and>
        last stages = py_lower (case b of Some (c # e) \<Rightarrow> c # e | _ \<Rightarrow> a) \<and>
        (b = None \<or> b = Some [] \<longrightarrow> length stages = 1))"

lemma stage_range_spans:
  assumes "stage_range supported a b = Inr stages"
  shows "(\<exists>before after. supported = before @ stages @ after) \<and> stages \<noteq> [] \<and> hd stages = py_lower a \<and> last stages = py_lower b"
proof -
  from assms obtain i j where ij: "index_of (py_lower a) supported = Some i" "index_of (py_lower b) supported = Some j" "i \<le> j"
    and st: "stages = drop i (take (j + 1) supported)"
    by (auto simp: stage_range_def split: option.splits if_splits)
  note i = index_of_Some [OF ij(1)] and j = index_of_Some [OF ij(2)]
  have "supported = take i supported @ stages @ drop (j + 1) supported"
    using ij(3) i j unfolding st
    by (metis (no_types, lifting) append.assoc append_take_drop_id le_add1 le_trans min.absorb1 take_take)
  moreover have "stages \<noteq> []" using i j ij(3) st by simp
  moreover have "hd stages = py_lower a" using i j ij(3) st by (simp add: hd_drop_conv_nth)
  moreover have "last stages = py_lower b" using i j ij(3) st by (simp add: last_drop last_conv_nth min_absorb2 Suc_leI)
  ultimately show ?thesis by blast
qed

lemma plan_stages_spans:
  assumes "plan_stages supported a b = Inr stages"
  shows "spans supported a b stages"
proof (cases "py_lower a = ''all''")
  case True
  with assms have "stages = supported" by (simp add: plan_stages_def)
  moreover have "\<exists>before after. supported = before @ supported @ after" by (rule exI [of _ "[]"], rule exI [of _ "[]"]) simp
  ultimately show ?thesis using True by (simp add: spans_def)
next
  case False
  show ?thesis
  proof (cases "b = None \<or> b = Some []")
    case True
    with False assms have st: "py_lower a \<in> set supported" "stages = [py_lower a]"
      by (auto simp: plan_stages_def split: if_splits)
    from split_list [OF st(1)] st(2) have "\<exists>before after. supported = before @ stages @ after" by simp
    with False True st(2) show ?thesis by (auto simp: spans_def)
  next
    case b: False
    then obtain c e where e: "b = Some (c # e)" by (cases b) (auto simp: neq_Nil_conv)
    with False assms have "stage_range supported a (c # e) = Inr stages" by (simp add: plan_stages_def)
    from stage_range_spans [OF this] False e show ?thesis by (simp add: spans_def)
  qed
qed

section \<open>The stages that ran\<close>

lemma status_text_done: "pget (stage_entry final s r run) ''status'' = PStr ''success'' \<longleftrightarrow> rr_status r = StSuccess"
  by (cases "rr_status r") (simp_all add: stage_entry_def pget_def status_text_def)

lemma stage_entry_stage: "pget (stage_entry final s r run) ''stage'' = PStr s"
  by (simp add: stage_entry_def pget_def)

lemma flow_stages_results:
  assumes "flow_stages env q be sid final n prev ss w = (Inr rs, w')"
  shows "map (\<lambda>r. pget r ''stage'') rs = map PStr (take (length rs) ss) \<and> (ss \<noteq> [] \<longrightarrow> rs \<noteq> []) \<and>
    list_all stage_done (butlast rs) \<and> (length rs < length ss \<longrightarrow> \<not> stage_done (last rs))"
  using assms
proof (induction ss arbitrary: n prev w rs w')
  case (Cons s ss)
  then obtain r run w1 where "flow_stage env q be sid n prev s w = (Inr (r, run), w1)"
    and rest: "(if rr_status r = StSuccess
       then seq (flow_stages env q be sid final (n + 1) run ss) (\<lambda>rest. gives (stage_entry final s r run # rest))
       else logged (session_status env sid ''failed'' PNone) (gives [stage_entry final s r run])) w1 = (Inr rs, w')"
    by (auto elim: seq_InrE)
  show ?case
  proof (cases "rr_status r = StSuccess")
    case True
    with rest obtain rs' w2 where ih: "flow_stages env q be sid final (n + 1) run ss w1 = (Inr rs', w2)"
      and rs: "rs = stage_entry final s r run # rs'" by (auto elim: seq_InrE)
    have "stage_done (stage_entry final s r run)" using True by (simp add: stage_done_def status_text_done)
    with Cons.IH [OF ih] rs show ?thesis by (cases rs') (auto simp: stage_entry_stage)
  next
    case False
    with rest have "rs = [stage_entry final s r run]" by simp
    with False show ?thesis by (simp add: stage_entry_stage stage_done_def status_text_done)
  qed
qed simp

lemma flow_report_gets:
  "pget (flow_report q sid final rs) ''results'' = PList (map PDict rs)"
  "final_status (dgetd (flow_report q sid final rs) ''overall_status'' v) = SUCCESS \<longleftrightarrow> list_all stage_done rs"
  by (simp_all add: flow_report_def pget_def dgetd_def final_status_def)


section \<open>What happens to the database\<close>

text \<open>Running only persistence functions on the database.\<close>

definition stores :: "('w, 'a) flow \<Rightarrow> bool" where
  "stores m \<longleftrightarrow> (\<forall>w. store_step\<^sup>*\<^sup>* (snd w) (snd (snd (m w))))"

named_theorems stores_intros "effects whose changes of the database are persistence functions"

lemma stores_gives [stores_intros]: "stores (gives x)"
  by (simp add: stores_def gives_def)

lemma stores_reads [stores_intros]: "stores (reads f)"
  by (simp add: stores_def reads_def)

lemma stores_seq [stores_intros]: "stores m \<Longrightarrow> (\<And>x. stores (f x)) \<Longrightarrow> stores (seq m f)"
proof (unfold stores_def, intro allI)
  fix w assume m: "\<forall>w. store_step\<^sup>*\<^sup>* (snd w) (snd (snd (m w)))" and f: "\<And>x. \<forall>w. store_step\<^sup>*\<^sup>* (snd w) (snd (snd (f x w)))"
  obtain r w' where r: "m w = (r, w')" by (meson surj_pair)
  have "store_step\<^sup>*\<^sup>* (snd w) (snd w')" using m [rule_format, of w] r by simp
  moreover have "store_step\<^sup>*\<^sup>* (snd w') (snd (snd (f x w')))" for x using f by blast
  ultimately show "store_step\<^sup>*\<^sup>* (snd w) (snd (snd (seq m f w)))"
    using r by (cases r) (auto simp: seq_def intro: rtranclp_trans)
qed

lemma stores_logged [stores_intros]:
  "(\<And>w. store_step\<^sup>*\<^sup>* (snd w) (snd (g w))) \<Longrightarrow> stores m \<Longrightarrow> stores (logged g m)"
  unfolding stores_def logged_def by (meson rtranclp_trans)

lemma stores_if [stores_intros]: "stores a \<Longrightarrow> stores b \<Longrightarrow> stores (if P then a else b)"
  by simp

lemma stores_pair [stores_intros]: "(\<And>x y. stores (f x y)) \<Longrightarrow> stores (case p of (x, y) \<Rightarrow> f x y)"
  by (cases p) simp

lemma stores_sum [stores_intros]: "(\<And>x. stores (f x)) \<Longrightarrow> (\<And>x. stores (g x)) \<Longrightarrow> stores (case s of Inl x \<Rightarrow> f x | Inr x \<Rightarrow> g x)"
  by (cases s) simp_all

lemma stores_list [stores_intros]: "stores a \<Longrightarrow> (\<And>x xs. stores (f x xs)) \<Longrightarrow> stores (case l of [] \<Rightarrow> a | x # xs \<Rightarrow> f x xs)"
  by (cases l) simp_all

lemma stores_tools [stores_intros]: "stores (on_tools m)"
  by (auto simp: stores_def on_tools_def split: prod.split sum.split)

lemma stores_save [stores_intros]: "stores (save_result env be d r ctx)"
proof -
  have "store_step (snd w) (snd (snd (save_result env be d r ctx w)))" for w
    using store_step.save_run [of "snd w" "fe_store env" r d "Some (bk_reports be r (fst w))" ctx]
    by (auto simp: save_result_def on_store_def split: prod.split sum.split)
  then show ?thesis by (auto simp: stores_def)
qed

lemma stores_open [stores_intros]: "stores (open_flow_session env q)"
proof -
  have "store_step (snd w) (snd (snd (open_flow_session env q w)))" for w
    using store_step.open_session [of "snd w" "fe_store env" "fst (fe_session env (fst w))" "snd (fe_session env (fst w))" "fw_design q"
        "py_str (dgetd (fw_params q) ''_objective'' (PStr ''pnr''))" "flow_reason q"]
    by (auto simp: open_flow_session_def on_store_def split: prod.split sum.split)
  then show ?thesis by (auto simp: stores_def)
qed

lemma quiet_steps [stores_intros]:
  "store_step\<^sup>*\<^sup>* (snd w) (snd (quiet (record_stage_outcome se run s r infer) w))"
  "store_step\<^sup>*\<^sup>* (snd w) (snd (session_status env sid st base w))"
  "store_step\<^sup>*\<^sup>* (snd w) (snd (trace_progression env sid source tgt s w))"
  "store_step\<^sup>*\<^sup>* (snd w) (snd (finalise env sid final rs w))"
  "store_step\<^sup>*\<^sup>* (snd w) (snd (archive_on_success env r run w))"
  by (auto simp: quiet_def session_status_def trace_progression_def finalise_def archive_on_success_def
      intro!: r_into_rtranclp store_step.intros)

lemma stores_flow_stages: "stores (flow_stages env q be sid final n prev ss)"
  by (induction ss arbitrary: n prev) (auto simp: flow_stage_def intro!: stores_intros)


section \<open>A lost run\<close>

text \<open>
  A backend of two stages that both succeed; the congestion report of the first holds a geometry the
  database does not accept. The world counts the stages that ran.
\<close>

definition two_stages :: "nat backend" where
  "two_stages =
     \<lparr>bk_name = ''orfs'', bk_stages = [''place'', ''route''],
      bk_run = (\<lambda>s d ps n. (Inr ((some_run StSuccess)\<lparr>rr_uuid := ''u'' @ show_int (int n), rr_stage := s\<rparr>), Suc n)),
      bk_reports = (\<lambda>r n. Some (if rr_stage r = ''place'' then [some_report] else [])),
      bk_clean = (\<lambda>d n. (Inr (), n))\<rparr>"

definition two_env :: "nat flow_env" where
  "two_env = \<lparr>fe_store = some_env, fe_remote = [], fe_registry = [(''orfs'', two_stages)], fe_session = (\<lambda>n. (''s1'', PDict [])),
     fe_archive = (\<lambda>run n. n)\<rparr>"

definition two_flow :: "string \<Rightarrow> flow_run" where
  "two_flow from = \<lparr>fw_backend = ''orfs'', fw_from = from, fw_to = None, fw_design = some_design, fw_params = [], fw_clean = False\<rparr>"

text \<open>The tables a flow writes to.\<close>

definition flow_tables :: database where
  "flow_tables = filter (\<lambda>t. tab_name t \<in> {''backends'', ''designs'', ''flow_sessions'', ''runs'', ''artifacts'', ''congestion_hotspots'',
     ''stage_outcomes'', ''decision_trace''}) served_tables"

lemma place_flow_runs:
  "case run_eda_flow_sync two_env (two_flow ''place'') (0, flow_tables) of
     (Inr out, n, db) \<Rightarrow> n = 1 \<and> final_status (dgetd out ''overall_status'' (PStr ''failed'')) = SUCCESS \<and>
       pget out ''results'' = PList [PDict (stage_entry ''place'' ''place'' ((some_run StSuccess)\<lparr>rr_uuid := ''u0'', rr_stage := ''place''\<rparr>) (PInt 1))] \<and>
       rows_of db ''runs'' = [] \<and> map (\<lambda>r. pget r ''status'') (rows_of db ''flow_sessions'') = [PStr ''active'']
   | (Inl e, n, db) \<Rightarrow> False"
  by code_simp

lemma all_flow_runs:
  "case run_eda_flow_sync two_env (two_flow ''all'') (0, flow_tables) of
     (Inl (StoreRaised e), n, db) \<Rightarrow> n = 2 \<and>
       rows_of db ''runs'' = [] \<and> map (\<lambda>r. pget r ''status'') (rows_of db ''flow_sessions'') = [PStr ''active'']
   | _ \<Rightarrow> False"
  by code_simp




end
