(* ===== verification/Suggest.thy ===== *)
theory Suggest
  imports ParamMapper ChatFormat Effects
begin

text \<open>
  Parameter suggestions, \<open>agent/tool_impl_suggest.py\<close>: the objective of a target, the filter that
  stands between a suggestion and a run, the prompt and the reading of a model's reply, and the
  heuristics used when the model fails. The rows of the queries and the HTTP client are given; the
  texts of the heuristics are constructors that hold the values they quote.
\<close>

section \<open>The objective\<close>

definition mentions :: "string \<Rightarrow> string list \<Rightarrow> bool" where
  "mentions s tokens \<longleftrightarrow> list_ex (\<lambda>t. is_infix t s) tokens"

text \<open>\<open>None\<close>: the count of hold violations is no number.\<close>

definition infer_objective :: "string \<Rightarrow> pydict \<Rightarrow> objective option" where
  "infer_objective target timing =
     (let s = py_lower target in
      if mentions s [''leakage'', ''leak'', ''static power''] then Some LEAKAGE
      else if mentions s [''dynamic'', ''switching power''] then Some DYNAMIC
      else if mentions s [''area'', ''utilization'', ''utilisation'', ''density''] then Some AREA
      else if mentions s [''congestion'', ''overflow'', ''hotspot'', ''route overflow''] then Some CONGESTION
      else if mentions s [''power'', ''total power''] then Some DYNAMIC
      else case py_num (py_or (pget timing ''hold_violations'') (PInt 0)) of
        None \<Rightarrow> None
      | Some n \<Rightarrow> if flt (Fin 0) n then Some SETUP else Some SETUP)"

section \<open>The filter\<close>

fun number_not_bool :: "pyval \<Rightarrow> bool" where
  "number_not_bool (PInt n) = True"
| "number_not_bool (PFloat f) = True"
| "number_not_bool _ = False"

fun int_not_bool :: "pyval \<Rightarrow> bool" where
  "int_not_bool (PInt n) = True"
| "int_not_bool _ = False"

fun whole :: "pyfloat \<Rightarrow> int option" where
  "whole (Fin q) = (if of_int \<lfloor>q\<rfloor> = q then Some \<lfloor>q\<rfloor> else None)"
| "whole _ = None"

definition coerce_number :: "string \<Rightarrow> pyval list \<Rightarrow> pyval" where
  "coerce_number s samples =
     (case float_of_str s of
        None \<Rightarrow> PStr s
      | Some f \<Rightarrow> (case whole f of
            Some n \<Rightarrow> if list_ex int_not_bool samples then PInt n else PFloat f
          | None \<Rightarrow> PFloat f))"

definition coerce_value :: "pyval \<Rightarrow> pyval list \<Rightarrow> pyval" where
  "coerce_value v samples =
     (case v of
        PStr s \<Rightarrow>
          let l = py_lower (py_strip s) in
          if l = ''true'' then PBool True
          else if l = ''false'' then PBool False
          else if list_ex number_not_bool samples then coerce_number s samples
          else v
      | _ \<Rightarrow> v)"

fun numeric_suggestion :: "pyval \<Rightarrow> bool" where
  "numeric_suggestion (PInt n) = True"
| "numeric_suggestion (PBool b) = True"
| "numeric_suggestion (PFloat f) = True"
| "numeric_suggestion (PStr s) = (float_of_str s \<noteq> None)"
| "numeric_suggestion _ = False"

definition stage_spec :: "string \<Rightarrow> string \<Rightarrow> param_spec option" where
  "stage_spec stg k = find (\<lambda>s. ps_name s = k) (get_flow_stage_params stg)"

text \<open>The value a suggestion is kept with, if it is.\<close>

definition innovus_value :: "string \<Rightarrow> string \<Rightarrow> pyval \<Rightarrow> pyval option" where
  "innovus_value stg k v =
     (case stage_spec stg k of
        None \<Rightarrow> None
      | Some s \<Rightarrow> let c = coerce_value v (ps_samples s) in if py_in c (ps_samples s) then Some c else None)"

definition filter_suggested_params :: "pydict \<Rightarrow> string \<Rightarrow> string \<Rightarrow> pydict" where
  "filter_suggested_params raw be stg =
     (if py_lower be \<noteq> ''innovus'' then filter (\<lambda>(k, v). numeric_suggestion v) raw
      else List.map_filter (\<lambda>(k, v). map_option (Pair k) (innovus_value stg k v)) raw)"

section \<open>Asking the model\<close>

record rows_of_run =
  rw_timing :: "pydict option"
  rw_run :: "pydict option"
  rw_utilization :: "pydict option"
  rw_paths :: "pydict list"
  rw_history :: "pydict list"

record 'w suggest_env =
  sg_key :: string
  sg_model :: string
  sg_base :: string
  sg_group :: string
  sg_arrow :: string   \<comment> \<open>U+2192\<close>
  sg_innovus_prompt :: string
  sg_orfs_prompt :: string   \<comment> \<open>the two constant system prompts\<close>
  sg_post :: "string \<Rightarrow> pydict \<Rightarrow> pydict \<Rightarrow> (string, 'w, pyval) effect"   \<comment> \<open>URL, headers, payload; tracing included\<close>

definition row_or_empty :: "pydict option \<Rightarrow> pydict" where
  "row_or_empty r = (case r of None \<Rightarrow> [] | Some d \<Rightarrow> d)"

definition is_innovus_run :: "pydict \<Rightarrow> bool" where
  "is_innovus_run run \<longleftrightarrow> py_lower (py_str (dgetd run ''backend'' (PStr []))) = ''innovus''"

definition catalog_of :: "pyval \<Rightarrow> pydict list" where
  "catalog_of stg = (case stg of PStr s \<Rightarrow> dgetd build_stage_catalog s [] | _ \<Rightarrow> [])"

definition catalog_lines :: "pydict \<Rightarrow> string list" where
  "catalog_lines run =
     (let items = catalog_of (dgetd run ''stage'' (PStr []))
      in if \<not> is_innovus_run run \<or> items = [] then []
         else [[], ''## Allowed Innovus tunable parameters for this stage''] @
           map (\<lambda>i. ''  '' @ py_str (pget i ''name'') @ '': values='' @ py_str (pget i ''sample_values'') @
             '' command='' @ py_str (pget i ''tcl_command'')) items)"

text \<open>What is said of a metric when the row has it: the label, its column and the unit.\<close>

definition extra_metrics :: "(string \<times> string \<times> string) list" where
  "extra_metrics =
     [(''Fmax: '', ''fmax_mhz'', '' MHz''), (''Clock skew: '', ''clock_skew_ns'', '' ns''),
      (''Setup violations: '', ''setup_violations'', []), (''Hold violations: '', ''hold_violations'', []),
      (''Slew violations: '', ''max_slew_violations'', []), (''Fanout violations: '', ''max_fanout_violations'', []),
      (''Cap violations: '', ''max_cap_violations'', []), (''Critical path delay: '', ''critical_path_delay_ns'', '' ns'')]"

definition en_dash :: string where "en_dash = [CHR 0x96]"

definition timing_lines :: "pydict \<Rightarrow> string list" where
  "timing_lines ts =
     (if ts = [] then []
      else let extras = map (\<lambda>(l, k, u). l @ py_str (pget ts k) @ u) (filter (\<lambda>(l, k, u). pget ts k \<noteq> PNone) extra_metrics)
           in [''  Timing '' @ en_dash @ '' WNS: '' @ py_str (pget ts ''wns_ns'') @ '' ns, TNS: '' @ py_str (pget ts ''tns_ns'') @
               '' ns, Failing endpoints: '' @ py_str (pget ts ''failing_endpoints'')] @
              (if extras = [] then [] else [''  Extended '' @ en_dash @ '' '' @ join '', '' extras]))"

definition utilization_lines :: "pydict \<Rightarrow> string list" where
  "utilization_lines us =
     (if us = [] then []
      else [''  Utilization '' @ en_dash @ '' Area: '' @ py_str (pget us ''design_area_um2'') @ [CHR '' '', CHR 0xB5, CHR ''m'', CHR 0xB2] @
            '', Util%: '' @ py_str (pget us ''utilization_pct'') @ '', Cells: '' @ py_str (pget us ''num_cells'')])"

definition path_lines :: "string \<Rightarrow> pydict list \<Rightarrow> string list" where
  "path_lines arrow paths =
     (if paths = [] then []
      else [[], ''## Worst timing paths (most negative slack first)''] @
        map (\<lambda>p. ''  slack='' @ py_str (pget p ''slack_ns'') @ '' ns  group='' @ py_str (pget p ''path_group'') @ ''  '' @
          py_str (dgetd p ''startpoint'' (PStr [])) @ '' '' @ arrow @ '' '' @ py_str (dgetd p ''endpoint'' (PStr []))) paths)"

definition history_lines :: "pydict list \<Rightarrow> string list" where
  "history_lines hist =
     (if hist = [] then []
      else [[], ''## Recent run history (newest first)''] @
        map (\<lambda>h. ''  run_id='' @ py_str (pget h ''id'') @ '' stage='' @ py_str (pget h ''stage'') @ '' WNS='' @ py_str (pget h ''wns_ns'') @
          '' TNS='' @ py_str (pget h ''tns_ns'') @ '' FEP='' @ py_str (pget h ''failing_endpoints'') @ '' params='' @ py_str (pget h ''params'')) hist)"

definition context_lines :: "string \<Rightarrow> rows_of_run \<Rightarrow> string list" where
  "context_lines arrow rows =
     (let run = row_or_empty (rw_run rows)
      in [''Design: '' @ py_str (dgetd run ''design_name'' (PStr ''unknown'')) @ ''  PDK: '' @ py_str (dgetd run ''pdk'' (PStr ''unknown'')),
          ''Backend: '' @ py_str (dgetd run ''backend'' (PStr ''unknown'')), ''Stage: '' @ py_str (dgetd run ''stage'' (PStr ''unknown'')),
          ''Current params: '' @ json_dumps (py_or (pget run ''params'') (PDict [])), [], ''## Current run metrics''] @
         catalog_lines run @ timing_lines (row_or_empty (rw_timing rows)) @ utilization_lines (row_or_empty (rw_utilization rows)) @
         path_lines arrow (rw_paths rows) @ history_lines (rw_history rows))"

definition user_message :: "string \<Rightarrow> string \<Rightarrow> rows_of_run \<Rightarrow> string" where
  "user_message arrow target rows =
     ''PPA target: '' @ target @ nl @ nl @ join nl (context_lines arrow rows) @ nl @ nl @
     ''Suggest ORFS parameter changes to reach the PPA target. Return concrete numeric values only.''"

definition chat_url :: "string \<Rightarrow> string \<Rightarrow> string" where
  "chat_url url grp =
     (let b = rstrip_on (\<lambda>c. c = CHR ''/'') url
      in if grp \<noteq> [] then b @ ''/text/chatcompletion_v2?GroupId='' @ grp else b @ ''/chat/completions'')"

definition chat_payload :: "string \<Rightarrow> string \<Rightarrow> string \<Rightarrow> int \<Rightarrow> pydict" where
  "chat_payload model sys user tokens =
     [(''model'', PStr model),
      (''messages'', PList [PDict [(''role'', PStr ''system''), (''content'', PStr sys)], PDict [(''role'', PStr ''user''), (''content'', PStr user)]]),
      (''max_tokens'', PInt tokens), (''temperature'', PFloat (f64 (1 / 10)))]"

definition chat_headers :: "string \<Rightarrow> pydict" where
  "chat_headers key = [(''Authorization'', PStr (''Bearer '' @ key)), (''Content-Type'', PStr ''application/json'')]"

section \<open>Reading the reply\<close>

definition fence :: string where "fence = ''```''"

text \<open>
  The text between the first two fences, without the word \<open>json\<close>; a text that does not start with a
  fence is as it is. \<open>rsplit\<close> finds no fence behind the split.
\<close>

definition unfence :: "string \<Rightarrow> string" where
  "unfence s =
     (if \<not> is_prefix fence s then s
      else let rest = drop (length fence) s; body = (case split_sub fence rest of None \<Rightarrow> rest | Some (b, x) \<Rightarrow> b);
               body' = (if is_prefix ''json'' body then drop 4 body else body)
           in py_strip body')"

text \<open>\<open>response["choices"][0]["message"]["content"].strip()\<close>\<close>

definition reply_content :: "pyval \<Rightarrow> string option" where
  "reply_content resp =
     (case resp of
        PDict d \<Rightarrow> (case pget d ''choices'' of
            PList (PDict c # _) \<Rightarrow> (case pget c ''message'' of
                PDict m \<Rightarrow> (case pget m ''content'' of PStr s \<Rightarrow> Some (py_strip s) | _ \<Rightarrow> None)
              | _ \<Rightarrow> None)
          | _ \<Rightarrow> None)
      | _ \<Rightarrow> None)"

definition reply_dict :: "pyval \<Rightarrow> pydict option" where
  "reply_dict resp =
     Option.bind (reply_content resp) (\<lambda>s.
     Option.bind (json_loads (unfence s)) (\<lambda>v. case v of PDict d \<Rightarrow> Some d | _ \<Rightarrow> None))"

definition llm_suggest_params :: "'w suggest_env \<Rightarrow> string \<Rightarrow> rows_of_run \<Rightarrow> (string, 'w, pydict) effect" where
  "llm_suggest_params env target rows =
     seq (sg_post env (chat_url (sg_base env) (sg_group env)) (chat_headers (sg_key env))
            (chat_payload (sg_model env)
              (if is_innovus_run (row_or_empty (rw_run rows)) then sg_innovus_prompt env else sg_orfs_prompt env)
              (user_message (sg_arrow env) target rows) 1024))
       (\<lambda>resp. reads (\<lambda>w. case reply_dict resp of
           None \<Rightarrow> Inl ''no suggestion in the reply''
         | Some d \<Rightarrow> Inr [(''suggested_params'', dgetd d ''suggested_params'' (PDict [])), (''reasoning'', dgetd d ''reasoning'' (PList []))]))"

section \<open>The heuristics\<close>

datatype reason =
    InnovusStage string objective
  | CurrentWns pyval
  | HoldSkew pyval
  | FailingEndpoints pyval
  | PeriodRelaxed pyval pyfloat pyval
  | RelaxPeriod pyval
  | TnsCoverage pyval
  | UtilizationReduced pyval pyfloat pyval
  | ReduceUtilization pyval
  | HoldMargin pyval
  | SlewThreshold pyval

text \<open>\<open>round(x, digits)\<close>\<close>

fun round_to :: "nat \<Rightarrow> pyfloat \<Rightarrow> pyfloat" where
  "round_to n (Fin q) = f64 (of_int (rhe (q * 10 ^ n)) / 10 ^ n)"
| "round_to n f = f"

definition current_number :: "pydict \<Rightarrow> string \<Rightarrow> pyfloat option" where
  "current_number params k = float_of_val (dgetd params k (PStr []))"

definition period_advice :: "pydict \<Rightarrow> pyval \<Rightarrow> pyfloat \<Rightarrow> pydict \<times> reason list" where
  "period_advice params wns w =
     (if flt w (f64 (- 1 / 2)) then
        (case current_number params ''CLOCK_PERIOD'' of
           Some p \<Rightarrow> let new = PFloat (round_to 3 (fadd p (f64 (1 / 2)))) in ([(''CLOCK_PERIOD'', new)], [PeriodRelaxed wns p new])
         | None \<Rightarrow> ([], [RelaxPeriod wns]))
      else if flt w (f64 (- 1 / 10)) then ([(''TNS_END_PERCENT'', PInt 20)], [TnsCoverage wns])
      else ([], []))"

definition utilization_advice :: "pydict \<Rightarrow> pyval \<Rightarrow> pyfloat \<Rightarrow> pydict \<times> reason list" where
  "utilization_advice params fep n =
     (if \<not> flt (Fin 10) n then ([], [])
      else case current_number params ''CORE_UTILIZATION'' of
        Some u \<Rightarrow>
          let x = round_to 1 (fsub u (Fin 5)); new = (if flt (Fin 10) x then PFloat x else PInt 10)
          in ([(''CORE_UTILIZATION'', new)], [UtilizationReduced fep u new])
      | None \<Rightarrow> ([], [ReduceUtilization fep]))"

definition orfs_params :: "pydict option \<Rightarrow> pydict" where
  "orfs_params run = (case pget (row_or_empty run) ''params'' of PDict d \<Rightarrow> d | _ \<Rightarrow> [])"

text \<open>\<open>None\<close>: a metric is no number.\<close>

definition orfs_advice :: "rows_of_run \<Rightarrow> (pydict \<times> reason list) option" where
  "orfs_advice rows =
     (case rw_timing rows of
        None \<Rightarrow> Some ([], [])
      | Some ts \<Rightarrow>
          let params = orfs_params (rw_run rows);
              wns = py_or (pget ts ''wns_ns'') (PFloat (Fin 0)); fep = py_or (pget ts ''failing_endpoints'') (PInt 0);
              hold = py_or (pget ts ''hold_violations'') (PInt 0); slew = py_or (pget ts ''max_slew_violations'') (PInt 0)
          in case (py_num wns, py_num fep, py_num hold, py_num slew) of
            (Some w, Some f, Some h, Some s) \<Rightarrow>
              let (a, ra) = period_advice params wns w; (b, rb) = utilization_advice params fep f
              in Some (a @ b, ra @ rb @ (if flt (Fin 0) h then [HoldMargin hold] else []) @
                   (if flt (Fin 5) s then [SlewThreshold slew] else []))
          | _ \<Rightarrow> None)"

definition innovus_advice :: "string \<Rightarrow> string \<Rightarrow> rows_of_run \<Rightarrow> (pydict \<times> reason list) option" where
  "innovus_advice target stg rows =
     map_option (\<lambda>obj.
       (filter (\<lambda>(k, v). stage_spec stg k \<noteq> None) (suggest_params obj),
        InnovusStage stg obj #
          (case rw_timing rows of
             None \<Rightarrow> []
           | Some ts \<Rightarrow>
               (if pget ts ''wns_ns'' \<noteq> PNone then [CurrentWns (pget ts ''wns_ns'')] else []) @
               (if py_truthy (pget ts ''hold_violations'') then [HoldSkew (pget ts ''hold_violations'')] else []) @
               (if py_truthy (pget ts ''failing_endpoints'') then [FailingEndpoints (pget ts ''failing_endpoints'')] else []))))
       (infer_objective target (row_or_empty (rw_timing rows)))"

record suggestion =
  su_params :: pyval
  su_reasons :: "pyval + reason list"   \<comment> \<open>what the model wrote, or the heuristics\<close>
  su_available :: "string list"
  su_catalog :: "pydict list"
  su_source :: string

definition row_text :: "pydict option \<Rightarrow> string \<Rightarrow> string" where
  "row_text run k = (case pget (row_or_empty run) k of PStr s \<Rightarrow> s | _ \<Rightarrow> [])"

definition heuristic_suggestion :: "string \<Rightarrow> rows_of_run \<Rightarrow> suggestion option" where
  "heuristic_suggestion target rows =
     (if py_lower (row_text (rw_run rows) ''backend'') = ''innovus'' then
        (let stg = row_text (rw_run rows) ''stage'' in
         map_option (\<lambda>(ps, rs). \<lparr>su_params = PDict ps, su_reasons = Inr rs,
             su_available = map ps_name (sort_specs (get_flow_stage_params stg)), su_catalog = dgetd build_stage_catalog stg [],
             su_source = ''heuristic''\<rparr>) (innovus_advice target stg rows))
      else map_option (\<lambda>(ps, rs). \<lparr>su_params = PDict ps, su_reasons = Inr rs, su_available = [], su_catalog = [],
             su_source = ''heuristic''\<rparr>) (orfs_advice rows))"

text \<open>\<open>suggest_params_impl\<close>: whatever the model's part raises, the heuristics answer.\<close>

definition suggest_tool :: "'w suggest_env \<Rightarrow> string \<Rightarrow> rows_of_run \<Rightarrow> 'w \<Rightarrow> suggestion option \<times> 'w" where
  "suggest_tool env target rows w =
     (case llm_suggest_params env target rows w of
        (Inr d, w') \<Rightarrow> (Some \<lparr>su_params = pget d ''suggested_params'', su_reasons = Inl (pget d ''reasoning''), su_available = [],
            su_catalog = [], su_source = ''llm''\<rparr>, w')
      | (Inl e, w') \<Rightarrow> (heuristic_suggestion target rows, w'))"

end
