(* ===== verification/SuggestProps.thy ===== *)
theory SuggestProps
  imports Suggest ParamProps ChatProps
begin

text \<open>
  What the filter lets through, what becomes of a reply, and where the heuristics go wrong.
\<close>

section \<open>The filter\<close>

lemma coerce_number_idem: "coerce_value (coerce_number s xs) xs = coerce_number s xs \<or> coerce_number s xs = PStr s"
  by (auto simp: coerce_number_def coerce_value_def split: option.splits)

lemma coerce_idem: "coerce_value (coerce_value v xs) xs = coerce_value v xs"
proof (cases v)
  case (PStr s)
  with coerce_number_idem [of s xs] show ?thesis by (auto simp: coerce_value_def Let_def)
qed (simp_all add: coerce_value_def)

lemma stage_spec_find:
  assumes "stage_spec stg k = Some s"
  shows "find_param k = Some s" "s \<in> set all_params"
proof -
  have "s \<in> set (get_flow_stage_params stg)" "ps_name s = k" using assms by (auto simp: stage_spec_def find_Some_iff)
  then show "find_param k = Some s" "s \<in> set all_params"
    by (auto simp: get_flow_stage_params_def split: option.splits intro: find_paramI)
qed

lemma no_conflicts: "s \<in> set all_params \<Longrightarrow> ps_conflicts s = []"
proof -
  have "list_all (\<lambda>s. ps_conflicts s = []) all_params" by (simp add: all_params_def param_tables spec_def)
  then show "s \<in> set all_params \<Longrightarrow> ps_conflicts s = []" by (simp add: list_all_iff)
qed

lemma samples_stay: "s \<in> set all_params \<Longrightarrow> v \<in> set (ps_samples s) \<Longrightarrow> coerce_value v (ps_samples s) = v \<and> py_in v (ps_samples s)"
proof -
  have "list_all (\<lambda>s. list_all (\<lambda>v. coerce_value v (ps_samples s) = v \<and> list_ex (py_eq v) (ps_samples s)) (ps_samples s)) all_params" by code_simp
  then show "s \<in> set all_params \<Longrightarrow> v \<in> set (ps_samples s) \<Longrightarrow> coerce_value v (ps_samples s) = v \<and> py_in v (ps_samples s)"
    by (auto simp: list_all_iff list_ex_iff py_in_def)
qed

lemma innovus_value_Some:
  "innovus_value stg k v = Some c \<longleftrightarrow>
     (\<exists>s. stage_spec stg k = Some s \<and> c = coerce_value v (ps_samples s) \<and> py_in c (ps_samples s))"
  by (auto simp: innovus_value_def Let_def split: option.splits if_splits)

lemma kept_innovus:
  "py_lower be = ''innovus'' \<Longrightarrow> (k, c) \<in> set (filter_suggested_params raw be stg) \<longleftrightarrow> (\<exists>v. (k, v) \<in> set raw \<and> innovus_value stg k v = Some c)"
  by (force simp: filter_suggested_params_def map_filter_def)

lemma innovus_value_idem: "innovus_value stg k v = Some c \<Longrightarrow> innovus_value stg k c = Some c"
  by (auto simp: innovus_value_Some coerce_idem)

lemma map_filter_fixed: "(\<And>x. x \<in> set xs \<Longrightarrow> f x = Some x) \<Longrightarrow> List.map_filter f xs = xs"
  by (induction xs) (simp_all add: map_filter_simps)

lemma filter_idem: "filter_suggested_params (filter_suggested_params raw be stg) be stg = filter_suggested_params raw be stg"
proof (cases "py_lower be = ''innovus''")
  case True
  have "innovus_value stg k c = Some c" if "(k, c) \<in> set (filter_suggested_params raw be stg)" for k c
    using that innovus_value_idem by (auto simp: kept_innovus [OF True])
  then have "List.map_filter (\<lambda>(k, v). map_option (Pair k) (innovus_value stg k v)) (filter_suggested_params raw be stg) =
      filter_suggested_params raw be stg" by (intro map_filter_fixed) auto
  with True show ?thesis by (subst filter_suggested_params_def) simp
qed (simp add: filter_suggested_params_def)



section \<open>The reply\<close>

lemma split_fence_line:
  assumes "\<not> is_infix fence b"
  shows "split_sub fence (b @ nl @ fence @ rest) = Some (b @ nl, rest)"
  using assms
proof (induction b)
  case Nil
  then show ?case by (simp add: fence_def nl_def is_prefix_iff)
next
  case (Cons c b)
  have "\<not> is_prefix fence (c # b @ nl @ fence @ rest)"
  proof (cases b)
    case (Cons d b')
    with Cons.prems show ?thesis by (cases b') (auto simp: fence_def nl_def)
  qed (simp add: fence_def nl_def)
  moreover have "\<not> is_infix fence b" using Cons.prems by simp
  ultimately show ?case using Cons.IH by simp
qed

lemma strip_line: "\<not> is_space c \<Longrightarrow> \<not> is_space d \<Longrightarrow> py_strip (nl @ (c # t @ [d]) @ nl) = c # t @ [d]"
  by (simp add: py_strip_def lstrip_on_def rstrip_on_def nl_def is_space_def code_def)

lemma strip_tight: "\<not> is_space c \<Longrightarrow> \<not> is_space d \<Longrightarrow> py_strip (c # t @ [d]) = c # t @ [d]"
  by (simp add: py_strip_def lstrip_on_def rstrip_on_def)

lemma dumps_dict: "\<exists>t. json_dumps (PDict d) = CHR ''{'' # t @ [CHR ''}'']"
  by simp

definition chat_reply :: "string \<Rightarrow> pyval" where
  "chat_reply s = PDict [(''choices'', PList [PDict [(''message'', PDict [(''role'', PStr ''assistant''), (''content'', PStr s)])]])]"

lemma reply_content_chat: "reply_content (chat_reply s) = Some (py_strip s)"
  by (simp add: reply_content_def chat_reply_def pget_def)

text \<open>
  A model that answers with a JSON object is read, as it is or in a fenced block of its own lines,
  with the word json or without; the object may hold no fence.
\<close>

theorem reply_reads_back:
  assumes "json_plain (PDict d)" "\<not> is_infix fence (json_dumps (PDict d))" "word \<in> {[], ''json''}"
  shows "reply_dict (chat_reply (json_dumps (PDict d))) = Some d \<and>
    reply_dict (chat_reply (fence @ word @ nl @ json_dumps (PDict d) @ nl @ fence)) = Some d"
proof -
  obtain t where t: "json_dumps (PDict d) = CHR ''{'' # t @ [CHR ''}'']" using dumps_dict by blast
  have sp: "\<not> is_space (CHR ''{'')" "\<not> is_space (CHR ''}'')" "\<not> is_space (CHR ''`'')" by (simp_all add: is_space_def code_def)
  have loads: "json_loads (json_dumps (PDict d)) = Some (PDict d)" by (rule json_loads_dumps [OF assms(1)])
  have "unfence (json_dumps (PDict d)) = json_dumps (PDict d)" unfolding t by (simp add: unfence_def fence_def)
  moreover have "py_strip (json_dumps (PDict d)) = json_dumps (PDict d)" unfolding t by (rule strip_tight [OF sp(1,2)])
  ultimately have one: "reply_dict (chat_reply (json_dumps (PDict d))) = Some d"
    unfolding reply_dict_def reply_content_chat by (simp add: loads del: json_text.simps)
  let ?body = "word @ nl @ json_dumps (PDict d)"
  let ?s = "fence @ word @ nl @ json_dumps (PDict d) @ nl @ fence"
  have "\<exists>u. ?s = CHR ''`'' # u @ [CHR ''`'']" by (rule exI [of _ "''``'' @ word @ nl @ json_dumps (PDict d) @ nl @ ''``''"]) (simp add: fence_def)
  then have strip: "py_strip ?s = ?s" using strip_tight [OF sp(3,3)] by metis
  have "\<not> is_infix fence ?body"
    using assms(2,3) unfolding t by (auto simp: fence_def nl_def)
  then have "split_sub fence (?body @ nl @ fence @ []) = Some (?body @ nl, [])" by (rule split_fence_line)
  then have "unfence ?s = py_strip (nl @ json_dumps (PDict d) @ nl)"
    using assms(3) by (auto simp: unfence_def is_prefix_iff nl_def simp del: json_text.simps)
  also have "\<dots> = json_dumps (PDict d)" unfolding t using strip_line [OF sp(1,2), of t] by simp
  finally have "reply_dict (chat_reply ?s) = Some d"
    unfolding reply_dict_def reply_content_chat strip by (simp add: loads del: json_text.simps)
  with one show ?thesis by blast
qed

theorem reply_reads_back_witness:
  "reply_dict (chat_reply (fence @ ''json'' @ nl @ json_dumps (PDict [(''suggested_params'', PDict [(''CORE_UTILIZATION'', PInt 50)])]) @ nl @ fence)) =
     Some [(''suggested_params'', PDict [(''CORE_UTILIZATION'', PInt 50)])]"
proof -
  have "\<not> is_infix fence (json_dumps (PDict [(''suggested_params'', PDict [(''CORE_UTILIZATION'', PInt 50)])]))" by code_simp
  with reply_reads_back [of "[(''suggested_params'', PDict [(''CORE_UTILIZATION'', PInt 50)])]" "''json''"] show ?thesis by simp
qed

section \<open>The heuristics\<close>

text \<open>
  A utilization below ten percent is raised to ten, though the text says reduced.
\<close>

theorem low_utilization_rises:
  assumes "current_number params ''CORE_UTILIZATION'' = Some (Fin u)" "flt (Fin 10) n" "u < 10" "0 \<le> u"
  shows "utilization_advice params fep n = ([(''CORE_UTILIZATION'', PInt 10)], [UtilizationReduced fep (Fin u) (PInt 10)])"
proof -
  have small: "\<bar>u - 5\<bar> \<le> 10" using assms(3,4) by simp
  have r: "rnd64 (u - 5) \<le> 10" using assms(3) by (intro rnd64_le_of_int [of _ 10, simplified]) simp_all
  have l: "- 10 \<le> rnd64 (u - 5)" using assms(4) rnd64_ge_of_int [of "- 10" "u - 5"] by simp
  have f: "fsub (Fin u) (Fin 5) = Fin (rnd64 (u - 5))"
    using r l by (simp add: fsub_def f64_def Let_def)
  have "rhe (rnd64 (u - 5) * 10) \<le> 100" using rhe_mono [of "rnd64 (u - 5) * 10" 100] r rhe_of_int [of 100] by simp
  then have "of_int (rhe (rnd64 (u - 5) * 10)) / 10 \<le> (of_int 10 :: rat)" by simp
  then have ru: "rnd64 (of_int (rhe (rnd64 (u - 5) * 10)) / 10) \<le> 10" using rnd64_le_of_int [of _ 10] by simp
  then have "\<not> flt (Fin 10) (round_to 1 (Fin (rnd64 (u - 5))))"
    by (auto simp: f64_def Let_def)
  with f assms(1,2) show ?thesis by (simp add: utilization_advice_def Let_def)
qed

end
