(* ===== verification/Congestion.thy ===== *)
theory Congestion
  imports Suggest Tuning
begin

text \<open>
  Tuning congestion with placement blockages, \<open>agent/tool_impl_tuning_congestion.py\<close>: bounding boxes out
  of geometry texts, the choice of blockages by the model or by the worst hotspots, and the loop that
  runs the placement, measures it and applies blockages.
\<close>

section \<open>Bounding boxes\<close>

definition read_sign :: "string \<Rightarrow> string \<times> string" where
  "read_sign s = (case s of c # t \<Rightarrow> if c = CHR ''-'' then ([c], t) else ([], s) | [] \<Rightarrow> ([], []))"

text \<open>\<open>(?:\.\d+)?\<close> and \<open>(?:[eE][+-]?\d+)?\<close>: what is matched and the rest.\<close>

definition match_frac :: "string \<Rightarrow> string \<times> string" where
  "match_frac s = (case s of
      c # t \<Rightarrow> if c = CHR ''.'' \<and> takeWhile is_digit t \<noteq> [] then (c # takeWhile is_digit t, dropWhile is_digit t) else ([], s)
    | [] \<Rightarrow> ([], []))"

definition match_exp :: "string \<Rightarrow> string \<times> string" where
  "match_exp s = (case s of
      c # t \<Rightarrow>
        let (sg, u) = (case t of d # u \<Rightarrow> if d = CHR ''+'' \<or> d = CHR ''-'' then ([d], u) else ([], t) | [] \<Rightarrow> ([], []))
        in if (c = CHR ''e'' \<or> c = CHR ''E'') \<and> takeWhile is_digit u \<noteq> []
           then (c # sg @ takeWhile is_digit u, dropWhile is_digit u) else ([], s)
    | [] \<Rightarrow> ([], []))"

definition match_coord :: "string \<Rightarrow> (string \<times> string) option" where
  "match_coord s =
     (let (sg, a) = read_sign s; ds = takeWhile is_digit a; (f, b) = match_frac (dropWhile is_digit a); (e, c) = match_exp b
      in if ds = [] then None else Some (sg @ ds @ f @ e, c))"

text \<open>Two coordinates with space between them, at the start of the text.\<close>

definition match_point :: "string \<Rightarrow> ((string \<times> string) \<times> string) option" where
  "match_point s =
     (case match_coord s of
        None \<Rightarrow> None
      | Some (x, r) \<Rightarrow>
          if takeWhile is_space r = [] then None
          else map_option (\<lambda>(y, r'). ((x, y), r')) (match_coord (dropWhile is_space r)))"

lemma match_frac_length: "match_frac s = (f, r) \<Longrightarrow> length r \<le> length s"
  by (auto simp: match_frac_def length_dropWhile_le le_SucI split: list.splits if_splits)

lemma match_exp_length: "match_exp s = (f, r) \<Longrightarrow> length r \<le> length s"
  by (auto simp: match_exp_def length_dropWhile_le le_SucI split: list.splits if_splits prod.splits)

lemma match_coord_length:
  assumes "match_coord s = Some (x, r)"
  shows "length r < length s"
proof -
  obtain sg a where a: "read_sign s = (sg, a)" by fastforce
  obtain f b where b: "match_frac (dropWhile is_digit a) = (f, b)" by fastforce
  obtain e c where c: "match_exp b = (e, c)" by fastforce
  have r: "r = c" "takeWhile is_digit a \<noteq> []" using assms a b c by (auto simp: match_coord_def Let_def split: if_splits)
  have "length a \<le> length s" using a by (auto simp: read_sign_def split: list.splits if_splits)
  moreover have "length (dropWhile is_digit a) < length a"
    using r(2) by (cases a) (auto simp: length_dropWhile_le less_Suc_eq_le split: if_splits)
  ultimately show ?thesis using match_frac_length [OF b] match_exp_length [OF c] r(1) by simp
qed

lemma match_point_length: "match_point s = Some (p, r) \<Longrightarrow> length r < length s"
proof -
  assume "match_point s = Some (p, r)"
  then obtain x r1 y where m: "match_coord s = Some (x, r1)" "match_coord (dropWhile is_space r1) = Some (y, r)"
    by (auto simp: match_point_def split: option.splits if_splits)
  have "length (dropWhile is_space r1) \<le> length r1" by (rule length_dropWhile_le)
  with match_coord_length [OF m(1)] match_coord_length [OF m(2)] show ?thesis by simp
qed

text \<open>\<open>re.findall\<close>: the matches from the left, without overlap.\<close>

function points :: "string \<Rightarrow> (string \<times> string) list" where
  "points [] = []"
| "points (c # s) = (case match_point (c # s) of Some (p, r) \<Rightarrow> p # points r | None \<Rightarrow> points s)"
  by pat_completeness auto
termination
  by (relation "measure length") (auto dest: match_point_length)

definition least :: "pyfloat list \<Rightarrow> pyfloat" where
  "least xs = foldl (\<lambda>m x. if flt x m then x else m) (hd xs) (tl xs)"

definition greatest :: "pyfloat list \<Rightarrow> pyfloat" where
  "greatest xs = foldl (\<lambda>m x. if flt m x then x else m) (hd xs) (tl xs)"

record box =
  bx_x1 :: pyfloat
  bx_y1 :: pyfloat
  bx_x2 :: pyfloat
  bx_y2 :: pyfloat

definition coord_value :: "string \<Rightarrow> pyfloat" where
  "coord_value s = (case float_of_str s of Some f \<Rightarrow> f | None \<Rightarrow> NaN)"

definition bbox_from_wkt :: "string \<Rightarrow> box option" where
  "bbox_from_wkt wkt =
     (let ps = points wkt; xs = map (coord_value \<circ> fst) ps; ys = map (coord_value \<circ> snd) ps
      in if length ps < 4 then None
         else Some \<lparr>bx_x1 = least xs, bx_y1 = least ys, bx_x2 = greatest xs, bx_y2 = greatest ys\<rparr>)"

section \<open>Choosing blockages\<close>

record blockage =
  bl_box :: box
  bl_type :: string
  bl_reason :: string

definition overflow_key :: "pydict \<Rightarrow> pyfloat option" where
  "overflow_key h = float_of_val (py_or (dgetd h ''overflow'' (PInt 0)) (PInt 0))"

text \<open>\<open>sorted(..., reverse=True)\<close> keeps the order of equal keys.\<close>

definition worst_first :: "pydict list \<Rightarrow> pydict list" where
  "worst_first hs = sort_desc (\<lambda>a b. flt (the (overflow_key a)) (the (overflow_key b))) hs"

definition hotspot_blockage :: "nat \<Rightarrow> pydict \<Rightarrow> blockage option" where
  "hotspot_blockage i h =
     (case pget h ''geom_wkt'' of
        PStr wkt \<Rightarrow> map_option (\<lambda>b. \<lparr>bl_box = b, bl_type = ''soft'',
            bl_reason = ''heuristic_hotspot_rank_'' @ show_int (int i) @ ''; overflow='' @ py_str (dgetd h ''overflow'' (PInt 0))\<rparr>)
          (bbox_from_wkt wkt)
      | _ \<Rightarrow> None)"

text \<open>\<open>None\<close>: an overflow that is no number raises.\<close>

definition heuristic_blockages :: "nat \<Rightarrow> pydict list \<Rightarrow> blockage list option" where
  "heuristic_blockages most hs =
     (if list_ex (\<lambda>h. overflow_key h = None) hs then None
      else let chosen = take most (worst_first hs)
           in Some (List.map_filter (\<lambda>(i, h). hotspot_blockage i h) (enumerate 1 chosen)))"

definition blockage_type :: "pydict \<Rightarrow> string" where
  "blockage_type item =
     (let t = py_lower (py_str (dgetd item ''type'' (PStr ''soft''))) in if t \<in> {''soft'', ''hard'', ''partial''} then t else ''soft'')"

definition coord_of :: "pydict \<Rightarrow> string \<Rightarrow> pyfloat option" where
  "coord_of item k = (case dget item k of None \<Rightarrow> None | Some v \<Rightarrow> float_of_val v)"

definition validated_blockage :: "pyval \<Rightarrow> blockage option" where
  "validated_blockage v =
     (case v of
        PDict item \<Rightarrow>
          (case (coord_of item ''x1'', coord_of item ''y1'', coord_of item ''x2'', coord_of item ''y2'') of
             (Some x1, Some y1, Some x2, Some y2) \<Rightarrow>
               if fle x2 x1 \<or> fle y2 y1 then None
               else Some \<lparr>bl_box = \<lparr>bx_x1 = x1, bx_y1 = y1, bx_x2 = x2, bx_y2 = y2\<rparr>, bl_type = blockage_type item,
                      bl_reason = py_str (dgetd item ''reason'' (PStr ''llm_hotspot''))\<rparr>
           | _ \<Rightarrow> None)
      | _ \<Rightarrow> None)"

text \<open>What a reply holds: \<open>None\<close> without a list of blockages.\<close>

definition reply_blockages :: "nat \<Rightarrow> pyval \<Rightarrow> blockage list option" where
  "reply_blockages most resp =
     (case reply_dict resp of
        None \<Rightarrow> None
      | Some d \<Rightarrow> (case dgetd d ''blockages'' (PList []) of
            PList items \<Rightarrow> Some (List.map_filter validated_blockage (take most items))
          | _ \<Rightarrow> None))"

definition decision_prompt :: "int \<Rightarrow> nat \<Rightarrow> pydict \<Rightarrow> pydict list \<Rightarrow> string" where
  "decision_prompt run most summary hs =
     (let bn = [CHR 0x5C, CHR ''n'']
      in ''run_id='' @ show_int run @ bn @ ''max_blockages='' @ show_int (int most) @ bn @
         ''congestion_summary='' @ raw_json (PDict summary) @ bn @ ''hotspots='' @ raw_json (PList (map PDict (take 12 hs))) @ bn @
         ''Output strict JSON only.'')"

definition decision_system :: string where
  "decision_system = ''You are an expert Innovus placement optimization engineer. Return ONLY JSON: {'' @ [CHR 0x22] @ ''blockages'' @ [CHR 0x22] @
     '': [...]}'' @ [CHR 0x5C, CHR ''n''] @
     ''Each blockage item must include x1,y1,x2,y2,type,reason. Allowed type values: soft, hard, partial. '' @
     ''Use no more than max_blockages items and prioritize highest overflow hotspots.''"

text \<open>\<open>llm_decide_blockages_impl\<close>: \<open>None\<close> where the heuristics raise.\<close>

definition decide_blockages :: "'w suggest_env \<Rightarrow> nat \<Rightarrow> int \<Rightarrow> pydict \<Rightarrow> pydict list \<Rightarrow> 'w \<Rightarrow> blockage list option \<times> 'w" where
  "decide_blockages env most run summary hs w =
     (if hs = [] then (Some [], w)
      else if sg_key env = [] then (heuristic_blockages most hs, w)
      else case sg_post env (chat_url (sg_base env) (sg_group env)) (chat_headers (sg_key env))
          (chat_payload (sg_model env) decision_system (decision_prompt run most summary hs) 800) w of
        (Inl e, w') \<Rightarrow> (heuristic_blockages most hs, w')
      | (Inr resp, w') \<Rightarrow> (case reply_blockages most resp of
            Some (b # bs) \<Rightarrow> (Some (b # bs), w')
          | _ \<Rightarrow> (heuristic_blockages most hs, w')))"

section \<open>The loop\<close>

definition blockage_value :: "blockage \<Rightarrow> pyval" where
  "blockage_value b = PDict [(''x1'', PFloat (bx_x1 (bl_box b))), (''y1'', PFloat (bx_y1 (bl_box b))),
     (''x2'', PFloat (bx_x2 (bl_box b))), (''y2'', PFloat (bx_y2 (bl_box b))), (''type'', PStr (bl_type b)), (''reason'', PStr (bl_reason b))]"

record 'w blockage_env =
  be_resolve :: "string \<Rightarrow> pydict \<Rightarrow> (string, string \<times> string) result"
  be_run :: "stage_request \<Rightarrow> ('w, pydict) eff"
  be_summary :: "pyval \<Rightarrow> 'w \<Rightarrow> (string, pydict) result"
  be_hotspots :: "pyval \<Rightarrow> 'w \<Rightarrow> (string, pydict list) result"
  be_decide :: "pyval \<Rightarrow> pydict \<Rightarrow> pydict list \<Rightarrow> ('w, blockage list) eff"
  be_apply :: "pyval \<Rightarrow> blockage list \<Rightarrow> string \<Rightarrow> ('w, pydict) eff"
  be_type_error :: string

record blockage_task =
  bt_backend :: string
  bt_design :: string
  bt_threshold :: pyfloat
  bt_max :: int
  bt_workdir :: string

datatype blockage_end = Converged | StoppedEarly | GoesOn

definition metric :: "'w blockage_env \<Rightarrow> pydict \<Rightarrow> string \<Rightarrow> ('w, pyfloat) eff" where
  "metric env summary k =
     reads (\<lambda>w. case float_of_val (py_or (dgetd summary k (PFloat (Fin 0))) (PFloat (Fin 0))) of
       None \<Rightarrow> Inl (be_type_error env) | Some f \<Rightarrow> Inr f)"

definition has_pct :: "pydict \<Rightarrow> bool" where
  "has_pct summary \<longleftrightarrow> dget summary ''overflow_h_pct'' \<noteq> None \<or> dget summary ''overflow_v_pct'' \<noteq> None"

text \<open>\<open>max(h, v)\<close> of the percentages, or the count where there are none.\<close>

definition effective_overflow :: "'w blockage_env \<Rightarrow> pydict \<Rightarrow> ('w, pyfloat) eff" where
  "effective_overflow env summary =
     seq (metric env summary ''overflow_h_pct'') (\<lambda>h.
     seq (metric env summary ''overflow_v_pct'') (\<lambda>v.
       if has_pct summary then gives (if flt h v then v else h) else metric env summary ''total_overflow''))"

definition blockage_step :: "'w blockage_env \<Rightarrow> blockage_task \<Rightarrow> string \<Rightarrow> string \<Rightarrow> int \<Rightarrow> ('w, blockage_end \<times> pydict) eff" where
  "blockage_step env task cfg tech i =
     seq (be_run env \<lparr>sr_backend = bt_backend task, sr_stage = ''place'', sr_design = bt_design task, sr_config = cfg, sr_pdk = tech,
         sr_params = PDict (if bt_workdir task = [] then [] else [(''workdir'', PStr (bt_workdir task))]), sr_context = [],
         sr_workdir = PNone, sr_profile = PNone\<rparr>) (\<lambda>res.
       let run = pget res ''run_id''; status = pget res ''status'';
           row = [(''iteration'', PInt i), (''run_id'', run), (''status'', status), (''target_threshold_pct'', PFloat (bt_threshold task))]
       in if status \<noteq> PStr ''success'' \<or> run = PNone then gives (StoppedEarly, row @ [(''error'', pget res ''error'')])
          else
            seq (reads (be_summary env run)) (\<lambda>summary.
            seq (effective_overflow env summary) (\<lambda>over.
              let row = row @ [(''congestion_summary'', PDict summary), (''effective_overflow'', PFloat over),
                    (''overflow_basis'', PStr (if has_pct summary then ''pct'' else ''count''))]
              in if fle over (bt_threshold task) then gives (Converged, row @ [(''converged'', PBool True)])
                 else
                   seq (reads (be_hotspots env run)) (\<lambda>hs.
                   let row = row @ [(''hotspot_count'', PInt (int (length hs)))]
                   in if hs = [] then gives (StoppedEarly, row @ [(''converged'', PBool False),
                        (''error'', PStr ''No congestion hotspots found for blockage synthesis'')])
                      else
                        seq (be_decide env run summary hs) (\<lambda>bs.
                          if bs = [] then gives (StoppedEarly, row @ [(''converged'', PBool False),
                            (''error'', PStr ''No valid blockage candidates produced'')])
                          else seq (be_apply env run bs (bt_workdir task)) (\<lambda>applied.
                            gives (GoesOn, row @ [(''applied_blockages'', PList (map blockage_value bs)),
                              (''blockage_apply_result'', PDict applied)])))))))"

fun blockage_loop :: "'w blockage_env \<Rightarrow> blockage_task \<Rightarrow> string \<Rightarrow> string \<Rightarrow> nat \<Rightarrow> int \<Rightarrow> ('w, bool \<times> pydict list) eff" where
  "blockage_loop env task cfg tech 0 i = gives (False, [])"
| "blockage_loop env task cfg tech (Suc left) i =
     seq (blockage_step env task cfg tech i) (\<lambda>(e, row).
       if e = GoesOn then seq (blockage_loop env task cfg tech left (i + 1)) (\<lambda>(c, rows). gives (c, row # rows))
       else gives (e = Converged, [row]))"

definition tune_congestion_with_blockage :: "'w blockage_env \<Rightarrow> blockage_task \<Rightarrow> pydict \<Rightarrow> ('w, pydict) eff" where
  "tune_congestion_with_blockage env task identity =
     seq (reads (\<lambda>w. be_resolve env (bt_backend task) identity)) (\<lambda>(cfg, tech).
     seq (blockage_loop env task cfg tech (nat (bt_max task)) 1) (\<lambda>(c, rows). gives
       [(''converged'', PBool c), (''iterations'', PInt (int (length rows))), (''threshold_pct'', PFloat (bt_threshold task)),
        (''history'', PList (map PDict rows))]))"

end
