(* ===== verification/CongestionProps.thy ===== *)
theory CongestionProps
  imports Congestion
begin

text \<open>
  What the blockages are that get applied, and how the loop around them ends.
\<close>

section \<open>Blockages of the model\<close>

definition sound_box :: "box \<Rightarrow> bool" where
  "sound_box b \<longleftrightarrow> \<not> fle (bx_x2 b) (bx_x1 b) \<and> \<not> fle (bx_y2 b) (bx_y1 b)"

lemma length_map_filter: "length (List.map_filter f xs) \<le> length xs"
  by (induction xs) (auto simp: map_filter_simps split: option.split)

lemma set_map_filter: "y \<in> set (List.map_filter f xs) \<longleftrightarrow> (\<exists>x \<in> set xs. f x = Some y)"
  by (induction xs) (auto simp: map_filter_simps split: option.splits)

lemma validated_sound:
  "validated_blockage v = Some b \<Longrightarrow> sound_box (bl_box b) \<and> bl_type b \<in> {''soft'', ''hard'', ''partial''}"
  by (auto simp: validated_blockage_def sound_box_def blockage_type_def Let_def split: pyval.splits option.splits if_splits)

lemma hotspot_soft: "hotspot_blockage i h = Some b \<Longrightarrow> bl_type b = ''soft'' \<and> (\<exists>wkt. pget h ''geom_wkt'' = PStr wkt \<and> bbox_from_wkt wkt = Some (bl_box b))"
  by (auto simp: hotspot_blockage_def split: pyval.splits)

lemma heuristic_blockages_of_hotspots:
  assumes "heuristic_blockages most hs = Some bs"
  shows "length bs \<le> most \<and> (\<forall>b \<in> set bs. bl_type b = ''soft'' \<and>
    (\<exists>h \<in> set hs. \<exists>wkt. pget h ''geom_wkt'' = PStr wkt \<and> bbox_from_wkt wkt = Some (bl_box b)))"
proof -
  have bs: "bs = List.map_filter (\<lambda>(i, h). hotspot_blockage i h) (enumerate 1 (take most (worst_first hs)))"
    using assms by (auto simp: heuristic_blockages_def Let_def split: if_splits)
  have "length bs \<le> most" unfolding bs
    using length_map_filter [of "\<lambda>(i, h). hotspot_blockage i h" "enumerate 1 (take most (worst_first hs))"] by simp
  moreover have "bl_type b = ''soft'' \<and> (\<exists>h \<in> set hs. \<exists>wkt. pget h ''geom_wkt'' = PStr wkt \<and> bbox_from_wkt wkt = Some (bl_box b))"
    if b: "b \<in> set bs" for b
  proof -
    obtain i h where h: "(i, h) \<in> set (enumerate 1 (take most (worst_first hs)))" "hotspot_blockage i h = Some b"
      using b unfolding bs set_map_filter by auto
    then have "h \<in> set (take most (worst_first hs))" by (metis enumerate_eq_zip set_zip_rightD)
    then have "h \<in> set hs" by (auto simp: worst_first_def dest!: in_set_takeD)
    with hotspot_soft [OF h(2)] show ?thesis by blast
  qed
  ultimately show ?thesis by blast
qed


text \<open>A model that proposes a box without height and a proper one, for one hotspot.\<close>

definition one_hotspot :: "pydict list" where
  "one_hotspot = [[(''overflow'', PInt 7), (''geom_wkt'', PStr ''POLYGON((0 0, 4 0, 4 4, 0 4, 0 0))'')]]"

definition proposing :: "unit suggest_env" where
  "proposing = \<lparr>sg_key = ''k'', sg_model = ''m'', sg_base = ''http://llm/'', sg_group = [], sg_arrow = [], sg_innovus_prompt = [], sg_orfs_prompt = [],
     sg_post = (\<lambda>url headers payload w. (Inr (PDict [(''choices'', PList [PDict [(''message'', PDict [(''content'',
       PStr (json_dumps (PDict [(''blockages'', PList [
         PDict [(''x1'', PInt 0), (''y1'', PInt 0), (''x2'', PInt 4), (''y2'', PInt 0)],
         PDict [(''x1'', PInt 0), (''y1'', PInt 0), (''x2'', PInt 4), (''y2'', PInt 4), (''type'', PStr ''HARD'')]])])))])]])]), w))\<rparr>"

lemma proposing_decides:
  "decide_blockages proposing 3 1 [] one_hotspot () =
     (Some [\<lparr>bl_box = \<lparr>bx_x1 = Fin 0, bx_y1 = Fin 0, bx_x2 = Fin 4, bx_y2 = Fin 4\<rparr>, bl_type = ''hard'', bl_reason = ''llm_hotspot''\<rparr>], ())"
  by code_simp


section \<open>The loop\<close>

lemma blockage_step_row:
  assumes "blockage_step env task cfg tech i w = (Inr (e, row), w')"
  shows "(e = Converged \<longleftrightarrow> pget row ''converged'' = PBool True) \<and>
    (e = Converged \<longrightarrow> (\<exists>x. pget row ''effective_overflow'' = PFloat x \<and> fle x (bt_threshold task))) \<and>
    (e = GoesOn \<longrightarrow> (\<exists>b bs x. pget row ''applied_blockages'' = PList (map blockage_value (b # bs)) \<and>
       pget row ''effective_overflow'' = PFloat x \<and> \<not> fle x (bt_threshold task)))"
proof -
  have cons: "\<exists>b bs'. map blockage_value bs = map blockage_value (b # bs')" if "bs \<noteq> []" for bs
    using that by (cases bs) auto
  from assms show ?thesis
    unfolding blockage_step_def Let_def
    by (auto simp: pget_def split: if_splits elim!: seq_InrE dest: cons)
      (metis cons list.simps(9))+
qed

lemma blockage_loop_rows:
  assumes "blockage_loop env task cfg tech left i w = (Inr (c, rows), w')"
  shows "length rows \<le> left \<and>
    (c \<longleftrightarrow> rows \<noteq> [] \<and> pget (last rows) ''converged'' = PBool True) \<and>
    (c \<longrightarrow> (\<exists>x. pget (last rows) ''effective_overflow'' = PFloat x \<and> fle x (bt_threshold task))) \<and>
    (\<forall>r \<in> set (butlast rows). \<exists>b bs x. pget r ''applied_blockages'' = PList (map blockage_value (b # bs)) \<and>
       pget r ''effective_overflow'' = PFloat x \<and> \<not> fle x (bt_threshold task))"
  using assms
proof (induction left arbitrary: i w c rows w')
  case (Suc left)
  then obtain e row w1 where step: "blockage_step env task cfg tech i w = (Inr (e, row), w1)"
    and more: "(if e = GoesOn then seq (blockage_loop env task cfg tech left (i + 1)) (\<lambda>(c, rows). gives (c, row # rows))
       else gives (e = Converged, [row])) w1 = (Inr (c, rows), w')"
    by (auto elim: seq_InrE)
  note row = blockage_step_row [OF step]
  show ?case
  proof (cases "e = GoesOn")
    case True
    with more obtain rs w2 where ih: "blockage_loop env task cfg tech left (i + 1) w1 = (Inr (c, rs), w2)" and rows: "rows = row # rs"
      by (auto elim!: seq_InrE)
    have "pget row ''converged'' \<noteq> PBool True" using row True by simp
    with Suc.IH [OF ih] row True rows show ?thesis by auto
  next
    case False
    with more row show ?thesis by auto
  qed
qed simp


text \<open>A placement whose horizontal overflow is 3, 2 and 1 percent in turn, and its loop up to 1.5.\<close>

definition easing :: "nat blockage_env" where
  "easing = \<lparr>be_resolve = (\<lambda>backend identity. Inr (''config.tcl'', ''tsmc18'')),
     be_run = (\<lambda>rq n. (Inr [(''run_id'', PInt (int n + 1)), (''status'', PStr ''success'')], Suc n)),
     be_summary = (\<lambda>run n. Inr [(''overflow_h_pct'', PInt (4 - int n))]), be_hotspots = (\<lambda>run n. Inr one_hotspot),
     be_decide = (\<lambda>run summary hs. gives [\<lparr>bl_box = \<lparr>bx_x1 = Fin 0, bx_y1 = Fin 0, bx_x2 = Fin 4, bx_y2 = Fin 4\<rparr>, bl_type = ''soft'', bl_reason = []\<rparr>]),
     be_apply = (\<lambda>run bs dir. gives [(''status'', PStr ''success'')]), be_type_error = ''TypeError''\<rparr>"

definition easing_task :: blockage_task where
  "easing_task = \<lparr>bt_backend = ''innovus'', bt_design = ''gcd'', bt_threshold = Fin (3 / 2), bt_max = 5, bt_workdir = []\<rparr>"

lemma easing_converges:
  "case tune_congestion_with_blockage easing easing_task [] 0 of
     (Inr out, n) \<Rightarrow> n = 3 \<and> pget out ''converged'' = PBool True | (Inl e, n) \<Rightarrow> False"
  by code_simp


text \<open>A run without any congestion figure counts as an overflow of 0: the loop converges on it.\<close>

theorem unmeasured_placement_converges:
  assumes "fst (effective_overflow env [] w) = Inr x" "bt_threshold task = Fin t" "0 \<le> t"
  shows "x = Fin 0 \<and> fle x (bt_threshold task)"
  using assms by (auto simp: effective_overflow_def metric_def has_pct_def seq_def reads_def dgetd_def py_or_def)

end
