(* ===== verification/Regex.thy ===== *)
theory Regex
  imports PyValue
begin

text \<open>
  The regular expressions of the report parsers, as Python's \<open>re\<close> matches them: by backtracking, the
  first alternative and the longest (or, with a question mark, shortest) repetition first. A state is
  the character before the position, the text behind it and the groups so far, each as the texts at
  its start and its end.
\<close>

section \<open>Expressions\<close>

datatype regex =
    Eps
  | Chr "char \<Rightarrow> bool"
  | Cat regex regex
  | Alt regex regex
  | Star bool regex      \<comment> \<open>greedy or not\<close>
  | Grp nat regex
  | Bol                  \<comment> \<open>\<open>^\<close> with \<open>MULTILINE\<close>\<close>
  | Eol                  \<comment> \<open>\<open>$\<close> with \<open>MULTILINE\<close>\<close>
  | Eot                  \<comment> \<open>\<open>$\<close> without\<close>
  | Look regex

type_synonym captures = "(nat \<times> string \<times> string) list"
type_synonym rx_state = "char option \<times> string \<times> captures"

definition newline :: char where "newline = CHR 0x0A"

text \<open>
  The repetition of a matcher, at most once per character of \<open>fuel\<close>: an iteration that consumes nothing
  ends it.
\<close>

fun repeat :: "(rx_state \<Rightarrow> (rx_state \<Rightarrow> rx_state option) \<Rightarrow> rx_state option) \<Rightarrow> bool \<Rightarrow> string \<Rightarrow> rx_state
    \<Rightarrow> (rx_state \<Rightarrow> rx_state option) \<Rightarrow> rx_state option" where
  "repeat m greedy [] st k = k st"
| "repeat m greedy (c # fuel) st k =
     (let again = \<lambda>u. m st (\<lambda>st'. if fst (snd st') = fst (snd st) then None else repeat m greedy fuel st' k)
      in if greedy then (case again () of None \<Rightarrow> k st | Some x \<Rightarrow> Some x)
         else (case k st of None \<Rightarrow> again () | Some x \<Rightarrow> Some x))"

primrec run :: "regex \<Rightarrow> rx_state \<Rightarrow> (rx_state \<Rightarrow> rx_state option) \<Rightarrow> rx_state option" where
  "run Eps = (\<lambda>st k. k st)"
| "run (Chr P) = (\<lambda>(p, s, g) k. case s of [] \<Rightarrow> None | c # t \<Rightarrow> if P c then k (Some c, t, g) else None)"
| "run (Cat r q) = (\<lambda>st k. run r st (\<lambda>st'. run q st' k))"
| "run (Alt r q) = (\<lambda>st k. case run r st k of None \<Rightarrow> run q st k | Some x \<Rightarrow> Some x)"
| "run (Star greedy r) = (\<lambda>st k. repeat (run r) greedy (newline # fst (snd st)) st k)"
| "run (Grp n r) = (\<lambda>(p, s, g) k. run r (p, s, g) (\<lambda>(p', s', g'). k (p', s', (n, s, s') # g')))"
| "run Bol = (\<lambda>(p, s, g) k. if p = None \<or> p = Some newline then k (p, s, g) else None)"
| "run Eol = (\<lambda>(p, s, g) k. case s of [] \<Rightarrow> k (p, s, g) | c # t \<Rightarrow> if c = newline then k (p, s, g) else None)"
| "run Eot = (\<lambda>(p, s, g) k. case s of [] \<Rightarrow> k (p, s, g) | c # t \<Rightarrow> if c = newline \<and> t = [] then k (p, s, g) else None)"
| "run (Look r) = (\<lambda>st k. case run r st Some of None \<Rightarrow> None | Some x \<Rightarrow> k st)"

section \<open>Evaluation\<close>

text \<open>
  The continuations as constants that unfold at a state only, so that evaluation by rewriting does not
  go under an abstraction.
\<close>

definition then_run :: "regex \<Rightarrow> (rx_state \<Rightarrow> rx_state option) \<Rightarrow> rx_state \<Rightarrow> rx_state option" where
  "then_run q k st = run q st k"

definition then_group :: "nat \<Rightarrow> string \<Rightarrow> (rx_state \<Rightarrow> rx_state option) \<Rightarrow> rx_state \<Rightarrow> rx_state option" where
  "then_group n s k st = (case st of (p', s', g') \<Rightarrow> k (p', s', (n, s, s') # g'))"

definition then_again :: "regex \<Rightarrow> bool \<Rightarrow> string \<Rightarrow> string \<Rightarrow> (rx_state \<Rightarrow> rx_state option) \<Rightarrow> rx_state \<Rightarrow> rx_state option" where
  "then_again r greedy fuel s k st = (if fst (snd st) = s then None else repeat (run r) greedy fuel st k)"

definition loop_run :: "regex \<Rightarrow> bool \<Rightarrow> string \<Rightarrow> rx_state \<Rightarrow> (rx_state \<Rightarrow> rx_state option) \<Rightarrow> rx_state option" where
  "loop_run r greedy fuel st k = repeat (run r) greedy fuel st k"

lemma then_code [code]:
  "then_run q k (p, s, g) = run q (p, s, g) k"
  "then_group n s k (p', s', g') = k (p', s', (n, s, s') # g')"
  "then_again r greedy fuel s k (p', s', g') = (if s' = s then None else loop_run r greedy fuel (p', s', g') k)"
  by (simp_all add: then_run_def then_group_def then_again_def loop_run_def)

lemma loop_run_code [code]:
  "loop_run r greedy [] st k = k st"
  "loop_run r True (c # fuel) (p, s, g) k =
     (case run r (p, s, g) (then_again r True fuel s k) of None \<Rightarrow> k (p, s, g) | Some x \<Rightarrow> Some x)"
  "loop_run r False (c # fuel) (p, s, g) k =
     (case k (p, s, g) of None \<Rightarrow> run r (p, s, g) (then_again r False fuel s k) | Some x \<Rightarrow> Some x)"
  by (simp_all add: loop_run_def then_again_def [abs_def] Let_def split: option.split)

lemma run_code [code]:
  "run Eps st k = k st"
  "run (Chr P) (p, s, g) k = (case s of [] \<Rightarrow> None | c # t \<Rightarrow> if P c then k (Some c, t, g) else None)"
  "run (Cat r q) st k = run r st (then_run q k)"
  "run (Alt r q) st k = (case run r st k of None \<Rightarrow> run q st k | Some x \<Rightarrow> Some x)"
  "run (Star greedy r) (p, s, g) k = loop_run r greedy (newline # s) (p, s, g) k"
  "run (Grp n r) (p, s, g) k = run r (p, s, g) (then_group n s k)"
  "run Bol (p, s, g) k = (if p = None \<or> p = Some newline then k (p, s, g) else None)"
  "run Eol (p, s, g) k = (case s of [] \<Rightarrow> k (p, s, g) | c # t \<Rightarrow> if c = newline then k (p, s, g) else None)"
  "run Eot (p, s, g) k = (case s of [] \<Rightarrow> k (p, s, g) | c # t \<Rightarrow> if c = newline \<and> t = [] then k (p, s, g) else None)"
  "run (Look r) st k = (case run r st Some of None \<Rightarrow> None | Some x \<Rightarrow> k st)"
  by (simp_all add: then_run_def [abs_def] then_group_def [abs_def] loop_run_def del: repeat.simps)

section \<open>Searching\<close>

text \<open>A match: the text at its start and the state at its end.\<close>

type_synonym mtch = "string \<times> rx_state"

fun search_at :: "regex \<Rightarrow> char option \<Rightarrow> string \<Rightarrow> mtch option" where
  "search_at r p [] = map_option (Pair []) (run r (p, [], []) Some)"
| "search_at r p (c # s) =
     (case run r (p, c # s, []) Some of Some st \<Rightarrow> Some (c # s, st) | None \<Rightarrow> search_at r (Some c) s)"

definition search :: "regex \<Rightarrow> string \<Rightarrow> mtch option" where
  "search r s = search_at r None s"

definition upto_text :: "string \<Rightarrow> string \<Rightarrow> string" where
  "upto_text a b = take (length a - length b) a"

definition group :: "nat \<Rightarrow> mtch \<Rightarrow> string option" where
  "group n m = (case m of (a, p, b, g) \<Rightarrow>
     if n = 0 then Some (upto_text a b) else map_option (\<lambda>(x, y). upto_text x y) (map_of g n))"

text \<open>\<open>m.group(1)\<close> of a group that every match has.\<close>

definition grp :: "nat \<Rightarrow> mtch \<Rightarrow> string" where
  "grp n m = (case group n m of Some s \<Rightarrow> s | None \<Rightarrow> [])"

section \<open>What matches\<close>

text \<open>The matches of an expression, in whatever order they are tried.\<close>

inductive matches :: "regex \<Rightarrow> rx_state \<Rightarrow> rx_state \<Rightarrow> bool" where
  eps: "matches Eps st st"
| chr: "P c \<Longrightarrow> matches (Chr P) (p, c # t, g) (Some c, t, g)"
| cat: "matches r st st' \<Longrightarrow> matches q st' st'' \<Longrightarrow> matches (Cat r q) st st''"
| alt_left: "matches r st st' \<Longrightarrow> matches (Alt r q) st st'"
| alt_right: "matches q st st' \<Longrightarrow> matches (Alt r q) st st'"
| star_end: "matches (Star b r) st st"
| star_step: "matches r st st' \<Longrightarrow> fst (snd st') \<noteq> fst (snd st) \<Longrightarrow> matches (Star b r) st' st'' \<Longrightarrow> matches (Star b r) st st''"
| grp: "matches r (p, s, g) (p', s', g') \<Longrightarrow> matches (Grp n r) (p, s, g) (p', s', (n, s, s') # g')"
| bol: "p = None \<or> p = Some newline \<Longrightarrow> matches Bol (p, s, g) (p, s, g)"
| eol: "s = [] \<or> hd s = newline \<Longrightarrow> matches Eol (p, s, g) (p, s, g)"
| eot: "s = [] \<or> s = [newline] \<Longrightarrow> matches Eot (p, s, g) (p, s, g)"
| look: "matches r st st' \<Longrightarrow> matches (Look r) st st"

inductive_simps matches_simps [simp]:
  "matches Eps st st'" "matches (Chr P) (p, s, g) st'" "matches (Cat r q) st st'" "matches (Alt r q) st st'"
  "matches (Grp n r) (p, s, g) st'" "matches Bol (p, s, g) st'" "matches Eol (p, s, g) st'" "matches Eot (p, s, g) st'"
  "matches (Look r) st st'"

text \<open>A match consumes a prefix of the text.\<close>

lemma matches_suffix: "matches r st st' \<Longrightarrow> \<exists>u. fst (snd st) = u @ fst (snd st')"
proof (induction rule: matches.induct)
  case (cat r st st' q st'')
  then show ?case by (metis append.assoc)
next
  case (star_step r st st' b st'')
  then show ?case by (metis append.assoc)
qed auto

lemma repeat_sound:
  assumes m: "\<And>st k x. m st k = Some x \<Longrightarrow> \<exists>st'. matches r st st' \<and> k st' = Some x"
  shows "repeat m b fuel st k = Some x \<Longrightarrow> \<exists>st'. matches (Star b r) st st' \<and> k st' = Some x"
proof (induction fuel arbitrary: st)
  case Nil
  then show ?case by (intro exI [of _ st]) (simp add: matches.star_end)
next
  case (Cons c fuel)
  let ?more = "\<lambda>st'. if fst (snd st') = fst (snd st) then None else repeat m b fuel st' k"
  have "k st = Some x \<or> m st ?more = Some x"
    using Cons.prems by (auto simp: Let_def split: if_splits option.splits)
  then show ?case
  proof
    assume "k st = Some x"
    then show ?thesis by (intro exI [of _ st]) (simp add: matches.star_end)
  next
    assume "m st ?more = Some x"
    from m [OF this] obtain st1 where "matches r st st1" "fst (snd st1) \<noteq> fst (snd st)" "repeat m b fuel st1 k = Some x"
      by (auto split: if_splits)
    with Cons.IH show ?thesis using matches.star_step by blast
  qed
qed

lemma run_sound: "run r st k = Some x \<Longrightarrow> \<exists>st'. matches r st st' \<and> k st' = Some x"
proof (induction r arbitrary: st k x)
  case (Chr P)
  then show ?case by (cases st) (auto split: list.splits if_splits)
next
  case (Cat r q)
  from Cat.prems have "run r st (\<lambda>st'. run q st' k) = Some x" by simp
  from Cat.IH(1) [OF this] obtain st1 where "matches r st st1" "run q st1 k = Some x" by blast
  moreover from Cat.IH(2) [OF this(2)] obtain st2 where "matches q st1 st2" "k st2 = Some x" by blast
  ultimately show ?case using matches.cat by blast
next
  case (Alt r q)
  then have "run r st k = Some x \<or> run q st k = Some x" by (simp split: option.splits)
  then show ?case
  proof
    assume "run r st k = Some x"
    from Alt.IH(1) [OF this] obtain st' where "matches r st st'" "k st' = Some x" by blast
    then show ?thesis by (intro exI [of _ st']) (simp add: matches.alt_left)
  next
    assume "run q st k = Some x"
    from Alt.IH(2) [OF this] obtain st' where "matches q st st'" "k st' = Some x" by blast
    then show ?thesis by (intro exI [of _ st']) (simp add: matches.alt_right)
  qed
next
  case (Star b r)
  from Star.prems have "repeat (run r) b (newline # fst (snd st)) st k = Some x" by (simp del: repeat.simps)
  from repeat_sound [OF Star.IH this] show ?case .
next
  case (Grp n r)
  obtain p s g where st: "st = (p, s, g)" by (cases st)
  from Grp.prems have "run r (p, s, g) (\<lambda>(p', s', g'). k (p', s', (n, s, s') # g')) = Some x" by (simp add: st)
  from Grp.IH [OF this] show ?case by (auto simp: st)
next
  case (Look r)
  then show ?case by (auto split: option.splits dest!: Look.IH)
qed (auto split: list.splits if_splits)

lemma repeat_complete:
  assumes m: "\<And>st st' k. matches r st st' \<Longrightarrow> k st' \<noteq> None \<Longrightarrow> m st k \<noteq> None"
  shows "matches R st st' \<Longrightarrow> R = Star b r \<Longrightarrow> length (fst (snd st)) < length fuel \<Longrightarrow> k st' \<noteq> None \<Longrightarrow> repeat m b fuel st k \<noteq> None"
proof (induction arbitrary: fuel rule: matches.induct)
  case (star_end b' r' st)
  then obtain c f where "fuel = c # f" by (cases fuel) auto
  with star_end show ?case by (auto simp: Let_def split: option.splits)
next
  case (star_step r' st st1 b' st2)
  from star_step.prems obtain c f where f: "fuel = c # f" by (cases fuel) auto
  from star_step.hyps(1) obtain u where "fst (snd st) = u @ fst (snd st1)" using matches_suffix by blast
  with star_step.hyps(2) star_step.prems(2) f have "length (fst (snd st1)) < length f" by (cases u) auto
  with star_step have "repeat m b f st1 k \<noteq> None" by simp
  with star_step.hyps(2) have "m st (\<lambda>st'. if fst (snd st') = fst (snd st) then None else repeat m b f st' k) \<noteq> None"
    using star_step.prems(1) star_step.hyps(1) by (intro m [of st st1]) auto
  with f show ?case by (auto simp: Let_def split: option.splits)
qed auto

lemma run_complete: "matches r st st' \<Longrightarrow> k st' \<noteq> None \<Longrightarrow> run r st k \<noteq> None"
proof (induction r arbitrary: st st' k)
  case (Cat r q)
  then obtain st1 where "matches r st st1" "matches q st1 st'" by auto
  with Cat show ?case by simp
next
  case (Alt r q)
  from Alt.prems(1) have "matches r st st' \<or> matches q st st'" by simp
  with Alt.IH Alt.prems(2) have "run r st k \<noteq> None \<or> run q st k \<noteq> None" by blast
  then show ?case by (cases "run r st k") (simp_all del: not_None_eq)
next
  case (Star b r)
  have "repeat (run r) b (newline # fst (snd st)) st k \<noteq> None"
  proof (rule repeat_complete [where m = "run r" and r = r and R = "Star b r" and st' = st'])
    show "run r s1 k1 \<noteq> None" if "matches r s1 s2" "k1 s2 \<noteq> None" for s1 s2 k1 using Star.IH [where st = s1 and st' = s2 and k = k1] that by blast
  qed (use Star.prems in simp_all)
  then show ?case by (simp del: repeat.simps)
next
  case (Grp n r)
  obtain p s g where st: "st = (p, s, g)" by (cases st)
  with Grp.prems obtain p' s' g' where m: "matches r (p, s, g) (p', s', g')" "st' = (p', s', (n, s, s') # g')" by auto
  have "run r (p, s, g) (\<lambda>(p', s', g'). k (p', s', (n, s, s') # g')) \<noteq> None"
    using Grp.IH [OF m(1), where k = "\<lambda>(p', s', g'). k (p', s', (n, s, s') # g')"] Grp.prems(2) m(2) by auto
  then show ?case by (simp add: st)
next
  case (Look r)
  then obtain st1 where "matches r st st1" "st' = st" by auto
  with Look.IH [of st st1 Some] Look.prems(2) show ?case by (auto split: option.splits)
next
  case (Chr P)
  then show ?case by (cases st) auto
next
  case Bol
  then show ?case by (cases st) auto
next
  case Eol
  then show ?case by (cases st) (auto split: list.splits)
next
  case Eot
  then show ?case by (cases st) (auto split: list.splits)
qed simp

text \<open>Running finds a match exactly where there is one; searching finds the leftmost.\<close>

lemma run_None_iff: "run r st Some = None \<longleftrightarrow> (\<forall>st'. \<not> matches r st st')"
  using run_complete [of r st _ Some] run_sound [of r st Some] by (cases "run r st Some") auto

lemma run_Some_matches: "run r st Some = Some st' \<Longrightarrow> matches r st st'"
  using run_sound [of r st Some] by auto

definition before :: "char option \<Rightarrow> string \<Rightarrow> nat \<Rightarrow> char option" where
  "before p s n = (if n = 0 then p else Some (s ! (n - 1)))"

lemma before_Cons: "before (Some c) s n = before p (c # s) (Suc n)"
  by (cases n) (simp_all add: before_def)

lemma search_at_leftmost:
  "case search_at r p s of
     None \<Rightarrow> \<forall>m \<le> length s. \<forall>st'. \<not> matches r (before p s m, drop m s, []) st'
   | Some (a, st) \<Rightarrow> \<exists>n \<le> length s. a = drop n s \<and> matches r (before p s n, a, []) st \<and>
       (\<forall>m < n. \<forall>st'. \<not> matches r (before p s m, drop m s, []) st')"
proof (induction s arbitrary: p)
  case Nil
  show ?case
  proof (cases "run r (p, [], []) Some")
    case None
    moreover from this have "\<not> matches r (p, [], []) st'" for st' using run_None_iff by blast
    ultimately show ?thesis by (simp add: before_def)
  next
    case (Some st)
    then show ?thesis using run_Some_matches by (simp add: before_def)
  qed
next
  case (Cons c s)
  show ?case
  proof (cases "run r (p, c # s, []) Some")
    case (Some st)
    then show ?thesis by (auto simp: before_def dest!: run_Some_matches intro!: exI [of _ 0])
  next
    case None
    then have here: "\<not> matches r (before p (c # s) 0, drop 0 (c # s), []) st'" for st'
      using run_None_iff [of r "(p, c # s, [])"] by (simp add: before_def del: split_paired_All)
    show ?thesis
    proof (cases "search_at r (Some c) s")
      case none: None
      have "\<not> matches r (before p (c # s) m, drop m (c # s), []) st'" if "m \<le> length (c # s)" for m st'
        using here Cons.IH [of "Some c"] none that
        by (cases m) (simp_all add: before_Cons [of c s _ p] del: split_paired_All)
      with None none show ?thesis by simp
    next
      case (Some x)
      obtain a st where x: "x = (a, st)" by (cases x)
      from Cons.IH [of "Some c"] Some x obtain n where n: "n \<le> length s" "a = drop n s" "matches r (before (Some c) s n, a, []) st"
        "\<And>m st'. m < n \<Longrightarrow> \<not> matches r (before (Some c) s m, drop m s, []) st'" by auto
      have "\<not> matches r (before p (c # s) m, drop m (c # s), []) st'" if "m < Suc n" for m st'
        using here n(4) that by (cases m) (simp_all add: before_Cons [of c s _ p])
      with None Some x n(1-3) show ?thesis by (auto simp: before_Cons [of c s _ p] intro!: exI [of _ "Suc n"])
    qed
  qed
qed

lemma search_None_iff: "search r s = None \<longleftrightarrow> (\<forall>m \<le> length s. \<forall>st'. \<not> matches r (before None s m, drop m s, []) st')"
  using search_at_leftmost [where r = r and p = None and s = s] unfolding search_def by (cases "search_at r None s") auto

lemma search_leftmost:
  assumes "search r s = Some (a, st)"
  obtains n where "n \<le> length s" "a = drop n s" "matches r (before None s n, a, []) st"
    "\<And>m st'. m < n \<Longrightarrow> \<not> matches r (before None s m, drop m s, []) st'"
  using search_at_leftmost [where r = r and p = None and s = s] assms unfolding search_def by auto

end
