(* ===== verification/Parsers.thy ===== *)
theory Parsers
  imports Regex ChatFormat
begin

text \<open>
  What the report parsers share (writing expressions, reading matches) and the parsers of power and
  utilization reports (\<open>parsers/power.py\<close>, \<open>parsers/utilization.py\<close>), with their expressions as terms of \<open>Regex\<close>. Letters are compared as \<open>IGNORECASE\<close>
  does where the code sets it.
\<close>

section \<open>Writing expressions\<close>

definition cats :: "regex list \<Rightarrow> regex" where "cats rs = foldr Cat rs Eps"

fun alts :: "regex list \<Rightarrow> regex" where
  "alts [] = Chr (\<lambda>c. False)"
| "alts [r] = r"
| "alts (r # rs) = Alt r (alts rs)"

definition lit :: "string \<Rightarrow> regex" where "lit s = cats (map (\<lambda>c. Chr (\<lambda>x. x = c)) s)"
definition ilit :: "string \<Rightarrow> regex" where "ilit s = cats (map (\<lambda>c. Chr (\<lambda>x. lower_char x = lower_char c)) s)"

definition star :: "regex \<Rightarrow> regex" where "star r = Star True r"
definition plus :: "regex \<Rightarrow> regex" where "plus r = Cat r (Star True r)"
definition lazy_plus :: "regex \<Rightarrow> regex" where "lazy_plus r = Cat r (Star False r)"
definition opt :: "regex \<Rightarrow> regex" where "opt r = Alt r Eps"

definition word_char :: "char \<Rightarrow> bool" where
  "word_char c \<longleftrightarrow>
     (let n = code c in (48 \<le> n \<and> n \<le> 57) \<or> (65 \<le> n \<and> n \<le> 90) \<or> (97 \<le> n \<and> n \<le> 122) \<or> n = 95 \<or>
        n \<in> {0xAA, 0xB2, 0xB3, 0xB5, 0xB9, 0xBA, 0xBC, 0xBD, 0xBE} \<or> (0xC0 \<le> n \<and> n \<noteq> 0xD7 \<and> n \<noteq> 0xF7))"

definition dig :: regex where "dig = Chr is_digit"
definition sp :: regex where "sp = Chr is_space"
definition non_sp :: regex where "non_sp = Chr (\<lambda>c. \<not> is_space c)"
definition any_in_line :: regex where "any_in_line = Chr (\<lambda>c. c \<noteq> newline)"
definition any_char :: regex where "any_char = Chr (\<lambda>c. True)"
definition one_of :: "string \<Rightarrow> regex" where "one_of cs = Chr (\<lambda>c. c \<in> set cs)"
definition sps :: regex where "sps = plus sp"
definition gap :: regex where "gap = star sp"
definition digits :: regex where "digits = plus dig"

text \<open>\<open>[\d.]+\<close> and \<open>-?\d+\.\d+\<close>\<close>

definition dotted :: regex where "dotted = plus (Chr (\<lambda>c. is_digit c \<or> c = CHR ''.''))"
definition decimal :: regex where "decimal = cats [opt (lit ''-''), digits, lit ''.'', digits]"

text \<open>Words with space between them.\<close>

definition spaced :: "regex list \<Rightarrow> regex list" where
  "spaced rs = (case rs of [] \<Rightarrow> [] | r # rs \<Rightarrow> r # concat (map (\<lambda>x. [sps, x]) rs))"

definition words_re :: "string list \<Rightarrow> regex" where
  "words_re ws = cats (spaced (map ilit ws))"

section \<open>Reading matches\<close>

datatype parse_exc = ParseError string | BadNumber

text \<open>All matches, from the left; every expression here consumes something.\<close>

lemma search_at_length: "search_at r p s = Some (a, st) \<Longrightarrow> length a \<le> length s"
  by (induction s arbitrary: p) (auto split: option.splits intro: le_SucI)

function finditer_at :: "regex \<Rightarrow> char option \<Rightarrow> string \<Rightarrow> mtch list" where
  "finditer_at r p s =
     (case search_at r p s of
        None \<Rightarrow> []
      | Some (a, q, b, g) \<Rightarrow> (a, q, b, g) # (if length b < length s then finditer_at r q b else []))"
  by pat_completeness auto
termination
  by (relation "measure (\<lambda>(r, p, s). length s)") auto

declare finditer_at.simps [simp del]

definition finditer :: "regex \<Rightarrow> string \<Rightarrow> mtch list" where
  "finditer r s = finditer_at r None s"

definition to_float :: "string \<Rightarrow> (parse_exc, pyval) result" where
  "to_float s = (case float_of_str s of None \<Rightarrow> Inl BadNumber | Some f \<Rightarrow> Inr (PFloat f))"

definition to_int :: "string \<Rightarrow> (parse_exc, pyval) result" where
  "to_int s = (case int_of_str s of None \<Rightarrow> Inl BadNumber | Some n \<Rightarrow> Inr (PInt n))"

text \<open>A number of the first group, or \<open>None\<close> without a match.\<close>

definition float_or_none :: "mtch option \<Rightarrow> (parse_exc, pyval) result" where
  "float_or_none m = (case m of None \<Rightarrow> Inr PNone | Some m \<Rightarrow> to_float (grp 1 m))"

definition int_or_none :: "mtch option \<Rightarrow> (parse_exc, pyval) result" where
  "int_or_none m = (case m of None \<Rightarrow> Inr PNone | Some m \<Rightarrow> to_int (grp 1 m))"

fun results :: "(string \<times> (parse_exc, pyval) result) list \<Rightarrow> (parse_exc, pydict) result" where
  "results [] = Inr []"
| "results ((k, r) # rs) = ok_bind r (\<lambda>v. ok_bind (results rs) (\<lambda>d. Inr ((k, v) # d)))"

fun words_at :: "string \<Rightarrow> string \<Rightarrow> string list" where
  "words_at w [] = (if w = [] then [] else [w])"
| "words_at w (c # s) = (if is_space c then (if w = [] then [] else [w]) @ words_at [] s else words_at (w @ [c]) s)"

text \<open>\<open>s.split()\<close>\<close>

definition words :: "string \<Rightarrow> string list" where
  "words s = words_at [] s"

definition found_any :: "mtch option list \<Rightarrow> bool" where
  "found_any ms \<longleftrightarrow> list_ex (\<lambda>m. m \<noteq> None) ms"

definition or_parse_error :: "string \<Rightarrow> pydict list \<Rightarrow> (parse_exc, pydict list) result" where
  "or_parse_error msg rs = (if rs = [] then Inl (ParseError msg) else Inr rs)"

definition polygon :: "string \<Rightarrow> string \<Rightarrow> string \<Rightarrow> string \<Rightarrow> string" where
  "polygon x1 y1 x2 y2 =
     ''POLYGON(('' @ x1 @ '' '' @ y1 @ '', '' @ x2 @ '' '' @ y1 @ '', '' @ x2 @ '' '' @ y2 @ '', '' @ x1 @ '' '' @ y2 @ '', '' @
     x1 @ '' '' @ y1 @ ''))''"

section \<open>Power\<close>

definition power_number :: regex where
  "power_number = plus (Chr (\<lambda>c. is_digit c \<or> lower_char c = CHR ''e'' \<or> c \<in> set ''.+-''))"

definition power_row :: regex where
  "power_row = cats [Bol, Grp 1 (alts (map ilit [''Sequential'', ''Combinational'', ''Macro'', ''Pad'', ''Clock'', ''Total''])), sps,
     Grp 2 power_number, sps, Grp 3 power_number, sps, Grp 4 power_number, sps, Grp 5 power_number]"

definition unit_mw :: regex where
  "unit_mw = cats [lit ''('', gap, ilit ''mW'', gap, lit '')'']"

definition scaled :: "pyfloat \<Rightarrow> string \<Rightarrow> (parse_exc, pyval) result" where
  "scaled scale s = (case float_of_str s of None \<Rightarrow> Inl BadNumber | Some f \<Rightarrow> Inr (PFloat (fmul f scale)))"

definition power_columns :: "pyfloat \<Rightarrow> mtch \<Rightarrow> (parse_exc, pydict) result" where
  "power_columns scale m = results
     [(''internal_power_w'', scaled scale (grp 2 m)), (''switching_power_w'', scaled scale (grp 3 m)),
      (''leakage_power_w'', scaled scale (grp 4 m)), (''total_power_w'', scaled scale (grp 5 m))]"

definition is_total :: "mtch \<Rightarrow> bool" where
  "is_total m \<longleftrightarrow> py_lower (grp 1 m) = ''total''"

definition power_summary :: "pyfloat \<Rightarrow> mtch list \<Rightarrow> (parse_exc, pydict list) result" where
  "power_summary scale ms =
     (case find is_total ms of None \<Rightarrow> Inr []
      | Some m \<Rightarrow> ok_bind (power_columns scale m) (\<lambda>d. Inr [(''kind'', PStr ''summary'') # d]))"

definition power_groups :: "pyfloat \<Rightarrow> mtch list \<Rightarrow> (parse_exc, pydict list) result" where
  "power_groups scale ms = ok_map (\<lambda>m. ok_bind (power_columns scale m) (\<lambda>d.
       Inr ((''kind'', PStr ''power_group'') # (''group_name'', PStr (py_lower (grp 1 m))) # d)))
     (filter (\<lambda>m. \<not> is_total m) ms)"

definition parse_power :: "string \<Rightarrow> (parse_exc, pydict list) result" where
  "parse_power s =
     (let scale = (if search unit_mw s \<noteq> None then f64 (1 / 1000) else Fin 1); ms = finditer power_row s
      in ok_bind (power_summary scale ms) (\<lambda>a. ok_bind (power_groups scale ms) (\<lambda>b.
           or_parse_error ''No power data found in report text.'' (a @ b))))"

section \<open>Utilization\<close>

definition design_area :: regex where
  "design_area = cats [words_re [''Design'', ''area''], sps, Grp 1 dotted, sps, ilit ''u^2'', sps, Grp 2 dotted, lit ''%'', sps, ilit ''utilization'']"

definition yosys_area :: regex where
  "yosys_area = cats [words_re [''Chip'', ''area'', ''for''], sps, Alt (ilit ''module'') (words_re [''top'', ''module'']),
     star (Chr (\<lambda>c. c \<noteq> CHR '':'')), lit '':'', gap, Grp 1 dotted]"

definition colon_gap :: regex where "colon_gap = plus (Chr (\<lambda>c. c = CHR '':'' \<or> is_space c))"
definition counted :: regex where "counted = plus (Chr (\<lambda>c. is_digit c \<or> c = CHR '',''))"

definition num_cells :: regex where
  "num_cells = cats [words_re [''Number'', ''of'', ''cells''], colon_gap, Grp 1 counted]"

definition num_regs :: regex where
  "num_regs = cats [words_re [''Number'', ''of''], sps, Alt (cats [ilit ''register'', opt (ilit ''s'')]) (cats [ilit ''flop'', opt (ilit ''s'')]),
     colon_gap, Grp 1 counted]"

definition cell_type_row :: regex where
  "cell_type_row = cats [Bol, sps, Grp 1 (Alt (cats [lit ''$'', plus (Chr word_char)]) (plus (Chr word_char))), sps, Grp 2 digits, gap, Eol]"

definition innovus_top_row :: regex where
  "innovus_top_row = cats [Bol, lit ''0'', sps, plus non_sp, sps, Grp 1 digits, sps, Grp 2 dotted, gap, Eol]"

definition without_commas :: "mtch option \<Rightarrow> (parse_exc, pyval) result" where
  "without_commas m = (case m of None \<Rightarrow> Inr PNone | Some m \<Rightarrow> to_int (filter (\<lambda>c. c \<noteq> CHR '','') (grp 1 m)))"

definition utilization_summary :: "string \<Rightarrow> (parse_exc, pydict list) result" where
  "utilization_summary s =
     (let da = search design_area s; ya = search yosys_area s; top_m = search innovus_top_row s;
          cells = search num_cells s; regs = search num_regs s;
          area = (case da of Some m \<Rightarrow> to_float (grp 1 m)
            | None \<Rightarrow> (case ya of Some m \<Rightarrow> to_float (grp 1 m)
                | None \<Rightarrow> (case top_m of Some m \<Rightarrow> to_float (grp 2 m) | None \<Rightarrow> Inr PNone)));
          util = (case da of Some m \<Rightarrow> to_float (grp 2 m) | None \<Rightarrow> Inr PNone)
      in if \<not> found_any [da, ya, top_m, cells, regs] then Inr []
         else ok_bind (results [(''kind'', Inr (PStr ''summary'')), (''design_area_um2'', area), (''utilization_pct'', util),
           (''num_cells'', without_commas (if cells \<noteq> None then cells else top_m)), (''num_registers'', without_commas regs)]) (\<lambda>d. Inr [d]))"

definition cell_types :: "string \<Rightarrow> (parse_exc, pydict list) result" where
  "cell_types s = ok_map (\<lambda>m. results [(''kind'', Inr (PStr ''cell_type'')), (''cell_type'', Inr (PStr (grp 1 m))), (''count'', to_int (grp 2 m))])
     (finditer cell_type_row s)"

definition parse_utilization :: "string \<Rightarrow> (parse_exc, pydict list) result" where
  "parse_utilization s = ok_bind (utilization_summary s) (\<lambda>a. ok_bind (cell_types s) (\<lambda>b.
     or_parse_error ''No utilization data found in report text.'' (a @ b)))"

end
