(* ===== verification/FlowParsers.thy ===== *)
theory FlowParsers
  imports Parsers
begin

text \<open>
  The parsers of timing, design rule and congestion reports of OpenROAD (\<open>parsers/timing.py\<close>,
  \<open>parsers/drc.py\<close>, \<open>parsers/congestion.py\<close>).
\<close>

section \<open>Timing\<close>

definition keyed_decimal :: "regex list \<Rightarrow> regex" where
  "keyed_decimal ws = cats (Bol # ws @ [sps, Grp 1 decimal])"

definition max_word :: regex where "max_word = opt (cats [sps, ilit ''max''])"

definition summary_wns :: regex where "summary_wns = keyed_decimal [ilit ''wns'', max_word]"
definition summary_tns :: regex where "summary_tns = keyed_decimal [ilit ''tns'', max_word]"
definition worst_slack :: regex where "worst_slack = keyed_decimal [words_re [''worst'', ''slack''], max_word]"
definition innovus_slack :: regex where "innovus_slack = keyed_decimal [lit ''='', sps, words_re [''Slack'', ''Time'']]"

definition summary_fep :: regex where
  "summary_fep = cats [Bol, Alt (words_re [''violating'', ''paths'']) (words_re [''failing'', ''paths'']), sps, Grp 1 digits]"

definition summary_view :: regex where
  "summary_view = cats [Bol, alts [ilit ''view'', ilit ''corner'', words_re [''analysis'', ''view'']],
     plus (Chr (\<lambda>c. c \<in> set '':='' \<or> is_space c)), Grp 1 (plus non_sp)]"

definition fmax_re :: regex where
  "fmax_re = cats [ilit ''fmax'', gap, lit ''='', gap, Grp 1 dotted]"

definition clock_skew :: regex where
  "clock_skew = cats [words_re [''setup'', ''skew''], gap, opt (one_of [CHR ''-'', CHR 0x96]), gap, Grp 1 dotted]"

definition vio_count :: "regex list \<Rightarrow> regex" where
  "vio_count ws = cats (ws @ [sps, words_re [''violation'', ''count''], sps, Grp 1 digits])"

definition slew_vio :: regex where "slew_vio = vio_count [words_re [''max'', ''slew'']]"
definition fanout_vio :: regex where "fanout_vio = vio_count [words_re [''max'', ''fanout'']]"
definition cap_vio :: regex where "cap_vio = vio_count [words_re [''max'', ''cap''], opt (ilit ''acitance'')]"
definition setup_vio :: regex where "setup_vio = vio_count [ilit ''setup'']"
definition hold_vio :: regex where "hold_vio = vio_count [ilit ''hold'']"

definition next_line_number :: "regex list \<Rightarrow> regex" where
  "next_line_number ws = cats (ws @ [gap, Chr (\<lambda>c. c = newline), gap, Grp 1 dotted])"

definition path_delay :: regex where "path_delay = next_line_number [Bol, words_re [''critical'', ''path'', ''delay'']]"
definition slack_ratio :: regex where "slack_ratio = next_line_number [words_re [''slack'', ''div'', ''critical'', ''path'', ''delay'']]"

definition timing_summary :: "string \<Rightarrow> (parse_exc, pydict list) result" where
  "timing_summary s =
     (let w = search summary_wns s; ws = search worst_slack s; iv = search innovus_slack s; view = search summary_view s;
          wns = (if w \<noteq> None then w else if ws \<noteq> None then ws else iv)
      in if \<not> found_any (wns # map (\<lambda>r. search r s) [summary_tns, summary_fep, fmax_re, clock_skew, slew_vio, fanout_vio,
             cap_vio, setup_vio, hold_vio, path_delay, slack_ratio]) then Inr []
         else ok_bind (results
           [(''kind'', Inr (PStr ''summary'')), (''view'', Inr (PStr (case view of None \<Rightarrow> ''default'' | Some m \<Rightarrow> grp 1 m))),
            (''wns_ns'', float_or_none wns), (''tns_ns'', float_or_none (search summary_tns s)),
            (''failing_endpoints'', int_or_none (search summary_fep s)), (''fmax_mhz'', float_or_none (search fmax_re s)),
            (''clock_skew_ns'', float_or_none (search clock_skew s)), (''max_slew_violations'', int_or_none (search slew_vio s)),
            (''max_fanout_violations'', int_or_none (search fanout_vio s)), (''max_cap_violations'', int_or_none (search cap_vio s)),
            (''setup_violations'', int_or_none (search setup_vio s)), (''hold_violations'', int_or_none (search hold_vio s)),
            (''critical_path_delay_ns'', float_or_none (search path_delay s)), (''slack_cpd_ratio_pct'', float_or_none (search slack_ratio s))])
           (\<lambda>d. Inr [d]))"

text \<open>\<open>^Startpoint:\s+(.+?)(?:\s+\(|$)$\<close> and its likes\<close>

definition named_point :: "string \<Rightarrow> regex" where
  "named_point key = cats [Bol, ilit key, sps, Grp 1 (lazy_plus any_in_line), Alt (cats [sps, lit ''('']) Eol, Eol]"

definition path_startpoint :: regex where "path_startpoint = named_point ''Startpoint:''"
definition path_beginpoint :: regex where "path_beginpoint = named_point ''Beginpoint:''"
definition path_endpoint :: regex where "path_endpoint = named_point ''Endpoint:''"

definition path_group :: regex where
  "path_group = cats [Bol, words_re [''Path'', ''Group:''], sps, Grp 1 (plus any_in_line), Eol]"

definition path_groups :: regex where
  "path_groups = cats [Bol, words_re [''Path'', ''Groups:''], sps, opt (lit ''{''), Grp 1 (lazy_plus any_in_line), opt (lit ''}''), Eol]"

definition met_or_violated :: regex where
  "met_or_violated = cats [lit ''('', Alt (ilit ''MET'') (ilit ''VIOLATED''), lit '')'']"

definition path_slack :: regex where
  "path_slack = alts
     [cats [Bol, gap, decimal, sps, ilit ''slack'', sps, met_or_violated],
      cats [ilit ''slack'', sps, met_or_violated, sps, decimal],
      cats [ilit ''slack'', sps, met_or_violated, sps, Chr (\<lambda>c. c = newline), gap, decimal]]"

definition slack_fallback :: regex where
  "slack_fallback = Alt (cats [Grp 1 decimal, sps, ilit ''slack'']) (cats [ilit ''slack'', sps, met_or_violated, sps, Grp 2 decimal])"

text \<open>The slack of a section: \<open>PNone\<close> where none is found.\<close>

definition section_slack :: "string \<Rightarrow> (parse_exc, pyval) result" where
  "section_slack s =
     (case search path_slack s of
        Some m \<Rightarrow> (case finditer decimal (grp 0 m) of [] \<Rightarrow> Inr PNone | v # vs \<Rightarrow> to_float (grp 0 v))
      | None \<Rightarrow>
          (case search slack_fallback s of
             None \<Rightarrow> Inr PNone
           | Some m \<Rightarrow> let raw = (if grp 1 m \<noteq> [] then grp 1 m else grp 2 m) in if raw = [] then Inr PNone else to_float raw))"

definition section_path :: "mtch \<Rightarrow> string \<Rightarrow> (parse_exc, pydict list) result" where
  "section_path start s =
     (case search path_endpoint s of
        None \<Rightarrow> Inr []
      | Some e \<Rightarrow>
          let g = (case search path_group s of Some m \<Rightarrow> Some m | None \<Rightarrow> search path_groups s)
          in ok_bind (section_slack s) (\<lambda>slack.
               Inr (if slack = PNone then []
                    else [[(''kind'', PStr ''path''), (''startpoint'', PStr (py_strip (grp 1 start))), (''endpoint'', PStr (py_strip (grp 1 e))),
                      (''path_group'', case g of None \<Rightarrow> PNone | Some m \<Rightarrow> PStr (py_strip (grp 1 m))), (''slack_ns'', slack)]])))"

text \<open>A section reaches from one start to the next.\<close>

fun section_paths :: "mtch list \<Rightarrow> (parse_exc, pydict list) result" where
  "section_paths [] = Inr []"
| "section_paths (m # ms) =
     ok_bind (section_path m (case ms of [] \<Rightarrow> fst m | n # _ \<Rightarrow> upto_text (fst m) (fst n))) (\<lambda>p.
     ok_bind (section_paths ms) (\<lambda>ps. Inr (p @ ps)))"

definition timing_paths :: "string \<Rightarrow> (parse_exc, pydict list) result" where
  "timing_paths s =
     section_paths (let ms = finditer path_startpoint s in if ms \<noteq> [] then ms else finditer path_beginpoint s)"

definition parse_timing :: "string \<Rightarrow> (parse_exc, pydict list) result" where
  "parse_timing s = ok_bind (timing_summary s) (\<lambda>a. ok_bind (timing_paths s) (\<lambda>b.
     or_parse_error ''No timing data found in report text.'' (a @ b)))"

section \<open>Design rules\<close>

definition drc_count :: regex where
  "drc_count = cats [Grp 1 digits, sps, ilit ''violation'', opt (ilit ''s''), sps, ilit ''found'']"

definition drc_header :: regex where
  "drc_header = cats [words_re [''violation'', ''type''], gap, lit '':'']"

definition drc_type :: regex where
  "drc_type = cats [Bol, drc_header, gap, Grp 1 (plus any_in_line), Eol]"

definition drc_srcs :: regex where
  "drc_srcs = cats [ilit ''srcs'', gap, lit '':'', gap, Grp 1 (lazy_plus any_char),
     Look (alts [cats [Chr (\<lambda>c. c = newline), ilit ''bbox''], cats [Chr (\<lambda>c. c = newline), ilit ''comment''],
       cats [Chr (\<lambda>c. c = newline), ilit ''violation''], Eot])]"

definition bbox_re :: regex where
  "bbox_re = cats [ilit ''bbox'', gap, lit ''='', gap, lit ''('', gap, Grp 1 dotted, gap, lit '','', gap, Grp 2 dotted, gap, lit '')'', gap,
     lit ''-'', gap, lit ''('', gap, Grp 3 dotted, gap, lit '','', gap, Grp 4 dotted, gap, lit '')'']"

definition on_layer :: regex where
  "on_layer = cats [words_re [''on'', ''Layer''], sps, Grp 1 (plus non_sp)]"

definition drc_category :: "string list \<Rightarrow> regex" where
  "drc_category names = cats [Bol, gap, Grp 1 (alts (map ilit names)), gap, lit '':'', gap, Grp 2 digits]"

definition no_drc :: regex where
  "no_drc = words_re [''No'', ''DRC'', ''violations'', ''were'', ''found'']"

definition sum_ints :: "pyval list \<Rightarrow> int" where
  "sum_ints vs = sum_list (map (\<lambda>v. case v of PInt n \<Rightarrow> n | _ \<Rightarrow> 0) vs)"

definition drc_summary :: "string \<Rightarrow> (parse_exc, pydict list) result" where
  "drc_summary s =
     (let found = (\<lambda>n. [[(''kind'', PStr ''summary''), (''total_violations'', n)]]) in
      case search drc_count s of
        Some m \<Rightarrow> ok_bind (to_int (grp 1 m)) (\<lambda>n. Inr (found n))
      | None \<Rightarrow>
          (case finditer (drc_category [''Cells'', ''SameNet'', ''Wiring'', ''Antenna'', ''Short'', ''Overlap'']) s of
             r # rs \<Rightarrow> ok_bind (ok_map (\<lambda>m. to_int (grp 2 m)) (r # rs)) (\<lambda>ns. Inr (found (PInt (sum_ints ns))))
           | [] \<Rightarrow> Inr (if search no_drc s \<noteq> None then found (PInt 0) else [])))"

text \<open>\<open>re.split\<close> in front of every header.\<close>

fun split_before :: "regex \<Rightarrow> char option \<Rightarrow> string \<Rightarrow> string \<Rightarrow> string list" where
  "split_before r p w [] = [w]"
| "split_before r p w (c # s) =
     (if run r (p, c # s, []) Some \<noteq> None then w # split_before r (Some c) [c] s else split_before r (Some c) (w @ [c]) s)"

definition corners :: "mtch option \<Rightarrow> (parse_exc, pyval list) result" where
  "corners m = (case m of None \<Rightarrow> Inr [] | Some m \<Rightarrow> ok_map (\<lambda>n. to_float (grp n m)) [1, 2, 3, 4])"

definition corner_polygon :: "pyval list \<Rightarrow> pyval" where
  "corner_polygon cs = (case map py_str cs of
     [x1, y1, x2, y2] \<Rightarrow> PStr (polygon x1 y1 x2 y2) | _ \<Rightarrow> PNone)"

definition source_nets :: "mtch option \<Rightarrow> pyval" where
  "source_nets m = PList (map PStr (take 20 (case m of None \<Rightarrow> [] | Some m \<Rightarrow> words (grp 1 m))))"

definition first_group :: "mtch option \<Rightarrow> pyval" where
  "first_group m = (case m of None \<Rightarrow> PNone | Some m \<Rightarrow> PStr (grp 1 m))"

definition drc_violation :: "string \<Rightarrow> (parse_exc, pydict list) result" where
  "drc_violation s =
     (case search drc_type s of
        None \<Rightarrow> Inr []
      | Some t \<Rightarrow> ok_bind (corners (search bbox_re s)) (\<lambda>cs.
          Inr [[(''kind'', PStr ''drc_violation''), (''violation_type'', PStr (py_strip (grp 1 t))), (''nets'', source_nets (search drc_srcs s)),
            (''layer'', first_group (search on_layer s)), (''bbox_wkt'', corner_polygon cs)]]))"

definition parse_drc :: "string \<Rightarrow> (parse_exc, pydict list) result" where
  "parse_drc s = ok_bind (drc_summary s) (\<lambda>a. ok_bind (ok_map drc_violation (split_before drc_header None [] s)) (\<lambda>bs.
     or_parse_error ''No DRC data found in report text.'' (a @ concat bs)))"

section \<open>Congestion\<close>

definition layer_row :: regex where
  "layer_row = cats [Bol, Grp 1 (Alt (cats [ilit ''metal'', plus (Chr word_char)]) (cats [ilit ''M'', digits])), sps,
     Grp 2 (Alt (ilit ''H'') (ilit ''V'')), sps, Grp 3 digits, sps, Grp 4 dotted, sps, Grp 5 digits, sps, Grp 6 digits]"

definition total_overflow :: regex where
  "total_overflow = cats [words_re [''total'', ''overflow''], colon_gap, Grp 1 digits]"

definition comma_gap :: regex where "comma_gap = plus (Chr (\<lambda>c. c = CHR '','' \<or> is_space c))"

definition worst_tile :: regex where
  "worst_tile = cats [words_re [''worst'', ''congestion'', ''tile''], colon_gap, lit ''('', Grp 1 digits, comma_gap, Grp 2 digits, lit '')'', sps,
     ilit ''to'', sps, lit ''('', Grp 3 digits, comma_gap, Grp 4 digits, lit '')'', Star False any_in_line, ilit ''overflow='', Grp 5 digits]"

definition grt_simple :: regex where
  "grt_simple = cats [words_re [''H'', ''overflow''], sps, Grp 1 digits, sps, words_re [''V'', ''overflow''], sps, Grp 2 digits]"

definition util_value :: "regex \<Rightarrow> regex" where
  "util_value r = cats [r, sps, opt (cats [ilit ''routing'', sps]), ilit ''utilization'', colon_gap, Grp 1 dotted, opt (lit ''%'')]"

definition util_avg :: regex where "util_avg = util_value (ilit ''average'')"
definition util_max :: regex where "util_max = util_value (cats [ilit ''max'', opt (ilit ''imum'')])"

definition congestion_summary :: "string \<Rightarrow> (parse_exc, pydict list) result" where
  "congestion_summary s =
     (let tot = search total_overflow s; grt = search grt_simple s; av = search util_avg s; mx = search util_max s;
          second = (case grt of None \<Rightarrow> Inr PNone | Some m \<Rightarrow> to_int (grp 2 m))
      in if \<not> found_any [tot, grt, av, mx] then Inr []
         else ok_bind (int_or_none grt) (\<lambda>h. ok_bind second (\<lambda>v.
           ok_bind (results [(''kind'', Inr (PStr ''summary'')),
             (''total_overflow'', case tot of Some m \<Rightarrow> to_int (grp 1 m) | None \<Rightarrow> Inr (if h = PNone then PNone else PInt (sum_ints [h, v]))),
             (''h_overflow'', Inr h), (''v_overflow'', Inr v), (''avg_utilization_pct'', float_or_none av), (''max_utilization_pct'', float_or_none mx)])
           (\<lambda>d. Inr [d]))))"

definition tile_hotspot :: "mtch \<Rightarrow> (parse_exc, pydict) result" where
  "tile_hotspot m = results
     [(''kind'', Inr (PStr ''hotspot'')),
      (''wkt'', ok_bind (ok_map (\<lambda>n. to_int (grp n m)) [1, 2, 3, 4]) (\<lambda>cs. Inr (corner_polygon cs))),
      (''x1'', to_int (grp 1 m)), (''y1'', to_int (grp 2 m)), (''x2'', to_int (grp 3 m)), (''y2'', to_int (grp 4 m)), (''overflow'', to_int (grp 5 m))]"

definition upper_char :: "char \<Rightarrow> char" where
  "upper_char c = (if 97 \<le> code c \<and> code c \<le> 122 then char_of (code c - 32) else c)"

definition layer_stats :: "mtch \<Rightarrow> (parse_exc, pydict) result" where
  "layer_stats m = results
     [(''kind'', Inr (PStr ''layer'')), (''layer'', Inr (PStr (grp 1 m))), (''direction'', Inr (PStr (map upper_char (grp 2 m)))),
      (''overflow'', to_int (grp 3 m)), (''utilization'', to_float (grp 4 m)), (''used_tracks'', to_int (grp 5 m)),
      (''available_tracks'', to_int (grp 6 m))]"

definition violation_type_re :: regex where
  "violation_type_re = cats [words_re [''violation'', ''type''], colon_gap, Grp 1 (Alt (ilit ''horizontal'') (ilit ''vertical'')), sps, ilit ''congestion'']"

definition violation_srcs :: regex where
  "violation_srcs = cats [lit ''srcs'', colon_gap, Grp 1 (lazy_plus any_in_line),
     Look (cats [Chr (\<lambda>c. c = newline), gap, alts [lit ''bbox'', lit ''comment'', lit ''violation'', Eol]])]"

definition violation_comment :: regex where
  "violation_comment = cats [ilit ''comment'', colon_gap, ilit ''capacity:'', Grp 1 digits, sps, ilit ''usage:'', Grp 2 digits, sps,
     ilit ''overflow:'', Grp 3 digits]"

fun pieces :: "nat \<Rightarrow> string \<Rightarrow> string \<Rightarrow> string list" where
  "pieces 0 sep s = [s]"
| "pieces (Suc n) sep s = (case split_sub sep s of None \<Rightarrow> [s] | Some (a, b) \<Rightarrow> a # pieces n sep b)"

definition comment_int :: "nat \<Rightarrow> mtch option \<Rightarrow> (parse_exc, pyval) result" where
  "comment_int n m = (case m of None \<Rightarrow> Inr PNone | Some m \<Rightarrow> to_int (grp n m))"

text \<open>\<open>all([x1, y1, x2, y2])\<close> on the numbers themselves.\<close>

definition truthy_polygon :: "pyval list \<Rightarrow> pyval" where
  "truthy_polygon cs = (if list_all py_truthy cs then corner_polygon cs else PNone)"

definition orfs_violation :: "string \<Rightarrow> (parse_exc, pydict list) result" where
  "orfs_violation b =
     (case search violation_type_re b of
        None \<Rightarrow> Inr []
      | Some t \<Rightarrow> (let c = search violation_comment b in
          ok_bind (corners (search bbox_re b)) (\<lambda>cs.
          ok_bind (results [(''kind'', Inr (PStr ''orfs_violation'')), (''direction'', Inr (PStr (map upper_char (grp 1 t)))),
            (''capacity'', comment_int 1 c), (''usage'', comment_int 2 c), (''overflow'', comment_int 3 c),
            (''nets'', Inr (source_nets (search violation_srcs b))), (''wkt'', Inr (truthy_polygon cs)),
            (''layer'', Inr (first_group (search on_layer b)))]) (\<lambda>d. Inr [d]))))"

definition orfs_violations :: "string \<Rightarrow> (parse_exc, pydict list) result" where
  "orfs_violations s =
     (let sep = ''violation type:''
      in ok_bind (ok_map (\<lambda>b. orfs_violation (sep @ b)) (tl (pieces (length s) sep s))) (\<lambda>rs. Inr (concat rs)))"

definition parse_congestion :: "string \<Rightarrow> (parse_exc, pydict list) result" where
  "parse_congestion s =
     ok_bind (congestion_summary s) (\<lambda>a.
     ok_bind (ok_map tile_hotspot (finditer worst_tile s)) (\<lambda>b.
     ok_bind (ok_map layer_stats (finditer layer_row s)) (\<lambda>c.
     ok_bind (orfs_violations s) (\<lambda>d.
       or_parse_error ''No congestion data found in report text.'' (a @ b @ c @ d)))))"

end
