(* ===== verification/InnovusParsers.thy ===== *)
theory InnovusParsers
  imports FlowParsers
begin

text \<open>
  The parsers of Innovus reports (\<open>parsers/innovus_timing.py\<close>, \<open>innovus_utilization.py\<close>,
  \<open>innovus_congestion.py\<close>, \<open>innovus_congestion_map.py\<close>, \<open>innovus_drc.py\<close>, \<open>innovus_power.py\<close>) and the
  registry of \<open>parsers/__init__.py\<close>. \<open>summation\<close> is the built-in \<open>sum\<close> over floats.
\<close>

section \<open>Timing\<close>

definition path_header :: regex where
  "path_header = cats [Bol, lit ''Path'', sps, digits, lit '':'']"

definition slack_line :: regex where
  "slack_line = cats [Chr (\<lambda>c. c = CHR ''='' \<or> is_space c), gap, words_re [''Slack'', ''Time''], sps,
     Grp 1 (cats [opt (lit ''-''), digits, opt (cats [lit ''.'', digits])])]"

definition loose_point :: "string \<Rightarrow> regex" where
  "loose_point key = cats [Bol, ilit key, sps, Grp 1 (lazy_plus any_in_line), Alt (cats [sps, lit ''('']) Eol]"

definition innovus_begin :: regex where "innovus_begin = loose_point ''Beginpoint:''"
definition innovus_end :: regex where "innovus_end = loose_point ''Endpoint:''"

definition innovus_groups :: regex where
  "innovus_groups = cats [Bol, words_re [''Path'', ''Groups:''], sps, opt (lit ''{''), Grp 1 (lazy_plus any_in_line), opt (lit ''}''), gap, Eol]"

definition innovus_view :: regex where
  "innovus_view = cats [Bol, words_re [''Analysis'', ''View:''], sps, Grp 1 (plus non_sp)]"

fun split_paths :: "mtch list \<Rightarrow> string list" where
  "split_paths [] = []"
| "split_paths (m # ms) = (case ms of [] \<Rightarrow> fst m | n # _ \<Rightarrow> upto_text (fst m) (fst n)) # split_paths ms"

definition stripped_group :: "mtch option \<Rightarrow> pyval" where
  "stripped_group m = (case m of None \<Rightarrow> PNone | Some m \<Rightarrow> PStr (py_strip (grp 1 m)))"

text \<open>The slack of a block with its record; \<open>None\<close> for a block without one.\<close>

definition path_block :: "string \<Rightarrow> string \<Rightarrow> (parse_exc, (pyfloat \<times> pydict) option) result" where
  "path_block view b =
     (case search slack_line b of
        None \<Rightarrow> Inr None
      | Some m \<Rightarrow> (case float_of_str (grp 1 m) of
            None \<Rightarrow> Inl BadNumber
          | Some f \<Rightarrow> Inr (Some (f,
              [(''kind'', PStr ''path''), (''startpoint'', stripped_group (search innovus_begin b)), (''endpoint'', stripped_group (search innovus_end b)),
               (''path_group'', stripped_group (search innovus_groups b)),
               (''view'', PStr (case search innovus_view b of None \<Rightarrow> view | Some v \<Rightarrow> grp 1 v)),
               (''slack_ns'', PFloat f), (''violated'', PBool (flt f (Fin 0)))]))))"

definition least_float :: "pyfloat list \<Rightarrow> pyfloat" where
  "least_float xs = foldl (\<lambda>m x. if flt x m then x else m) (hd xs) (tl xs)"

definition timing_record :: "(pyfloat list \<Rightarrow> pyfloat) \<Rightarrow> string \<Rightarrow> pyfloat list \<Rightarrow> pydict" where
  "timing_record summation view slacks =
     (let failing = filter (\<lambda>f. flt f (Fin 0)) slacks
      in [(''kind'', PStr ''summary''), (''view'', PStr view), (''wns_ns'', PFloat (least_float slacks)),
          (''tns_ns'', PFloat (if failing = [] then Fin 0 else summation failing)),
          (''failing_endpoints'', PInt (int (length failing))), (''total_paths'', PInt (int (length slacks)))])"

definition parse_innovus_timing :: "(pyfloat list \<Rightarrow> pyfloat) \<Rightarrow> string \<Rightarrow> (parse_exc, pydict list) result" where
  "parse_innovus_timing summation s =
     (let blocks = split_paths (finditer path_header s);
          view = (case search innovus_view s of None \<Rightarrow> ''default'' | Some m \<Rightarrow> grp 1 m)
      in if blocks = [] then Inl (ParseError ''No Innovus timing path data found in report text.'')
         else ok_bind (ok_map (path_block view) blocks) (\<lambda>os.
           let found = List.map_filter id os
           in if found = [] then Inl (ParseError ''No slack values found in Innovus timing report.'')
              else Inr (timing_record summation view (map fst found) # map snd found)))"

section \<open>Utilization and power\<close>

definition area_value :: "string list \<Rightarrow> regex" where
  "area_value ws = cats [words_re ws, gap, colon_gap, Grp 1 dotted]"

definition core_area :: regex where "core_area = area_value [''Core'', ''Area'']"
definition core_util :: regex where
  "core_util = cats [area_value [''Core'', ''Utilization''], gap, opt (lit ''%'')]"

text \<open>\<open>round(area / core * 100, 3)\<close>; \<open>None\<close> where the core area is not positive.\<close>

definition ratio_pct :: "pyfloat \<Rightarrow> pyfloat \<Rightarrow> pyval" where
  "ratio_pct area core =
     (if \<not> flt (Fin 0) core then PNone
      else case fdiv area core of None \<Rightarrow> PNone
        | Some x \<Rightarrow> PFloat (case fmul x (Fin 100) of Fin q \<Rightarrow> f64 (of_int (rhe (q * 1000)) / 1000) | f \<Rightarrow> f))"

definition derived_util :: "pyfloat \<Rightarrow> string \<Rightarrow> (parse_exc, pyval) result" where
  "derived_util area s =
     (case search core_util s of
        Some m \<Rightarrow> to_float (grp 1 m)
      | None \<Rightarrow> (case search core_area s of
            None \<Rightarrow> Inr PNone
          | Some m \<Rightarrow> (case float_of_str (grp 1 m) of None \<Rightarrow> Inl BadNumber | Some c \<Rightarrow> Inr (ratio_pct area c))))"

definition parse_innovus_utilization :: "string \<Rightarrow> (parse_exc, pydict list) result" where
  "parse_innovus_utilization s =
     (case search innovus_top_row s of
        None \<Rightarrow> Inl (ParseError ''No Innovus area summary found in report text.'')
      | Some m \<Rightarrow> ok_bind (to_int (grp 1 m)) (\<lambda>n.
          case float_of_str (grp 2 m) of
            None \<Rightarrow> Inl BadNumber
          | Some area \<Rightarrow> ok_bind (derived_util area s) (\<lambda>u.
              Inr [[(''kind'', PStr ''summary''), (''design_area_um2'', PFloat area), (''utilization_pct'', u),
                    (''num_cells'', n), (''num_registers'', PNone)]])))"

definition total_power :: "string list \<Rightarrow> regex" where
  "total_power ws = cats [words_re ws, gap, Grp 1 dotted]"

definition power_units :: regex where
  "power_units = cats [words_re [''Power'', ''Units''], gap, lit ''='', gap, ilit ''1mW'']"

definition scaled_or_none :: "pyfloat \<Rightarrow> mtch option \<Rightarrow> (parse_exc, pyval) result" where
  "scaled_or_none scale m = (case m of None \<Rightarrow> Inr PNone | Some m \<Rightarrow> scaled scale (grp 1 m))"

definition parse_innovus_power :: "string \<Rightarrow> (parse_exc, pydict list) result" where
  "parse_innovus_power s =
     (let find = (\<lambda>ws. search (total_power ws) s);
          i = find [''Total'', ''Internal'', ''Power:'']; w = find [''Total'', ''Switching'', ''Power:''];
          l = find [''Total'', ''Leakage'', ''Power:'']; t = find [''Total'', ''Power:''];
          scale = (if search power_units s \<noteq> None then f64 (1 / 1000) else Fin 1)
      in if \<not> found_any [i, w, l, t] then Inl (ParseError ''No Innovus power summary found in report text.'')
         else ok_bind (results [(''kind'', Inr (PStr ''summary'')), (''internal_power_w'', scaled_or_none scale i),
           (''switching_power_w'', scaled_or_none scale w), (''leakage_power_w'', scaled_or_none scale l),
           (''total_power_w'', scaled_or_none scale t)]) (\<lambda>d. Inr [d]))"

section \<open>Congestion\<close>

definition usage_re :: regex where
  "usage_re = cats [ilit ''Usage:'', sps, lit ''('', Grp 1 dotted, ilit ''%H'', sps, Grp 2 dotted, ilit ''%V'', lit '')'']"

definition overflow_total :: regex where
  "overflow_total = cats [ilit ''Overflow:'', sps, Grp 1 digits, gap, lit ''='', gap, Grp 2 digits, gap, lit ''('', Grp 3 dotted, lit ''%'', gap, ilit ''H'',
     lit '')'', gap, lit ''+'', gap, Grp 4 digits, gap, lit ''('', Grp 5 dotted, lit ''%'', gap, ilit ''V'', lit '')'']"

definition overflow_row :: regex where
  "overflow_row = cats [Bol, gap, lit ''-1:'', sps, Grp 1 digits, sps, Grp 2 dotted, lit ''%'', sps, Grp 3 digits, sps, Grp 4 dotted, lit ''%'']"

definition usage_columns :: "mtch option \<Rightarrow> (string \<times> (parse_exc, pyval) result) list" where
  "usage_columns m = (case m of None \<Rightarrow> []
     | Some m \<Rightarrow> [(''usage_h_pct'', to_float (grp 1 m)), (''usage_v_pct'', to_float (grp 2 m))])"

definition overflow_columns :: "mtch option \<Rightarrow> mtch option \<Rightarrow> (string \<times> (parse_exc, pyval) result) list" where
  "overflow_columns tot row =
     (case tot of
        Some m \<Rightarrow> [(''total_overflow'', to_int (grp 1 m)), (''overflow_h'', to_int (grp 2 m)), (''overflow_h_pct'', to_float (grp 3 m)),
          (''overflow_v'', to_int (grp 4 m)), (''overflow_v_pct'', to_float (grp 5 m))]
      | None \<Rightarrow> (case row of
            Some m \<Rightarrow> [(''total_overflow'', ok_bind (to_int (grp 1 m)) (\<lambda>h. ok_bind (to_int (grp 3 m)) (\<lambda>v. Inr (PInt (sum_ints [h, v]))))),
              (''overflow_h'', to_int (grp 1 m)), (''overflow_h_pct'', to_float (grp 2 m)),
              (''overflow_v'', to_int (grp 3 m)), (''overflow_v_pct'', to_float (grp 4 m))]
          | None \<Rightarrow> [(''total_overflow'', Inr (PInt 0)), (''overflow_h'', Inr (PInt 0)), (''overflow_v'', Inr (PInt 0))]))"

definition parse_innovus_congestion :: "string \<Rightarrow> (parse_exc, pydict list) result" where
  "parse_innovus_congestion s =
     (let usage = search usage_re s; tot = search overflow_total s; row = search overflow_row s
      in if \<not> found_any [usage, tot, row] then Inl (ParseError ''No Innovus congestion data found in report text.'')
         else ok_bind (results ((''kind'', Inr (PStr ''summary'')) # usage_columns usage @ overflow_columns tot row)) (\<lambda>d. Inr [d]))"

definition signed_number :: regex where
  "signed_number = plus (Chr (\<lambda>c. c = CHR ''-'' \<or> is_digit c \<or> c = CHR ''.''))"

definition map_corner :: "nat \<Rightarrow> regex" where
  "map_corner n = cats [opt (lit ''(''), gap, Grp n signed_number, gap, opt (lit '',''), sps, Grp (Suc n) signed_number, gap, opt (lit '')'')]"

definition map_bbox :: regex where
  "map_bbox = cats [opt (Alt (ilit ''bbox'') (ilit ''box'')), gap, opt (one_of '':=''), gap, map_corner 1, gap, Alt (lit ''-'') (ilit ''to''), gap,
     map_corner 3, Star False any_in_line, ilit ''overflow'', gap, opt (one_of '':=''), gap, Grp 5 digits]"

definition map_table :: regex where
  "map_table = cats [lit ''|'', gap, Grp 1 digits, gap, lit ''|'', gap, Grp 2 signed_number, sps, Grp 3 signed_number, sps, Grp 4 signed_number, sps,
     Grp 5 signed_number, gap, lit ''|'', gap, Grp 6 signed_number, gap, lit ''|'']"

text \<open>\<open>int(float(s))\<close>\<close>

definition truncated :: "string \<Rightarrow> (parse_exc, pyval) result" where
  "truncated s = (case float_of_str s of
      Some (Fin q) \<Rightarrow> Inr (PInt (if q < 0 then - \<lfloor>- q\<rfloor> else \<lfloor>q\<rfloor>))
    | _ \<Rightarrow> Inl BadNumber)"

text \<open>A hotspot with its corners in order; none otherwise.\<close>

definition map_hotspot :: "nat \<Rightarrow> (mtch \<Rightarrow> (parse_exc, pyval) result) \<Rightarrow> mtch \<Rightarrow> (parse_exc, pydict list) result" where
  "map_hotspot n over m =
     (case (float_of_str (grp n m), float_of_str (grp (n + 1) m), float_of_str (grp (n + 2) m), float_of_str (grp (n + 3) m)) of
        (Some x1, Some y1, Some x2, Some y2) \<Rightarrow>
          if fle x2 x1 \<or> fle y2 y1 then Inr []
          else ok_bind (over m) (\<lambda>v. Inr [[(''kind'', PStr ''hotspot''), (''wkt'', corner_polygon [PFloat x1, PFloat y1, PFloat x2, PFloat y2]),
            (''x1'', PFloat x1), (''y1'', PFloat y1), (''x2'', PFloat x2), (''y2'', PFloat y2), (''overflow'', v)]])
      | _ \<Rightarrow> Inl BadNumber)"

definition parse_congestion_map :: "string \<Rightarrow> (parse_exc, pydict list) result" where
  "parse_congestion_map s =
     ok_bind (ok_map (map_hotspot 1 (\<lambda>m. to_int (grp 5 m))) (finditer map_bbox s)) (\<lambda>a.
     ok_bind (ok_map (map_hotspot 2 (\<lambda>m. truncated (grp 6 m))) (finditer map_table s)) (\<lambda>b.
       or_parse_error ''No Innovus congestion hotspot map data found in report text.'' (concat a @ concat b)))"

section \<open>Design rules\<close>

definition total_line :: regex where
  "total_line = cats [Bol, gap, ilit ''Total'', gap, lit '':'', gap, Grp 1 digits]"

definition clean_line :: regex where
  "clean_line = cats [words_re [''Total'', ''Violations''], gap, colon_gap, lit ''0'']"

definition categories :: "mtch list \<Rightarrow> (parse_exc, pydict) result" where
  "categories ms = ok_bind (ok_map (\<lambda>m. to_int (grp 2 m)) ms) (\<lambda>ns.
     Inr (fold (\<lambda>(m, n). dset (py_lower (grp 1 m)) n) (zip ms ns) []))"

definition drc_record :: "pyval \<Rightarrow> pydict \<Rightarrow> pydict list" where
  "drc_record n cs = [[(''kind'', PStr ''summary''), (''total_violations'', n), (''categories'', PDict cs)]]"

definition new_categories :: "string list" where
  "new_categories = [''Short'', ''Spacing'', ''Width'', ''Overlap'', ''SameNet'', ''Antenna'', ''OffGrid'', ''MinArea'', ''MinStep'', ''ViaEnc'']"

definition old_categories :: "string list" where
  "old_categories = [''Cells'', ''SameNet'', ''Wiring'', ''Antenna'', ''Short'', ''Overlap'', ''Spacing'', ''Width'', ''OffGrid'']"

definition parse_innovus_drc :: "string \<Rightarrow> (parse_exc, pydict list) result" where
  "parse_innovus_drc s =
     (if search no_drc s \<noteq> None \<or> search clean_line s \<noteq> None then Inr (drc_record (PInt 0) [])
      else case finditer (drc_category new_categories) s of
        r # rs \<Rightarrow> ok_bind (categories (r # rs)) (\<lambda>cs.
          case search total_line s of
            Some m \<Rightarrow> ok_bind (to_int (grp 1 m)) (\<lambda>n. Inr (drc_record n cs))
          | None \<Rightarrow> Inr (drc_record (PInt (sum_ints (map snd cs))) cs))
      | [] \<Rightarrow> (case finditer (drc_category old_categories) s of
            r # rs \<Rightarrow> ok_bind (categories (r # rs)) (\<lambda>cs. Inr (drc_record (PInt (sum_ints (map snd cs))) cs))
          | [] \<Rightarrow> Inl (ParseError ''No Innovus DRC summary found in report text.'')))"

section \<open>The registry\<close>

definition parser_registry :: "(pyfloat list \<Rightarrow> pyfloat) \<Rightarrow> (string, string \<Rightarrow> (parse_exc, pydict list) result) dict" where
  "parser_registry summation =
     [(''timing'', parse_timing), (''congestion'', parse_congestion), (''utilization'', parse_utilization), (''power'', parse_power),
      (''drc'', parse_drc), (''innovus_timing'', parse_innovus_timing summation), (''innovus_power'', parse_innovus_power),
      (''innovus_utilization'', parse_innovus_utilization), (''innovus_drc'', parse_innovus_drc),
      (''innovus_congestion'', parse_innovus_congestion), (''innovus_congestion_map'', parse_congestion_map)]"

text \<open>\<open>get_parser\<close>: \<open>None\<close> is its \<open>KeyError\<close>.\<close>

definition get_parser :: "(pyfloat list \<Rightarrow> pyfloat) \<Rightarrow> string \<Rightarrow> (string \<Rightarrow> (parse_exc, pydict list) result) option" where
  "get_parser summation report_type = dget (parser_registry summation) (py_lower report_type)"

text \<open>
  \<open>parse_file\<close> on the text of the file, \<open>None\<close> where reading it raises \<open>OSError\<close>; and what
  \<open>_save_run_and_parse\<close> gets of a report, \<open>None\<close> for every exception.
\<close>

definition parse_file :: "(string \<Rightarrow> (parse_exc, pydict list) result) \<Rightarrow> string option \<Rightarrow> (parse_exc, pydict list) result" where
  "parse_file parse content = (case content of None \<Rightarrow> Inl (ParseError ''Cannot read'') | Some s \<Rightarrow> parse s)"

definition read_report :: "(pyfloat list \<Rightarrow> pyfloat) \<Rightarrow> string \<Rightarrow> string option \<Rightarrow> pydict list option" where
  "read_report summation report_type content =
     (case get_parser summation report_type of
        None \<Rightarrow> None
      | Some parse \<Rightarrow> (case parse_file parse content of Inl e \<Rightarrow> None | Inr recs \<Rightarrow> Some recs))"

end
