(* ===== verification/ParserProps.thy ===== *)
theory ParserProps
  imports InnovusParsers RunStoreProps
begin

text \<open>
  What the report parsers give: the summary of an Innovus timing report is the one of its paths, the
  records of every parser fit the database's ingestion, and what of them is never stored.
\<close>

section \<open>Records of every parser\<close>

definition kind_of :: "pydict \<Rightarrow> string option" where
  "kind_of rec = (case dget rec ''kind'' of Some (PStr k) \<Rightarrow> Some k | _ \<Rightarrow> None)"

definition record_kinds :: "string list" where
  "record_kinds = [''summary'', ''path'', ''hotspot'', ''layer'', ''orfs_violation'', ''drc_violation'', ''power_group'', ''cell_type'']"

text \<open>A record of a known kind, with a geometry if it is a hotspot.\<close>

definition well_kinded :: "pydict \<Rightarrow> bool" where
  "well_kinded rec \<longleftrightarrow> (case kind_of rec of None \<Rightarrow> False
     | Some k \<Rightarrow> k \<in> set record_kinds \<and> (if k = ''hotspot'' then has_key rec ''wkt'' else True))"

named_theorems parsed_intros \<open>records of parsers\<close>

definition parsed :: "(parse_exc, pydict list) result \<Rightarrow> bool" where
  "parsed r \<longleftrightarrow> (\<forall>recs. r = Inr recs \<longrightarrow> list_all well_kinded recs)"

lemma parsed_Inl [parsed_intros]: "parsed (Inl e)"
  by (simp add: parsed_def)

lemma parsed_Inr [parsed_intros]: "list_all well_kinded recs \<Longrightarrow> parsed (Inr recs)"
  by (simp add: parsed_def)

lemma parsed_bind_any: "(\<And>x. parsed (f x)) \<Longrightarrow> parsed (ok_bind r f)"
  by (auto simp: parsed_def ok_bind_eq_Inr)

lemma parsed_bind: "parsed r \<Longrightarrow> (\<And>x. list_all well_kinded x \<Longrightarrow> parsed (f x)) \<Longrightarrow> parsed (ok_bind r f)"
  by (auto simp: parsed_def ok_bind_eq_Inr)

lemma parsed_if [parsed_intros]: "parsed a \<Longrightarrow> parsed b \<Longrightarrow> parsed (if c then a else b)"
  by simp

lemma parsed_option [parsed_intros]: "parsed a \<Longrightarrow> (\<And>x. parsed (f x)) \<Longrightarrow> parsed (case m of None \<Rightarrow> a | Some x \<Rightarrow> f x)"
  by (cases m) simp_all

lemma parsed_list [parsed_intros]: "parsed a \<Longrightarrow> (\<And>x xs. parsed (f x xs)) \<Longrightarrow> parsed (case m of [] \<Rightarrow> a | x # xs \<Rightarrow> f x xs)"
  by (cases m) simp_all

lemma parsed_or_error [parsed_intros]: "list_all well_kinded recs \<Longrightarrow> parsed (or_parse_error msg recs)"
  by (simp add: or_parse_error_def parsed_def)

lemma ok_map_all: "ok_map f xs = Inr ys \<Longrightarrow> (\<And>x y. f x = Inr y \<Longrightarrow> P y) \<Longrightarrow> list_all P ys"
  by (induction f xs arbitrary: ys rule: ok_map.induct) (auto simp: ok_bind_eq_Inr)

lemma parsed_map: "(\<And>m rec. f m = Inr rec \<Longrightarrow> well_kinded rec) \<Longrightarrow> parsed (ok_map f ms)"
  by (auto simp: parsed_def intro: ok_map_all)

lemma parsed_concat:
  assumes "\<And>m. parsed (f m)" "\<And>xs. list_all well_kinded (concat xs) \<Longrightarrow> parsed (g xs)"
  shows "parsed (ok_bind (ok_map f ms) g)"
proof -
  have "parsed (g xs)" if "ok_map f ms = Inr xs" for xs
  proof (rule assms(2))
    have "list_all (list_all well_kinded) xs" by (rule ok_map_all [OF that]) (use assms(1) in \<open>auto simp: parsed_def\<close>)
    then show "list_all well_kinded (concat xs)" by (auto simp: list_all_iff)
  qed
  then show ?thesis by (auto simp: parsed_def ok_bind_eq_Inr)
qed

text \<open>The keys of a record read with \<open>results\<close> are the ones listed.\<close>

lemma results_keys: "results rs = Inr d \<Longrightarrow> dkeys d = map fst rs"
  by (induction rs arbitrary: d rule: results.induct) (auto simp: ok_bind_eq_Inr)

lemma results_kind:
  assumes "results ((''kind'', Inr (PStr k)) # rs) = Inr d"
  shows "kind_of d = Some k" "dkeys d = ''kind'' # map fst rs"
  using assms by (auto simp: ok_bind_eq_Inr kind_of_def results_keys)

lemma well_kinded_results:
  assumes "results ((''kind'', Inr (PStr k)) # rs) = Inr d" "k \<in> set record_kinds" "k = ''hotspot'' \<Longrightarrow> ''wkt'' \<in> fst ` set rs"
  shows "well_kinded d"
proof (cases "k = ''hotspot''")
  case True
  then have "dget d ''wkt'' \<noteq> None"
    using results_kind(2) [OF assms(1)] assms(3) by (simp add: map_of_eq_None_iff) (metis image_set list.set_intros(2) list.simps(15) )
  with True assms(2) show ?thesis using results_kind(1) [OF assms(1)] by (simp add: well_kinded_def has_key_def)
next
  case False
  with assms(2) show ?thesis using results_kind(1) [OF assms(1)] by (simp add: well_kinded_def)
qed

lemma well_kinded_Cons [simp]:
  "well_kinded ((''kind'', PStr k) # d) \<longleftrightarrow> k \<in> set record_kinds \<and> (if k = ''hotspot'' then dget d ''wkt'' \<noteq> None else True)"
  by (simp add: well_kinded_def kind_of_def has_key_def)

lemma parsed_results [parsed_intros]:
  assumes "k \<in> set record_kinds" "k = ''hotspot'' \<Longrightarrow> ''wkt'' \<in> fst ` set rs"
  shows "parsed (ok_bind (results ((''kind'', Inr (PStr k)) # rs)) (\<lambda>d. Inr [d]))"
  using well_kinded_results [OF _ assms] by (auto simp: parsed_def ok_bind_eq_Inr)

section \<open>The parsers\<close>

lemma parsed_timing: "parsed (parse_timing s)"
proof -
  have "parsed (section_path m b)" for m b
    unfolding section_path_def Let_def by (intro parsed_intros parsed_bind_any) (simp_all add: record_kinds_def)
  then have "parsed (section_paths ms)" for ms
    by (induction ms rule: section_paths.induct) (auto simp: parsed_def ok_bind_eq_Inr)
  moreover have "parsed (timing_summary s)"
    unfolding timing_summary_def Let_def by (intro parsed_intros) (simp_all add: record_kinds_def)
  ultimately show ?thesis
    unfolding parse_timing_def timing_paths_def by (intro parsed_bind parsed_intros) simp_all
qed

lemma parsed_power: "parsed (parse_power s)"
proof -
  have "parsed (power_summary c ms)" for c ms
    unfolding power_summary_def by (intro parsed_intros parsed_bind_any) (simp_all add: record_kinds_def)
  moreover have "parsed (power_groups c ms)" for c ms
    unfolding power_groups_def by (intro parsed_map) (auto simp: ok_bind_eq_Inr record_kinds_def)
  ultimately show ?thesis
    unfolding parse_power_def Let_def by (intro parsed_bind parsed_intros) simp_all
qed

lemma parsed_utilization: "parsed (parse_utilization s)"
proof -
  have "parsed (cell_types s)"
    unfolding cell_types_def by (intro parsed_map, erule well_kinded_results) (simp_all add: record_kinds_def)
  moreover have "parsed (utilization_summary s)"
    unfolding utilization_summary_def Let_def by (intro parsed_intros) (simp_all add: record_kinds_def)
  ultimately show ?thesis
    unfolding parse_utilization_def by (intro parsed_bind parsed_intros) simp_all
qed

lemma parsed_drc: "parsed (parse_drc s)"
proof -
  have v: "parsed (drc_violation b)" for b
    unfolding drc_violation_def by (intro parsed_intros parsed_bind_any) (simp_all add: record_kinds_def)
  have "parsed (drc_summary s)"
    unfolding drc_summary_def Let_def by (intro parsed_intros parsed_bind_any) (simp_all add: record_kinds_def)
  then show ?thesis
    unfolding parse_drc_def by (intro parsed_bind parsed_concat v parsed_intros) (simp_all add: list_all_append)
qed

lemma parsed_congestion: "parsed (parse_congestion s)"
proof -
  have "parsed (congestion_summary s)"
    unfolding congestion_summary_def Let_def by (intro parsed_intros parsed_bind_any) (simp_all add: record_kinds_def)
  moreover have "parsed (ok_map tile_hotspot ms)" for ms
    unfolding tile_hotspot_def by (intro parsed_map, erule well_kinded_results) (simp_all add: record_kinds_def)
  moreover have "parsed (ok_map layer_stats ms)" for ms
    unfolding layer_stats_def by (intro parsed_map, erule well_kinded_results) (simp_all add: record_kinds_def)
  moreover have v: "parsed (orfs_violation b)" for b
    unfolding orfs_violation_def Let_def by (intro parsed_intros parsed_bind_any) (simp_all add: record_kinds_def)
  then have "parsed (orfs_violations s)"
    unfolding orfs_violations_def Let_def by (intro parsed_concat parsed_intros)
  ultimately show ?thesis
    unfolding parse_congestion_def by (intro parsed_bind parsed_intros) simp_all
qed

lemma path_block_gives:
  assumes "path_block view b = Inr (Some (f, d))"
  shows "well_kinded d \<and> pget d ''slack_ns'' = PFloat f \<and> pget d ''violated'' = PBool (flt f (Fin 0))"
  using assms by (auto simp: path_block_def pget_def record_kinds_def split: option.splits)

text \<open>What an Innovus timing report is read as: the summary, then its paths.\<close>

lemma innovus_timing_records:
  assumes "parse_innovus_timing summation s = Inr recs"
  obtains view found where "found \<noteq> []" "recs = timing_record summation view (map fst found) # map snd found"
    "list_all (\<lambda>(f, d). well_kinded d \<and> pget d ''slack_ns'' = PFloat f \<and> pget d ''violated'' = PBool (flt f (Fin 0))) found"
proof -
  obtain view blocks os where os: "ok_map (path_block view) blocks = Inr os" "List.map_filter id os \<noteq> []"
    "recs = timing_record summation view (map fst (List.map_filter id os)) # map snd (List.map_filter id os)"
    using assms by (auto simp: parse_innovus_timing_def Let_def ok_bind_eq_Inr split: if_splits)
  have "list_all (\<lambda>o'. case o' of None \<Rightarrow> True | Some (f, d) \<Rightarrow>
      well_kinded d \<and> pget d ''slack_ns'' = PFloat f \<and> pget d ''violated'' = PBool (flt f (Fin 0))) os"
    by (rule ok_map_all [OF os(1)]) (auto split: option.split dest: path_block_gives)
  then have "list_all (\<lambda>(f, d). well_kinded d \<and> pget d ''slack_ns'' = PFloat f \<and> pget d ''violated'' = PBool (flt f (Fin 0)))
      (List.map_filter id os)"
    by (induction os) (auto simp: map_filter_simps split: option.split)
  with os(2,3) show thesis by (rule that)
qed

lemma parsed_innovus_timing: "parsed (parse_innovus_timing summation s)"
  unfolding parsed_def
proof (intro allI impI)
  fix recs assume "parse_innovus_timing summation s = Inr recs"
  then obtain view found where "recs = timing_record summation view (map fst found) # map snd found"
    "list_all (\<lambda>(f, d). well_kinded d \<and> pget d ''slack_ns'' = PFloat f \<and> pget d ''violated'' = PBool (flt f (Fin 0))) found"
    by (rule innovus_timing_records)
  then show "list_all well_kinded recs" by (auto simp: list_all_iff timing_record_def Let_def record_kinds_def)
qed

lemma parsed_innovus_utilization: "parsed (parse_innovus_utilization s)"
  unfolding parse_innovus_utilization_def by (intro parsed_intros parsed_bind_any) (simp_all add: record_kinds_def)

lemma parsed_innovus_power: "parsed (parse_innovus_power s)"
  unfolding parse_innovus_power_def Let_def by (intro parsed_intros) (simp_all add: record_kinds_def)

lemma parsed_innovus_congestion: "parsed (parse_innovus_congestion s)"
  unfolding parse_innovus_congestion_def Let_def by (intro parsed_intros) (simp_all add: record_kinds_def)

lemma parsed_congestion_map: "parsed (parse_congestion_map s)"
proof -
  have "parsed (map_hotspot n over m)" for n over m
    unfolding map_hotspot_def prod.case by (intro parsed_intros parsed_bind_any) (simp_all add: record_kinds_def)
  then show ?thesis
    unfolding parse_congestion_map_def by (intro parsed_concat parsed_intros) (simp_all add: list_all_append)
qed

lemma parsed_drc_record: "parsed (Inr (drc_record n cs))"
  by (simp add: parsed_def drc_record_def record_kinds_def)

lemma parsed_innovus_drc: "parsed (parse_innovus_drc s)"
  unfolding parse_innovus_drc_def by (intro parsed_intros parsed_bind_any parsed_drc_record)

lemmas parsed_all = parsed_timing parsed_power parsed_utilization parsed_drc parsed_congestion parsed_innovus_timing
  parsed_innovus_utilization parsed_innovus_power parsed_innovus_congestion parsed_congestion_map parsed_innovus_drc

lemma parsed_registered: "get_parser summation report_type = Some p \<Longrightarrow> parsed (p s)"
  by (auto simp: get_parser_def parser_registry_def parsed_all split: if_splits)

text \<open>No parser returns without a record.\<close>

definition tells :: "(parse_exc, pydict list) result \<Rightarrow> bool" where
  "tells r \<longleftrightarrow> r \<noteq> Inr []"

lemma tells_bind: "(\<And>x. tells (f x)) \<Longrightarrow> tells (ok_bind r f)"
  by (auto simp: tells_def ok_bind_eq_Inr)

lemma tells_simps [simp]: "tells (Inl e)" "tells (or_parse_error msg recs)" "tells (Inr (r # rs))" "tells (Inr (drc_record n cs))"
  by (simp_all add: tells_def or_parse_error_def drc_record_def)

lemma tells_option: "tells a \<Longrightarrow> (\<And>x. tells (f x)) \<Longrightarrow> tells (case m of None \<Rightarrow> a | Some x \<Rightarrow> f x)"
  by (cases m) simp_all

lemma tells_list: "tells a \<Longrightarrow> (\<And>x xs. tells (f x xs)) \<Longrightarrow> tells (case m of [] \<Rightarrow> a | x # xs \<Rightarrow> f x xs)"
  by (cases m) simp_all

lemma tells_if: "tells a \<Longrightarrow> tells b \<Longrightarrow> tells (if c then a else b)"
  by simp

lemma tells_registered: "get_parser summation report_type = Some p \<Longrightarrow> tells (p s)"
  by (auto simp: get_parser_def parser_registry_def parse_timing_def parse_power_def parse_utilization_def parse_drc_def parse_congestion_def
      parse_innovus_timing_def parse_innovus_utilization_def parse_innovus_power_def parse_innovus_congestion_def parse_congestion_map_def
      parse_innovus_drc_def Let_def intro!: tells_bind tells_option tells_list tells_if split: if_splits)

section \<open>Reports in the database\<close>

lemma sound_each: "list_all (\<lambda>x. sound (f x)) xs \<Longrightarrow> sound (each f xs)"
  by (induction xs) (auto intro: sound_yields sound_andthen)

lemma well_kinded_sound: "well_kinded rec \<Longrightarrow> sound (ingest_record env rid rec)"
  by (rule sound_record)
    (auto simp: well_kinded_def kind_of_def pget_def split: option.splits if_splits pyval.splits)

lemma read_report_parsed:
  assumes "read_report summation report_type content = Some recs"
  shows "recs \<noteq> [] \<and> list_all well_kinded recs"
proof -
  obtain parse s where p: "get_parser summation report_type = Some parse" "content = Some s" "parse s = Inr recs"
    using assms by (auto simp: read_report_def parse_file_def split: option.splits sum.splits)
  with parsed_registered [OF p(1), of s] tells_registered [OF p(1), of s] show ?thesis by (simp add: parsed_def tells_def)
qed

text \<open>
  C33: A report that a registered parser reads gives at least one record, all of known kinds, and
  storing them never raises by itself: it succeeds or the database refused a statement.
\<close>

theorem parsed_report_ingests:
  assumes "read_report summation report_type content = Some recs"
  shows "recs \<noteq> [] \<and> list_all (\<lambda>d. case kind_of d of None \<Rightarrow> False | Some k \<Rightarrow> k \<in> set record_kinds) recs \<and>
    (let (v, s') = ingest_report env rid (rp\<lparr>rp_records := Some recs\<rparr>) s in v = Inr () \<or> aborted s')"
proof -
  from read_report_parsed [OF assms] have r: "recs \<noteq> []" "list_all well_kinded recs" by simp_all
  then have "sound (each (ingest_record env rid) recs)"
    by (intro sound_each) (auto simp: list_all_iff intro: well_kinded_sound)
  then have "let (v, s') = ingest_report env rid (rp\<lparr>rp_records := Some recs\<rparr>) s in v = Inr () \<or> aborted s'"
    by (auto simp: sound_def ingest_report_def split: prod.split dest!: spec [of _ s])
  moreover from r(2) have "list_all (\<lambda>d. case kind_of d of None \<Rightarrow> False | Some k \<Rightarrow> k \<in> set record_kinds) recs"
    by (auto simp: list_all_iff well_kinded_def split: option.splits)
  ultimately show ?thesis using r(1) by blast
qed

text \<open>A record is skipped when its kind has no table and a summary has none of the keys.\<close>

definition unstored :: "pydict \<Rightarrow> bool" where
  "unstored rec \<longleftrightarrow>
     (case kind_of rec of
        None \<Rightarrow> True
      | Some k \<Rightarrow> k \<in> set [''layer'', ''power_group'', ''cell_type''] \<or>
          (k = ''summary'' \<and> list_all (\<lambda>n. n \<notin> set (dkeys rec)) [''wns_ns'', ''design_area_um2'', ''total_power_w'', ''total_violations'']))"

lemma kind_of_None: "kind_of rec = None \<Longrightarrow> pget rec ''kind'' \<noteq> PStr k"
  by (auto simp: kind_of_def pget_def split: option.splits)

lemma kind_of_Some: "kind_of rec = Some k \<Longrightarrow> pget rec ''kind'' = PStr k"
  by (auto simp: kind_of_def pget_def split: option.splits pyval.splits)

lemma unstored_skipped:
  assumes "unstored rec"
  shows "ingest_record env rid rec = yields ()"
proof (cases "kind_of rec")
  case None
  then show ?thesis by (simp add: ingest_record_def kind_of_None)
next
  case (Some k)
  have no: "has_key rec n \<longleftrightarrow> n \<in> fst ` set rec" for n
    by (simp add: has_key_def map_of_eq_None_iff flip: not_None_eq)
  from Some assms have "k = ''layer'' \<or> k = ''power_group'' \<or> k = ''cell_type'' \<or>
      (k = ''summary'' \<and> \<not> has_key rec ''wns_ns'' \<and> \<not> has_key rec ''design_area_um2'' \<and>
       \<not> has_key rec ''total_power_w'' \<and> \<not> has_key rec ''total_violations'')"
    by (simp add: unstored_def no)
  with kind_of_Some [OF Some] show ?thesis by (elim disjE conjE) (simp_all add: ingest_record_def)
qed

lemma each_unstored: "list_all unstored recs \<Longrightarrow> each (ingest_record env rid) recs s = (Inr (), s)"
  by (induction recs) (simp_all add: yields_def andthen_def unstored_skipped)

lemma unstored_results:
  assumes "results ((''kind'', Inr (PStr ''summary'')) # rs) = Inr d"
    and "list_all (\<lambda>n. n \<notin> set (map fst rs)) [''wns_ns'', ''design_area_um2'', ''total_power_w'', ''total_violations'']"
  shows "unstored d"
  using results_kind [OF assms(1)] assms(2) by (simp add: unstored_def)

lemma innovus_congestion_unstored: "parse_innovus_congestion s = Inr recs \<Longrightarrow> list_all unstored recs"
  by (auto simp: parse_innovus_congestion_def Let_def ok_bind_eq_Inr usage_columns_def overflow_columns_def
      simp del: results.simps split: if_splits option.splits elim!: unstored_results)

lemma congestion_summary_unstored: "congestion_summary s = Inr recs \<Longrightarrow> list_all unstored recs"
  by (auto simp: congestion_summary_def Let_def ok_bind_eq_Inr simp del: results.simps split: if_splits elim!: unstored_results)

text \<open>
  C35: Nothing of an Innovus congestion report reaches the database, nor the summary of an OpenROAD
  one: the tables have no place for usage and total overflow.
\<close>

theorem congestion_totals_not_stored:
  assumes "parse_innovus_congestion s = Inr recs \<or> congestion_summary s = Inr recs"
  shows "ingest_report env rid (rp\<lparr>rp_records := Some recs\<rparr>) st = (Inr (), st)"
  using assms innovus_congestion_unstored [of s recs] congestion_summary_unstored [of s recs]
  by (auto simp: ingest_report_def each_unstored)

section \<open>The summary of an Innovus timing report\<close>

definition slack_of :: "pydict \<Rightarrow> pyfloat" where
  "slack_of d = (case pget d ''slack_ns'' of PFloat f \<Rightarrow> f | _ \<Rightarrow> NaN)"

definition lesser :: "pyfloat \<Rightarrow> pyfloat \<Rightarrow> pyfloat" where
  "lesser m x = (if flt x m then x else m)"

lemma least_foldl:
  "(foldl lesser m xs = m \<or> flt (foldl lesser m xs) m \<and> foldl lesser m xs \<in> set xs) \<and>
   list_all (\<lambda>x. \<not> flt x (foldl lesser m xs)) xs"
proof (induction xs arbitrary: m)
  case (Cons x xs)
  define r where "r = foldl lesser (lesser m x) xs"
  from Cons.IH [of "lesser m x"]
  have r: "r = lesser m x \<or> flt r (lesser m x) \<and> r \<in> set xs" "list_all (\<lambda>x. \<not> flt x r) xs"
    by (simp_all only: r_def)
  show ?case
  proof (cases "flt x m")
    case True
    then have "flt r m \<and> \<not> flt x r" "r \<in> set (x # xs)" using r(1) flt_trans [of r x m] flt_trans [of x r x] by (auto simp: lesser_def)
    with r(2) show ?thesis by (simp flip: r_def)
  next
    case False
    then have "\<not> flt x r" "r = m \<or> flt r m \<and> r \<in> set xs" using r(1) flt_trans [of x r m] by (auto simp: lesser_def)
    with r(2) show ?thesis by (auto simp flip: r_def)
  qed
qed simp

lemma least_float_least:
  assumes "xs \<noteq> []"
  shows "least_float xs \<in> set xs \<and> list_all (\<lambda>x. \<not> flt x (least_float xs)) xs"
proof -
  from assms obtain y ys where xs: "xs = y # ys" by (cases xs) auto
  have l: "least_float xs = foldl lesser y ys" by (simp add: xs least_float_def lesser_def [abs_def])
  show ?thesis unfolding l using least_foldl [of y ys] flt_trans [of y "foldl lesser y ys" y] by (auto simp: xs)
qed

lemma slacks_of_paths:
  "list_all (\<lambda>(f, d). well_kinded d \<and> pget d ''slack_ns'' = PFloat f \<and> pget d ''violated'' = PBool (flt f (Fin 0))) found \<Longrightarrow>
   map slack_of (map snd found) = map fst found \<and>
   filter (\<lambda>d. pget d ''violated'' = PBool True) (map snd found) = map snd (filter (\<lambda>(f, d). flt f (Fin 0)) found)"
  by (induction found) (auto simp: slack_of_def)

text \<open>
  C34: The first record of an Innovus timing report summarises the others: its worst slack is one of
  theirs and none is less, its total is the sum of the negative ones in their order, and it counts the
  violated paths and all paths.
\<close>

theorem innovus_timing_summary:
  assumes "parse_innovus_timing summation s = Inr recs"
  shows "(let d = hd recs; paths = tl recs; slacks = map slack_of paths; failing = filter (\<lambda>f. flt f (Fin 0)) slacks in
    (\<exists>w \<in> set slacks. pget d ''wns_ns'' = PFloat w \<and> list_all (\<lambda>x. \<not> flt x w) slacks) \<and>
    pget d ''tns_ns'' = PFloat (if failing = [] then Fin 0 else summation failing) \<and>
    pget d ''failing_endpoints'' = PInt (int (length (filter (\<lambda>p. pget p ''violated'' = PBool True) paths))) \<and>
    pget d ''total_paths'' = PInt (int (length paths)))"
proof -
  from assms obtain view found where f: "found \<noteq> []" "recs = timing_record summation view (map fst found) # map snd found"
    and l: "list_all (\<lambda>(f, d). well_kinded d \<and> pget d ''slack_ns'' = PFloat f \<and> pget d ''violated'' = PBool (flt f (Fin 0))) found"
    by (rule innovus_timing_records)
  let ?xs = "map fst found"
  have "?xs \<noteq> []" using f(1) by simp
  from least_float_least [OF this] have w: "least_float ?xs \<in> set ?xs" "list_all (\<lambda>x. \<not> flt x (least_float ?xs)) ?xs" by blast+
  have n: "length (filter (\<lambda>x. flt x (Fin 0)) ?xs) = length (filter (\<lambda>(f, d). flt f (Fin 0)) found)"
    by (simp add: filter_map comp_def case_prod_unfold)
  have d: "hd recs = timing_record summation view ?xs" "map slack_of (tl recs) = ?xs" "length (tl recs) = length ?xs"
    "length (filter (\<lambda>p. pget p ''violated'' = PBool True) (tl recs)) = length (filter (\<lambda>x. flt x (Fin 0)) ?xs)"
    using slacks_of_paths [OF l] n by (simp_all add: f(2))
  show ?thesis
    unfolding Let_def d timing_record_def
    by (intro conjI bexI [OF _ w(1)] w(2)) (simp_all add: pget_def)
qed

section \<open>Samples\<close>

definition overflow_text :: string where
  "overflow_text = ''Overflow: 13 = 13 (0.02% H) + 0 (0.00% V)''"

definition slack_text :: string where
  "slack_text = ''Path 1: VIOLATED'' @ nl @ ''= Slack Time   -0.5'' @ nl @ ''Path 2: MET'' @ nl @ ''= Slack Time   0.5'' @ nl"

definition origin_text :: string where
  "origin_text = ''violation type: Horizontal congestion'' @ nl @ ''bbox = (0.0, 4.2) - (8.4, 8.4) on Layer M3'' @ nl"

definition overflow_records :: "pydict list" where
  "overflow_records = [[(''kind'', PStr ''summary''), (''total_overflow'', PInt 13), (''overflow_h'', PInt 13),
     (''overflow_h_pct'', PFloat (f64 (2 / 100))), (''overflow_v'', PInt 0), (''overflow_v_pct'', PFloat (f64 0))]]"

lemma overflow_parsed: "parse_innovus_congestion overflow_text = Inr overflow_records"
  by code_simp

lemma overflow_report: "read_report fsum ''innovus_congestion'' (Some overflow_text) = Some overflow_records"
  by (simp add: read_report_def get_parser_def parser_registry_def parse_file_def overflow_parsed py_lower_def lower_char_code)

theorem parsed_report_ingests_witness:
  "(let (v, s') = ingest_report some_env (PInt 1) (some_report\<lparr>rp_records := Some overflow_records\<rparr>) \<lparr>work = served_tables, aborted = False\<rparr>
    in v = Inr () \<or> aborted s')"
  using parsed_report_ingests [OF overflow_report] by blast

theorem congestion_totals_not_stored_witness:
  "pget (hd overflow_records) ''total_overflow'' = PInt 13 \<and>
   ingest_report some_env (PInt 1) (some_report\<lparr>rp_records := Some overflow_records\<rparr>) \<lparr>work = served_tables, aborted = False\<rparr> =
     (Inr (), \<lparr>work = served_tables, aborted = False\<rparr>)"
  using congestion_totals_not_stored [OF disjI1 [OF overflow_parsed]] by (simp add: overflow_records_def pget_def)

definition slack_records :: "pydict list" where
  "slack_records =
     (let path = \<lambda>q v. [(''kind'', PStr ''path''), (''startpoint'', PNone), (''endpoint'', PNone), (''path_group'', PNone),
            (''view'', PStr ''default''), (''slack_ns'', PFloat (Fin q)), (''violated'', PBool v)]
      in [[(''kind'', PStr ''summary''), (''view'', PStr ''default''), (''wns_ns'', PFloat (Fin (- 1 / 2))), (''tns_ns'', PFloat (Fin (- 1 / 2))),
           (''failing_endpoints'', PInt 1), (''total_paths'', PInt 2)], path (- 1 / 2) True, path (1 / 2) False])"

lemma slack_parsed: "parse_innovus_timing fsum slack_text = Inr slack_records"
  by code_simp

theorem innovus_timing_summary_witness:
  "pget (hd slack_records) ''failing_endpoints'' = PInt 1 \<and>
   pget (hd slack_records) ''total_paths'' = PInt (int (length (tl slack_records)))"
  using innovus_timing_summary [OF slack_parsed] by (simp add: Let_def slack_records_def pget_def)


text \<open>
  In the documented format of a design rule report, whose box stands on an indented line, the words of
  that line are read as nets.
\<close>

definition short_text :: string where
  "short_text = ''violation type: Short'' @ nl @ '' srcs: net:a'' @ nl @ '' bbox = (1.0, 2.0) - (3.0, 4.0)''"

lemma box_read_as_nets:
  "source_nets (search drc_srcs short_text) = PList (map PStr [''net:a'', ''bbox'', ''='', ''(1.0,'', ''2.0)'', ''-'', ''(3.0,'', ''4.0)''])"
  by code_simp

text \<open>A start point keeps the remark in parentheses its expression means to leave out.\<close>

lemma remark_in_startpoint:
  "map (grp 1) (finditer path_startpoint (''Startpoint: a (in port)'' @ nl)) = [''a (in port)'']"
  by code_simp

text \<open>The skew is taken from the number behind the words, on the next line, not from the one before them.\<close>

lemma skew_from_next_line:
  "map_option (grp 1) (search clock_skew (''-0.24 setup skew'' @ nl @ ''3.5 x'')) = Some ''3.5''"
  by code_simp

end
