(* ===== verification/Spec2Isabelle.thy ===== *)
theory Spec2Isabelle
  imports WorkerProps SessionProps ToolProps ParamProps LoopProps TargetProps
    ChatProps PlannerProps MigrationProps SavedRuns JobToolProps SubAgentProps TuningProps FlowProps SuggestProps CongestionProps ParserProps
begin

text \<open>
  A verification development for \<open>eda_agent\<close>, an agent that drives EDA tools (OpenROAD, Innovus)
  through a language model. A client puts flow runs into a job queue or talks to the agent; the
  agent keeps a conversation memory, stores it per session, calls tools through a dispatcher
  behind guardrails, and tunes a design in a closed loop of inference, experiment and check.

  \<^bold>\<open>Theories and the code they model\<close> (paths under \<open>src/eda_agent\<close>).
  \<^item> \<open>Prelude\<close>, \<open>Float64\<close>, \<open>PyValue\<close>, \<open>Timestamps\<close>, \<open>Json\<close>, \<open>JsonRoundtrip\<close>: what the code uses of
    Python and its library: dictionaries in insertion order, stable sorting, binary64 floats with
    exact rounding, dynamic values, strings, UTC timestamps in ISO format, \<open>json\<close>.
  \<^item> \<open>JobStore\<close> (\<open>queue/store.py\<close>): the table \<open>jobs\<close> as the list of its rows, one function per method of
    \<open>JobStore\<close>; a method that raises gives \<open>None\<close> or \<open>Inl\<close>. \<open>JobQueue\<close> states the laws of the table
    as the locale \<open>job_queue\<close> and interprets it on those functions; \<open>QueueSystem\<close> interleaves
    workers, clients and listings as the step relations \<open>q_step\<close> (the statements of a listing are separate
    steps) and \<open>a_step\<close> (a listing is one step). \<open>Worker\<close> (\<open>queue/worker.py\<close>): one execution, the PID file
    and the polling loop over the list of what each round reads from its environment. \<open>JobTools\<close>
    (\<open>agent/tool_impl_job.py\<close>): the tools around the queue, a cancellation as its two statements.
  \<^item> \<open>Memory\<close>, \<open>MemoryLemmas\<close> (\<open>agent/memory.py\<close>): the record \<open>mem\<close> is \<open>AgentMemory\<close>; eviction, the two budgets,
    the sanitising loader, the scratchpad, the case memory. \<open>SessionStore\<close> (\<open>agent/session_store.py\<close>): the
    table \<open>agent_sessions\<close> on both layouts, with failing statements.
  \<^item> \<open>Guardrails\<close> (\<open>agent/guardrails.py\<close>), \<open>CustomTools\<close> (\<open>agent/custom_tools.py\<close>), \<open>ToolDispatch\<close>
    (\<open>execute_tool\<close> and the bindings of \<open>agent/tools.py\<close>).
  \<^item> \<open>ParamMapper\<close> (\<open>agent/param_mapper.py\<close>): the whole parameter table without its descriptions.
  \<^item> \<open>Rules\<close>, \<open>Features\<close>, \<open>Inference\<close> (\<open>agent/inference/\<close>): the six rules, the feature queries, \<open>infer\<close>, \<open>confirm\<close>
    and the weights; \<open>InferenceLemmas\<close> states what the engine relies on of the rules as the locale
    \<open>rule_catalogue\<close> and interprets it on the catalogue; \<open>WeightLemmas\<close> refines the table of weights to a dictionary.
  \<^item> \<open>ToolSchemas\<close> (\<open>agent/tool_schemas.py\<close>): the 25 schemas as values. \<open>ChatFormat\<close>, \<open>Streaming\<close>, \<open>Planner\<close>
    (\<open>agent/planner.py\<close>): the texts of a request and the readers of a reply, the assembly of a streamed
    reply, and \<open>run\<close>, the loop of requests and tool calls of one user turn, over a world \<open>'w\<close> that the
    server and the tools act on.
  \<^item> \<open>SqlSchema\<close>, \<open>SqlData\<close>: tables with their rows, the schema operations of Alembic, statements and
    transactions of PostgreSQL. \<open>DbSchema\<close> (\<open>db/schema.py\<close>), \<open>Migrations\<close> (\<open>db/migrations/versions/\<close>): the
    declared tables and every migration as a list of operations; \<open>MigrationLemmas\<close>, \<open>MigrationRun\<close> evaluate and
    undo them. \<open>RunStore\<close> (\<open>agent/tool_impl_persistence.py\<close>, \<open>agent/tool_impl_flow_session.py\<close>,
    \<open>agent/tool_impl_trace.py\<close>, helpers of \<open>agent/tools.py\<close>): what stores runs, sessions and decisions, as actions
    of a transaction; \<open>RunStoreLemmas\<close> states what an invariant of the database needs as the locales
    \<open>insert_invariant\<close> and \<open>store_invariant\<close>.
  \<^item> \<open>TargetCheck\<close> (\<open>agent/tool_impl_tuning_eval.py\<close>) and \<open>OptLoop\<close> (\<open>agent/optimization_loop.py\<close>).
  \<^item> \<open>Effects\<close>: functions that act on a world (a backend, the model, the database) and may raise, as state passing. On it \<open>FlowRun\<close> (\<open>agent/tool_impl_run_stage.py\<close>: one stage, and a flow over the stages of a backend with
    its session), \<open>SubAgents\<close> (\<open>agent/subagents/\<close>, the cycle of the planner and \<open>agent/tool_impl_multi_agent.py\<close>),
    \<open>Tuning\<close> (\<open>agent/tool_impl_tuning_ppa.py\<close>), \<open>Suggest\<close> (\<open>agent/tool_impl_suggest.py\<close>: the request for parameters
    and the filter on its reply) and \<open>Congestion\<close> (\<open>agent/tool_impl_tuning_congestion.py\<close>: the loop of placement
    blockages).
  \<^item> \<open>Regex\<close>: Python's regular expressions as a backtracking matcher, sound and complete for an inductive
    relation of matches, and searching as the leftmost match. \<open>Parsers\<close>, \<open>FlowParsers\<close>, \<open>InnovusParsers\<close>
    (\<open>parsers/\<close>): the expressions of the code as terms, the eleven parsers, their registry and what a stored run
    gets of a report.

  \<^bold>\<open>What is shown\<close> stands in the theories \<open>...Props\<close>, each property after the text that states it: no
  job is executed twice and the finished stay finished (with the interleaving that breaks it when
  listings are not atomic); memory keeps tool calls and results paired, meets its budgets and
  survives its JSON form; sessions load as saved and degrade without a database; guardrails give
  the most severe verdict and guard the execution; configurations cannot shadow built-in tools; the
  parameter table is well formed and its validator exact; inference ranks and learns within
  bounds; the optimisation loop ends, and why a run without metrics ends it wrongly; what the model is
  told about a tool binds to its function; prompt mode and streaming give back the calls that were
  sent; a user turn ends and answers every tool call, and the replies after which it does not; the
  migrations give the declared tables, lose nothing and can be undone; what is stored keeps its integrity, a
  saved run reads back, and in which cases it is lost; a flow runs its planned stages up to the first that
  fails; experiments wait for their gate; the tuning loops end as their reports say, and when a failed flow
  counts as a met target; suggested parameters and blockages stay within what is admissible; parsed
  reports fit the database, and what of them is never stored.

  \<^bold>\<open>Conventions.\<close> Strings are lists of characters U+0000 to U+00FF; the ellipsis stands as 0x85 and the
  en dash as 0x96, their places in Windows-1252. Texts beyond that (the Chinese ones) are
  constructors that hold the values they quote. A JSON column holds the value written to it.
  Database statements that may fail are switches of the environment. Built-in \<open>sum\<close> over floats
  depends on the interpreter, so the rule scores take the \<open>summation\<close>.

  \<^bold>\<open>Bounds and fuel.\<close> \<open>show_nat\<close> runs \<open>n + 1\<close> rounds, one more than the digits of \<open>n\<close>; \<open>read_val\<close> and
  \<open>read_str\<close> of \<open>Json\<close> take the length of the text plus one, and each call consumes a character. The
  optimisation loop, the tuning loops and the turn of the planner recurse on the iterations left. A repetition in an
  expression runs once per character of the text behind it plus one, since an iteration that consumes nothing ends
  it; \<open>pieces\<close> takes the length of the text, more than there are separators. Everything else is total by structural or
  measured recursion.

  \<^bold>\<open>Not modelled.\<close> The backends, which write Tcl and start the EDA tools, the queries of the
  repository and the archiver, which are SQL around one row each, the HTTP interface, the command line, the
  console and diagnostics, which are input and output, adding a blockage through a backend
  (\<open>agent/tool_impl_blockage.py\<close>) and the texts of a trace. Where a modelled function calls one of
  these, it is a parameter; hypotheses about such a parameter are named where they are used (\<open>runs_ok\<close>: a
  stage run returns and keeps the column types).
\<close>

end
